(* ===== verification/Go_Base.thy ===== *)
theory Go_Base
  imports Main "HOL-Library.Word" "HOL-Library.Signed_Division"
begin

text \<open>
  The prelude: what the development uses of the Go language and of the persistence layer.

  \<^item> 64-bit signed integers (\<open>int64\<close>, and \<open>int\<close> on the 64-bit targets the server
    is built for) as \<open>int\<close> with the wrap-around written out in \<open>i64\<close>;
  \<^item> error values, and actions over a state that may fail;
  \<^item> \<open>transaction\<close>, the all-or-nothing bracket of \<open>gorm.DB.Transaction\<close>.
\<close>

named_theorems go_arith \<open>definitions of the machine integer operations\<close>
named_theorems act_simps \<open>equations of the failing state actions\<close>
named_theorems respects_intros \<open>actions that respect a relation on states\<close>
named_theorems keeps_intros \<open>actions that keep an invariant\<close>

section \<open>Machine integers\<close>

type_synonym int64 = int

definition i64 :: "int \<Rightarrow> int64" where
  "i64 x = (x + 2 ^ 63) mod 2 ^ 64 - 2 ^ 63"

definition in64 :: "int \<Rightarrow> bool" where
  "in64 x \<longleftrightarrow> - (2 ^ 63) \<le> x \<and> x < 2 ^ 63"

definition add64 :: "int64 \<Rightarrow> int64 \<Rightarrow> int64" where
  [go_arith]: "add64 a b = i64 (a + b)"

definition sub64 :: "int64 \<Rightarrow> int64 \<Rightarrow> int64" where
  [go_arith]: "sub64 a b = i64 (a - b)"

definition mul64 :: "int64 \<Rightarrow> int64 \<Rightarrow> int64" where
  [go_arith]: "mul64 a b = i64 (a * b)"

definition neg64 :: "int64 \<Rightarrow> int64" where
  [go_arith]: "neg64 a = i64 (- a)"

text \<open>Go's integer division truncates towards zero; the divisors here are positive constants.\<close>

definition div64 :: "int64 \<Rightarrow> int64 \<Rightarrow> int64" where
  [go_arith]: "div64 a b = i64 (a sdiv b)"

definition rem64 :: "int64 \<Rightarrow> int64 \<Rightarrow> int64" where
  [go_arith]: "rem64 a b = i64 (a smod b)"

lemma i64_id [simp]: "in64 x \<Longrightarrow> i64 x = x"
  by (simp add: i64_def in64_def)

lemma in64_i64 [simp, intro]: "in64 (i64 x)"
  by (simp add: i64_def in64_def)

lemma i64_i64 [simp]: "i64 (i64 x) = i64 x"
  by simp

lemma i64_word: "i64 x = sint (word_of_int x :: 64 word)"
  by (simp add: i64_def sint_uint signed_take_bit_eq_take_bit_shift unsigned_of_int
      take_bit_eq_mod mod_simps)

lemma i64_cong: "x mod 2 ^ 64 = y mod 2 ^ 64 \<Longrightarrow> i64 x = i64 y"
  unfolding i64_def by (metis mod_add_left_eq)

lemma i64_mod: "i64 x mod 2 ^ 64 = x mod 2 ^ 64"
proof -
  have "((x + 2 ^ 63) mod 2 ^ 64 - 2 ^ 63) mod 2 ^ 64 = ((x + 2 ^ 63) - 2 ^ 63) mod (2 ^ 64 :: int)"
    by (rule mod_diff_left_eq)
  then show ?thesis by (simp add: i64_def)
qed

lemma i64_add_left [simp]: "i64 (i64 x + y) = i64 (x + y)"
  by (rule i64_cong) (metis i64_mod mod_add_left_eq)

lemma i64_add_right [simp]: "i64 (x + i64 y) = i64 (x + y)"
  by (rule i64_cong) (metis i64_mod mod_add_right_eq)

lemma i64_diff_left [simp]: "i64 (i64 x - y) = i64 (x - y)"
  by (rule i64_cong) (metis i64_mod mod_diff_left_eq)

lemma i64_diff_right [simp]: "i64 (x - i64 y) = i64 (x - y)"
  by (rule i64_cong) (metis i64_mod mod_diff_right_eq)

lemma i64_mult_left [simp]: "i64 (i64 x * y) = i64 (x * y)"
  by (rule i64_cong) (metis i64_mod mod_mult_left_eq)

lemma i64_mult_right [simp]: "i64 (x * i64 y) = i64 (x * y)"
  by (rule i64_cong) (metis i64_mod mod_mult_right_eq)

lemma i64_0 [simp]: "i64 0 = 0"
  by (simp add: in64_def)

lemma add64_id: "in64 (a + b) \<Longrightarrow> add64 a b = a + b"
  by (simp add: add64_def)

lemma sub64_id: "in64 (a - b) \<Longrightarrow> sub64 a b = a - b"
  by (simp add: sub64_def)

lemma in64_add64 [simp, intro]: "in64 (add64 a b)"
  by (simp add: add64_def)

lemma in64_sub64 [simp, intro]: "in64 (sub64 a b)"
  by (simp add: sub64_def)

lemma sub64_add64 [simp]: "in64 a \<Longrightarrow> sub64 (add64 a b) b = a"
  by (simp add: add64_def sub64_def)

lemma add64_sub64 [simp]: "in64 a \<Longrightarrow> add64 (sub64 a b) b = a"
  by (simp add: add64_def sub64_def)

lemma sdiv_nonneg: "0 \<le> (a::int) \<Longrightarrow> 0 \<le> b \<Longrightarrow> a sdiv b = a div b"
  by (cases "a = 0"; cases "b = 0") (auto simp: signed_divide_int_def)

section \<open>Failing actions over a state\<close>

type_synonym ('s, 'e, 'a) act = "'s \<Rightarrow> ('e + 'a) \<times> 's"

definition ret :: "'a \<Rightarrow> ('s, 'e, 'a) act" where
  [act_simps]: "ret a s = (Inr a, s)"

definition fail :: "'e \<Rightarrow> ('s, 'e, 'a) act" where
  [act_simps]: "fail e s = (Inl e, s)"

definition andThen :: "('s, 'e, 'a) act \<Rightarrow> ('a \<Rightarrow> ('s, 'e, 'b) act) \<Rightarrow> ('s, 'e, 'b) act" where
  [act_simps]: "andThen m f s = (case m s of (Inl e, s') \<Rightarrow> (Inl e, s') | (Inr a, s') \<Rightarrow> f a s')"

definition modify :: "('s \<Rightarrow> 's) \<Rightarrow> ('s, 'e, unit) act" where
  [act_simps]: "modify f s = (Inr (), f s)"

text \<open>A caller that ignores an error (\<open>v, _ := f()\<close>) goes on in the state the failing
  call left.\<close>

definition attempt :: "('s, 'e, 'a) act \<Rightarrow> ('s, 'f, 'a option) act" where
  [act_simps]: "attempt m s = (case m s of (Inl _, s') \<Rightarrow> (Inr None, s') | (Inr a, s') \<Rightarrow> (Inr (Some a), s'))"

text \<open>
  \<open>gorm.DB.Transaction\<close>: the body's writes are kept when it returns nil and rolled back
  when it returns an error.
\<close>

definition transaction :: "('s, 'e, 'a) act \<Rightarrow> ('s, 'e, 'a) act" where
  "transaction m s = (case m s of (Inl e, _) \<Rightarrow> (Inl e, s) | (Inr a, s') \<Rightarrow> (Inr a, s'))"

lemma transaction_error_rolls_back: "transaction m s = (Inl e, s') \<Longrightarrow> s' = s"
  by (auto simp: transaction_def split: sum.splits prod.splits)

lemma transaction_ok: "transaction m s = (Inr a, s') \<longleftrightarrow> m s = (Inr a, s')"
  by (auto simp: transaction_def split: sum.splits prod.splits)

lemma transaction_err: "transaction m s = (Inl e, s') \<longleftrightarrow> (\<exists>t. m s = (Inl e, t)) \<and> s' = s"
  by (auto simp: transaction_def split: sum.splits prod.splits)

lemma andThen_ok:
  "andThen m f s = (Inr b, s') \<longleftrightarrow> (\<exists>a t. m s = (Inr a, t) \<and> f a t = (Inr b, s'))"
  by (auto simp: andThen_def split: sum.splits prod.splits)

lemma ret_ok [simp]: "ret a s = (Inr b, s') \<longleftrightarrow> b = a \<and> s' = s"
  by (auto simp: ret_def)

lemma fail_not_ok [simp]: "fail e s \<noteq> (Inr b, s')"
  by (simp add: fail_def)

lemma modify_ok [simp]: "modify f s = (Inr u, s') \<longleftrightarrow> s' = f s"
  by (auto simp: modify_def)

text \<open>A call that cannot fail.\<close>

definition total :: "('s \<Rightarrow> 'a \<times> 's) \<Rightarrow> ('s, 'e, 'a) act" where
  [act_simps]: "total f s = (Inr (fst (f s)), snd (f s))"

lemma total_ok [simp]: "total f s = (Inr a, s') \<longleftrightarrow> f s = (a, s')"
  by (auto simp: total_def prod_eq_iff)

text \<open>A database call that fails when the fault pattern says so, and leaves the state alone then.\<close>

definition guarded :: "bool \<Rightarrow> 'e \<Rightarrow> ('s, 'e, 'a) act \<Rightarrow> ('s, 'e, 'a) act" where
  [act_simps]: "guarded faulty e m = (if faulty then fail e else m)"

lemma guarded_ok [simp]: "guarded b e m s = (Inr a, s') \<longleftrightarrow> \<not> b \<and> m s = (Inr a, s')"
  by (auto simp: guarded_def fail_def)

text \<open>
  An action respects a relation when related states give the same answer and related states; it
  keeps an invariant when every run from a state that has it ends in one that has it, errors
  included.
\<close>

definition respectful :: "('s \<Rightarrow> 's \<Rightarrow> bool) \<Rightarrow> ('s, 'e, 'a) act \<Rightarrow> bool" where
  "respectful R m \<longleftrightarrow> (\<forall>s t. R s t \<longrightarrow> fst (m s) = fst (m t) \<and> R (snd (m s)) (snd (m t)))"

definition keeps :: "('s \<Rightarrow> bool) \<Rightarrow> ('s, 'e, 'a) act \<Rightarrow> bool" where
  "keeps I m \<longleftrightarrow> (\<forall>s. I s \<longrightarrow> I (snd (m s)))"

lemma respects_ret [respects_intros]: "respectful R (ret a)"
  by (simp add: respectful_def ret_def)

lemma respects_fail [respects_intros]: "respectful R (fail e)"
  by (simp add: respectful_def fail_def)

lemma respects_andThen [respects_intros]:
  assumes "respectful R m" "\<And>a. respectful R (f a)"
  shows "respectful R (andThen m f)"
  unfolding respectful_def
proof (intro allI impI)
  fix s t assume "R s t"
  then have m: "fst (m s) = fst (m t)" "R (snd (m s)) (snd (m t))" using assms(1) by (auto simp: respectful_def)
  then show "fst (andThen m f s) = fst (andThen m f t) \<and> R (snd (andThen m f s)) (snd (andThen m f t))"
    using assms(2)
    by (cases "m s"; cases "m t"; cases "fst (m s)") (auto simp: andThen_def respectful_def)
qed

lemma respects_attempt [respects_intros]: "respectful R m \<Longrightarrow> respectful R (attempt m)"
  unfolding respectful_def attempt_def
  by (fastforce split: prod.splits sum.splits)

lemma respects_if [respects_intros]:
  "respectful R m \<Longrightarrow> respectful R n \<Longrightarrow> respectful R (if b then m else n)"
  by simp

lemma keeps_ret [keeps_intros]: "keeps I (ret a)"
  by (simp add: keeps_def ret_def)

lemma keeps_fail [keeps_intros]: "keeps I (fail e)"
  by (simp add: keeps_def fail_def)

lemma keeps_modify [keeps_intros]: "(\<And>s. I s \<Longrightarrow> I (f s)) \<Longrightarrow> keeps I (modify f)"
  by (simp add: keeps_def modify_def)

lemma keeps_andThen [keeps_intros]:
  "keeps I m \<Longrightarrow> (\<And>a. keeps I (f a)) \<Longrightarrow> keeps I (andThen m f)"
  unfolding keeps_def andThen_def by (fastforce split: prod.splits sum.splits)

lemma keeps_attempt [keeps_intros]: "keeps I m \<Longrightarrow> keeps I (attempt m)"
  unfolding keeps_def attempt_def by (fastforce split: prod.splits sum.splits)

lemma keeps_transaction [keeps_intros]: "keeps I m \<Longrightarrow> keeps I (transaction m)"
  unfolding keeps_def transaction_def by (fastforce split: prod.splits sum.splits)

lemma keeps_if [keeps_intros]: "keeps I m \<Longrightarrow> keeps I n \<Longrightarrow> keeps I (if b then m else n)"
  by simp

lemma keepsD: "keeps I m \<Longrightarrow> I s \<Longrightarrow> m s = (r, s') \<Longrightarrow> I s'"
  by (metis keeps_def snd_conv)

lemmas act_ok = transaction_ok andThen_ok

section \<open>Lists\<close>

text \<open>The first index and element that satisfy a test, as a \<open>for range\<close> loop with a return finds it.\<close>

fun find_idx :: "('a \<Rightarrow> bool) \<Rightarrow> 'a list \<Rightarrow> (nat \<times> 'a) option" where
  "find_idx P [] = None"
| "find_idx P (x # xs) =
     (if P x then Some (0, x) else map_option (\<lambda>(i, y). (Suc i, y)) (find_idx P xs))"

lemma find_idx_None [simp]: "find_idx P xs = None \<longleftrightarrow> (\<forall>x \<in> set xs. \<not> P x)"
  by (induction xs) auto

lemma find_idx_Some:
  "find_idx P xs = Some (i, x) \<longleftrightarrow> i < length xs \<and> xs ! i = x \<and> P x \<and> (\<forall>j < i. \<not> P (xs ! j))"
proof (induction xs arbitrary: i)
  case Nil
  then show ?case by simp
next
  case (Cons y ys)
  show ?case
  proof (cases i)
    case 0
    then show ?thesis by auto
  next
    case (Suc k)
    then show ?thesis using Cons.IH [of k] by (auto simp: All_less_Suc2)
  qed
qed

lemma find_idx_SomeD:
  assumes "find_idx P xs = Some (i, x)"
  shows "i < length xs" "xs ! i = x" "P x" "x \<in> set xs"
  using assms by (auto simp: find_idx_Some)

end
