(* ===== verification/Float64.thy ===== *)
theory Float64
  imports Go_Base "HOL-Library.Log_Nat"
begin

text \<open>
  The \<open>float64\<close> arithmetic of the price computations: IEEE-754 binary64 with
  round-to-nearest-even, on the rational numbers. A \<open>float64\<close> is the rational it denotes,
  and every operation rounds its exact result with \<open>rnd\<close> to 53 significant bits
  (gradual underflow at exponent -1074 included). Infinities, NaN and the sign of zero are
  not represented: the prices, rates and amounts are far below the largest finite number, and
  the code divides by tested positive numbers only.
\<close>

type_synonym float64 = rat

definition pow2 :: "int \<Rightarrow> rat" where
  "pow2 e = 2 powi e"

lemma pow2_pos [simp]: "0 < pow2 e"
  by (simp add: pow2_def)

lemma pow2_nonneg [simp]: "0 \<le> pow2 e"
  using pow2_pos less_imp_le by blast

lemma pow2_neq_0 [simp]: "pow2 e \<noteq> 0"
  using pow2_pos [of e] by linarith

lemma pow2_add: "pow2 (a + b) = pow2 a * pow2 b"
  by (simp add: pow2_def power_int_add)

lemma pow2_diff: "pow2 (a - b) = pow2 a / pow2 b"
  by (simp add: pow2_def power_int_diff)

lemma pow2_nat: "0 \<le> e \<Longrightarrow> pow2 e = of_int (2 ^ nat e)"
  by (simp add: pow2_def power_int_def)

lemma pow2_less [simp]: "pow2 a < pow2 b \<longleftrightarrow> a < b"
proof
  assume "pow2 a < pow2 b"
  then show "a < b"
    by (metis linorder_not_less one_le_numeral pow2_def power_int_increasing)
next
  assume "a < b"
  then show "pow2 a < pow2 b"
    by (simp add: pow2_def power_int_strict_increasing)
qed

lemma pow2_le [simp]: "pow2 a \<le> pow2 b \<longleftrightarrow> a \<le> b"
  by (meson linorder_not_less pow2_less)

section \<open>The exponent of a rational\<close>

text \<open>\<open>expo x\<close> is the floor of the binary logarithm of \<open>\<bar>x\<bar>\<close>, from the bit lengths of
  numerator and denominator.\<close>

definition expo :: "rat \<Rightarrow> int" where
  "expo x =
     (let (p, q) = quotient_of \<bar>x\<bar>; l = bitlen p - bitlen q
      in if pow2 l \<le> \<bar>x\<bar> then l else l - 1)"

lemma bitlen_pow2: "0 < n \<Longrightarrow> pow2 (bitlen n - 1) \<le> of_int n \<and> of_int n < pow2 (bitlen n)"
proof -
  assume n: "0 < n"
  have b: "2 ^ nat (bitlen n - 1) \<le> n" "n < 2 ^ nat (bitlen n)"
    using bitlen_bounds [OF n] by auto
  have l: "0 \<le> bitlen n - 1"
    using n by (simp add: bitlen_def floorlog_def)
  have "of_int (2 ^ nat (bitlen n - 1)) \<le> (of_int n :: rat)" "of_int n < (of_int (2 ^ nat (bitlen n)) :: rat)"
    using b by (simp_all only: of_int_le_iff of_int_less_iff)
  then show ?thesis
    using l by (simp add: pow2_nat)
qed

lemma expo_bounds:
  assumes "x \<noteq> 0"
  shows "pow2 (expo x) \<le> \<bar>x\<bar>" and "\<bar>x\<bar> < pow2 (expo x + 1)"
proof -
  obtain p q where pq: "quotient_of \<bar>x\<bar> = (p, q)" by force
  have q: "0 < q" using pq quotient_of_denom_pos by blast
  have x: "\<bar>x\<bar> = of_int p / of_int q" using pq quotient_of_div by blast
  have p: "0 < p" using assms x q
    by (metis of_int_0_less_iff zero_less_abs_iff zero_less_divide_iff order_less_asym)
  let ?l = "bitlen p - bitlen q"
  have P: "pow2 (bitlen p - 1) \<le> of_int p" "of_int p < pow2 (bitlen p)"
    using bitlen_pow2 [OF p] by auto
  have Q: "pow2 (bitlen q - 1) \<le> of_int q" "of_int q < pow2 (bitlen q)"
    using bitlen_pow2 [OF q] by auto
  have lo: "pow2 (?l - 1) \<le> \<bar>x\<bar>"
  proof -
    have "pow2 (?l - 1) = pow2 (bitlen p - 1) / pow2 (bitlen q)"
      by (metis add_diff_cancel_left' diff_add_cancel diff_diff_eq2 group_cancel.sub1 pow2_diff)
    also have "\<dots> \<le> of_int p / of_int q"
      using P Q p q by (intro frac_le) auto
    finally show ?thesis using x by simp
  qed
  have hi: "\<bar>x\<bar> < pow2 (?l + 1)"
  proof -
    have "of_int p / of_int q < pow2 (bitlen p) / pow2 (bitlen q - 1)"
      using P Q p q by (intro frac_less) auto
    also have "\<dots> = pow2 (?l + 1)"
      by (simp add: algebra_simps flip: pow2_diff)
    finally show ?thesis using x by simp
  qed
  show "pow2 (expo x) \<le> \<bar>x\<bar>" and "\<bar>x\<bar> < pow2 (expo x + 1)"
    using lo hi by (auto simp: expo_def pq Let_def not_le)
qed

lemma expo_unique:
  assumes "pow2 k \<le> \<bar>x\<bar>" and "\<bar>x\<bar> < pow2 (k + 1)"
  shows "expo x = k"
proof -
  have "x \<noteq> 0" using assms(1) pow2_pos [of k] by (auto simp del: pow2_pos)
  from expo_bounds [OF this] assms have "pow2 (expo x) < pow2 (k + 1)" "pow2 k < pow2 (expo x + 1)"
    by linarith+
  then show ?thesis by simp
qed

section \<open>Rounding\<close>

text \<open>Round half to even, to an integer.\<close>

definition rne :: "rat \<Rightarrow> int" where
  "rne y = (let f = \<lfloor>y\<rfloor>; d = y - of_int f
            in if d < 1/2 then f else if 1/2 < d then f + 1 else if even f then f else f + 1)"

text \<open>The spacing of the binary64 numbers around \<open>x\<close>.\<close>

definition ulp :: "rat \<Rightarrow> rat" where
  "ulp x = pow2 (max (expo x - 52) (- 1074))"

definition rnd :: "rat \<Rightarrow> float64" where
  "rnd x = (if x = 0 then 0 else of_int (rne (x / ulp x)) * ulp x)"

lemma ulp_pos [simp]: "0 < ulp x"
  by (simp add: ulp_def)

lemma ulp_neq_0 [simp]: "ulp x \<noteq> 0"
  using ulp_pos [of x] by linarith

lemma rne_err: "\<bar>of_int (rne y) - y\<bar> \<le> 1/2"
proof -
  have "of_int \<lfloor>y\<rfloor> \<le> y" "y < of_int \<lfloor>y\<rfloor> + 1" by linarith+
  then show ?thesis unfolding rne_def Let_def abs_if by (simp split: if_splits) linarith?
qed

lemma rne_of_int [simp]: "rne (of_int n) = n"
  by (simp add: rne_def)

lemma rne_mono:
  assumes "x \<le> y" shows "rne x \<le> rne y"
proof (cases "\<lfloor>x\<rfloor> = \<lfloor>y\<rfloor>")
  case True
  with assms show ?thesis by (auto simp: rne_def Let_def)
next
  case False
  with assms have "\<lfloor>x\<rfloor> + 1 \<le> \<lfloor>y\<rfloor>" using floor_mono [OF assms] by linarith
  moreover have "rne x \<le> \<lfloor>x\<rfloor> + 1" "\<lfloor>y\<rfloor> \<le> rne y" by (auto simp: rne_def Let_def)
  ultimately show ?thesis by linarith
qed

lemma rnd_0 [simp]: "rnd 0 = 0"
  by (simp add: rnd_def)

lemma rnd_ulp_err: "\<bar>rnd x - x\<bar> \<le> ulp x / 2"
proof (cases "x = 0")
  case False
  have "rnd x - x = (of_int (rne (x / ulp x)) - x / ulp x) * ulp x"
    using False by (simp add: rnd_def algebra_simps)
  then have "\<bar>rnd x - x\<bar> = \<bar>of_int (rne (x / ulp x)) - x / ulp x\<bar> * ulp x"
    by (simp add: abs_mult abs_of_pos [OF ulp_pos])
  also have "\<dots> \<le> 1/2 * ulp x"
    by (intro mult_right_mono rne_err less_imp_le ulp_pos)
  finally show ?thesis by simp
qed (simp add: less_imp_le)

text \<open>The relative error bound of the normal range: half a unit in the 53rd bit.\<close>

lemma rnd_err:
  assumes "pow2 (- 1022) \<le> \<bar>x\<bar>"
  shows "\<bar>rnd x - x\<bar> \<le> \<bar>x\<bar> / 2 ^ 53"
proof -
  have x: "x \<noteq> 0" using assms pow2_pos [of "- 1022"] by (auto simp del: pow2_pos)
  have "pow2 (- 1022) < pow2 (expo x + 1)" using assms expo_bounds [OF x] by linarith
  then have "max (expo x - 52) (- 1074) = expo x - 52" by simp
  then have "ulp x = pow2 (expo x) / pow2 52"
    by (simp add: ulp_def pow2_diff)
  also have "pow2 52 = 2 ^ 52" by (simp add: pow2_def)
  finally have "ulp x \<le> \<bar>x\<bar> / 2 ^ 52"
    using expo_bounds(1) [OF x] by (simp add: divide_right_mono)
  with rnd_ulp_err [of x] show ?thesis by simp
qed

lemma rnd_grid:
  assumes "x = of_int m * pow2 e" and "\<bar>m\<bar> < 2 ^ 53" and "- 1074 \<le> e"
  shows "rnd x = x"
proof (cases "m = 0")
  case False
  then have x: "x \<noteq> 0" using assms(1) by simp
  have "pow2 (expo x) \<le> \<bar>x\<bar>" using expo_bounds [OF x] by simp
  also have "\<bar>x\<bar> = of_int \<bar>m\<bar> * pow2 e" using assms(1) by (simp add: abs_mult)
  also have "\<dots> < of_int (2 ^ 53) * pow2 e"
    using assms(2) by (intro mult_strict_right_mono) (simp_all only: of_int_less_iff pow2_pos)
  also have "\<dots> = pow2 (53 + e)" by (simp add: pow2_add) (simp add: pow2_def)
  finally have "expo x - 52 \<le> e" by simp
  then have g: "max (expo x - 52) (- 1074) \<le> e" using assms(3) by simp
  define g where "g = max (expo x - 52) (- 1074)"
  have "pow2 e = pow2 (e - g) * pow2 g" by (simp flip: pow2_add)
  then have "pow2 e = of_int (2 ^ nat (e - g)) * pow2 g"
    using g by (simp add: g_def pow2_nat)
  then have xg: "x = of_int (m * 2 ^ nat (e - g)) * ulp x"
    by (subst assms(1)) (simp add: ulp_def g_def)
  then have "x / ulp x = of_int (m * 2 ^ nat (e - g))"
    by (metis nonzero_mult_div_cancel_right ulp_neq_0)
  then have "rne (x / ulp x) = m * 2 ^ nat (e - g)" by (simp only: rne_of_int)
  then have "rnd x = of_int (m * 2 ^ nat (e - g)) * ulp x"
    by (simp only: rnd_def x if_False)
  with xg show ?thesis by simp
qed (simp add: assms)

lemma rnd_exact:
  assumes "x = of_int m * pow2 e" and "\<bar>m\<bar> \<le> 2 ^ 53" and "- 1074 \<le> e"
  shows "rnd x = x"
proof (cases "\<bar>m\<bar> = 2 ^ 53")
  case True
  then have "m = 2 ^ 53 \<or> m = - (2 ^ 53)" by linarith
  then have m: "m = 2 * (m div 2)" by auto
  have "x = of_int (m div 2) * pow2 (e + 1)"
    by (subst assms(1), subst m) (simp only: pow2_add of_int_mult, simp add: pow2_def)
  moreover have "\<bar>m div 2\<bar> < 2 ^ 53" using True by (auto simp: abs_if split: if_splits)
  ultimately show ?thesis using assms(3) by (intro rnd_grid [of x "m div 2" "e + 1"]) auto
next
  case False
  with assms show ?thesis by (intro rnd_grid [of x m e]) auto
qed

lemma rnd_of_int [simp]: "\<bar>n\<bar> \<le> 2 ^ 53 \<Longrightarrow> rnd (of_int n) = of_int n"
  by (rule rnd_exact [of _ n 0]) (simp_all add: pow2_def)

lemma ulp_dvd_pow2:
  assumes "max (expo z - 52) (- 1074) \<le> k"
  shows "\<exists>n. pow2 k = of_int n * ulp z"
proof -
  have "pow2 k = pow2 (k - max (expo z - 52) (- 1074)) * pow2 (max (expo z - 52) (- 1074))"
    by (simp flip: pow2_add)
  then have "pow2 k = of_int (2 ^ nat (k - max (expo z - 52) (- 1074))) * ulp z"
    using assms by (simp add: ulp_def pow2_nat)
  then show ?thesis by blast
qed

lemma rnd_le_grid:
  assumes "0 < z" and "z \<le> of_int n * ulp z"
  shows "rnd z \<le> of_int n * ulp z"
proof -
  have "z / ulp z \<le> of_int n" using assms(2) by (simp add: divide_le_eq)
  then have "rne (z / ulp z) \<le> n" by (metis rne_mono rne_of_int)
  then show ?thesis using assms(1) by (simp add: rnd_def mult_right_mono less_imp_le)
qed

lemma rnd_ge_grid:
  assumes "0 < z" and "of_int n * ulp z \<le> z"
  shows "of_int n * ulp z \<le> rnd z"
proof -
  have "of_int n \<le> z / ulp z" using assms(2) by (simp add: le_divide_eq)
  then have "n \<le> rne (z / ulp z)" by (metis rne_mono rne_of_int)
  then show ?thesis using assms(1) by (simp add: rnd_def mult_right_mono less_imp_le)
qed

lemma expo_mono: "0 < x \<Longrightarrow> x \<le> y \<Longrightarrow> expo x \<le> expo y"
proof -
  assume "0 < x" "x \<le> y"
  then have "pow2 (expo x) < pow2 (expo y + 1)"
    using expo_bounds [of x] expo_bounds [of y] by (simp del: pow2_less)
  then show ?thesis by simp
qed

lemma rnd_mono_pos:
  assumes "0 < x" "x \<le> y" shows "rnd x \<le> rnd y"
proof (cases "ulp x = ulp y")
  case True
  moreover have "rne (x / ulp y) \<le> rne (y / ulp y)"
    using assms by (intro rne_mono divide_right_mono) (auto simp: less_imp_le)
  ultimately show ?thesis using assms by (simp add: rnd_def mult_right_mono less_imp_le)
next
  case False
  let ?k = "expo y"
  have le: "expo x \<le> ?k" using assms by (rule expo_mono)
  have ne: "expo x \<noteq> ?k" using False by (auto simp: ulp_def)
  have k: "- 1022 < ?k" using False le by (auto simp: ulp_def max_def split: if_splits)
  have xk: "x \<le> pow2 ?k"
  proof -
    have "x < pow2 (expo x + 1)" using expo_bounds [of x] assms by simp
    also have "\<dots> \<le> pow2 ?k" using le ne by simp
    finally show ?thesis by simp
  qed
  have ky: "pow2 ?k \<le> y" using expo_bounds [of y] assms by simp
  obtain m where m: "pow2 ?k = of_int m * ulp x" using ulp_dvd_pow2 [of x ?k] le k by auto
  obtain n where n: "pow2 ?k = of_int n * ulp y" using ulp_dvd_pow2 [of y ?k] k by auto
  have "rnd x \<le> pow2 ?k" using rnd_le_grid [of x m] assms xk m by simp
  also have "\<dots> \<le> rnd y" using rnd_ge_grid [of y n] assms ky n by simp
  finally show ?thesis .
qed

lemma rnd_nonneg: "0 \<le> x \<Longrightarrow> 0 \<le> rnd x"
  using rnd_ge_grid [of x 0] by (cases "x = 0") auto

lemma rnd_mono: "0 \<le> x \<Longrightarrow> x \<le> y \<Longrightarrow> rnd x \<le> rnd y"
  by (cases "x = 0") (auto simp: rnd_nonneg intro: rnd_mono_pos)

lemma rne_minus [simp]: "rne (- y) = - rne y"
proof -
  have c: "\<lfloor>- y\<rfloor> = - \<lfloor>y\<rfloor> - (if y = of_int \<lfloor>y\<rfloor> then 0 else 1)"
    by (cases "y = of_int \<lfloor>y\<rfloor>") (simp_all add: floor_eq_iff, linarith+)
  show ?thesis unfolding rne_def Let_def c by (auto simp: field_simps)
qed

lemma expo_minus [simp]: "expo (- x) = expo x"
  by (simp add: expo_def)

lemma ulp_minus [simp]: "ulp (- x) = ulp x"
  by (simp add: ulp_def)

lemma rnd_minus [simp]: "rnd (- x) = - rnd x"
  by (simp add: rnd_def)

section \<open>The operations of the code\<close>

named_theorems f64_ops \<open>definitions of the float64 operations\<close>

definition fadd :: "float64 \<Rightarrow> float64 \<Rightarrow> float64" where [f64_ops]: "fadd x y = rnd (x + y)"

definition fsub :: "float64 \<Rightarrow> float64 \<Rightarrow> float64" where [f64_ops]: "fsub x y = rnd (x - y)"

definition fmul :: "float64 \<Rightarrow> float64 \<Rightarrow> float64" where [f64_ops]: "fmul x y = rnd (x * y)"

text \<open>The code divides by non-zero constants and by tested positive numbers.\<close>

definition fdiv :: "float64 \<Rightarrow> float64 \<Rightarrow> float64" where [f64_ops]: "fdiv x y = rnd (x / y)"

text \<open>\<open>float64(n)\<close> of an integer.\<close>

definition i2f :: "int64 \<Rightarrow> float64" where [f64_ops]: "i2f n = rnd (of_int n)"

text \<open>
  \<open>int64(x)\<close> truncates towards zero. Out of range the result is implementation-dependent in
  Go; on amd64, the server's target, it is the smallest integer.
\<close>

definition trunc :: "rat \<Rightarrow> int" where
  "trunc x = (if 0 \<le> x then \<lfloor>x\<rfloor> else \<lceil>x\<rceil>)"

definition f2i :: "float64 \<Rightarrow> int64" where
  "f2i x = (if in64 (trunc x) then trunc x else - (2 ^ 63))"

text \<open>\<open>math.Round\<close> rounds half away from zero; \<open>math.Ceil\<close> rounds up. Both results are
  exact.\<close>

definition math_Round :: "float64 \<Rightarrow> float64" where
  "math_Round x = (if 0 \<le> x then of_int \<lfloor>x + 1/2\<rfloor> else - of_int \<lfloor>- x + 1/2\<rfloor>)"

definition math_Ceil :: "float64 \<Rightarrow> float64" where
  "math_Ceil x = of_int \<lceil>x\<rceil>"

text \<open>A decimal literal of the source: the nearest \<open>float64\<close>.\<close>

definition lit :: "rat \<Rightarrow> float64" where [f64_ops]: "lit x = rnd x"

lemma in64_f2i [simp, intro]: "in64 (f2i x)"
  by (simp add: f2i_def in64_def)

lemma trunc_of_int [simp]: "trunc (of_int n) = n"
  by (simp add: trunc_def)

lemma f2i_of_int [simp]: "in64 n \<Longrightarrow> f2i (of_int n) = n"
  by (simp add: f2i_def)

lemma math_Round_of_int [simp]: "math_Round (of_int n) = of_int n"
proof -
  have "\<lfloor>rat_of_int m + 1/2\<rfloor> = m" for m by linarith
  from this [of n] this [of "- n"] show ?thesis by (simp add: math_Round_def)
qed

lemma math_Round_0 [simp]: "math_Round 0 = 0"
  using math_Round_of_int [of 0] by simp

lemma f2i_0 [simp]: "f2i 0 = 0"
  using f2i_of_int [of 0] by (simp add: in64_def)

lemma i2f_0 [simp]: "i2f 0 = 0"
  by (simp add: i2f_def)

lemma math_Round_near:
  assumes "\<bar>x - of_int n\<bar> < 1/2"
  shows "math_Round x = of_int n"
proof (cases "0 \<le> x")
  case True
  have "\<lfloor>x + 1/2\<rfloor> = n" using assms by (intro floor_unique) (auto simp: abs_if split: if_splits)
  with True show ?thesis by (simp add: math_Round_def)
next
  case False
  have "\<lfloor>- x + 1/2\<rfloor> = - n" using assms by (intro floor_unique) (auto simp: abs_if split: if_splits)
  with False show ?thesis by (simp add: math_Round_def)
qed

lemma math_Round_nonneg: "0 \<le> x \<Longrightarrow> 0 \<le> math_Round x"
  by (simp add: math_Round_def)

lemma math_Round_mono:
  assumes "x \<le> y"
  shows "math_Round x \<le> math_Round y"
proof (cases "0 \<le> x \<or> y < 0")
  case True
  have "\<lfloor>x + 1/2\<rfloor> \<le> \<lfloor>y + 1/2\<rfloor>" "\<lfloor>- y + 1/2\<rfloor> \<le> \<lfloor>- x + 1/2\<rfloor>"
    using assms by (auto intro!: floor_mono)
  with True assms show ?thesis by (auto simp: math_Round_def)
next
  case False
  then have "math_Round x \<le> 0" by (simp add: math_Round_def)
  also have "0 \<le> math_Round y" using False by (intro math_Round_nonneg) simp
  finally show ?thesis .
qed

lemma i2f_exact [simp]: "\<bar>n\<bar> \<le> 2 ^ 53 \<Longrightarrow> i2f n = of_int n"
  by (simp add: i2f_def)

lemma i2f_nonneg: "0 \<le> n \<Longrightarrow> 0 \<le> i2f n"
  by (simp add: i2f_def rnd_nonneg)

lemma fmul_nonneg: "0 \<le> x \<Longrightarrow> 0 \<le> y \<Longrightarrow> 0 \<le> fmul x y"
  by (simp add: fmul_def rnd_nonneg)

lemma fdiv_nonneg: "0 \<le> x \<Longrightarrow> 0 \<le> y \<Longrightarrow> 0 \<le> fdiv x y"
  by (simp add: fdiv_def rnd_nonneg)

lemma f2i_nonneg: "0 \<le> x \<Longrightarrow> x < 2 ^ 63 \<Longrightarrow> 0 \<le> f2i x"
proof -
  assume x: "0 \<le> x" "x < 2 ^ 63"
  then have "\<lfloor>x\<rfloor> < 2 ^ 63" by (simp add: floor_less_iff)
  with x show ?thesis by (simp add: f2i_def trunc_def in64_def)
qed

end
