(* ===== verification/Go_Text.thy ===== *)
theory Go_Text
  imports Go_Base
begin

text \<open>
  Strings as the standard library of Go treats them, for the ASCII texts of this program:
  prefixes, substrings, splitting, lower case and the reading of decimal numbers.
\<close>

section \<open>Search\<close>

definition has_prefix :: "string \<Rightarrow> string \<Rightarrow> bool" where
  "has_prefix s p \<longleftrightarrow> take (length p) s = p"

definition trim_prefix :: "string \<Rightarrow> string \<Rightarrow> string" where
  "trim_prefix s p = (if has_prefix s p then drop (length p) s else s)"

definition last_index :: "string \<Rightarrow> string \<Rightarrow> nat option" where
  "last_index s sub = map_option snd (find_idx (\<lambda>i. has_prefix (drop i s) sub) (rev [0..<Suc (length s)]))"

definition str_contains :: "string \<Rightarrow> string \<Rightarrow> bool" where
  "str_contains s sub \<longleftrightarrow> list_ex (\<lambda>i. has_prefix (drop i s) sub) [0..<Suc (length s)]"

section \<open>Case\<close>

definition lower_char :: "char \<Rightarrow> char" where
  "lower_char c = (let n = of_char c :: nat in if 65 \<le> n \<and> n \<le> 90 then char_of (n + 32) else c)"

definition to_lower :: "string \<Rightarrow> string" where
  "to_lower = map lower_char"

definition upper_char :: "char \<Rightarrow> char" where
  "upper_char c = (let n = of_char c :: nat in if 97 \<le> n \<and> n \<le> 122 then char_of (n - 32) else c)"

definition to_upper :: "string \<Rightarrow> string" where
  "to_upper = map upper_char"

section \<open>Splitting and trimming\<close>

fun split_on :: "char \<Rightarrow> string \<Rightarrow> string \<Rightarrow> string list" where
  "split_on c cur [] = [rev cur]"
| "split_on c cur (x # xs) = (if x = c then rev cur # split_on c [] xs else split_on c (x # cur) xs)"

definition strings_Split :: "string \<Rightarrow> char \<Rightarrow> string list" where
  "strings_Split s c = split_on c [] s"

definition is_space :: "char \<Rightarrow> bool" where
  "is_space c = (let n = of_char c :: nat in n = 32 \<or> (9 \<le> n \<and> n \<le> 13))"

definition TrimSpace :: "string \<Rightarrow> string" where
  "TrimSpace s = rev (dropWhile is_space (rev (dropWhile is_space s)))"

section \<open>Numbers as text\<close>

text \<open>Decimal output of a non-negative integer, as \<open>%d\<close> and \<open>FormatInt\<close> print it.\<close>

fun show_nat :: "nat \<Rightarrow> string" where
  "show_nat n = (if n < 10 then [char_of (48 + n)] else show_nat (n div 10) @ [char_of (48 + n mod 10)])"

declare show_nat.simps [simp del]

definition show_int :: "int \<Rightarrow> string" where
  "show_int n = (if n < 0 then ''-'' @ show_nat (nat (- n)) else show_nat (nat n))"

definition digit_of :: "char \<Rightarrow> nat option" where
  "digit_of c = (let n = of_char c :: nat in if 48 \<le> n \<and> n \<le> 57 then Some (n - 48) else None)"

fun digits_value :: "string \<Rightarrow> nat \<Rightarrow> nat option" where
  "digits_value [] acc = Some acc"
| "digits_value (c # cs) acc =
     (case digit_of c of None \<Rightarrow> None | Some d \<Rightarrow> digits_value cs (10 * acc + d))"

text \<open>\<open>strconv.Atoi\<close>: an optional sign, decimal digits, and the range of \<open>int\<close>.\<close>

definition Atoi :: "string \<Rightarrow> int option" where
  "Atoi s =
     (let (negative, ds) = (case s of
            [] \<Rightarrow> (False, [])
          | c # cs \<Rightarrow> if c = CHR ''-'' then (True, cs) else if c = CHR ''+'' then (False, cs) else (False, s))
      in if ds = [] then None
         else case digits_value ds 0 of
                None \<Rightarrow> None
              | Some n \<Rightarrow> (let v = (if negative then - int n else int n) in if in64 v then Some v else None))"

lemma digits_value_append:
  "digits_value (xs @ ys) acc = (case digits_value xs acc of None \<Rightarrow> None | Some a \<Rightarrow> digits_value ys a)"
  by (induction xs acc rule: digits_value.induct) (auto split: option.splits)

lemma digit_of_char: "d < 10 \<Longrightarrow> digit_of (char_of (48 + d)) = Some d"
  by (simp add: digit_of_def)

lemma digits_value_show_nat: "digits_value (show_nat n) 0 = Some n"
proof (induction n rule: show_nat.induct)
  case (1 n)
  show ?case
  proof (cases "n < 10")
    case True
    then show ?thesis by (subst show_nat.simps) (simp add: digit_of_char)
  next
    case False
    have "digits_value [char_of (48 + n mod 10)] (n div 10) = Some n"
      using digit_of_char [of "n mod 10"] by simp
    then show ?thesis using False 1 by (subst show_nat.simps) (simp add: digits_value_append)
  qed
qed

lemma show_nat_head: "\<exists>d cs. show_nat n = char_of (48 + d :: nat) # cs \<and> d < 10"
proof (induction n rule: show_nat.induct)
  case (1 n)
  show ?case
  proof (cases "n < 10")
    case True
    then have "show_nat n = char_of (48 + n) # []" by (subst show_nat.simps) simp
    then show ?thesis using True by blast
  next
    case False
    obtain d cs where h: "show_nat (n div 10) = char_of (48 + d :: nat) # cs" "d < 10"
      using 1 [OF False] by blast
    then have "show_nat n = char_of (48 + d) # (cs @ [char_of (48 + n mod 10)])"
      using False by (subst show_nat.simps) simp
    then show ?thesis using h(2) by blast
  qed
qed

lemma digit_no_sign:
  assumes "d < 10" "of_char c < (48 :: nat)"
  shows "char_of (48 + d :: nat) \<noteq> c"
proof
  assume "char_of (48 + d) = c"
  then have "of_char (char_of (48 + d) :: char) < (48 :: nat)" using assms(2) by simp
  then show False using assms(1) by simp
qed

lemma Atoi_show_int:
  assumes "0 < n" "n < 2 ^ 63"
  shows "Atoi (show_int n) = Some n"
proof -
  obtain d cs where h: "show_nat (nat n) = char_of (48 + d :: nat) # cs" "d < 10" using show_nat_head by blast
  have sgn: "char_of (48 + d) \<noteq> CHR ''-''" "char_of (48 + d) \<noteq> CHR ''+''"
    using digit_no_sign [OF h(2)] by simp_all
  have "digits_value (char_of (48 + d) # cs) 0 = Some (nat n)"
    using digits_value_show_nat [of "nat n"] h(1) by simp
  then show ?thesis
    using assms h sgn by (simp add: Atoi_def show_int_def in64_def del: digits_value.simps)
qed

end
