(* ===== verification/Price_Tier.thy ===== *)
theory Price_Tier
  imports Float64 Go_Text "HOL-Library.Product_Lexorder" "HOL-Library.Multiset" "HOL-Library.Option_ord"
begin

text \<open>
  \<open>internal/model/price_tier.go\<close> and \<open>price_tier_helpers.go\<close>: price tiers, their
  token ranges and dimension constraints, and the three selection routines. A Go map is an
  association list in one of its iteration orders; \<open>MatchesDims\<close> is shown not to depend on
  that order. A nil pointer is \<open>None\<close>. The regular-expression parser of range expressions
  is not modelled here.

  The lemmas: a range matches exactly the integers of its interval, the fallback of
  \<open>SelectTierOrLargest\<close> is the first maximum of the lexicographic tier order, and
  \<open>SortTiers\<close> is a stable sort.
\<close>

section \<open>Data\<close>

record PriceTier =
  pt_Name :: string
  pt_Variant :: string
  pt_DimValues :: "(string \<times> string) list"
  pt_InputMin :: int64
  pt_InputMinExclusive :: bool
  pt_InputMax :: "int64 option"
  pt_InputMaxExclusive :: bool
  pt_OutputMin :: int64
  pt_OutputMinExclusive :: bool
  pt_OutputMax :: "int64 option"
  pt_OutputMaxExclusive :: bool
  pt_InputPrice :: float64
  pt_OutputPrice :: float64
  pt_CacheInputPrice :: float64
  pt_CacheWritePrice :: float64
  pt_OutputPriceThinking :: float64
  pt_SellingInputPrice :: "float64 option"
  pt_SellingOutputPrice :: "float64 option"
  pt_SellingOutputThinkingPrice :: "float64 option"

text \<open>The zero value of the struct, from which composite literals start.\<close>

definition zero_PriceTier :: PriceTier where
  "zero_PriceTier =
     \<lparr>pt_Name = '''', pt_Variant = '''', pt_DimValues = [], pt_InputMin = 0,
      pt_InputMinExclusive = False, pt_InputMax = None, pt_InputMaxExclusive = False,
      pt_OutputMin = 0, pt_OutputMinExclusive = False, pt_OutputMax = None,
      pt_OutputMaxExclusive = False, pt_InputPrice = 0, pt_OutputPrice = 0,
      pt_CacheInputPrice = 0, pt_CacheWritePrice = 0, pt_OutputPriceThinking = 0,
      pt_SellingInputPrice = None, pt_SellingOutputPrice = None,
      pt_SellingOutputThinkingPrice = None\<rparr>"

text \<open>The fields of \<open>PriceTiersData\<close> the pricing code reads: the tiers and the currency.\<close>

record PriceTiersData =
  ptd_Tiers :: "PriceTier list"
  ptd_Currency :: string

section \<open>Operations\<close>

definition DefaultTier :: "float64 \<Rightarrow> float64 \<Rightarrow> PriceTier" where
  "DefaultTier inputPrice outputPrice =
     zero_PriceTier\<lparr>pt_Name := ''(0, +inf)'', pt_InputMin := 0, pt_InputMinExclusive := True,
       pt_OutputMin := 0, pt_OutputMinExclusive := True, pt_InputPrice := inputPrice,
       pt_OutputPrice := outputPrice\<rparr>"

definition IsDefaultTier :: "PriceTier \<Rightarrow> bool" where
  "IsDefaultTier t \<longleftrightarrow>
     pt_InputMin t = 0 \<and> pt_InputMinExclusive t \<and> pt_InputMax t = None \<and>
     pt_OutputMin t = 0 \<and> pt_OutputMinExclusive t \<and> pt_OutputMax t = None"

definition matchRange :: "int64 \<Rightarrow> int64 \<Rightarrow> bool \<Rightarrow> int64 option \<Rightarrow> bool \<Rightarrow> bool" where
  "matchRange v lo minExcl hi maxExcl =
     (if (if minExcl then v \<le> lo else v < lo) then False
      else (case hi of
              None \<Rightarrow> True
            | Some m \<Rightarrow> \<not> (if maxExcl then m \<le> v else m < v)))"

definition Matches :: "PriceTier \<Rightarrow> int64 \<Rightarrow> int64 \<Rightarrow> bool" where
  "Matches t inputTokens outputTokens \<longleftrightarrow>
     matchRange inputTokens (pt_InputMin t) (pt_InputMinExclusive t) (pt_InputMax t)
       (pt_InputMaxExclusive t) \<and>
     matchRange outputTokens (pt_OutputMin t) (pt_OutputMinExclusive t) (pt_OutputMax t)
       (pt_OutputMaxExclusive t)"

text \<open>The loop of \<open>MatchesDims\<close>: the flag is the \<open>declared\<close> result so far.\<close>

fun match_dims_loop :: "(string \<times> string) list \<Rightarrow> (string \<times> string) list \<Rightarrow> bool \<Rightarrow> bool \<times> bool" where
  "match_dims_loop [] dims declared = (if \<not> declared then (False, False) else (True, True))"
| "match_dims_loop ((key, expected) # rest) dims declared =
     (if expected = '''' then match_dims_loop rest dims declared
      else (case map_of dims key of
              None \<Rightarrow> (True, False)
            | Some actual \<Rightarrow>
                if actual \<noteq> expected then (True, False) else match_dims_loop rest dims True))"

definition MatchesDims :: "PriceTier \<Rightarrow> (string \<times> string) list \<Rightarrow> bool \<times> bool" where
  "MatchesDims t dims =
     (if length (pt_DimValues t) = 0 then (False, False)
      else match_dims_loop (pt_DimValues t) dims False)"

definition formatTokenLabel :: "int64 \<Rightarrow> string" where
  "formatTokenLabel n =
     (if n \<le> 0 then ''0''
      else if rem64 n 1000000 = 0 then show_nat (nat (div64 n 1000000)) @ ''M''
      else if rem64 n 1000 = 0 then show_nat (nat (div64 n 1000)) @ ''k''
      else show_nat (nat n))"

definition AutoName :: "PriceTier \<Rightarrow> string" where
  "AutoName t =
     (let lowerBracket = (if \<not> pt_InputMinExclusive t then ''['' else ''('')
      in if pt_InputMin t = 0 \<and> pt_InputMax t = None then ''0-inf''
         else let minStr = formatTokenLabel (pt_InputMin t)
              in case pt_InputMax t of
                   None \<Rightarrow> lowerBracket @ minStr @ '', +inf)''
                 | Some mx \<Rightarrow>
                     let upperBracket = (if pt_InputMaxExclusive t then '')'' else '']'')
                     in lowerBracket @ minStr @ '', '' @ formatTokenLabel mx @ upperBracket)"

text \<open>\<open>strings.TrimSpace(s) == ""\<close>, on the ASCII white space.\<close>

definition blank :: "string \<Rightarrow> bool" where
  "blank s \<longleftrightarrow> list_all (\<lambda>c. c \<in> set [CHR 0x20, CHR 0x09, CHR 0x0A, CHR 0x0B, CHR 0x0C, CHR 0x0D]) s"

definition Normalize :: "PriceTier \<Rightarrow> PriceTier" where
  "Normalize t =
     (let t1 = (if pt_OutputMin t = 0 \<and> \<not> pt_OutputMinExclusive t \<and> pt_OutputMax t = None
                then t\<lparr>pt_OutputMinExclusive := True\<rparr> else t)
      in if blank (pt_Name t1) then t1\<lparr>pt_Name := AutoName t1\<rparr> else t1)"

datatype tier_error =
    NegativeInputMin int64
  | NegativeOutputMin int64
  | InputMaxBelowMin int64 int64
  | OutputMaxBelowMin int64 int64
  | NegativePrice

definition Validate :: "PriceTier \<Rightarrow> tier_error option" where
  "Validate t =
     (if pt_InputMin t < 0 then Some (NegativeInputMin (pt_InputMin t))
      else if pt_OutputMin t < 0 then Some (NegativeOutputMin (pt_OutputMin t))
      else if (case pt_InputMax t of None \<Rightarrow> False | Some m \<Rightarrow> m < pt_InputMin t)
        then Some (InputMaxBelowMin (the (pt_InputMax t)) (pt_InputMin t))
      else if (case pt_OutputMax t of None \<Rightarrow> False | Some m \<Rightarrow> m < pt_OutputMin t)
        then Some (OutputMaxBelowMin (the (pt_OutputMax t)) (pt_OutputMin t))
      else if pt_InputPrice t < 0 \<or> pt_OutputPrice t < 0 then Some NegativePrice
      else None)"

text \<open>The selection results pair the index with the tier; \<open>None\<close> is \<open>(-1, nil)\<close>.\<close>

definition SelectTier :: "PriceTier list \<Rightarrow> int64 \<Rightarrow> int64 \<Rightarrow> (nat \<times> PriceTier) option" where
  "SelectTier tiers inputTokens outputTokens =
     find_idx (\<lambda>t. Matches t inputTokens outputTokens) tiers"

definition SelectTierByDims :: "PriceTier list \<Rightarrow> (string \<times> string) list \<Rightarrow> (nat \<times> PriceTier) option" where
  "SelectTierByDims tiers dims =
     (if length dims = 0 then None
      else find_idx (\<lambda>t. fst (MatchesDims t dims) \<and> snd (MatchesDims t dims)) tiers)"

definition compareMaxBound :: "int64 option \<Rightarrow> int64 option \<Rightarrow> int" where
  "compareMaxBound a b =
     (case (a, b) of
        (None, None) \<Rightarrow> 0
      | (None, Some _) \<Rightarrow> 1
      | (Some _, None) \<Rightarrow> - 1
      | (Some x, Some y) \<Rightarrow> if y < x then 1 else if x < y then - 1 else 0)"

definition tierGreater :: "PriceTier \<Rightarrow> PriceTier \<Rightarrow> bool" where
  "tierGreater a b =
     (if pt_InputMin a \<noteq> pt_InputMin b then pt_InputMin b < pt_InputMin a
      else if pt_OutputMin a \<noteq> pt_OutputMin b then pt_OutputMin b < pt_OutputMin a
      else if compareMaxBound (pt_InputMax a) (pt_InputMax b) \<noteq> 0
        then 0 < compareMaxBound (pt_InputMax a) (pt_InputMax b)
      else 0 < compareMaxBound (pt_OutputMax a) (pt_OutputMax b))"

text \<open>The scan for the largest tier: \<open>i\<close> is the loop index, \<open>maxIdx\<close> the best so far.\<close>

fun largest_from :: "PriceTier list \<Rightarrow> nat \<Rightarrow> nat \<Rightarrow> PriceTier \<Rightarrow> nat \<times> PriceTier" where
  "largest_from [] i maxIdx best = (maxIdx, best)"
| "largest_from (t # ts) i maxIdx best =
     (if tierGreater t best then largest_from ts (Suc i) i t else largest_from ts (Suc i) maxIdx best)"

definition SelectTierOrLargest ::
  "PriceTier list \<Rightarrow> int64 \<Rightarrow> int64 \<Rightarrow> (nat \<times> PriceTier) option \<times> bool" where
  "SelectTierOrLargest tiers inputTokens outputTokens =
     (case SelectTier tiers inputTokens outputTokens of
        Some it \<Rightarrow> (Some it, True)
      | None \<Rightarrow>
          (case tiers of
             [] \<Rightarrow> (None, False)
           | t # ts \<Rightarrow> (Some (largest_from ts 1 0 t), False)))"

text \<open>\<open>sort.SliceStable\<close> with the two-level comparison: a stable sort on the pair of minima.\<close>

definition SortTiers :: "PriceTier list \<Rightarrow> PriceTier list" where
  "SortTiers tiers = sort_key (\<lambda>t. (pt_InputMin t, pt_OutputMin t)) tiers"

definition EnsureDefaultTier :: "PriceTiersData \<Rightarrow> float64 \<Rightarrow> float64 \<Rightarrow> PriceTiersData" where
  "EnsureDefaultTier data fallbackInput fallbackOutput =
     (if length (ptd_Tiers data) = 0
      then data\<lparr>ptd_Tiers := [DefaultTier fallbackInput fallbackOutput]\<rparr> else data)"

section \<open>Ranges\<close>

text \<open>The interval a range denotes.\<close>

definition range_set :: "int64 \<Rightarrow> bool \<Rightarrow> int64 option \<Rightarrow> bool \<Rightarrow> int set" where
  "range_set lo minExcl hi maxExcl =
     {v. (if minExcl then lo < v else lo \<le> v) \<and>
         (case hi of None \<Rightarrow> True | Some m \<Rightarrow> if maxExcl then v < m else v \<le> m)}"

lemma matchRange_iff: "matchRange v mn mne mx mxe \<longleftrightarrow> v \<in> range_set mn mne mx mxe"
  by (auto simp: matchRange_def range_set_def split: option.splits)

lemma DefaultTier_matches_positive:
  "Matches (DefaultTier ip op) i out \<longleftrightarrow> 0 < i \<and> 0 < out"
  by (simp add: DefaultTier_def Matches_def matchRange_def zero_PriceTier_def)

lemma IsDefaultTier_DefaultTier [simp]: "IsDefaultTier (DefaultTier ip op)"
  by (simp add: IsDefaultTier_def DefaultTier_def zero_PriceTier_def)

section \<open>Dimensions\<close>

text \<open>The order-free reading of the loop.\<close>

definition dims_declared :: "(string \<times> string) list \<Rightarrow> bool" where
  "dims_declared dv \<longleftrightarrow> (\<exists>(k, v) \<in> set dv. v \<noteq> '''')"

definition dims_hold :: "(string \<times> string) list \<Rightarrow> (string \<times> string) list \<Rightarrow> bool" where
  "dims_hold dv dims \<longleftrightarrow> (\<forall>(k, v) \<in> set dv. v \<noteq> '''' \<longrightarrow> map_of dims k = Some v)"

lemma match_dims_loop_eq:
  "match_dims_loop dv dims d =
     (if d \<or> dims_declared dv then (True, dims_hold dv dims) else (False, False))"
  by (induction dv dims d rule: match_dims_loop.induct)
    (auto simp: dims_declared_def dims_hold_def split: option.splits)

lemma MatchesDims_eq:
  "MatchesDims t dims =
     (if dims_declared (pt_DimValues t) then (True, dims_hold (pt_DimValues t) dims) else (False, False))"
  by (auto simp: MatchesDims_def match_dims_loop_eq dims_declared_def)

lemma MatchesDims_order:
  assumes "set (pt_DimValues t) = set (pt_DimValues t')"
  shows "MatchesDims t dims = MatchesDims t' dims"
  using assms by (simp add: MatchesDims_eq dims_declared_def dims_hold_def)

section \<open>The tier order and the fallback\<close>

definition bound_key :: "int64 option \<Rightarrow> bool \<times> int" where
  "bound_key b = (case b of None \<Rightarrow> (True, 0) | Some m \<Rightarrow> (False, m))"

definition tier_key :: "PriceTier \<Rightarrow> int \<times> int \<times> (bool \<times> int) \<times> (bool \<times> int)" where
  "tier_key t = (pt_InputMin t, pt_OutputMin t, bound_key (pt_InputMax t), bound_key (pt_OutputMax t))"

lemma compareMaxBound_key:
  "0 < compareMaxBound a b \<longleftrightarrow> bound_key b < bound_key a"
  "compareMaxBound a b \<noteq> 0 \<longleftrightarrow> bound_key a \<noteq> bound_key b"
  by (auto simp: compareMaxBound_def bound_key_def less_prod_def split: option.splits)

lemma tierGreater_key: "tierGreater a b \<longleftrightarrow> tier_key b < tier_key a"
  by (auto simp: tierGreater_def compareMaxBound_key tier_key_def order_le_less)

lemma largest_from_ge: "tier_key best \<le> tier_key (snd (largest_from ts i maxIdx best))"
proof (induction ts i maxIdx best rule: largest_from.induct)
  case (2 t ts i maxIdx best)
  show ?case
  proof (cases "tierGreater t best")
    case True
    then have "tier_key best \<le> tier_key t" by (simp add: tierGreater_key)
    also note "2.IH"(1) [OF True]
    finally show ?thesis using True by simp
  qed (use "2.IH"(2) in simp)
qed simp

lemma largest_from_max:
  "u \<in> set ts \<Longrightarrow> tier_key u \<le> tier_key (snd (largest_from ts i maxIdx best))"
proof (induction ts i maxIdx best rule: largest_from.induct)
  case (2 t ts i maxIdx best)
  show ?case
  proof (cases "tierGreater t best")
    case True
    with "2.IH"(1) "2.prems" show ?thesis by (auto simp: largest_from_ge)
  next
    case False
    then have "tier_key t \<le> tier_key best" by (simp add: tierGreater_key)
    also note largest_from_ge [of best ts "Suc i" maxIdx]
    finally show ?thesis using False "2.IH"(2) "2.prems" by auto
  qed
qed simp

lemma largest_from_index:
  "largest_from ts i maxIdx best = (k, b) \<Longrightarrow>
     (k = maxIdx \<and> b = best) \<or> (i \<le> k \<and> k < i + length ts \<and> ts ! (k - i) = b)"
proof (induction ts i maxIdx best rule: largest_from.induct)
  case (2 t ts i maxIdx best)
  have "(k = maxIdx \<and> b = best) \<or> (k = i \<and> b = t) \<or>
      (Suc i \<le> k \<and> k < Suc i + length ts \<and> ts ! (k - Suc i) = b)"
    using "2.IH" "2.prems" by (cases "tierGreater t best") auto
  then show ?case by (auto simp: nth_Cons')
qed simp

lemma SelectTier_None: "SelectTier ts i out = None \<longleftrightarrow> (\<forall>t \<in> set ts. \<not> Matches t i out)"
  by (simp add: SelectTier_def)

lemma SelectTierOrLargest_total:
  "ts \<noteq> [] \<Longrightarrow> \<exists>k t f. SelectTierOrLargest ts i out = (Some (k, t), f)"
  by (auto simp: SelectTierOrLargest_def split: option.splits list.splits)

lemma SelectTierOrLargest_mem:
  assumes "SelectTierOrLargest ts i out = (Some (k, t), f)"
  shows "k < length ts" "ts ! k = t" "t \<in> set ts"
proof -
  have "k < length ts \<and> ts ! k = t"
  proof (cases "SelectTier ts i out")
    case (Some it)
    with assms show ?thesis by (auto simp: SelectTierOrLargest_def SelectTier_def find_idx_Some)
  next
    case None
    with assms obtain t0 rest where ts: "ts = t0 # rest" and l: "largest_from rest 1 0 t0 = (k, t)"
      by (auto simp: SelectTierOrLargest_def split: list.splits)
    from largest_from_index [OF l] show ?thesis by (auto simp: ts nth_Cons')
  qed
  then show "k < length ts" "ts ! k = t" "t \<in> set ts" by auto
qed

lemma SelectTierOrLargest_strict:
  "SelectTierOrLargest ts i out = (Some (k, t), True) \<longleftrightarrow> SelectTier ts i out = Some (k, t)"
  by (auto simp: SelectTierOrLargest_def split: option.splits list.splits)

lemma SelectTierOrLargest_fallback:
  assumes "SelectTierOrLargest ts i out = (Some (k, t), False)"
  shows "\<forall>u \<in> set ts. \<not> Matches u i out" "\<forall>u \<in> set ts. \<not> tierGreater u t"
proof -
  have n: "SelectTier ts i out = None"
    using assms by (auto simp: SelectTierOrLargest_def split: option.splits)
  then show "\<forall>u \<in> set ts. \<not> Matches u i out" by (simp add: SelectTier_None)
  from n assms obtain t0 rest where ts: "ts = t0 # rest" and l: "largest_from rest 1 0 t0 = (k, t)"
    by (auto simp: SelectTierOrLargest_def split: list.splits)
  have "t = snd (largest_from rest 1 0 t0)" using l by simp
  then show "\<forall>u \<in> set ts. \<not> tierGreater u t"
    by (auto simp: ts tierGreater_key not_less largest_from_ge largest_from_max)
qed

section \<open>Sorting\<close>

lemma SortTiers_mset: "mset (SortTiers ts) = mset ts"
  by (simp add: SortTiers_def)

lemma SortTiers_sorted: "sorted (map (\<lambda>t. (pt_InputMin t, pt_OutputMin t)) (SortTiers ts))"
  by (simp add: SortTiers_def)

lemma SortTiers_stable:
  "filter (\<lambda>t. (pt_InputMin t, pt_OutputMin t) = k) (SortTiers ts) =
   filter (\<lambda>t. (pt_InputMin t, pt_OutputMin t) = k) ts"
  unfolding SortTiers_def using sort_key_stable by (metis (mono_tags, lifting) filter_cong)

end
