(* ===== verification/Credits.thy ===== *)
theory Credits
  imports Float64
begin

text \<open>
  \<open>internal/pkg/credits/convert.go\<close>: the conversions between RMB (\<open>float64\<close>), display
  credits and internal billing units (both \<open>int64\<close>), and the rounding division every token
  cost goes through. The lemmas give the round trips and their ranges, and the exact condition
  under which the 64-bit products do not wrap.
\<close>

section \<open>Definitions\<close>

definition CreditPerRMB :: int64 where
  "CreditPerRMB = 10000"

definition BillingUnitsPerRMB :: int64 where
  "BillingUnitsPerRMB = 100000000"

definition BillingUnitsPerCredit :: int64 where
  "BillingUnitsPerCredit = BillingUnitsPerRMB sdiv CreditPerRMB"

definition RMBToCredits :: "float64 \<Rightarrow> int64" where
  "RMBToCredits rmb = f2i (math_Round (fmul rmb (of_int CreditPerRMB)))"

definition CreditsToRMB :: "int64 \<Rightarrow> float64" where
  "CreditsToRMB c = fdiv (i2f c) (of_int CreditPerRMB)"

definition RMBToBillingUnits :: "float64 \<Rightarrow> int64" where
  "RMBToBillingUnits rmb = f2i (math_Round (fmul rmb (of_int BillingUnitsPerRMB)))"

definition BillingUnitsToRMB :: "int64 \<Rightarrow> float64" where
  "BillingUnitsToRMB units = fdiv (i2f units) (of_int BillingUnitsPerRMB)"

definition CreditsToBillingUnits :: "int64 \<Rightarrow> int64" where
  "CreditsToBillingUnits c = mul64 c BillingUnitsPerCredit"

definition BillingUnitsToCredits :: "int64 \<Rightarrow> int64" where
  "BillingUnitsToCredits units = f2i (math_Round (fdiv (i2f units) (of_int BillingUnitsPerCredit)))"

definition BillingUnitsToCreditAmount :: "int64 \<Rightarrow> float64" where
  "BillingUnitsToCreditAmount units = fdiv (i2f units) (of_int BillingUnitsPerCredit)"

definition MulDivRound :: "int64 \<Rightarrow> int64 \<Rightarrow> int64 \<Rightarrow> int64" where
  "MulDivRound numerator multiplier denominator =
     (if numerator \<le> 0 \<or> multiplier \<le> 0 \<or> denominator \<le> 0 then 0
      else div64 (add64 (mul64 numerator multiplier) (div64 denominator 2)) denominator)"

definition CreditsPerMillionToBillingUnits :: "int64 \<Rightarrow> int64" where
  "CreditsPerMillionToBillingUnits priceCreditsPerMillion =
     (if priceCreditsPerMillion \<le> 0 then 0 else CreditsToBillingUnits priceCreditsPerMillion)"

definition CostUnitsFromCreditsPerMillion :: "int64 \<Rightarrow> int64 \<Rightarrow> int64" where
  "CostUnitsFromCreditsPerMillion priceCreditsPerMillion quantity =
     MulDivRound (CreditsPerMillionToBillingUnits priceCreditsPerMillion) quantity 1000000"

definition CostUnitsFromRMBPerMillion :: "float64 \<Rightarrow> int64 \<Rightarrow> int64" where
  "CostUnitsFromRMBPerMillion priceRMBPerMillion quantity =
     (if priceRMBPerMillion \<le> 0 \<or> quantity \<le> 0 then 0
      else MulDivRound (RMBToBillingUnits priceRMBPerMillion) quantity 1000000)"

definition CalculateWithFee :: "float64 \<Rightarrow> float64 \<Rightarrow> float64 \<Rightarrow> float64" where
  "CalculateWithFee amount rate feeRate =
     (let rmbAmount = fmul amount rate; fee = fmul rmbAmount feeRate in fsub rmbAmount fee)"

definition CalculateCreditsFromForeignCurrency :: "float64 \<Rightarrow> float64 \<Rightarrow> float64 \<Rightarrow> int64" where
  "CalculateCreditsFromForeignCurrency amount rate feeRate =
     RMBToCredits (CalculateWithFee amount rate feeRate)"

lemmas credit_consts = CreditPerRMB_def BillingUnitsPerRMB_def

lemma BillingUnitsPerCredit_val [simp]: "BillingUnitsPerCredit = 10000"
  by (simp add: BillingUnitsPerCredit_def credit_consts signed_divide_int_def)

section \<open>Round trips\<close>

text \<open>Dividing by a positive constant and multiplying back, both with rounding, stays within half a
  unit of the integer it started from, up to \<open>2 ^ 50\<close>.\<close>

lemma two_rnd_near:
  fixes c k :: int
  assumes c: "\<bar>c\<bar> \<le> 2 ^ 50" and k: "0 < k" "k \<le> 2 ^ 30"
  shows "\<bar>rnd (rnd (of_int c / of_int k) * of_int k) - of_int c\<bar> < 1/2"
proof (cases "c = 0")
  case False
  define x where "x = rat_of_int c / of_int k"
  define y where "y = rnd x * of_int k"
  have K: "0 < rat_of_int k" "rat_of_int k \<le> 2 ^ 30"
    using k by (simp, metis of_int_le_iff of_int_numeral of_int_power)
  have C: "\<bar>rat_of_int c\<bar> \<le> 2 ^ 50"
    using c by (metis of_int_abs of_int_le_iff of_int_numeral of_int_power)
  have C1: "1 \<le> \<bar>rat_of_int c\<bar>" using False by (simp flip: of_int_abs)
  have "(1 :: rat) / 2 ^ 30 \<le> \<bar>rat_of_int c\<bar> / of_int k"
    using C1 K by (intro frac_le) auto
  then have x1: "1 / 2 ^ 30 \<le> \<bar>x\<bar>" using K by (simp add: x_def abs_divide)
  have small: "pow2 (- 1022) \<le> 1 / 2 ^ 31"
  proof -
    have "pow2 (- 1022) \<le> pow2 (- 31)" by simp
    also have "\<dots> = 1 / 2 ^ 31" by (simp add: pow2_def power_int_def field_simps)
    finally show ?thesis .
  qed
  have ex: "\<bar>rnd x - x\<bar> \<le> \<bar>x\<bar> / 2 ^ 53"
    by (rule rnd_err, rule order_trans [OF small], rule order_trans [OF _ x1]) simp
  have yc: "\<bar>y - of_int c\<bar> \<le> \<bar>of_int c\<bar> / 2 ^ 53"
  proof -
    have "y - of_int c = (rnd x - x) * of_int k" using K by (simp add: y_def x_def field_simps)
    then have "\<bar>y - of_int c\<bar> = \<bar>rnd x - x\<bar> * of_int k" using K by (simp add: abs_mult)
    also have "\<dots> \<le> \<bar>x\<bar> / 2 ^ 53 * of_int k" using ex K by (intro mult_right_mono) auto
    also have "\<dots> = \<bar>of_int c\<bar> / 2 ^ 53" using K by (simp add: x_def abs_divide)
    finally show ?thesis .
  qed
  obtain d where d: "d = rat_of_int c" by simp
  have y1: "1/2 \<le> \<bar>y\<bar>" and y2: "\<bar>y\<bar> \<le> 2 ^ 51"
    using yc C C1 unfolding d [symmetric] by (auto simp: abs_if split: if_splits)
  have "\<bar>rnd y - y\<bar> \<le> \<bar>y\<bar> / 2 ^ 53"
    by (rule rnd_err, rule order_trans [OF small], rule order_trans [OF _ y1]) simp
  then have "\<bar>rnd y - of_int c\<bar> \<le> 2 ^ 51 / 2 ^ 53 + 2 ^ 50 / 2 ^ 53"
    using yc y2 C by (auto simp: abs_if split: if_splits)
  also have "\<dots> < (1/2 :: rat)" by simp
  finally show ?thesis unfolding y_def x_def .
qed simp

lemma le_2_50_in64: "\<bar>c\<bar> \<le> 2 ^ 50 \<Longrightarrow> in64 c"
  by (simp add: in64_def abs_le_iff)

lemma RMBToCredits_CreditsToRMB:
  assumes "\<bar>c\<bar> \<le> 2 ^ 50"
  shows "RMBToCredits (CreditsToRMB c) = c"
proof -
  have "i2f c = of_int c" using assms by simp
  moreover have "\<bar>rnd (rnd (of_int c / of_int 10000) * of_int 10000) - rat_of_int c\<bar> < 1/2"
    by (rule two_rnd_near) (use assms in simp_all)
  ultimately show ?thesis
    using assms by (simp add: RMBToCredits_def CreditsToRMB_def credit_consts fmul_def fdiv_def
        math_Round_near le_2_50_in64)
qed

lemma RMBToBillingUnits_BillingUnitsToRMB:
  assumes "\<bar>u\<bar> \<le> 2 ^ 50"
  shows "RMBToBillingUnits (BillingUnitsToRMB u) = u"
proof -
  have "i2f u = of_int u" using assms by simp
  moreover have "\<bar>rnd (rnd (of_int u / of_int 100000000) * of_int 100000000) - rat_of_int u\<bar> < 1/2"
    by (rule two_rnd_near) (use assms in simp_all)
  ultimately show ?thesis
    using assms by (simp add: RMBToBillingUnits_def BillingUnitsToRMB_def credit_consts fmul_def
        fdiv_def math_Round_near le_2_50_in64)
qed

lemma CreditsToBillingUnits_eq:
  "\<bar>c\<bar> \<le> 2 ^ 49 \<Longrightarrow> CreditsToBillingUnits c = c * 10000"
  by (simp add: CreditsToBillingUnits_def mul64_def in64_def abs_le_iff)

lemma BillingUnitsToCredits_CreditsToBillingUnits:
  assumes "\<bar>c\<bar> * 10000 \<le> 2 ^ 53"
  shows "BillingUnitsToCredits (CreditsToBillingUnits c) = c"
proof -
  have "\<bar>c\<bar> \<le> 2 ^ 40" using assms by simp
  then show ?thesis
    using assms by (simp add: BillingUnitsToCredits_def CreditsToBillingUnits_eq fdiv_def abs_mult
        in64_def abs_le_iff)
qed

lemma BillingUnitsToCredits_0 [simp]: "BillingUnitsToCredits 0 = 0"
  by (simp add: BillingUnitsToCredits_def fdiv_def)

section \<open>The rounding division\<close>

lemma MulDivRound_exact:
  assumes "0 < n" "0 < m" "0 < d" "n * m + d div 2 < 2 ^ 63"
  shows "MulDivRound n m d = (n * m + d div 2) div d"
proof -
  have nm: "0 < n * m" using assms by simp
  moreover have "0 \<le> d div 2" using assms by simp
  ultimately have d: "in64 (n * m)" "in64 (d div 2)" "in64 (n * m + d div 2)"
    using assms(4) unfolding in64_def by linarith+
  have "(n * m + d div 2) div d \<le> n * m + d div 2"
    using assms nm zdiv_mono2 [of "n * m + d div 2" 1 d] by (simp add: pos_imp_zdiv_nonneg_iff)
  then have "in64 ((n * m + d div 2) div d)"
    using assms nm by (auto simp: in64_def intro: order.trans [OF _ pos_imp_zdiv_nonneg_iff [THEN iffD2]])
  with d assms nm show ?thesis
    by (simp add: MulDivRound_def go_arith sdiv_nonneg)
qed

text \<open>Within its range the result is the nearest integer of the quotient.\<close>

lemma MulDivRound_nearest:
  assumes "0 < n" "0 < m" "0 < d" "n * m + d div 2 < 2 ^ 63"
  shows "2 * \<bar>d * MulDivRound n m d - n * m\<bar> \<le> d"
proof -
  let ?a = "n * m + d div 2"
  have "d * (?a div d) = ?a - ?a mod d" by (simp add: minus_mod_eq_mult_div)
  moreover have "0 \<le> ?a mod d" "?a mod d < d" using assms by auto
  ultimately have "d * (?a div d) - n * m = d div 2 - ?a mod d" by simp
  then show ?thesis unfolding MulDivRound_exact [OF assms]
    using \<open>0 \<le> ?a mod d\<close> \<open>?a mod d < d\<close> by (simp add: abs_if) linarith
qed

lemma MulDivRound_nonneg:
  assumes "0 < d" "n * m + d div 2 < 2 ^ 63"
  shows "0 \<le> MulDivRound n m d"
proof (cases "0 < n \<and> 0 < m")
  case True
  then have "0 < n * m" by simp
  with True assms show ?thesis by (simp add: MulDivRound_exact pos_imp_zdiv_nonneg_iff)
next
  case False
  then show ?thesis by (auto simp: MulDivRound_def)
qed

lemma MulDivRound_mono:
  assumes "m \<le> m'" "0 < d" "n * m' + d div 2 < 2 ^ 63"
  shows "MulDivRound n m d \<le> MulDivRound n m' d"
proof (cases "0 < n \<and> 0 < m")
  case True
  then have le: "n * m \<le> n * m'" using assms by (simp add: mult_left_mono)
  have "MulDivRound n m d = (n * m + d div 2) div d"
    using True assms le by (intro MulDivRound_exact) linarith+
  also have "\<dots> \<le> (n * m' + d div 2) div d"
    using le assms by (intro zdiv_mono1) auto
  also have "\<dots> = MulDivRound n m' d"
    using True assms by (intro MulDivRound_exact [symmetric]) auto
  finally show ?thesis .
next
  case False
  then have "MulDivRound n m d = 0" by (auto simp: MulDivRound_def)
  then show ?thesis using MulDivRound_nonneg [OF assms(2,3)] by simp
qed

lemma in64_MulDivRound [simp, intro]: "in64 (MulDivRound n m d)"
  by (simp add: MulDivRound_def div64_def) (simp add: in64_def)

end
