(* ===== verification/Price_Matrix.thy ===== *)
theory Price_Matrix
  imports Price_Tier Credits
begin

text \<open>
  The price tables (\<open>internal/model/ai_model.go\<close>, \<open>model_pricing.go\<close>,
  \<open>price_matrix.go\<close>, \<open>user_model_discount.go\<close>, \<open>video_pricing.go\<close>, each with the
  fields the billing path reads), the environment the calculators query, and the matching of
  price-matrix cells of \<open>internal/service/pricing/price_matrix_service.go\<close>.

  A JSON column is \<open>None\<close> when it is empty, \<open>null\<close> or does not decode, and otherwise
  the decoded value. Times are integers (nanoseconds). The environment carries a fault pattern
  \<open>pe_fails\<close>: which of the query sites fails with a database error.
\<close>

section \<open>Tables\<close>

text \<open>The values an \<open>interface{}\<close> holds after JSON decoding, as far as dimension values go.\<close>

datatype iface = IStr string | IBool bool | INum float64

record PriceMatrixCell =
  pmc_DimValues :: "(string \<times> iface) list"
  pmc_OfficialInput :: "float64 option"
  pmc_OfficialOutput :: "float64 option"
  pmc_OfficialPerUnit :: "float64 option"
  pmc_SellingInput :: "float64 option"
  pmc_SellingOutput :: "float64 option"
  pmc_SellingPerUnit :: "float64 option"
  pmc_Supported :: bool
  pmc_Note :: string

record PriceMatrix =
  pm_SchemaVersion :: int64
  pm_Cells :: "PriceMatrixCell list"

record ModelPricing =
  mp_ID :: nat
  mp_ModelID :: nat
  mp_InputPricePerToken :: int64
  mp_InputPriceRMB :: float64
  mp_OutputPricePerToken :: int64
  mp_OutputPriceRMB :: float64
  mp_OutputPriceThinkingRMB :: float64
  mp_Currency :: string
  mp_EffectiveFrom :: "int option"
  mp_PriceTiers :: "PriceTiersData option"
  mp_PriceMatrix :: "PriceMatrix option"

definition zero_ModelPricing :: ModelPricing where
  "zero_ModelPricing =
     \<lparr>mp_ID = 0, mp_ModelID = 0, mp_InputPricePerToken = 0, mp_InputPriceRMB = 0,
      mp_OutputPricePerToken = 0, mp_OutputPriceRMB = 0, mp_OutputPriceThinkingRMB = 0,
      mp_Currency = '''', mp_EffectiveFrom = None, mp_PriceTiers = None, mp_PriceMatrix = None\<rparr>"

record VideoPricingConfig =
  vpc_SupportDraft :: bool
  vpc_DraftCoefSilent :: float64
  vpc_DraftCoefAudio :: float64
  vpc_RequireInputVideo :: bool
  vpc_MinTokensRules :: "(float64 \<times> int64) list"

record AIModel =
  am_ID :: nat
  am_ModelName :: string
  am_SupplierID :: nat
  am_IsActive :: bool
  am_ModelType :: string
  am_PricingUnit :: string
  am_InputCostRMB :: float64
  am_OutputCostRMB :: float64
  am_OutputCostThinkingRMB :: float64
  am_PriceTiers :: "PriceTiersData option"
  am_VideoPricingConfig :: "VideoPricingConfig option"
  am_SupportsCache :: bool
  am_CacheMechanism :: string
  am_CacheInputPriceRMB :: float64
  am_CacheExplicitInputPriceRMB :: float64
  am_CacheWritePriceRMB :: float64

definition zero_AIModel :: AIModel where
  "zero_AIModel =
     \<lparr>am_ID = 0, am_ModelName = '''', am_SupplierID = 0, am_IsActive = False, am_ModelType = '''',
      am_PricingUnit = '''', am_InputCostRMB = 0, am_OutputCostRMB = 0,
      am_OutputCostThinkingRMB = 0, am_PriceTiers = None, am_VideoPricingConfig = None,
      am_SupportsCache = False, am_CacheMechanism = '''', am_CacheInputPriceRMB = 0,
      am_CacheExplicitInputPriceRMB = 0, am_CacheWritePriceRMB = 0\<rparr>"

record UserModelDiscount =
  umd_ID :: nat
  umd_UserID :: nat
  umd_ModelID :: nat
  umd_PricingType :: string
  umd_DiscountRate :: "float64 option"
  umd_InputPrice :: "float64 option"
  umd_OutputPrice :: "float64 option"
  umd_MarkupRate :: "float64 option"
  umd_EffectiveAt :: "int option"
  umd_ExpireAt :: "int option"
  umd_IsActive :: bool

definition IsEffective :: "UserModelDiscount \<Rightarrow> int \<Rightarrow> bool" where
  "IsEffective d now =
     (if \<not> umd_IsActive d then False
      else if (case umd_EffectiveAt d of None \<Rightarrow> False | Some t \<Rightarrow> now < t) then False
      else if (case umd_ExpireAt d of None \<Rightarrow> False | Some t \<Rightarrow> t < now) then False
      else True)"

definition LookupMinTokens :: "VideoPricingConfig \<Rightarrow> float64 \<Rightarrow> int64" where
  "LookupMinTokens c outputSec =
     (case find_idx (\<lambda>rule. outputSec \<le> fst rule) (vpc_MinTokensRules c) of
        None \<Rightarrow> 0
      | Some (_, rule) \<Rightarrow> snd rule)"

section \<open>The environment\<close>

datatype pquery = QTierModel | QMatrix | QModelPricing | QUserDiscount | QCostModel | QSupplier | QUnitModel

text \<open>
  The tables and the answers of the services the calculators ask: \<open>pe_fmt\<close> prints the
  numbers \<open>%v\<close> does not print as a plain integer and \<open>pe_fmt2\<close> is
  \<open>%.2f\<close>; \<open>pe_lock_wait\<close> is the time a request waits for a mutex.
\<close>

record pricing_env =
  pe_ai_models :: "nat \<Rightarrow> AIModel option"
  pe_model_pricings :: "ModelPricing list"
  pe_supplier_discount :: "nat \<Rightarrow> float64 option"
  pe_user_discounts :: "UserModelDiscount list"
  pe_fails :: "pquery \<Rightarrow> bool"
  pe_fmt :: "float64 \<Rightarrow> string"
  pe_fmt2 :: "float64 \<Rightarrow> string"
  pe_lock_wait :: int

text \<open>
  \<open>Order(...).First\<close>: the first row in the given order. GORM's \<open>First\<close> appends the
  primary key, ascending, as the last sort column; MySQL puts \<open>NULL\<close> last in a descending
  order.
\<close>

definition first_row :: "('a \<Rightarrow> 'k::linorder) \<Rightarrow> 'a list \<Rightarrow> 'a option" where
  "first_row k rows = (case sort_key k rows of [] \<Rightarrow> None | r # _ \<Rightarrow> Some r)"

definition desc :: "int option \<Rightarrow> int \<times> int" where
  "desc t = (case t of None \<Rightarrow> (1, 0) | Some x \<Rightarrow> (0, - x))"

definition pricings_of :: "pricing_env \<Rightarrow> nat \<Rightarrow> ModelPricing list" where
  "pricings_of env modelID = filter (\<lambda>mp. mp_ModelID mp = modelID) (pe_model_pricings env)"

section \<open>Matching\<close>

fun sprintV :: "pricing_env \<Rightarrow> iface \<Rightarrow> string" where
  "sprintV env (IStr s) = s"
| "sprintV env (IBool b) = (if b then ''true'' else ''false'')"
| "sprintV env (INum x) =
     (if x = of_int \<lfloor>x\<rfloor> \<and> \<bar>x\<bar> \<le> 2 ^ 53 then show_int \<lfloor>x\<rfloor> else pe_fmt env x)"

definition valuesEqual :: "pricing_env \<Rightarrow> iface \<Rightarrow> iface \<Rightarrow> bool" where
  "valuesEqual env a b \<longleftrightarrow> (if a = b then True else sprintV env a = sprintV env b)"

fun matchDimValues :: "pricing_env \<Rightarrow> (string \<times> iface) list \<Rightarrow> (string \<times> iface) list \<Rightarrow> bool" where
  "matchDimValues env [] reqDim = True"
| "matchDimValues env ((k, want) # rest) reqDim =
     (case map_of reqDim k of
        None \<Rightarrow> False
      | Some got \<Rightarrow> if \<not> valuesEqual env got want then False else matchDimValues env rest reqDim)"

definition MatchCell :: "pricing_env \<Rightarrow> PriceMatrix \<Rightarrow> (string \<times> iface) list \<Rightarrow> PriceMatrixCell option" where
  "MatchCell env pm dimValues =
     map_option snd (find_idx (\<lambda>cell. pmc_Supported cell \<and> matchDimValues env (pmc_DimValues cell) dimValues)
       (pm_Cells pm))"

definition MatchCellByModelID ::
  "pricing_env \<Rightarrow> nat \<Rightarrow> (string \<times> iface) list \<Rightarrow> PriceMatrixCell option" where
  "MatchCellByModelID env modelID dimValues =
     (if length dimValues = 0 \<or> modelID = 0 then None
      else if pe_fails env QMatrix then None
      else case first_row (\<lambda>mp. (desc (mp_EffectiveFrom mp), - int (mp_ID mp))) (pricings_of env modelID) of
             None \<Rightarrow> None
           | Some mp \<Rightarrow>
               (case mp_PriceMatrix mp of
                  None \<Rightarrow> None
                | Some pm \<Rightarrow>
                    if pm_SchemaVersion pm = 0 then None else MatchCell env pm dimValues))"

text \<open>\<open>syncPrimaryPriceFromMatrix\<close>: the first supported cell's prices copied to the top-level
  fields.\<close>

definition sync_cell :: "PriceMatrixCell \<Rightarrow> ModelPricing \<Rightarrow> ModelPricing" where
  "sync_cell c mp =
     (let credit = (\<lambda>p. f2i (fmul p 10000));
          mp1 = (case pmc_SellingInput c of
                   Some p \<Rightarrow> mp\<lparr>mp_InputPriceRMB := p, mp_InputPricePerToken := credit p\<rparr>
                 | None \<Rightarrow>
                     (case pmc_SellingPerUnit c of
                        Some p \<Rightarrow> mp\<lparr>mp_InputPriceRMB := p, mp_InputPricePerToken := credit p\<rparr>
                      | None \<Rightarrow> mp))
      in case pmc_SellingOutput c of
           Some p \<Rightarrow> mp1\<lparr>mp_OutputPriceRMB := p, mp_OutputPricePerToken := credit p\<rparr>
         | None \<Rightarrow>
             (case pmc_SellingPerUnit c of
                Some p \<Rightarrow>
                  if mp_OutputPriceRMB mp1 = 0
                  then mp1\<lparr>mp_OutputPriceRMB := p, mp_OutputPricePerToken := credit p\<rparr> else mp1
              | None \<Rightarrow> mp1))"

definition syncPrimaryPriceFromMatrix :: "PriceMatrix \<Rightarrow> ModelPricing \<Rightarrow> ModelPricing" where
  "syncPrimaryPriceFromMatrix pm mp =
     (case find_idx pmc_Supported (pm_Cells pm) of None \<Rightarrow> mp | Some (_, c) \<Rightarrow> sync_cell c mp)"

section \<open>Lemmas\<close>

lemma first_row_None [simp]: "first_row k rows = None \<longleftrightarrow> rows = []"
proof -
  have "sort_key k rows = [] \<longleftrightarrow> rows = []"
    by (metis set_empty set_sort)
  then show ?thesis
    by (cases "sort_key k rows") (simp_all add: first_row_def)
qed

lemma first_row_Some:
  assumes "first_row k rows = Some r"
  shows "r \<in> set rows" "\<forall>x \<in> set rows. k r \<le> k x"
proof -
  obtain rest where s: "sort_key k rows = r # rest"
    using assms by (auto simp: first_row_def split: list.splits)
  then have st: "set rows = set (r # rest)" by (metis set_sort)
  then show "r \<in> set rows" by simp
  have "sorted (map k (r # rest))" using s sorted_sort_key by metis
  then show "\<forall>x \<in> set rows. k r \<le> k x" using st by auto
qed

lemma matchDimValues_iff:
  "matchDimValues env cell req \<longleftrightarrow>
     (\<forall>(k, want) \<in> set cell. \<exists>got. map_of req k = Some got \<and> valuesEqual env got want)"
  by (induction env cell req rule: matchDimValues.induct) (auto split: option.splits)

lemma MatchCell_Some:
  assumes "MatchCell env pm dims = Some c"
  shows "c \<in> set (pm_Cells pm)" "pmc_Supported c" "matchDimValues env (pmc_DimValues c) dims"
  using assms find_idx_SomeD by (fastforce simp: MatchCell_def)+

lemma MatchCellByModelID_supported: "MatchCellByModelID env m dims = Some c \<Longrightarrow> pmc_Supported c"
  by (auto simp: MatchCellByModelID_def dest: MatchCell_Some split: if_splits option.splits)

lemma IsEffective_iff:
  "IsEffective d now \<longleftrightarrow>
     umd_IsActive d \<and> (\<forall>t. umd_EffectiveAt d = Some t \<longrightarrow> t \<le> now) \<and>
     (\<forall>t. umd_ExpireAt d = Some t \<longrightarrow> now \<le> t)"
  by (auto simp: IsEffective_def split: option.splits)

end
