(* ===== verification/Discount.thy ===== *)
theory Discount
  imports Price_Matrix
begin

text \<open>
  User discounts: \<open>internal/service/pricing/discount_resolver.go\<close> and
  \<open>applyDiscount\<close> of \<open>pricing_calculator.go\<close>.

  The negative cache of the resolver (\<open>discountMissCache\<close>) and the local cache of platform
  prices are process-wide maps with expiry times: the fields \<open>pc_miss\<close> and
  \<open>pc_platform\<close> of the state \<open>price_caches\<close>. Both meet the interface
  \<open>ttl_cache\<close>, in which coherence with the tables is proved once. The writes to Redis
  are recorded in \<open>pc_redis\<close>; what Redis answers is a parameter of the calculator.
\<close>

section \<open>The interface of an expiring cache\<close>

locale ttl_cache =
  fixes get :: "'k \<Rightarrow> int \<Rightarrow> 's \<Rightarrow> 'v option \<times> 's"
    and put :: "'k \<Rightarrow> 'v \<Rightarrow> int \<Rightarrow> 's \<Rightarrow> 's"
    and ttl :: int
  assumes get_creates_nothing:
      "fst (get k' t' (snd (get k t s))) = Some v \<Longrightarrow> fst (get k' t' s) = Some v"
    and put_adds_one:
      "fst (get k' t' (put k v t s)) = Some w \<Longrightarrow> k' = k \<and> w = v \<or> fst (get k' t' s) = Some w"
    and put_fresh: "t' < t + ttl \<Longrightarrow> fst (get k t' (put k v t s)) = Some v"
begin

text \<open>Every answer the cache can give, now or later, satisfies \<open>P\<close>.\<close>

definition coherent :: "('k \<Rightarrow> 'v \<Rightarrow> bool) \<Rightarrow> 's \<Rightarrow> bool" where
  "coherent P s \<longleftrightarrow> (\<forall>k t v. fst (get k t s) = Some v \<longrightarrow> P k v)"

lemma coherent_hit: "coherent P s \<Longrightarrow> get k t s = (Some v, s') \<Longrightarrow> P k v"
  by (metis coherent_def fst_conv)

lemma coherent_get: "coherent P s \<Longrightarrow> coherent P (snd (get k t s))"
  unfolding coherent_def using get_creates_nothing by blast

lemma coherent_put: "coherent P s \<Longrightarrow> P k v \<Longrightarrow> coherent P (put k v t s)"
  unfolding coherent_def using put_adds_one by blast

lemma put_get_put: "t' < t + ttl \<Longrightarrow> fst (get k t' (put k v t (snd (get k t s)))) = Some v"
  by (rule put_fresh)

end

section \<open>State\<close>

record PriceResult =
  pr_InputPricePerMillion :: int64
  pr_OutputPricePerMillion :: int64
  pr_InputPriceRMB :: float64
  pr_OutputPriceRMB :: float64
  pr_Currency :: string
  pr_Source :: string
  pr_DiscountInfo :: string

definition zero_PriceResult :: PriceResult where
  "zero_PriceResult =
     \<lparr>pr_InputPricePerMillion = 0, pr_OutputPricePerMillion = 0, pr_InputPriceRMB = 0,
      pr_OutputPriceRMB = 0, pr_Currency = '''', pr_Source = '''', pr_DiscountInfo = ''''\<rparr>"

text \<open>The numbers a Redis key is built from: user, model, tenant, level.\<close>

type_synonym price_key = "nat \<times> nat \<times> nat \<times> int64"

text \<open>A key of the miss cache: user and model (tenant and level are not set by the resolver).\<close>

type_synonym miss_key = "nat \<times> nat"

record price_caches =
  pc_platform :: "nat \<Rightarrow> (ModelPricing \<times> int) option"
  pc_miss :: "miss_key \<Rightarrow> int option"
  pc_redis :: "(price_key \<times> PriceResult) list"

definition empty_caches :: price_caches where
  "empty_caches = \<lparr>pc_platform = (\<lambda>_. None), pc_miss = (\<lambda>_. None), pc_redis = []\<rparr>"

datatype price_error =
    ModelIDZero | ModelNotPriced nat | QueryPricingFailed | QueryDiscountFailed
  | ModelNotFound nat | AIModelNil

section \<open>Resolution\<close>

record DiscountResult =
  dr_Type :: string
  dr_PricingType :: string
  dr_InputDiscount :: float64
  dr_OutputDiscount :: float64
  dr_FixedInput :: "float64 option"
  dr_FixedOutput :: "float64 option"
  dr_MarkupRate :: "float64 option"
  dr_UserDiscountID :: "nat option"
  dr_UserDiscountRate :: "float64 option"
  dr_UserDiscountType :: string

definition no_discount :: DiscountResult where
  "no_discount =
     \<lparr>dr_Type = ''none'', dr_PricingType = ''NONE'', dr_InputDiscount = 1, dr_OutputDiscount = 1,
      dr_FixedInput = None, dr_FixedOutput = None, dr_MarkupRate = None, dr_UserDiscountID = None,
      dr_UserDiscountRate = None, dr_UserDiscountType = ''''\<rparr>"

text \<open>\<open>10 * time.Minute\<close> in nanoseconds.\<close>

definition discountMissCacheTTL :: int where
  "discountMissCacheTTL = 10 * 60 * 1000000000"

definition loadDiscountMiss :: "miss_key \<Rightarrow> int \<Rightarrow> price_caches \<Rightarrow> bool \<times> price_caches" where
  "loadDiscountMiss key now s =
     (case pc_miss s key of
        None \<Rightarrow> (False, s)
      | Some expiresAt \<Rightarrow>
          if expiresAt < now then (False, s\<lparr>pc_miss := (pc_miss s)(key := None)\<rparr>) else (True, s))"

definition storeDiscountMiss :: "miss_key \<Rightarrow> int \<Rightarrow> price_caches \<Rightarrow> price_caches" where
  "storeDiscountMiss key now s =
     s\<lparr>pc_miss := (pc_miss s)(key \<mapsto> now + discountMissCacheTTL)\<rparr>"

definition clearDiscountMissCache :: "price_caches \<Rightarrow> price_caches" where
  "clearDiscountMissCache s = s\<lparr>pc_miss := (\<lambda>_. None)\<rparr>"

text \<open>
  \<open>queryNow\<close> is the clock after the key's mutex has been taken. The query gives the row
  it found (\<open>None\<close> for not found) or an error.
\<close>

definition withDiscountMissLock ::
  "miss_key \<Rightarrow> int \<Rightarrow> int \<Rightarrow> (int \<Rightarrow> 'e + 'a option) \<Rightarrow> (price_caches, 'e, 'a option) act" where
  "withDiscountMissLock key now queryNow query s =
     (case loadDiscountMiss key now s of
        (True, s1) \<Rightarrow> (Inr None, s1)
      | (False, s1) \<Rightarrow>
          (case loadDiscountMiss key queryNow s1 of
             (True, s2) \<Rightarrow> (Inr None, s2)
           | (False, s2) \<Rightarrow>
               (case query queryNow of
                  Inl e \<Rightarrow> (Inl e, s2)
                | Inr None \<Rightarrow> (Inr None, storeDiscountMiss key queryNow s2)
                | Inr (Some r) \<Rightarrow> (Inr (Some r), s2))))"

definition buildUserDiscountResult :: "UserModelDiscount \<Rightarrow> DiscountResult" where
  "buildUserDiscountResult ud =
     (let result = no_discount\<lparr>dr_Type := ''user_custom'', dr_PricingType := umd_PricingType ud,
                     dr_UserDiscountID := Some (umd_ID ud),
                     dr_UserDiscountType := umd_PricingType ud\<rparr>
      in if umd_PricingType ud = ''FIXED''
         then result\<lparr>dr_FixedInput := umd_InputPrice ud, dr_FixedOutput := umd_OutputPrice ud\<rparr>
         else if umd_PricingType ud = ''MARKUP'' then result\<lparr>dr_MarkupRate := umd_MarkupRate ud\<rparr>
         else if umd_PricingType ud = ''DISCOUNT''
         then (case umd_DiscountRate ud of
                 None \<Rightarrow> result
               | Some r \<Rightarrow> result\<lparr>dr_InputDiscount := r, dr_OutputDiscount := r,
                            dr_UserDiscountRate := Some r\<rparr>)
         else result)"

text \<open>The closure passed to \<open>withDiscountMissLock\<close>: the first active row, if effective.\<close>

definition query_user_discount ::
  "pricing_env \<Rightarrow> nat \<Rightarrow> nat \<Rightarrow> int \<Rightarrow> price_error + UserModelDiscount option" where
  "query_user_discount env userID modelID queryNow =
     (if pe_fails env QUserDiscount then Inl QueryDiscountFailed
      else Inr (case first_row umd_ID
                  (filter (\<lambda>d. umd_UserID d = userID \<and> umd_ModelID d = modelID \<and> umd_IsActive d)
                    (pe_user_discounts env)) of
                  None \<Rightarrow> None
                | Some d \<Rightarrow> if IsEffective d queryNow then Some d else None))"

definition ResolveDiscount ::
  "pricing_env \<Rightarrow> int \<Rightarrow> nat \<Rightarrow> nat \<Rightarrow> nat \<Rightarrow> int64 \<Rightarrow> (price_caches, price_error, DiscountResult) act" where
  "ResolveDiscount env now userID tenantID modelID agentLevel =
     (if modelID = 0 then ret no_discount
      else if userID > 0
      then andThen
        (withDiscountMissLock (userID, modelID) now (now + pe_lock_wait env)
           (query_user_discount env userID modelID))
        (\<lambda>found. ret (case found of Some d \<Rightarrow> buildUserDiscountResult d | None \<Rightarrow> no_discount))
      else ret no_discount)"

section \<open>Application\<close>

definition scaled_price ::
  "ModelPricing \<Rightarrow> float64 \<Rightarrow> float64 \<Rightarrow> string \<Rightarrow> string \<Rightarrow> PriceResult" where
  "scaled_price platform finp fout source info =
     (let inp = f2i (fmul (i2f (mp_InputPricePerToken platform)) finp);
          out = f2i (fmul (i2f (mp_OutputPricePerToken platform)) fout)
      in \<lparr>pr_InputPricePerMillion = inp, pr_OutputPricePerMillion = out,
          pr_InputPriceRMB = CreditsToRMB inp, pr_OutputPriceRMB = CreditsToRMB out,
          pr_Currency = mp_Currency platform, pr_Source = source, pr_DiscountInfo = info\<rparr>)"

definition applyDiscount :: "pricing_env \<Rightarrow> ModelPricing \<Rightarrow> DiscountResult \<Rightarrow> PriceResult" where
  "applyDiscount env platform discount =
     (let asIs = zero_PriceResult\<lparr>pr_InputPricePerMillion := mp_InputPricePerToken platform,
                   pr_OutputPricePerMillion := mp_OutputPricePerToken platform,
                   pr_InputPriceRMB := mp_InputPriceRMB platform,
                   pr_OutputPriceRMB := mp_OutputPriceRMB platform,
                   pr_Currency := mp_Currency platform, pr_Source := ''platform''\<rparr>
      in if dr_Type discount = ''none'' then asIs
         else if dr_PricingType discount = ''FIXED''
         then (let r1 = (case dr_FixedInput discount of
                           Some p \<Rightarrow> asIs\<lparr>pr_InputPricePerMillion := f2i p,
                                       pr_InputPriceRMB := CreditsToRMB (f2i p)\<rparr>
                         | None \<Rightarrow> asIs);
                   r2 = (case dr_FixedOutput discount of
                           Some p \<Rightarrow> r1\<lparr>pr_OutputPricePerMillion := f2i p,
                                       pr_OutputPriceRMB := CreditsToRMB (f2i p)\<rparr>
                         | None \<Rightarrow> r1)
               in r2\<lparr>pr_Source := ''agent_custom'', pr_DiscountInfo := ''fixed price''\<rparr>)
         else if dr_PricingType discount = ''MARKUP''
         then (let rate = (case dr_MarkupRate discount of Some r \<Rightarrow> r | None \<Rightarrow> 0)
               in scaled_price platform (fadd 1 rate) (fadd 1 rate) ''agent_custom''
                    (''markup '' @ pe_fmt2 env (fmul rate 100) @ ''%''))
         else if dr_PricingType discount = ''DISCOUNT''
         then (if dr_Type discount = ''agent_custom''
               then scaled_price platform (dr_InputDiscount discount) (dr_OutputDiscount discount) ''agent_custom''
                      (''discount '' @ pe_fmt2 env (fmul (dr_InputDiscount discount) 100) @ ''%'')
               else scaled_price platform (dr_InputDiscount discount) (dr_OutputDiscount discount) ''level_discount''
                      (''level discount in='' @ pe_fmt2 env (fmul (dr_InputDiscount discount) 100) @
                       ''% out='' @ pe_fmt2 env (fmul (dr_OutputDiscount discount) 100) @ ''%''))
         else asIs)"

section \<open>The miss cache meets the cache interface\<close>

definition miss_get :: "miss_key \<Rightarrow> int \<Rightarrow> price_caches \<Rightarrow> unit option \<times> price_caches" where
  "miss_get k t s = (case loadDiscountMiss k t s of (hit, s') \<Rightarrow> (if hit then Some () else None, s'))"

definition miss_put :: "miss_key \<Rightarrow> unit \<Rightarrow> int \<Rightarrow> price_caches \<Rightarrow> price_caches" where
  "miss_put k u t s = storeDiscountMiss k t s"

lemma load_hit_iff: "fst (loadDiscountMiss k t s) \<longleftrightarrow> (\<exists>e. pc_miss s k = Some e \<and> t \<le> e)"
  by (auto simp: loadDiscountMiss_def split: option.splits)

lemma miss_get_iff: "fst (miss_get k t s) = Some u \<longleftrightarrow> fst (loadDiscountMiss k t s)"
  by (simp add: miss_get_def split: prod.splits)

interpretation miss: ttl_cache miss_get miss_put discountMissCacheTTL
proof
  fix k t k' t' and s :: price_caches and v :: unit
  assume "fst (miss_get k' t' (snd (miss_get k t s))) = Some v"
  then show "fst (miss_get k' t' s) = Some v"
    by (auto simp: miss_get_def loadDiscountMiss_def split: option.splits if_splits)
next
  fix k t k' t' and s :: price_caches and v w :: unit
  assume "fst (miss_get k' t' (miss_put k v t s)) = Some w"
  then show "k' = k \<and> w = v \<or> fst (miss_get k' t' s) = Some w"
    by (auto simp: miss_get_iff load_hit_iff miss_put_def storeDiscountMiss_def split: if_splits)
next
  fix k t' t and s :: price_caches and v :: unit
  assume "t' < t + discountMissCacheTTL"
  then show "fst (miss_get k t' (miss_put k v t s)) = Some v"
    by (auto simp: miss_get_iff load_hit_iff miss_put_def storeDiscountMiss_def)
qed

section \<open>Lemmas on resolution\<close>

text \<open>A resolution reads and writes only the miss cache.\<close>

lemma ResolveDiscount_frame:
  assumes "ResolveDiscount env now u t m l s = (r, s')"
  shows "pc_platform s' = pc_platform s" "pc_redis s' = pc_redis s"
  using assms
  by (auto simp: ResolveDiscount_def withDiscountMissLock_def loadDiscountMiss_def
      storeDiscountMiss_def ret_def andThen_def
      split: if_splits prod.splits option.splits sum.splits bool.splits)

lemma ResolveDiscount_hit:
  assumes "pc_miss s (u, m) = Some e" and "now \<le> e"
  shows "ResolveDiscount env now u t m l s = (Inr no_discount, s)"
  using assms
  by (simp add: ResolveDiscount_def withDiscountMissLock_def loadDiscountMiss_def ret_def andThen_def)

lemma ResolveDiscount_fresh:
  assumes "pc_miss s (u, m) = None" "0 < u" "0 < m"
    and "query_user_discount env u m (now + pe_lock_wait env) = Inr (Some d)"
  shows "ResolveDiscount env now u t m l s = (Inr (buildUserDiscountResult d), s)"
  using assms
  by (simp add: ResolveDiscount_def withDiscountMissLock_def loadDiscountMiss_def ret_def andThen_def)

lemma ResolveDiscount_records_miss:
  assumes "pc_miss s (u, m) = None" "0 < u" "0 < m"
    and "query_user_discount env u m (now + pe_lock_wait env) = Inr None"
  shows "ResolveDiscount env now u t m l s =
    (Inr no_discount, storeDiscountMiss (u, m) (now + pe_lock_wait env) s)"
  using assms
  by (simp add: ResolveDiscount_def withDiscountMissLock_def loadDiscountMiss_def ret_def andThen_def)

lemma query_user_discount_Some:
  assumes "query_user_discount env u m t = Inr (Some d)"
  shows "d \<in> set (pe_user_discounts env)" "umd_UserID d = u" "umd_ModelID d = m" "IsEffective d t"
  using assms
  by (auto simp: query_user_discount_def split: if_splits option.splits dest: first_row_Some(1))

section \<open>Lemmas on application\<close>

lemma scaled_le:
  assumes "0 \<le> p" "p \<le> 2 ^ 53" "0 \<le> r" "r \<le> 1"
  shows "0 \<le> f2i (fmul (i2f p) r)" "f2i (fmul (i2f p) r) \<le> p"
proof -
  have p: "i2f p = of_int p" using assms by simp
  have nn: "0 \<le> of_int p * r" using assms by simp
  have up: "of_int p * r \<le> (of_int p :: rat)"
    using mult_left_mono [of r 1 "of_int p"] assms by simp
  have e: "rnd (of_int p) = (of_int p :: rat)" using assms by simp
  have lo: "0 \<le> fmul (i2f p) r" unfolding p fmul_def by (rule rnd_nonneg [OF nn])
  have hi: "fmul (i2f p) r \<le> of_int p"
    using rnd_mono [OF nn up] unfolding p fmul_def e .
  have in_p: "in64 p" using assms by (simp add: in64_def)
  have t: "trunc (fmul (i2f p) r) = \<lfloor>fmul (i2f p) r\<rfloor>"
    using lo by (simp add: trunc_def)
  have tp: "trunc (fmul (i2f p) r) \<le> p" unfolding t using hi by linarith
  have t0: "0 \<le> trunc (fmul (i2f p) r)" unfolding t using lo by simp
  have "in64 (trunc (fmul (i2f p) r))"
    using tp t0 in_p by (simp add: in64_def)
  then have "f2i (fmul (i2f p) r) = trunc (fmul (i2f p) r)"
    by (simp add: f2i_def in64_def)
  then show "0 \<le> f2i (fmul (i2f p) r)" "f2i (fmul (i2f p) r) \<le> p" using tp t0 by simp_all
qed

lemma applyDiscount_none: "dr_Type d = ''none'' \<Longrightarrow>
    applyDiscount env mp d =
      \<lparr>pr_InputPricePerMillion = mp_InputPricePerToken mp,
       pr_OutputPricePerMillion = mp_OutputPricePerToken mp,
       pr_InputPriceRMB = mp_InputPriceRMB mp, pr_OutputPriceRMB = mp_OutputPriceRMB mp,
       pr_Currency = mp_Currency mp, pr_Source = ''platform'', pr_DiscountInfo = ''''\<rparr>"
  by (simp add: applyDiscount_def zero_PriceResult_def)

lemma applyDiscount_DISCOUNT_fields:
  assumes "dr_Type d \<noteq> ''none''" "dr_PricingType d = ''DISCOUNT''"
  shows "pr_InputPricePerMillion (applyDiscount env mp d) =
           f2i (fmul (i2f (mp_InputPricePerToken mp)) (dr_InputDiscount d))"
    and "pr_OutputPricePerMillion (applyDiscount env mp d) =
           f2i (fmul (i2f (mp_OutputPricePerToken mp)) (dr_OutputDiscount d))"
    and "pr_InputPriceRMB (applyDiscount env mp d) =
           CreditsToRMB (pr_InputPricePerMillion (applyDiscount env mp d))"
  using assms by (simp_all add: applyDiscount_def scaled_price_def Let_def)

end
