(* ===== verification/Tier_Select.thy ===== *)
theory Tier_Select
  imports Discount
begin

text \<open>
  \<open>internal/service/pricing/tier_calculator.go\<close>: which price a request is charged by.
  A matrix cell comes first, then a tier of the sale prices, then a tier of the cost prices
  scaled by the sale/cost ratio; without any, the selection says \<open>FromTier = false\<close>.
  Also \<open>getPlatformPrice\<close> of \<open>pricing_calculator.go\<close>, the cached read of the sale
  price, with the proof that its cache meets \<open>ttl_cache\<close>.
\<close>

section \<open>The platform price\<close>

text \<open>\<open>2 * time.Minute\<close> in nanoseconds.\<close>

definition platformPriceLocalCacheTTL :: int where
  "platformPriceLocalCacheTTL = 2 * 60 * 1000000000"

definition load_platform :: "nat \<Rightarrow> int \<Rightarrow> price_caches \<Rightarrow> ModelPricing option \<times> price_caches" where
  "load_platform modelID now s =
     (case pc_platform s modelID of
        None \<Rightarrow> (None, s)
      | Some (price, expiresAt) \<Rightarrow>
          if now < expiresAt then (Some price, s)
          else (None, s\<lparr>pc_platform := (pc_platform s)(modelID := None)\<rparr>))"

definition store_platform :: "nat \<Rightarrow> ModelPricing \<Rightarrow> int \<Rightarrow> price_caches \<Rightarrow> price_caches" where
  "store_platform modelID price now s =
     s\<lparr>pc_platform := (pc_platform s)(modelID \<mapsto> (price, now + platformPriceLocalCacheTTL))\<rparr>"

definition query_platform :: "pricing_env \<Rightarrow> nat \<Rightarrow> price_error + ModelPricing" where
  "query_platform env modelID =
     (if pe_fails env QModelPricing then Inl QueryPricingFailed
      else case first_row (\<lambda>mp. (desc (mp_EffectiveFrom mp), mp_ID mp)) (pricings_of env modelID) of
             None \<Rightarrow> Inl (ModelNotPriced modelID)
           | Some mp \<Rightarrow> Inr mp)"

definition getPlatformPrice ::
  "pricing_env \<Rightarrow> int \<Rightarrow> nat \<Rightarrow> (price_caches, price_error, ModelPricing) act" where
  "getPlatformPrice env now modelID s =
     (case load_platform modelID now s of
        (Some price, s1) \<Rightarrow> (Inr price, s1)
      | (None, s1) \<Rightarrow>
          (case query_platform env modelID of
             Inl e \<Rightarrow> (Inl e, s1)
           | Inr mp \<Rightarrow> (Inr mp, store_platform modelID mp now s1)))"

section \<open>Selections\<close>

record TierPriceSelection =
  ts_InputPricePerMillion :: int64
  ts_OutputPricePerMillion :: int64
  ts_InputPriceRMB :: float64
  ts_OutputPriceRMB :: float64
  ts_OutputPriceRMBThinking :: float64
  ts_OutputPricePerMillionThinking :: int64
  ts_MatchedTier :: string
  ts_MatchedTierIdx :: int64
  ts_FromTier :: bool
  ts_SellingOverride :: bool
  ts_SellingOverrideThinking :: bool
  ts_PlatformInputPricePerMillion :: int64
  ts_PlatformOutputPricePerMillion :: int64
  ts_PlatformInputPriceRMB :: float64
  ts_PlatformOutputPriceRMB :: float64
  ts_MatrixCellDimValues :: "(string \<times> iface) list"
  ts_MatrixCellNote :: string
  ts_FromMatrix :: bool

definition zero_TierPriceSelection :: TierPriceSelection where
  "zero_TierPriceSelection =
     \<lparr>ts_InputPricePerMillion = 0, ts_OutputPricePerMillion = 0, ts_InputPriceRMB = 0,
      ts_OutputPriceRMB = 0, ts_OutputPriceRMBThinking = 0, ts_OutputPricePerMillionThinking = 0,
      ts_MatchedTier = '''', ts_MatchedTierIdx = 0, ts_FromTier = False,
      ts_SellingOverride = False, ts_SellingOverrideThinking = False,
      ts_PlatformInputPricePerMillion = 0, ts_PlatformOutputPricePerMillion = 0,
      ts_PlatformInputPriceRMB = 0, ts_PlatformOutputPriceRMB = 0,
      ts_MatrixCellDimValues = [], ts_MatrixCellNote = '''', ts_FromMatrix = False\<rparr>"

definition unmatched :: TierPriceSelection where
  "unmatched = zero_TierPriceSelection\<lparr>ts_MatchedTierIdx := - 1\<rparr>"

definition joinStrings :: "string list \<Rightarrow> string \<Rightarrow> string" where
  "joinStrings parts sep = (case parts of [] \<Rightarrow> '''' | p # ps \<Rightarrow> fold (\<lambda>q out. out @ sep @ q) ps p)"

definition or_zero :: "float64 option \<Rightarrow> float64" where
  "or_zero p = (case p of Some x \<Rightarrow> x | None \<Rightarrow> 0)"

text \<open>A per-unit price stands in for a price that is zero.\<close>

definition fill_zero :: "float64 option \<Rightarrow> float64 \<Rightarrow> float64" where
  "fill_zero per x = (case per of Some p \<Rightarrow> if x = 0 then p else x | None \<Rightarrow> x)"

definition cell_tier_name :: "pricing_env \<Rightarrow> PriceMatrixCell \<Rightarrow> string" where
  "cell_tier_name env cell =
     (if pmc_Note cell = '''' \<and> length (pmc_DimValues cell) > 0
      then ''matrix:'' @ joinStrings
             (map (\<lambda>(k, v). k @ ''='' @ sprintV env v) (pmc_DimValues cell)) '',''
      else pmc_Note cell)"

text \<open>\<open>aiModel\<close> is the row read before, the zero value when there is none.\<close>

definition buildTierSelectionFromMatrixCell ::
  "pricing_env \<Rightarrow> PriceMatrixCell option \<Rightarrow> AIModel \<Rightarrow> TierPriceSelection option" where
  "buildTierSelectionFromMatrixCell env cell_opt aiModel =
     (case cell_opt of None \<Rightarrow> None | Some cell \<Rightarrow>
      if \<not> pmc_Supported cell then None
      else
       (let sellInputRMB = fill_zero (pmc_SellingPerUnit cell) (or_zero (pmc_SellingInput cell));
            sellOutputRMB = fill_zero (pmc_SellingPerUnit cell) (or_zero (pmc_SellingOutput cell))
        in if sellInputRMB = 0 \<and> sellOutputRMB = 0 then None
           else
            (let costInputRMB = fill_zero (pmc_OfficialPerUnit cell)
                   (case pmc_OfficialInput cell of Some p \<Rightarrow> p | None \<Rightarrow> am_InputCostRMB aiModel);
                 costOutputRMB = fill_zero (pmc_OfficialPerUnit cell)
                   (case pmc_OfficialOutput cell of Some p \<Rightarrow> p | None \<Rightarrow> am_OutputCostRMB aiModel)
             in Some
               \<lparr>ts_InputPricePerMillion = RMBToCredits sellInputRMB,
                ts_OutputPricePerMillion = RMBToCredits sellOutputRMB,
                ts_InputPriceRMB = sellInputRMB, ts_OutputPriceRMB = sellOutputRMB,
                ts_OutputPriceRMBThinking = 0, ts_OutputPricePerMillionThinking = 0,
                ts_MatchedTier = cell_tier_name env cell, ts_MatchedTierIdx = 0, ts_FromTier = True,
                ts_SellingOverride = True, ts_SellingOverrideThinking = False,
                ts_PlatformInputPricePerMillion = RMBToCredits costInputRMB,
                ts_PlatformOutputPricePerMillion = RMBToCredits costOutputRMB,
                ts_PlatformInputPriceRMB = costInputRMB, ts_PlatformOutputPriceRMB = costOutputRMB,
                ts_MatrixCellDimValues = pmc_DimValues cell, ts_MatrixCellNote = pmc_Note cell,
                ts_FromMatrix = True\<rparr>)))"

text \<open>\<open>strings.EqualFold\<close> on ASCII text.\<close>

definition EqualFold :: "string \<Rightarrow> string \<Rightarrow> bool" where
  "EqualFold a b \<longleftrightarrow> map lower_char a = map lower_char b"

fun variant_loop :: "PriceTier list \<Rightarrow> string \<Rightarrow> float64 option" where
  "variant_loop [] variant = None"
| "variant_loop (t # ts) variant =
     (if EqualFold (pt_Variant t) variant \<and> pt_InputPrice t > 0 then Some (pt_InputPrice t)
      else if EqualFold (pt_Variant t) variant \<and> pt_OutputPrice t > 0 then Some (pt_OutputPrice t)
      else variant_loop ts variant)"

definition selectPriceByVariant :: "PriceTier list \<Rightarrow> string \<Rightarrow> float64 option" where
  "selectPriceByVariant tiers variant =
     (if variant = '''' \<or> length tiers = 0 then None else variant_loop tiers variant)"

fun pickFirstNonZero :: "float64 list \<Rightarrow> float64" where
  "pickFirstNonZero [] = 0"
| "pickFirstNonZero (v # vs) = (if v > 0 then v else pickFirstNonZero vs)"

section \<open>Costs beside a sale tier\<close>

definition tiers_of :: "PriceTiersData option \<Rightarrow> PriceTier list" where
  "tiers_of d = (case d of None \<Rightarrow> [] | Some x \<Rightarrow> ptd_Tiers x)"

definition scale_platform_cost ::
  "AIModel \<Rightarrow> ModelPricing \<Rightarrow> TierPriceSelection \<Rightarrow> TierPriceSelection" where
  "scale_platform_cost aiModel mp result =
     (let r1 =
        (if mp_InputPriceRMB mp > 0 \<and> am_InputCostRMB aiModel > 0 \<and> ts_InputPriceRMB result > 0
         then (let scale = fdiv (ts_InputPriceRMB result) (mp_InputPriceRMB mp);
                   costRMB = fmul (am_InputCostRMB aiModel) scale
               in result\<lparr>ts_PlatformInputPriceRMB := costRMB,
                         ts_PlatformInputPricePerMillion := RMBToCredits costRMB\<rparr>)
         else result)
      in if mp_OutputPriceRMB mp > 0 \<and> am_OutputCostRMB aiModel > 0 \<and> ts_OutputPriceRMB r1 > 0
         then (let scale = fdiv (ts_OutputPriceRMB r1) (mp_OutputPriceRMB mp);
                   costRMB = fmul (am_OutputCostRMB aiModel) scale
               in r1\<lparr>ts_PlatformOutputPriceRMB := costRMB,
                     ts_PlatformOutputPricePerMillion := RMBToCredits costRMB\<rparr>)
         else r1)"

definition fillPlatformTierCost ::
  "AIModel \<Rightarrow> ModelPricing \<Rightarrow> int64 \<Rightarrow> int64 \<Rightarrow> TierPriceSelection \<Rightarrow> TierPriceSelection" where
  "fillPlatformTierCost aiModel mp inputTokens outputTokens result =
     (case fst (SelectTierOrLargest (tiers_of (am_PriceTiers aiModel)) inputTokens outputTokens) of
        Some (_, aiTier) \<Rightarrow>
          if pt_InputPrice aiTier > 0 \<or> pt_OutputPrice aiTier > 0
          then result\<lparr>ts_PlatformInputPriceRMB := pt_InputPrice aiTier,
                      ts_PlatformOutputPriceRMB := pt_OutputPrice aiTier,
                      ts_PlatformInputPricePerMillion := RMBToCredits (pt_InputPrice aiTier),
                      ts_PlatformOutputPricePerMillion := RMBToCredits (pt_OutputPrice aiTier)\<rparr>
          else scale_platform_cost aiModel mp result
      | None \<Rightarrow> scale_platform_cost aiModel mp result)"

section \<open>The selection\<close>

definition choose_tier ::
  "PriceTier list \<Rightarrow> (string \<times> string) list \<Rightarrow> int64 \<Rightarrow> int64 \<Rightarrow> (nat \<times> PriceTier) option" where
  "choose_tier tiers dims inputTokens outputTokens =
     (if length tiers = 0 then None
      else case (if length dims > 0 then SelectTierByDims tiers dims else None) of
             Some it \<Rightarrow> Some it
           | None \<Rightarrow> fst (SelectTierOrLargest tiers inputTokens outputTokens))"

definition sale_override ::
  "ModelPricing \<Rightarrow> nat \<Rightarrow> PriceTier \<Rightarrow> TierPriceSelection" where
  "sale_override mp idx tier =
     (let inputRMB = (case pt_SellingInputPrice tier of Some p \<Rightarrow> p | None \<Rightarrow> mp_InputPriceRMB mp);
          outputRMB = (case pt_SellingOutputPrice tier of Some p \<Rightarrow> p | None \<Rightarrow> mp_OutputPriceRMB mp);
          (thinkingRMB, own) =
            (case pt_SellingOutputThinkingPrice tier of
               Some p \<Rightarrow> (p, True)
             | None \<Rightarrow>
                 if mp_OutputPriceThinkingRMB mp = 0 \<and> pt_OutputPriceThinking tier > 0
                 then (pt_OutputPriceThinking tier, False)
                 else (mp_OutputPriceThinkingRMB mp, False));
          r = unmatched\<lparr>ts_InputPriceRMB := inputRMB, ts_OutputPriceRMB := outputRMB,
                ts_InputPricePerMillion := RMBToCredits inputRMB,
                ts_OutputPricePerMillion := RMBToCredits outputRMB,
                ts_SellingOverrideThinking := own, ts_MatchedTier := pt_Name tier,
                ts_MatchedTierIdx := int idx, ts_FromTier := True, ts_SellingOverride := True\<rparr>
      in if thinkingRMB > 0
         then r\<lparr>ts_OutputPriceRMBThinking := thinkingRMB,
                ts_OutputPricePerMillionThinking := RMBToCredits thinkingRMB\<rparr>
         else r)"

definition sale_base :: "nat \<Rightarrow> PriceTier \<Rightarrow> TierPriceSelection" where
  "sale_base idx tier =
     (let r = unmatched\<lparr>ts_InputPriceRMB := pt_InputPrice tier,
                ts_OutputPriceRMB := pt_OutputPrice tier,
                ts_InputPricePerMillion := RMBToCredits (pt_InputPrice tier),
                ts_OutputPricePerMillion := RMBToCredits (pt_OutputPrice tier),
                ts_MatchedTier := pt_Name tier, ts_MatchedTierIdx := int idx,
                ts_FromTier := True\<rparr>
      in if pt_OutputPriceThinking tier > 0
         then r\<lparr>ts_OutputPriceRMBThinking := pt_OutputPriceThinking tier,
                ts_OutputPricePerMillionThinking := RMBToCredits (pt_OutputPriceThinking tier)\<rparr>
         else r)"

text \<open>Step 1: the sale tiers of the model's price row.\<close>

definition select_sale ::
  "AIModel \<Rightarrow> ModelPricing \<Rightarrow> (string \<times> string) list \<Rightarrow> int64 \<Rightarrow> int64 \<Rightarrow> TierPriceSelection option" where
  "select_sale aiModel mp dims inputTokens outputTokens =
     (case choose_tier (tiers_of (mp_PriceTiers mp)) dims inputTokens outputTokens of
        None \<Rightarrow> None
      | Some (idx, tier) \<Rightarrow>
          if pt_SellingInputPrice tier \<noteq> None \<or> pt_SellingOutputPrice tier \<noteq> None
          then Some (fillPlatformTierCost aiModel mp inputTokens outputTokens (sale_override mp idx tier))
          else if pt_InputPrice tier > 0 \<or> pt_OutputPrice tier > 0
          then Some (fillPlatformTierCost aiModel mp inputTokens outputTokens (sale_base idx tier))
          else None)"

text \<open>Step 2: the cost tiers of the model, scaled to sale prices.\<close>

definition select_cost ::
  "AIModel \<Rightarrow> ModelPricing option \<Rightarrow> (string \<times> string) list \<Rightarrow> int64 \<Rightarrow> int64 \<Rightarrow> TierPriceSelection" where
  "select_cost aiModel mp dims inputTokens outputTokens =
     (case choose_tier (tiers_of (am_PriceTiers aiModel)) dims inputTokens outputTokens of
        None \<Rightarrow> unmatched
      | Some (idx, tier) \<Rightarrow>
          if pt_InputPrice tier > 0 \<or> pt_OutputPrice tier > 0
          then
           (let inputScale = (case mp of
                  Some p \<Rightarrow> if am_InputCostRMB aiModel > 0
                            then fdiv (mp_InputPriceRMB p) (am_InputCostRMB aiModel) else 1
                | None \<Rightarrow> 1);
                outputScale = (case mp of
                  Some p \<Rightarrow> if am_OutputCostRMB aiModel > 0
                            then fdiv (mp_OutputPriceRMB p) (am_OutputCostRMB aiModel) else 1
                | None \<Rightarrow> 1);
                inputRMB = fmul (pt_InputPrice tier) inputScale;
                outputRMB = fmul (pt_OutputPrice tier) outputScale
            in unmatched\<lparr>ts_InputPriceRMB := inputRMB, ts_OutputPriceRMB := outputRMB,
                 ts_InputPricePerMillion := RMBToCredits inputRMB,
                 ts_OutputPricePerMillion := RMBToCredits outputRMB,
                 ts_MatchedTier := pt_Name tier, ts_MatchedTierIdx := int idx, ts_FromTier := True,
                 ts_PlatformInputPriceRMB := pt_InputPrice tier,
                 ts_PlatformOutputPriceRMB := pt_OutputPrice tier,
                 ts_PlatformInputPricePerMillion := RMBToCredits (pt_InputPrice tier),
                 ts_PlatformOutputPricePerMillion := RMBToCredits (pt_OutputPrice tier)\<rparr>)
          else unmatched)"

text \<open>
  The row of the model: a failed read leaves the zero value, and only \<open>not found\<close>
  (\<open>True\<close> in the second component) ends the selection before step 2.
\<close>

definition load_tier_model :: "pricing_env \<Rightarrow> nat \<Rightarrow> AIModel \<times> bool" where
  "load_tier_model env modelID =
     (if pe_fails env QTierModel then (zero_AIModel, False)
      else case pe_ai_models env modelID of None \<Rightarrow> (zero_AIModel, True) | Some m \<Rightarrow> (m, False))"

definition select_matrix ::
  "pricing_env \<Rightarrow> nat \<Rightarrow> AIModel \<Rightarrow> (string \<times> string) list \<Rightarrow> TierPriceSelection option" where
  "select_matrix env modelID aiModel dims =
     (if length dims > 0
      then case MatchCellByModelID env modelID (map (\<lambda>(k, v). (k, IStr v)) dims) of
             None \<Rightarrow> None
           | Some cell \<Rightarrow> buildTierSelectionFromMatrixCell env (Some cell) aiModel
      else None)"

definition selectPriceForTokens ::
  "pricing_env \<Rightarrow> int \<Rightarrow> nat \<Rightarrow> int64 \<Rightarrow> int64 \<Rightarrow> (string \<times> string) list \<Rightarrow>
     price_caches \<Rightarrow> TierPriceSelection \<times> price_caches" where
  "selectPriceForTokens env now modelID inputTokens outputTokens dims s =
     (let (aiModel, notFound) = load_tier_model env modelID
      in case select_matrix env modelID aiModel dims of
           Some sel \<Rightarrow> (sel, s)
         | None \<Rightarrow>
             (let (r, s1) = getPlatformPrice env now modelID s;
                  mp = (case r of Inl _ \<Rightarrow> None | Inr p \<Rightarrow> Some p)
              in case (case mp of
                         None \<Rightarrow> None
                       | Some p \<Rightarrow> select_sale aiModel p dims inputTokens outputTokens) of
                   Some sel \<Rightarrow> (sel, s1)
                 | None \<Rightarrow>
                     if notFound then (unmatched, s1)
                     else (select_cost aiModel mp dims inputTokens outputTokens, s1)))"

section \<open>The platform price cache meets the cache interface\<close>

interpretation platform: ttl_cache load_platform store_platform platformPriceLocalCacheTTL
proof
  fix k t k' t' and s :: price_caches and v :: ModelPricing
  assume "fst (load_platform k' t' (snd (load_platform k t s))) = Some v"
  then show "fst (load_platform k' t' s) = Some v"
    by (auto simp: load_platform_def split: option.splits if_splits)
next
  fix k t k' t' and s :: price_caches and v w :: ModelPricing
  assume "fst (load_platform k' t' (store_platform k v t s)) = Some w"
  then show "k' = k \<and> w = v \<or> fst (load_platform k' t' s) = Some w"
    by (auto simp: load_platform_def store_platform_def split: option.splits if_splits)
next
  fix k t' t and s :: price_caches and v :: ModelPricing
  assume "t' < t + platformPriceLocalCacheTTL"
  then show "fst (load_platform k t' (store_platform k v t s)) = Some v"
    by (simp add: load_platform_def store_platform_def)
qed

text \<open>Every cached price is the one the tables give.\<close>

abbreviation prices_fresh :: "pricing_env \<Rightarrow> price_caches \<Rightarrow> bool" where
  "prices_fresh env \<equiv> platform.coherent (\<lambda>m mp. query_platform env m = Inr mp)"

lemma prices_fresh_iff:
  "prices_fresh env s \<longleftrightarrow> (\<forall>m mp e. pc_platform s m = Some (mp, e) \<longrightarrow> query_platform env m = Inr mp)"
proof
  assume a: "prices_fresh env s"
  show "\<forall>m mp e. pc_platform s m = Some (mp, e) \<longrightarrow> query_platform env m = Inr mp"
  proof (intro allI impI)
    fix m mp e
    assume "pc_platform s m = Some (mp, e)"
    then have "load_platform m (e - 1) s = (Some mp, s)" by (simp add: load_platform_def)
    then show "query_platform env m = Inr mp" using platform.coherent_hit [OF a] by blast
  qed
next
  assume "\<forall>m mp e. pc_platform s m = Some (mp, e) \<longrightarrow> query_platform env m = Inr mp"
  then show "prices_fresh env s"
    unfolding platform.coherent_def load_platform_def by (auto split: option.splits if_splits)
qed

lemma prices_fresh_cong:
  "pc_platform s' = pc_platform s \<Longrightarrow> prices_fresh env s' = prices_fresh env s"
  by (simp add: prices_fresh_iff)

lemma getPlatformPrice_fresh:
  assumes "prices_fresh env s"
  shows "fst (getPlatformPrice env now m s) = query_platform env m"
    and "prices_fresh env (snd (getPlatformPrice env now m s))"
proof -
  obtain r s1 where l: "load_platform m now s = (r, s1)" by fastforce
  have s1: "prices_fresh env s1" using platform.coherent_get [OF assms, of m now] l by simp
  show "fst (getPlatformPrice env now m s) = query_platform env m"
    using platform.coherent_hit [OF assms] l
    by (cases r) (auto simp: getPlatformPrice_def split: sum.splits)
  show "prices_fresh env (snd (getPlatformPrice env now m s))"
    using l s1 platform.coherent_put [OF s1]
    by (cases r) (auto simp: getPlatformPrice_def split: sum.splits)
qed

lemma getPlatformPrice_frame:
  "pc_miss (snd (getPlatformPrice env now m s)) = pc_miss s"
  "pc_redis (snd (getPlatformPrice env now m s)) = pc_redis s"
  by (auto simp: getPlatformPrice_def load_platform_def store_platform_def split: option.splits sum.splits)

text \<open>A read right after a successful one gives the same row, whatever the tables became.\<close>

lemma getPlatformPrice_again:
  assumes "getPlatformPrice env now m s = (Inr mp, s1)"
  shows "getPlatformPrice env' now m s1 = (Inr mp, s1)"
  using assms
  by (auto simp: getPlatformPrice_def load_platform_def store_platform_def platformPriceLocalCacheTTL_def
      split: option.splits sum.splits if_splits)

lemma selectPriceForTokens_fresh:
  assumes "prices_fresh env s"
  shows "prices_fresh env (snd (selectPriceForTokens env now m i out dims s))"
  using getPlatformPrice_fresh(2) [OF assms, of now m] assms
  by (auto simp: selectPriceForTokens_def Let_def split: prod.splits option.splits)

section \<open>Lemmas on the selection\<close>

lemma fst_SelectTierOrLargest:
  "fst (SelectTierOrLargest ts i out) = Some (k, t) \<longleftrightarrow> (\<exists>f. SelectTierOrLargest ts i out = (Some (k, t), f))"
  by (cases "SelectTierOrLargest ts i out") auto

lemma choose_tier_None: "choose_tier ts dims i out = None \<longleftrightarrow> ts = []"
proof (cases "ts = []")
  case False
  then obtain k t f where "SelectTierOrLargest ts i out = (Some (k, t), f)"
    using SelectTierOrLargest_total by blast
  with False show ?thesis by (simp add: choose_tier_def split: option.splits)
qed (simp add: choose_tier_def)

lemma choose_tier_mem:
  assumes "choose_tier ts dims i out = Some (k, t)"
  shows "k < length ts" "ts ! k = t" "t \<in> set ts"
proof -
  have c: "SelectTierByDims ts dims = Some (k, t) \<or> (\<exists>f. SelectTierOrLargest ts i out = (Some (k, t), f))"
    using assms
    by (auto simp: choose_tier_def fst_SelectTierOrLargest split: option.splits if_splits)
  have d: "SelectTierByDims ts dims = Some (k, t) \<Longrightarrow> k < length ts \<and> ts ! k = t"
    by (auto simp: SelectTierByDims_def find_idx_Some split: if_splits)
  show "k < length ts" "ts ! k = t"
    using c d SelectTierOrLargest_mem(1,2) by blast+
  then show "t \<in> set ts" by auto
qed

lemma scale_platform_cost_keeps [simp]:
  "ts_FromTier (scale_platform_cost a mp r) = ts_FromTier r"
  "ts_SellingOverride (scale_platform_cost a mp r) = ts_SellingOverride r"
  "ts_InputPriceRMB (scale_platform_cost a mp r) = ts_InputPriceRMB r"
  "ts_OutputPriceRMB (scale_platform_cost a mp r) = ts_OutputPriceRMB r"
  "ts_InputPricePerMillion (scale_platform_cost a mp r) = ts_InputPricePerMillion r"
  "ts_OutputPricePerMillion (scale_platform_cost a mp r) = ts_OutputPricePerMillion r"
  "ts_MatchedTierIdx (scale_platform_cost a mp r) = ts_MatchedTierIdx r"
  "ts_FromMatrix (scale_platform_cost a mp r) = ts_FromMatrix r"
  by (simp_all add: scale_platform_cost_def Let_def)

lemma fillPlatformTierCost_keeps [simp]:
  "ts_FromTier (fillPlatformTierCost a mp i out r) = ts_FromTier r"
  "ts_SellingOverride (fillPlatformTierCost a mp i out r) = ts_SellingOverride r"
  "ts_InputPriceRMB (fillPlatformTierCost a mp i out r) = ts_InputPriceRMB r"
  "ts_OutputPriceRMB (fillPlatformTierCost a mp i out r) = ts_OutputPriceRMB r"
  "ts_InputPricePerMillion (fillPlatformTierCost a mp i out r) = ts_InputPricePerMillion r"
  "ts_OutputPricePerMillion (fillPlatformTierCost a mp i out r) = ts_OutputPricePerMillion r"
  "ts_MatchedTierIdx (fillPlatformTierCost a mp i out r) = ts_MatchedTierIdx r"
  "ts_FromMatrix (fillPlatformTierCost a mp i out r) = ts_FromMatrix r"
  by (simp_all add: fillPlatformTierCost_def split: option.splits prod.splits)

lemma sale_override_simps [simp]:
  "ts_FromTier (sale_override mp k t)" "ts_SellingOverride (sale_override mp k t)"
  "ts_MatchedTierIdx (sale_override mp k t) = int k"
  "\<not> ts_FromMatrix (sale_override mp k t)"
  "ts_InputPriceRMB (sale_override mp k t) =
     (case pt_SellingInputPrice t of Some p \<Rightarrow> p | None \<Rightarrow> mp_InputPriceRMB mp)"
  "ts_OutputPriceRMB (sale_override mp k t) =
     (case pt_SellingOutputPrice t of Some p \<Rightarrow> p | None \<Rightarrow> mp_OutputPriceRMB mp)"
  by (simp_all add: sale_override_def Let_def unmatched_def zero_TierPriceSelection_def
      split: prod.splits)

lemma sale_base_simps [simp]:
  "ts_FromTier (sale_base k t)" "\<not> ts_SellingOverride (sale_base k t)"
  "ts_MatchedTierIdx (sale_base k t) = int k" "\<not> ts_FromMatrix (sale_base k t)"
  "ts_InputPriceRMB (sale_base k t) = pt_InputPrice t"
  "ts_OutputPriceRMB (sale_base k t) = pt_OutputPrice t"
  by (simp_all add: sale_base_def Let_def unmatched_def zero_TierPriceSelection_def)

text \<open>Every selection that counts has the prices in credits rounded from the prices in RMB.\<close>

definition credits_agree :: "TierPriceSelection \<Rightarrow> bool" where
  "credits_agree r \<longleftrightarrow>
     ts_InputPricePerMillion r = RMBToCredits (ts_InputPriceRMB r) \<and>
     ts_OutputPricePerMillion r = RMBToCredits (ts_OutputPriceRMB r)"

lemma RMBToCredits_0 [simp]: "RMBToCredits 0 = 0"
  by (simp add: RMBToCredits_def fmul_def)

lemma credits_agree_unmatched: "credits_agree unmatched"
  by (simp add: credits_agree_def unmatched_def zero_TierPriceSelection_def)

lemma credits_agree_sale:
  "credits_agree (sale_override mp k t)" "credits_agree (sale_base k t)"
  by (simp_all add: credits_agree_def sale_override_def sale_base_def Let_def unmatched_def
      zero_TierPriceSelection_def split: prod.splits)

lemma credits_agree_fill: "credits_agree (fillPlatformTierCost a mp i out r) = credits_agree r"
  by (simp add: credits_agree_def)

lemma credits_agree_cell:
  assumes "buildTierSelectionFromMatrixCell env c a = Some r"
  shows "credits_agree r" "ts_FromTier r" "ts_SellingOverride r" "ts_FromMatrix r"
  using assms
  by (auto simp: credits_agree_def buildTierSelectionFromMatrixCell_def Let_def
      split: option.split_asm [where option = c] if_split_asm)

lemma credits_agree_cost: "credits_agree (select_cost a pm dims i out)"
proof (cases "choose_tier (tiers_of (am_PriceTiers a)) dims i out")
  case (Some it)
  then show ?thesis
    by (cases it; cases "pt_InputPrice (snd it) > 0 \<or> pt_OutputPrice (snd it) > 0"; unfold select_cost_def Let_def)
      (use credits_agree_unmatched in \<open>simp_all add: credits_agree_def\<close>)
qed (simp add: select_cost_def credits_agree_unmatched)

lemma select_matrix_Some:
  assumes "select_matrix env m a dims = Some r"
  shows "credits_agree r" "ts_FromTier r" "ts_SellingOverride r" "ts_FromMatrix r"
  using assms credits_agree_cell by (auto simp: select_matrix_def split: option.splits if_splits)

lemma select_sale_Some:
  assumes "select_sale a mp dims i out = Some r"
  shows "credits_agree r" "ts_FromTier r"
  using assms by (auto simp: select_sale_def credits_agree_fill credits_agree_sale split: option.splits if_splits)

text \<open>The three sources of a selection.\<close>

lemma selectPriceForTokens_cases:
  obtains (matrix) "select_matrix env m (fst (load_tier_model env m)) dims = Some (fst (selectPriceForTokens env now m i out dims s))"
  | (sale) mp where "fst (getPlatformPrice env now m s) = Inr mp"
      "select_sale (fst (load_tier_model env m)) mp dims i out = Some (fst (selectPriceForTokens env now m i out dims s))"
  | (cost) mp where "fst (selectPriceForTokens env now m i out dims s) = select_cost (fst (load_tier_model env m)) mp dims i out"
  | (none) "fst (selectPriceForTokens env now m i out dims s) = unmatched"
proof (cases "select_matrix env m (fst (load_tier_model env m)) dims")
  case (Some r)
  then show ?thesis using matrix by (simp add: selectPriceForTokens_def split_def)
next
  case None
  then show ?thesis using sale cost none
    by (cases "fst (getPlatformPrice env now m s)")
      (fastforce simp: selectPriceForTokens_def split_def Let_def split: option.splits if_splits)+
qed

lemma credits_agree_select: "credits_agree (fst (selectPriceForTokens env now m i out dims s))"
  by (rule selectPriceForTokens_cases [of env m dims now i out s])
    (auto simp: select_matrix_Some select_sale_Some credits_agree_cost credits_agree_unmatched)

end
