(* ===== verification/Pricing.thy ===== *)
theory Pricing
  imports Tier_Select
begin

text \<open>
  The price calculator: \<open>internal/service/pricing/pricing_calculator.go\<close> and
  \<open>video_calculator.go\<close>. Each public method is an action over \<open>price_caches\<close>; the
  tables and the answers of Redis (\<open>pe_redis_get\<close>) are in the environment and one reading
  of the clock (\<open>now\<close>) serves a whole call. \<open>CalculateCostWithDims\<close> is split along its
  own comments: the user's prices (\<open>price_by_tier\<close>, \<open>price_by_list\<close>), the platform's
  cost (\<open>platform_cost\<close>), and the result (\<open>cost_result\<close>).
\<close>

section \<open>Data\<close>

record CostResult =
  cr_InputCost :: int64
  cr_OutputCost :: int64
  cr_TotalCost :: int64
  cr_TotalCostRMB :: float64
  cr_PlatformCost :: int64
  cr_PriceDetail :: PriceResult
  cr_InputCostUnits :: int64
  cr_OutputCostUnits :: int64
  cr_TotalCostUnits :: int64
  cr_PlatformCostUnits :: int64
  cr_MatchedTier :: string
  cr_MatchedTierIdx :: int64
  cr_CacheReadTokens :: int64
  cr_CacheWriteTokens :: int64
  cr_CacheWrite1hTokens :: int64
  cr_RegularInputTokens :: int64
  cr_CacheReadPricePerMillion :: int64
  cr_CacheWritePricePerMillion :: int64
  cr_CacheWrite1hPricePerMillion :: int64
  cr_CacheReadCost :: int64
  cr_CacheWriteCost :: int64
  cr_RegularInputCost :: int64
  cr_CacheSavingCredits :: int64
  cr_CacheReadCostUnits :: int64
  cr_CacheWriteCostUnits :: int64
  cr_RegularInputCostUnits :: int64
  cr_CacheSavingUnits :: int64
  cr_ThinkingOutputCost :: int64
  cr_ThinkingOutputCostUnits :: int64
  cr_ThinkingOutputPriceRMB :: float64
  cr_ThinkingOutputPricePerMillion :: int64
  cr_UserDiscountID :: "nat option"
  cr_UserDiscountRate :: "float64 option"
  cr_UserDiscountType :: string
  cr_SupplierID :: nat
  cr_SupplierDiscount :: float64
  cr_EffectiveInputCostRMB :: float64
  cr_EffectiveOutputCostRMB :: float64
  cr_MatchedDimValues :: "(string \<times> iface) list option"
  cr_MatchedMatrixCellNote :: string

definition zero_CostResult :: CostResult where
  "zero_CostResult =
     \<lparr>cr_InputCost = 0, cr_OutputCost = 0, cr_TotalCost = 0, cr_TotalCostRMB = 0,
      cr_PlatformCost = 0, cr_PriceDetail = zero_PriceResult, cr_InputCostUnits = 0,
      cr_OutputCostUnits = 0, cr_TotalCostUnits = 0, cr_PlatformCostUnits = 0,
      cr_MatchedTier = '''', cr_MatchedTierIdx = 0, cr_CacheReadTokens = 0,
      cr_CacheWriteTokens = 0, cr_CacheWrite1hTokens = 0, cr_RegularInputTokens = 0,
      cr_CacheReadPricePerMillion = 0, cr_CacheWritePricePerMillion = 0,
      cr_CacheWrite1hPricePerMillion = 0, cr_CacheReadCost = 0, cr_CacheWriteCost = 0,
      cr_RegularInputCost = 0, cr_CacheSavingCredits = 0, cr_CacheReadCostUnits = 0,
      cr_CacheWriteCostUnits = 0, cr_RegularInputCostUnits = 0, cr_CacheSavingUnits = 0,
      cr_ThinkingOutputCost = 0, cr_ThinkingOutputCostUnits = 0, cr_ThinkingOutputPriceRMB = 0,
      cr_ThinkingOutputPricePerMillion = 0, cr_UserDiscountID = None,
      cr_UserDiscountRate = None, cr_UserDiscountType = '''', cr_SupplierID = 0,
      cr_SupplierDiscount = 0, cr_EffectiveInputCostRMB = 0, cr_EffectiveOutputCostRMB = 0,
      cr_MatchedDimValues = None, cr_MatchedMatrixCellNote = ''''\<rparr>"

record UsageInput =
  ui_InputTokens :: int64
  ui_OutputTokens :: int64
  ui_ImageCount :: int64
  ui_CharCount :: int64
  ui_DurationSec :: float64
  ui_CallCount :: int64
  ui_Variant :: string
  ui_Dimensions :: "(string \<times> string) list"

record CacheUsageInput =
  cu_InputTokens :: int64
  cu_OutputTokens :: int64
  cu_CacheReadTokens :: int64
  cu_CacheWriteTokens :: int64
  cu_CacheWrite1hTokens :: int64

record VideoUsageInput =
  vu_InputVideoSeconds :: float64
  vu_OutputVideoSeconds :: float64
  vu_VideoWidth :: int64
  vu_VideoHeight :: int64
  vu_VideoFPS :: int64
  vu_IsDraft :: bool
  vu_HasAudio :: bool
  vu_HasInputVideo :: bool

type_synonym 'a pricing = "(price_caches, price_error, 'a) act"

section \<open>Prices\<close>

definition tokenCostUnits :: "int64 \<Rightarrow> float64 \<Rightarrow> int64 \<Rightarrow> int64" where
  "tokenCostUnits priceCreditsPerMillion priceRMBPerMillion tokens =
     (if tokens \<le> 0 then 0
      else if priceRMBPerMillion > 0 then CostUnitsFromRMBPerMillion priceRMBPerMillion tokens
      else CostUnitsFromCreditsPerMillion priceCreditsPerMillion tokens)"

definition legacyCreditsFromUnits :: "int64 \<Rightarrow> int64" where
  "legacyCreditsFromUnits units = BillingUnitsToCredits units"

definition cacheResult :: "price_key \<Rightarrow> PriceResult \<Rightarrow> unit pricing" where
  "cacheResult key result = modify (\<lambda>s. s\<lparr>pc_redis := pc_redis s @ [(key, result)]\<rparr>)"

definition CalculatePrice ::
  "pricing_env \<Rightarrow> (price_key \<Rightarrow> PriceResult option) \<Rightarrow> int \<Rightarrow> nat \<Rightarrow> nat \<Rightarrow> nat \<Rightarrow> int64 \<Rightarrow> PriceResult pricing" where
  "CalculatePrice env redis_get now userID modelID tenantID agentLevel =
     (let key = (userID, modelID, tenantID, agentLevel)
      in if modelID = 0 then fail ModelIDZero
         else case redis_get key of
                Some cached \<Rightarrow> ret cached
              | None \<Rightarrow>
                  andThen (getPlatformPrice env now modelID) (\<lambda>platformPrice.
                    if tenantID = 0 \<and> userID = 0
                    then (let result = \<lparr>pr_InputPricePerMillion = mp_InputPricePerToken platformPrice,
                                  pr_OutputPricePerMillion = mp_OutputPricePerToken platformPrice,
                                  pr_InputPriceRMB = mp_InputPriceRMB platformPrice,
                                  pr_OutputPriceRMB = mp_OutputPriceRMB platformPrice,
                                  pr_Currency = mp_Currency platformPrice,
                                  pr_Source = ''platform'', pr_DiscountInfo = ''''\<rparr>
                          in andThen (cacheResult key result) (\<lambda>_. ret result))
                    else
                      andThen (ResolveDiscount env now userID tenantID modelID agentLevel) (\<lambda>discount.
                        (let result = applyDiscount env platformPrice discount
                         in andThen (cacheResult key result) (\<lambda>_. ret result)))))"

text \<open>The variables \<open>CalculateCostWithDims\<close> fills before it computes.\<close>

record cost_vars =
  cv_inputPerMillion :: int64
  cv_outputPerMillion :: int64
  cv_inputPriceRMB :: float64
  cv_outputPriceRMB :: float64
  cv_source :: string
  cv_matchedTier :: string
  cv_matchedTierIdx :: int64
  cv_userDiscountID :: "nat option"
  cv_userDiscountRate :: "float64 option"
  cv_userDiscountType :: string

definition tier_vars :: "TierPriceSelection \<Rightarrow> cost_vars" where
  "tier_vars sel =
     \<lparr>cv_inputPerMillion = ts_InputPricePerMillion sel, cv_outputPerMillion = ts_OutputPricePerMillion sel,
      cv_inputPriceRMB = ts_InputPriceRMB sel, cv_outputPriceRMB = ts_OutputPriceRMB sel,
      cv_source = ''platform+tier'', cv_matchedTier = ts_MatchedTier sel,
      cv_matchedTierIdx = ts_MatchedTierIdx sel, cv_userDiscountID = None,
      cv_userDiscountRate = None, cv_userDiscountType = ''''\<rparr>"

definition stamp_user_discount :: "DiscountResult \<Rightarrow> cost_vars \<Rightarrow> cost_vars" where
  "stamp_user_discount d v =
     (if dr_UserDiscountID d \<noteq> None
      then v\<lparr>cv_userDiscountID := dr_UserDiscountID d, cv_userDiscountRate := dr_UserDiscountRate d,
             cv_userDiscountType := dr_UserDiscountType d\<rparr>
      else v)"

text \<open>A discount on a tier price: only \<open>DISCOUNT\<close> when the tier has its own sale price.\<close>

definition discount_override :: "DiscountResult \<Rightarrow> cost_vars \<Rightarrow> cost_vars" where
  "discount_override d v =
     (let v1 = (if dr_PricingType d = ''DISCOUNT'' \<and> dr_InputDiscount d > 0
                then v\<lparr>cv_inputPerMillion := f2i (fmul (i2f (cv_inputPerMillion v)) (dr_InputDiscount d)),
                       cv_inputPriceRMB := fmul (cv_inputPriceRMB v) (dr_InputDiscount d),
                       cv_source := ''agent_discount+tier''\<rparr>
                else v)
      in if dr_PricingType d = ''DISCOUNT'' \<and> dr_OutputDiscount d > 0
         then v1\<lparr>cv_outputPerMillion := f2i (fmul (i2f (cv_outputPerMillion v1)) (dr_OutputDiscount d)),
                 cv_outputPriceRMB := fmul (cv_outputPriceRMB v1) (dr_OutputDiscount d)\<rparr>
         else v1)"

definition discount_base ::
  "pricing_env \<Rightarrow> ModelPricing \<Rightarrow> DiscountResult \<Rightarrow> cost_vars \<Rightarrow> cost_vars" where
  "discount_base env platformPrice d v =
     (let tierAsPlatform = zero_ModelPricing\<lparr>mp_InputPricePerToken := cv_inputPerMillion v,
                mp_OutputPricePerToken := cv_outputPerMillion v,
                mp_InputPriceRMB := cv_inputPriceRMB v, mp_OutputPriceRMB := cv_outputPriceRMB v,
                mp_Currency := mp_Currency platformPrice\<rparr>;
          adjusted = applyDiscount env tierAsPlatform d
      in v\<lparr>cv_inputPerMillion := pr_InputPricePerMillion adjusted,
           cv_outputPerMillion := pr_OutputPricePerMillion adjusted,
           cv_inputPriceRMB := pr_InputPriceRMB adjusted,
           cv_outputPriceRMB := pr_OutputPriceRMB adjusted,
           cv_source := pr_Source adjusted @ ''+tier''\<rparr>)"

definition apply_to_tier ::
  "pricing_env \<Rightarrow> ModelPricing \<Rightarrow> TierPriceSelection \<Rightarrow> DiscountResult option \<Rightarrow> cost_vars" where
  "apply_to_tier env platformPrice sel discount =
     (case discount of
        None \<Rightarrow> tier_vars sel
      | Some d \<Rightarrow>
          if dr_Type d = ''none'' then tier_vars sel
          else (let v = stamp_user_discount d (tier_vars sel)
                in if ts_SellingOverride sel then discount_override d v
                   else discount_base env platformPrice d v))"

definition price_by_tier ::
  "pricing_env \<Rightarrow> int \<Rightarrow> ModelPricing \<Rightarrow> TierPriceSelection \<Rightarrow> nat \<Rightarrow> nat \<Rightarrow> nat \<Rightarrow> int64 \<Rightarrow> cost_vars pricing" where
  "price_by_tier env now platformPrice sel userID modelID tenantID agentLevel =
     (if tenantID > 0 \<or> userID > 0
      then andThen (attempt (ResolveDiscount env now userID tenantID modelID agentLevel))
             (\<lambda>discount. ret (apply_to_tier env platformPrice sel discount))
      else ret (tier_vars sel))"

definition price_by_list ::
  "pricing_env \<Rightarrow> (price_key \<Rightarrow> PriceResult option) \<Rightarrow> int \<Rightarrow> nat \<Rightarrow> nat \<Rightarrow> nat \<Rightarrow> int64 \<Rightarrow> cost_vars pricing" where
  "price_by_list env redis_get now userID modelID tenantID agentLevel =
     andThen (CalculatePrice env redis_get now userID modelID tenantID agentLevel) (\<lambda>pr.
       (let v = \<lparr>cv_inputPerMillion = pr_InputPricePerMillion pr,
                 cv_outputPerMillion = pr_OutputPricePerMillion pr,
                 cv_inputPriceRMB = pr_InputPriceRMB pr, cv_outputPriceRMB = pr_OutputPriceRMB pr,
                 cv_source = pr_Source pr, cv_matchedTier = '''', cv_matchedTierIdx = - 1,
                 cv_userDiscountID = None, cv_userDiscountRate = None, cv_userDiscountType = ''''\<rparr>
        in if userID > 0
           then andThen (attempt (ResolveDiscount env now userID tenantID modelID agentLevel))
                  (\<lambda>discount. ret (case discount of None \<Rightarrow> v | Some d \<Rightarrow> stamp_user_discount d v))
           else ret v))"

section \<open>Costs\<close>

text \<open>Lines 380 to 403: the supplier's discount on the model's cost.\<close>

record platform_side =
  ps_supplierID :: nat
  ps_supplierDiscount :: float64
  ps_effectiveInputCostRMB :: float64
  ps_effectiveOutputCostRMB :: float64

definition supplier_side :: "pricing_env \<Rightarrow> nat \<Rightarrow> platform_side" where
  "supplier_side env modelID =
     (let aiModel = (if pe_fails env QCostModel then zero_AIModel
                     else case pe_ai_models env modelID of None \<Rightarrow> zero_AIModel | Some m \<Rightarrow> m);
          supplierID = am_SupplierID aiModel;
          supplierDiscount =
            (if supplierID > 0 \<and> \<not> pe_fails env QSupplier
             then (case pe_supplier_discount env supplierID of
                     None \<Rightarrow> 1
                   | Some d \<Rightarrow> if d > 0 \<and> d \<le> 10 then d else 1)
             else 1)
      in \<lparr>ps_supplierID = supplierID, ps_supplierDiscount = supplierDiscount,
          ps_effectiveInputCostRMB = fmul (am_InputCostRMB aiModel) supplierDiscount,
          ps_effectiveOutputCostRMB = fmul (am_OutputCostRMB aiModel) supplierDiscount\<rparr>)"

definition platform_cost :: "platform_side \<Rightarrow> TierPriceSelection \<Rightarrow> int64 \<Rightarrow> int64 \<Rightarrow> int64" where
  "platform_cost ps sel inputTokens outputTokens =
     (let inputUnit = (if ts_FromTier sel \<and> ts_PlatformInputPricePerMillion sel > 0
                       then ts_PlatformInputPricePerMillion sel
                       else RMBToCredits (ps_effectiveInputCostRMB ps));
          outputUnit = (if ts_FromTier sel \<and> ts_PlatformOutputPricePerMillion sel > 0
                        then ts_PlatformOutputPricePerMillion sel
                        else RMBToCredits (ps_effectiveOutputCostRMB ps))
      in add64 (CostUnitsFromCreditsPerMillion inputUnit inputTokens)
               (CostUnitsFromCreditsPerMillion outputUnit outputTokens))"

text \<open>A call that costs nothing although a price is set is charged one unit.\<close>

definition min_charge :: "int64 \<Rightarrow> bool \<Rightarrow> int64" where
  "min_charge totalCostUnits chargeable = (if totalCostUnits = 0 \<and> chargeable then 1 else totalCostUnits)"

definition stamp_matrix :: "TierPriceSelection \<Rightarrow> CostResult \<Rightarrow> CostResult" where
  "stamp_matrix sel result =
     (if ts_FromMatrix sel
      then (let src = pr_Source (cr_PriceDetail result)
            in result\<lparr>cr_MatchedDimValues := Some (ts_MatrixCellDimValues sel),
                 cr_MatchedMatrixCellNote := ts_MatrixCellNote sel,
                 cr_PriceDetail := (cr_PriceDetail result)\<lparr>pr_Source :=
                   (if src = '''' \<or> src = ''platform'' then ''price_matrix''
                    else src @ ''+matrix'')\<rparr>\<rparr>)
      else result)"

definition cost_result ::
  "ModelPricing \<Rightarrow> TierPriceSelection \<Rightarrow> cost_vars \<Rightarrow> platform_side \<Rightarrow> int64 \<Rightarrow> int64 \<Rightarrow> CostResult" where
  "cost_result platformPrice sel v ps inputTokens outputTokens =
     (let inputCostUnits = tokenCostUnits (cv_inputPerMillion v) (cv_inputPriceRMB v) inputTokens;
          outputCostUnits = tokenCostUnits (cv_outputPerMillion v) (cv_outputPriceRMB v) outputTokens;
          platformCostUnits = platform_cost ps sel inputTokens outputTokens;
          totalCostUnits = min_charge (add64 inputCostUnits outputCostUnits)
            ((inputTokens > 0 \<or> outputTokens > 0) \<and>
             (cv_inputPerMillion v > 0 \<or> cv_outputPerMillion v > 0))
      in stamp_matrix sel
           (zero_CostResult\<lparr>cr_InputCost := legacyCreditsFromUnits inputCostUnits,
             cr_OutputCost := legacyCreditsFromUnits outputCostUnits,
             cr_TotalCost := legacyCreditsFromUnits totalCostUnits,
             cr_TotalCostRMB := BillingUnitsToRMB totalCostUnits,
             cr_PlatformCost := legacyCreditsFromUnits platformCostUnits,
             cr_InputCostUnits := inputCostUnits, cr_OutputCostUnits := outputCostUnits,
             cr_TotalCostUnits := totalCostUnits, cr_PlatformCostUnits := platformCostUnits,
             cr_PriceDetail := \<lparr>pr_InputPricePerMillion = cv_inputPerMillion v,
               pr_OutputPricePerMillion = cv_outputPerMillion v,
               pr_InputPriceRMB = cv_inputPriceRMB v, pr_OutputPriceRMB = cv_outputPriceRMB v,
               pr_Currency = mp_Currency platformPrice, pr_Source = cv_source v,
               pr_DiscountInfo = ''''\<rparr>,
             cr_MatchedTier := cv_matchedTier v, cr_MatchedTierIdx := cv_matchedTierIdx v,
             cr_RegularInputTokens := inputTokens, cr_UserDiscountID := cv_userDiscountID v,
             cr_UserDiscountRate := cv_userDiscountRate v,
             cr_UserDiscountType := cv_userDiscountType v, cr_SupplierID := ps_supplierID ps,
             cr_SupplierDiscount := ps_supplierDiscount ps,
             cr_EffectiveInputCostRMB := ps_effectiveInputCostRMB ps,
             cr_EffectiveOutputCostRMB := ps_effectiveOutputCostRMB ps\<rparr>))"

definition CalculateCostWithDims ::
  "pricing_env \<Rightarrow> (price_key \<Rightarrow> PriceResult option) \<Rightarrow> int \<Rightarrow> nat \<Rightarrow> nat \<Rightarrow> nat \<Rightarrow> int64 \<Rightarrow>
     int64 \<Rightarrow> int64 \<Rightarrow> (string \<times> string) list \<Rightarrow> CostResult pricing" where
  "CalculateCostWithDims env redis_get now userID modelID tenantID agentLevel inputTokens0 outputTokens0 dims =
     (let inputTokens = (if inputTokens0 < 0 then 0 else inputTokens0);
          outputTokens = (if outputTokens0 < 0 then 0 else outputTokens0)
      in andThen (getPlatformPrice env now modelID) (\<lambda>platformPrice.
         andThen (total (selectPriceForTokens env now modelID inputTokens outputTokens dims)) (\<lambda>sel.
         andThen
           (if ts_FromTier sel
            then price_by_tier env now platformPrice sel userID modelID tenantID agentLevel
            else price_by_list env redis_get now userID modelID tenantID agentLevel)
           (\<lambda>v. ret (cost_result platformPrice sel v (supplier_side env modelID)
                        inputTokens outputTokens)))))"

definition CalculateCost ::
  "pricing_env \<Rightarrow> (price_key \<Rightarrow> PriceResult option) \<Rightarrow> int \<Rightarrow> nat \<Rightarrow> nat \<Rightarrow> nat \<Rightarrow> int64 \<Rightarrow>
     int64 \<Rightarrow> int64 \<Rightarrow> CostResult pricing" where
  "CalculateCost env redis_get now userID modelID tenantID agentLevel inputTokens outputTokens =
     CalculateCostWithDims env redis_get now userID modelID tenantID agentLevel inputTokens outputTokens []"

section \<open>Lemmas on the amounts\<close>

lemma in64_parts [simp, intro]:
  "in64 (tokenCostUnits p r n)" "in64 (CostUnitsFromCreditsPerMillion p n)"
  by (simp_all add: tokenCostUnits_def CostUnitsFromRMBPerMillion_def CostUnitsFromCreditsPerMillion_def
      in64_MulDivRound in64_def [of 0])

lemma tokenCostUnits_0 [simp]: "tokenCostUnits p r 0 = 0"
  by (simp add: tokenCostUnits_def)

lemma min_charge_cases:
  "min_charge u b = u \<or> (u = 0 \<and> b \<and> min_charge u b = 1)"
  by (simp add: min_charge_def)

lemma stamp_matrix_units [simp]:
  "cr_InputCostUnits (stamp_matrix sel r) = cr_InputCostUnits r"
  "cr_OutputCostUnits (stamp_matrix sel r) = cr_OutputCostUnits r"
  "cr_TotalCostUnits (stamp_matrix sel r) = cr_TotalCostUnits r"
  "cr_TotalCost (stamp_matrix sel r) = cr_TotalCost r"
  "cr_PlatformCostUnits (stamp_matrix sel r) = cr_PlatformCostUnits r"
  "pr_InputPricePerMillion (cr_PriceDetail (stamp_matrix sel r)) = pr_InputPricePerMillion (cr_PriceDetail r)"
  "pr_OutputPricePerMillion (cr_PriceDetail (stamp_matrix sel r)) = pr_OutputPricePerMillion (cr_PriceDetail r)"
  "pr_InputPriceRMB (cr_PriceDetail (stamp_matrix sel r)) = pr_InputPriceRMB (cr_PriceDetail r)"
  "pr_OutputPriceRMB (cr_PriceDetail (stamp_matrix sel r)) = pr_OutputPriceRMB (cr_PriceDetail r)"
  by (simp_all add: stamp_matrix_def Let_def)

lemma cost_result_simps [simp]:
  "cr_InputCostUnits (cost_result p sel v ps i out) = tokenCostUnits (cv_inputPerMillion v) (cv_inputPriceRMB v) i"
  "cr_OutputCostUnits (cost_result p sel v ps i out) = tokenCostUnits (cv_outputPerMillion v) (cv_outputPriceRMB v) out"
  "cr_TotalCostUnits (cost_result p sel v ps i out) =
     min_charge (add64 (tokenCostUnits (cv_inputPerMillion v) (cv_inputPriceRMB v) i)
                       (tokenCostUnits (cv_outputPerMillion v) (cv_outputPriceRMB v) out))
       ((i > 0 \<or> out > 0) \<and> (cv_inputPerMillion v > 0 \<or> cv_outputPerMillion v > 0))"
  "cr_TotalCost (cost_result p sel v ps i out) =
     BillingUnitsToCredits (cr_TotalCostUnits (cost_result p sel v ps i out))"
  "pr_InputPricePerMillion (cr_PriceDetail (cost_result p sel v ps i out)) = cv_inputPerMillion v"
  "pr_OutputPricePerMillion (cr_PriceDetail (cost_result p sel v ps i out)) = cv_outputPerMillion v"
  "pr_InputPriceRMB (cr_PriceDetail (cost_result p sel v ps i out)) = cv_inputPriceRMB v"
  "pr_OutputPriceRMB (cr_PriceDetail (cost_result p sel v ps i out)) = cv_outputPriceRMB v"
  by (simp_all add: cost_result_def Let_def legacyCreditsFromUnits_def)

text \<open>Every successful calculation is a \<open>cost_result\<close> of the clamped token counts.\<close>

lemma CalculateCostWithDims_ok:
  assumes "CalculateCostWithDims env rg now u m t l i out dims s = (Inr c, s')"
  obtains p sel v where
    "c = cost_result p sel v (supplier_side env m) (max 0 i) (max 0 out)"
    "\<exists>s1. getPlatformPrice env now m s = (Inr p, s1) \<and>
          sel = fst (selectPriceForTokens env now m (max 0 i) (max 0 out) dims s1)"
proof -
  have clamp: "(if (n::int) < 0 then 0 else n) = max 0 n" for n by simp
  obtain p s1 sel s2 v where "getPlatformPrice env now m s = (Inr p, s1)"
    "selectPriceForTokens env now m (max 0 i) (max 0 out) dims s1 = (sel, s2)"
    "c = cost_result p sel v (supplier_side env m) (max 0 i) (max 0 out)"
    using assms by (auto simp: CalculateCostWithDims_def Let_def clamp andThen_ok)
  with that show ?thesis by force
qed

section \<open>The price caches are transparent\<close>

definition agree :: "pricing_env \<Rightarrow> price_caches \<Rightarrow> price_caches \<Rightarrow> bool" where
  "agree env s t \<longleftrightarrow> prices_fresh env s \<and> prices_fresh env t \<and> pc_miss s = pc_miss t"

lemma respects_getPlatformPrice [respects_intros]: "respectful (agree env) (getPlatformPrice env now m)"
  by (simp add: respectful_def agree_def getPlatformPrice_fresh getPlatformPrice_frame)

lemma ResolveDiscount_miss_only:
  "pc_miss s = pc_miss t \<Longrightarrow>
     fst (ResolveDiscount env now u tn m l s) = fst (ResolveDiscount env now u tn m l t) \<and>
     pc_miss (snd (ResolveDiscount env now u tn m l s)) = pc_miss (snd (ResolveDiscount env now u tn m l t))"
  by (auto simp: ResolveDiscount_def withDiscountMissLock_def loadDiscountMiss_def
      storeDiscountMiss_def ret_def andThen_def
      split: if_splits prod.splits option.splits sum.splits bool.splits)

lemma respects_ResolveDiscount [respects_intros]:
  "respectful (agree env) (ResolveDiscount env now u tn m l)"
  unfolding respectful_def agree_def
proof (intro allI impI)
  fix s t
  let ?m = "ResolveDiscount env now u tn m l"
  assume a: "prices_fresh env s \<and> prices_fresh env t \<and> pc_miss s = pc_miss t"
  have f: "pc_platform (snd (?m x)) = pc_platform x" for x
    by (rule ResolveDiscount_frame(1)) (rule prod.collapse [symmetric])
  show "fst (?m s) = fst (?m t) \<and> prices_fresh env (snd (?m s)) \<and> prices_fresh env (snd (?m t)) \<and>
        pc_miss (snd (?m s)) = pc_miss (snd (?m t))"
    using ResolveDiscount_miss_only [of s t env now u tn m l] a prices_fresh_cong [OF f] by blast
qed

lemma respects_cacheResult [respects_intros]: "respectful (agree env) (cacheResult k r)"
  by (simp add: respectful_def agree_def cacheResult_def modify_def prices_fresh_iff)

lemma respects_CalculatePrice [respects_intros]:
  "respectful (agree env) (CalculatePrice env rg now u m tn l)"
  unfolding CalculatePrice_def Let_def
  by (cases "rg (u, m, tn, l)") (auto intro!: respects_intros)

lemma respects_price_by_list [respects_intros]:
  "respectful (agree env) (price_by_list env rg now u m tn l)"
  unfolding price_by_list_def Let_def by (auto intro!: respects_intros)

lemma respects_price_by_tier [respects_intros]:
  "respectful (agree env) (price_by_tier env now p sel u m tn l)"
  unfolding price_by_tier_def by (auto intro!: respects_intros)

lemma respects_select [respects_intros]:
  "respectful (agree env) (total (selectPriceForTokens env now m i out dims))"
  unfolding respectful_def
proof (intro allI impI)
  fix s t assume a: "agree env s t"
  have r: "fst (getPlatformPrice env now m s) = fst (getPlatformPrice env now m t)"
      "agree env (snd (getPlatformPrice env now m s)) (snd (getPlatformPrice env now m t))"
    using respects_getPlatformPrice [of env now m] a by (auto simp: respectful_def)
  have "fst (selectPriceForTokens env now m i out dims s) = fst (selectPriceForTokens env now m i out dims t)"
    using r(1) by (auto simp: selectPriceForTokens_def Let_def split: prod.splits option.splits)
  moreover have "agree env (snd (selectPriceForTokens env now m i out dims s))
                  (snd (selectPriceForTokens env now m i out dims t))"
    using r a by (auto simp: selectPriceForTokens_def Let_def split: prod.splits option.splits)
  ultimately show "fst (total (selectPriceForTokens env now m i out dims) s) =
      fst (total (selectPriceForTokens env now m i out dims) t) \<and>
      agree env (snd (total (selectPriceForTokens env now m i out dims) s))
        (snd (total (selectPriceForTokens env now m i out dims) t))"
    by (simp add: total_def)
qed

lemma respects_CalculateCostWithDims [respects_intros]:
  "respectful (agree env) (CalculateCostWithDims env rg now u m tn l i out dims)"
  unfolding CalculateCostWithDims_def Let_def by (intro respects_intros)

section \<open>Bounds on token costs\<close>

definition units_per_million :: "int64 \<Rightarrow> float64 \<Rightarrow> int64" where
  "units_per_million p r = (if r > 0 then RMBToBillingUnits r else CreditsPerMillionToBillingUnits p)"

text \<open>The product of price and quantity stays far from the limit of 64 bits.\<close>

definition fits :: "int64 \<Rightarrow> float64 \<Rightarrow> int64 \<Rightarrow> bool" where
  "fits p r n \<longleftrightarrow> units_per_million p r * n + 500000 < 2 ^ 62"

lemma tokenCostUnits_eq: "tokenCostUnits p r n = MulDivRound (units_per_million p r) n 1000000"
  by (auto simp: tokenCostUnits_def units_per_million_def CostUnitsFromRMBPerMillion_def
      CostUnitsFromCreditsPerMillion_def MulDivRound_def)

lemma fits_MulDivRound: "fits p r n \<Longrightarrow> units_per_million p r * n + 1000000 div 2 < 2 ^ 63"
  by (simp add: fits_def)

lemma tokenCostUnits_nonneg: "fits p r n \<Longrightarrow> 0 \<le> tokenCostUnits p r n"
  unfolding tokenCostUnits_eq by (rule MulDivRound_nonneg) (auto dest: fits_MulDivRound)

lemma tokenCostUnits_mono: "n \<le> n' \<Longrightarrow> fits p r n' \<Longrightarrow> tokenCostUnits p r n \<le> tokenCostUnits p r n'"
  unfolding tokenCostUnits_eq by (rule MulDivRound_mono) (auto dest: fits_MulDivRound)

lemma tokenCostUnits_small: "fits p r n \<Longrightarrow> tokenCostUnits p r n < 2 ^ 62"
proof (cases "0 < units_per_million p r \<and> 0 < n")
  case True
  let ?a = "units_per_million p r * n + 1000000 div 2"
  assume f: "fits p r n"
  have "0 < units_per_million p r * n" using True by simp
  then have "?a div 1000000 \<le> ?a" using zdiv_mono2 [of ?a 1 1000000] by simp
  moreover have "tokenCostUnits p r n = ?a div 1000000"
    unfolding tokenCostUnits_eq using True f by (intro MulDivRound_exact) (auto dest: fits_MulDivRound)
  ultimately show ?thesis using f by (simp add: fits_def)
next
  case False
  then show ?thesis by (auto simp: tokenCostUnits_eq MulDivRound_def)
qed

lemma add64_token_costs:
  assumes "fits p r n" "fits p' r' n'"
  shows "add64 (tokenCostUnits p r n) (tokenCostUnits p' r' n') = tokenCostUnits p r n + tokenCostUnits p' r' n'"
  using tokenCostUnits_small [OF assms(1)] tokenCostUnits_small [OF assms(2)]
    tokenCostUnits_nonneg [OF assms(1)] tokenCostUnits_nonneg [OF assms(2)]
  by (intro add64_id) (simp add: in64_def)

lemma min_charge_mono: "0 \<le> u \<Longrightarrow> u \<le> u' \<Longrightarrow> (b \<longrightarrow> b') \<Longrightarrow> min_charge u b \<le> min_charge u' b'"
  by (auto simp: min_charge_def)

section \<open>A small price table\<close>

text \<open>One model at 2 and 8 RMB per million tokens, a half-price discount for user 7, and a
  supplier that gives 60 percent.\<close>

definition sample_model :: AIModel where
  "sample_model = zero_AIModel\<lparr>am_ID := 11, am_SupplierID := 3, am_IsActive := True,
     am_InputCostRMB := 1, am_OutputCostRMB := 4, am_SupportsCache := True,
     am_CacheMechanism := ''explicit''\<rparr>"

definition sample_pricing :: ModelPricing where
  "sample_pricing = zero_ModelPricing\<lparr>mp_ID := 21, mp_ModelID := 11, mp_InputPricePerToken := 20000,
     mp_InputPriceRMB := 2, mp_OutputPricePerToken := 80000, mp_OutputPriceRMB := 8,
     mp_Currency := ''CREDIT'', mp_EffectiveFrom := Some 0\<rparr>"

definition sample_discount :: UserModelDiscount where
  "sample_discount = \<lparr>umd_ID = 5, umd_UserID = 7, umd_ModelID = 11, umd_PricingType = ''DISCOUNT'',
     umd_DiscountRate = Some (1/2), umd_InputPrice = None, umd_OutputPrice = None,
     umd_MarkupRate = None, umd_EffectiveAt = None, umd_ExpireAt = None, umd_IsActive = True\<rparr>"

definition sample_env :: pricing_env where
  "sample_env = \<lparr>pe_ai_models = (\<lambda>m. if m = 11 then Some sample_model else None),
     pe_model_pricings = [sample_pricing], pe_supplier_discount = (\<lambda>_. Some (lit (6/10))),
     pe_user_discounts = [sample_discount], pe_fails = (\<lambda>_. False),
     pe_fmt = (\<lambda>_. ''''), pe_fmt2 = (\<lambda>_. ''''), pe_lock_wait = 1\<rparr>"

definition sample_caches :: price_caches where
  "sample_caches = store_platform 11 sample_pricing 100 empty_caches"

lemma sample_platform:
  "getPlatformPrice sample_env 100 11 empty_caches = (Inr sample_pricing, sample_caches)"
proof -
  have q: "query_platform sample_env 11 = Inr sample_pricing" by code_simp
  show ?thesis
    by (simp add: getPlatformPrice_def load_platform_def empty_caches_def q
        sample_caches_def [unfolded empty_caches_def])
qed

lemmas sample_platform_again = getPlatformPrice_again [OF sample_platform]

lemma sample_select: "selectPriceForTokens sample_env 100 11 i out [] sample_caches = (unmatched, sample_caches)"
proof -
  have l: "load_tier_model sample_env 11 = (sample_model, False)" by code_simp
  have t: "mp_PriceTiers sample_pricing = None" "am_PriceTiers sample_model = None" by code_simp+
  show ?thesis
    by (simp add: selectPriceForTokens_def sample_platform_again select_matrix_def l select_sale_def
        select_cost_def choose_tier_def tiers_of_def t)
qed

lemma sample_resolve:
  "ResolveDiscount sample_env 100 7 0 11 0 sample_caches =
     (Inr (buildUserDiscountResult sample_discount), sample_caches)"
proof (rule ResolveDiscount_fresh)
  show "pc_miss sample_caches (7, 11) = None"
    by (simp add: sample_caches_def store_platform_def empty_caches_def)
  show "query_user_discount sample_env 7 11 (100 + pe_lock_wait sample_env) = Inr (Some sample_discount)"
    by code_simp
qed simp_all

definition sample_vars :: cost_vars where
  "sample_vars =
     \<lparr>cv_inputPerMillion = 10000, cv_outputPerMillion = 40000, cv_inputPriceRMB = 1,
      cv_outputPriceRMB = 4, cv_source = ''level_discount'', cv_matchedTier = '''',
      cv_matchedTierIdx = - 1, cv_userDiscountID = Some 5, cv_userDiscountRate = Some (1/2),
      cv_userDiscountType = ''DISCOUNT''\<rparr>"

definition sample_cost :: CostResult where
  "sample_cost = cost_result sample_pricing unmatched sample_vars (supplier_side sample_env 11) 1000 500"

text \<open>User 7 sends 1000 tokens and receives 500.\<close>

lemma sample_run:
  "\<exists>s'. CalculateCostWithDims sample_env (\<lambda>_. None) 100 7 11 0 0 1000 500 [] empty_caches = (Inr sample_cost, s')"
proof -
  define pr where "pr = applyDiscount sample_env sample_pricing (buildUserDiscountResult sample_discount)"
  have half: "f2i (fmul 20000 (1/2)) = 10000" "f2i (fmul 80000 (1/2)) = 40000"
      "CreditsToRMB 10000 = 1" "CreditsToRMB 40000 = 4"
    by code_simp+
  define s' where "s' = sample_caches\<lparr>pc_redis := pc_redis sample_caches @ [((7, 11, 0, 0), pr)]\<rparr>"
  have pr: "pr_InputPricePerMillion pr = 10000" "pr_OutputPricePerMillion pr = 40000"
      "pr_InputPriceRMB pr = 1" "pr_OutputPriceRMB pr = 4" "pr_Source pr = ''level_discount''"
    by (simp_all add: pr_def applyDiscount_def scaled_price_def buildUserDiscountResult_def
        sample_discount_def no_discount_def sample_pricing_def zero_ModelPricing_def half Let_def)
  have price: "CalculatePrice sample_env (\<lambda>_. None) 100 7 11 0 0 sample_caches = (Inr pr, s')"
    by (simp add: CalculatePrice_def Let_def sample_platform_again
        sample_resolve cacheResult_def modify_def andThen_def ret_def pr_def s'_def)
  have again: "ResolveDiscount sample_env 100 7 0 11 0 s' = (Inr (buildUserDiscountResult sample_discount), s')"
  proof (rule ResolveDiscount_fresh)
    show "pc_miss s' (7, 11) = None"
      by (simp add: s'_def sample_caches_def store_platform_def empty_caches_def)
    show "query_user_discount sample_env 7 11 (100 + pe_lock_wait sample_env) = Inr (Some sample_discount)"
      by code_simp
  qed simp_all
  have "price_by_list sample_env (\<lambda>_. None) 100 7 11 0 0 sample_caches = (Inr sample_vars, s')"
    by (simp add: price_by_list_def Let_def andThen_def price attempt_def again ret_def pr sample_vars_def stamp_user_discount_def
        buildUserDiscountResult_def sample_discount_def no_discount_def)
  then show ?thesis
    by (simp add: CalculateCostWithDims_def Let_def sample_platform andThen_def
        total_def sample_select unmatched_def zero_TierPriceSelection_def ret_def sample_cost_def)
qed

section \<open>Properties\<close>

text \<open>A successful token calculation charges what its own price detail says: the input and
  output units are the prices of the detail times the (clamped) token counts, the total is
  their sum, and only a sum of zero on a priced, non-empty call becomes the minimum charge of
  one unit.\<close>

theorem cost_follows_price_detail:
  assumes "CalculateCostWithDims env redis_get now userID modelID tenantID level i out dims s = (Inr c, s')"
  shows "cr_InputCostUnits c = tokenCostUnits (pr_InputPricePerMillion (cr_PriceDetail c))
           (pr_InputPriceRMB (cr_PriceDetail c)) (max 0 i) \<and>
    cr_OutputCostUnits c = tokenCostUnits (pr_OutputPricePerMillion (cr_PriceDetail c))
           (pr_OutputPriceRMB (cr_PriceDetail c)) (max 0 out) \<and>
    cr_TotalCostUnits c =
      (if add64 (cr_InputCostUnits c) (cr_OutputCostUnits c) = 0 \<and> (0 < i \<or> 0 < out) \<and>
          (0 < pr_InputPricePerMillion (cr_PriceDetail c) \<or> 0 < pr_OutputPricePerMillion (cr_PriceDetail c))
       then 1 else add64 (cr_InputCostUnits c) (cr_OutputCostUnits c)) \<and>
    cr_TotalCost c = BillingUnitsToCredits (cr_TotalCostUnits c)"
proof -
  obtain p sel v where c: "c = cost_result p sel v (supplier_side env modelID) (max 0 i) (max 0 out)"
    by (rule CalculateCostWithDims_ok [OF assms])
  show ?thesis by (simp add: c) (auto simp: min_charge_def)
qed

theorem cost_follows_price_detail_witness:
  "cr_TotalCostUnits sample_cost = 300000 \<and>
   cr_InputCostUnits sample_cost =
     tokenCostUnits (pr_InputPricePerMillion (cr_PriceDetail sample_cost))
       (pr_InputPriceRMB (cr_PriceDetail sample_cost)) (max 0 1000)"
proof -
  obtain s' where r: "CalculateCostWithDims sample_env (\<lambda>_. None) 100 7 11 0 0 1000 500 [] empty_caches =
      (Inr sample_cost, s')"
    using sample_run by blast
  have "cr_TotalCostUnits sample_cost = 300000" by code_simp
  then show ?thesis using cost_follows_price_detail [OF r] by blast
qed

end
