(* ===== verification/Pricing_Units.thy ===== *)
theory Pricing_Units
  imports Pricing
begin

text \<open>
  The other entry points of the price calculator: per-unit models
  (\<open>CalculateCostByUnit\<close>), prompt caching on the user's side
  (\<open>CalculateCostWithCache\<close>) and on the platform's (\<open>CalculateWithCache\<close>), and
  video models (\<open>CalculateVideoCost\<close>).
\<close>

section \<open>Costs by unit\<close>

definition is_token_unit :: "string \<Rightarrow> bool" where
  "is_token_unit u \<longleftrightarrow> u = '''' \<or> u = ''per_million_tokens''"

text \<open>The sale price of one unit: the model's cost, the sale price, or the price of a tier that
  fits the dimensions or the variant.\<close>

definition unit_sell_price :: "AIModel \<Rightarrow> ModelPricing option \<Rightarrow> UsageInput \<Rightarrow> float64" where
  "unit_sell_price m platformPrice usage =
     (let base = (case platformPrice of
            Some p \<Rightarrow> if mp_InputPriceRMB p > 0 then mp_InputPriceRMB p else am_InputCostRMB m
          | None \<Rightarrow> am_InputCostRMB m);
          tiers = tiers_of (am_PriceTiers m);
          byDims = (if length (ui_Dimensions usage) > 0 \<and> length tiers > 0
            then (case SelectTierByDims tiers (ui_Dimensions usage) of
                    None \<Rightarrow> base
                  | Some (_, t) \<Rightarrow>
                      (let p = pickFirstNonZero [pt_InputPrice t, pt_OutputPrice t]
                       in if p > 0 then p else base))
            else base)
      in if ui_Variant usage \<noteq> '''' \<and> length tiers > 0
         then (case selectPriceByVariant tiers (ui_Variant usage) of None \<Rightarrow> byDims | Some p \<Rightarrow> p)
         else byDims)"

text \<open>\<open>None\<close>: an unknown unit, charged by tokens.\<close>

definition unit_quantity :: "string \<Rightarrow> UsageInput \<Rightarrow> float64 option" where
  "unit_quantity u usage =
     (if u = ''per_image'' then Some (i2f (ui_ImageCount usage))
      else if u = ''per_second'' then Some (ui_DurationSec usage)
      else if u = ''per_minute'' then Some (fdiv (ui_DurationSec usage) 60)
      else if u = ''per_10k_characters'' \<or> u = ''per_k_chars''
        then Some (fdiv (i2f (ui_CharCount usage)) 10000)
      else if u = ''per_million_characters'' then Some (fdiv (i2f (ui_CharCount usage)) 1000000)
      else if u = ''per_call'' then Some (i2f (ui_CallCount usage))
      else if u = ''per_hour'' then Some (fdiv (ui_DurationSec usage) 3600)
      else None)"

definition discount_counts :: "DiscountResult \<Rightarrow> bool" where
  "discount_counts d \<longleftrightarrow>
     dr_Type d \<noteq> ''none'' \<and> dr_PricingType d \<noteq> '''' \<and> dr_PricingType d \<noteq> ''NONE''"

definition unit_price :: "pricing_env \<Rightarrow> float64 \<Rightarrow> DiscountResult \<Rightarrow> float64" where
  "unit_price env basePriceRMB d =
     (if discount_counts d
      then (let tempPlatform = zero_ModelPricing\<lparr>mp_InputPricePerToken := RMBToCredits basePriceRMB,
                  mp_InputPriceRMB := basePriceRMB, mp_Currency := ''CREDIT''\<rparr>;
                applied = applyDiscount env tempPlatform d
            in if 0 \<le> pr_InputPriceRMB applied then pr_InputPriceRMB applied else basePriceRMB)
      else basePriceRMB)"

definition unit_source :: "DiscountResult \<Rightarrow> string" where
  "unit_source d =
     (if discount_counts d
      then (if dr_Type d = ''user_custom'' then ''user_custom''
            else if dr_Type d = ''agent_custom'' then ''agent_custom'' else ''level_discount'')
      else ''platform'')"

definition unit_cost_result ::
  "float64 \<Rightarrow> float64 \<Rightarrow> float64 \<Rightarrow> DiscountResult \<Rightarrow> CostResult" where
  "unit_cost_result effectiveUnitPriceRMB baseCostRMB quantity d =
     (let source = unit_source d;
          stamped = discount_counts d \<and> dr_UserDiscountID d \<noteq> None
      in if quantity \<le> 0
         then zero_CostResult\<lparr>cr_PriceDetail :=
                zero_PriceResult\<lparr>pr_Currency := ''CREDIT'', pr_Source := source\<rparr>\<rparr>
         else
          (let costRMB = fmul effectiveUnitPriceRMB quantity;
               totalCostUnits = min_charge (RMBToBillingUnits costRMB) (quantity > 0 \<and> costRMB > 0);
               totalCost = legacyCreditsFromUnits totalCostUnits;
               platformCostUnits = RMBToBillingUnits (fmul baseCostRMB quantity)
           in zero_CostResult\<lparr>cr_InputCost := totalCost, cr_TotalCost := totalCost,
                cr_TotalCostRMB := BillingUnitsToRMB totalCostUnits,
                cr_PlatformCost := legacyCreditsFromUnits platformCostUnits,
                cr_InputCostUnits := totalCostUnits, cr_TotalCostUnits := totalCostUnits,
                cr_PlatformCostUnits := platformCostUnits,
                cr_PriceDetail := zero_PriceResult\<lparr>
                  pr_InputPricePerMillion := RMBToCredits effectiveUnitPriceRMB,
                  pr_InputPriceRMB := effectiveUnitPriceRMB,
                  pr_Currency := ''CREDIT'', pr_Source := source\<rparr>,
                cr_UserDiscountID := (if stamped then dr_UserDiscountID d else None),
                cr_UserDiscountRate := (if stamped then dr_UserDiscountRate d else None),
                cr_UserDiscountType := (if stamped then dr_UserDiscountType d else '''')\<rparr>))"

definition CalculateCostByUnit ::
  "pricing_env \<Rightarrow> (price_key \<Rightarrow> PriceResult option) \<Rightarrow> int \<Rightarrow> nat \<Rightarrow> nat \<Rightarrow> nat \<Rightarrow> int64 \<Rightarrow>
     UsageInput \<Rightarrow> CostResult pricing" where
  "CalculateCostByUnit env redis_get now userID modelID tenantID agentLevel usage =
     (case (if pe_fails env QUnitModel then None else pe_ai_models env modelID) of
        None \<Rightarrow> fail (ModelNotFound modelID)
      | Some m \<Rightarrow>
          if is_token_unit (am_PricingUnit m)
          then CalculateCostWithDims env redis_get now userID modelID tenantID agentLevel
                 (ui_InputTokens usage) (ui_OutputTokens usage) (ui_Dimensions usage)
          else
            andThen (attempt (getPlatformPrice env now modelID)) (\<lambda>platformPrice.
              (let sellPriceRMB = unit_sell_price m platformPrice usage;
                   baseCostRMB = (if am_InputCostRMB m \<le> 0 \<and> sellPriceRMB > 0
                                  then sellPriceRMB else am_InputCostRMB m)
               in if sellPriceRMB \<le> 0 then ret zero_CostResult
                  else
                    andThen (attempt (ResolveDiscount env now userID tenantID modelID agentLevel)) (\<lambda>discount.
                      (let d = (case discount of None \<Rightarrow> no_discount | Some d \<Rightarrow> d)
                       in case unit_quantity (am_PricingUnit m) usage of
                            None \<Rightarrow> CalculateCost env redis_get now userID modelID tenantID agentLevel
                                      (ui_InputTokens usage) (ui_OutputTokens usage)
                          | Some quantity \<Rightarrow>
                              ret (unit_cost_result (unit_price env sellPriceRMB d) baseCostRMB quantity d))))))"

section \<open>Prompt caching, the user's side\<close>

definition without_cache :: "AIModel \<Rightarrow> CacheUsageInput \<Rightarrow> bool" where
  "without_cache m u \<longleftrightarrow>
     \<not> am_SupportsCache m \<or> am_CacheMechanism m = ''none'' \<or>
     (cu_CacheReadTokens u = 0 \<and> cu_CacheWriteTokens u = 0)"

definition cache_ratio :: "AIModel \<Rightarrow> float64 \<Rightarrow> float64 \<Rightarrow> float64" where
  "cache_ratio m cachePriceRMB fallback =
     (if am_InputCostRMB m > 0 \<and> cachePriceRMB > 0 then fdiv cachePriceRMB (am_InputCostRMB m)
      else fallback)"

definition cache_ratios :: "AIModel \<Rightarrow> CacheUsageInput \<Rightarrow> float64 \<times> float64" where
  "cache_ratios m u =
     (if am_CacheMechanism m = ''both''
      then ((if cu_CacheWriteTokens u > 0
             then cache_ratio m (am_CacheExplicitInputPriceRMB m) (lit (1/10))
             else cache_ratio m (am_CacheInputPriceRMB m) (lit (2/10))),
            cache_ratio m (am_CacheWritePriceRMB m) (lit (125/100)))
      else if am_CacheMechanism m = ''explicit''
      then (cache_ratio m (am_CacheInputPriceRMB m) (lit (1/10)),
            cache_ratio m (am_CacheWritePriceRMB m) (lit (125/100)))
      else (cache_ratio m (am_CacheInputPriceRMB m) (lit (5/10)), 1))"

text \<open>The token split: read, written (one hour), written (five minutes), regular.\<close>

record cache_split =
  cs_read :: int64
  cs_write :: int64
  cs_write1h :: int64
  cs_write5m :: int64
  cs_regular :: int64

definition split_tokens :: "AIModel \<Rightarrow> CacheUsageInput \<Rightarrow> cache_split" where
  "split_tokens m u =
     (let readTokens = cu_CacheReadTokens u;
          writeTokens = cu_CacheWriteTokens u;
          write1h = (if am_CacheMechanism m = ''explicit''
            then (let w = (if cu_CacheWrite1hTokens u < 0 then 0 else cu_CacheWrite1hTokens u)
                  in if w > writeTokens then writeTokens else w)
            else 0);
          regular = sub64 (sub64 (cu_InputTokens u) readTokens) writeTokens
      in \<lparr>cs_read = readTokens, cs_write = writeTokens, cs_write1h = write1h,
          cs_write5m = sub64 writeTokens write1h,
          cs_regular = (if regular < 0 then 0 else regular)\<rparr>)"

definition cache_platform_units :: "AIModel \<Rightarrow> CacheUsageInput \<Rightarrow> cache_split \<Rightarrow> int64 \<Rightarrow> int64" where
  "cache_platform_units m u sp baseUnits =
     (let readPM = (if cu_CacheWriteTokens u > 0 \<and> am_CacheExplicitInputPriceRMB m > 0 \<and>
                       am_CacheMechanism m = ''both''
                    then RMBToCredits (am_CacheExplicitInputPriceRMB m)
                    else RMBToCredits (am_CacheInputPriceRMB m));
          total = add64 (add64 (add64
            (CostUnitsFromCreditsPerMillion (RMBToCredits (am_InputCostRMB m)) (cs_regular sp))
            (CostUnitsFromCreditsPerMillion readPM (cs_read sp)))
            (CostUnitsFromCreditsPerMillion (RMBToCredits (am_CacheWritePriceRMB m)) (cs_write sp)))
            (CostUnitsFromCreditsPerMillion (RMBToCredits (am_OutputCostRMB m)) (cu_OutputTokens u))
      in if total = 0 then baseUnits else total)"

definition cache_cost_result :: "AIModel \<Rightarrow> CacheUsageInput \<Rightarrow> CostResult \<Rightarrow> CostResult" where
  "cache_cost_result m u base =
     (let (readRatio, writeRatio) = cache_ratios m u;
          inputPM = pr_InputPricePerMillion (cr_PriceDetail base);
          outputPM = pr_OutputPricePerMillion (cr_PriceDetail base);
          readPM = f2i (fmul (i2f inputPM) readRatio);
          writePM = f2i (fmul (i2f inputPM) writeRatio);
          write1hPM = (if am_CacheMechanism m = ''explicit'' then f2i (fmul (i2f inputPM) 2) else 0);
          sp = split_tokens m u;
          regularUnits = CostUnitsFromCreditsPerMillion inputPM (cs_regular sp);
          readUnits = CostUnitsFromCreditsPerMillion readPM (cs_read sp);
          writeUnits = add64 (CostUnitsFromCreditsPerMillion writePM (cs_write5m sp))
                         (CostUnitsFromCreditsPerMillion write1hPM (cs_write1h sp));
          inputUnits = add64 (add64 regularUnits readUnits) writeUnits;
          outputUnits = CostUnitsFromCreditsPerMillion outputPM (cu_OutputTokens u);
          totalUnits = min_charge (add64 inputUnits outputUnits)
                         (cu_InputTokens u > 0 \<or> cu_OutputTokens u > 0);
          saved = sub64 (cr_TotalCostUnits base) totalUnits;
          savingsUnits = (if saved < 0 then 0 else saved);
          platformUnits = cache_platform_units m u sp (cr_PlatformCostUnits base)
      in zero_CostResult\<lparr>cr_InputCost := legacyCreditsFromUnits inputUnits,
           cr_OutputCost := legacyCreditsFromUnits outputUnits,
           cr_TotalCost := legacyCreditsFromUnits totalUnits,
           cr_TotalCostRMB := BillingUnitsToRMB totalUnits,
           cr_PlatformCost := legacyCreditsFromUnits platformUnits,
           cr_InputCostUnits := inputUnits, cr_OutputCostUnits := outputUnits,
           cr_TotalCostUnits := totalUnits, cr_PlatformCostUnits := platformUnits,
           cr_PriceDetail := cr_PriceDetail base, cr_MatchedTier := cr_MatchedTier base,
           cr_MatchedTierIdx := cr_MatchedTierIdx base, cr_CacheReadTokens := cs_read sp,
           cr_CacheWriteTokens := cs_write sp, cr_CacheWrite1hTokens := cs_write1h sp,
           cr_RegularInputTokens := cs_regular sp, cr_CacheReadPricePerMillion := readPM,
           cr_CacheWritePricePerMillion := writePM, cr_CacheWrite1hPricePerMillion := write1hPM,
           cr_CacheReadCost := legacyCreditsFromUnits readUnits,
           cr_CacheWriteCost := legacyCreditsFromUnits writeUnits,
           cr_RegularInputCost := legacyCreditsFromUnits regularUnits,
           cr_CacheSavingCredits := legacyCreditsFromUnits savingsUnits,
           cr_CacheReadCostUnits := readUnits, cr_CacheWriteCostUnits := writeUnits,
           cr_RegularInputCostUnits := regularUnits, cr_CacheSavingUnits := savingsUnits,
           cr_UserDiscountID := cr_UserDiscountID base,
           cr_UserDiscountRate := cr_UserDiscountRate base,
           cr_UserDiscountType := cr_UserDiscountType base\<rparr>)"

definition CalculateCostWithCache ::
  "pricing_env \<Rightarrow> (price_key \<Rightarrow> PriceResult option) \<Rightarrow> int \<Rightarrow> nat \<Rightarrow> AIModel option \<Rightarrow> nat \<Rightarrow> int64 \<Rightarrow>
     CacheUsageInput \<Rightarrow> CostResult pricing" where
  "CalculateCostWithCache env redis_get now userID aiModel tenantID agentLevel usage =
     (case aiModel of
        None \<Rightarrow> fail AIModelNil
      | Some m \<Rightarrow>
          (let plain = CalculateCost env redis_get now userID (am_ID m) tenantID agentLevel
                         (cu_InputTokens usage) (cu_OutputTokens usage)
           in if without_cache m usage then plain
              else andThen plain (\<lambda>base. ret (cache_cost_result m usage base))))"

section \<open>Prompt caching, the platform's side\<close>

definition or_share :: "float64 \<Rightarrow> float64 \<Rightarrow> float64 \<Rightarrow> float64" where
  "or_share price base share = (if price \<le> 0 \<and> base > 0 then fmul base share else price)"

definition platform_cache_prices :: "AIModel \<Rightarrow> CacheUsageInput \<Rightarrow> float64 \<times> float64" where
  "platform_cache_prices m u =
     (let base = am_InputCostRMB m
      in if am_CacheMechanism m = ''both''
         then ((if cu_CacheWriteTokens u > 0
                then or_share (am_CacheExplicitInputPriceRMB m) base (lit (1/10))
                else or_share (am_CacheInputPriceRMB m) base (lit (2/10))),
               or_share (am_CacheWritePriceRMB m) base (lit (125/100)))
         else if am_CacheMechanism m = ''explicit''
         then (or_share (am_CacheInputPriceRMB m) base (lit (1/10)),
               or_share (am_CacheWritePriceRMB m) base (lit (125/100)))
         else (or_share (am_CacheInputPriceRMB m) base (lit (5/10)), 0))"

definition cache_savings :: "AIModel \<Rightarrow> CacheUsageInput \<Rightarrow> float64" where
  "cache_savings m u =
     (let base = am_InputCostRMB m;
          (readPrice, writePrice) = platform_cache_prices m u
      in if base > 0 \<and> readPrice > 0
         then (let readSavings = fdiv (fmul (i2f (cu_CacheReadTokens u)) (fsub base readPrice)) 1000000;
                   writeExtra = fdiv (fmul (i2f (cu_CacheWriteTokens u)) (fsub writePrice base)) 1000000
               in fsub readSavings writeExtra)
         else 0)"

definition CalculateWithCache ::
  "pricing_env \<Rightarrow> (price_key \<Rightarrow> PriceResult option) \<Rightarrow> int \<Rightarrow> nat \<Rightarrow> AIModel \<Rightarrow> nat \<Rightarrow> int64 \<Rightarrow>
     CacheUsageInput \<Rightarrow> (CostResult \<times> float64) pricing" where
  "CalculateWithCache env redis_get now userID m tenantID agentLevel cacheUsage =
     andThen (CalculateCost env redis_get now userID (am_ID m) tenantID agentLevel
                (cu_InputTokens cacheUsage) (cu_OutputTokens cacheUsage))
       (\<lambda>costResult. ret (costResult,
          if without_cache m cacheUsage then 0 else cache_savings m cacheUsage))"

section \<open>Video\<close>

definition video_volume :: "VideoUsageInput \<Rightarrow> float64" where
  "video_volume usage =
     fdiv (fmul (fmul (fmul (fadd (vu_InputVideoSeconds usage) (vu_OutputVideoSeconds usage))
       (i2f (vu_VideoWidth usage))) (i2f (vu_VideoHeight usage))) (i2f (vu_VideoFPS usage))) 1024"

definition video_tokens :: "VideoPricingConfig option \<Rightarrow> VideoUsageInput \<Rightarrow> int64" where
  "video_tokens cfg usage =
     (let base = video_volume usage;
          drafted = (case cfg of
              None \<Rightarrow> base
            | Some c \<Rightarrow>
                if vu_IsDraft usage \<and> vpc_SupportDraft c \<and> vu_VideoHeight usage > 0 \<and> vu_VideoHeight usage \<le> 480
                then (let coef = (if vu_HasAudio usage then vpc_DraftCoefAudio c else vpc_DraftCoefSilent c)
                      in if coef > 0 then fmul base coef else base)
                else base);
          floored = (case cfg of
              None \<Rightarrow> drafted
            | Some c \<Rightarrow>
                if vu_HasInputVideo usage \<and> vpc_RequireInputVideo c
                then (let minTokens = LookupMinTokens c (vu_OutputVideoSeconds usage)
                      in if i2f minTokens > drafted then i2f minTokens else drafted)
                else drafted);
          tokens = f2i (math_Ceil floored)
      in if tokens < 0 then 0 else tokens)"

definition CalculateVideoCost ::
  "pricing_env \<Rightarrow> (price_key \<Rightarrow> PriceResult option) \<Rightarrow> int \<Rightarrow> nat \<Rightarrow> AIModel option \<Rightarrow> nat \<Rightarrow> int64 \<Rightarrow>
     VideoUsageInput \<Rightarrow> CostResult option pricing" where
  "CalculateVideoCost env redis_get now userID aiModel tenantID agentLevel usage =
     (case aiModel of
        None \<Rightarrow> ret None
      | Some m \<Rightarrow>
          if am_ModelType m \<noteq> ''VideoGeneration'' then ret None
          else andThen (CalculateCost env redis_get now userID (am_ID m) tenantID agentLevel 0
                          (video_tokens (am_VideoPricingConfig m) usage))
                 (\<lambda>c. ret (Some c)))"

end
