(* ===== verification/Price_Laws.thy ===== *)
theory Price_Laws
  imports Pricing_Units
begin

text \<open>
  What the price side promises: how tiers and matrix cells are chosen, how prices become
  units, what a discount may do to a price, how long a cached answer lives, and how the caches
  stay invisible to the result.
\<close>

section \<open>Tiers\<close>

text \<open>Tier selection never fails on a non-empty list, and its flag is honest. With the flag set, the
  result is the first tier whose ranges hold the token counts; with the flag off no tier does,
  and the result is a maximum of the tier order (so a request beyond every range pays the tier
  with the highest bounds).\<close>

theorem tier_selection_total_and_largest:
  assumes "tiers \<noteq> []"
  shows "\<exists>k t found. SelectTierOrLargest tiers i out = (Some (k, t), found) \<and>
    k < length tiers \<and> tiers ! k = t \<and>
    (if found then Matches t i out \<and> (\<forall>j < k. \<not> Matches (tiers ! j) i out)
     else (\<forall>u \<in> set tiers. \<not> Matches u i out \<and> \<not> tierGreater u t))"
proof -
  obtain k t f where r: "SelectTierOrLargest tiers i out = (Some (k, t), f)"
    using SelectTierOrLargest_total [OF assms] by blast
  have m: "k < length tiers" "tiers ! k = t"
    using SelectTierOrLargest_mem [OF r] by auto
  show ?thesis
  proof (cases f)
    case True
    then have "SelectTier tiers i out = Some (k, t)" using r SelectTierOrLargest_strict by simp
    then have "Matches t i out" "\<forall>j < k. \<not> Matches (tiers ! j) i out"
      by (auto simp: SelectTier_def find_idx_Some)
    with r m True show ?thesis by auto
  next
    case False
    with r m SelectTierOrLargest_fallback [of tiers i out k t] show ?thesis by auto
  qed
qed

definition sample_tiers :: "PriceTier list" where
  "sample_tiers =
     [zero_PriceTier\<lparr>pt_Name := ''short'', pt_InputMinExclusive := True, pt_InputMax := Some 32000,
        pt_OutputMinExclusive := True, pt_InputPrice := 2, pt_OutputPrice := 8\<rparr>,
      zero_PriceTier\<lparr>pt_Name := ''long'', pt_InputMin := 32000, pt_InputMinExclusive := True,
        pt_InputMax := Some 128000, pt_OutputMinExclusive := True, pt_InputPrice := 4,
        pt_OutputPrice := 16\<rparr>]"

text \<open>A request of 200000 tokens is outside both ranges and pays the second tier.\<close>

theorem tier_selection_total_and_largest_witness:
  "\<exists>k t found. SelectTierOrLargest sample_tiers 200000 10 = (Some (k, t), found) \<and> k = 1 \<and> \<not> found"
proof -
  have "sample_tiers \<noteq> []" by (simp add: sample_tiers_def)
  then obtain k t found where r: "SelectTierOrLargest sample_tiers 200000 10 = (Some (k, t), found)"
    and u: "if found then Matches t 200000 10 \<and> (\<forall>j < k. \<not> Matches (sample_tiers ! j) 200000 10)
     else (\<forall>u \<in> set sample_tiers. \<not> Matches u 200000 10 \<and> \<not> tierGreater u t)"
    using tier_selection_total_and_largest [of sample_tiers 200000 10] by blast
  moreover have "SelectTierOrLargest sample_tiers 200000 10 = (Some (1, sample_tiers ! 1), False)"
    by (simp add: SelectTierOrLargest_def SelectTier_def sample_tiers_def Matches_def matchRange_def
        tierGreater_def zero_PriceTier_def)
  ultimately show ?thesis by (intro exI [of _ k] exI [of _ t] exI [of _ found]) auto
qed

lemma unique_match_select:
  assumes "t \<in> set ts" "Matches t i out" "\<And>u. u \<in> set ts \<Longrightarrow> Matches u i out \<Longrightarrow> u = t"
  shows "map_option snd (SelectTier ts i out) = Some t"
proof (cases "SelectTier ts i out")
  case None
  then show ?thesis using assms(1,2) by (simp add: SelectTier_None)
next
  case (Some it)
  then have "snd it \<in> set ts" "Matches (snd it) i out"
    by (cases it; auto simp: SelectTier_def dest: find_idx_SomeD)+
  with Some assms(3) show ?thesis by auto
qed

text \<open>Sorting the tiers is harmless where the ranges do not overlap: if at most one tier of the
  list holds a request, the sorted list selects the same tier. Sorting itself is a stable
  permutation into ascending lower bounds.\<close>

theorem sorting_tiers_keeps_selection:
  assumes "\<forall>t \<in> set ts. \<forall>u \<in> set ts. Matches t i out \<longrightarrow> Matches u i out \<longrightarrow> t = u"
  shows "map_option snd (SelectTier (SortTiers ts) i out) = map_option snd (SelectTier ts i out) \<and>
    mset (SortTiers ts) = mset ts \<and>
    sorted (map (\<lambda>t. (pt_InputMin t, pt_OutputMin t)) (SortTiers ts)) \<and>
    filter (\<lambda>t. (pt_InputMin t, pt_OutputMin t) = k) (SortTiers ts) =
      filter (\<lambda>t. (pt_InputMin t, pt_OutputMin t) = k) ts"
proof -
  have st: "set (SortTiers ts) = set ts" by (metis SortTiers_mset set_mset_mset)
  have "map_option snd (SelectTier (SortTiers ts) i out) = map_option snd (SelectTier ts i out)"
  proof (cases "\<exists>t \<in> set ts. Matches t i out")
    case True
    then obtain t where t: "t \<in> set ts" "Matches t i out" by blast
    have "map_option snd (SelectTier ts i out) = Some t"
      by (rule unique_match_select) (use t assms in auto)
    moreover have "map_option snd (SelectTier (SortTiers ts) i out) = Some t"
      by (rule unique_match_select) (use t st assms in auto)
    ultimately show ?thesis by (rule trans [OF _ sym, rotated])
  next
    case False
    then have "SelectTier ts i out = None" "SelectTier (SortTiers ts) i out = None"
      using st by (auto simp: SelectTier_None)
    then show ?thesis by simp
  qed
  then show ?thesis using SortTiers_mset SortTiers_sorted SortTiers_stable by blast
qed

theorem sorting_tiers_keeps_selection_witness:
  "map_option snd (SelectTier (SortTiers (rev sample_tiers)) 40000 10) = Some (sample_tiers ! 1)"
proof -
  have "\<forall>t \<in> set (rev sample_tiers). \<forall>u \<in> set (rev sample_tiers).
      Matches t 40000 10 \<longrightarrow> Matches u 40000 10 \<longrightarrow> t = u"
    by (simp add: sample_tiers_def Matches_def matchRange_def zero_PriceTier_def)
  from sorting_tiers_keeps_selection [OF this]
  have "map_option snd (SelectTier (SortTiers (rev sample_tiers)) 40000 10) =
      map_option snd (SelectTier (rev sample_tiers) 40000 10)" by blast
  also have "\<dots> = Some (sample_tiers ! 1)"
    by (simp add: sample_tiers_def SelectTier_def Matches_def matchRange_def zero_PriceTier_def)
  finally show ?thesis .
qed

text \<open>The dimension test of a tier does not depend on the order in which Go walks the tier's map: two
  tiers with the same entries give the same answer, which is that some entry is non-empty, and
  that every non-empty entry equals the request's value.\<close>

theorem dimension_match_order_free:
  assumes "set (pt_DimValues t) = set (pt_DimValues t')"
  shows "MatchesDims t dims = MatchesDims t' dims \<and>
    (snd (MatchesDims t dims) \<longleftrightarrow>
       (\<exists>(k, v) \<in> set (pt_DimValues t). v \<noteq> '''') \<and>
       (\<forall>(k, v) \<in> set (pt_DimValues t). v \<noteq> '''' \<longrightarrow> map_of dims k = Some v))"
proof (rule conjI [OF MatchesDims_order [OF assms]])
  show "snd (MatchesDims t dims) \<longleftrightarrow>
       (\<exists>(k, v) \<in> set (pt_DimValues t). v \<noteq> '''') \<and>
       (\<forall>(k, v) \<in> set (pt_DimValues t). v \<noteq> '''' \<longrightarrow> map_of dims k = Some v)"
    unfolding MatchesDims_eq dims_declared_def dims_hold_def by simp
qed

theorem dimension_match_order_free_witness:
  "MatchesDims (zero_PriceTier\<lparr>pt_DimValues := [(''res'', ''720p''), (''fps'', '''')]\<rparr>) [(''res'', ''720p'')] =
   MatchesDims (zero_PriceTier\<lparr>pt_DimValues := [(''fps'', ''''), (''res'', ''720p'')]\<rparr>) [(''res'', ''720p'')]"
proof -
  have "set (pt_DimValues (zero_PriceTier\<lparr>pt_DimValues := [(''res'', ''720p''), (''fps'', '''')]\<rparr>)) =
      set (pt_DimValues (zero_PriceTier\<lparr>pt_DimValues := [(''fps'', ''''), (''res'', ''720p'')]\<rparr>))" by auto
  from dimension_match_order_free [OF this, of "[(''res'', ''720p'')]"] show ?thesis by blast
qed


section \<open>Amounts\<close>

text \<open>The conversions are exact inverses on the amounts the system handles: credits to RMB and back
  (up to \<open>2 ^ 50\<close>), units to RMB and back (up to \<open>2 ^ 50\<close>), credits to units and back
  (up to \<open>2 ^ 53\<close> units).\<close>

theorem conversions_round_trip:
  assumes "\<bar>c\<bar> \<le> 2 ^ 50" "\<bar>u\<bar> \<le> 2 ^ 50" "\<bar>d\<bar> * 10000 \<le> 2 ^ 53"
  shows "RMBToCredits (CreditsToRMB c) = c \<and> RMBToBillingUnits (BillingUnitsToRMB u) = u \<and>
    BillingUnitsToCredits (CreditsToBillingUnits d) = d"
  using RMBToCredits_CreditsToRMB RMBToBillingUnits_BillingUnitsToRMB
    BillingUnitsToCredits_CreditsToBillingUnits assms by blast

theorem conversions_round_trip_witness:
  "RMBToCredits (CreditsToRMB 123456789) = 123456789 \<and>
   RMBToBillingUnits (BillingUnitsToRMB 987654321) = 987654321 \<and>
   BillingUnitsToCredits (CreditsToBillingUnits (- 42)) = - 42"
  by (rule conversions_round_trip) simp_all

text \<open>A token cost is the price times the tokens over a million, rounded to the nearest unit, while
  the product stays in range; it is then never negative, and never falls when the tokens grow.\<close>

theorem token_cost_nearest:
  assumes "fits p r n'" "0 \<le> n" "n \<le> n'"
  shows "2 * \<bar>1000000 * tokenCostUnits p r n - max 0 (units_per_million p r) * n\<bar> \<le> 1000000 \<and>
    0 \<le> tokenCostUnits p r n \<and> tokenCostUnits p r n \<le> tokenCostUnits p r n'"
proof -
  have f: "fits p r n"
  proof (cases "0 \<le> units_per_million p r")
    case True
    then have "units_per_million p r * n \<le> units_per_million p r * n'"
      using assms by (intro mult_left_mono)
    with assms(1) show ?thesis by (simp add: fits_def)
  next
    case False
    then have "units_per_million p r * n \<le> 0" using assms by (simp add: mult_nonpos_nonneg)
    then show ?thesis by (simp add: fits_def)
  qed
  have "2 * \<bar>1000000 * tokenCostUnits p r n - max 0 (units_per_million p r) * n\<bar> \<le> 1000000"
  proof (cases "0 < units_per_million p r \<and> 0 < n")
    case True
    then show ?thesis
      unfolding tokenCostUnits_eq using MulDivRound_nearest [OF _ _ _ fits_MulDivRound [OF f]]
      by (simp add: max_def)
  next
    case False
    then have t0: "tokenCostUnits p r n = 0" by (auto simp: tokenCostUnits_eq MulDivRound_def)
    have m0: "max 0 (units_per_million p r) * n = 0" using False assms(2) by auto
    show ?thesis unfolding t0 m0 by simp
  qed
  then show ?thesis
    using tokenCostUnits_nonneg [OF f] tokenCostUnits_mono [OF assms(3,1)] by blast
qed

theorem token_cost_nearest_witness:
  "0 \<le> tokenCostUnits 20000 0 3 \<and> tokenCostUnits 20000 0 3 \<le> tokenCostUnits 20000 0 1000"
  using token_cost_nearest [of 20000 0 1000 3]
  by (simp add: fits_def units_per_million_def CreditsPerMillionToBillingUnits_def CreditsToBillingUnits_eq)

text \<open>Out of that range the 64-bit product wraps: at 1000 RMB per million tokens, a hundred million
  tokens cost a negative amount.\<close>

lemma token_cost_wraps:
  "tokenCostUnits 0 1000 100000000 < 0"
proof -
  have "RMBToBillingUnits 1000 = 100000000000" by code_simp
  then have "tokenCostUnits 0 1000 100000000 = MulDivRound 100000000000 100000000 1000000"
    by (simp add: tokenCostUnits_def CostUnitsFromRMBPerMillion_def)
  also have "\<dots> < 0" by code_simp
  finally show ?thesis .
qed


text \<open>C6: Every successful calculation is bounded and priced: within the range of the products the total
  is not negative, is at least each side's part, and a call with tokens on a priced model costs at
  least one unit; and at the same prices a call with more tokens never costs less.\<close>

theorem calls_cost_at_least_one_unit:
  assumes "CalculateCostWithDims env rg now u m tn l i out dims s = (Inr c, s')"
    and "fits (pr_InputPricePerMillion (cr_PriceDetail c)) (pr_InputPriceRMB (cr_PriceDetail c)) (max 0 i)"
    and "fits (pr_OutputPricePerMillion (cr_PriceDetail c)) (pr_OutputPriceRMB (cr_PriceDetail c)) (max 0 out)"
  shows "0 \<le> cr_InputCostUnits c \<and> cr_InputCostUnits c \<le> cr_TotalCostUnits c \<and>
    0 \<le> cr_OutputCostUnits c \<and> cr_OutputCostUnits c \<le> cr_TotalCostUnits c \<and>
    cr_TotalCostUnits c \<le> max 1 (cr_InputCostUnits c + cr_OutputCostUnits c) \<and>
    ((0 < i \<or> 0 < out) \<and>
     (0 < pr_InputPricePerMillion (cr_PriceDetail c) \<or> 0 < pr_OutputPricePerMillion (cr_PriceDetail c))
     \<longrightarrow> 1 \<le> cr_TotalCostUnits c)"
proof -
  obtain p sel v where c: "c = cost_result p sel v (supplier_side env m) (max 0 i) (max 0 out)"
    by (rule CalculateCostWithDims_ok [OF assms(1)])
  have a: "fits (cv_inputPerMillion v) (cv_inputPriceRMB v) (max 0 i)"
      "fits (cv_outputPerMillion v) (cv_outputPriceRMB v) (max 0 out)"
    using assms(2,3) by (simp_all add: c)
  note sum = add64_token_costs [OF a] and nn = tokenCostUnits_nonneg [OF a(1)] tokenCostUnits_nonneg [OF a(2)]
  show ?thesis using nn by (auto simp: c sum min_charge_def)
qed

theorem calls_cost_at_least_one_unit_witness:
  "1 \<le> cr_TotalCostUnits sample_cost"
proof -
  obtain s' where r: "CalculateCostWithDims sample_env (\<lambda>_. None) 100 7 11 0 0 1000 500 [] empty_caches =
      (Inr sample_cost, s')"
    using sample_run by blast
  have p: "pr_InputPricePerMillion (cr_PriceDetail sample_cost) = 10000"
      "pr_OutputPricePerMillion (cr_PriceDetail sample_cost) = 40000"
      "pr_InputPriceRMB (cr_PriceDetail sample_cost) = 1"
      "pr_OutputPriceRMB (cr_PriceDetail sample_cost) = 4"
    by (simp_all add: sample_cost_def sample_vars_def)
  have q: "RMBToBillingUnits 1 = 100000000" "RMBToBillingUnits 4 = 400000000" by code_simp+
  show ?thesis
    using calls_cost_at_least_one_unit [OF r] p q by (simp add: fits_def units_per_million_def)
qed

text \<open>At fixed prices the total never falls when the token counts grow.\<close>

theorem total_grows_with_tokens:
  assumes "i \<le> i'" "out \<le> out'" "0 \<le> i" "0 \<le> out"
    and "fits (cv_inputPerMillion v) (cv_inputPriceRMB v) i" "fits (cv_inputPerMillion v) (cv_inputPriceRMB v) i'"
    and "fits (cv_outputPerMillion v) (cv_outputPriceRMB v) out"
      "fits (cv_outputPerMillion v) (cv_outputPriceRMB v) out'"
  shows "cr_TotalCostUnits (cost_result p sel v ps i out) \<le> cr_TotalCostUnits (cost_result p sel v ps i' out')"
proof -
  have "tokenCostUnits (cv_inputPerMillion v) (cv_inputPriceRMB v) i \<le>
      tokenCostUnits (cv_inputPerMillion v) (cv_inputPriceRMB v) i'"
    by (rule tokenCostUnits_mono) (use assms in auto)
  moreover have "tokenCostUnits (cv_outputPerMillion v) (cv_outputPriceRMB v) out \<le>
      tokenCostUnits (cv_outputPerMillion v) (cv_outputPriceRMB v) out'"
    by (rule tokenCostUnits_mono) (use assms in auto)
  moreover have "0 \<le> tokenCostUnits (cv_inputPerMillion v) (cv_inputPriceRMB v) i"
      "0 \<le> tokenCostUnits (cv_outputPerMillion v) (cv_outputPriceRMB v) out"
    using assms by (auto intro: tokenCostUnits_nonneg)
  ultimately show ?thesis
    unfolding cost_result_simps add64_token_costs [OF assms(5,7)] add64_token_costs [OF assms(6,8)]
    by (intro min_charge_mono) (use assms in auto)
qed

theorem total_grows_with_tokens_witness:
  "cr_TotalCostUnits (cost_result sample_pricing unmatched sample_vars (supplier_side sample_env 11) 1000 500) \<le>
   cr_TotalCostUnits (cost_result sample_pricing unmatched sample_vars (supplier_side sample_env 11) 1001 500)"
proof -
  have q: "RMBToBillingUnits 1 = 100000000" "RMBToBillingUnits 4 = 400000000" by code_simp+
  show ?thesis
    by (rule total_grows_with_tokens)
      (simp_all add: sample_vars_def fits_def units_per_million_def q)
qed


section \<open>Discounts\<close>

text \<open>A user discount with a rate between 0 and 1 never raises a price and never makes it negative,
  and the RMB prices shown are those of the reduced credit prices.\<close>

theorem discount_never_raises_price:
  assumes "umd_PricingType ud = ''DISCOUNT''" "umd_DiscountRate ud = Some r" "0 \<le> r" "r \<le> 1"
    and "0 \<le> mp_InputPricePerToken mp" "mp_InputPricePerToken mp \<le> 2 ^ 53"
    and "0 \<le> mp_OutputPricePerToken mp" "mp_OutputPricePerToken mp \<le> 2 ^ 53"
  shows "0 \<le> pr_InputPricePerMillion (applyDiscount env mp (buildUserDiscountResult ud)) \<and>
    pr_InputPricePerMillion (applyDiscount env mp (buildUserDiscountResult ud)) \<le> mp_InputPricePerToken mp \<and>
    0 \<le> pr_OutputPricePerMillion (applyDiscount env mp (buildUserDiscountResult ud)) \<and>
    pr_OutputPricePerMillion (applyDiscount env mp (buildUserDiscountResult ud)) \<le> mp_OutputPricePerToken mp \<and>
    pr_InputPriceRMB (applyDiscount env mp (buildUserDiscountResult ud)) =
      CreditsToRMB (pr_InputPricePerMillion (applyDiscount env mp (buildUserDiscountResult ud)))"
proof -
  have d: "dr_Type (buildUserDiscountResult ud) \<noteq> ''none''"
    "dr_PricingType (buildUserDiscountResult ud) = ''DISCOUNT''"
    "dr_InputDiscount (buildUserDiscountResult ud) = r"
    "dr_OutputDiscount (buildUserDiscountResult ud) = r"
    using assms(1,2) by (simp_all add: buildUserDiscountResult_def no_discount_def)
  show ?thesis
    using scaled_le [OF assms(5,6,3,4)] scaled_le [OF assms(7,8,3,4)]
    by (simp add: applyDiscount_DISCOUNT_fields [OF d(1,2)] d(3,4))
qed

theorem discount_never_raises_price_witness:
  "pr_InputPricePerMillion (applyDiscount sample_env sample_pricing (buildUserDiscountResult sample_discount))
     \<le> 20000"
  using discount_never_raises_price [of sample_discount "1/2" sample_pricing sample_env]
  by (simp add: sample_discount_def sample_pricing_def zero_ModelPricing_def)

text \<open>When a resolution has found no discount, the same user and model get none for the next ten
  minutes, whatever the discount table becomes meanwhile; clearing the miss cache ends that
  window at once.\<close>

theorem missing_discount_is_remembered:
  assumes "pc_miss s (u, m) = None" "0 < u" "0 < m"
    and "query_user_discount env u m (now + pe_lock_wait env) = Inr None"
    and "ResolveDiscount env now u tn m l s = (r, s1)"
    and "now' \<le> now + pe_lock_wait env + discountMissCacheTTL"
    and "query_user_discount env' u m (now' + pe_lock_wait env') = Inr (Some d)"
  shows "ResolveDiscount env' now' u tn' m l' s1 = (Inr no_discount, s1) \<and>
    ResolveDiscount env' now' u tn' m l' (clearDiscountMissCache s1) =
      (Inr (buildUserDiscountResult d), clearDiscountMissCache s1)"
proof -
  have s1: "s1 = storeDiscountMiss (u, m) (now + pe_lock_wait env) s"
    using ResolveDiscount_records_miss [OF assms(1-4)] assms(5) by simp
  have "ResolveDiscount env' now' u tn' m l' s1 = (Inr no_discount, s1)"
    by (rule ResolveDiscount_hit [OF _ assms(6)]) (simp add: s1 storeDiscountMiss_def)
  moreover have "ResolveDiscount env' now' u tn' m l' (clearDiscountMissCache s1) =
      (Inr (buildUserDiscountResult d), clearDiscountMissCache s1)"
    by (rule ResolveDiscount_fresh [OF _ assms(2,3,7)]) (simp add: clearDiscountMissCache_def)
  ultimately show ?thesis by blast
qed

text \<open>User 7 had no discount when asked at time 100; the row of \<open>sample_env\<close> is added later.\<close>

theorem missing_discount_is_remembered_witness:
  "\<exists>s1. ResolveDiscount sample_env 5000 7 0 11 0 s1 = (Inr no_discount, s1) \<and>
     ResolveDiscount sample_env 5000 7 0 11 0 (clearDiscountMissCache s1) =
       (Inr (buildUserDiscountResult sample_discount), clearDiscountMissCache s1)"
proof -
  define env0 where "env0 = sample_env\<lparr>pe_user_discounts := []\<rparr>"
  define s1 where "s1 = snd (ResolveDiscount env0 100 7 0 11 0 empty_caches)"
  have r: "ResolveDiscount env0 100 7 0 11 0 empty_caches =
      (fst (ResolveDiscount env0 100 7 0 11 0 empty_caches), s1)"
    by (simp add: s1_def)
  have q0: "query_user_discount env0 7 11 (100 + pe_lock_wait env0) = Inr None"
    by (simp add: query_user_discount_def env0_def sample_env_def first_row_def)
  have q1: "query_user_discount sample_env 7 11 (5000 + pe_lock_wait sample_env) = Inr (Some sample_discount)"
    by code_simp
  have "pc_miss empty_caches (7, 11) = None" by (simp add: empty_caches_def)
  from missing_discount_is_remembered [OF this _ _ q0 r _ q1, of 0 0]
  show ?thesis by (auto simp: discountMissCacheTTL_def env0_def sample_env_def)
qed

section \<open>The price cache\<close>

text \<open>A platform price read from the tables is served for exactly two minutes: up to then any read
  gives the same row whatever the tables became, and from then on a read gives what the tables
  say.\<close>

theorem platform_price_served_two_minutes:
  assumes "pc_platform s m = None" "getPlatformPrice env now m s = (Inr mp, s1)"
  shows "fst (getPlatformPrice env' now' m s1) =
    (if now' < now + platformPriceLocalCacheTTL then Inr mp else query_platform env' m)"
  using assms
  by (auto simp: getPlatformPrice_def load_platform_def store_platform_def split: sum.splits)

theorem platform_price_served_two_minutes_witness:
  "fst (getPlatformPrice (sample_env\<lparr>pe_model_pricings := []\<rparr>) 200 11 sample_caches) = Inr sample_pricing"
  using platform_price_served_two_minutes [OF _ sample_platform, of "sample_env\<lparr>pe_model_pricings := []\<rparr>" 200]
  by (simp add: empty_caches_def platformPriceLocalCacheTTL_def)

text \<open>The local price cache is transparent: a calculation on caches that hold only prices the tables
  still give returns what it returns on an empty price cache, error or cost.\<close>

theorem price_cache_transparent:
  assumes "\<forall>k mp e. pc_platform s k = Some (mp, e) \<longrightarrow> query_platform env k = Inr mp"
  shows "fst (CalculateCostWithDims env rg now u m tn l i out dims s) =
    fst (CalculateCostWithDims env rg now u m tn l i out dims (s\<lparr>pc_platform := \<lambda>_. None\<rparr>))"
proof -
  have "agree env s (s\<lparr>pc_platform := \<lambda>_. None\<rparr>)"
    using assms by (simp add: agree_def prices_fresh_iff)
  then show ?thesis
    using respects_CalculateCostWithDims [of env rg now u m tn l i out dims] by (simp add: respectful_def)
qed

theorem price_cache_transparent_witness:
  "fst (CalculateCostWithDims sample_env (\<lambda>_. None) 100 7 11 0 0 1000 500 [] sample_caches) = Inr sample_cost"
proof -
  have q: "query_platform sample_env 11 = Inr sample_pricing" by code_simp
  have e: "sample_caches\<lparr>pc_platform := \<lambda>_. None\<rparr> = empty_caches"
    by (simp add: sample_caches_def store_platform_def empty_caches_def)
  have "\<forall>k mp t. pc_platform sample_caches k = Some (mp, t) \<longrightarrow> query_platform sample_env k = Inr mp"
    by (auto simp: sample_caches_def store_platform_def empty_caches_def q)
  from price_cache_transparent [OF this, of "\<lambda>_. None" 100 7 11 0 0 1000 500 "[]"]
  show ?thesis using sample_run by (auto simp: e)
qed


section \<open>The price selection\<close>

lemma select_sale_not_matrix: "select_sale a mp dims i out = Some r \<Longrightarrow> \<not> ts_FromMatrix r"
  by (auto simp: select_sale_def split: option.splits if_splits)

lemma select_cost_not_matrix: "\<not> ts_FromMatrix (select_cost a mp dims i out)"
  by (auto simp: select_cost_def Let_def unmatched_def zero_TierPriceSelection_def split: option.splits)

lemma select_cost_from_tier:
  "ts_FromTier (select_cost a mp dims i out) \<or> select_cost a mp dims i out = unmatched"
  by (auto simp: select_cost_def Let_def split: option.splits)

text \<open>Every selection is one of the three sources or the empty one, and its credit prices are always
  the rounded RMB prices. A selection that says it comes from the matrix comes from a supported
  cell whose every dimension the request carries with an equal value.\<close>

theorem selection_has_a_source:
  assumes "selectPriceForTokens env now m i out dims s = (r, s')"
  shows "(ts_FromTier r \<or> r = unmatched) \<and>
    ts_InputPricePerMillion r = RMBToCredits (ts_InputPriceRMB r) \<and>
    ts_OutputPricePerMillion r = RMBToCredits (ts_OutputPriceRMB r) \<and>
    (ts_FromMatrix r \<longrightarrow> (\<exists>cell.
       MatchCellByModelID env m (map (\<lambda>(k, v). (k, IStr v)) dims) = Some cell \<and> pmc_Supported cell \<and>
       buildTierSelectionFromMatrixCell env (Some cell) (fst (load_tier_model env m)) = Some r))"
proof -
  have r: "r = fst (selectPriceForTokens env now m i out dims s)" using assms by simp
  have ca: "credits_agree r" unfolding r by (rule credits_agree_select)
  have "(ts_FromTier r \<or> r = unmatched) \<and> (ts_FromMatrix r \<longrightarrow> (\<exists>cell.
       MatchCellByModelID env m (map (\<lambda>(k, v). (k, IStr v)) dims) = Some cell \<and> pmc_Supported cell \<and>
       buildTierSelectionFromMatrixCell env (Some cell) (fst (load_tier_model env m)) = Some r))"
  proof (rule selectPriceForTokens_cases [of env m dims now i out s])
    assume c: "select_matrix env m (fst (load_tier_model env m)) dims =
        Some (fst (selectPriceForTokens env now m i out dims s))"
    then obtain cell where "MatchCellByModelID env m (map (\<lambda>(k, v). (k, IStr v)) dims) = Some cell"
      "buildTierSelectionFromMatrixCell env (Some cell) (fst (load_tier_model env m)) = Some r"
      by (auto simp: select_matrix_def r split: if_splits option.splits)
    then show ?thesis
      using select_matrix_Some(2) [OF c] MatchCellByModelID_supported r by blast
  next
    fix mp
    assume "select_sale (fst (load_tier_model env m)) mp dims i out =
        Some (fst (selectPriceForTokens env now m i out dims s))"
    then show ?thesis using select_sale_Some(2) select_sale_not_matrix r by blast
  next
    fix mp
    assume "fst (selectPriceForTokens env now m i out dims s) =
        select_cost (fst (load_tier_model env m)) mp dims i out"
    then show ?thesis using select_cost_not_matrix select_cost_from_tier r by metis
  next
    assume "fst (selectPriceForTokens env now m i out dims s) = unmatched"
    then show ?thesis using r by (simp add: unmatched_def zero_TierPriceSelection_def)
  qed
  with ca show ?thesis by (simp add: credits_agree_def)
qed

text \<open>The sample price row with the two sale tiers.\<close>

definition tiered_pricing :: ModelPricing where
  "tiered_pricing = sample_pricing\<lparr>mp_PriceTiers := Some \<lparr>ptd_Tiers = sample_tiers, ptd_Currency = ''CNY''\<rparr>\<rparr>"

definition tiered_env :: pricing_env where
  "tiered_env = sample_env\<lparr>pe_model_pricings := [tiered_pricing]\<rparr>"

lemma tiered_select:
  "\<exists>r s'. selectPriceForTokens tiered_env 100 11 200000 10 [] empty_caches = (r, s') \<and>
     ts_MatchedTierIdx r = 1 \<and> ts_InputPriceRMB r = 4 \<and> ts_FromTier r"
proof -
  have q: "query_platform tiered_env 11 = Inr tiered_pricing"
    by (simp add: query_platform_def tiered_env_def sample_env_def pricings_of_def first_row_def
        tiered_pricing_def sample_pricing_def)
  have g: "fst (getPlatformPrice tiered_env 100 11 empty_caches) = Inr tiered_pricing"
    by (simp add: getPlatformPrice_def load_platform_def empty_caches_def q)
  have l: "load_tier_model tiered_env 11 = (sample_model, False)"
    by (simp add: load_tier_model_def tiered_env_def sample_env_def)
  have t: "choose_tier sample_tiers [] 200000 10 = Some (1, sample_tiers ! 1)"
    by (simp add: choose_tier_def SelectTierOrLargest_def SelectTier_def sample_tiers_def Matches_def
        matchRange_def tierGreater_def zero_PriceTier_def)
  have p: "pt_SellingInputPrice (sample_tiers ! 1) = None" "pt_SellingOutputPrice (sample_tiers ! 1) = None"
    "pt_InputPrice (sample_tiers ! 1) = 4"
    by (simp_all add: sample_tiers_def zero_PriceTier_def)
  have "select_sale sample_model tiered_pricing [] 200000 10 =
      Some (fillPlatformTierCost sample_model tiered_pricing 200000 10 (sale_base 1 (sample_tiers ! 1)))"
    by (simp add: select_sale_def tiers_of_def tiered_pricing_def t p [simplified])
  then have "fst (selectPriceForTokens tiered_env 100 11 200000 10 [] empty_caches) =
      fillPlatformTierCost sample_model tiered_pricing 200000 10 (sale_base 1 (sample_tiers ! 1))"
    using g by (cases "getPlatformPrice tiered_env 100 11 empty_caches")
      (simp add: selectPriceForTokens_def l select_matrix_def)
  then show ?thesis
    by (cases "selectPriceForTokens tiered_env 100 11 200000 10 [] empty_caches") (simp add: p [simplified])
qed

theorem selection_has_a_source_witness:
  "\<exists>r s'. selectPriceForTokens tiered_env 100 11 200000 10 [] empty_caches = (r, s') \<and>
     ts_MatchedTierIdx r = 1 \<and> ts_InputPricePerMillion r = RMBToCredits 4"
proof -
  obtain r s' where r: "selectPriceForTokens tiered_env 100 11 200000 10 [] empty_caches = (r, s')"
    and t: "ts_MatchedTierIdx r = 1" "ts_InputPriceRMB r = 4"
    using tiered_select by blast
  from selection_has_a_source [OF r] have "ts_InputPricePerMillion r = RMBToCredits (ts_InputPriceRMB r)"
    by blast
  with r t show ?thesis by auto
qed

text \<open>A request gets the first supported cell of the matrix all of whose dimensions it carries with an
  equal value, and none exactly when no supported cell is like that.\<close>

theorem matrix_cell_first_fit:
  "(MatchCell env pm req = None \<longleftrightarrow>
      (\<forall>c \<in> set (pm_Cells pm). \<not> (pmc_Supported c \<and> matchDimValues env (pmc_DimValues c) req))) \<and>
   (MatchCell env pm req = Some c \<longleftrightarrow>
      (\<exists>k < length (pm_Cells pm). pm_Cells pm ! k = c \<and> pmc_Supported c \<and>
        matchDimValues env (pmc_DimValues c) req \<and>
        (\<forall>j < k. \<not> (pmc_Supported (pm_Cells pm ! j) \<and>
                     matchDimValues env (pmc_DimValues (pm_Cells pm ! j)) req)))) \<and>
   (matchDimValues env dv req \<longleftrightarrow>
      (\<forall>(k, want) \<in> set dv. \<exists>got. map_of req k = Some got \<and> valuesEqual env got want))"
proof -
  let ?P = "\<lambda>cell. pmc_Supported cell \<and> matchDimValues env (pmc_DimValues cell) req"
  have s: "MatchCell env pm req = Some c \<longleftrightarrow> (\<exists>k. find_idx ?P (pm_Cells pm) = Some (k, c))"
    by (auto simp: MatchCell_def)
  have n: "MatchCell env pm req = None \<longleftrightarrow> (\<forall>c \<in> set (pm_Cells pm). \<not> ?P c)"
    by (simp add: MatchCell_def)
  have f: "(\<exists>k. find_idx ?P (pm_Cells pm) = Some (k, c)) \<longleftrightarrow>
      (\<exists>k < length (pm_Cells pm). pm_Cells pm ! k = c \<and> pmc_Supported c \<and>
        matchDimValues env (pmc_DimValues c) req \<and> (\<forall>j < k. \<not> ?P (pm_Cells pm ! j)))"
    by (auto simp: find_idx_Some)
  show ?thesis by (rule conjI [OF n conjI [OF trans [OF s f] matchDimValues_iff]])
qed

text \<open>Two cells, the first for 24 frames per second, the second for any request. A number and
  its text are equal values.\<close>

definition sample_cells :: PriceMatrix where
  "sample_cells = \<lparr>pm_SchemaVersion = 1, pm_Cells =
     [\<lparr>pmc_DimValues = [(''fps'', INum 24)], pmc_OfficialInput = None, pmc_OfficialOutput = None,
       pmc_OfficialPerUnit = None, pmc_SellingInput = Some 3, pmc_SellingOutput = None,
       pmc_SellingPerUnit = None, pmc_Supported = True, pmc_Note = ''24fps''\<rparr>,
      \<lparr>pmc_DimValues = [], pmc_OfficialInput = None, pmc_OfficialOutput = None,
       pmc_OfficialPerUnit = None, pmc_SellingInput = Some 2, pmc_SellingOutput = None,
       pmc_SellingPerUnit = None, pmc_Supported = True, pmc_Note = ''any''\<rparr>]\<rparr>"

theorem matrix_cell_first_fit_witness:
  "MatchCell sample_env sample_cells [(''fps'', IStr ''24'')] = Some (pm_Cells sample_cells ! 0) \<and>
   MatchCell sample_env sample_cells [] = Some (pm_Cells sample_cells ! 1)"
proof -
  have v: "valuesEqual sample_env (IStr ''24'') (INum 24)" by code_simp
  have "MatchCell sample_env sample_cells [(''fps'', IStr ''24'')] = Some (pm_Cells sample_cells ! 0)"
    unfolding matrix_cell_first_fit [THEN conjunct2, THEN conjunct1]
    by (rule exI [of _ 0]) (simp add: sample_cells_def v)
  moreover have "MatchCell sample_env sample_cells [] = Some (pm_Cells sample_cells ! 1)"
    unfolding matrix_cell_first_fit [THEN conjunct2, THEN conjunct1]
    by (rule exI [of _ 1]) (simp add: sample_cells_def)
  ultimately show ?thesis by blast
qed

section \<open>Prompt caching\<close>

text \<open>The token split of a cached call is a partition while the reported cache tokens fit the input:
  regular, read and written tokens add up to the input tokens, and the written ones are the
  one-hour and the five-minute ones; no part is negative.\<close>

theorem cache_split_partitions:
  assumes "0 \<le> cu_CacheReadTokens u" "0 \<le> cu_CacheWriteTokens u"
    and "cu_CacheReadTokens u + cu_CacheWriteTokens u \<le> cu_InputTokens u" "cu_InputTokens u < 2 ^ 63"
  shows "cs_regular (split_tokens m u) + cs_read (split_tokens m u) + cs_write (split_tokens m u) =
      cu_InputTokens u \<and>
    cs_write1h (split_tokens m u) + cs_write5m (split_tokens m u) = cs_write (split_tokens m u) \<and>
    0 \<le> cs_regular (split_tokens m u) \<and> 0 \<le> cs_write1h (split_tokens m u) \<and>
    0 \<le> cs_write5m (split_tokens m u) \<and>
    (am_CacheMechanism m \<noteq> ''explicit'' \<longrightarrow> cs_write1h (split_tokens m u) = 0)"
proof -
  have a: "sub64 (cu_InputTokens u) (cu_CacheReadTokens u) = cu_InputTokens u - cu_CacheReadTokens u"
    using assms by (intro sub64_id) (simp add: in64_def)
  have b: "sub64 (cu_InputTokens u - cu_CacheReadTokens u) (cu_CacheWriteTokens u) =
      cu_InputTokens u - cu_CacheReadTokens u - cu_CacheWriteTokens u"
    using assms by (intro sub64_id) (simp add: in64_def)
  have c: "sub64 (cu_CacheWriteTokens u) w = cu_CacheWriteTokens u - w"
    if "0 \<le> w" "w \<le> cu_CacheWriteTokens u" for w
    using that assms by (intro sub64_id) (simp add: in64_def)
  show ?thesis using assms by (auto simp: split_tokens_def Let_def a b c)
qed

definition sample_cache_usage :: CacheUsageInput where
  "sample_cache_usage = \<lparr>cu_InputTokens = 1000, cu_OutputTokens = 500, cu_CacheReadTokens = 600,
     cu_CacheWriteTokens = 100, cu_CacheWrite1hTokens = 40\<rparr>"

theorem cache_split_partitions_witness:
  "cs_regular (split_tokens sample_model sample_cache_usage) = 300 \<and>
   cs_write1h (split_tokens sample_model sample_cache_usage) +
     cs_write5m (split_tokens sample_model sample_cache_usage) = 100"
proof -
  have "cs_read (split_tokens sample_model sample_cache_usage) = 600"
    "cs_write (split_tokens sample_model sample_cache_usage) = 100"
    by (simp_all add: split_tokens_def sample_cache_usage_def Let_def)
  then show ?thesis
    using cache_split_partitions [of sample_cache_usage sample_model] by (simp add: sample_cache_usage_def)
qed


lemma MulDivRound_comm: "MulDivRound n m d = MulDivRound m n d"
  by (auto simp: MulDivRound_def mul64_def mult.commute)

lemma MulDivRound_split:
  assumes "0 \<le> a" "0 \<le> b" "0 < d" "0 \<le> n" "n * (a + b) + d div 2 < 2 ^ 63"
  shows "MulDivRound n a d + MulDivRound n b d \<le> MulDivRound n (a + b) d + 1"
proof (cases "0 < n \<and> 0 < a \<and> 0 < b")
  case True
  have d: "n * (a + b) = n * a + n * b" by (simp add: distrib_left)
  have pos: "0 < n * a" "0 < n * b" using True by simp_all
  have r: "n * a + d div 2 < 2 ^ 63" "n * b + d div 2 < 2 ^ 63" using assms(5) pos d by linarith+
  have q: "x div d + y div d \<le> (x + y) div d" for x y :: int
    using assms(3) by (simp add: div_add1_eq [of x y d] pos_imp_zdiv_nonneg_iff)
  have "MulDivRound n a d + MulDivRound n b d \<le> (n * a + d div 2 + (n * b + d div 2)) div d"
    unfolding MulDivRound_exact [OF conjunct1 [OF True] conjunct1 [OF conjunct2 [OF True]] assms(3) r(1)]
      MulDivRound_exact [OF conjunct1 [OF True] conjunct2 [OF conjunct2 [OF True]] assms(3) r(2)]
    by (rule q)
  also have "\<dots> \<le> (n * (a + b) + d div 2 + d) div d"
    using assms(3) d by (intro zdiv_mono1) auto
  also have "\<dots> = MulDivRound n (a + b) d + 1"
    using True assms by (simp add: MulDivRound_exact)
  finally show ?thesis .
next
  case False
  then have "n = 0 \<or> a = 0 \<or> b = 0" using assms by auto
  then show ?thesis
  proof (elim disjE)
    assume "n = 0" then show ?thesis by (simp add: MulDivRound_def)
  next
    assume "a = 0" then show ?thesis by (simp add: MulDivRound_def [of n 0])
  next
    assume "b = 0" then show ?thesis by (simp add: MulDivRound_def [of n 0])
  qed
qed

lemma credits_cost_eq:
  "0 \<le> p \<Longrightarrow> p \<le> 2 ^ 49 \<Longrightarrow> CostUnitsFromCreditsPerMillion p n = MulDivRound (p * 10000) n 1000000"
  by (auto simp: CostUnitsFromCreditsPerMillion_def CreditsPerMillionToBillingUnits_def
      CreditsToBillingUnits_eq)

text \<open>A call that only reads from the cache never pays more for its input than the same call at the
  full credit price, up to the one unit that rounding two parts can add, when the cache ratio is
  at most one.\<close>

theorem cache_reads_never_dearer:
  assumes "cu_CacheWriteTokens u = 0" "0 \<le> cu_CacheReadTokens u" "cu_CacheReadTokens u \<le> cu_InputTokens u"
    and "0 \<le> fst (cache_ratios m u)" "fst (cache_ratios m u) \<le> 1"
    and "0 \<le> pr_InputPricePerMillion (cr_PriceDetail base)" "pr_InputPricePerMillion (cr_PriceDetail base) \<le> 2 ^ 49"
    and "cu_InputTokens u < 2 ^ 62"
    and "fits (pr_InputPricePerMillion (cr_PriceDetail base)) 0 (cu_InputTokens u)"
  shows "cr_InputCostUnits (cache_cost_result m u base) \<le>
      CostUnitsFromCreditsPerMillion (pr_InputPricePerMillion (cr_PriceDetail base)) (cu_InputTokens u) + 1"
proof -
  obtain rr wr where c: "cache_ratios m u = (rr, wr)" by fastforce
  obtain p where p: "p = pr_InputPricePerMillion (cr_PriceDetail base)" by simp
  obtain rp where rp: "rp = f2i (fmul (i2f p) rr)" by simp
  obtain n k where nk: "n = cu_InputTokens u" "k = cu_CacheReadTokens u" by simp
  have b: "0 \<le> p" "p \<le> 2 ^ 49" "0 \<le> rr" "rr \<le> 1" "0 \<le> k" "k \<le> n" "n < 2 ^ 62"
    using assms by (simp_all add: c p nk)
  have upm: "units_per_million p 0 = p * 10000"
    using b by (auto simp: units_per_million_def CreditsPerMillionToBillingUnits_def CreditsToBillingUnits_eq)
  have fits: "fits p 0 n" using assms(9) by (simp add: p nk)
  then have pn: "p * 10000 * n + 500000 < 2 ^ 62" by (simp add: fits_def upm)
  have rp_le: "0 \<le> rp" "rp \<le> p" unfolding rp using scaled_le [of p rr] b by auto
  have sub: "sub64 n k = n - k" using b by (intro sub64_id) (simp add: in64_def)
  have sp: "cs_read (split_tokens m u) = k" "cs_write1h (split_tokens m u) = 0"
    "cs_write5m (split_tokens m u) = 0" "cs_regular (split_tokens m u) = n - k"
    using assms(1) b sub by (auto simp: split_tokens_def Let_def nk sub64_def in64_def)
  have zero: "CostUnitsFromCreditsPerMillion x 0 = 0" for x
    by (simp add: CostUnitsFromCreditsPerMillion_def MulDivRound_def)
  let ?c = "\<lambda>q t. MulDivRound (q * 10000) t 1000000"
  have f: "p * 10000 * t + 1000000 div 2 < 2 ^ 62 + 1000000" "rp * 10000 * t + 1000000 div 2 < 2 ^ 62 + 1000000"
    if "0 \<le> t" "t \<le> n" for t
  proof -
    have "p * 10000 * t \<le> p * 10000 * n" "rp * 10000 * t \<le> p * 10000 * n"
      using that b rp_le by (intro mult_mono; simp)+
    then show "p * 10000 * t + 1000000 div 2 < 2 ^ 62 + 1000000" "rp * 10000 * t + 1000000 div 2 < 2 ^ 62 + 1000000"
      using pn by linarith+
  qed
  have read: "?c rp k \<le> ?c p k"
    unfolding MulDivRound_comm [of "_ * 10000" k]
    using rp_le f(1) [of k] b by (intro MulDivRound_mono) (auto simp: mult.commute mult.left_commute)
  have sum: "?c p (n - k) + ?c p k \<le> ?c p n + 1"
    using MulDivRound_split [of "n - k" k 1000000 "p * 10000"] b f(1) [of n] by simp
  have nn: "0 \<le> ?c p (n - k)" "0 \<le> ?c rp k"
    using f [of "n - k"] f [of k] b by (auto intro!: MulDivRound_nonneg)
  have e: "CostUnitsFromCreditsPerMillion p t = ?c p t" "CostUnitsFromCreditsPerMillion rp t = ?c rp t" for t
    using b rp_le by (simp_all add: credits_cost_eq)
  have "cr_InputCostUnits (cache_cost_result m u base) =
      add64 (add64 (CostUnitsFromCreditsPerMillion p (n - k)) (CostUnitsFromCreditsPerMillion rp k)) (add64 0 0)"
    unfolding cache_cost_result_def c by (simp add: Let_def sp zero rp p)
  also have "\<dots> = add64 (add64 (?c p (n - k)) (?c rp k)) 0" unfolding e by (simp add: add64_def [of 0 0])
  also have "\<dots> = ?c p (n - k) + ?c rp k"
  proof -
    have "?c p n < 2 ^ 62"
      using tokenCostUnits_small [OF fits] by (simp add: tokenCostUnits_eq upm)
    then have "in64 (?c p (n - k) + ?c rp k)" using read sum nn by (simp add: in64_def)
    then show ?thesis by (simp add: add64_def)
  qed
  also have "\<dots> \<le> ?c p n + 1" using read sum by linarith
  finally show ?thesis unfolding e nk [symmetric] p [symmetric] .
qed


definition sample_read_usage :: CacheUsageInput where
  "sample_read_usage = \<lparr>cu_InputTokens = 1000, cu_OutputTokens = 500, cu_CacheReadTokens = 600,
     cu_CacheWriteTokens = 0, cu_CacheWrite1hTokens = 0\<rparr>"

theorem cache_reads_never_dearer_witness:
  "cr_InputCostUnits (cache_cost_result sample_model sample_read_usage sample_cost) \<le>
     CostUnitsFromCreditsPerMillion 10000 1000 + 1"
proof -
  have t: "0 \<le> lit (1/10)" "lit (1/10) \<le> 1" by code_simp+
  have "fst (cache_ratios sample_model sample_read_usage) = lit (1/10)"
    by (simp add: cache_ratios_def cache_ratio_def sample_model_def zero_AIModel_def)
  moreover have "pr_InputPricePerMillion (cr_PriceDetail sample_cost) = 10000"
    by (simp add: sample_cost_def sample_vars_def)
  ultimately show ?thesis
    using cache_reads_never_dearer [of sample_read_usage sample_model sample_cost] t
    by (simp add: sample_read_usage_def fits_def units_per_million_def CreditsPerMillionToBillingUnits_def
        CreditsToBillingUnits_eq)
qed

text \<open>A model that is free is charged once a prompt cache is involved: where the plain calculation
  comes to zero units, the cached one charges one unit, because its minimum charge does not ask
  for a price.\<close>

theorem cached_free_call_is_charged:
  assumes "CalculateCost env rg now uid (am_ID m) tn l (cu_InputTokens u) (cu_OutputTokens u) s = (Inr base, s')"
    and "pr_InputPricePerMillion (cr_PriceDetail base) = 0" "pr_OutputPricePerMillion (cr_PriceDetail base) = 0"
    and "pr_InputPriceRMB (cr_PriceDetail base) = 0" "pr_OutputPriceRMB (cr_PriceDetail base) = 0"
    and "\<not> without_cache m u" "0 < cu_InputTokens u"
  shows "cr_TotalCostUnits base = 0 \<and>
    (\<exists>c. CalculateCostWithCache env rg now uid (Some m) tn l u s = (Inr c, s') \<and> cr_TotalCostUnits c = 1)"
proof -
  obtain p sel v where b: "base = cost_result p sel v (supplier_side env (am_ID m))
      (max 0 (cu_InputTokens u)) (max 0 (cu_OutputTokens u))"
    using CalculateCostWithDims_ok [OF assms(1) [unfolded CalculateCost_def]] by metis
  have z: "CostUnitsFromCreditsPerMillion 0 n = 0" for n
    by (simp add: CostUnitsFromCreditsPerMillion_def CreditsPerMillionToBillingUnits_def MulDivRound_def)
  have a0: "add64 0 0 = 0" by (simp add: add64_def)
  have v: "cv_inputPerMillion v = 0" "cv_outputPerMillion v = 0" "cv_inputPriceRMB v = 0" "cv_outputPriceRMB v = 0"
    using assms(2-5) by (simp_all add: b)
  have "cr_TotalCostUnits base = 0" by (simp add: b v tokenCostUnits_def z a0 min_charge_def)
  moreover have "CalculateCostWithCache env rg now uid (Some m) tn l u s = (Inr (cache_cost_result m u base), s')"
    using assms(1,6) by (simp add: CalculateCostWithCache_def Let_def andThen_def ret_def)
  moreover have "cr_TotalCostUnits (cache_cost_result m u base) = 1"
    using assms(2,3,7)
    by (cases "cache_ratios m u") (simp add: cache_cost_result_def Let_def fmul_def z a0 min_charge_def)
  ultimately show ?thesis by blast
qed

text \<open>A free model at the platform's list price.\<close>

definition free_pricing :: ModelPricing where
  "free_pricing = zero_ModelPricing\<lparr>mp_ID := 21, mp_ModelID := 11, mp_Currency := ''CREDIT'', mp_EffectiveFrom := Some 0\<rparr>"

definition free_env :: pricing_env where
  "free_env = sample_env\<lparr>pe_model_pricings := [free_pricing]\<rparr>"

definition free_caches :: price_caches where
  "free_caches = store_platform 11 free_pricing 100 empty_caches"

lemma free_run:
  "\<exists>p sel v s'. CalculateCost free_env (\<lambda>_. None) 100 0 11 0 0 1000 500 empty_caches =
     (Inr (cost_result p sel v (supplier_side free_env 11) 1000 500), s') \<and>
     cv_inputPerMillion v = 0 \<and> cv_outputPerMillion v = 0 \<and> cv_inputPriceRMB v = 0 \<and> cv_outputPriceRMB v = 0"
proof -
  have q: "query_platform free_env 11 = Inr free_pricing"
    by (simp add: query_platform_def free_env_def sample_env_def pricings_of_def first_row_def
        free_pricing_def zero_ModelPricing_def)
  have g: "getPlatformPrice free_env 100 11 empty_caches = (Inr free_pricing, free_caches)"
    by (simp add: getPlatformPrice_def load_platform_def empty_caches_def q
        free_caches_def [unfolded empty_caches_def])
  note again = getPlatformPrice_again [OF g]
  have l: "load_tier_model free_env 11 = (sample_model, False)"
    by (simp add: load_tier_model_def free_env_def sample_env_def)
  have t: "mp_PriceTiers free_pricing = None" "am_PriceTiers sample_model = None"
    by (simp_all add: free_pricing_def zero_ModelPricing_def sample_model_def zero_AIModel_def)
  have sel: "selectPriceForTokens free_env 100 11 1000 500 [] free_caches = (unmatched, free_caches)"
    by (simp add: selectPriceForTokens_def again select_matrix_def l select_sale_def
        select_cost_def choose_tier_def tiers_of_def t)
  show ?thesis
    by (simp add: CalculateCost_def CalculateCostWithDims_def Let_def g andThen_def total_def sel
        unmatched_def zero_TierPriceSelection_def price_by_list_def CalculatePrice_def again
        cacheResult_def modify_def ret_def free_pricing_def zero_ModelPricing_def)
      (intro exI conjI, rule refl, simp_all)
qed

theorem cached_free_call_is_charged_witness:
  "\<exists>c s'. CalculateCostWithCache free_env (\<lambda>_. None) 100 0 (Some sample_model) 0 0 sample_cache_usage empty_caches =
     (Inr c, s') \<and> cr_TotalCostUnits c = 1"
proof -
  obtain p sel v s' where r: "CalculateCost free_env (\<lambda>_. None) 100 0 11 0 0 1000 500 empty_caches =
      (Inr (cost_result p sel v (supplier_side free_env 11) 1000 500), s')"
    and v: "cv_inputPerMillion v = 0" "cv_outputPerMillion v = 0" "cv_inputPriceRMB v = 0" "cv_outputPriceRMB v = 0"
    using free_run by blast
  have i: "am_ID sample_model = 11" by (simp add: sample_model_def)
  have "\<not> without_cache sample_model sample_cache_usage"
    by (simp add: without_cache_def sample_model_def zero_AIModel_def sample_cache_usage_def)
  then show ?thesis
    using cached_free_call_is_charged [of free_env "\<lambda>_. None" 100 0 sample_model 0 0 sample_cache_usage
        empty_caches "cost_result p sel v (supplier_side free_env 11) 1000 500" s'] r v
    by (auto simp: i sample_cache_usage_def)
qed

section \<open>Video\<close>

text \<open>With an input video and a model that asks for one, a video that is not a draft is charged for
  its volume in tokens, rounded up, but never for less than the minimum its output length asks
  for.\<close>

theorem video_minimum_applies:
  assumes "vpc_RequireInputVideo c" "vu_HasInputVideo u" "\<not> vu_IsDraft u"
    and "0 \<le> LookupMinTokens c (vu_OutputVideoSeconds u)" "LookupMinTokens c (vu_OutputVideoSeconds u) \<le> 2 ^ 53"
    and "video_volume u \<le> 2 ^ 53"
  shows "video_tokens (Some c) u = max (LookupMinTokens c (vu_OutputVideoSeconds u)) \<lceil>video_volume u\<rceil>"
proof -
  obtain k w where k: "k = LookupMinTokens c (vu_OutputVideoSeconds u)" and w: "w = video_volume u" by simp
  have b: "0 \<le> k" "k \<le> 2 ^ 53" "w \<le> 2 ^ 53" using assms(4-6) by (simp_all add: k w)
  have ki: "i2f k = of_int k" using b by simp
  have cw: "\<lceil>w\<rceil> \<le> 2 ^ 53" using b(3) by (simp add: ceiling_le_iff)
  have "(if of_int k > w then of_int k else w) = max (of_int k) w" by auto
  then have fl: "f2i (math_Ceil (if of_int k > w then of_int k else w)) = max k \<lceil>w\<rceil>"
  proof -
    have "\<lceil>max (of_int k) w\<rceil> = max k \<lceil>w\<rceil>" by (simp add: max_def ceiling_le_iff) linarith
    moreover have "in64 (max k \<lceil>w\<rceil>)"
    proof -
      have "0 \<le> max k \<lceil>w\<rceil>" "max k \<lceil>w\<rceil> \<le> 2 ^ 53" using b cw by auto
      then show ?thesis unfolding in64_def by simp
    qed
    ultimately show ?thesis
      using \<open>(if of_int k > w then of_int k else w) = max (of_int k) w\<close> by (simp add: math_Ceil_def)
  qed
  have "video_tokens (Some c) u =
      (let t = f2i (math_Ceil (if of_int k > w then of_int k else w)) in if t < 0 then 0 else t)"
    unfolding video_tokens_def using assms(1-3) by (simp add: Let_def ki k [symmetric] w [symmetric])
  also have "\<dots> = max k \<lceil>w\<rceil>" unfolding fl using b by (simp add: Let_def)
  finally show ?thesis by (simp add: k w)
qed

definition sample_video :: VideoPricingConfig where
  "sample_video = \<lparr>vpc_SupportDraft = False, vpc_DraftCoefSilent = 0, vpc_DraftCoefAudio = 0,
     vpc_RequireInputVideo = True, vpc_MinTokensRules = [(5, 50000), (10, 100000)]\<rparr>"

definition sample_clip :: VideoUsageInput where
  "sample_clip = \<lparr>vu_InputVideoSeconds = 1, vu_OutputVideoSeconds = 2, vu_VideoWidth = 64,
     vu_VideoHeight = 64, vu_VideoFPS = 24, vu_IsDraft = False, vu_HasAudio = False, vu_HasInputVideo = True\<rparr>"

theorem video_minimum_applies_witness:
  "video_tokens (Some sample_video) sample_clip = 50000"
proof -
  have "LookupMinTokens sample_video (vu_OutputVideoSeconds sample_clip) = 50000"
    by (simp add: LookupMinTokens_def sample_video_def sample_clip_def)
  moreover have "video_volume sample_clip = 288" by code_simp
  ultimately show ?thesis
    using video_minimum_applies [of sample_video sample_clip] by (simp add: sample_video_def sample_clip_def)
qed

end
