(* ===== verification/Ledger.thy ===== *)
theory Ledger
  imports Credits "HOL-Library.Product_Lexorder"
begin

text \<open>
  The tables the balance, referral and withdrawal services share, as one state
  (\<open>ledger\<close>): \<open>internal/model/user_balance.go\<close>, \<open>balance_record.go\<close>,
  \<open>rate_limit_config.go\<close> (\<open>FreezeRecord\<close>), \<open>quota_config.go\<close>,
  \<open>referral_attribution.go\<close>, \<open>referral_config.go\<close>,
  \<open>user_commission_override.go\<close>, \<open>commission_rule.go\<close>,
  \<open>commission_record.go\<close>. Tables are lists in primary-key order, except balances, which
  are a map from the user (a unique index). Times are nanoseconds. A database transaction with
  its row lock is one atomic step; \<open>le_fails\<close> says which database calls fail.
\<close>

section \<open>Tables\<close>

record UserBalance =
  ub_UserID :: nat
  ub_TenantID :: nat
  ub_Balance :: int64
  ub_BalanceRMB :: float64
  ub_FreeQuota :: int64
  ub_FreeQuotaRMB :: float64
  ub_TotalConsumed :: int64
  ub_TotalConsumedRMB :: float64
  ub_FrozenAmount :: int64
  ub_BalanceUnits :: int64
  ub_FreeQuotaUnits :: int64
  ub_TotalConsumedUnits :: int64
  ub_FrozenUnits :: int64
  ub_TotalRechargedUnits :: int64
  ub_Currency :: string
  ub_FreeQuotaExpiredAt :: "int option"
  ub_TotalRecharged :: int64

definition zero_UserBalance :: UserBalance where
  "zero_UserBalance =
     \<lparr>ub_UserID = 0, ub_TenantID = 0, ub_Balance = 0, ub_BalanceRMB = 0, ub_FreeQuota = 0,
      ub_FreeQuotaRMB = 0, ub_TotalConsumed = 0, ub_TotalConsumedRMB = 0, ub_FrozenAmount = 0,
      ub_BalanceUnits = 0, ub_FreeQuotaUnits = 0, ub_TotalConsumedUnits = 0, ub_FrozenUnits = 0,
      ub_TotalRechargedUnits = 0, ub_Currency = '''', ub_FreeQuotaExpiredAt = None,
      ub_TotalRecharged = 0\<rparr>"

record BalanceRecord =
  br_UserID :: nat
  br_TenantID :: nat
  br_Type :: string
  br_Amount :: int64
  br_AmountRMB :: float64
  br_BeforeBalance :: int64
  br_AfterBalance :: int64
  br_AmountUnits :: int64
  br_BeforeBalanceUnits :: int64
  br_AfterBalanceUnits :: int64
  br_Remark :: string
  br_RelatedID :: string

text \<open>The values the code writes to the status column.\<close>

datatype freeze_status = FROZEN | SETTLED | RELEASED

record FreezeRecord =
  fr_FreezeID :: string
  fr_UserID :: nat
  fr_TenantID :: nat
  fr_FrozenAmount :: int64
  fr_FrozenAmountRMB :: float64
  fr_ActualCost :: int64
  fr_ActualCostRMB :: float64
  fr_FrozenUnits :: int64
  fr_Status :: freeze_status
  fr_ModelName :: string
  fr_RequestID :: string
  fr_CreatedAt :: int

record QuotaConfig =
  qc_ID :: nat
  qc_DefaultFreeQuota :: int64
  qc_RegistrationBonus :: int64
  qc_InviteeBonus :: int64
  qc_InviteeUnlockCredits :: int64
  qc_InviterBonus :: int64
  qc_InviterUnlockPaidRMB :: int64
  qc_InviterMonthlyCap :: int64
  qc_FreeQuotaExpiryDays :: int64
  qc_PaidThresholdCredits :: int64
  qc_IsActive :: bool
  qc_Description :: string

record ReferralAttribution =
  ra_ID :: nat
  ra_UserID :: nat
  ra_InviterID :: nat
  ra_ReferralCode :: string
  ra_AttributedAt :: int
  ra_ExpiresAt :: "int option"
  ra_UnlockedAt :: "int option"
  ra_IsValid :: bool
  ra_InvalidReason :: string
  ra_InviteeBonusGranted :: bool
  ra_InviteeBonusAt :: "int option"
  ra_InviterBonusGranted :: bool
  ra_InviterBonusAt :: "int option"

record ReferralConfig =
  rc_ID :: nat
  rc_CommissionRate :: float64
  rc_AttributionDays :: int64
  rc_LifetimeCapCredits :: int64
  rc_MinPaidCreditsUnlock :: int64
  rc_MinWithdrawAmount :: int64
  rc_SettleDays :: int64
  rc_PersonalCashbackRate :: float64
  rc_IsActive :: bool

record UserCommissionOverride =
  co_ID :: nat
  co_UserID :: nat
  co_IsActive :: bool
  co_CommissionRate :: float64
  co_AttributionDays :: "int64 option"
  co_LifetimeCapCredits :: "int64 option"
  co_MinPaidCreditsUnlock :: "int64 option"
  co_EffectiveFrom :: int
  co_EffectiveTo :: "int option"

text \<open>A rule with the ids of the users and models it is joined with.\<close>

record CommissionRule =
  ru_ID :: nat
  ru_CommissionRate :: float64
  ru_Priority :: int64
  ru_IsActive :: bool
  ru_EffectiveFrom :: int
  ru_EffectiveTo :: "int option"
  ru_Users :: "nat list"
  ru_Models :: "nat list"

record CommissionRecord =
  cm_ID :: nat
  cm_CreatedAt :: int
  cm_TenantID :: nat
  cm_UserID :: nat
  cm_SourceUserID :: nat
  cm_SourceTenantID :: nat
  cm_OrderAmount :: int64
  cm_OrderAmountRMB :: float64
  cm_CommissionRate :: float64
  cm_CommissionAmount :: int64
  cm_CommissionAmountRMB :: float64
  cm_Type :: string
  cm_Status :: string
  cm_RelatedID :: string
  cm_AttributionID :: "nat option"
  cm_OverrideID :: "nat option"
  cm_RuleID :: "nat option"
  cm_EffectiveRate :: float64
  cm_Credited :: bool
  cm_SettleAt :: "int option"

record ReferralLink =
  rl_ID :: nat
  rl_Code :: string
  rl_UserID :: nat
  rl_RegisterCount :: int64

record user_row =
  us_ID :: nat
  us_TenantID :: nat
  us_ReferralCode :: string
  us_ReferredBy :: nat

text \<open>The result of a commission decision (\<open>rule_resolver.go\<close>), which Redis caches.\<close>

record ResolvedRate =
  rr_Rate :: float64
  rr_PlatformRate :: float64
  rr_Source :: string
  rr_RuleID :: nat
  rr_OverrideID :: nat
  rr_LifetimeCap :: int64

text \<open>A payment, as far as the referral bonus sums it: user, completed, credits.\<close>

record payment_row =
  pay_UserID :: nat
  pay_Completed :: bool
  pay_CreditAmount :: int64

text \<open>An update that a goroutine will make after the call has returned.\<close>

record expire_job =
  ej_UserID :: nat
  ej_TenantID :: nat
  ej_ExpiredUnits :: int64
  ej_BalanceUnits :: int64

record ledger =
  lg_balances :: "nat \<Rightarrow> UserBalance option"
  lg_records :: "BalanceRecord list"
  lg_freezes :: "FreezeRecord list"
  lg_quota_configs :: "QuotaConfig list"
  lg_attributions :: "ReferralAttribution list"
  lg_ref_configs :: "ReferralConfig list"
  lg_overrides :: "UserCommissionOverride list"
  lg_rules :: "CommissionRule list"
  lg_users :: "user_row list"
  lg_links :: "ReferralLink list"
  lg_domains :: "string list"
  lg_payments :: "payment_row list"
  lg_commissions :: "CommissionRecord list"
  lg_jobs :: "expire_job list"
  lg_cache_dels :: "nat list"
  lg_rate_cache :: "((nat \<times> nat) \<times> ResolvedRate) list"

section \<open>The environment of a call\<close>

datatype db_call =
    LockBalance | RelockBalance | CreateBalance | SaveBalance | CreateRecord | CreateFreeze
  | FindFreeze | UpdateFreeze | AcquireLock | QueryBalance | QueryConfig
  | QueryAttribution | QueryRefConfig | QueryOverride | UpdateAttribution | UpdateBalance
  | QueryUser | QueryRule | QueryEarned | CreateCommission | QueryFreezes
  | QueryLink | UpdateLink | UpdateUser | CreateAttribution | QueryPayments | QueryGranted | UpdateCommission | QueryTenant
  | QueryWithdrawal | UpdateWithdrawal | CreateWithdrawalRow | QueryCommissions | SetLock | DelLock

text \<open>\<open>le_uuid\<close> is the identifier \<open>uuid.New()\<close> returns in the call.\<close>

record ledger_env =
  le_now :: int
  le_fails :: "db_call \<Rightarrow> bool"
  le_uuid :: string

datatype ledger_error =
    NotPositive | AmountZero | InsufficientBalance int64 int64 | RecordNotFound | DBError db_call

type_synonym 'a ledger_act = "(ledger, ledger_error, 'a) act"

definition first_where :: "('a \<Rightarrow> bool) \<Rightarrow> 'a list \<Rightarrow> 'a option" where
  "first_where P rows = (case filter P rows of [] \<Rightarrow> None | r # _ \<Rightarrow> Some r)"

lemma first_where_Some:
  assumes "first_where P rows = Some r"
  shows "r \<in> set rows" "P r"
proof -
  obtain rest where "filter P rows = r # rest"
    using assms by (auto simp: first_where_def split: list.splits)
  then have "r \<in> set (filter P rows)" by simp
  then show "r \<in> set rows" "P r" by auto
qed

lemma first_where_None: "first_where P rows = None \<longleftrightarrow> (\<forall>r \<in> set rows. \<not> P r)"
proof -
  have "first_where P rows = None \<longleftrightarrow> filter P rows = []"
    by (simp add: first_where_def split: list.splits)
  then show ?thesis by (simp add: filter_empty_conv)
qed

section \<open>Balances\<close>

definition hydrate_one :: "int64 \<Rightarrow> int64 \<Rightarrow> int64" where
  "hydrate_one units legacy = (if units = 0 \<and> legacy > 0 then CreditsToBillingUnits legacy else units)"

definition syncBalanceCreditFields :: "UserBalance \<Rightarrow> UserBalance" where
  "syncBalanceCreditFields ub =
     ub\<lparr>ub_Balance := BillingUnitsToCredits (ub_BalanceUnits ub),
        ub_BalanceRMB := BillingUnitsToRMB (ub_BalanceUnits ub),
        ub_FreeQuota := BillingUnitsToCredits (ub_FreeQuotaUnits ub),
        ub_FreeQuotaRMB := BillingUnitsToRMB (ub_FreeQuotaUnits ub),
        ub_TotalConsumed := BillingUnitsToCredits (ub_TotalConsumedUnits ub),
        ub_TotalConsumedRMB := BillingUnitsToRMB (ub_TotalConsumedUnits ub),
        ub_FrozenAmount := BillingUnitsToCredits (ub_FrozenUnits ub),
        ub_TotalRecharged := BillingUnitsToCredits (ub_TotalRechargedUnits ub)\<rparr>"

definition hydrateBalanceUnits :: "UserBalance \<Rightarrow> UserBalance" where
  "hydrateBalanceUnits ub =
     syncBalanceCreditFields
      (ub\<lparr>ub_BalanceUnits := hydrate_one (ub_BalanceUnits ub) (ub_Balance ub),
          ub_FreeQuotaUnits := hydrate_one (ub_FreeQuotaUnits ub) (ub_FreeQuota ub),
          ub_FrozenUnits := hydrate_one (ub_FrozenUnits ub) (ub_FrozenAmount ub),
          ub_TotalConsumedUnits := hydrate_one (ub_TotalConsumedUnits ub) (ub_TotalConsumed ub),
          ub_TotalRechargedUnits := hydrate_one (ub_TotalRechargedUnits ub) (ub_TotalRecharged ub)\<rparr>)"

definition balanceRecordFromUnits ::
  "nat \<Rightarrow> nat \<Rightarrow> string \<Rightarrow> int64 \<Rightarrow> int64 \<Rightarrow> int64 \<Rightarrow> string \<Rightarrow> string \<Rightarrow> BalanceRecord" where
  "balanceRecordFromUnits userID tenantID recordType amountUnits beforeUnits afterUnits remark relatedID =
     \<lparr>br_UserID = userID, br_TenantID = tenantID, br_Type = recordType,
      br_Amount = BillingUnitsToCredits amountUnits, br_AmountRMB = BillingUnitsToRMB amountUnits,
      br_BeforeBalance = BillingUnitsToCredits beforeUnits,
      br_AfterBalance = BillingUnitsToCredits afterUnits, br_AmountUnits = amountUnits,
      br_BeforeBalanceUnits = beforeUnits, br_AfterBalanceUnits = afterUnits,
      br_Remark = remark, br_RelatedID = relatedID\<rparr>"

text \<open>What a user may still spend.\<close>

definition available :: "UserBalance \<Rightarrow> int64" where
  "available ub = sub64 (add64 (ub_BalanceUnits ub) (ub_FreeQuotaUnits ub)) (ub_FrozenUnits ub)"

section \<open>Database calls\<close>

definition lockBalance :: "ledger_env \<Rightarrow> nat \<Rightarrow> UserBalance ledger_act" where
  "lockBalance env userID s =
     (if le_fails env LockBalance then (Inl (DBError LockBalance), s)
      else case lg_balances s userID of None \<Rightarrow> (Inl RecordNotFound, s) | Some ub \<Rightarrow> (Inr ub, s))"

definition saveBalance :: "ledger_env \<Rightarrow> nat \<Rightarrow> UserBalance \<Rightarrow> unit ledger_act" where
  "saveBalance env userID ub =
     guarded (le_fails env SaveBalance) (DBError SaveBalance)
       (modify (\<lambda>s. s\<lparr>lg_balances := (lg_balances s)(userID \<mapsto> ub)\<rparr>))"

definition createRecord :: "ledger_env \<Rightarrow> BalanceRecord \<Rightarrow> unit ledger_act" where
  "createRecord env r =
     guarded (le_fails env CreateRecord) (DBError CreateRecord)
       (modify (\<lambda>s. s\<lparr>lg_records := lg_records s @ [r]\<rparr>))"

definition InvalidateCache :: "nat \<Rightarrow> unit ledger_act" where
  "InvalidateCache userID = modify (\<lambda>s. s\<lparr>lg_cache_dels := lg_cache_dels s @ [userID]\<rparr>)"

lemma lockBalance_ok [simp]:
  "lockBalance env u s = (Inr ub, t) \<longleftrightarrow> \<not> le_fails env LockBalance \<and> lg_balances s u = Some ub \<and> t = s"
  by (auto simp: lockBalance_def split: option.splits)

lemma saveBalance_ok [simp]:
  "saveBalance env u ub s = (Inr x, t) \<longleftrightarrow>
     \<not> le_fails env SaveBalance \<and> t = s\<lparr>lg_balances := (lg_balances s)(u \<mapsto> ub)\<rparr>"
  by (auto simp: saveBalance_def)

lemma createRecord_ok [simp]:
  "createRecord env r s = (Inr x, t) \<longleftrightarrow>
     \<not> le_fails env CreateRecord \<and> t = s\<lparr>lg_records := lg_records s @ [r]\<rparr>"
  by (auto simp: createRecord_def)

lemma InvalidateCache_ok [simp]:
  "InvalidateCache u s = (Inr x, t) \<longleftrightarrow> t = s\<lparr>lg_cache_dels := lg_cache_dels s @ [u]\<rparr>"
  by (auto simp: InvalidateCache_def)

end
