(* ===== verification/Referral.thy ===== *)
theory Referral
  imports Ledger
begin

text \<open>
  The referral service, \<open>internal/service/referral/\<close>: the unlocking of an attribution and
  the one-off bonuses (\<open>attribution_unlock.go\<close>, \<open>attribution_bonus.go\<close>), the
  commission rate (\<open>rule_resolver.go\<close>) and the commission itself with its lifetime cap
  (\<open>commission_calculator.go\<close>). The hooks swallow their errors: each is a function on the
  ledger. The calculator runs with a logger; a \<open>nil\<close> one would skip commissions.
\<close>

section \<open>Queries\<close>

definition active_quota_config :: "ledger \<Rightarrow> QuotaConfig option" where
  "active_quota_config s = first_where qc_IsActive (lg_quota_configs s)"

definition active_ref_config :: "ledger \<Rightarrow> ReferralConfig option" where
  "active_ref_config s = first_where rc_IsActive (lg_ref_configs s)"

definition in_effect :: "int \<Rightarrow> int \<Rightarrow> int option \<Rightarrow> bool" where
  "in_effect now from to \<longleftrightarrow> from \<le> now \<and> (case to of None \<Rightarrow> True | Some t \<Rightarrow> now < t)"

definition active_override :: "ledger_env \<Rightarrow> nat \<Rightarrow> ledger \<Rightarrow> UserCommissionOverride option" where
  "active_override env inviterID s =
     (if le_fails env QueryOverride then None
      else first_where (\<lambda>o1. co_UserID o1 = inviterID \<and> co_IsActive o1 \<and>
             in_effect (le_now env) (co_EffectiveFrom o1) (co_EffectiveTo o1)) (lg_overrides s))"

definition query_attribution :: "ledger_env \<Rightarrow> (ReferralAttribution \<Rightarrow> bool) \<Rightarrow> ledger \<Rightarrow> ReferralAttribution option" where
  "query_attribution env P s =
     (if le_fails env QueryAttribution then None else first_where P (lg_attributions s))"

definition query_balance :: "ledger_env \<Rightarrow> nat \<Rightarrow> ledger \<Rightarrow> UserBalance option" where
  "query_balance env userID s = (if le_fails env QueryBalance then None else lg_balances s userID)"

text \<open>\<open>UPDATE referral_attributions SET ... WHERE ...\<close>; the result says whether a row matched.\<close>

definition updateAttributions ::
  "ledger_env \<Rightarrow> (ReferralAttribution \<Rightarrow> bool) \<Rightarrow> (ReferralAttribution \<Rightarrow> ReferralAttribution) \<Rightarrow> bool ledger_act" where
  "updateAttributions env P f s =
     (if le_fails env UpdateAttribution then (Inl (DBError UpdateAttribution), s)
      else (Inr (\<exists>a \<in> set (lg_attributions s). P a),
            s\<lparr>lg_attributions := map (\<lambda>a. if P a then f a else a) (lg_attributions s)\<rparr>))"

section \<open>Unlocking\<close>

definition TryUnlockAttribution :: "ledger_env \<Rightarrow> nat \<Rightarrow> ledger \<Rightarrow> ledger" where
  "TryUnlockAttribution env userID s =
     (if userID = 0 then s
      else case query_attribution env (\<lambda>a. ra_UserID a = userID \<and> ra_IsValid a \<and> ra_UnlockedAt a = None) s of
        None \<Rightarrow> s
      | Some attr \<Rightarrow>
          (case (if le_fails env QueryRefConfig then None else active_ref_config s) of
             None \<Rightarrow> s
           | Some cfg \<Rightarrow>
               (let threshold = (case active_override env (ra_InviterID attr) s of
                      None \<Rightarrow> rc_MinPaidCreditsUnlock cfg
                    | Some ov \<Rightarrow> (case co_MinPaidCreditsUnlock ov of
                                     None \<Rightarrow> rc_MinPaidCreditsUnlock cfg | Some t \<Rightarrow> t))
                in case query_balance env userID s of
                     None \<Rightarrow> s
                   | Some ub \<Rightarrow>
                       if threshold > 0 \<and> ub_TotalConsumed ub < threshold then s
                       else snd (updateAttributions env
                              (\<lambda>a. ra_ID a = ra_ID attr \<and> ra_UnlockedAt a = None)
                              (\<lambda>a. a\<lparr>ra_UnlockedAt := Some (le_now env)\<rparr>) s))))"

section \<open>Bonuses\<close>

text \<open>\<open>free_quota = free_quota + n\<close> and \<open>balance = balance + n\<close>, with their RMB columns.\<close>

definition addFreeQuota :: "ledger_env \<Rightarrow> nat \<Rightarrow> int64 \<Rightarrow> unit ledger_act" where
  "addFreeQuota env userID n =
     guarded (le_fails env UpdateBalance) (DBError UpdateBalance)
       (modify (\<lambda>s. s\<lparr>lg_balances := (lg_balances s)(userID := map_option
          (\<lambda>ub. ub\<lparr>ub_FreeQuota := add64 (ub_FreeQuota ub) n,
                   ub_FreeQuotaRMB := fadd (ub_FreeQuotaRMB ub) (CreditsToRMB n)\<rparr>)
          (lg_balances s userID))\<rparr>))"

definition addBalance :: "ledger_env \<Rightarrow> nat \<Rightarrow> int64 \<Rightarrow> unit ledger_act" where
  "addBalance env userID n =
     guarded (le_fails env UpdateBalance) (DBError UpdateBalance)
       (modify (\<lambda>s. s\<lparr>lg_balances := (lg_balances s)(userID := map_option
          (\<lambda>ub. ub\<lparr>ub_Balance := add64 (ub_Balance ub) n,
                   ub_BalanceRMB := fadd (ub_BalanceRMB ub) (CreditsToRMB n)\<rparr>)
          (lg_balances s userID))\<rparr>))"

definition bonus_record :: "nat \<Rightarrow> nat \<Rightarrow> string \<Rightarrow> int64 \<Rightarrow> int64 \<Rightarrow> int64 \<Rightarrow> string \<Rightarrow> string \<Rightarrow> BalanceRecord" where
  "bonus_record userID tenantID typ amount prior after remark related =
     \<lparr>br_UserID = userID, br_TenantID = tenantID, br_Type = typ, br_Amount = amount,
      br_AmountRMB = CreditsToRMB amount, br_BeforeBalance = prior, br_AfterBalance = after,
      br_AmountUnits = 0, br_BeforeBalanceUnits = 0, br_AfterBalanceUnits = 0,
      br_Remark = remark, br_RelatedID = related\<rparr>"

definition invitee_remark :: string where "invitee_remark = ''invitee bonus''"

definition inviter_remark :: string where "inviter_remark = ''inviter bonus''"

definition grant_invitee :: "ledger_env \<Rightarrow> nat \<Rightarrow> ReferralAttribution \<Rightarrow> QuotaConfig \<Rightarrow> UserBalance \<Rightarrow> unit ledger_act" where
  "grant_invitee env userID attr qc ub =
     transaction
       (andThen (updateAttributions env
                   (\<lambda>a. ra_ID a = ra_ID attr \<and> \<not> ra_InviteeBonusGranted a)
                   (\<lambda>a. a\<lparr>ra_InviteeBonusGranted := True, ra_InviteeBonusAt := Some (le_now env)\<rparr>))
         (\<lambda>matched. if \<not> matched then ret ()
            else andThen (addFreeQuota env userID (qc_InviteeBonus qc)) (\<lambda>_.
                   createRecord env (bonus_record userID (ub_TenantID ub) ''INVITEE_BONUS''
                     (qc_InviteeBonus qc) (ub_Balance ub) (ub_Balance ub) invitee_remark
                     (ra_ReferralCode attr)))))"

definition TryGrantInviteeBonus :: "ledger_env \<Rightarrow> nat \<Rightarrow> ledger \<Rightarrow> ledger" where
  "TryGrantInviteeBonus env userID s =
     (if userID = 0 then s
      else case query_attribution env (\<lambda>a. ra_UserID a = userID \<and> ra_IsValid a \<and> \<not> ra_InviteeBonusGranted a) s of
        None \<Rightarrow> s
      | Some attr \<Rightarrow>
          (case (if le_fails env QueryConfig then None else active_quota_config s) of
             None \<Rightarrow> s
           | Some qc \<Rightarrow>
               if qc_InviteeBonus qc \<le> 0 then s
               else case query_balance env userID s of
                 None \<Rightarrow> s
               | Some ub \<Rightarrow>
                   if qc_InviteeUnlockCredits qc > 0 \<and> ub_TotalConsumed ub < qc_InviteeUnlockCredits qc then s
                   else snd (grant_invitee env userID attr qc ub s)))"

definition paid_credits :: "nat \<Rightarrow> ledger \<Rightarrow> int" where
  "paid_credits userID s =
     sum_list (map pay_CreditAmount (filter (\<lambda>p. pay_UserID p = userID \<and> pay_Completed p) (lg_payments s)))"

definition month_granted :: "nat \<Rightarrow> int \<Rightarrow> ledger \<Rightarrow> int" where
  "month_granted inviterID monthStart s =
     int (length (filter (\<lambda>a. ra_InviterID a = inviterID \<and> ra_InviterBonusGranted a \<and>
            (case ra_InviterBonusAt a of None \<Rightarrow> False | Some t \<Rightarrow> monthStart \<le> t)) (lg_attributions s)))"

definition grant_inviter ::
  "ledger_env \<Rightarrow> ReferralAttribution \<Rightarrow> QuotaConfig \<Rightarrow> user_row \<Rightarrow> UserBalance \<Rightarrow> unit ledger_act" where
  "grant_inviter env attr qc inviter inviterBalance =
     transaction
       (andThen (updateAttributions env
                   (\<lambda>a. ra_ID a = ra_ID attr \<and> \<not> ra_InviterBonusGranted a)
                   (\<lambda>a. a\<lparr>ra_InviterBonusGranted := True, ra_InviterBonusAt := Some (le_now env)\<rparr>))
         (\<lambda>matched. if \<not> matched then ret ()
            else andThen (addBalance env (ra_InviterID attr) (qc_InviterBonus qc)) (\<lambda>_.
                   createRecord env (bonus_record (ra_InviterID attr) (us_TenantID inviter)
                     ''INVITER_BONUS'' (qc_InviterBonus qc) (ub_Balance inviterBalance)
                     (add64 (ub_Balance inviterBalance) (qc_InviterBonus qc)) inviter_remark
                     (ra_ReferralCode attr)))))"

text \<open>\<open>monthStart\<close> is the first instant of the current month. The two sums ignore a failed
  query and are zero then.\<close>

definition TryGrantInviterBonus :: "ledger_env \<Rightarrow> int \<Rightarrow> nat \<Rightarrow> ledger \<Rightarrow> ledger" where
  "TryGrantInviterBonus env monthStart inviteeUserID s =
     (if inviteeUserID = 0 then s
      else case query_attribution env (\<lambda>a. ra_UserID a = inviteeUserID \<and> ra_IsValid a \<and> \<not> ra_InviterBonusGranted a) s of
        None \<Rightarrow> s
      | Some attr \<Rightarrow>
          (case (if le_fails env QueryConfig then None else active_quota_config s) of
             None \<Rightarrow> s
           | Some qc \<Rightarrow>
               if qc_InviterBonus qc \<le> 0 then s
               else if qc_InviterUnlockPaidRMB qc > 0 \<and>
                       (if le_fails env QueryPayments then 0 else paid_credits inviteeUserID s)
                         < qc_InviterUnlockPaidRMB qc then s
               else if qc_InviterMonthlyCap qc > 0 \<and>
                       qc_InviterMonthlyCap qc \<le>
                         (if le_fails env QueryGranted then 0
                          else month_granted (ra_InviterID attr) monthStart s) then s
               else case (if le_fails env QueryUser then None
                          else first_where (\<lambda>u. us_ID u = ra_InviterID attr) (lg_users s)) of
                 None \<Rightarrow> s
               | Some inviter \<Rightarrow>
                   (case query_balance env (ra_InviterID attr) s of
                      None \<Rightarrow> s
                    | Some ib \<Rightarrow> snd (grant_inviter env attr qc inviter ib s))))"

section \<open>The commission rate\<close>

text \<open>\<open>ORDER BY priority ASC, id DESC\<close>.\<close>

definition best_rule :: "ledger_env \<Rightarrow> nat \<Rightarrow> nat \<Rightarrow> ledger \<Rightarrow> CommissionRule option" where
  "best_rule env inviterID modelID s =
     (if le_fails env QueryRule then None
      else case sort_key (\<lambda>r. (ru_Priority r, - int (ru_ID r)))
                  (filter (\<lambda>r. inviterID \<in> set (ru_Users r) \<and> modelID \<in> set (ru_Models r) \<and> ru_IsActive r \<and>
                     in_effect (le_now env) (ru_EffectiveFrom r) (ru_EffectiveTo r)) (lg_rules s)) of
             [] \<Rightarrow> None | r # _ \<Rightarrow> Some r)"

definition platform_rate :: "ReferralConfig \<Rightarrow> float64" where
  "platform_rate cfg =
     (if rc_CommissionRate cfg \<le> 0 \<and> rc_PersonalCashbackRate cfg > 0 then rc_PersonalCashbackRate cfg
      else rc_CommissionRate cfg)"

definition resolveFromDB :: "ledger_env \<Rightarrow> nat \<Rightarrow> nat \<Rightarrow> ledger \<Rightarrow> ResolvedRate" where
  "resolveFromDB env inviterID modelID s =
     (case (if le_fails env QueryRefConfig then None else active_ref_config s) of
        None \<Rightarrow> \<lparr>rr_Rate = 0, rr_PlatformRate = 0, rr_Source = ''config'', rr_RuleID = 0,
                 rr_OverrideID = 0, rr_LifetimeCap = 0\<rparr>
      | Some cfg \<Rightarrow>
          (let base = \<lparr>rr_Rate = platform_rate cfg, rr_PlatformRate = platform_rate cfg,
                 rr_Source = ''config'', rr_RuleID = 0, rr_OverrideID = 0,
                 rr_LifetimeCap = rc_LifetimeCapCredits cfg\<rparr>
           in case (if modelID > 0 then best_rule env inviterID modelID s else None) of
                Some rule \<Rightarrow> base\<lparr>rr_Rate := ru_CommissionRate rule, rr_Source := ''rule'',
                               rr_RuleID := ru_ID rule\<rparr>
              | None \<Rightarrow>
                  (case active_override env inviterID s of
                     None \<Rightarrow> base
                   | Some ov \<Rightarrow> base\<lparr>rr_Rate := co_CommissionRate ov, rr_Source := ''override'',
                                  rr_OverrideID := co_ID ov,
                                  rr_LifetimeCap := (case co_LifetimeCapCredits ov of
                                    Some c \<Rightarrow> c | None \<Rightarrow> rc_LifetimeCapCredits cfg)\<rparr>)))"

text \<open>\<open>cached\<close> is what Redis answers for a key; \<open>None\<close> also when there is no client. The
  fill of the cache is recorded.\<close>

definition Resolve ::
  "ledger_env \<Rightarrow> (nat \<times> nat \<Rightarrow> ResolvedRate option) \<Rightarrow> nat \<Rightarrow> nat \<Rightarrow> ledger \<Rightarrow> ResolvedRate option \<times> ledger" where
  "Resolve env cached inviterID modelID s =
     (if inviterID = 0 then (None, s)
      else case (if modelID > 0 then cached (inviterID, modelID) else None) of
             Some r \<Rightarrow> (Some r, s)
           | None \<Rightarrow>
               (let r = resolveFromDB env inviterID modelID s
                in (Some r, if modelID > 0
                            then s\<lparr>lg_rate_cache := lg_rate_cache s @ [((inviterID, modelID), r)]\<rparr>
                            else s)))"

section \<open>Commissions\<close>

text \<open>The rate, the cap, the type and the override and rule ids of a commission.\<close>

record commission_terms =
  ct_rate :: float64
  ct_cap :: int64
  ct_type :: string
  ct_override :: "nat option"
  ct_rule :: "nat option"

definition terms_of_resolved :: "ResolvedRate option \<Rightarrow> commission_terms" where
  "terms_of_resolved resolved =
     (case resolved of
        None \<Rightarrow> \<lparr>ct_rate = 0, ct_cap = 0, ct_type = '''', ct_override = None, ct_rule = None\<rparr>
      | Some r \<Rightarrow>
          \<lparr>ct_rate = rr_Rate r, ct_cap = rr_LifetimeCap r,
           ct_type = (if rr_Source r = ''rule'' then ''REFERRAL_RULE''
                      else if rr_Source r = ''override'' then ''REFERRAL_OVERRIDE'' else ''REFERRAL''),
           ct_override = (if rr_Source r = ''override'' then Some (rr_OverrideID r) else None),
           ct_rule = (if rr_Source r = ''rule'' then Some (rr_RuleID r) else None)\<rparr>)"

definition terms_without_resolver :: "ledger_env \<Rightarrow> ReferralConfig \<Rightarrow> nat \<Rightarrow> ledger \<Rightarrow> commission_terms" where
  "terms_without_resolver env cfg inviterID s =
     (case active_override env inviterID s of
        None \<Rightarrow> \<lparr>ct_rate = platform_rate cfg, ct_cap = rc_LifetimeCapCredits cfg, ct_type = ''REFERRAL'',
                 ct_override = None, ct_rule = None\<rparr>
      | Some ov \<Rightarrow>
          \<lparr>ct_rate = co_CommissionRate ov,
           ct_cap = (case co_LifetimeCapCredits ov of Some c \<Rightarrow> c | None \<Rightarrow> rc_LifetimeCapCredits cfg),
           ct_type = ''REFERRAL_OVERRIDE'', ct_override = Some (co_ID ov), ct_rule = None\<rparr>)"

text \<open>The commissions of an attribution that are not refunded; a failed query counts as zero.\<close>

definition earned_rows :: "nat \<Rightarrow> ledger \<Rightarrow> CommissionRecord list" where
  "earned_rows attrID s =
     filter (\<lambda>c. cm_AttributionID c = Some attrID \<and> cm_Status c \<noteq> ''REFUNDED'') (lg_commissions s)"

definition total_earned :: "nat \<Rightarrow> ledger \<Rightarrow> int" where
  "total_earned attrID s = sum_list (map cm_CommissionAmount (earned_rows attrID s))"

definition query_earned :: "ledger_env \<Rightarrow> nat \<Rightarrow> ledger \<Rightarrow> int64" where
  "query_earned env attrID s = (if le_fails env QueryEarned then 0 else total_earned attrID s)"

definition commission_credits :: "int64 \<Rightarrow> float64 \<Rightarrow> int64 \<Rightarrow> int64 \<Rightarrow> int64" where
  "commission_credits orderCredits rate cap earned =
     (let c = f2i (fmul (i2f orderCredits) rate)
      in if cap > 0 \<and> add64 earned c > cap then sub64 cap earned else c)"

definition fresh_commission_id :: "ledger \<Rightarrow> nat" where
  "fresh_commission_id s = Suc (fold max (map cm_ID (lg_commissions s)) 0)"

definition commission_record ::
  "nat \<Rightarrow> int \<Rightarrow> user_row \<Rightarrow> nat \<Rightarrow> nat \<Rightarrow> int64 \<Rightarrow> commission_terms \<Rightarrow> nat \<Rightarrow> int64 \<Rightarrow> CommissionRecord" where
  "commission_record cid now inviter sourceUserID sourceTenantID orderCredits t attrID commCredits =
     \<lparr>cm_ID = cid, cm_CreatedAt = now, cm_TenantID = us_TenantID inviter, cm_UserID = us_ID inviter, cm_SourceUserID = sourceUserID,
      cm_SourceTenantID = sourceTenantID, cm_OrderAmount = orderCredits,
      cm_OrderAmountRMB = CreditsToRMB orderCredits, cm_CommissionRate = ct_rate t,
      cm_CommissionAmount = commCredits, cm_CommissionAmountRMB = CreditsToRMB commCredits,
      cm_Type = (if ct_type t = '''' then ''REFERRAL'' else ct_type t), cm_Status = ''PENDING'',
      cm_RelatedID = '''', cm_AttributionID = Some attrID, cm_OverrideID = ct_override t,
      cm_RuleID = ct_rule t, cm_EffectiveRate = ct_rate t, cm_Credited = False, cm_SettleAt = None\<rparr>"

text \<open>Steps 6 to 8: the cap, the inviter and the record.\<close>

definition write_commission ::
  "ledger_env \<Rightarrow> nat \<Rightarrow> nat \<Rightarrow> int64 \<Rightarrow> ReferralAttribution \<Rightarrow> commission_terms \<Rightarrow> ledger \<Rightarrow> ledger" where
  "write_commission env sourceUserID sourceTenantID orderCredits attr t s =
     (if ct_rate t \<le> 0 then s
      else if ct_cap t > 0 \<and> ct_cap t \<le> query_earned env (ra_ID attr) s then s
      else case (if le_fails env QueryUser then None
                 else first_where (\<lambda>u. us_ID u = ra_InviterID attr) (lg_users s)) of
        None \<Rightarrow> s
      | Some inviter \<Rightarrow>
          (let commCredits = commission_credits orderCredits (ct_rate t) (ct_cap t)
                               (query_earned env (ra_ID attr) s)
           in if commCredits \<le> 0 \<or> le_fails env CreateCommission then s
              else s\<lparr>lg_commissions := lg_commissions s @
                     [commission_record (fresh_commission_id s) (le_now env) inviter sourceUserID sourceTenantID
                        orderCredits t (ra_ID attr)
                        commCredits]\<rparr>))"

text \<open>\<open>resolver = None\<close> is the downgraded path without a \<open>RuleResolver\<close>.\<close>

definition calculateInternal ::
  "ledger_env \<Rightarrow> (nat \<times> nat \<Rightarrow> ResolvedRate option) option \<Rightarrow> nat \<Rightarrow> nat \<Rightarrow> int64 \<Rightarrow> nat \<Rightarrow> ledger \<Rightarrow> ledger" where
  "calculateInternal env resolver sourceUserID sourceTenantID orderCredits modelID s =
     (if orderCredits \<le> 0 then s
      else case query_attribution env (\<lambda>a. ra_UserID a = sourceUserID \<and> ra_IsValid a) s of
        None \<Rightarrow> s
      | Some attr \<Rightarrow>
          if (case ra_ExpiresAt attr of None \<Rightarrow> False | Some e \<Rightarrow> e < le_now env)
          then snd (updateAttributions env (\<lambda>a. ra_ID a = ra_ID attr)
                 (\<lambda>a. a\<lparr>ra_IsValid := False, ra_InvalidReason := ''EXPIRED''\<rparr>) s)
          else if ra_UnlockedAt attr = None then s
          else case (if le_fails env QueryRefConfig then None else active_ref_config s) of
            None \<Rightarrow> s
          | Some cfg \<Rightarrow>
              (case resolver of
                 Some cached \<Rightarrow>
                   (let (resolved, s1) = Resolve env cached (ra_InviterID attr) modelID s
                    in write_commission env sourceUserID sourceTenantID orderCredits attr
                         (terms_of_resolved resolved) s1)
               | None \<Rightarrow>
                   write_commission env sourceUserID sourceTenantID orderCredits attr
                     (terms_without_resolver env cfg (ra_InviterID attr) s) s))"

definition MarkCommissionRefunded :: "ledger_env \<Rightarrow> string \<Rightarrow> unit ledger_act" where
  "MarkCommissionRefunded env relatedID =
     (if relatedID = '''' then ret ()
      else guarded (le_fails env UpdateCommission) (DBError UpdateCommission)
        (modify (\<lambda>s. s\<lparr>lg_commissions := map (\<lambda>c.
           if cm_RelatedID c = relatedID \<and> cm_Status c = ''PENDING'' then c\<lparr>cm_Status := ''REFUNDED''\<rparr> else c)
           (lg_commissions s)\<rparr>)))"

section \<open>Registration\<close>

datatype referral_error = InvalidReferralCode | AttributionNotCreated

definition day :: int where "day = 86400 * 1000000000"

text \<open>Step 1: who invites. \<open>Inl\<close> ends the call (a self-invitation); \<open>Inr None\<close>: no such code.\<close>

definition find_inviter :: "ledger_env \<Rightarrow> nat \<Rightarrow> string \<Rightarrow> ledger \<Rightarrow> (unit + nat option) \<times> ledger" where
  "find_inviter env userID code s =
     (case (if le_fails env QueryLink then None else first_where (\<lambda>l. rl_Code l = code) (lg_links s)) of
        Some link \<Rightarrow>
          if rl_UserID link = userID then (Inl (), s)
          else (Inr (Some (rl_UserID link)),
                if le_fails env UpdateLink then s
                else s\<lparr>lg_links := map (\<lambda>l. if rl_ID l = rl_ID link
                       then l\<lparr>rl_RegisterCount := add64 (rl_RegisterCount l) 1\<rparr> else l) (lg_links s)\<rparr>)
      | None \<Rightarrow>
          (case (if le_fails env QueryUser then None
                 else first_where (\<lambda>u. us_ReferralCode u = code \<and> us_ID u \<noteq> userID) (lg_users s)) of
             Some referrer \<Rightarrow> (Inr (Some (us_ID referrer)), s)
           | None \<Rightarrow>
               if \<not> le_fails env QueryTenant \<and> code \<in> set (lg_domains s) then (Inr (Some 0), s)
               else (Inr None, s)))"

definition attribution_days :: "ledger_env \<Rightarrow> nat \<Rightarrow> ledger \<Rightarrow> int64" where
  "attribution_days env inviterID s =
     (let base = (case (if le_fails env QueryRefConfig then None else active_ref_config s) of
            Some cfg \<Rightarrow> if rc_AttributionDays cfg > 0 then rc_AttributionDays cfg else 90
          | None \<Rightarrow> 90)
      in if inviterID > 0
         then (case active_override env inviterID s of
                 Some ov \<Rightarrow> (case co_AttributionDays ov of
                              Some d \<Rightarrow> if d > 0 then d else base | None \<Rightarrow> base)
               | None \<Rightarrow> base)
         else base)"

definition fresh_attribution_id :: "ledger \<Rightarrow> nat" where
  "fresh_attribution_id s = Suc (fold max (map ra_ID (lg_attributions s)) 0)"

definition ProcessReferralOnRegister ::
  "ledger_env \<Rightarrow> nat \<Rightarrow> string \<Rightarrow> ledger \<Rightarrow> (referral_error + unit) \<times> ledger" where
  "ProcessReferralOnRegister env userID code s =
     (if code = '''' then (Inr (), s)
      else case find_inviter env userID code s of
        (Inl _, s1) \<Rightarrow> (Inr (), s1)
      | (Inr None, s1) \<Rightarrow> (Inl InvalidReferralCode, s1)
      | (Inr (Some inviterID), s1) \<Rightarrow>
          (let s2 = (if userID > 0 \<and> inviterID > 0 \<and> \<not> le_fails env UpdateUser
                     then s1\<lparr>lg_users := map (\<lambda>u. if us_ID u = userID
                            then u\<lparr>us_ReferredBy := inviterID\<rparr> else u) (lg_users s1)\<rparr>
                     else s1);
               days = attribution_days env inviterID s2
           in case query_attribution env (\<lambda>a. ra_UserID a = userID) s2 of
                Some _ \<Rightarrow> (Inr (), s2)
              | None \<Rightarrow>
                  if le_fails env CreateAttribution \<or> (\<exists>a \<in> set (lg_attributions s2). ra_UserID a = userID)
                  then (Inl AttributionNotCreated, s2)
                  else (Inr (), s2\<lparr>lg_attributions := lg_attributions s2 @
                     [\<lparr>ra_ID = fresh_attribution_id s2, ra_UserID = userID, ra_InviterID = inviterID,
                       ra_ReferralCode = code, ra_AttributedAt = le_now env,
                       ra_ExpiresAt = Some (le_now env + days * day), ra_UnlockedAt = None,
                       ra_IsValid = True, ra_InvalidReason = '''', ra_InviteeBonusGranted = False,
                       ra_InviteeBonusAt = None, ra_InviterBonusGranted = False,
                       ra_InviterBonusAt = None\<rparr>]\<rparr>)))"

end
