(* ===== verification/Withdrawal.thy ===== *)
theory Withdrawal
  imports Referral Price_Tier
begin

text \<open>
  \<open>internal/service/withdrawal/withdrawal_service.go\<close>: the settlement of commissions, the
  expiry of attributions, and withdrawals from the request to the payment. Balances are
  touched by SQL updates on the legacy columns, as in the code.

  A handler reads the request, checks its status, and updates the row by its id. The reading
  part (\<open>load_for\<close>) and the writing part (\<open>commit_call\<close>) are separate
  definitions: composed they are the handler; as steps of the relation \<open>wd_step\<close> they
  interleave with other handlers, which nothing in the code prevents.
\<close>

section \<open>State\<close>

datatype wd_status = PENDING | APPROVED | REJECTED | CANCELLED | COMPLETED

record WithdrawalRequest =
  wr_ID :: nat
  wr_UserID :: nat
  wr_Amount :: float64
  wr_Status :: wd_status
  wr_BankInfo :: string
  wr_AdminID :: nat
  wr_AdminRemark :: string
  wr_ProcessedAt :: "int option"

record WithdrawalEvent =
  we_WithdrawID :: nat
  we_UserID :: nat
  we_EventType :: string
  we_ActorType :: string
  we_ActorID :: "nat option"

text \<open>\<open>wd_locks\<close> holds the Redis keys \<open>withdrawal:pending:user:<id>\<close> with their expiry.\<close>

record withdrawals =
  wd_ledger :: ledger
  wd_requests :: "WithdrawalRequest list"
  wd_locks :: "nat \<Rightarrow> int option"
  wd_events :: "WithdrawalEvent list"

text \<open>\<open>we_redis\<close> and \<open>we_sink\<close>: whether a Redis client and an event sink are configured.\<close>

record withdraw_env = ledger_env +
  we_redis :: bool
  we_sink :: bool

datatype withdraw_error =
    AmountNotPositive | BelowMinimum int64 | NotEnough | LockTaken | FreezeFailed
  | NotOwner | WrongStatus wd_status | WithdrawNotFound | LedgerError ledger_error

type_synonym 'a withdraw_act = "(withdrawals, withdraw_error, 'a) act"

text \<open>An action on the ledger, run on that part of the state.\<close>

definition on_ledger :: "'a ledger_act \<Rightarrow> 'a withdraw_act" where
  "on_ledger m s =
     (case m (wd_ledger s) of
        (Inl e, l) \<Rightarrow> (Inl (LedgerError e), s\<lparr>wd_ledger := l\<rparr>)
      | (Inr a, l) \<Rightarrow> (Inr a, s\<lparr>wd_ledger := l\<rparr>))"

definition logEvent :: "withdraw_env \<Rightarrow> WithdrawalEvent \<Rightarrow> unit withdraw_act" where
  "logEvent env evt =
     (if we_sink env then modify (\<lambda>s. s\<lparr>wd_events := wd_events s @ [evt]\<rparr>) else ret ())"

definition db_error :: "db_call \<Rightarrow> withdraw_error" where
  "db_error c = LedgerError (DBError c)"

definition env_of :: "withdraw_env \<Rightarrow> ledger_env" where
  "env_of env = \<lparr>le_now = le_now env, le_fails = le_fails env, le_uuid = le_uuid env\<rparr>"

section \<open>Settlement of commissions\<close>

text \<open>The result says whether this call credited the commission (\<open>rec.Credited\<close> stays as it
  was when another process has).\<close>

definition settleOne :: "ledger_env \<Rightarrow> CommissionRecord \<Rightarrow> bool ledger_act" where
  "settleOne env rec =
     transaction
       (\<lambda>s. if le_fails env UpdateCommission then (Inl (DBError UpdateCommission), s)
            else
             (let hit = (\<lambda>c. cm_ID c = cm_ID rec \<and> cm_Status c = ''PENDING'' \<and> \<not> cm_Credited c);
                  s1 = s\<lparr>lg_commissions := map (\<lambda>c. if hit c
                     then c\<lparr>cm_Status := ''SETTLED'', cm_Credited := True, cm_SettleAt := Some (le_now env)\<rparr>
                     else c) (lg_commissions s)\<rparr>
              in if \<not> (\<exists>c \<in> set (lg_commissions s). hit c) then (Inr (cm_Credited rec), s1)
                 else andThen (addBalance env (cm_UserID rec) (cm_CommissionAmount rec)) (\<lambda>_.
                      andThen (createRecord env
                        \<lparr>br_UserID = cm_UserID rec, br_TenantID = cm_TenantID rec,
                         br_Type = ''COMMISSION_SETTLE'', br_Amount = cm_CommissionAmount rec,
                         br_AmountRMB = cm_CommissionAmountRMB rec, br_BeforeBalance = 0,
                         br_AfterBalance = 0, br_AmountUnits = 0, br_BeforeBalanceUnits = 0,
                         br_AfterBalanceUnits = 0, br_Remark = ''commission settled'',
                         br_RelatedID = ''comm:'' @ show_nat (cm_ID rec)\<rparr>) (\<lambda>_.
                      ret True)) s1))"

text \<open>The loop: a failed record is skipped; \<open>envs\<close> gives the environment of each turn.\<close>

fun settle_all ::
  "(nat \<Rightarrow> ledger_env) \<Rightarrow> CommissionRecord list \<Rightarrow> nat \<times> nat \<Rightarrow> ledger \<Rightarrow> (nat \<times> nat) \<times> ledger" where
  "settle_all envs [] counts s = (counts, s)"
| "settle_all envs (rec # recs) (settled, credited) s =
     (case settleOne (envs (cm_ID rec)) rec s of
        (Inl _, s') \<Rightarrow> settle_all envs recs (settled, credited) s'
      | (Inr c, s') \<Rightarrow> settle_all envs recs (Suc settled, if c then Suc credited else credited) s')"

definition settle_days :: "ReferralConfig \<Rightarrow> int64" where
  "settle_days cfg = (if rc_SettleDays cfg \<le> 0 then 7 else rc_SettleDays cfg)"

definition AutoSettleAndCredit :: "ledger_env \<Rightarrow> (nat \<Rightarrow> ledger_env) \<Rightarrow> (nat \<times> nat) ledger_act" where
  "AutoSettleAndCredit env envs s =
     (case (if le_fails env QueryRefConfig then None else active_ref_config s) of
        None \<Rightarrow> (Inl (DBError QueryRefConfig), s)
      | Some cfg \<Rightarrow>
          if le_fails env QueryCommissions then (Inl (DBError QueryCommissions), s)
          else
           (let threshold = le_now env - settle_days cfg * day;
                pendings = take 1000 (sort_key cm_ID (filter (\<lambda>c. cm_Status c = ''PENDING'' \<and>
                  \<not> cm_Credited c \<and> cm_CreatedAt c \<le> threshold) (lg_commissions s)));
                (counts, s') = settle_all envs pendings (0, 0) s
            in (Inr counts, s')))"

text \<open>The result is the number of rows.\<close>

definition ExpireAttributions :: "ledger_env \<Rightarrow> nat ledger_act" where
  "ExpireAttributions env s =
     (if le_fails env UpdateAttribution then (Inl (DBError UpdateAttribution), s)
      else (let old = (\<lambda>a. ra_IsValid a \<and> (case ra_ExpiresAt a of None \<Rightarrow> False | Some e \<Rightarrow> e < le_now env))
            in (Inr (length (filter old (lg_attributions s))),
                s\<lparr>lg_attributions := map (\<lambda>a. if old a
                    then a\<lparr>ra_IsValid := False, ra_InvalidReason := ''EXPIRED''\<rparr> else a)
                  (lg_attributions s)\<rparr>)))"

section \<open>Requesting\<close>

text \<open>\<open>SETNX\<close> with 24 hours; an error of Redis counts as a taken lock.\<close>

definition acquire_pending :: "withdraw_env \<Rightarrow> nat \<Rightarrow> unit withdraw_act" where
  "acquire_pending env userID s =
     (if \<not> we_redis env then (Inr (), s)
      else if le_fails env SetLock \<or>
              (case wd_locks s userID of None \<Rightarrow> False | Some e \<Rightarrow> le_now env < e)
      then (Inl LockTaken, s)
      else (Inr (), s\<lparr>wd_locks := (wd_locks s)(userID \<mapsto> le_now env + day)\<rparr>))"

definition release_pending :: "withdraw_env \<Rightarrow> nat \<Rightarrow> withdrawals \<Rightarrow> withdrawals" where
  "release_pending env userID s =
     (if we_redis env \<and> \<not> le_fails env DelLock then s\<lparr>wd_locks := (wd_locks s)(userID := None)\<rparr> else s)"

definition withdraw_record :: "nat \<Rightarrow> nat \<Rightarrow> string \<Rightarrow> int64 \<Rightarrow> float64 \<Rightarrow> string \<Rightarrow> nat \<Rightarrow> BalanceRecord" where
  "withdraw_record userID tenantID typ amount rmb remark wid =
     \<lparr>br_UserID = userID, br_TenantID = tenantID, br_Type = typ, br_Amount = amount,
      br_AmountRMB = rmb, br_BeforeBalance = 0, br_AfterBalance = 0, br_AmountUnits = 0,
      br_BeforeBalanceUnits = 0, br_AfterBalanceUnits = 0, br_Remark = remark,
      br_RelatedID = ''wd:'' @ show_nat wid\<rparr>"

definition fresh_request_id :: "withdrawals \<Rightarrow> nat" where
  "fresh_request_id s = Suc (fold max (map wr_ID (wd_requests s)) 0)"

text \<open>\<open>UPDATE user_balances SET balance = balance - n WHERE user_id = ? AND balance >= n\<close>.\<close>

definition take_balance :: "withdraw_env \<Rightarrow> nat \<Rightarrow> int64 \<Rightarrow> unit withdraw_act" where
  "take_balance env userID n s =
     (if le_fails env UpdateBalance then (Inl (db_error UpdateBalance), s)
      else case lg_balances (wd_ledger s) userID of
        None \<Rightarrow> (Inl FreezeFailed, s)
      | Some ub \<Rightarrow>
          if ub_Balance ub < n then (Inl FreezeFailed, s)
          else (Inr (), s\<lparr>wd_ledger := (wd_ledger s)\<lparr>lg_balances := (lg_balances (wd_ledger s))(userID \<mapsto>
                 ub\<lparr>ub_Balance := sub64 (ub_Balance ub) n,
                    ub_BalanceRMB := fsub (ub_BalanceRMB ub) (CreditsToRMB n)\<rparr>)\<rparr>\<rparr>))"

definition create_request :: "withdraw_env \<Rightarrow> nat \<Rightarrow> int64 \<Rightarrow> string \<Rightarrow> WithdrawalRequest withdraw_act" where
  "create_request env userID amountCredits bankInfo s =
     (if le_fails env CreateWithdrawalRow then (Inl (db_error CreateWithdrawalRow), s)
      else (let req = \<lparr>wr_ID = fresh_request_id s, wr_UserID = userID, wr_Amount = CreditsToRMB amountCredits,
                       wr_Status = PENDING, wr_BankInfo = bankInfo, wr_AdminID = 0, wr_AdminRemark = '''',
                       wr_ProcessedAt = None\<rparr>
            in (Inr req, s\<lparr>wd_requests := wd_requests s @ [req]\<rparr>)))"

definition create_tx ::
  "withdraw_env \<Rightarrow> nat \<Rightarrow> nat \<Rightarrow> int64 \<Rightarrow> string \<Rightarrow> WithdrawalRequest withdraw_act" where
  "create_tx env userID tenantID amountCredits bankInfo =
     transaction
       (andThen (take_balance env userID amountCredits) (\<lambda>_.
        andThen (create_request env userID amountCredits bankInfo) (\<lambda>req.
        andThen (on_ledger (createRecord (env_of env) (withdraw_record userID tenantID ''WITHDRAW_FREEZE''
             (neg64 amountCredits) (- CreditsToRMB amountCredits) ''withdrawal freeze'' (wr_ID req)))) (\<lambda>_.
        ret req))))"

text \<open>The checks before the lock; \<open>Inr\<close> is the tenant of the balance row.\<close>

definition withdraw_checks :: "withdraw_env \<Rightarrow> nat \<Rightarrow> int64 \<Rightarrow> withdrawals \<Rightarrow> withdraw_error + nat" where
  "withdraw_checks env userID amountCredits s =
     (if amountCredits \<le> 0 then Inl AmountNotPositive
      else case (if le_fails env QueryRefConfig then None else active_ref_config (wd_ledger s)) of
        None \<Rightarrow> Inl (db_error QueryRefConfig)
      | Some cfg \<Rightarrow>
          if rc_MinWithdrawAmount cfg > 0 \<and> amountCredits < rc_MinWithdrawAmount cfg
          then Inl (BelowMinimum (rc_MinWithdrawAmount cfg))
          else case query_balance (env_of env) userID (wd_ledger s) of
            None \<Rightarrow> Inl (db_error QueryBalance)
          | Some ub \<Rightarrow> if ub_Balance ub < amountCredits then Inl NotEnough else Inr (ub_TenantID ub))"

text \<open>With the lock: the transaction, then the event, or the lock given back.\<close>

definition create_locked ::
  "withdraw_env \<Rightarrow> nat \<Rightarrow> nat \<Rightarrow> int64 \<Rightarrow> string \<Rightarrow> WithdrawalRequest withdraw_act" where
  "create_locked env userID tenantID amountCredits bankInfo s =
     (case create_tx env userID tenantID amountCredits bankInfo s of
        (Inl e, s1) \<Rightarrow> (Inl e, release_pending env userID s1)
      | (Inr req, s1) \<Rightarrow>
          (Inr req, snd (logEvent env \<lparr>we_WithdrawID = wr_ID req, we_UserID = userID,
             we_EventType = ''withdrawal.requested'', we_ActorType = ''user'', we_ActorID = None\<rparr> s1)))"

definition CreateWithdrawal :: "withdraw_env \<Rightarrow> nat \<Rightarrow> int64 \<Rightarrow> string \<Rightarrow> WithdrawalRequest withdraw_act" where
  "CreateWithdrawal env userID amountCredits bankInfo s =
     (case withdraw_checks env userID amountCredits s of
        Inl e \<Rightarrow> (Inl e, s)
      | Inr tenantID \<Rightarrow>
          (case acquire_pending env userID s of
             (Inl e, s1) \<Rightarrow> (Inl e, s1)
           | (Inr _, s1) \<Rightarrow> create_locked env userID tenantID amountCredits bankInfo s1))"

section \<open>Reviewing\<close>

datatype wd_call =
    CallApprove nat nat string
  | CallReject nat nat string
  | CallCancel nat nat
  | CallMarkPaid nat nat string

fun call_id :: "wd_call \<Rightarrow> nat" where
  "call_id (CallApprove wid admin remark) = wid"
| "call_id (CallReject wid admin reason) = wid"
| "call_id (CallCancel wid user) = wid"
| "call_id (CallMarkPaid wid admin txn) = wid"

definition load_request :: "withdraw_env \<Rightarrow> nat \<Rightarrow> withdrawals \<Rightarrow> WithdrawalRequest option" where
  "load_request env wid s =
     (if le_fails env QueryWithdrawal then None else first_where (\<lambda>r. wr_ID r = wid) (wd_requests s))"

definition require_status :: "wd_status \<Rightarrow> WithdrawalRequest \<Rightarrow> withdraw_error + unit" where
  "require_status st req = (if wr_Status req = st then Inr () else Inl (WrongStatus (wr_Status req)))"

text \<open>The balance row whose tenant a refund is recorded under.\<close>

definition load_tenant :: "withdraw_env \<Rightarrow> nat \<Rightarrow> withdrawals \<Rightarrow> withdraw_error + nat" where
  "load_tenant env userID s =
     (case query_balance (env_of env) userID (wd_ledger s) of
        None \<Rightarrow> Inl (db_error QueryBalance) | Some ub \<Rightarrow> Inr (ub_TenantID ub))"

text \<open>What a handler reads and checks before it writes: the request and the tenant.\<close>

fun load_for :: "withdraw_env \<Rightarrow> wd_call \<Rightarrow> withdrawals \<Rightarrow> withdraw_error + WithdrawalRequest \<times> nat" where
  "load_for env (CallApprove wid admin remark) s =
     (case load_request env wid s of
        None \<Rightarrow> Inl WithdrawNotFound
      | Some req \<Rightarrow> map_sum (\<lambda>e. e) (\<lambda>_. (req, 0)) (require_status PENDING req))"
| "load_for env (CallReject wid admin reason) s =
     (case load_request env wid s of
        None \<Rightarrow> Inl WithdrawNotFound
      | Some req \<Rightarrow>
          (case require_status PENDING req of
             Inl e \<Rightarrow> Inl e
           | Inr _ \<Rightarrow> map_sum (\<lambda>e. e) (\<lambda>t. (req, t)) (load_tenant env (wr_UserID req) s)))"
| "load_for env (CallCancel wid user) s =
     (case load_request env wid s of
        None \<Rightarrow> Inl WithdrawNotFound
      | Some req \<Rightarrow>
          if wr_UserID req \<noteq> user then Inl NotOwner
          else
            (case require_status PENDING req of
               Inl e \<Rightarrow> Inl e
             | Inr _ \<Rightarrow> map_sum (\<lambda>e. e) (\<lambda>t. (req, t)) (load_tenant env user s)))"
| "load_for env (CallMarkPaid wid admin txn) s =
     (case load_request env wid s of
        None \<Rightarrow> Inl WithdrawNotFound
      | Some req \<Rightarrow> map_sum (\<lambda>e. e) (\<lambda>_. (req, 0)) (require_status APPROVED req))"

text \<open>\<open>UPDATE ... WHERE id = ?\<close>: the status is not asked for again.\<close>

definition updateRequest ::
  "withdraw_env \<Rightarrow> nat \<Rightarrow> (WithdrawalRequest \<Rightarrow> WithdrawalRequest) \<Rightarrow> unit withdraw_act" where
  "updateRequest env wid f =
     guarded (le_fails env UpdateWithdrawal) (db_error UpdateWithdrawal)
       (modify (\<lambda>s. s\<lparr>wd_requests := map (\<lambda>r. if wr_ID r = wid then f r else r) (wd_requests s)\<rparr>))"

definition give_balance :: "withdraw_env \<Rightarrow> nat \<Rightarrow> int64 \<Rightarrow> float64 \<Rightarrow> unit withdraw_act" where
  "give_balance env userID n rmb =
     guarded (le_fails env UpdateBalance) (db_error UpdateBalance)
       (modify (\<lambda>s. s\<lparr>wd_ledger := (wd_ledger s)\<lparr>lg_balances := (lg_balances (wd_ledger s))(userID := map_option
          (\<lambda>ub. ub\<lparr>ub_Balance := add64 (ub_Balance ub) n, ub_BalanceRMB := fadd (ub_BalanceRMB ub) rmb\<rparr>)
          (lg_balances (wd_ledger s) userID))\<rparr>\<rparr>))"

definition refund_tx ::
  "withdraw_env \<Rightarrow> WithdrawalRequest \<Rightarrow> nat \<Rightarrow> (WithdrawalRequest \<Rightarrow> WithdrawalRequest) \<Rightarrow> string \<Rightarrow> unit withdraw_act" where
  "refund_tx env req tenantID f remark =
     transaction
       (andThen (updateRequest env (wr_ID req) f) (\<lambda>_.
        andThen (give_balance env (wr_UserID req) (RMBToCredits (wr_Amount req)) (wr_Amount req)) (\<lambda>_.
        on_ledger (createRecord (env_of env) (withdraw_record (wr_UserID req) tenantID ''WITHDRAW_REFUND''
             (RMBToCredits (wr_Amount req)) (wr_Amount req) remark (wr_ID req))))))"

definition review_event :: "WithdrawalRequest \<Rightarrow> string \<Rightarrow> string \<Rightarrow> nat option \<Rightarrow> WithdrawalEvent" where
  "review_event req typ actor actorID =
     \<lparr>we_WithdrawID = wr_ID req, we_UserID = wr_UserID req, we_EventType = typ,
      we_ActorType = actor, we_ActorID = actorID\<rparr>"

text \<open>The columns each handler writes.\<close>

fun review_update :: "withdraw_env \<Rightarrow> wd_call \<Rightarrow> WithdrawalRequest \<Rightarrow> WithdrawalRequest \<Rightarrow> WithdrawalRequest" where
  "review_update env (CallApprove wid admin remark) req r =
     r\<lparr>wr_Status := APPROVED, wr_AdminID := admin, wr_AdminRemark := remark,
       wr_ProcessedAt := Some (le_now env)\<rparr>"
| "review_update env (CallReject wid admin reason) req r =
     r\<lparr>wr_Status := REJECTED, wr_AdminID := admin, wr_AdminRemark := reason,
       wr_ProcessedAt := Some (le_now env)\<rparr>"
| "review_update env (CallCancel wid user) req r =
     r\<lparr>wr_Status := CANCELLED, wr_AdminRemark := ''user cancelled'', wr_ProcessedAt := Some (le_now env)\<rparr>"
| "review_update env (CallMarkPaid wid admin txn) req r =
     r\<lparr>wr_Status := COMPLETED, wr_AdminID := admin,
       wr_AdminRemark := (if txn \<noteq> '''' then wr_AdminRemark req @ '' | txn:'' @ txn
                          else wr_AdminRemark req),
       wr_ProcessedAt := Some (le_now env)\<rparr>"

text \<open>The writing part, on the request and tenant that were read.\<close>

fun commit_call :: "withdraw_env \<Rightarrow> wd_call \<Rightarrow> WithdrawalRequest \<Rightarrow> nat \<Rightarrow> unit withdraw_act" where
  "commit_call env (CallApprove wid admin remark) req tenantID =
     andThen (updateRequest env (wr_ID req) (review_update env (CallApprove wid admin remark) req)) (\<lambda>_.
     logEvent env (review_event req ''withdrawal.approved'' ''admin'' (Some admin)))"
| "commit_call env (CallReject wid admin reason) req tenantID =
     andThen (refund_tx env req tenantID (review_update env (CallReject wid admin reason) req)
                (''withdrawal rejected: '' @ reason)) (\<lambda>_.
     andThen (modify (release_pending env (wr_UserID req))) (\<lambda>_.
     logEvent env (review_event req ''withdrawal.rejected'' ''admin'' (Some admin))))"
| "commit_call env (CallCancel wid user) req tenantID =
     andThen (refund_tx env req tenantID (review_update env (CallCancel wid user) req)
                ''withdrawal cancelled'') (\<lambda>_.
     andThen (modify (release_pending env user)) (\<lambda>_.
     logEvent env (review_event req ''withdrawal.cancelled'' ''user'' None)))"
| "commit_call env (CallMarkPaid wid admin txn) req tenantID =
     andThen (updateRequest env (wr_ID req) (review_update env (CallMarkPaid wid admin txn) req)) (\<lambda>_.
     andThen (modify (release_pending env (wr_UserID req))) (\<lambda>_.
     logEvent env (review_event req ''withdrawal.paid'' ''admin'' (Some admin))))"

definition handle :: "withdraw_env \<Rightarrow> wd_call \<Rightarrow> unit withdraw_act" where
  "handle env call s =
     (case load_for env call s of
        Inl e \<Rightarrow> (Inl e, s)
      | Inr (req, tenantID) \<Rightarrow> commit_call env call req tenantID s)"

definition Approve :: "withdraw_env \<Rightarrow> nat \<Rightarrow> nat \<Rightarrow> string \<Rightarrow> unit withdraw_act" where
  "Approve env wid admin remark = handle env (CallApprove wid admin remark)"

definition Reject :: "withdraw_env \<Rightarrow> nat \<Rightarrow> nat \<Rightarrow> string \<Rightarrow> unit withdraw_act" where
  "Reject env wid admin reason = handle env (CallReject wid admin reason)"

definition CancelByUser :: "withdraw_env \<Rightarrow> nat \<Rightarrow> nat \<Rightarrow> unit withdraw_act" where
  "CancelByUser env wid user = handle env (CallCancel wid user)"

definition MarkPaid :: "withdraw_env \<Rightarrow> nat \<Rightarrow> nat \<Rightarrow> string \<Rightarrow> unit withdraw_act" where
  "MarkPaid env wid admin txn = handle env (CallMarkPaid wid admin txn)"

text \<open>The batch handlers return the ids that went through and those that failed.\<close>

fun BatchApprove ::
  "(nat \<Rightarrow> withdraw_env) \<Rightarrow> nat list \<Rightarrow> nat \<Rightarrow> string \<Rightarrow> withdrawals \<Rightarrow> (nat list \<times> nat list) \<times> withdrawals" where
  "BatchApprove envs [] admin remark s = (([], []), s)"
| "BatchApprove envs (wid # wids) admin remark s =
     (case Approve (envs wid) wid admin remark s of
        (r, s1) \<Rightarrow>
          (case BatchApprove envs wids admin remark s1 of
             ((oks, failed), s2) \<Rightarrow>
               (case r of Inl _ \<Rightarrow> ((oks, wid # failed), s2) | Inr _ \<Rightarrow> ((wid # oks, failed), s2))))"

fun BatchReject ::
  "(nat \<Rightarrow> withdraw_env) \<Rightarrow> nat list \<Rightarrow> nat \<Rightarrow> string \<Rightarrow> withdrawals \<Rightarrow> (nat list \<times> nat list) \<times> withdrawals" where
  "BatchReject envs [] admin reason s = (([], []), s)"
| "BatchReject envs (wid # wids) admin reason s =
     (case Reject (envs wid) wid admin reason s of
        (r, s1) \<Rightarrow>
          (case BatchReject envs wids admin reason s1 of
             ((oks, failed), s2) \<Rightarrow>
               (case r of Inl _ \<Rightarrow> ((oks, wid # failed), s2) | Inr _ \<Rightarrow> ((wid # oks, failed), s2))))"

section \<open>Interleaved handlers\<close>

text \<open>A handler that has read and checked, and has not written yet.\<close>

type_synonym in_flight = "withdraw_env \<times> wd_call \<times> WithdrawalRequest \<times> nat"

inductive wd_step :: "withdrawals \<times> in_flight list \<Rightarrow> withdrawals \<times> in_flight list \<Rightarrow> bool" where
  loads: "load_for env call s = Inr (req, t) \<Longrightarrow> wd_step (s, ps) (s, (env, call, req, t) # ps)"
| commits: "snd (commit_call env call req t s) = s' \<Longrightarrow>
    wd_step (s, ps @ (env, call, req, t) # qs) (s', ps @ qs)"

inductive_cases wd_step_cases: "wd_step (s, ps) (s', ps')"

text \<open>Calls one after another: every write follows its own read.\<close>

inductive wd_serial :: "withdrawals \<Rightarrow> withdrawals \<Rightarrow> bool" where
  start: "wd_serial s s"
| handled: "wd_serial s t \<Longrightarrow> snd (handle env call t) = v \<Longrightarrow> wd_serial s v"
| created: "wd_serial s t \<Longrightarrow> snd (CreateWithdrawal env u a bank t) = v \<Longrightarrow> wd_serial s v"

end
