(* ===== verification/Balance.thy ===== *)
theory Balance
  imports Referral
begin

text \<open>
  \<open>internal/service/balance/balance_service.go\<close>: the balance of a user, held in billing
  units with legacy columns in credits beside them, and the freezing of an estimated cost before
  a call. Each public method is an action on the ledger; the remarks are glosses of the Chinese
  texts. The distributed lock and the row lock make each method one step; taking the lock may
  fail (\<open>AcquireLock\<close>).
\<close>

section \<open>Reading\<close>

definition expireFreeQuotaIfNeeded :: "ledger_env \<Rightarrow> UserBalance \<Rightarrow> UserBalance \<times> expire_job option" where
  "expireFreeQuotaIfNeeded env ub0 =
     (let ub = hydrateBalanceUnits ub0
      in case ub_FreeQuotaExpiredAt ub of
           None \<Rightarrow> (ub, None)
         | Some t \<Rightarrow>
             if ub_FreeQuotaUnits ub \<le> 0 \<or> le_now env < t then (ub, None)
             else (let ub' = syncBalanceCreditFields (ub\<lparr>ub_FreeQuotaUnits := 0\<rparr>)
                   in (ub', Some \<lparr>ej_UserID = ub_UserID ub', ej_TenantID = ub_TenantID ub',
                        ej_ExpiredUnits = ub_FreeQuotaUnits ub, ej_BalanceUnits = ub_BalanceUnits ub'\<rparr>)))"

definition GetBalance :: "ledger_env \<Rightarrow> nat \<Rightarrow> nat \<Rightarrow> UserBalance ledger_act" where
  "GetBalance env userID tenantID s =
     (if le_fails env QueryBalance then (Inl (DBError QueryBalance), s)
      else case lg_balances s userID of
        None \<Rightarrow>
          if le_fails env CreateBalance then (Inl (DBError CreateBalance), s)
          else (let ub = zero_UserBalance\<lparr>ub_UserID := userID, ub_TenantID := tenantID, ub_Currency := ''CREDIT''\<rparr>
                in (Inr ub, s\<lparr>lg_balances := (lg_balances s)(userID \<mapsto> ub)\<rparr>))
      | Some row \<Rightarrow>
          (let (ub, job) = expireFreeQuotaIfNeeded env row
           in (Inr (hydrateBalanceUnits ub),
               case job of None \<Rightarrow> s | Some j \<Rightarrow> s\<lparr>lg_jobs := lg_jobs s @ [j]\<rparr>)))"

text \<open>The goroutine started by the expiry, run later; it ignores its errors.\<close>

definition run_expire_job :: "ledger_env \<Rightarrow> expire_job \<Rightarrow> ledger \<Rightarrow> ledger" where
  "run_expire_job env j s =
     (let s1 = (if le_fails env UpdateBalance then s
                else s\<lparr>lg_balances := (lg_balances s)(ej_UserID j := map_option
                  (\<lambda>ub. ub\<lparr>ub_FreeQuota := 0, ub_FreeQuotaUnits := 0, ub_FreeQuotaRMB := 0\<rparr>)
                  (lg_balances s (ej_UserID j)))\<rparr>)
      in snd (createRecord env (balanceRecordFromUnits (ej_UserID j) (ej_TenantID j) ''EXPIRED''
           (neg64 (ej_ExpiredUnits j)) (ej_BalanceUnits j) (ej_BalanceUnits j) ''free quota expired'' '''') s1))"

definition HasSufficientBalance :: "ledger_env \<Rightarrow> nat \<Rightarrow> ledger \<Rightarrow> ledger_error + bool \<times> int64" where
  "HasSufficientBalance env userID s =
     (if le_fails env QueryBalance then Inl (DBError QueryBalance)
      else case lg_balances s userID of
        None \<Rightarrow> Inr (False, 0)
      | Some row \<Rightarrow>
          (let ub = hydrateBalanceUnits row
           in Inr (available ub > 0, BillingUnitsToCredits (available ub))))"

definition CheckQuota :: "ledger_env \<Rightarrow> nat \<Rightarrow> ledger \<Rightarrow> ledger_error + unit" where
  "CheckQuota env userID s =
     (case HasSufficientBalance env userID s of
        Inl e \<Rightarrow> Inl e
      | Inr (ok, _) \<Rightarrow> if ok then Inr () else Inl (InsufficientBalance 0 0))"

section \<open>Opening an account\<close>

definition default_quota :: QuotaConfig where
  "default_quota =
     \<lparr>qc_ID = 0, qc_DefaultFreeQuota = 10000, qc_RegistrationBonus = 0, qc_InviteeBonus = 0,
      qc_InviteeUnlockCredits = 0, qc_InviterBonus = 0, qc_InviterUnlockPaidRMB = 0,
      qc_InviterMonthlyCap = 0, qc_FreeQuotaExpiryDays = 0, qc_PaidThresholdCredits = 0,
      qc_IsActive = True, qc_Description = ''Default quota config''\<rparr>"

definition getActiveQuotaConfig :: "ledger_env \<Rightarrow> ledger \<Rightarrow> QuotaConfig" where
  "getActiveQuotaConfig env s =
     (case (if le_fails env QueryConfig then None else active_quota_config s) of
        None \<Rightarrow> default_quota | Some cfg \<Rightarrow> cfg)"

definition InitBalance :: "ledger_env \<Rightarrow> nat \<Rightarrow> nat \<Rightarrow> unit ledger_act" where
  "InitBalance env userID tenantID s =
     (let quota = getActiveQuotaConfig env s;
          freeCredits = add64 (qc_DefaultFreeQuota quota) (qc_RegistrationBonus quota);
          freeUnits = CreditsToBillingUnits freeCredits;
          expiryDays = (if qc_FreeQuotaExpiryDays quota \<le> 0 then 7 else qc_FreeQuotaExpiryDays quota);
          ub = zero_UserBalance\<lparr>ub_UserID := userID, ub_TenantID := tenantID,
                 ub_FreeQuota := freeCredits, ub_FreeQuotaRMB := BillingUnitsToRMB freeUnits,
                 ub_FreeQuotaUnits := freeUnits, ub_Currency := ''CREDIT'',
                 ub_FreeQuotaExpiredAt :=
                   (if freeCredits > 0 then Some (le_now env + expiryDays * day) else None)\<rparr>
      in if le_fails env CreateBalance \<or> lg_balances s userID \<noteq> None
         then (Inl (DBError CreateBalance), s)
         else (let s1 = s\<lparr>lg_balances := (lg_balances s)(userID \<mapsto> ub)\<rparr>
               in (Inr (),
                   if freeCredits > 0
                   then snd (createRecord env (balanceRecordFromUnits userID tenantID ''GIFT'' freeUnits
                               0 0 ''Registration free quota'' '''') s1)
                   else s1)))"

section \<open>Charging and paying in\<close>

definition RechargeUnits ::
  "ledger_env \<Rightarrow> nat \<Rightarrow> nat \<Rightarrow> int64 \<Rightarrow> string \<Rightarrow> string \<Rightarrow> UserBalance ledger_act" where
  "RechargeUnits env userID tenantID amountUnits remark relatedID =
     (if amountUnits \<le> 0 then fail NotPositive
      else andThen
       (transaction
         (andThen
           (\<lambda>s. if le_fails env LockBalance then (Inl (DBError LockBalance), s)
                else case lg_balances s userID of
                  Some ub \<Rightarrow> (Inr ub, s)
                | None \<Rightarrow>
                    if le_fails env CreateBalance then (Inl (DBError CreateBalance), s)
                    else if le_fails env RelockBalance then (Inl (DBError RelockBalance), s)
                    else (Inr (zero_UserBalance\<lparr>ub_UserID := userID, ub_TenantID := tenantID,
                                 ub_Currency := ''CREDIT''\<rparr>), s))
           (\<lambda>row.
             (let ub0 = hydrateBalanceUnits row;
                  ub = syncBalanceCreditFields (ub0\<lparr>
                    ub_BalanceUnits := add64 (ub_BalanceUnits ub0) amountUnits,
                    ub_TotalRechargedUnits := add64 (ub_TotalRechargedUnits ub0) amountUnits\<rparr>)
              in andThen (saveBalance env userID ub) (\<lambda>_.
                 andThen (createRecord env (balanceRecordFromUnits userID tenantID ''RECHARGE'' amountUnits
                    (ub_BalanceUnits ub0) (ub_BalanceUnits ub) remark relatedID)) (\<lambda>_. ret ub))))))
       (\<lambda>ub. andThen (InvalidateCache userID) (\<lambda>_. ret ub)))"

definition Recharge ::
  "ledger_env \<Rightarrow> nat \<Rightarrow> nat \<Rightarrow> int64 \<Rightarrow> string \<Rightarrow> string \<Rightarrow> UserBalance ledger_act" where
  "Recharge env userID tenantID creditsAmount remark relatedID =
     RechargeUnits env userID tenantID (CreditsToBillingUnits creditsAmount) remark relatedID"

definition RechargeRMB ::
  "ledger_env \<Rightarrow> nat \<Rightarrow> nat \<Rightarrow> float64 \<Rightarrow> string \<Rightarrow> string \<Rightarrow> UserBalance ledger_act" where
  "RechargeRMB env userID tenantID rmbAmount remark relatedID =
     Recharge env userID tenantID (RMBToCredits rmbAmount) remark relatedID"

text \<open>The split of a charge: first the free quota, then the balance.\<close>

definition charge :: "int64 \<Rightarrow> UserBalance \<Rightarrow> UserBalance" where
  "charge amountUnits ub =
     (let (free, remaining) =
        (if ub_FreeQuotaUnits ub > 0
         then (if ub_FreeQuotaUnits ub \<ge> amountUnits
               then (sub64 (ub_FreeQuotaUnits ub) amountUnits, 0)
               else (0, sub64 amountUnits (ub_FreeQuotaUnits ub)))
         else (ub_FreeQuotaUnits ub, amountUnits))
      in ub\<lparr>ub_FreeQuotaUnits := free,
            ub_BalanceUnits := (if remaining > 0 then sub64 (ub_BalanceUnits ub) remaining
                                else ub_BalanceUnits ub),
            ub_TotalConsumedUnits := add64 (ub_TotalConsumedUnits ub) amountUnits\<rparr>)"

definition deduct_tx ::
  "ledger_env \<Rightarrow> nat \<Rightarrow> nat \<Rightarrow> int64 \<Rightarrow> string \<Rightarrow> string \<Rightarrow> UserBalance ledger_act" where
  "deduct_tx env userID tenantID amountUnits remark relatedID =
     transaction
       (andThen (lockBalance env userID) (\<lambda>row.
         (let ub0 = hydrateBalanceUnits row
          in if available ub0 < amountUnits
             then fail (InsufficientBalance (available ub0) amountUnits)
             else
              (let ub = syncBalanceCreditFields (charge amountUnits ub0)
               in andThen (saveBalance env userID ub) (\<lambda>_.
                  andThen (createRecord env (balanceRecordFromUnits userID tenantID ''CONSUME''
                     (neg64 amountUnits) (ub_BalanceUnits ub0) (ub_BalanceUnits ub) remark relatedID))
                   (\<lambda>_. ret ub))))))"

definition after_consumption :: "ledger_env \<Rightarrow> nat \<Rightarrow> unit ledger_act" where
  "after_consumption env userID =
     modify (\<lambda>s. TryGrantInviteeBonus env userID (TryUnlockAttribution env userID s))"

definition DeductUnits ::
  "ledger_env \<Rightarrow> nat \<Rightarrow> nat \<Rightarrow> int64 \<Rightarrow> string \<Rightarrow> string \<Rightarrow> UserBalance ledger_act" where
  "DeductUnits env userID tenantID amountUnits remark relatedID =
     (if amountUnits \<le> 0 then fail NotPositive
      else andThen (deduct_tx env userID tenantID amountUnits remark relatedID) (\<lambda>ub.
           andThen (InvalidateCache userID) (\<lambda>_.
           andThen (after_consumption env userID) (\<lambda>_. ret ub))))"

definition Deduct ::
  "ledger_env \<Rightarrow> nat \<Rightarrow> nat \<Rightarrow> int64 \<Rightarrow> string \<Rightarrow> string \<Rightarrow> UserBalance ledger_act" where
  "Deduct env userID tenantID creditsAmount remark relatedID =
     DeductUnits env userID tenantID (CreditsToBillingUnits creditsAmount) remark relatedID"

definition DeductForRequest ::
  "ledger_env \<Rightarrow> nat \<Rightarrow> nat \<Rightarrow> int64 \<Rightarrow> string \<Rightarrow> string \<Rightarrow> unit ledger_act" where
  "DeductForRequest env userID tenantID creditsAmount modelName requestID =
     andThen (Deduct env userID tenantID creditsAmount (''consume '' @ modelName) requestID) (\<lambda>_. ret ())"

definition DeductUnitsForRequest ::
  "ledger_env \<Rightarrow> nat \<Rightarrow> nat \<Rightarrow> int64 \<Rightarrow> string \<Rightarrow> string \<Rightarrow> unit ledger_act" where
  "DeductUnitsForRequest env userID tenantID amountUnits modelName requestID =
     andThen (DeductUnits env userID tenantID amountUnits (''consume '' @ modelName) requestID) (\<lambda>_. ret ())"

definition AdminAdjust ::
  "ledger_env \<Rightarrow> nat \<Rightarrow> nat \<Rightarrow> int64 \<Rightarrow> string \<Rightarrow> UserBalance ledger_act" where
  "AdminAdjust env userID tenantID creditsAmount remark =
     (if creditsAmount = 0 then fail AmountZero
      else andThen
       (transaction
         (andThen (lockBalance env userID) (\<lambda>row.
           (let ub0 = hydrateBalanceUnits row;
                b = add64 (ub_BalanceUnits ub0) (CreditsToBillingUnits creditsAmount);
                ub = syncBalanceCreditFields (ub0\<lparr>ub_BalanceUnits := (if b < 0 then 0 else b)\<rparr>)
            in andThen (saveBalance env userID ub) (\<lambda>_.
               andThen (createRecord env (balanceRecordFromUnits userID tenantID ''ADMIN_ADJUST''
                  (CreditsToBillingUnits creditsAmount) (ub_BalanceUnits ub0) (ub_BalanceUnits ub) remark ''''))
                (\<lambda>_. ret ub))))))
       (\<lambda>ub. andThen (InvalidateCache userID) (\<lambda>_. ret ub)))"

section \<open>Freezing\<close>

definition freeze_record_of :: "ledger_env \<Rightarrow> nat \<Rightarrow> nat \<Rightarrow> int64 \<Rightarrow> string \<Rightarrow> string \<Rightarrow> FreezeRecord" where
  "freeze_record_of env userID tenantID estimatedUnits modelName requestID =
     \<lparr>fr_FreezeID = le_uuid env, fr_UserID = userID, fr_TenantID = tenantID,
      fr_FrozenAmount = BillingUnitsToCredits estimatedUnits,
      fr_FrozenAmountRMB = BillingUnitsToRMB estimatedUnits, fr_ActualCost = 0,
      fr_ActualCostRMB = 0, fr_FrozenUnits = estimatedUnits, fr_Status = FROZEN,
      fr_ModelName = modelName, fr_RequestID = requestID, fr_CreatedAt = le_now env\<rparr>"

definition createFreeze :: "ledger_env \<Rightarrow> FreezeRecord \<Rightarrow> unit ledger_act" where
  "createFreeze env fr =
     (\<lambda>s. if le_fails env CreateFreeze \<or> (\<exists>f \<in> set (lg_freezes s). fr_FreezeID f = fr_FreezeID fr)
          then (Inl (DBError CreateFreeze), s)
          else (Inr (), s\<lparr>lg_freezes := lg_freezes s @ [fr]\<rparr>))"

definition FreezeBalanceUnits ::
  "ledger_env \<Rightarrow> nat \<Rightarrow> nat \<Rightarrow> int64 \<Rightarrow> string \<Rightarrow> string \<Rightarrow> string ledger_act" where
  "FreezeBalanceUnits env userID tenantID estimatedUnits modelName requestID =
     (if estimatedUnits \<le> 0 then ret ''''
      else if le_fails env AcquireLock then fail (DBError AcquireLock)
      else andThen
       (transaction
         (andThen (lockBalance env userID) (\<lambda>row.
           (let ub0 = hydrateBalanceUnits row
            in if available ub0 < estimatedUnits
               then fail (InsufficientBalance (available ub0) estimatedUnits)
               else
                (let ub = syncBalanceCreditFields
                       (ub0\<lparr>ub_FrozenUnits := add64 (ub_FrozenUnits ub0) estimatedUnits\<rparr>)
                 in andThen (saveBalance env userID ub) (\<lambda>_.
                    andThen (createFreeze env
                       (freeze_record_of env userID tenantID estimatedUnits modelName requestID)) (\<lambda>_.
                    createRecord env (balanceRecordFromUnits userID tenantID ''FREEZE''
                       (neg64 estimatedUnits) (ub_BalanceUnits ub) (ub_BalanceUnits ub)
                       (''freeze '' @ modelName) (le_uuid env)))))))))
       (\<lambda>_. andThen (InvalidateCache userID) (\<lambda>_. ret (le_uuid env))))"

definition FreezeBalance ::
  "ledger_env \<Rightarrow> nat \<Rightarrow> nat \<Rightarrow> int64 \<Rightarrow> string \<Rightarrow> string \<Rightarrow> string ledger_act" where
  "FreezeBalance env userID tenantID estimatedCredits modelName requestID =
     FreezeBalanceUnits env userID tenantID (CreditsToBillingUnits estimatedCredits) modelName requestID"

definition find_frozen :: "string \<Rightarrow> ledger \<Rightarrow> FreezeRecord option" where
  "find_frozen freezeID s =
     first_where (\<lambda>f. fr_FreezeID f = freezeID \<and> fr_Status f = FROZEN) (lg_freezes s)"

definition updateFreeze :: "ledger_env \<Rightarrow> string \<Rightarrow> (FreezeRecord \<Rightarrow> FreezeRecord) \<Rightarrow> unit ledger_act" where
  "updateFreeze env freezeID f =
     guarded (le_fails env UpdateFreeze) (DBError UpdateFreeze)
       (modify (\<lambda>s. s\<lparr>lg_freezes := map (\<lambda>x. if fr_FreezeID x = freezeID then f x else x) (lg_freezes s)\<rparr>))"

text \<open>The charge of a settlement, on the legacy columns as the code has it.\<close>

definition settle_charge :: "int64 \<Rightarrow> UserBalance \<Rightarrow> UserBalance" where
  "settle_charge actualCredits ub =
     (if actualCredits > 0
      then
       (let (free, remaining) =
          (if ub_FreeQuota ub > 0
           then (if ub_FreeQuota ub \<ge> actualCredits then (sub64 (ub_FreeQuota ub) actualCredits, 0)
                 else (0, sub64 actualCredits (ub_FreeQuota ub)))
           else (ub_FreeQuota ub, actualCredits));
            ub1 = (if remaining > 0
                   then (let b = sub64 (ub_Balance ub) remaining; b' = (if b < 0 then 0 else b)
                         in ub\<lparr>ub_Balance := b', ub_BalanceRMB := CreditsToRMB b'\<rparr>)
                   else ub);
            consumed = add64 (ub_TotalConsumed ub) actualCredits
        in ub1\<lparr>ub_FreeQuota := free, ub_TotalConsumed := consumed,
               ub_TotalConsumedRMB := CreditsToRMB consumed, ub_FreeQuotaRMB := CreditsToRMB free\<rparr>)
      else ub)"

definition unfreeze :: "int64 \<Rightarrow> UserBalance \<Rightarrow> UserBalance" where
  "unfreeze amount ub =
     (let f = sub64 (ub_FrozenAmount ub) amount in ub\<lparr>ub_FrozenAmount := (if f < 0 then 0 else f)\<rparr>)"

definition SettleBalance :: "ledger_env \<Rightarrow> string \<Rightarrow> int64 \<Rightarrow> unit ledger_act" where
  "SettleBalance env freezeID actualCredits =
     (if freezeID = '''' then ret ()
      else if le_fails env FindFreeze then fail (DBError FindFreeze)
      else (\<lambda>s. (case find_frozen freezeID s of
        None \<Rightarrow> fail RecordNotFound
      | Some fr \<Rightarrow>
          if le_fails env AcquireLock then fail (DBError AcquireLock)
          else andThen
           (transaction
             (andThen (lockBalance env (fr_UserID fr)) (\<lambda>row.
               (let ub = settle_charge actualCredits (unfreeze (fr_FrozenAmount fr) row)
                in andThen (saveBalance env (fr_UserID fr) ub) (\<lambda>_.
                   andThen (updateFreeze env freezeID (\<lambda>f. f\<lparr>fr_Status := SETTLED,
                     fr_ActualCost := actualCredits, fr_ActualCostRMB := CreditsToRMB actualCredits\<rparr>)) (\<lambda>_.
                   if actualCredits > 0
                   then createRecord env
                     \<lparr>br_UserID = fr_UserID fr, br_TenantID = fr_TenantID fr, br_Type = ''CONSUME'',
                      br_Amount = neg64 actualCredits, br_AmountRMB = - CreditsToRMB actualCredits,
                      br_BeforeBalance = ub_Balance row, br_AfterBalance = ub_Balance ub,
                      br_AmountUnits = 0, br_BeforeBalanceUnits = 0, br_AfterBalanceUnits = 0,
                      br_Remark = ''settle '' @ fr_ModelName fr, br_RelatedID = freezeID\<rparr>
                   else ret ()))))))
           (\<lambda>_. andThen (InvalidateCache (fr_UserID fr)) (\<lambda>_.
              if actualCredits > 0 then after_consumption env (fr_UserID fr) else ret ()))) s))"

definition ReleaseFrozen :: "ledger_env \<Rightarrow> string \<Rightarrow> unit ledger_act" where
  "ReleaseFrozen env freezeID =
     (if freezeID = '''' then ret ()
      else if le_fails env FindFreeze then fail (DBError FindFreeze)
      else (\<lambda>s. (case find_frozen freezeID s of
        None \<Rightarrow> ret ()
      | Some fr \<Rightarrow>
          if le_fails env AcquireLock then fail (DBError AcquireLock)
          else andThen
           (transaction
             (andThen (lockBalance env (fr_UserID fr)) (\<lambda>row.
               (let ub = unfreeze (fr_FrozenAmount fr) row
                in andThen (saveBalance env (fr_UserID fr) ub) (\<lambda>_.
                   andThen (updateFreeze env freezeID (\<lambda>f. f\<lparr>fr_Status := RELEASED\<rparr>)) (\<lambda>_.
                   createRecord env
                     \<lparr>br_UserID = fr_UserID fr, br_TenantID = fr_TenantID fr, br_Type = ''UNFREEZE'',
                      br_Amount = fr_FrozenAmount fr, br_AmountRMB = fr_FrozenAmountRMB fr,
                      br_BeforeBalance = ub_Balance ub, br_AfterBalance = ub_Balance ub,
                      br_AmountUnits = 0, br_BeforeBalanceUnits = 0, br_AfterBalanceUnits = 0,
                      br_Remark = ''release '' @ fr_ModelName fr, br_RelatedID = freezeID\<rparr>))))))
           (\<lambda>_. InvalidateCache (fr_UserID fr))) s))"

text \<open>\<open>freezeExpiry\<close> is five minutes. The loop goes on after a failed release.\<close>

definition freezeExpiry :: int where
  "freezeExpiry = 5 * 60 * 1000000000"

fun release_all :: "(string \<Rightarrow> ledger_env) \<Rightarrow> FreezeRecord list \<Rightarrow> nat \<Rightarrow> ledger \<Rightarrow> nat \<times> ledger" where
  "release_all envs [] cleaned s = (cleaned, s)"
| "release_all envs (fr # frs) cleaned s =
     (case ReleaseFrozen (envs (fr_FreezeID fr)) (fr_FreezeID fr) s of
        (Inl _, s') \<Rightarrow> release_all envs frs cleaned s'
      | (Inr _, s') \<Rightarrow> release_all envs frs (Suc cleaned) s')"

definition CleanExpiredFreezes :: "ledger_env \<Rightarrow> (string \<Rightarrow> ledger_env) \<Rightarrow> nat ledger_act" where
  "CleanExpiredFreezes env envs s =
     (if le_fails env QueryFreezes then (Inl (DBError QueryFreezes), s)
      else (let (n, s') = release_all envs
                 (filter (\<lambda>f. fr_Status f = FROZEN \<and> fr_CreatedAt f < le_now env - freezeExpiry)
                   (lg_freezes s)) 0 s
            in (Inr n, s')))"

end
