(* ===== verification/Wallet.thy ===== *)
theory Wallet
  imports Balance
begin

text \<open>
  What the balance service promises, as an interface: a wallet with funds and a held part, from
  which one pays, in which one holds and to which one adds. The lemmas of the interface (what each
  operation does to funds and held part, when one is refused, solvency) are proved once; the
  interpretation discharges the laws for the rows of \<open>user_balances\<close> and the row functions of
  \<open>DeductUnits\<close>, \<open>FreezeBalanceUnits\<close> and \<open>RechargeUnits\<close>.
\<close>

section \<open>The interface\<close>


locale wallet =
  fixes ok :: "'w \<Rightarrow> bool"
    and funds held :: "'w \<Rightarrow> int"
    and pay hold top_up :: "int \<Rightarrow> 'w \<Rightarrow> 'w option"
    and limit :: int
  assumes ok_bounds: "ok w \<Longrightarrow> 0 \<le> held w \<and> held w \<le> funds w"
    and pay_law: "ok w \<Longrightarrow> funds w < limit \<Longrightarrow> 0 < a \<Longrightarrow>
      (case pay a w of
         None \<Rightarrow> funds w - held w < a
       | Some w' \<Rightarrow> ok w' \<and> funds w' = funds w - a \<and> held w' = held w)"
    and hold_law: "ok w \<Longrightarrow> funds w < limit \<Longrightarrow> 0 < a \<Longrightarrow>
      (case hold a w of
         None \<Rightarrow> funds w - held w < a
       | Some w' \<Rightarrow> ok w' \<and> funds w' = funds w \<and> held w' = held w + a)"
    and top_up_law: "ok w \<Longrightarrow> funds w + a < limit \<Longrightarrow> 0 < a \<Longrightarrow>
      (case top_up a w of None \<Rightarrow> False | Some w' \<Rightarrow> ok w' \<and> funds w' = funds w + a \<and> held w' = held w)"
begin

lemma paid:
  assumes "pay a w = Some w'" "ok w" "funds w < limit" "0 < a"
  shows "ok w'" "funds w' = funds w - a" "held w' = held w" "a \<le> funds w - held w"
proof -
  show l: "ok w'" "funds w' = funds w - a" "held w' = held w" using pay_law [OF assms(2-4)] assms(1) by simp_all
  show "a \<le> funds w - held w" using ok_bounds [OF l(1)] l(2,3) by linarith
qed

lemma held_back:
  assumes "hold a w = Some w'" "ok w" "funds w < limit" "0 < a"
  shows "ok w'" "funds w' = funds w" "held w' = held w + a" "a \<le> funds w - held w"
proof -
  show l: "ok w'" "funds w' = funds w" "held w' = held w + a" using hold_law [OF assms(2-4)] assms(1) by simp_all
  show "a \<le> funds w - held w" using ok_bounds [OF l(1)] l(2,3) by linarith
qed

lemma added:
  assumes "top_up a w = Some w'" "ok w" "funds w + a < limit" "0 < a"
  shows "ok w'" "funds w' = funds w + a" "held w' = held w"
  using top_up_law [OF assms(2-4)] assms(1) by simp_all

text \<open>What is left after the held part decides, for payments and for holds.\<close>

lemma refused:
  assumes "ok w" "funds w < limit" "0 < a"
  shows "pay a w = None \<longleftrightarrow> funds w - held w < a" "hold a w = None \<longleftrightarrow> funds w - held w < a"
proof -
  show "pay a w = None \<longleftrightarrow> funds w - held w < a"
    using pay_law [OF assms] paid(4) [OF _ assms] by (cases "pay a w") fastforce+
  show "hold a w = None \<longleftrightarrow> funds w - held w < a"
    using hold_law [OF assms] held_back(4) [OF _ assms] by (cases "hold a w") fastforce+
qed

lemma solvent_after:
  assumes "pay a w = Some w' \<or> hold a w = Some w'" "ok w" "funds w < limit" "0 < a"
  shows "0 \<le> held w'" "held w' \<le> funds w'"
  using assms ok_bounds paid(1) held_back(1) by blast+

end

section \<open>The rows\<close>

definition solvent :: "UserBalance \<Rightarrow> bool" where
  "solvent ub \<longleftrightarrow>
     0 \<le> ub_BalanceUnits ub \<and> 0 \<le> ub_FreeQuotaUnits ub \<and> 0 \<le> ub_FrozenUnits ub \<and>
     ub_FrozenUnits ub \<le> ub_BalanceUnits ub + ub_FreeQuotaUnits ub"

definition row_ok :: "UserBalance \<Rightarrow> bool" where
  "row_ok row \<longleftrightarrow> solvent (hydrateBalanceUnits row)"

definition row_funds :: "UserBalance \<Rightarrow> int" where
  "row_funds row = ub_BalanceUnits (hydrateBalanceUnits row) + ub_FreeQuotaUnits (hydrateBalanceUnits row)"

definition row_held :: "UserBalance \<Rightarrow> int" where
  "row_held row = ub_FrozenUnits (hydrateBalanceUnits row)"

definition row_pay :: "int64 \<Rightarrow> UserBalance \<Rightarrow> UserBalance option" where
  "row_pay a row =
     (let ub = hydrateBalanceUnits row
      in if available ub < a then None else Some (syncBalanceCreditFields (charge a ub)))"

definition row_hold :: "int64 \<Rightarrow> UserBalance \<Rightarrow> UserBalance option" where
  "row_hold a row =
     (let ub = hydrateBalanceUnits row
      in if available ub < a then None
         else Some (syncBalanceCreditFields (ub\<lparr>ub_FrozenUnits := add64 (ub_FrozenUnits ub) a\<rparr>)))"

definition row_top_up :: "int64 \<Rightarrow> UserBalance \<Rightarrow> UserBalance option" where
  "row_top_up a row =
     (let ub = hydrateBalanceUnits row
      in Some (syncBalanceCreditFields (ub\<lparr>ub_BalanceUnits := add64 (ub_BalanceUnits ub) a,
                 ub_TotalRechargedUnits := add64 (ub_TotalRechargedUnits ub) a\<rparr>)))"

text \<open>Synchronised rows are their own hydration.\<close>

lemma hydrate_one_sync [simp]: "hydrate_one x (BillingUnitsToCredits x) = x"
  by (cases "x = 0") (simp_all add: hydrate_one_def)

lemma sync_fields [simp]:
  "ub_Balance (syncBalanceCreditFields ub) = BillingUnitsToCredits (ub_BalanceUnits ub)"
  "ub_FreeQuota (syncBalanceCreditFields ub) = BillingUnitsToCredits (ub_FreeQuotaUnits ub)"
  "ub_FrozenAmount (syncBalanceCreditFields ub) = BillingUnitsToCredits (ub_FrozenUnits ub)"
  "ub_TotalConsumed (syncBalanceCreditFields ub) = BillingUnitsToCredits (ub_TotalConsumedUnits ub)"
  "ub_TotalRecharged (syncBalanceCreditFields ub) = BillingUnitsToCredits (ub_TotalRechargedUnits ub)"
  by (simp_all add: syncBalanceCreditFields_def)

lemma sync_units [simp]:
  "ub_BalanceUnits (syncBalanceCreditFields ub) = ub_BalanceUnits ub"
  "ub_FreeQuotaUnits (syncBalanceCreditFields ub) = ub_FreeQuotaUnits ub"
  "ub_FrozenUnits (syncBalanceCreditFields ub) = ub_FrozenUnits ub"
  "ub_TotalConsumedUnits (syncBalanceCreditFields ub) = ub_TotalConsumedUnits ub"
  "ub_TotalRechargedUnits (syncBalanceCreditFields ub) = ub_TotalRechargedUnits ub"
  by (simp_all add: syncBalanceCreditFields_def)

lemma sync_idem: "syncBalanceCreditFields (syncBalanceCreditFields ub) = syncBalanceCreditFields ub"
  by (simp add: syncBalanceCreditFields_def)

lemma hydrate_sync: "hydrateBalanceUnits (syncBalanceCreditFields ub) = syncBalanceCreditFields ub"
proof -
  define sb where "sb = syncBalanceCreditFields ub"
  have "sb\<lparr>ub_BalanceUnits := ub_BalanceUnits sb, ub_FreeQuotaUnits := ub_FreeQuotaUnits sb,
     ub_FrozenUnits := ub_FrozenUnits sb, ub_TotalConsumedUnits := ub_TotalConsumedUnits sb,
     ub_TotalRechargedUnits := ub_TotalRechargedUnits sb\<rparr> = sb"
    by simp
  moreover have "hydrate_one (ub_BalanceUnits sb) (ub_Balance sb) = ub_BalanceUnits sb"
    "hydrate_one (ub_FreeQuotaUnits sb) (ub_FreeQuota sb) = ub_FreeQuotaUnits sb"
    "hydrate_one (ub_FrozenUnits sb) (ub_FrozenAmount sb) = ub_FrozenUnits sb"
    "hydrate_one (ub_TotalConsumedUnits sb) (ub_TotalConsumed sb) = ub_TotalConsumedUnits sb"
    "hydrate_one (ub_TotalRechargedUnits sb) (ub_TotalRecharged sb) = ub_TotalRechargedUnits sb"
    by (simp_all add: sb_def)
  ultimately have "hydrateBalanceUnits sb = syncBalanceCreditFields sb"
    unfolding hydrateBalanceUnits_def by simp
  then show ?thesis by (simp add: sb_def sync_idem)
qed

lemma hydrate_idem [simp]: "hydrateBalanceUnits (hydrateBalanceUnits ub) = hydrateBalanceUnits ub"
  unfolding hydrateBalanceUnits_def [of ub] by (rule hydrate_sync)

lemma available_exact:
  assumes "solvent ub" "ub_BalanceUnits ub + ub_FreeQuotaUnits ub < 2 ^ 62"
  shows "available ub = ub_BalanceUnits ub + ub_FreeQuotaUnits ub - ub_FrozenUnits ub"
proof -
  have "in64 (ub_BalanceUnits ub + ub_FreeQuotaUnits ub)"
    using assms by (simp add: solvent_def in64_def)
  moreover have "in64 (ub_BalanceUnits ub + ub_FreeQuotaUnits ub - ub_FrozenUnits ub)"
    using assms by (simp add: solvent_def in64_def)
  ultimately show ?thesis by (simp add: available_def go_arith)
qed

lemma charge_law:
  assumes "solvent ub" "ub_BalanceUnits ub + ub_FreeQuotaUnits ub < 2 ^ 62" "0 < a"
    "a \<le> ub_BalanceUnits ub + ub_FreeQuotaUnits ub - ub_FrozenUnits ub"
  shows "solvent (charge a ub)" "ub_FrozenUnits (charge a ub) = ub_FrozenUnits ub"
    "ub_BalanceUnits (charge a ub) + ub_FreeQuotaUnits (charge a ub) =
       ub_BalanceUnits ub + ub_FreeQuotaUnits ub - a"
    "ub_FreeQuotaUnits (charge a ub) = max 0 (ub_FreeQuotaUnits ub - a)"
proof -
  let ?B = "ub_BalanceUnits ub" and ?F = "ub_FreeQuotaUnits ub"
  have nn: "0 \<le> ?B" "0 \<le> ?F" "0 \<le> ub_FrozenUnits ub" using assms(1) by (auto simp: solvent_def)
  have s: "sub64 ?F a = ?F - a" "sub64 a ?F = a - ?F" "sub64 ?B (a - ?F) = ?B - (a - ?F)" "sub64 ?B a = ?B - a"
    using assms nn by (auto simp: in64_def intro!: sub64_id)
  have c: "ub_FreeQuotaUnits (charge a ub) = (if ?F > 0 then if a \<le> ?F then ?F - a else 0 else ?F)"
    "ub_BalanceUnits (charge a ub) = (if ?F > 0 then if a \<le> ?F then ?B else ?B - (a - ?F) else ?B - a)"
    "ub_FrozenUnits (charge a ub) = ub_FrozenUnits ub"
    using assms(3) by (auto simp: charge_def Let_def s)
  show "ub_FrozenUnits (charge a ub) = ub_FrozenUnits ub" by (rule c(3))
  show sum: "ub_BalanceUnits (charge a ub) + ub_FreeQuotaUnits (charge a ub) = ?B + ?F - a"
    using c nn by auto
  show "ub_FreeQuotaUnits (charge a ub) = max 0 (?F - a)" using c(1) nn assms(3) by auto
  show "solvent (charge a ub)"
    using assms nn c sum unfolding solvent_def by auto
qed

interpretation row: wallet row_ok row_funds row_held row_pay row_hold row_top_up "2 ^ 62"
proof
  fix w
  assume "row_ok w"
  then show "0 \<le> row_held w \<and> row_held w \<le> row_funds w"
    by (simp add: row_ok_def solvent_def row_held_def row_funds_def)
next
  fix w and a :: int
  assume a: "row_ok w" "row_funds w < 2 ^ 62" "0 < a"
  let ?ub = "hydrateBalanceUnits w"
  have s: "solvent ?ub" "ub_BalanceUnits ?ub + ub_FreeQuotaUnits ?ub < 2 ^ 62"
    using a by (simp_all add: row_ok_def row_funds_def)
  show "case row_pay a w of None \<Rightarrow> row_funds w - row_held w < a
    | Some w' \<Rightarrow> row_ok w' \<and> row_funds w' = row_funds w - a \<and> row_held w' = row_held w"
  proof (cases "available ?ub < a")
    case True
    then show ?thesis using available_exact [OF s]
      by (simp add: row_pay_def row_funds_def row_held_def)
  next
    case False
    then have "a \<le> ub_BalanceUnits ?ub + ub_FreeQuotaUnits ?ub - ub_FrozenUnits ?ub"
      using available_exact [OF s] by simp
    from charge_law [OF s a(3) this] False show ?thesis
      by (simp add: row_pay_def row_ok_def row_funds_def row_held_def hydrate_sync solvent_def)
  qed
next
  fix w and a :: int
  assume a: "row_ok w" "row_funds w < 2 ^ 62" "0 < a"
  let ?ub = "hydrateBalanceUnits w"
  have s: "solvent ?ub" "ub_BalanceUnits ?ub + ub_FreeQuotaUnits ?ub < 2 ^ 62"
    using a by (simp_all add: row_ok_def row_funds_def)
  have "add64 (ub_FrozenUnits ?ub) a = ub_FrozenUnits ?ub + a" if "\<not> available ?ub < a"
    using s a that available_exact [OF s] by (intro add64_id) (simp add: solvent_def in64_def)
  then show "case row_hold a w of None \<Rightarrow> row_funds w - row_held w < a
    | Some w' \<Rightarrow> row_ok w' \<and> row_funds w' = row_funds w \<and> row_held w' = row_held w + a"
    using available_exact [OF s] s(1) a(3)
    by (auto simp: row_hold_def Let_def row_ok_def row_funds_def row_held_def hydrate_sync solvent_def)
next
  fix w and a :: int
  assume a: "row_ok w" "row_funds w + a < 2 ^ 62" "0 < a"
  let ?ub = "hydrateBalanceUnits w"
  have s: "solvent ?ub" using a by (simp add: row_ok_def)
  have "add64 (ub_BalanceUnits ?ub) a = ub_BalanceUnits ?ub + a"
    using s a by (intro add64_id) (simp add: solvent_def in64_def row_funds_def)
  then show "case row_top_up a w of None \<Rightarrow> False
    | Some w' \<Rightarrow> row_ok w' \<and> row_funds w' = row_funds w + a \<and> row_held w' = row_held w"
    using s a(3) by (simp add: row_top_up_def Let_def row_ok_def row_funds_def row_held_def hydrate_sync solvent_def)
qed

section \<open>The operations in terms of the rows\<close>

lemma deduct_tx_ok:
  "deduct_tx env u tn a remark rid s = (Inr ub, t) \<longleftrightarrow>
     (\<exists>row. lg_balances s u = Some row \<and> row_pay a row = Some ub \<and>
       \<not> le_fails env LockBalance \<and> \<not> le_fails env SaveBalance \<and> \<not> le_fails env CreateRecord \<and>
       t = s\<lparr>lg_balances := (lg_balances s)(u \<mapsto> ub),
             lg_records := lg_records s @ [balanceRecordFromUnits u tn ''CONSUME'' (neg64 a)
               (ub_BalanceUnits (hydrateBalanceUnits row)) (ub_BalanceUnits ub) remark rid]\<rparr>)"
  by (auto simp: deduct_tx_def act_ok row_pay_def Let_def)

lemma deduct_tx_err: "deduct_tx env u tn a remark rid s = (Inl e, t) \<Longrightarrow> t = s"
  unfolding deduct_tx_def by (rule transaction_error_rolls_back)

lemma after_deduct_never_fails:
  "\<exists>t. andThen (InvalidateCache u) (\<lambda>_. andThen (after_consumption env u) (\<lambda>_. ret ub)) s = (Inr ub, t)"
  by (auto simp: andThen_ok after_consumption_def)

lemma DeductUnits_err:
  assumes "DeductUnits env u tn a remark rid s = (Inl e, t)"
  shows "t = s"
proof (cases "a \<le> 0")
  case True
  then show ?thesis using assms by (simp add: DeductUnits_def fail_def)
next
  case False
  obtain r s1 where d: "deduct_tx env u tn a remark rid s = (r, s1)" by fastforce
  show ?thesis
  proof (cases r)
    case (Inl e')
    then show ?thesis using assms d False deduct_tx_err [of env u tn a remark rid s]
      by (simp add: DeductUnits_def andThen_def)
  next
    case (Inr ub)
    then show ?thesis
      using assms d False after_deduct_never_fails [of u env ub s1]
      by (auto simp: DeductUnits_def andThen_def)
  qed
qed

definition freeze_tx ::
  "ledger_env \<Rightarrow> nat \<Rightarrow> nat \<Rightarrow> int64 \<Rightarrow> string \<Rightarrow> string \<Rightarrow> ledger \<Rightarrow> UserBalance \<Rightarrow> ledger" where
  "freeze_tx env u tn a model rid s ub =
     s\<lparr>lg_balances := (lg_balances s)(u \<mapsto> ub),
       lg_freezes := lg_freezes s @ [freeze_record_of env u tn a model rid],
       lg_records := lg_records s @ [balanceRecordFromUnits u tn ''FREEZE'' (neg64 a)
         (ub_BalanceUnits ub) (ub_BalanceUnits ub) (''freeze '' @ model) (le_uuid env)],
       lg_cache_dels := lg_cache_dels s @ [u]\<rparr>"

lemma createFreeze_ok [simp]:
  "createFreeze env fr s = (Inr x, t) \<longleftrightarrow>
     \<not> le_fails env CreateFreeze \<and> (\<forall>f \<in> set (lg_freezes s). fr_FreezeID f \<noteq> fr_FreezeID fr) \<and>
     t = s\<lparr>lg_freezes := lg_freezes s @ [fr]\<rparr>"
  by (auto simp: createFreeze_def)

lemma FreezeBalanceUnits_ok:
  assumes "FreezeBalanceUnits env u tn a model rid s = (Inr fid, t)" "0 < a"
  shows "\<exists>row ub. lg_balances s u = Some row \<and> row_hold a row = Some ub \<and> fid = le_uuid env \<and>
    t = freeze_tx env u tn a model rid s ub"
  using assms
  by (auto simp: FreezeBalanceUnits_def act_ok row_hold_def Let_def freeze_tx_def split: if_splits)

lemma FreezeBalanceUnits_err:
  assumes "FreezeBalanceUnits env u tn a model rid s = (Inl e, t)"
  shows "t = s"
  using assms
  by (auto simp: FreezeBalanceUnits_def andThen_def ret_def fail_def InvalidateCache_def modify_def
      dest: transaction_error_rolls_back split: if_splits prod.splits sum.splits)

lemma ReleaseFrozen_err:
  assumes "ReleaseFrozen env fid s = (Inl e, t)"
  shows "t = s"
  using assms
  by (auto simp: ReleaseFrozen_def andThen_def ret_def fail_def InvalidateCache_def modify_def
      dest: transaction_error_rolls_back split: if_splits prod.splits sum.splits option.splits)

section \<open>Settlement works on the legacy columns\<close>

text \<open>A hydrated row is not moved by a settlement or a release: the next hydration reads the units.\<close>

lemma CreditsToBillingUnits_0 [simp]: "CreditsToBillingUnits 0 = 0"
  by (simp add: CreditsToBillingUnits_def mul64_def)

lemma hydrated_zero:
  assumes "hydrateBalanceUnits row = row"
  shows "ub_BalanceUnits row = 0 \<Longrightarrow> ub_Balance row = 0"
    "ub_FreeQuotaUnits row = 0 \<Longrightarrow> ub_FreeQuota row = 0"
    "ub_FrozenUnits row = 0 \<Longrightarrow> ub_FrozenAmount row = 0"
proof -
  have s: "row = syncBalanceCreditFields row"
    using assms unfolding hydrateBalanceUnits_def
    by (metis hydrateBalanceUnits_def hydrate_sync sync_idem)
  show "ub_BalanceUnits row = 0 \<Longrightarrow> ub_Balance row = 0"
    "ub_FreeQuotaUnits row = 0 \<Longrightarrow> ub_FreeQuota row = 0"
    "ub_FrozenUnits row = 0 \<Longrightarrow> ub_FrozenAmount row = 0"
    by (subst s, simp)+
qed

lemma settle_charge_units [simp]:
  "ub_BalanceUnits (settle_charge a ub) = ub_BalanceUnits ub"
  "ub_FreeQuotaUnits (settle_charge a ub) = ub_FreeQuotaUnits ub"
  "ub_FrozenUnits (settle_charge a ub) = ub_FrozenUnits ub"
  "ub_FrozenAmount (settle_charge a ub) = ub_FrozenAmount ub"
  by (simp_all add: settle_charge_def Let_def split: prod.splits)

lemma unfreeze_units [simp]:
  "ub_BalanceUnits (unfreeze z ub) = ub_BalanceUnits ub"
  "ub_FreeQuotaUnits (unfreeze z ub) = ub_FreeQuotaUnits ub"
  "ub_FrozenUnits (unfreeze z ub) = ub_FrozenUnits ub"
  "ub_Balance (unfreeze z ub) = ub_Balance ub"
  "ub_FreeQuota (unfreeze z ub) = ub_FreeQuota ub"
  by (simp_all add: unfreeze_def Let_def)

lemma hydrate_units:
  "ub_BalanceUnits (hydrateBalanceUnits r) = hydrate_one (ub_BalanceUnits r) (ub_Balance r)"
  "ub_FreeQuotaUnits (hydrateBalanceUnits r) = hydrate_one (ub_FreeQuotaUnits r) (ub_FreeQuota r)"
  "ub_FrozenUnits (hydrateBalanceUnits r) = hydrate_one (ub_FrozenUnits r) (ub_FrozenAmount r)"
  by (simp_all add: hydrateBalanceUnits_def)

lemma settle_no_effect:
  assumes h: "hydrateBalanceUnits row = row" and "0 \<le> z" "z < 2 ^ 62" "a < 2 ^ 62"
  defines "row' \<equiv> settle_charge a (unfreeze z row)"
  shows "row_funds row' = row_funds row" "row_held row' = row_held row"
proof -
  note z = hydrated_zero [OF h]
  have b: "hydrate_one (ub_BalanceUnits row') (ub_Balance row') = ub_BalanceUnits row"
  proof (cases "ub_BalanceUnits row = 0")
    case True
    have "sub64 0 m \<le> 0" if "0 < m" "m < 2 ^ 62" for m
      using that by (subst sub64_id) (simp_all add: in64_def)
    moreover have "sub64 a f < 2 ^ 62 \<and> 0 < sub64 a f" if "0 < f" "f < a" for f
      using that assms(4) by (subst (1 2) sub64_id) (simp_all add: in64_def)
    ultimately have "ub_Balance row' \<le> 0"
      using True z(1) assms(4) unfolding row'_def settle_charge_def Let_def
      by (auto split: prod.splits if_splits)
    then show ?thesis using True by (simp add: row'_def hydrate_one_def)
  next
    case False
    then show ?thesis by (simp add: row'_def hydrate_one_def)
  qed
  have f: "hydrate_one (ub_FreeQuotaUnits row') (ub_FreeQuota row') = ub_FreeQuotaUnits row"
  proof (cases "ub_FreeQuotaUnits row = 0")
    case True
    then have "ub_FreeQuota row' = 0"
      using z(2) by (simp add: row'_def settle_charge_def Let_def split: prod.splits)
    then show ?thesis using True by (simp add: row'_def hydrate_one_def)
  next
    case False
    then show ?thesis by (simp add: row'_def hydrate_one_def)
  qed
  have fz: "hydrate_one (ub_FrozenUnits row') (ub_FrozenAmount row') = ub_FrozenUnits row"
  proof (cases "ub_FrozenUnits row = 0")
    case True
    have "sub64 0 z = - z" using assms(2,3) by (subst sub64_id) (simp_all add: in64_def)
    then have "ub_FrozenAmount row' = 0"
      using True z(3) assms(2) by (simp add: row'_def unfreeze_def Let_def)
    then show ?thesis using True by (simp add: row'_def hydrate_one_def)
  next
    case False
    then show ?thesis by (simp add: row'_def hydrate_one_def)
  qed
  show "row_funds row' = row_funds row" "row_held row' = row_held row"
    unfolding row_funds_def row_held_def h by (simp_all add: hydrate_units b f fz)
qed

text \<open>Without an attribution of the user the hooks after a consumption do nothing.\<close>

lemma hooks_without_attribution:
  assumes "\<forall>a \<in> set (lg_attributions s). ra_UserID a \<noteq> u"
  shows "TryUnlockAttribution env u s = s" "TryGrantInviteeBonus env u s = s"
proof -
  have "query_attribution env (\<lambda>a. ra_UserID a = u \<and> P a) s = None" for P
    using assms by (simp add: query_attribution_def first_where_None)
  then show "TryUnlockAttribution env u s = s" "TryGrantInviteeBonus env u s = s"
    by (simp_all add: TryUnlockAttribution_def TryGrantInviteeBonus_def)
qed

lemma updateFreeze_ok [simp]:
  "updateFreeze env fid f s = (Inr x, t) \<longleftrightarrow> \<not> le_fails env UpdateFreeze \<and>
     t = s\<lparr>lg_freezes := map (\<lambda>y. if fr_FreezeID y = fid then f y else y) (lg_freezes s)\<rparr>"
  by (auto simp: updateFreeze_def)

lemma SettleBalance_row:
  assumes "SettleBalance env fid actual s = (Inr x, t)" "fid \<noteq> ''''" "find_frozen fid s = Some fr"
    and "lg_balances s (fr_UserID fr) = Some row"
    and "\<forall>a \<in> set (lg_attributions s). ra_UserID a \<noteq> fr_UserID fr"
  shows "lg_balances t (fr_UserID fr) = Some (settle_charge actual (unfreeze (fr_FrozenAmount fr) row))"
  using assms
  by (auto simp: SettleBalance_def act_ok Let_def after_consumption_def hooks_without_attribution
      split: if_splits)

section \<open>A small ledger\<close>

definition empty_ledger :: ledger where
  "empty_ledger =
     \<lparr>lg_balances = (\<lambda>_. None), lg_records = [], lg_freezes = [], lg_quota_configs = [],
      lg_attributions = [], lg_ref_configs = [], lg_overrides = [], lg_rules = [], lg_users = [],
      lg_links = [], lg_domains = [], lg_payments = [], lg_commissions = [], lg_jobs = [],
      lg_cache_dels = [], lg_rate_cache = []\<rparr>"

definition calm :: ledger_env where
  "calm = \<lparr>le_now = 1000, le_fails = (\<lambda>_. False), le_uuid = ''f1''\<rparr>"

text \<open>User 7: 50 credits of free quota, 100 credits of balance, 20 of them frozen.\<close>

definition sample_row :: UserBalance where
  "sample_row = syncBalanceCreditFields (zero_UserBalance\<lparr>ub_UserID := 7, ub_TenantID := 2,
     ub_BalanceUnits := 1000000, ub_FreeQuotaUnits := 500000, ub_FrozenUnits := 200000,
     ub_TotalConsumedUnits := 10000\<rparr>)"

definition sample_ledger :: ledger where
  "sample_ledger = empty_ledger\<lparr>lg_balances := (\<lambda>_. None)(7 \<mapsto> sample_row),
     lg_freezes := [\<lparr>fr_FreezeID = ''f0'', fr_UserID = 7, fr_TenantID = 2, fr_FrozenAmount = 20,
       fr_FrozenAmountRMB = 0, fr_ActualCost = 0, fr_ActualCostRMB = 0, fr_FrozenUnits = 200000,
       fr_Status = FROZEN, fr_ModelName = ''m'', fr_RequestID = ''r'', fr_CreatedAt = 0\<rparr>]\<rparr>"

lemma sample_row_facts:
  "hydrateBalanceUnits sample_row = sample_row" "row_ok sample_row"
  "row_funds sample_row = 1500000" "row_held sample_row = 200000"
  "ub_FreeQuotaUnits sample_row = 500000" "ub_BalanceUnits sample_row = 1000000"
  by (simp_all add: sample_row_def hydrate_sync row_ok_def solvent_def row_funds_def row_held_def
      zero_UserBalance_def)

lemma sample_lookup: "lg_balances sample_ledger 7 = Some sample_row" "lg_attributions sample_ledger = []"
  by (simp_all add: sample_ledger_def empty_ledger_def)

lemma sample_pay: "\<exists>ub. row_pay 600000 sample_row = Some ub"
  by (simp add: row_pay_def sample_row_facts available_exact [of sample_row] Let_def)
    (use sample_row_facts in \<open>simp add: row_ok_def available_def sample_row_def add64_def sub64_def
       in64_def zero_UserBalance_def\<close>)

section \<open>What a consumption sets off\<close>

lemma updateAttributions_ok:
  "updateAttributions env P f s = (Inr b, t) \<longleftrightarrow> \<not> le_fails env UpdateAttribution \<and>
     b = (\<exists>a \<in> set (lg_attributions s). P a) \<and>
     t = s\<lparr>lg_attributions := map (\<lambda>a. if P a then f a else a) (lg_attributions s)\<rparr>"
  by (auto simp: updateAttributions_def)

definition invited :: "nat \<Rightarrow> ledger \<Rightarrow> bool" where
  "invited u s \<longleftrightarrow> (\<exists>a \<in> set (lg_attributions s). ra_UserID a = u)"

lemma invited_ids: "invited u s \<longleftrightarrow> u \<in> set (map ra_UserID (lg_attributions s))"
  by (auto simp: invited_def)

text \<open>Unlocking touches attributions only, and not whose they are.\<close>

lemma unlock_effect:
  "\<exists>as. TryUnlockAttribution env u s = s\<lparr>lg_attributions := as\<rparr> \<and> map ra_UserID as = map ra_UserID (lg_attributions s)"
proof -
  have same: "\<exists>as. s = s\<lparr>lg_attributions := as\<rparr> \<and> map ra_UserID as = map ra_UserID (lg_attributions s)"
    by (intro exI [of _ "lg_attributions s"]) simp
  have upd: "\<exists>as. snd (updateAttributions env P (\<lambda>a. a\<lparr>ra_UnlockedAt := x\<rparr>) s) = s\<lparr>lg_attributions := as\<rparr> \<and>
      map ra_UserID as = map ra_UserID (lg_attributions s)" for P x
    using same by (auto simp: updateAttributions_def comp_def intro!: exI)
  show ?thesis
    using same upd by (auto simp: TryUnlockAttribution_def Let_def split: option.split)
qed

text \<open>The row of a user with a bonus: its legacy columns alone.\<close>

definition with_bonus :: "int64 \<Rightarrow> UserBalance \<Rightarrow> UserBalance" where
  "with_bonus n ub = ub\<lparr>ub_FreeQuota := add64 (ub_FreeQuota ub) n, ub_FreeQuotaRMB := fadd (ub_FreeQuotaRMB ub) (CreditsToRMB n)\<rparr>"

definition bonus_of :: "ledger \<Rightarrow> nat \<Rightarrow> UserBalance \<Rightarrow> UserBalance \<Rightarrow> BalanceRecord list \<Rightarrow> bool" where
  "bonus_of s u ub ub' extra \<longleftrightarrow>
     ub' = ub \<and> extra = [] \<or>
     (\<exists>qc code. invited u s \<and> active_quota_config s = Some qc \<and> 0 < qc_InviteeBonus qc \<and>
        ub' = with_bonus (qc_InviteeBonus qc) ub \<and>
        extra = [bonus_record u (ub_TenantID ub) ''INVITEE_BONUS'' (qc_InviteeBonus qc) (ub_Balance ub) (ub_Balance ub)
                   invitee_remark code])"

lemma grant_invitee_effect:
  assumes "lg_balances s u = Some ub"
  obtains as extra ub' where "snd (grant_invitee env u attr qc ub s) =
      s\<lparr>lg_attributions := as, lg_balances := (lg_balances s)(u \<mapsto> ub'), lg_records := lg_records s @ extra\<rparr>"
    "map ra_UserID as = map ra_UserID (lg_attributions s)"
    "ub' = ub \<and> extra = [] \<or> ub' = with_bonus (qc_InviteeBonus qc) ub \<and>
       extra = [bonus_record u (ub_TenantID ub) ''INVITEE_BONUS'' (qc_InviteeBonus qc) (ub_Balance ub) (ub_Balance ub)
                  invitee_remark (ra_ReferralCode attr)]"
proof -
  obtain r t where g: "grant_invitee env u attr qc ub s = (r, t)" by fastforce
  let ?P = "\<lambda>a. ra_ID a = ra_ID attr \<and> \<not> ra_InviteeBonusGranted a"
  let ?f = "\<lambda>a. a\<lparr>ra_InviteeBonusGranted := True, ra_InviteeBonusAt := Some (le_now env)\<rparr>"
  let ?as = "map (\<lambda>a. if ?P a then ?f a else a) (lg_attributions s)"
  have ids: "map ra_UserID ?as = map ra_UserID (lg_attributions s)" by simp
  have bal: "(lg_balances s)(u \<mapsto> ub) = lg_balances s" using assms by auto
  show ?thesis
  proof (cases r)
    case (Inl e)
    then have "t = s" using g by (simp add: grant_invitee_def transaction_err)
    then show ?thesis using that [where as = "lg_attributions s" and ub' = ub and extra = "[]"] g bal by simp
  next
    case (Inr x)
    have "t = s\<lparr>lg_attributions := ?as\<rparr> \<or>
        t = s\<lparr>lg_attributions := ?as, lg_balances := (lg_balances s)(u \<mapsto> with_bonus (qc_InviteeBonus qc) ub),
          lg_records := lg_records s @ [bonus_record u (ub_TenantID ub) ''INVITEE_BONUS'' (qc_InviteeBonus qc) (ub_Balance ub) (ub_Balance ub)
                  invitee_remark (ra_ReferralCode attr)]\<rparr>"
      using g Inr assms
      by (auto simp: grant_invitee_def act_ok updateAttributions_ok addFreeQuota_def with_bonus_def split: if_splits)
    then show ?thesis
      using that [where as = ?as and ub' = ub and extra = "[]", OF _ ids]
        that [where as = ?as and ub' = "with_bonus (qc_InviteeBonus qc) ub", OF _ ids] g bal by auto
  qed
qed

lemma bonus_effect:
  assumes "lg_balances s u = Some ub"
  obtains as extra ub' where "TryGrantInviteeBonus env u s =
      s\<lparr>lg_attributions := as, lg_balances := (lg_balances s)(u \<mapsto> ub'), lg_records := lg_records s @ extra\<rparr>"
    "map ra_UserID as = map ra_UserID (lg_attributions s)" "bonus_of s u ub ub' extra"
proof -
  have bal: "(lg_balances s)(u \<mapsto> ub) = lg_balances s" using assms by auto
  show ?thesis
  proof (cases "TryGrantInviteeBonus env u s = s")
    case True
    then show ?thesis using that [where as = "lg_attributions s" and ub' = ub and extra = "[]"] bal by (simp add: bonus_of_def)
  next
    case False
    then obtain attr qc where q: "query_attribution env (\<lambda>a. ra_UserID a = u \<and> ra_IsValid a \<and> \<not> ra_InviteeBonusGranted a) s = Some attr"
        "active_quota_config s = Some qc" "0 < qc_InviteeBonus qc"
        "TryGrantInviteeBonus env u s = snd (grant_invitee env u attr qc ub s)"
      using assms
      by (auto simp: TryGrantInviteeBonus_def query_balance_def not_le split: option.splits if_splits)
    then have "first_where (\<lambda>a. ra_UserID a = u \<and> ra_IsValid a \<and> \<not> ra_InviteeBonusGranted a) (lg_attributions s) = Some attr"
      by (simp add: query_attribution_def split: if_splits)
    from first_where_Some [OF this] have "invited u s" by (auto simp: invited_def)
    show ?thesis
    proof (rule grant_invitee_effect [OF assms, of env attr qc])
      fix as extra ub'
      assume g: "snd (grant_invitee env u attr qc ub s) =
          s\<lparr>lg_attributions := as, lg_balances := (lg_balances s)(u \<mapsto> ub'), lg_records := lg_records s @ extra\<rparr>"
        "map ra_UserID as = map ra_UserID (lg_attributions s)"
        and "ub' = ub \<and> extra = [] \<or> ub' = with_bonus (qc_InviteeBonus qc) ub \<and>
          extra = [bonus_record u (ub_TenantID ub) ''INVITEE_BONUS'' (qc_InviteeBonus qc) (ub_Balance ub) (ub_Balance ub)
                  invitee_remark (ra_ReferralCode attr)]"
      then have "bonus_of s u ub ub' extra" using q(2,3) \<open>invited u s\<close> unfolding bonus_of_def by blast
      with g show ?thesis unfolding q(4) [symmetric] by (rule that)
    qed
  qed
qed

lemma after_consumption_effect:
  assumes "lg_balances s u = Some ub" "after_consumption env u s = (r, t)"
  obtains as extra ub' where
    "t = s\<lparr>lg_attributions := as, lg_balances := (lg_balances s)(u \<mapsto> ub'), lg_records := lg_records s @ extra\<rparr>"
    "map ra_UserID as = map ra_UserID (lg_attributions s)" "bonus_of s u ub ub' extra"
proof -
  obtain as where a: "TryUnlockAttribution env u s = s\<lparr>lg_attributions := as\<rparr>"
      "map ra_UserID as = map ra_UserID (lg_attributions s)"
    using unlock_effect by blast
  have inv: "invited u (s\<lparr>lg_attributions := as\<rparr>) = invited u s"
    using arg_cong [OF a(2), of "\<lambda>xs. u \<in> set xs"] by (auto simp: invited_def image_iff)
  obtain as' extra ub' where b: "TryGrantInviteeBonus env u (s\<lparr>lg_attributions := as\<rparr>) =
      s\<lparr>lg_attributions := as', lg_balances := (lg_balances s)(u \<mapsto> ub'), lg_records := lg_records s @ extra\<rparr>"
      "map ra_UserID as' = map ra_UserID as" "bonus_of (s\<lparr>lg_attributions := as\<rparr>) u ub ub' extra"
    using bonus_effect [of "s\<lparr>lg_attributions := as\<rparr>" u ub env] assms(1) by (simp, metis)
  have "bonus_of s u ub ub' extra"
    using b(3) inv by (simp add: bonus_of_def active_quota_config_def)
  then show ?thesis
    using that [where as = as' and ub' = ub' and extra = extra] assms(2) a b by (simp add: after_consumption_def modify_def)
qed

text \<open>A charge that went through, with all it set off.\<close>

lemma DeductUnits_ok:
  assumes "DeductUnits env u tn a remark rid s = (Inr ub, t)"
  obtains row as extra ub' where "0 < a" "lg_balances s u = Some row" "row_pay a row = Some ub"
    "t = s\<lparr>lg_attributions := as, lg_balances := (lg_balances s)(u \<mapsto> ub'),
       lg_records := lg_records s @ balanceRecordFromUnits u tn ''CONSUME'' (neg64 a)
         (ub_BalanceUnits (hydrateBalanceUnits row)) (ub_BalanceUnits ub) remark rid # extra,
       lg_cache_dels := lg_cache_dels s @ [u]\<rparr>"
    "map ra_UserID as = map ra_UserID (lg_attributions s)" "bonus_of s u ub ub' extra"
proof -
  have pos: "0 < a" using assms by (auto simp: DeductUnits_def split: if_splits)
  obtain m x m' where m: "deduct_tx env u tn a remark rid s = (Inr ub, m)"
      "after_consumption env u (m\<lparr>lg_cache_dels := lg_cache_dels m @ [u]\<rparr>) = (Inr x, t)"
    using assms pos by (auto simp: DeductUnits_def andThen_ok InvalidateCache_def split: if_splits)
  obtain row where row: "lg_balances s u = Some row" "row_pay a row = Some ub"
      "m = s\<lparr>lg_balances := (lg_balances s)(u \<mapsto> ub),
        lg_records := lg_records s @ [balanceRecordFromUnits u tn ''CONSUME'' (neg64 a)
           (ub_BalanceUnits (hydrateBalanceUnits row)) (ub_BalanceUnits ub) remark rid]\<rparr>"
    using m(1) unfolding deduct_tx_ok by blast
  let ?m = "m\<lparr>lg_cache_dels := lg_cache_dels m @ [u]\<rparr>"
  have "lg_balances ?m u = Some ub" by (simp add: row(3))
  from after_consumption_effect [OF this m(2)] obtain as extra ub' where e:
      "t = ?m\<lparr>lg_attributions := as, lg_balances := (lg_balances ?m)(u \<mapsto> ub'), lg_records := lg_records ?m @ extra\<rparr>"
      "map ra_UserID as = map ra_UserID (lg_attributions ?m)" "bonus_of ?m u ub ub' extra"
    by blast
  show ?thesis
    using that [OF pos row(1,2), where as = as and ub' = ub' and extra = extra] e row(3)
    by (simp add: bonus_of_def invited_def active_quota_config_def)
qed

section \<open>Histories of an account\<close>

datatype account_op = ChargeUnits int64 string string | FreezeUnits int64 string string | RechargeUp int64 string string

fun account_step :: "ledger_env \<Rightarrow> nat \<Rightarrow> nat \<Rightarrow> account_op \<Rightarrow> ledger \<Rightarrow> bool \<times> ledger" where
  "account_step env u tn (ChargeUnits a remark rid) s = map_prod (\<lambda>r. \<not> isl r) (\<lambda>s. s) (DeductUnits env u tn a remark rid s)"
| "account_step env u tn (FreezeUnits a model rid) s = map_prod (\<lambda>r. \<not> isl r) (\<lambda>s. s) (FreezeBalanceUnits env u tn a model rid s)"
| "account_step env u tn (RechargeUp a remark rid) s = map_prod (\<lambda>r. \<not> isl r) (\<lambda>s. s) (RechargeUnits env u tn a remark rid s)"

text \<open>The requests that went through, and the ledger in the end.\<close>

type_synonym account_request = "ledger_env \<times> nat \<times> nat \<times> account_op"

fun account_run :: "account_request list \<Rightarrow> ledger \<Rightarrow> (nat \<times> account_op) list \<times> ledger" where
  "account_run [] s = ([], s)"
| "account_run ((env, u, tn, op1) # reqs) s =
     (let (ok, s1) = account_step env u tn op1 s; (done, t) = account_run reqs s1
      in ((if ok then (u, op1) # done else done), t))"

fun charged_by :: "account_op \<Rightarrow> int" where
  "charged_by (ChargeUnits a _ _) = a" | "charged_by _ = 0"

fun frozen_by :: "account_op \<Rightarrow> int" where
  "frozen_by (FreezeUnits a _ _) = max 0 a" | "frozen_by _ = 0"

fun recharged_by :: "account_op \<Rightarrow> int" where
  "recharged_by (RechargeUp a _ _) = max 0 a" | "recharged_by _ = 0"

definition sum_for :: "nat \<Rightarrow> (account_op \<Rightarrow> int) \<Rightarrow> (nat \<times> account_op) list \<Rightarrow> int" where
  "sum_for u f ops = sum_list (map (\<lambda>(v, op1). if v = u then f op1 else 0) ops)"

lemma sum_for_simps [simp]:
  "sum_for u f [] = 0" "sum_for u f ((v, op1) # ops) = (if v = u then f op1 else 0) + sum_for u f ops"
  by (simp_all add: sum_for_def)

definition asked :: "account_request list \<Rightarrow> (nat \<times> account_op) list" where
  "asked reqs = map (\<lambda>(env, u, tn, op1). (u, op1)) reqs"

lemma asked_nonneg: "0 \<le> sum_for u recharged_by (asked reqs)"
proof (induction reqs)
  case (Cons r reqs)
  have "0 \<le> recharged_by op1" for op1 by (cases op1) auto
  then show ?case using Cons by (auto simp: asked_def split: prod.split)
qed (simp add: asked_def)

definition account_row :: "ledger \<Rightarrow> nat \<Rightarrow> UserBalance" where
  "account_row s u = (case lg_balances s u of None \<Rightarrow> zero_UserBalance | Some row \<Rightarrow> row)"

lemma zero_row: "row_ok zero_UserBalance" "row_funds zero_UserBalance = 0" "row_held zero_UserBalance = 0"
  by (simp_all add: row_ok_def solvent_def row_funds_def row_held_def hydrate_units hydrate_one_def zero_UserBalance_def)

lemma RechargeUnits_err:
  assumes "RechargeUnits env u tn a remark rid s = (Inl e, t)"
  shows "t = s"
  using assms
  by (auto simp: RechargeUnits_def andThen_def ret_def fail_def InvalidateCache_def modify_def
      dest: transaction_error_rolls_back split: if_splits prod.splits sum.splits)

lemma RechargeUnits_balances:
  assumes "RechargeUnits env u tn a remark rid s = (Inr ub, t)"
  shows "lg_balances t = (lg_balances s)(u \<mapsto> ub)"
  using assms
  by (auto simp: RechargeUnits_def act_ok Let_def split: if_splits option.splits)

text \<open>Requests of others leave the account alone, and nobody becomes invited.\<close>

lemma account_step_other:
  assumes "account_step env v tn op1 s = (ok, t)" "v \<noteq> u"
  shows "account_row t u = account_row s u"
proof (cases op1)
  case (ChargeUnits a r i)
  obtain x t' where d: "DeductUnits env v tn a r i s = (x, t')" by fastforce
  show ?thesis
  proof (cases x)
    case (Inl e)
    then show ?thesis using DeductUnits_err d assms(1) ChargeUnits by fastforce
  next
    case (Inr ub)
    have "t' = t" using d assms(1) ChargeUnits by simp
    with Inr show ?thesis using d assms(2) by (auto simp: account_row_def elim!: DeductUnits_ok)
  qed
next
  case (FreezeUnits a m i)
  obtain x t' where d: "FreezeBalanceUnits env v tn a m i s = (x, t')" by fastforce
  have t: "t' = t" using d assms(1) FreezeUnits by simp
  show ?thesis
  proof (cases x)
    case (Inl e)
    then show ?thesis using FreezeBalanceUnits_err d t by fastforce
  next
    case (Inr fid)
    show ?thesis
    proof (cases "0 < a")
      case True
      show ?thesis using FreezeBalanceUnits_ok [OF d [unfolded Inr t] True] assms(2)
        by (auto simp: account_row_def freeze_tx_def)
    next
      case False
      then show ?thesis using d t by (simp add: FreezeBalanceUnits_def ret_def)
    qed
  qed
next
  case (RechargeUp a r i)
  obtain x where d: "RechargeUnits env v tn a r i s = (x, t)"
    using assms(1) RechargeUp by (auto simp: map_prod_def split: prod.splits)
  show ?thesis
  proof (cases x)
    case (Inl e)
    then show ?thesis using RechargeUnits_err [OF d [unfolded Inl]] by simp
  next
    case (Inr ub)
    show ?thesis using RechargeUnits_balances [OF d [unfolded Inr]] assms(2) by (simp add: account_row_def)
  qed
qed

text \<open>The laws of the account's own requests, from the interface.\<close>


lemma charge_account:
  assumes "DeductUnits env u tn a remark rid s = (Inr ub, t)" "\<not> invited u s"
    and ok: "row_ok (account_row s u)" "row_funds (account_row s u) < 2 ^ 62"
  shows "row_ok (account_row t u) \<and> row_funds (account_row t u) = row_funds (account_row s u) - a \<and>
    row_held (account_row t u) = row_held (account_row s u)"
  using assms(1)
proof (rule DeductUnits_ok)
  fix row as extra ub'
  assume a: "0 < a" "lg_balances s u = Some row" "row_pay a row = Some ub"
    and t: "t = s\<lparr>lg_attributions := as, lg_balances := (lg_balances s)(u \<mapsto> ub'),
       lg_records := lg_records s @ balanceRecordFromUnits u tn ''CONSUME'' (neg64 a)
         (ub_BalanceUnits (hydrateBalanceUnits row)) (ub_BalanceUnits ub) remark rid # extra,
       lg_cache_dels := lg_cache_dels s @ [u]\<rparr>" and "bonus_of s u ub ub' extra"
  then have ub': "ub' = ub" using assms(2) by (auto simp: bonus_of_def)
  have row: "account_row s u = row" "account_row t u = ub" using a t ub' by (simp_all add: account_row_def)
  show ?thesis using row.paid [OF a(3) ok [unfolded row] a(1)] unfolding row by simp
qed

lemma freeze_account:
  assumes "FreezeBalanceUnits env u tn a model rid s = (Inr fid, t)"
    and ok: "row_ok (account_row s u)" "row_funds (account_row s u) < 2 ^ 62"
  shows "row_ok (account_row t u) \<and> row_funds (account_row t u) = row_funds (account_row s u) \<and>
    row_held (account_row t u) = row_held (account_row s u) + max 0 a"
proof (cases "0 < a")
  case False
  then show ?thesis using assms by (auto simp: FreezeBalanceUnits_def)
next
  case True
  from FreezeBalanceUnits_ok [OF assms(1) this] obtain row ub where
    r: "lg_balances s u = Some row" "row_hold a row = Some ub" "t = freeze_tx env u tn a model rid s ub"
    by blast
  have row: "account_row s u = row" "account_row t u = ub" using r by (simp_all add: account_row_def freeze_tx_def)
  show ?thesis using row.held_back [OF r(2) ok [unfolded row] True] True unfolding row by simp
qed

lemma RechargeUnits_ok:
  assumes "RechargeUnits env u tn a remark rid s = (Inr ub, t)"
  shows "0 < a" "account_row t u = ub" "lg_attributions t = lg_attributions s" "\<exists>row. row_top_up a row = Some ub \<and>
     (lg_balances s u = Some row \<or> lg_balances s u = None \<and>
       row = zero_UserBalance\<lparr>ub_UserID := u, ub_TenantID := tn, ub_Currency := ''CREDIT''\<rparr>)"
proof -
  show "0 < a" "account_row t u = ub" "lg_attributions t = lg_attributions s"
    using assms by (auto simp: RechargeUnits_def act_ok Let_def account_row_def split: if_splits option.splits)
  show "\<exists>row. row_top_up a row = Some ub \<and>
     (lg_balances s u = Some row \<or> lg_balances s u = None \<and>
       row = zero_UserBalance\<lparr>ub_UserID := u, ub_TenantID := tn, ub_Currency := ''CREDIT''\<rparr>)"
    using assms by (cases "lg_balances s u") (auto simp: RechargeUnits_def act_ok row_top_up_def Let_def split: if_splits)
qed

lemma fresh_row:
  "row_ok (zero_UserBalance\<lparr>ub_UserID := u, ub_TenantID := tn, ub_Currency := c\<rparr>)"
  "row_funds (zero_UserBalance\<lparr>ub_UserID := u, ub_TenantID := tn, ub_Currency := c\<rparr>) = 0"
  "row_held (zero_UserBalance\<lparr>ub_UserID := u, ub_TenantID := tn, ub_Currency := c\<rparr>) = 0"
  by (simp_all add: row_ok_def solvent_def row_funds_def row_held_def hydrate_units hydrate_one_def zero_UserBalance_def)

lemma recharge_account:
  assumes "RechargeUnits env u tn a remark rid s = (Inr ub, t)"
    and ok: "row_ok (account_row s u)" "row_funds (account_row s u) + a < 2 ^ 62"
  shows "row_ok (account_row t u) \<and> row_funds (account_row t u) = row_funds (account_row s u) + a \<and>
    row_held (account_row t u) = row_held (account_row s u)"
proof -
  note r = RechargeUnits_ok [OF assms(1)]
  obtain row where row: "row_top_up a row = Some ub" "row_ok row" "row_funds row = row_funds (account_row s u)"
      "row_held row = row_held (account_row s u)"
    using r(4) ok(1) by (auto simp: account_row_def fresh_row zero_row)
  show ?thesis using row.added [OF row(1,2) _ r(1)] row ok(2) unfolding r(2) by simp
qed

lemma invited_same: "map ra_UserID (lg_attributions t) = map ra_UserID (lg_attributions s) \<Longrightarrow> invited u t = invited u s"
  by (simp add: invited_ids)

lemma account_step_own:
  assumes "account_step env u tn op1 s = (ok, t)" "\<not> invited u s"
    and row: "row_ok (account_row s u)" "row_funds (account_row s u) + recharged_by op1 < 2 ^ 62"
  shows "row_ok (account_row t u) \<and>
    row_funds (account_row t u) + (if ok then charged_by op1 else 0) = row_funds (account_row s u) + (if ok then recharged_by op1 else 0) \<and>
    row_held (account_row t u) = row_held (account_row s u) + (if ok then frozen_by op1 else 0)"
proof (cases op1)
  case (ChargeUnits a r i)
  obtain x where d: "DeductUnits env u tn a r i s = (x, t)" "ok = (\<not> isl x)"
    using assms(1) ChargeUnits by (auto simp: map_prod_def split: prod.splits)
  show ?thesis
  proof (cases x)
    case (Inl e)
    then show ?thesis using DeductUnits_err d row(1) by fastforce
  next
    case (Inr ub)
    then show ?thesis
      using charge_account [OF d(1) [unfolded Inr] assms(2) row(1)] d(2) ChargeUnits row(2) by simp
  qed
next
  case (FreezeUnits a m i)
  obtain x where d: "FreezeBalanceUnits env u tn a m i s = (x, t)" "ok = (\<not> isl x)"
    using assms(1) FreezeUnits by (auto simp: map_prod_def split: prod.splits)
  show ?thesis
  proof (cases x)
    case (Inl e)
    then show ?thesis using FreezeBalanceUnits_err d row(1) by fastforce
  next
    case (Inr fid)
    then show ?thesis
      using freeze_account [OF d(1) [unfolded Inr] row(1)] d(2) FreezeUnits row(2) by simp
  qed
next
  case (RechargeUp a r i)
  obtain x where d: "RechargeUnits env u tn a r i s = (x, t)" "ok = (\<not> isl x)"
    using assms(1) RechargeUp by (auto simp: map_prod_def split: prod.splits)
  show ?thesis
  proof (cases x)
    case (Inl e)
    then have "t = s" using RechargeUnits_err d(1) by metis
    then show ?thesis using Inl d(2) row(1) by simp
  next
    case (Inr ub)
    then show ?thesis
      using recharge_account [OF d(1) [unfolded Inr] row(1)] RechargeUnits_ok(1) [OF d(1) [unfolded Inr]]
        d(2) RechargeUp row(2) by simp
  qed
qed

lemma account_step_invited:
  assumes "account_step env v tn op1 s = (ok, t)"
  shows "invited u t = invited u s"
proof (cases op1)
  case (ChargeUnits a r i)
  obtain x where d: "DeductUnits env v tn a r i s = (x, t)"
    using assms ChargeUnits by (auto simp: map_prod_def split: prod.splits)
  show ?thesis
  proof (cases x)
    case (Inl e)
    then show ?thesis using DeductUnits_err d by fastforce
  next
    case (Inr ub)
    with d show ?thesis by (auto elim!: DeductUnits_ok intro!: invited_same)
  qed
next
  case (FreezeUnits a m i)
  obtain x where d: "FreezeBalanceUnits env v tn a m i s = (x, t)"
    using assms FreezeUnits by (auto simp: map_prod_def split: prod.splits)
  show ?thesis
  proof (cases x)
    case (Inl e)
    then show ?thesis using FreezeBalanceUnits_err d by fastforce
  next
    case (Inr fid)
    show ?thesis
    proof (cases "0 < a")
      case True
      show ?thesis using FreezeBalanceUnits_ok [OF d [unfolded Inr] True]
        by (auto simp: freeze_tx_def invited_def)
    next
      case False
      then show ?thesis using d by (simp add: FreezeBalanceUnits_def ret_def)
    qed
  qed
next
  case (RechargeUp a r i)
  obtain x where d: "RechargeUnits env v tn a r i s = (x, t)"
    using assms RechargeUp by (auto simp: map_prod_def split: prod.splits)
  show ?thesis
  proof (cases x)
    case (Inl e)
    then show ?thesis using RechargeUnits_err [OF d [unfolded Inl]] by simp
  next
    case (Inr ub)
    show ?thesis using RechargeUnits_ok(3) [OF d [unfolded Inr]] by (simp add: invited_def)
  qed
qed

lemma free_quota_first:
  assumes "row_pay a row = Some ub" "row_ok row" "row_funds row < 2 ^ 62" "0 < a"
  shows "ub_FreeQuotaUnits ub = max 0 (ub_FreeQuotaUnits (hydrateBalanceUnits row) - a)"
proof -
  let ?r = "hydrateBalanceUnits row"
  have s: "solvent ?r" "ub_BalanceUnits ?r + ub_FreeQuotaUnits ?r < 2 ^ 62"
    using assms by (simp_all add: row_ok_def row_funds_def)
  have p: "\<not> available ?r < a" "ub = syncBalanceCreditFields (charge a ?r)"
    using assms(1) by (simp_all add: row_pay_def Let_def split: if_splits)
  then show ?thesis using charge_law(4) [OF s assms(4)] available_exact [OF s] by simp
qed

lemma after_consumption_uninvited:
  "\<not> invited u s \<Longrightarrow> after_consumption env u s = (Inr (), s)"
  by (simp add: after_consumption_def modify_def hooks_without_attribution invited_def)

lemma DeductUnits_uninvited:
  assumes "lg_balances s u = Some row" "row_pay a row = Some ub" "0 < a" "\<not> invited u s" "\<forall>c. \<not> le_fails env c"
  shows "DeductUnits env u tn a remark rid s = (Inr ub, s\<lparr>lg_balances := (lg_balances s)(u \<mapsto> ub),
     lg_records := lg_records s @ [balanceRecordFromUnits u tn ''CONSUME'' (neg64 a)
         (ub_BalanceUnits (hydrateBalanceUnits row)) (ub_BalanceUnits ub) remark rid],
     lg_cache_dels := lg_cache_dels s @ [u]\<rparr>)"
proof -
  have inv: "\<not> invited u (s\<lparr>lg_balances := b, lg_records := r, lg_cache_dels := c\<rparr>)" for b r c
    using assms(4) by (simp add: invited_def)
  have "deduct_tx env u tn a remark rid s = (Inr ub, s\<lparr>lg_balances := (lg_balances s)(u \<mapsto> ub),
     lg_records := lg_records s @ [balanceRecordFromUnits u tn ''CONSUME'' (neg64 a)
         (ub_BalanceUnits (hydrateBalanceUnits row)) (ub_BalanceUnits ub) remark rid]\<rparr>)"
    using assms by (simp add: deduct_tx_ok)
  then show ?thesis
    using assms(3) by (simp add: DeductUnits_def andThen_def InvalidateCache_def modify_def ret_def
        after_consumption_uninvited [OF inv])
qed

lemma sample_charge: "\<exists>ub t. DeductUnits calm 7 2 600000 ''x'' ''r'' sample_ledger = (Inr ub, t)"
  using sample_pay DeductUnits_uninvited [OF sample_lookup(1)]
  by (fastforce simp: invited_def sample_lookup calm_def)

lemma refused_freeze:
  assumes "lg_balances s u = Some row" "row_ok row" "row_funds row < 2 ^ 62" "row_funds row - row_held row < a" "0 < a"
  shows "isl (fst (FreezeBalanceUnits env u tn a model rid s)) \<and> snd (FreezeBalanceUnits env u tn a model rid s) = s"
proof -
  obtain r t where f: "FreezeBalanceUnits env u tn a model rid s = (r, t)" by fastforce
  have "row_hold a row = None" using row.refused(2) [OF assms(2,3,5)] assms(4) by simp
  then have "isl r" using FreezeBalanceUnits_ok [of env u tn a model rid s] f assms(1,5) by (cases r) auto
  then show ?thesis using FreezeBalanceUnits_err f by (cases r) auto
qed

lemma failed_recharge:
  assumes "le_fails env SaveBalance" "0 < a"
  shows "isl (fst (RechargeUnits env u tn a remark rid s)) \<and> snd (RechargeUnits env u tn a remark rid s) = s"
proof -
  obtain r t where f: "RechargeUnits env u tn a remark rid s = (r, t)" by fastforce
  have "isl r" using f assms by (cases r) (auto simp: RechargeUnits_def act_ok Let_def split: if_splits)
  then show ?thesis using RechargeUnits_err f by (cases r) auto
qed

lemma good_recharge:
  assumes "\<forall>c. \<not> le_fails env c" "0 < a"
  shows "\<exists>ub t. RechargeUnits env u tn a remark rid s = (Inr ub, t)"
  using assms by (cases "lg_balances s u")
    (simp_all add: RechargeUnits_def andThen_def transaction_def ret_def saveBalance_def createRecord_def
      InvalidateCache_def modify_def guarded_def Let_def)

lemma sample_history:
  "\<exists>t. account_run [(calm, 7, 2, ChargeUnits 600000 ''x'' ''r''), (calm, 7, 2, FreezeUnits 5000000 ''m'' ''r2''),
        (calm\<lparr>le_fails := (\<lambda>c. c = SaveBalance)\<rparr>, 7, 2, RechargeUp 100000 ''x'' ''r3''),
        (calm, 8, 2, RechargeUp 400000 ''x'' ''r4'')] sample_ledger =
       ([(7, ChargeUnits 600000 ''x'' ''r''), (8, RechargeUp 400000 ''x'' ''r4'')], t)"
proof -
  obtain ub s1 where c: "DeductUnits calm 7 2 600000 ''x'' ''r'' sample_ledger = (Inr ub, s1)"
    using sample_charge by blast
  obtain row where s1: "lg_balances s1 7 = Some row"
    using c by (auto elim!: DeductUnits_ok)
  have "row_ok row" "row_funds row = 900000" "row_held row = 200000"
    using charge_account [OF c] sample_row_facts s1 by (simp_all add: invited_def sample_lookup account_row_def)
  then have "isl (fst (FreezeBalanceUnits calm 7 2 5000000 ''m'' ''r2'' s1))"
      "snd (FreezeBalanceUnits calm 7 2 5000000 ''m'' ''r2'' s1) = s1"
    using refused_freeze [OF s1] by simp_all
  moreover have "isl (fst (RechargeUnits (calm\<lparr>le_fails := (\<lambda>c. c = SaveBalance)\<rparr>) 7 2 100000 ''x'' ''r3'' s1))"
      "snd (RechargeUnits (calm\<lparr>le_fails := (\<lambda>c. c = SaveBalance)\<rparr>) 7 2 100000 ''x'' ''r3'' s1) = s1"
    using failed_recharge by simp_all
  moreover obtain ub2 t where "RechargeUnits calm 8 2 400000 ''x'' ''r4'' s1 = (Inr ub2, t)"
    using good_recharge [of calm] by (fastforce simp: calm_def)
  ultimately show ?thesis
    using c by (auto simp: map_prod_def split: prod.splits)
qed

section \<open>Properties\<close>

text \<open>C1: A successful \<open>DeductUnits\<close> returns a row that has exactly the amount less in funds (free
  quota first, then balance), the same frozen part, and is solvent; it leaves every other user
  alone and appends one record with the amounts before and after. What is stored is the returned
  row, except that the hook run after the charge may grant an invited user the bonus for invitees:
  then the legacy columns of the stored row, and nothing else, carry the bonus, and a second record
  tells of it.\<close>

theorem deduct_conserves:
  assumes "DeductUnits env u tn a remark rid s = (Inr ub, t)" "lg_balances s u = Some row"
    and "row_ok row" "row_funds row < 2 ^ 62"
  shows "\<exists>ub' extra. row_funds ub = row_funds row - a \<and> row_held ub = row_held row \<and> row_ok ub \<and> 0 < a \<and>
    ub_FreeQuotaUnits ub = max 0 (ub_FreeQuotaUnits (hydrateBalanceUnits row) - a) \<and>
    lg_balances t = (lg_balances s)(u \<mapsto> ub') \<and>
    lg_records t = lg_records s @ balanceRecordFromUnits u tn ''CONSUME'' (neg64 a)
      (ub_BalanceUnits (hydrateBalanceUnits row)) (ub_BalanceUnits ub) remark rid # extra \<and>
    (ub' = ub \<and> extra = [] \<or>
     (\<exists>qc code. invited u s \<and> active_quota_config s = Some qc \<and> 0 < qc_InviteeBonus qc \<and>
        ub' = ub\<lparr>ub_FreeQuota := add64 (ub_FreeQuota ub) (qc_InviteeBonus qc),
                 ub_FreeQuotaRMB := fadd (ub_FreeQuotaRMB ub) (CreditsToRMB (qc_InviteeBonus qc))\<rparr> \<and>
        extra = [bonus_record u (ub_TenantID ub) ''INVITEE_BONUS'' (qc_InviteeBonus qc) (ub_Balance ub) (ub_Balance ub)
                   invitee_remark code]))"
  using assms(1)
proof (rule DeductUnits_ok)
  fix row' as extra ub'
  assume a: "0 < a" "lg_balances s u = Some row'" "row_pay a row' = Some ub" and b: "bonus_of s u ub ub' extra"
    and t: "t = s\<lparr>lg_attributions := as, lg_balances := (lg_balances s)(u \<mapsto> ub'),
       lg_records := lg_records s @ balanceRecordFromUnits u tn ''CONSUME'' (neg64 a)
         (ub_BalanceUnits (hydrateBalanceUnits row')) (ub_BalanceUnits ub) remark rid # extra,
       lg_cache_dels := lg_cache_dels s @ [u]\<rparr>"
  have row: "row' = row" using a(2) assms(2) by simp
  show ?thesis
    using t b free_quota_first [OF a(3) [unfolded row] assms(3,4) a(1)]
      row.paid [OF a(3) [unfolded row] assms(3,4) a(1)] a(1) row
    unfolding bonus_of_def with_bonus_def by (intro exI [of _ ub'] exI [of _ extra]) simp
qed

theorem deduct_conserves_witness:
  "\<exists>ub t. DeductUnits calm 7 2 600000 ''x'' ''r'' sample_ledger = (Inr ub, t) \<and>
     row_funds ub = 900000 \<and> ub_FreeQuotaUnits ub = 0 \<and> row_held ub = 200000"
proof -
  obtain ub t where d: "DeductUnits calm 7 2 600000 ''x'' ''r'' sample_ledger = (Inr ub, t)"
    using sample_charge by blast
  from deduct_conserves [OF d sample_lookup(1)] show ?thesis
    using d sample_row_facts by auto
qed

text \<open>C2: Over any history of charges (\<open>DeductUnits\<close>), freezes (\<open>FreezeBalanceUnits\<close>) and recharges
  (\<open>RechargeUnits\<close>) of any users, one after another, each with database calls failing as they may:
  the account of a user nobody invited stays solvent; what it has in the end plus the charges that
  went through is what it had plus the recharges that went through, and its frozen part has grown
  by the freezes that went through. Refused and failed requests, and those of others, count
  nothing. All the recharges asked for together keep the account below 2 to the 62 units.\<close>

theorem account_history_conserves:
  assumes "account_run reqs s = (done1, t)" "\<not> invited u s"
    and "row_ok (account_row s u)" "row_funds (account_row s u) + sum_for u recharged_by (asked reqs) < 2 ^ 62"
  shows "row_ok (account_row t u) \<and>
    row_funds (account_row t u) + sum_for u charged_by done1 = row_funds (account_row s u) + sum_for u recharged_by done1 \<and>
    row_held (account_row t u) = row_held (account_row s u) + sum_for u frozen_by done1"
  using assms
proof (induction reqs s arbitrary: done1 rule: account_run.induct)
  case (1 s)
  then show ?case by simp
next
  case (2 env v tn op1 reqs s)
  obtain ok s1 where one: "account_step env v tn op1 s = (ok, s1)" by fastforce
  obtain d where rest: "account_run reqs s1 = (d, t)" "done1 = (if ok then (v, op1) # d else d)"
    using 2(2) one by (auto split: prod.splits)
  have inv: "\<not> invited u s1" using account_step_invited [OF one] 2(3) by simp
  have nn: "0 \<le> sum_for u recharged_by (asked reqs)" "0 \<le> recharged_by op1"
    by (rule asked_nonneg, cases op1) auto
  have asked: "sum_for u recharged_by (asked ((env, v, tn, op1) # reqs)) =
      (if v = u then recharged_by op1 else 0) + sum_for u recharged_by (asked reqs)"
    by (simp add: asked_def)
  note IH = 2(1) [OF one [symmetric] refl rest(1) inv]
  show ?case
  proof (cases "v = u")
    case True
    have "row_funds (account_row s u) + recharged_by op1 < 2 ^ 62" using 2(5) nn asked True by simp
    note own = account_step_own [OF one [unfolded True] 2(3,4) this]
    have "0 \<le> charged_by op1 \<or> \<not> ok"
      using one by (cases op1) (auto simp: DeductUnits_def fail_def)
    then have "row_funds (account_row s1 u) + sum_for u recharged_by (asked reqs) < 2 ^ 62"
      using own 2(5) asked True nn by (auto split: if_splits)
    then show ?thesis using IH own rest(2) True by (auto split: if_splits)
  next
    case False
    then show ?thesis using IH account_step_other [OF one False] rest(2) 2(4,5) asked by (auto split: if_splits)
  qed
qed

theorem account_history_conserves_witness:
  "\<exists>t. account_run [(calm, 7, 2, ChargeUnits 600000 ''x'' ''r''), (calm, 7, 2, FreezeUnits 5000000 ''m'' ''r2''),
        (calm\<lparr>le_fails := (\<lambda>c. c = SaveBalance)\<rparr>, 7, 2, RechargeUp 100000 ''x'' ''r3''),
        (calm, 8, 2, RechargeUp 400000 ''x'' ''r4'')] sample_ledger =
       ([(7, ChargeUnits 600000 ''x'' ''r''), (8, RechargeUp 400000 ''x'' ''r4'')], t) \<and>
     row_funds (account_row t 7) = 900000 \<and> row_held (account_row t 7) = 200000"
proof -
  let ?reqs = "[(calm, 7, 2, ChargeUnits 600000 ''x'' ''r''), (calm, 7, 2, FreezeUnits 5000000 ''m'' ''r2''),
        (calm\<lparr>le_fails := (\<lambda>c. c = SaveBalance)\<rparr>, 7, 2, RechargeUp 100000 ''x'' ''r3''),
        (calm, 8, 2, RechargeUp 400000 ''x'' ''r4'')]"
  obtain t where r: "account_run ?reqs sample_ledger = ([(7, ChargeUnits 600000 ''x'' ''r''), (8, RechargeUp 400000 ''x'' ''r4'')], t)"
    using sample_history by blast
  have "\<not> invited 7 sample_ledger" by (simp add: invited_def sample_lookup)
  from account_history_conserves [OF r this] show ?thesis
    using r sample_row_facts by (simp add: account_row_def sample_lookup asked_def)
qed

text \<open>C3: A charge or a freeze that fails, for whatever reason (a refused amount, missing funds, a
  failed database call at any point), leaves every table as it was.\<close>

theorem failed_charge_changes_nothing:
  assumes "DeductUnits env u tn a remark rid s = (Inl e, t) \<or>
    FreezeBalanceUnits env u tn a model rid s = (Inl e, t)"
  shows "t = s"
  using assms DeductUnits_err FreezeBalanceUnits_err by blast

theorem failed_charge_changes_nothing_witness:
  "\<exists>t. DeductUnits (calm\<lparr>le_fails := (\<lambda>c. c = CreateRecord)\<rparr>) 7 2 600000 ''x'' ''r'' sample_ledger =
     (Inl (DBError CreateRecord), t) \<and> t = sample_ledger"
proof -
  obtain ub where "row_pay 600000 sample_row = Some ub" using sample_pay by blast
  then have "DeductUnits (calm\<lparr>le_fails := (\<lambda>c. c = CreateRecord)\<rparr>) 7 2 600000 ''x'' ''r'' sample_ledger =
     (Inl (DBError CreateRecord), sample_ledger)"
    using sample_lookup
    by (simp add: DeductUnits_def deduct_tx_def transaction_def act_simps lockBalance_def calm_def
        saveBalance_def createRecord_def row_pay_def Let_def split: if_splits)
  with failed_charge_changes_nothing [OF disjI1 [OF this]] show ?thesis by blast
qed

text \<open>C4: A freeze reserves its amount and nothing else: the funds stay, the frozen part grows by the
  amount, a record in state \<open>FROZEN\<close> carries the returned identifier.\<close>

theorem freeze_reserves:
  assumes "FreezeBalanceUnits env u tn a model rid s = (Inr fid, t)" "0 < a" "a < 2 ^ 62"
    and "lg_balances s u = Some row" "row_ok row" "row_funds row < 2 ^ 62"
  shows "\<exists>ub. lg_balances t = (lg_balances s)(u \<mapsto> ub) \<and> row_ok ub \<and>
    row_funds ub = row_funds row \<and> row_held ub = row_held row + a \<and>
    lg_freezes t = lg_freezes s @ [freeze_record_of env u tn a model rid] \<and> fid = le_uuid env"
proof -
  obtain ub where h: "row_hold a row = Some ub" "fid = le_uuid env"
    and t: "t = freeze_tx env u tn a model rid s ub"
    using FreezeBalanceUnits_ok [OF assms(1,2)] assms(4) by auto
  show ?thesis using row.held_back [OF h(1) assms(5,6,2)] h t
    by (intro exI [of _ ub]) (simp add: freeze_tx_def)
qed

theorem freeze_reserves_witness:
  "\<exists>fid t ub. FreezeBalanceUnits calm 7 2 300000 ''m'' ''r'' sample_ledger = (Inr fid, t) \<and>
     lg_balances t 7 = Some ub \<and> row_held ub = 500000 \<and> row_funds ub = 1500000"
proof -
  have av: "available sample_row = 1300000"
    using available_exact [of sample_row] sample_row_facts by (simp add: row_ok_def sample_row_def zero_UserBalance_def)
  obtain fid t where f: "FreezeBalanceUnits calm 7 2 300000 ''m'' ''r'' sample_ledger = (Inr fid, t)"
    using sample_lookup av
    by (simp add: FreezeBalanceUnits_def act_simps transaction_def lockBalance_def calm_def Let_def
        saveBalance_def createRecord_def createFreeze_def freeze_record_of_def sample_ledger_def
        empty_ledger_def InvalidateCache_def sample_row_facts)
  from freeze_reserves [OF f _ _ sample_lookup(1) sample_row_facts(2)] show ?thesis
    using f sample_row_facts by auto
qed

text \<open>Settling a freeze through \<open>SettleBalance\<close> charges nothing: on a hydrated row it only moves
  the legacy credit columns, so the funds and the frozen part that every later operation reads
  (in units) are the same as before the settlement.\<close>

theorem settlement_charges_nothing:
  assumes "SettleBalance env fid actual s = (Inr x, t)" "fid \<noteq> ''''" "find_frozen fid s = Some fr"
    and "lg_balances s (fr_UserID fr) = Some row" "hydrateBalanceUnits row = row"
    and "0 \<le> fr_FrozenAmount fr" "fr_FrozenAmount fr < 2 ^ 62" "actual < 2 ^ 62"
    and "\<forall>a \<in> set (lg_attributions s). ra_UserID a \<noteq> fr_UserID fr"
  shows "\<exists>row'. lg_balances t (fr_UserID fr) = Some row' \<and>
    row_funds row' = row_funds row \<and> row_held row' = row_held row"
  using SettleBalance_row [OF assms(1-4,9)] settle_no_effect [OF assms(5-8)] by blast

theorem settlement_charges_nothing_witness:
  "\<exists>t row'. SettleBalance calm ''f0'' 30 sample_ledger = (Inr (), t) \<and>
     lg_balances t 7 = Some row' \<and> row_funds row' = 1500000 \<and> row_held row' = 200000"
proof -
  have f: "find_frozen ''f0'' sample_ledger = Some (hd (lg_freezes sample_ledger))"
      "fr_UserID (hd (lg_freezes sample_ledger)) = 7" "fr_FrozenAmount (hd (lg_freezes sample_ledger)) = 20"
    by (simp_all add: find_frozen_def first_where_def sample_ledger_def)
  obtain t where s: "SettleBalance calm ''f0'' 30 sample_ledger = (Inr (), t)"
    by (simp add: SettleBalance_def f sample_lookup calm_def act_simps transaction_def lockBalance_def
        saveBalance_def updateFreeze_def createRecord_def InvalidateCache_def after_consumption_def Let_def)
  from settlement_charges_nothing [OF s _ f(1)] show ?thesis
    using s f sample_lookup sample_row_facts by auto
qed

end
