(* ===== verification/Referral_Laws.thy ===== *)
theory Referral_Laws
  imports Wallet
begin

text \<open>
  What the referral service guarantees: the lifetime cap of an invitation, the one-off nature of
  the invitee's bonus, who is unlocked, and what a refund of commissions can reach.
\<close>

section \<open>Commissions\<close>

lemma total_earned_append:
  "total_earned a (s\<lparr>lg_commissions := lg_commissions s @ [c]\<rparr>) =
     total_earned a s +
     (if cm_AttributionID c = Some a \<and> cm_Status c \<noteq> ''REFUNDED'' then cm_CommissionAmount c else 0)"
  by (simp add: total_earned_def earned_rows_def)

lemma total_earned_rate_cache [simp]:
  "total_earned a (s\<lparr>lg_rate_cache := x\<rparr>) = total_earned a s"
  by (simp add: total_earned_def earned_rows_def)

lemma commission_credits_cap:
  assumes "0 < cap" "0 \<le> earned" "earned < cap" "cap < 2 ^ 62"
    and "f2i (fmul (i2f order) rate) < 2 ^ 62"
  shows "earned + commission_credits order rate cap earned \<le> cap"
proof -
  let ?c = "f2i (fmul (i2f order) rate)"
  have lo: "- (2 ^ 63) \<le> ?c" using in64_f2i [of "fmul (i2f order) rate"] by (simp add: in64_def)
  have "add64 earned ?c = earned + ?c"
    using assms lo by (intro add64_id) (simp add: in64_def)
  moreover have "sub64 cap earned = cap - earned"
    using assms by (intro sub64_id) (simp add: in64_def)
  ultimately show ?thesis
    using assms(1) by (auto simp: commission_credits_def Let_def)
qed

text \<open>What one call writes: nothing, or one record within the cap.\<close>

lemma write_commission_cases:
  obtains "write_commission env u tn order attr t s = s"
  | inviter where "write_commission env u tn order attr t s =
      s\<lparr>lg_commissions := lg_commissions s @
        [commission_record (fresh_commission_id s) (le_now env) inviter u tn order t (ra_ID attr)
          (commission_credits order (ct_rate t) (ct_cap t) (query_earned env (ra_ID attr) s))]\<rparr>"
      "0 < commission_credits order (ct_rate t) (ct_cap t) (query_earned env (ra_ID attr) s)"
      "ct_cap t \<le> 0 \<or> query_earned env (ra_ID attr) s < ct_cap t"
proof -
  let ?e = "query_earned env (ra_ID attr) s"
  let ?c = "commission_credits order (ct_rate t) (ct_cap t) ?e"
  let ?inv = "if le_fails env QueryUser then None else first_where (\<lambda>v. us_ID v = ra_InviterID attr) (lg_users s)"
  consider "ct_rate t \<le> 0 \<or> (0 < ct_cap t \<and> ct_cap t \<le> ?e) \<or> ?inv = None \<or> ?c \<le> 0 \<or> le_fails env CreateCommission"
    | inviter where "\<not> ct_rate t \<le> 0" "\<not> (0 < ct_cap t \<and> ct_cap t \<le> ?e)" "?inv = Some inviter"
        "\<not> ?c \<le> 0" "\<not> le_fails env CreateCommission"
    by (cases ?inv) auto
  then show ?thesis
  proof cases
    case 1
    then have "write_commission env u tn order attr t s = s"
      unfolding write_commission_def Let_def by (auto split: option.split)
    then show ?thesis by (rule that(1))
  next
    case 2
    then have "write_commission env u tn order attr t s =
      s\<lparr>lg_commissions := lg_commissions s @ [commission_record (fresh_commission_id s) (le_now env) inviter u tn order t (ra_ID attr) ?c]\<rparr>"
      unfolding write_commission_def Let_def by simp
    then show ?thesis by (rule that(2)) (use 2 in auto)
  qed
qed

lemma write_commission_cap:
  assumes "\<not> le_fails env QueryEarned" "0 < ct_cap t" "ct_cap t < 2 ^ 62" "0 \<le> total_earned (ra_ID attr) s"
    and "f2i (fmul (i2f order) (ct_rate t)) < 2 ^ 62"
  shows "total_earned (ra_ID attr) (write_commission env u tn order attr t s) \<le>
     max (ct_cap t) (total_earned (ra_ID attr) s)"
proof (rule write_commission_cases [of env u tn order attr t s])
  assume "write_commission env u tn order attr t s = s"
  then show ?thesis by simp
next
  fix inviter
  let ?e = "query_earned env (ra_ID attr) s"
  let ?c = "commission_credits order (ct_rate t) (ct_cap t) ?e"
  assume w: "write_commission env u tn order attr t s =
      s\<lparr>lg_commissions := lg_commissions s @ [commission_record (fresh_commission_id s) (le_now env) inviter u tn order t (ra_ID attr) ?c]\<rparr>"
    and lt: "ct_cap t \<le> 0 \<or> ?e < ct_cap t"
  have e: "?e = total_earned (ra_ID attr) s" using assms(1) by (simp add: query_earned_def)
  have "?e + ?c \<le> ct_cap t"
    using commission_credits_cap [of "ct_cap t" ?e order "ct_rate t"] assms lt e by simp
  then show ?thesis
    unfolding w total_earned_append by (simp add: commission_record_def e)
qed

lemma write_commission_frame:
  "lg_balances (write_commission env u tn order attr t s) = lg_balances s"
  by (rule write_commission_cases [of env u tn order attr t s]) simp_all

text \<open>No commission the calculator writes names the request it stems from.\<close>

definition unrelated :: "ledger \<Rightarrow> bool" where
  "unrelated s \<longleftrightarrow> (\<forall>c \<in> set (lg_commissions s). cm_RelatedID c = '''')"

lemma unrelated_write: "unrelated s \<Longrightarrow> unrelated (write_commission env u tn order attr t s)"
  by (rule write_commission_cases [of env u tn order attr t s]) (auto simp: unrelated_def commission_record_def)

lemma unrelated_Resolve: "unrelated s \<Longrightarrow> unrelated (snd (Resolve env cached i m s))"
  by (simp add: Resolve_def Let_def unrelated_def split: option.splits)

lemma unrelated_updateAttributions: "unrelated s \<Longrightarrow> unrelated (snd (updateAttributions env P f s))"
  by (simp add: updateAttributions_def unrelated_def)

lemma unrelated_calculate: "unrelated s \<Longrightarrow> unrelated (calculateInternal env r u tn order m s)"
  using unrelated_Resolve [of s env]
  by (auto simp: calculateInternal_def Let_def unrelated_write unrelated_updateAttributions
      split: option.splits prod.splits) (metis snd_conv unrelated_write)+

lemma refund_of_unrelated:
  assumes "unrelated s" "MarkCommissionRefunded env rid s = (r, t)"
  shows "t = s"
proof -
  have "map (\<lambda>c. if cm_RelatedID c = rid \<and> cm_Status c = ''PENDING'' then c\<lparr>cm_Status := ''REFUNDED''\<rparr> else c)
      (lg_commissions s) = lg_commissions s" if "rid \<noteq> ''''"
    using assms(1) that by (intro map_idI) (auto simp: unrelated_def)
  then show ?thesis
    using assms(2)
    by (auto simp: MarkCommissionRefunded_def guarded_def fail_def modify_def ret_def split: if_splits)
qed

section \<open>Bonuses\<close>

definition one_attribution_each :: "ledger \<Rightarrow> bool" where
  "one_attribution_each s \<longleftrightarrow>
     (\<forall>a \<in> set (lg_attributions s). \<forall>b \<in> set (lg_attributions s).
        ra_UserID a = ra_UserID b \<longrightarrow> a = b)"

declare updateAttributions_ok [simp]

lemma addFreeQuota_attributions:
  "addFreeQuota env u n s = (Inr x, t) \<Longrightarrow> lg_attributions t = lg_attributions s"
  by (auto simp: addFreeQuota_def)

lemma grant_invitee_cases:
  obtains "snd (grant_invitee env u attr qc ub s) = s"
  | "lg_attributions (snd (grant_invitee env u attr qc ub s)) =
       map (\<lambda>a. if ra_ID a = ra_ID attr \<and> \<not> ra_InviteeBonusGranted a
                then a\<lparr>ra_InviteeBonusGranted := True, ra_InviteeBonusAt := Some (le_now env)\<rparr> else a)
         (lg_attributions s)"
proof (cases "grant_invitee env u attr qc ub s")
  case (Pair r t)
  show ?thesis
  proof (cases r)
    case (Inl e)
    then have "t = s"
      using transaction_error_rolls_back [OF Pair [unfolded Inl grant_invitee_def]] by simp
    then show ?thesis using Pair that(1) by simp
  next
    case (Inr x)
    define P where "P = (\<lambda>a::ReferralAttribution. ra_ID a = ra_ID attr \<and> \<not> ra_InviteeBonusGranted a)"
    define f where "f = (\<lambda>a::ReferralAttribution.
      a\<lparr>ra_InviteeBonusGranted := True, ra_InviteeBonusAt := Some (le_now env)\<rparr>)"
    define ys where "ys = map (\<lambda>a. if P a then f a else a) (lg_attributions s)"
    obtain b t1 where up: "updateAttributions env P f s = (Inr b, t1)"
      and rest: "(if \<not> b then ret () else andThen (addFreeQuota env u (qc_InviteeBonus qc)) (\<lambda>_.
                   createRecord env (bonus_record u (ub_TenantID ub) ''INVITEE_BONUS''
                     (qc_InviteeBonus qc) (ub_Balance ub) (ub_Balance ub) invitee_remark
                     (ra_ReferralCode attr)))) t1 = (Inr x, t)"
      using iffD1 [OF andThen_ok, OF iffD1 [OF transaction_ok, OF Pair [unfolded Inr grant_invitee_def]]]
      unfolding P_def f_def by blast
    have t1: "t1 = s\<lparr>lg_attributions := ys\<rparr>" "b = (\<exists>a \<in> set (lg_attributions s). P a)"
      using up by (simp_all add: ys_def)
    have att: "lg_attributions t = ys"
    proof (cases b)
      case True
      then obtain y t2 where "addFreeQuota env u (qc_InviteeBonus qc) t1 = (Inr y, t2)"
        "lg_attributions t = lg_attributions t2"
        using rest by (auto simp: andThen_ok)
      then show ?thesis using t1(1) addFreeQuota_attributions by fastforce
    next
      case False
      then show ?thesis using rest t1(1) by simp
    qed
    show ?thesis using that(2) att Pair unfolding ys_def P_def f_def by simp
  qed
qed

lemma no_ungranted_left:
  assumes "one_attribution_each s" "attr \<in> set (lg_attributions s)" "ra_UserID attr = u"
    and "lg_attributions t = map (\<lambda>a. if ra_ID a = ra_ID attr \<and> \<not> ra_InviteeBonusGranted a
       then a\<lparr>ra_InviteeBonusGranted := True, ra_InviteeBonusAt := x\<rparr> else a) (lg_attributions s)"
  shows "query_attribution env (\<lambda>a. ra_UserID a = u \<and> ra_IsValid a \<and> \<not> ra_InviteeBonusGranted a) t = None"
proof -
  have "ra_InviteeBonusGranted a'" if "a' \<in> set (lg_attributions t)" "ra_UserID a' = u" for a'
  proof -
    define f where "f = (\<lambda>a::ReferralAttribution. if ra_ID a = ra_ID attr \<and> \<not> ra_InviteeBonusGranted a
       then a\<lparr>ra_InviteeBonusGranted := True, ra_InviteeBonusAt := x\<rparr> else a)"
    have "a' \<in> f ` set (lg_attributions s)" using that(1) unfolding assms(4) f_def by simp
    then obtain a where a: "a \<in> set (lg_attributions s)" "a' = f a" by blast
    then have "ra_UserID a = u" using that(2) by (simp add: f_def split: if_splits)
    then have "a = attr" using assms(1-3) a(1) by (simp add: one_attribution_each_def)
    then show ?thesis using a(2) by (simp add: f_def)
  qed
  then show ?thesis by (auto simp: query_attribution_def first_where_None)
qed

lemma TryGrantInviteeBonus_none:
  "query_attribution env (\<lambda>a. ra_UserID a = u \<and> ra_IsValid a \<and> \<not> ra_InviteeBonusGranted a) s = None \<Longrightarrow>
     TryGrantInviteeBonus env u s = s"
  by (simp add: TryGrantInviteeBonus_def)

text \<open>Either nothing happens, or a grant for the first ungranted attribution of the user.\<close>

lemma TryGrantInviteeBonus_cases:
  obtains "TryGrantInviteeBonus env u s = s"
  | attr qc ub where "attr \<in> set (lg_attributions s)" "ra_UserID attr = u"
      "TryGrantInviteeBonus env u s = snd (grant_invitee env u attr qc ub s)"
proof (cases "query_attribution env (\<lambda>a. ra_UserID a = u \<and> ra_IsValid a \<and> \<not> ra_InviteeBonusGranted a) s")
  case None
  then show ?thesis using that(1) TryGrantInviteeBonus_none by blast
next
  case (Some attr)
  then have "attr \<in> set (lg_attributions s)" "ra_UserID attr = u"
    using first_where_Some [of _ "lg_attributions s" attr]
    by (auto simp: query_attribution_def split: if_splits)
  moreover have "TryGrantInviteeBonus env u s = s \<or>
      (\<exists>qc ub. TryGrantInviteeBonus env u s = snd (grant_invitee env u attr qc ub s))"
    by (auto simp: TryGrantInviteeBonus_def Some split: option.split)
  ultimately show ?thesis using that by blast
qed

lemma bonus_not_read:
  assumes "ub_FreeQuotaUnits row \<noteq> 0"
  shows "row_funds (row\<lparr>ub_FreeQuota := q, ub_FreeQuotaRMB := r\<rparr>) = row_funds row"
  using assms by (simp add: row_funds_def hydrate_units hydrate_one_def)

section \<open>Properties\<close>

text \<open>C5: As long as the query of what an invitation has earned so far answers, its commissions do not
  pass a positive lifetime cap: after a commission is written, their sum is at most the cap, or what it
  already was. (Amounts are below 2 to the 62 credits, the sum so far is not negative. A failing query
  counts as nothing earned, and then the cap can be passed.)\<close>

theorem lifetime_cap_holds:
  assumes "\<not> le_fails env QueryEarned" "0 < ct_cap t" "ct_cap t < 2 ^ 62"
    and "0 \<le> total_earned (ra_ID attr) s" "f2i (fmul (i2f order) (ct_rate t)) < 2 ^ 62"
  shows "total_earned (ra_ID attr) (write_commission env u tn order attr t s) \<le>
     max (ct_cap t) (total_earned (ra_ID attr) s)"
  by (rule write_commission_cap [OF assms])

definition sample_attribution :: ReferralAttribution where
  "sample_attribution =
     \<lparr>ra_ID = 4, ra_UserID = 7, ra_InviterID = 9, ra_ReferralCode = ''code'', ra_AttributedAt = 0,
      ra_ExpiresAt = Some 100000, ra_UnlockedAt = Some 1, ra_IsValid = True, ra_InvalidReason = '''',
      ra_InviteeBonusGranted = False, ra_InviteeBonusAt = None, ra_InviterBonusGranted = False,
      ra_InviterBonusAt = None\<rparr>"

definition sample_terms :: commission_terms where
  "sample_terms = \<lparr>ct_rate = 1/2, ct_cap = 300, ct_type = ''REFERRAL'', ct_override = None, ct_rule = None\<rparr>"

theorem lifetime_cap_holds_witness:
  "total_earned 4 (write_commission calm 7 2 1000 sample_attribution sample_terms
     (empty_ledger\<lparr>lg_users := [\<lparr>us_ID = 9, us_TenantID = 2, us_ReferralCode = ''code'', us_ReferredBy = 0\<rparr>]\<rparr>))
   = 300"
proof -
  let ?s = "empty_ledger\<lparr>lg_users := [\<lparr>us_ID = 9, us_TenantID = 2, us_ReferralCode = ''code'', us_ReferredBy = 0\<rparr>]\<rparr>"
  let ?w = "write_commission calm 7 2 1000 sample_attribution sample_terms ?s"
  have c: "f2i (fmul (i2f 1000) (1/2)) = 500" by code_simp
  have "total_earned (ra_ID sample_attribution) ?w \<le>
      max (ct_cap sample_terms) (total_earned (ra_ID sample_attribution) ?s)"
    by (rule lifetime_cap_holds)
      (use c in \<open>simp_all add: calm_def sample_terms_def total_earned_def earned_rows_def empty_ledger_def\<close>)
  then have "total_earned 4 ?w \<le> 300"
    by (simp add: sample_attribution_def sample_terms_def total_earned_def earned_rows_def empty_ledger_def)
  moreover have "300 \<le> total_earned 4 ?w"
    using c by (simp add: write_commission_def sample_terms_def sample_attribution_def query_earned_def
        calm_def total_earned_def earned_rows_def empty_ledger_def first_where_def Let_def
        commission_credits_def commission_record_def add64_id sub64_id in64_def)
  ultimately show ?thesis by simp
qed

text \<open>A refund never reaches a commission: the calculator writes its records without the
  identifier of the request, and \<open>MarkCommissionRefunded\<close> only touches records that carry the
  identifier it is given. So after any calculation on a ledger of such records a refund of any
  request leaves everything as it is.\<close>

theorem refunds_reach_no_commission:
  assumes "\<forall>c \<in> set (lg_commissions s). cm_RelatedID c = ''''"
    and "MarkCommissionRefunded env' rid (calculateInternal env resolver u tn order m s) = (r, t)"
  shows "t = calculateInternal env resolver u tn order m s"
  using refund_of_unrelated [OF unrelated_calculate assms(2)] assms(1) by (simp add: unrelated_def)

theorem refunds_reach_no_commission_witness:
  "\<exists>r t. MarkCommissionRefunded calm ''req-1'' (calculateInternal calm None 7 2 1000 0 sample_ledger) = (r, t) \<and>
     t = calculateInternal calm None 7 2 1000 0 sample_ledger"
proof -
  obtain r t where m: "MarkCommissionRefunded calm ''req-1'' (calculateInternal calm None 7 2 1000 0 sample_ledger) = (r, t)"
    by fastforce
  from refunds_reach_no_commission [OF _ m] show ?thesis
    using m by (simp add: sample_ledger_def empty_ledger_def)
qed

text \<open>The invitee's bonus is granted once: trying again right after a try changes nothing, whether
  the first try granted it, was refused or failed.\<close>

theorem invitee_bonus_once:
  assumes "one_attribution_each s"
  shows "TryGrantInviteeBonus env u (TryGrantInviteeBonus env u s) = TryGrantInviteeBonus env u s"
proof (rule TryGrantInviteeBonus_cases [of env u s])
  assume "TryGrantInviteeBonus env u s = s"
  then show ?thesis by simp
next
  fix attr qc ub
  assume a: "attr \<in> set (lg_attributions s)" "ra_UserID attr = u"
    and g: "TryGrantInviteeBonus env u s = snd (grant_invitee env u attr qc ub s)"
  show ?thesis
  proof (rule grant_invitee_cases [of env u attr qc ub s])
    assume "snd (grant_invitee env u attr qc ub s) = s"
    with g show ?thesis by simp
  next
    assume "lg_attributions (snd (grant_invitee env u attr qc ub s)) =
       map (\<lambda>a. if ra_ID a = ra_ID attr \<and> \<not> ra_InviteeBonusGranted a
                then a\<lparr>ra_InviteeBonusGranted := True, ra_InviteeBonusAt := Some (le_now env)\<rparr> else a)
         (lg_attributions s)"
    from no_ungranted_left [OF assms a this] show ?thesis
      unfolding g by (rule TryGrantInviteeBonus_none)
  qed
qed

definition bonus_ledger :: ledger where
  "bonus_ledger = sample_ledger\<lparr>lg_attributions := [sample_attribution],
     lg_quota_configs := [default_quota\<lparr>qc_InviteeBonus := 5000\<rparr>]\<rparr>"

theorem invitee_bonus_once_witness:
  "TryGrantInviteeBonus calm 7 (TryGrantInviteeBonus calm 7 bonus_ledger) = TryGrantInviteeBonus calm 7 bonus_ledger \<and>
   length (lg_records (TryGrantInviteeBonus calm 7 bonus_ledger)) = 1"
proof -
  have "one_attribution_each bonus_ledger" by (simp add: one_attribution_each_def bonus_ledger_def)
  moreover have "length (lg_records (TryGrantInviteeBonus calm 7 bonus_ledger)) = 1"
    by (simp add: TryGrantInviteeBonus_def query_attribution_def bonus_ledger_def sample_attribution_def
        calm_def first_where_def active_quota_config_def default_quota_def query_balance_def
        sample_ledger_def empty_ledger_def grant_invitee_def transaction_def act_simps
        updateAttributions_def addFreeQuota_def createRecord_def)
  ultimately show ?thesis using invitee_bonus_once by blast
qed

text \<open>The bonus of an invitee who still has free quota is lost: it goes to the legacy column,
  and what the account can spend, which is read from the units, does not change.\<close>

theorem invitee_bonus_not_spendable:
  assumes "lg_balances s u = Some row" "ub_FreeQuotaUnits row \<noteq> 0"
    and "addFreeQuota env u n s = (Inr x, t)"
  shows "\<exists>row'. lg_balances t u = Some row' \<and> ub_FreeQuota row' = add64 (ub_FreeQuota row) n \<and>
    row_funds row' = row_funds row"
  using assms bonus_not_read [OF assms(2)] by (auto simp: addFreeQuota_def)

theorem invitee_bonus_not_spendable_witness:
  "\<exists>t row'. addFreeQuota calm 7 5000 sample_ledger = (Inr (), t) \<and> lg_balances t 7 = Some row' \<and>
     ub_FreeQuota row' = 5050 \<and> row_funds row' = 1500000"
proof -
  obtain t where t: "addFreeQuota calm 7 5000 sample_ledger = (Inr (), t)"
    by (simp add: addFreeQuota_def calm_def act_simps)
  have q: "ub_FreeQuota sample_row = 50"
  proof -
    have "BillingUnitsToCredits 500000 = 50" by code_simp
    then show ?thesis by (simp add: sample_row_def zero_UserBalance_def)
  qed
  from invitee_bonus_not_spendable [OF sample_lookup(1) _ t] show ?thesis
    using t sample_row_facts by (auto simp: q add64_id in64_def)
qed

end
