(* ===== verification/Withdrawal_Laws.thy ===== *)
theory Withdrawal_Laws
  imports Withdrawal Referral_Laws
begin

text \<open>
  What the withdrawal service promises when its handlers run one after another (the status
  machine, conservation of money, one crediting of a commission, the lock on requests), and
  what goes wrong when two handlers interleave.
\<close>

section \<open>The effect of a handler\<close>

fun target :: "wd_call \<Rightarrow> wd_status" where
  "target (CallApprove wid admin remark) = APPROVED"
| "target (CallReject wid admin reason) = REJECTED"
| "target (CallCancel wid user) = CANCELLED"
| "target (CallMarkPaid wid admin txn) = COMPLETED"

fun origin :: "wd_call \<Rightarrow> wd_status" where
  "origin (CallMarkPaid wid admin txn) = APPROVED"
| "origin call = PENDING"

fun refunds :: "wd_call \<Rightarrow> bool" where
  "refunds (CallReject wid admin reason) = True"
| "refunds (CallCancel wid user) = True"
| "refunds call = False"

definition refunded :: "WithdrawalRequest \<Rightarrow> withdrawals \<Rightarrow> nat \<Rightarrow> UserBalance option" where
  "refunded req s =
     (lg_balances (wd_ledger s))(wr_UserID req := map_option
        (\<lambda>ub. ub\<lparr>ub_Balance := add64 (ub_Balance ub) (RMBToCredits (wr_Amount req)),
                 ub_BalanceRMB := fadd (ub_BalanceRMB ub) (wr_Amount req)\<rparr>)
        (lg_balances (wd_ledger s) (wr_UserID req)))"

text \<open>A written request keeps its id, owner and amount and gets the status of the call.\<close>

definition sets_status :: "wd_status \<Rightarrow> (WithdrawalRequest \<Rightarrow> WithdrawalRequest) \<Rightarrow> bool" where
  "sets_status st f \<longleftrightarrow> (\<forall>r. wr_ID (f r) = wr_ID r \<and> wr_UserID (f r) = wr_UserID r \<and>
     wr_Amount (f r) = wr_Amount r \<and> wr_Status (f r) = st)"

definition written :: "wd_call \<Rightarrow> WithdrawalRequest \<Rightarrow> withdrawals \<Rightarrow> withdrawals \<Rightarrow> bool" where
  "written call req s t \<longleftrightarrow>
     (\<exists>f. sets_status (target call) f \<and>
          wd_requests t = map (\<lambda>r. if wr_ID r = wr_ID req then f r else r) (wd_requests s)) \<and>
     lg_balances (wd_ledger t) = (if refunds call then refunded req s else lg_balances (wd_ledger s))"

lemma release_pending_frame [simp]:
  "wd_requests (release_pending env u s) = wd_requests s"
  "wd_ledger (release_pending env u s) = wd_ledger s"
  by (simp_all add: release_pending_def)

lemma logEvent_eq:
  "\<exists>s'. logEvent env evt s = (Inr (), s') \<and> wd_requests s' = wd_requests s \<and> wd_ledger s' = wd_ledger s \<and>
     wd_locks s' = wd_locks s"
  by (simp add: logEvent_def modify_def ret_def)

lemma updateRequest_cases:
  "updateRequest env wid f s =
     (if le_fails env UpdateWithdrawal then (Inl (db_error UpdateWithdrawal), s)
      else (Inr (), s\<lparr>wd_requests := map (\<lambda>r. if wr_ID r = wid then f r else r) (wd_requests s)\<rparr>))"
  by (simp add: updateRequest_def guarded_def modify_def fail_def)

text \<open>A refund either rolls back or does all of its writes.\<close>

lemma refund_tx_cases:
  obtains e where "refund_tx env req tn f remark s = (Inl e, s)"
  | t where "refund_tx env req tn f remark s = (Inr (), t)"
      "wd_requests t = map (\<lambda>r. if wr_ID r = wr_ID req then f r else r) (wd_requests s)"
      "lg_balances (wd_ledger t) = refunded req s" "wd_locks t = wd_locks s"
proof (cases "refund_tx env req tn f remark s")
  case (Pair r t)
  show ?thesis
  proof (cases r)
    case (Inl e)
    then have "t = s"
      using transaction_error_rolls_back [OF Pair [unfolded Inl refund_tx_def]] by simp
    then show ?thesis using that(1) Pair Inl by simp
  next
    case (Inr u)
    then have ok: "refund_tx env req tn f remark s = (Inr (), t)" using Pair by simp
    then have "wd_requests t = map (\<lambda>r. if wr_ID r = wr_ID req then f r else r) (wd_requests s) \<and>
        lg_balances (wd_ledger t) = refunded req s \<and> wd_locks t = wd_locks s"
      unfolding refund_tx_def transaction_ok andThen_ok
      by (auto simp: updateRequest_cases give_balance_def guarded_def modify_def fail_def
          on_ledger_def createRecord_def refunded_def split: if_splits sum.splits prod.splits)
    then show ?thesis using that(2) ok by blast
  qed
qed

lemma sets_status_review: "sets_status (target call) (review_update env call req)"
  by (cases call) (simp_all add: sets_status_def)

text \<open>The first write of a handler decides; what follows it only touches locks and events.\<close>

definition first_write :: "withdraw_env \<Rightarrow> wd_call \<Rightarrow> WithdrawalRequest \<Rightarrow> nat \<Rightarrow> string \<Rightarrow> unit withdraw_act" where
  "first_write env call req tn remark =
     (if refunds call then refund_tx env req tn (review_update env call req) remark
      else updateRequest env (wr_ID req) (review_update env call req))"

lemma first_write_cases:
  obtains e where "first_write env call req tn remark s = (Inl e, s)"
  | t where "first_write env call req tn remark s = (Inr (), t)" "written call req s t"
proof (cases "refunds call")
  case True
  then have f: "first_write env call req tn remark = refund_tx env req tn (review_update env call req) remark"
    by (simp add: first_write_def)
  show ?thesis
    by (rule refund_tx_cases [of env req tn "review_update env call req" remark s])
      (use that True f sets_status_review [of call env req] in \<open>auto simp: written_def\<close>)
next
  case False
  then have f: "first_write env call req tn remark = updateRequest env (wr_ID req) (review_update env call req)"
    by (simp add: first_write_def)
  show ?thesis
  proof (cases "le_fails env UpdateWithdrawal")
    case True
    then show ?thesis using that(1) by (simp add: f updateRequest_cases)
  next
    case ok: False
    show ?thesis
      by (rule that(2)) (use False ok sets_status_review [of call env req]
        in \<open>auto simp: f updateRequest_cases written_def\<close>)
  qed
qed

lemma commit_call_shape:
  "\<exists>remark g. commit_call env call req tn = andThen (first_write env call req tn remark) (\<lambda>_. g) \<and>
     (\<forall>t. wd_requests (snd (g t)) = wd_requests t \<and> wd_ledger (snd (g t)) = wd_ledger t)"
proof -
  have lg: "wd_requests (snd (logEvent env evt t)) = wd_requests t"
      "wd_ledger (snd (logEvent env evt t)) = wd_ledger t" for evt t
    using logEvent_eq [of env evt t] by auto
  show ?thesis
    by (cases call; simp only: commit_call.simps first_write_def refunds.simps if_True if_False;
        intro exI conjI allI; (rule refl)?)
      (simp_all add: lg andThen_def modify_def)
qed

lemma commit_call_cases:
  obtains "snd (commit_call env call req tn s) = s"
  | "written call req s (snd (commit_call env call req tn s))"
proof -
  obtain remark g where c: "commit_call env call req tn = andThen (first_write env call req tn remark) (\<lambda>_. g)"
    and g: "\<And>t. wd_requests (snd (g t)) = wd_requests t \<and> wd_ledger (snd (g t)) = wd_ledger t"
    using commit_call_shape [of env call req tn] by blast
  show ?thesis
  proof (rule first_write_cases [of env call req tn remark s])
    fix e assume "first_write env call req tn remark s = (Inl e, s)"
    then show ?thesis using that(1) by (simp add: c andThen_def)
  next
    fix t assume "first_write env call req tn remark s = (Inr (), t)" "written call req s t"
    then show ?thesis using that(2) g [of t] by (simp add: c andThen_def written_def)
  qed
qed

lemma load_for_ok:
  assumes "load_for env call s = Inr (req, tn)"
  shows "req \<in> set (wd_requests s)" "wr_Status req = origin call" "wr_ID req = call_id call"
proof -
  have l: "load_request env wid s = Some r \<Longrightarrow> r \<in> set (wd_requests s) \<and> wr_ID r = wid" for wid r
    by (auto simp: load_request_def split: if_splits dest: first_where_Some)
  have "req \<in> set (wd_requests s) \<and> wr_Status req = origin call \<and> wr_ID req = call_id call"
    using assms
    by (cases call)
      (auto simp: require_status_def load_tenant_def dest: l split: option.splits if_splits sum.splits)
  then show "req \<in> set (wd_requests s)" "wr_Status req = origin call" "wr_ID req = call_id call" by auto
qed

lemma handle_cases:
  obtains "snd (handle env call s) = s"
  | req where "req \<in> set (wd_requests s)" "wr_Status req = origin call" "wr_ID req = call_id call"
      "written call req s (snd (handle env call s))"
proof (cases "load_for env call s")
  case (Inl e)
  then show ?thesis using that(1) by (simp add: handle_def)
next
  case (Inr p)
  obtain req tn where p: "p = (req, tn)" by fastforce
  note l = load_for_ok [OF Inr [unfolded p]]
  have h: "snd (handle env call s) = snd (commit_call env call req tn s)"
    using Inr by (simp add: handle_def p)
  show ?thesis
    by (rule commit_call_cases [of env call req tn s]) (use that l h in auto)
qed


section \<open>The status machine\<close>

inductive wd_moves :: "wd_status \<Rightarrow> wd_status \<Rightarrow> bool" where
  "wd_moves PENDING APPROVED"
| "wd_moves PENDING REJECTED"
| "wd_moves PENDING CANCELLED"
| "wd_moves APPROVED COMPLETED"

inductive_simps wd_moves_from [simp]:
  "wd_moves PENDING st" "wd_moves APPROVED st" "wd_moves REJECTED st" "wd_moves CANCELLED st"
  "wd_moves COMPLETED st"

lemma wd_moves_call: "wd_moves (origin call) (target call)"
  by (cases call) simp_all

text \<open>How a request may look later.\<close>

definition evolves :: "WithdrawalRequest \<Rightarrow> WithdrawalRequest \<Rightarrow> bool" where
  "evolves r r' \<longleftrightarrow> wr_ID r' = wr_ID r \<and> wr_UserID r' = wr_UserID r \<and> wr_Amount r' = wr_Amount r \<and>
     wd_moves\<^sup>*\<^sup>* (wr_Status r) (wr_Status r')"

lemma evolves_refl [simp]: "evolves r r"
  by (simp add: evolves_def)

lemma evolves_trans: "evolves r1 r2 \<Longrightarrow> evolves r2 r3 \<Longrightarrow> evolves r1 r3"
  by (auto simp: evolves_def)

definition keyed :: "withdrawals \<Rightarrow> bool" where
  "keyed s \<longleftrightarrow> distinct (map wr_ID (wd_requests s))"

lemma keyedD:
  "\<lbrakk>keyed s; r1 \<in> set (wd_requests s); r2 \<in> set (wd_requests s); wr_ID r1 = wr_ID r2\<rbrakk> \<Longrightarrow> r1 = r2"
  unfolding keyed_def by (metis distinct_map inj_onD)

lemma written_evolves:
  assumes "written call req s t" "keyed s" "req \<in> set (wd_requests s)" "wr_Status req = origin call"
    and "r \<in> set (wd_requests s)"
  shows "\<exists>r' \<in> set (wd_requests t). evolves r r'"
proof -
  obtain f where f: "sets_status (target call) f"
    "wd_requests t = map (\<lambda>r. if wr_ID r = wr_ID req then f r else r) (wd_requests s)"
    using assms(1) by (auto simp: written_def)
  have "evolves r (if wr_ID r = wr_ID req then f r else r)"
  proof (cases "wr_ID r = wr_ID req")
    case True
    then have "r = req" using keyedD assms by blast
    then show ?thesis using f(1) assms(4) wd_moves_call [of call] by (auto simp: evolves_def sets_status_def)
  qed simp
  moreover have "(if wr_ID r = wr_ID req then f r else r) \<in> set (wd_requests t)"
    using assms(5) f(2) by auto
  ultimately show ?thesis by blast
qed

lemma written_keyed:
  assumes "written call req s t" "keyed s"
  shows "keyed t"
proof -
  obtain f where f: "sets_status (target call) f"
    "wd_requests t = map (\<lambda>r. if wr_ID r = wr_ID req then f r else r) (wd_requests s)"
    using assms(1) by (auto simp: written_def)
  have "map wr_ID (wd_requests t) = map wr_ID (wd_requests s)"
    unfolding f(2) using f(1) by (auto simp: sets_status_def)
  with assms(2) show ?thesis by (simp add: keyed_def)
qed

section \<open>Requesting\<close>

lemma fresh_request_id: "r \<in> set (wd_requests s) \<Longrightarrow> wr_ID r < fresh_request_id s"
proof -
  have f: "(m::nat) \<in> set ms \<or> m \<le> z \<Longrightarrow> m \<le> fold max ms z" for m ms z
    by (induction ms arbitrary: z) (auto simp: le_max_iff_disj)
  assume "r \<in> set (wd_requests s)"
  then have "wr_ID r \<le> fold max (map wr_ID (wd_requests s)) 0" by (intro f) auto
  then show ?thesis by (simp add: fresh_request_id_def)
qed

definition new_request :: "withdrawals \<Rightarrow> nat \<Rightarrow> int64 \<Rightarrow> string \<Rightarrow> WithdrawalRequest" where
  "new_request s userID amountCredits bankInfo =
     \<lparr>wr_ID = fresh_request_id s, wr_UserID = userID, wr_Amount = CreditsToRMB amountCredits,
      wr_Status = PENDING, wr_BankInfo = bankInfo, wr_AdminID = 0, wr_AdminRemark = '''',
      wr_ProcessedAt = None\<rparr>"

text \<open>What a request for money does when it goes through.\<close>

definition requested :: "nat \<Rightarrow> int64 \<Rightarrow> string \<Rightarrow> withdrawals \<Rightarrow> withdrawals \<Rightarrow> bool" where
  "requested u a bank s t \<longleftrightarrow>
     (\<exists>ub. lg_balances (wd_ledger s) u = Some ub \<and> 0 < a \<and> a \<le> ub_Balance ub \<and>
        lg_balances (wd_ledger t) = (lg_balances (wd_ledger s))(u \<mapsto>
          ub\<lparr>ub_Balance := sub64 (ub_Balance ub) a,
             ub_BalanceRMB := fsub (ub_BalanceRMB ub) (CreditsToRMB a)\<rparr>)) \<and>
     wd_requests t = wd_requests s @ [new_request s u a bank]"

lemma create_tx_cases:
  obtains e where "create_tx env u tn a bank s = (Inl e, s)"
  | t where "create_tx env u tn a bank s = (Inr (new_request s u a bank), t)" "wd_locks t = wd_locks s"
      "0 < a \<Longrightarrow> requested u a bank s t"
proof (cases "create_tx env u tn a bank s")
  case (Pair r t)
  show ?thesis
  proof (cases r)
    case (Inl e)
    then have "t = s"
      using transaction_error_rolls_back [OF Pair [unfolded Inl create_tx_def]] by simp
    then show ?thesis using that(1) Pair Inl by simp
  next
    case (Inr req)
    then have "create_tx env u tn a bank s = (Inr req, t)" using Pair by simp
    then have "req = new_request s u a bank \<and> wd_locks t = wd_locks s \<and> (0 < a \<longrightarrow> requested u a bank s t)"
      unfolding create_tx_def transaction_ok andThen_ok
      by (auto simp: take_balance_def create_request_def Let_def on_ledger_def createRecord_def guarded_def
          modify_def fail_def requested_def new_request_def fresh_request_id_def
          split: if_splits sum.splits prod.splits option.splits)
    then show ?thesis using that(2) Inr Pair by blast
  qed
qed


lemma acquire_pending_frame:
  "wd_requests (snd (acquire_pending env u s)) = wd_requests s"
  "wd_ledger (snd (acquire_pending env u s)) = wd_ledger s"
  by (auto simp: acquire_pending_def split: option.splits)

lemma withdraw_checks_pos: "withdraw_checks env u a s = Inr tn \<Longrightarrow> 0 < a"
  by (auto simp: withdraw_checks_def split: if_splits)

lemma CreateWithdrawal_cases:
  obtains e where "fst (CreateWithdrawal env u a bank s) = Inl e"
      "wd_requests (snd (CreateWithdrawal env u a bank s)) = wd_requests s"
      "wd_ledger (snd (CreateWithdrawal env u a bank s)) = wd_ledger s"
  | t where "CreateWithdrawal env u a bank s = (Inr (new_request s u a bank), t)" "requested u a bank s t"
      "we_redis env \<Longrightarrow> wd_locks t u = Some (le_now env + day)"
proof (cases "withdraw_checks env u a s")
  case (Inl e)
  then show ?thesis using that(1) by (simp add: CreateWithdrawal_def)
next
  case (Inr tn)
  obtain r s1 where q: "acquire_pending env u s = (r, s1)" by fastforce
  have s1: "wd_requests s1 = wd_requests s" "wd_ledger s1 = wd_ledger s"
    using acquire_pending_frame [of env u s] q by auto
  show ?thesis
  proof (cases r)
    case (Inl e)
    then show ?thesis using that(1) s1 by (simp add: CreateWithdrawal_def Inr q)
  next
    case ok: (Inr x)
    have c: "CreateWithdrawal env u a bank s = create_locked env u tn a bank s1"
      by (simp add: CreateWithdrawal_def Inr q ok)
    have lk: "we_redis env \<Longrightarrow> wd_locks s1 u = Some (le_now env + day)"
      using q ok by (auto simp: acquire_pending_def split: if_splits option.splits)
    show ?thesis
    proof (rule create_tx_cases [of env u tn a bank s1])
      fix e assume "create_tx env u tn a bank s1 = (Inl e, s1)"
      then have "CreateWithdrawal env u a bank s = (Inl e, release_pending env u s1)"
        by (simp add: c create_locked_def)
      then show ?thesis using that(1) s1 by simp
    next
      fix t assume t: "create_tx env u tn a bank s1 = (Inr (new_request s1 u a bank), t)"
        "wd_locks t = wd_locks s1" "0 < a \<Longrightarrow> requested u a bank s1 t"
      define s3 where "s3 = snd (logEvent env \<lparr>we_WithdrawID = wr_ID (new_request s1 u a bank), we_UserID = u,
          we_EventType = ''withdrawal.requested'', we_ActorType = ''user'', we_ActorID = None\<rparr> t)"
      have s3: "wd_requests s3 = wd_requests t" "wd_ledger s3 = wd_ledger t" "wd_locks s3 = wd_locks t"
        unfolding s3_def by (simp_all add: logEvent_def modify_def ret_def)
      have n: "new_request s1 u a bank = new_request s u a bank"
        by (simp add: new_request_def fresh_request_id_def s1)
      have "CreateWithdrawal env u a bank s = (Inr (new_request s u a bank), s3)"
        by (simp add: c create_locked_def t(1) s3_def n)
      moreover have "requested u a bank s s3"
        using t(3) [OF withdraw_checks_pos [OF Inr]] s3 s1 n by (simp add: requested_def)
      ultimately show ?thesis using that(2) t(2) lk s3(3) by simp
    qed
  qed
qed


section \<open>Conservation\<close>

definition worth :: "nat \<Rightarrow> WithdrawalRequest \<Rightarrow> int" where
  "worth u r =
     (if wr_UserID r = u \<and> wr_Status r \<in> {PENDING, APPROVED, COMPLETED} then RMBToCredits (wr_Amount r) else 0)"

definition outstanding :: "nat \<Rightarrow> withdrawals \<Rightarrow> int" where
  "outstanding u s = sum_list (map (worth u) (wd_requests s))"

text \<open>The balance of a user and what withdrawals hold of it add up to \<open>money\<close>.\<close>

definition wd_sound :: "nat \<Rightarrow> int \<Rightarrow> withdrawals \<Rightarrow> bool" where
  "wd_sound u money s \<longleftrightarrow>
     keyed s \<and>
     (\<exists>row. lg_balances (wd_ledger s) u = Some row \<and> 0 \<le> ub_Balance row \<and>
        ub_Balance row + outstanding u s = money) \<and>
     (\<forall>r \<in> set (wd_requests s). wr_UserID r = u \<longrightarrow>
        (\<exists>c. 0 < c \<and> c \<le> 2 ^ 50 \<and> wr_Amount r = CreditsToRMB c))"

lemma sum_list_single_update:
  fixes w :: "'a \<Rightarrow> int"
  assumes "distinct (map k xs)" "x \<in> set xs"
  shows "sum_list (map w (map (\<lambda>r. if k r = k x then f r else r) xs)) = sum_list (map w xs) - w x + w (f x)"
  using assms
proof (induction xs)
  case (Cons y ys)
  show ?case
  proof (cases "y = x")
    case True
    then have "k x \<notin> k ` set ys" using Cons.prems(1) by auto
    then have "k r \<noteq> k x" if "r \<in> set ys" for r using that by (metis imageI)
    then have "map (\<lambda>r. if k r = k x then f r else r) ys = ys" by (simp add: map_idI)
    then show ?thesis using True by (simp del: map_map)
  next
    case False
    then have "x \<in> set ys" "k y \<noteq> k x" using Cons.prems by auto
    then show ?thesis using Cons by (simp del: map_map)
  qed
qed simp

lemma worth_nonneg:
  assumes "wd_sound u money s" "r \<in> set (wd_requests s)"
  shows "0 \<le> worth u r"
proof (cases "wr_UserID r = u")
  case True
  then obtain c where "0 < c" "c \<le> 2 ^ 50" "wr_Amount r = CreditsToRMB c"
    using assms by (auto simp: wd_sound_def)
  then show ?thesis by (simp add: worth_def RMBToCredits_CreditsToRMB)
qed (simp add: worth_def)

lemma outstanding_ge:
  assumes "wd_sound u money s" "r \<in> set (wd_requests s)"
  shows "worth u r \<le> outstanding u s" "0 \<le> outstanding u s"
proof -
  have "\<And>x. x \<in> set (map (worth u) (wd_requests s)) \<Longrightarrow> 0 \<le> x"
    using worth_nonneg [OF assms(1)] by auto
  then show "worth u r \<le> outstanding u s" "0 \<le> outstanding u s"
    unfolding outstanding_def using assms(2)
    by (auto intro: member_le_sum_list sum_list_nonneg)
qed

lemma written_outstanding:
  assumes "written call req s t" "keyed s" "req \<in> set (wd_requests s)" "wr_Status req = origin call"
  shows "outstanding u t = outstanding u s - (if refunds call then worth u req else 0)"
proof -
  obtain f where f: "sets_status (target call) f"
    "wd_requests t = map (\<lambda>r. if wr_ID r = wr_ID req then f r else r) (wd_requests s)"
    using assms(1) by (auto simp: written_def)
  have w: "worth u (f req) = (if refunds call then 0 else worth u req)"
    using f(1) assms(4) by (cases call) (auto simp: sets_status_def worth_def)
  show ?thesis
    unfolding outstanding_def f(2)
    using sum_list_single_update [of wr_ID "wd_requests s" req "worth u" f] assms(2,3)
    by (simp add: keyed_def w)
qed

lemma written_amounts:
  assumes "written call req s t" "r' \<in> set (wd_requests t)"
  shows "\<exists>r \<in> set (wd_requests s). wr_Amount r' = wr_Amount r \<and> wr_UserID r' = wr_UserID r"
proof -
  obtain f where f: "sets_status (target call) f"
    "wd_requests t = map (\<lambda>r. if wr_ID r = wr_ID req then f r else r) (wd_requests s)"
    using assms(1) by (auto simp: written_def)
  have "r' \<in> (\<lambda>r. if wr_ID r = wr_ID req then f r else r) ` set (wd_requests s)"
    using assms(2) f(2) by simp
  then obtain r where "r \<in> set (wd_requests s)" "r' = (if wr_ID r = wr_ID req then f r else r)" by blast
  then show ?thesis using f(1) by (intro bexI [of _ r]) (auto simp: sets_status_def)
qed

lemma handle_sound:
  assumes "wd_sound u money s" "money \<le> 2 ^ 50"
  shows "wd_sound u money (snd (handle env call s))"
proof (rule handle_cases [of env call s])
  assume "snd (handle env call s) = s"
  then show ?thesis using assms(1) by simp
next
  fix req
  let ?t = "snd (handle env call s)"
  assume r: "req \<in> set (wd_requests s)" "wr_Status req = origin call" and w: "written call req s ?t"
  obtain row where row: "lg_balances (wd_ledger s) u = Some row" "0 \<le> ub_Balance row"
      "ub_Balance row + outstanding u s = money" and k: "keyed s"
    using assms(1) by (auto simp: wd_sound_def)
  have b: "lg_balances (wd_ledger ?t) = (if refunds call then refunded req s else lg_balances (wd_ledger s))"
    using w by (simp add: written_def)
  note o = written_outstanding [OF w k r, of u]
  have "\<exists>row'. lg_balances (wd_ledger ?t) u = Some row' \<and> 0 \<le> ub_Balance row' \<and>
      ub_Balance row' + outstanding u ?t = money"
  proof (cases "refunds call \<and> wr_UserID req = u")
    case True
    then obtain c where c: "0 < c" "c \<le> 2 ^ 50" "wr_Amount req = CreditsToRMB c"
      using assms(1) r(1) by (auto simp: wd_sound_def)
    have st: "wr_Status req = PENDING" using r(2) True by (cases call) auto
    have wq: "worth u req = RMBToCredits (wr_Amount req)" "RMBToCredits (wr_Amount req) = c"
      using True st c by (simp_all add: worth_def RMBToCredits_CreditsToRMB)
    have le: "ub_Balance row + c \<le> money" using outstanding_ge(1) [OF assms(1) r(1)] row(3) wq by simp
    then have "add64 (ub_Balance row) c = ub_Balance row + c"
      using row(2) c(1) assms(2) by (intro add64_id) (simp add: in64_def)
    then show ?thesis using True row c(1) b o wq by (simp add: refunded_def)
  next
    case False
    then have "worth u req = 0 \<or> \<not> refunds call" by (auto simp: worth_def)
    moreover have "lg_balances (wd_ledger ?t) u = Some row" using False b row(1) by (auto simp: refunded_def)
    ultimately show ?thesis using row o by auto
  qed
  moreover have "\<forall>r \<in> set (wd_requests ?t). wr_UserID r = u \<longrightarrow>
      (\<exists>c. 0 < c \<and> c \<le> 2 ^ 50 \<and> wr_Amount r = CreditsToRMB c)"
    using written_amounts [OF w] assms(1) unfolding wd_sound_def by metis
  ultimately show ?thesis using written_keyed [OF w k] by (simp add: wd_sound_def)
qed

lemma requested_sound:
  assumes "requested v a bank s t" "wd_sound u money s" "money \<le> 2 ^ 50"
  shows "wd_sound u money t"
proof -
  obtain ub where ub: "lg_balances (wd_ledger s) v = Some ub" "0 < a" "a \<le> ub_Balance ub"
    "lg_balances (wd_ledger t) = (lg_balances (wd_ledger s))(v \<mapsto>
          ub\<lparr>ub_Balance := sub64 (ub_Balance ub) a,
             ub_BalanceRMB := fsub (ub_BalanceRMB ub) (CreditsToRMB a)\<rparr>)"
    and rq: "wd_requests t = wd_requests s @ [new_request s v a bank]"
    using assms(1) by (auto simp: requested_def)
  obtain row where row: "lg_balances (wd_ledger s) u = Some row" "0 \<le> ub_Balance row"
      "ub_Balance row + outstanding u s = money" and k: "keyed s"
    using assms(2) by (auto simp: wd_sound_def)
  have n: "wr_ID (new_request s v a bank) = fresh_request_id s" "wr_UserID (new_request s v a bank) = v"
    "wr_Status (new_request s v a bank) = PENDING" "wr_Amount (new_request s v a bank) = CreditsToRMB a"
    by (simp_all add: new_request_def)
  have k': "keyed t" using k fresh_request_id by (force simp: keyed_def rq n)
  have pos: "0 \<le> outstanding u s"
    unfolding outstanding_def using worth_nonneg [OF assms(2)] by (intro sum_list_nonneg) auto
  have o: "outstanding u t = outstanding u s + worth u (new_request s v a bank)"
    by (simp add: outstanding_def rq)
  show ?thesis
  proof (cases "v = u")
    case True
    then have a: "a \<le> 2 ^ 50" "ub = row" using ub row pos assms(3) by auto
    then have "sub64 (ub_Balance row) a = ub_Balance row - a"
      using ub(2,3) row(2,3) pos assms(3) by (intro sub64_id) (simp add: in64_def)
    moreover have "worth u (new_request s v a bank) = a"
      unfolding worth_def n using True ub(2) a(1) by (simp add: RMBToCredits_CreditsToRMB)
    ultimately show ?thesis
      using k' o row ub(2-4) a True assms(2) n by (auto simp: wd_sound_def rq)
  next
    case False
    then have "worth u (new_request s v a bank) = 0" unfolding worth_def n by simp
    then show ?thesis using k' o row ub(4) False assms(2) n by (auto simp: wd_sound_def rq)
  qed
qed

lemma create_sound:
  assumes "wd_sound u money s" "money \<le> 2 ^ 50"
  shows "wd_sound u money (snd (CreateWithdrawal env v a bank s))"
proof (rule CreateWithdrawal_cases [of env v a bank s])
  assume "wd_requests (snd (CreateWithdrawal env v a bank s)) = wd_requests s"
    "wd_ledger (snd (CreateWithdrawal env v a bank s)) = wd_ledger s"
  then show ?thesis using assms(1) by (simp add: wd_sound_def keyed_def outstanding_def)
next
  fix t assume "CreateWithdrawal env v a bank s = (Inr (new_request s v a bank), t)" "requested v a bank s t"
  then show ?thesis using requested_sound assms by simp
qed


section \<open>Properties\<close>

definition calm_withdraw :: "int \<Rightarrow> withdraw_env" where
  "calm_withdraw now = \<lparr>le_now = now, le_fails = (\<lambda>_. False), le_uuid = '''', we_redis = True, we_sink = False\<rparr>"

definition sample_request :: WithdrawalRequest where
  "sample_request = \<lparr>wr_ID = 5, wr_UserID = 7, wr_Amount = CreditsToRMB 300, wr_Status = PENDING,
     wr_BankInfo = '''', wr_AdminID = 0, wr_AdminRemark = '''', wr_ProcessedAt = None\<rparr>"

text \<open>User 7 has 1000 credits left and 300 in a pending withdrawal.\<close>

definition sample_withdrawals :: withdrawals where
  "sample_withdrawals =
     \<lparr>wd_ledger = empty_ledger\<lparr>lg_balances := [7 \<mapsto> zero_UserBalance\<lparr>ub_UserID := 7, ub_Balance := 1000\<rparr>]\<rparr>,
      wd_requests = [sample_request], wd_locks = (\<lambda>_. None), wd_events = []\<rparr>"

lemma sample_sound: "wd_sound 7 1300 sample_withdrawals"
  by (auto simp: wd_sound_def keyed_def outstanding_def worth_def sample_withdrawals_def sample_request_def
      RMBToCredits_CreditsToRMB intro!: exI [of _ 300])

text \<open>C7: Run one after another, requests, cancellations, approvals, rejections and payments conserve
  the money of a user: the balance plus what withdrawals hold (pending, approved or paid) never
  changes, the balance never turns negative, whatever the order, the errors and the other users.\<close>

theorem withdrawals_conserve_money:
  assumes "wd_serial s t" "wd_sound u money s" "money \<le> 2 ^ 50"
  shows "keyed t \<and> (\<exists>row. lg_balances (wd_ledger t) u = Some row \<and> 0 \<le> ub_Balance row \<and>
    ub_Balance row + outstanding u t = money)"
proof -
  have "wd_sound u money t"
    using assms(1,2) by induction (use handle_sound create_sound assms(3) in auto)
  then show ?thesis by (simp add: wd_sound_def)
qed

lemma sample_serial:
  "wd_serial sample_withdrawals (snd (Reject (calm_withdraw 1) 5 1 ''no'' sample_withdrawals))"
  unfolding Reject_def by (rule handled [OF start refl])

theorem withdrawals_conserve_money_witness:
  "\<exists>row. lg_balances (wd_ledger (snd (Reject (calm_withdraw 1) 5 1 ''no'' sample_withdrawals))) 7 = Some row \<and>
     ub_Balance row + outstanding 7 (snd (Reject (calm_withdraw 1) 5 1 ''no'' sample_withdrawals)) = 1300"
  using withdrawals_conserve_money [OF sample_serial sample_sound] by auto

text \<open>C8: Run one after another, every request keeps its id, owner and amount for good, and its status
  only moves along the machine: from pending to approved, rejected or cancelled, and from
  approved to completed. A rejected, cancelled or completed request never changes again.\<close>

theorem withdrawal_status_machine:
  assumes "wd_serial s t" "keyed s" "r \<in> set (wd_requests s)"
  shows "\<exists>r' \<in> set (wd_requests t). wr_ID r' = wr_ID r \<and> wr_UserID r' = wr_UserID r \<and>
    wr_Amount r' = wr_Amount r \<and> wd_moves\<^sup>*\<^sup>* (wr_Status r) (wr_Status r') \<and>
    (wr_Status r \<in> {REJECTED, CANCELLED, COMPLETED} \<longrightarrow> wr_Status r' = wr_Status r)"
proof -
  have "keyed t \<and> (\<exists>r' \<in> set (wd_requests t). evolves r r')"
    using assms(1,2,3)
  proof induction
    case (start s)
    then show ?case using evolves_refl by blast
  next
    case (handled s t env call v)
    then obtain r1 where r1: "keyed t" "r1 \<in> set (wd_requests t)" "evolves r r1" by blast
    show ?case
    proof (rule handle_cases [of env call t])
      assume "snd (handle env call t) = t"
      then show ?thesis using r1 handled by auto
    next
      fix req assume q: "req \<in> set (wd_requests t)" "wr_Status req = origin call"
        "written call req t (snd (handle env call t))"
      then show ?thesis
        using written_evolves [OF q(3) r1(1) q(1,2) r1(2)] written_keyed [OF q(3) r1(1)] evolves_trans [OF r1(3)]
          handled.hyps(2) by blast
    qed
  next
    case (created s t env u a bank v)
    then obtain r1 where r1: "keyed t" "r1 \<in> set (wd_requests t)" "evolves r r1" by blast
    show ?case
    proof (rule CreateWithdrawal_cases [of env u a bank t])
      assume "wd_requests (snd (CreateWithdrawal env u a bank t)) = wd_requests t"
      then show ?thesis using r1 created.hyps(2) by (auto simp: keyed_def)
    next
      fix t' assume c: "CreateWithdrawal env u a bank t = (Inr (new_request t u a bank), t')" "requested u a bank t t'"
      have "wr_ID (new_request t u a bank) = fresh_request_id t" by (simp add: new_request_def)
      then have "keyed t'" using c(2) r1(1) fresh_request_id by (force simp: keyed_def requested_def)
      moreover have "r1 \<in> set (wd_requests t')" using c(2) r1(2) by (simp add: requested_def)
      ultimately show ?thesis using r1(3) c(1) created.hyps(2) by auto
    qed
  qed
  then obtain r' where r': "r' \<in> set (wd_requests t)" "evolves r r'" by blast
  have "wr_Status r' = wr_Status r" if "wr_Status r \<in> {REJECTED, CANCELLED, COMPLETED}"
    using r'(2) that unfolding evolves_def
    by (metis converse_rtranclpE insertE singletonD wd_moves_from(3-5))
  with r' show ?thesis unfolding evolves_def by blast
qed

theorem withdrawal_status_machine_witness:
  "\<exists>r' \<in> set (wd_requests (snd (Reject (calm_withdraw 1) 5 1 ''no'' sample_withdrawals))).
     wr_ID r' = 5 \<and> wr_UserID r' = 7 \<and> wd_moves\<^sup>*\<^sup>* PENDING (wr_Status r')"
proof -
  have "keyed sample_withdrawals" "sample_request \<in> set (wd_requests sample_withdrawals)"
    by (simp_all add: keyed_def sample_withdrawals_def)
  from withdrawal_status_machine [OF sample_serial this] show ?thesis by (auto simp: sample_request_def)
qed


text \<open>Without faults a refund always goes through.\<close>

lemma refund_tx_calm:
  assumes "\<And>c. \<not> le_fails env c"
  shows "\<exists>t. refund_tx env req tn f remark s = (Inr (), t)"
  unfolding refund_tx_def transaction_def
  by (simp add: andThen_def updateRequest_cases give_balance_def guarded_def modify_def assms on_ledger_def
      createRecord_def env_of_def)

lemma commit_call_calm:
  assumes "\<And>c. \<not> le_fails env c" "refunds call"
  shows "lg_balances (wd_ledger (snd (commit_call env call req tn s))) = refunded req s"
proof -
  obtain remark g where c: "commit_call env call req tn = andThen (first_write env call req tn remark) (\<lambda>_. g)"
    and g: "\<And>t. wd_requests (snd (g t)) = wd_requests t \<and> wd_ledger (snd (g t)) = wd_ledger t"
    using commit_call_shape [of env call req tn] by blast
  have f: "first_write env call req tn remark = refund_tx env req tn (review_update env call req) remark"
    using assms(2) by (simp add: first_write_def)
  obtain t where "refund_tx env req tn (review_update env call req) remark s = (Inr (), t)"
    using refund_tx_calm [OF assms(1)] by blast
  moreover have "lg_balances (wd_ledger t) = refunded req s"
    using calculation by (rule_tac refund_tx_cases [of env req tn "review_update env call req" remark s]) auto
  ultimately show ?thesis using g [of t] by (simp add: c f andThen_def)
qed

text \<open>Interleaved, a rejection by an administrator and a cancellation by the user that have both
  read the request as pending refund it twice: the balance grows by two times the amount, because
  the writes ask for the id alone and not for the status that was read.\<close>

theorem interleaved_refunds_pay_twice:
  assumes "load_for env (CallReject wid admin reason) s = Inr (req, tn)"
    and "load_for env' (CallCancel wid user) s = Inr (req', tn')"
    and "\<And>c. \<not> le_fails env c" "\<And>c. \<not> le_fails env' c"
    and "lg_balances (wd_ledger s) (wr_UserID req) = Some row" "wr_Amount req = CreditsToRMB c"
    and "0 \<le> ub_Balance row" "ub_Balance row \<le> 2 ^ 50" "0 < c" "c \<le> 2 ^ 50"
  shows "\<exists>t row'. wd_step\<^sup>*\<^sup>* (s, []) (t, []) \<and>
    lg_balances (wd_ledger t) (wr_UserID req) = Some row' \<and> ub_Balance row' = ub_Balance row + 2 * c"
proof -
  have same: "req' = req"
    using assms(1,2,3,4)
    by (auto simp: load_request_def require_status_def load_tenant_def
        split: option.splits if_splits sum.splits)
  define s1 where "s1 = snd (commit_call env (CallReject wid admin reason) req tn s)"
  define t where "t = snd (commit_call env' (CallCancel wid user) req tn' s1)"
  let ?p = "(env, CallReject wid admin reason, req, tn)" and ?q = "(env', CallCancel wid user, req, tn')"
  have "wd_step (s, []) (s, [?p])" by (rule loads) (rule assms(1))
  moreover have "wd_step (s, [?p]) (s, [?q, ?p])" by (rule loads) (use assms(2) same in simp)
  moreover have "wd_step (s, [?q, ?p]) (s1, [?q])"
    using commits [of env "CallReject wid admin reason" req tn s s1 "[?q]" "[]"] by (simp add: s1_def)
  moreover have "wd_step (s1, [?q]) (t, [])"
    using commits [of env' "CallCancel wid user" req tn' s1 t "[]" "[]"] by (simp add: t_def)
  ultimately have steps: "wd_step\<^sup>*\<^sup>* (s, []) (t, [])"
    by (meson converse_rtranclp_into_rtranclp rtranclp.rtrancl_refl)
  have n: "RMBToCredits (wr_Amount req) = c" using assms(6,9,10) by (simp add: RMBToCredits_CreditsToRMB)
  have a: "add64 (ub_Balance row) c = ub_Balance row + c"
      "add64 (ub_Balance row + c) c = ub_Balance row + 2 * c"
    using assms(7-10) by (auto intro!: add64_id simp: in64_def) (subst add64_id; simp add: in64_def)
  have b1: "lg_balances (wd_ledger s1) = refunded req s"
    unfolding s1_def by (rule commit_call_calm) (use assms(3) in auto)
  have b2: "lg_balances (wd_ledger t) = refunded req s1"
    unfolding t_def by (rule commit_call_calm) (use assms(4) in auto)
  have "\<exists>row'. lg_balances (wd_ledger t) (wr_UserID req) = Some row' \<and> ub_Balance row' = ub_Balance row + 2 * c"
    by (simp add: b2 refunded_def b1 assms(5) n a)
  then show ?thesis using steps by blast
qed

theorem interleaved_refunds_pay_twice_witness:
  "\<exists>t row'. wd_step\<^sup>*\<^sup>* (sample_withdrawals, []) (t, []) \<and>
     lg_balances (wd_ledger t) 7 = Some row' \<and> ub_Balance row' = 1600"
proof -
  have "load_for (calm_withdraw 1) (CallReject 5 1 ''no'') sample_withdrawals = Inr (sample_request, 0)"
    "load_for (calm_withdraw 1) (CallCancel 5 7) sample_withdrawals = Inr (sample_request, 0)"
    by (simp_all add: load_request_def first_where_def sample_withdrawals_def sample_request_def
        require_status_def load_tenant_def query_balance_def env_of_def calm_withdraw_def
        zero_UserBalance_def)
  from interleaved_refunds_pay_twice [OF this, of "zero_UserBalance\<lparr>ub_UserID := 7, ub_Balance := 1000\<rparr>" 300]
  show ?thesis
    by (simp add: calm_withdraw_def sample_withdrawals_def sample_request_def)
qed

text \<open>With Redis configured, a user who has got a withdrawal request through gets no second one within
  24 hours, as long as nothing releases the lock: it is refused and changes nothing.\<close>

theorem one_pending_withdrawal:
  assumes "CreateWithdrawal env u a bank s = (Inr req, s1)" "we_redis env" "we_redis env'"
    and "wd_locks t u = wd_locks s1 u" "le_now env' < le_now env + day"
  shows "\<exists>e. CreateWithdrawal env' u a' bank' t = (Inl e, t)"
proof -
  have "wd_locks s1 u = Some (le_now env + day)"
    by (rule CreateWithdrawal_cases [of env u a bank s]) (use assms(1,2) in auto)
  then have "acquire_pending env' u t = (Inl LockTaken, t)"
    using assms(3-5) by (simp add: acquire_pending_def)
  then show ?thesis by (auto simp: CreateWithdrawal_def split: sum.split)
qed

lemma sample_create:
  "\<exists>s1. CreateWithdrawal (calm_withdraw 1) 7 400 '''' (sample_withdrawals\<lparr>wd_ledger :=
     (wd_ledger sample_withdrawals)\<lparr>lg_ref_configs := [\<lparr>rc_ID = 1, rc_CommissionRate = 0, rc_AttributionDays = 90,
       rc_LifetimeCapCredits = 0, rc_MinPaidCreditsUnlock = 0, rc_MinWithdrawAmount = 100, rc_SettleDays = 7,
       rc_PersonalCashbackRate = 0, rc_IsActive = True\<rparr>]\<rparr>\<rparr>) = (Inr (new_request sample_withdrawals 7 400 ''''), s1)"
  by (simp add: CreateWithdrawal_def withdraw_checks_def calm_withdraw_def active_ref_config_def first_where_def
      sample_withdrawals_def query_balance_def env_of_def acquire_pending_def create_locked_def create_tx_def
      transaction_def andThen_def take_balance_def create_request_def Let_def on_ledger_def createRecord_def
      guarded_def modify_def ret_def empty_ledger_def new_request_def fresh_request_id_def zero_UserBalance_def)

theorem one_pending_withdrawal_witness:
  "\<exists>s1 e. CreateWithdrawal (calm_withdraw 2) 7 200 '''' s1 = (Inl e, s1)"
proof -
  obtain s0 s1 where "CreateWithdrawal (calm_withdraw 1) 7 400 '''' s0 =
      (Inr (new_request sample_withdrawals 7 400 ''''), s1)"
    using sample_create by blast
  from one_pending_withdrawal [OF this, of "calm_withdraw 2" s1 200 "''''"]
  show ?thesis by (auto simp: calm_withdraw_def day_def)
qed


text \<open>C9: A commission is credited once. After a settlement of a commission has gone through, settling it
  again from any stale copy of the record changes nothing and credits nobody.\<close>

theorem commission_credited_once:
  assumes "settleOne env rec s = (Inr c, t)" "cm_ID rec' = cm_ID rec"
  shows "snd (settleOne env' rec' t) = t"
proof -
  have t: "\<not> (cm_ID x = cm_ID rec \<and> cm_Status x = ''PENDING'' \<and> \<not> cm_Credited x)"
    if "x \<in> set (lg_commissions t)" for x
    using assms(1) that unfolding settleOne_def transaction_ok
    by (auto simp: Let_def andThen_ok addBalance_def split: if_splits)
  then have m: "map (\<lambda>x. if cm_ID x = cm_ID rec \<and> cm_Status x = ''PENDING'' \<and> \<not> cm_Credited x
      then x\<lparr>cm_Status := ''SETTLED'', cm_Credited := True, cm_SettleAt := Some (le_now env')\<rparr> else x)
      (lg_commissions t) = lg_commissions t"
    by (auto intro!: map_idI)
  show ?thesis
    using t by (auto simp: settleOne_def transaction_def assms(2) Let_def m)
qed

definition sample_commission :: CommissionRecord where
  "sample_commission = \<lparr>cm_ID = 3, cm_CreatedAt = 0, cm_TenantID = 2, cm_UserID = 7, cm_SourceUserID = 8,
     cm_SourceTenantID = 2, cm_OrderAmount = 1000, cm_OrderAmountRMB = 0, cm_CommissionRate = 0,
     cm_CommissionAmount = 100, cm_CommissionAmountRMB = 0, cm_Type = ''REFERRAL'', cm_Status = ''PENDING'',
     cm_RelatedID = '''', cm_AttributionID = None, cm_OverrideID = None, cm_RuleID = None,
     cm_EffectiveRate = 0, cm_Credited = False, cm_SettleAt = None\<rparr>"

theorem commission_credited_once_witness:
  "\<exists>t. settleOne calm sample_commission (sample_ledger\<lparr>lg_commissions := [sample_commission]\<rparr>) = (Inr True, t) \<and>
     snd (settleOne calm sample_commission t) = t"
proof -
  have "\<exists>t. settleOne calm sample_commission (sample_ledger\<lparr>lg_commissions := [sample_commission]\<rparr>) = (Inr True, t)"
    by (simp add: settleOne_def transaction_def Let_def sample_commission_def calm_def andThen_def
        addBalance_def guarded_def modify_def createRecord_def ret_def)
  then show ?thesis using commission_credited_once by blast
qed

text \<open>Money that has been withdrawn stays spendable: a request for a withdrawal takes the amount from
  the legacy column, and on a row that carries units every charge reads the units, so what the
  account can spend is what it was before.\<close>

theorem withdrawn_money_still_spendable:
  assumes "CreateWithdrawal env u a bank s = (Inr req, t)"
    and "lg_balances (wd_ledger s) u = Some row" "ub_BalanceUnits row \<noteq> 0"
  shows "\<exists>row'. lg_balances (wd_ledger t) u = Some row' \<and>
    ub_Balance row' = sub64 (ub_Balance row) a \<and> row_funds row' = row_funds row \<and> row_held row' = row_held row"
proof -
  have "requested u a bank s t"
    by (rule CreateWithdrawal_cases [of env u a bank s]) (use assms(1) in auto)
  then show ?thesis
    using assms(2,3) by (auto simp: requested_def row_funds_def row_held_def hydrate_units hydrate_one_def)
qed

lemma sample_create_units:
  "\<exists>t. CreateWithdrawal (calm_withdraw 1) 7 80 '''' (sample_withdrawals\<lparr>wd_ledger :=
     sample_ledger\<lparr>lg_ref_configs := [\<lparr>rc_ID = 1, rc_CommissionRate = 0, rc_AttributionDays = 90,
       rc_LifetimeCapCredits = 0, rc_MinPaidCreditsUnlock = 0, rc_MinWithdrawAmount = 50, rc_SettleDays = 7,
       rc_PersonalCashbackRate = 0, rc_IsActive = True\<rparr>]\<rparr>\<rparr>) = (Inr (new_request sample_withdrawals 7 80 ''''), t)"
proof -
  have b: "ub_Balance sample_row = 100" by code_simp
  show ?thesis
    by (simp add: CreateWithdrawal_def withdraw_checks_def calm_withdraw_def active_ref_config_def first_where_def
        sample_withdrawals_def query_balance_def env_of_def acquire_pending_def create_locked_def create_tx_def
        transaction_def andThen_def take_balance_def create_request_def Let_def on_ledger_def createRecord_def
        guarded_def modify_def ret_def sample_ledger_def new_request_def fresh_request_id_def b)
qed

theorem withdrawn_money_still_spendable_witness:
  "\<exists>s t row'. CreateWithdrawal (calm_withdraw 1) 7 80 '''' s = (Inr (new_request sample_withdrawals 7 80 ''''), t) \<and>
     lg_balances (wd_ledger t) 7 = Some row' \<and> row_funds row' = 1500000"
proof -
  define s where "s = sample_withdrawals\<lparr>wd_ledger :=
     sample_ledger\<lparr>lg_ref_configs := [\<lparr>rc_ID = 1, rc_CommissionRate = 0, rc_AttributionDays = 90,
       rc_LifetimeCapCredits = 0, rc_MinPaidCreditsUnlock = 0, rc_MinWithdrawAmount = 50, rc_SettleDays = 7,
       rc_PersonalCashbackRate = 0, rc_IsActive = True\<rparr>]\<rparr>\<rparr>"
  obtain t where t: "CreateWithdrawal (calm_withdraw 1) 7 80 '''' s = (Inr (new_request sample_withdrawals 7 80 ''''), t)"
    using sample_create_units unfolding s_def by blast
  have "lg_balances (wd_ledger s) 7 = Some sample_row" by (simp add: s_def sample_ledger_def)
  from withdrawn_money_still_spendable [OF t this] show ?thesis
    using t sample_row_facts by auto
qed

end
