(* ===== verification/Json.thy ===== *)
theory Json
  imports Price_Matrix "HOL-Library.List_Lexorder" "HOL-Library.Char_ord" "HOL-Library.Multiset"
begin

text \<open>
  The JSON values the billing service hashes, and its canonical encoder (\<open>canonicalJSON\<close>,
  \<open>marshalSorted\<close> of \<open>internal/service/billing/billing_quote_service.go\<close>). The
  standard encoder of a string, a number or a constant is a parameter (\<open>leaf\<close>); what it
  prints for an integer is read back as a \<open>float64\<close>, as \<open>json.Unmarshal\<close> does into an
  \<open>interface{}\<close>.
\<close>

datatype json =
    JNull | JBool bool | JInt int64 | JNum float64 | JStr string
  | JArr "json list" | JObj "(string \<times> json) list"

fun json_of_iface :: "iface \<Rightarrow> json" where
  "json_of_iface (IStr s) = JStr s"
| "json_of_iface (IBool b) = JBool b"
| "json_of_iface (INum x) = JNum x"

text \<open>\<open>json.Marshal\<close> followed by \<open>json.Unmarshal\<close> into an \<open>interface{}\<close>.\<close>

primrec as_generic :: "json \<Rightarrow> json" where
  "as_generic JNull = JNull"
| "as_generic (JBool b) = JBool b"
| "as_generic (JInt n) = JNum (i2f n)"
| "as_generic (JNum x) = JNum x"
| "as_generic (JStr s) = JStr s"
| "as_generic (JArr xs) = JArr (map as_generic xs)"
| "as_generic (JObj kvs) = JObj (map (map_prod (\<lambda>k. k) as_generic) kvs)"

fun commas :: "string list \<Rightarrow> string" where
  "commas [] = ''''"
| "commas [x] = x"
| "commas (x # y # ys) = x @ '','' @ commas (y # ys)"

primrec marshalSorted :: "(json \<Rightarrow> string) \<Rightarrow> json \<Rightarrow> string" where
  "marshalSorted leaf JNull = leaf JNull"
| "marshalSorted leaf (JBool b) = leaf (JBool b)"
| "marshalSorted leaf (JInt n) = leaf (JInt n)"
| "marshalSorted leaf (JNum x) = leaf (JNum x)"
| "marshalSorted leaf (JStr s) = leaf (JStr s)"
| "marshalSorted leaf (JArr xs) = ''['' @ commas (map (marshalSorted leaf) xs) @ '']''"
| "marshalSorted leaf (JObj kvs) =
     ''{'' @ commas (map (\<lambda>(k, v). leaf (JStr k) @ '':'' @ v)
               (sort_key fst (map (map_prod (\<lambda>k. k) (marshalSorted leaf)) kvs))) @ ''}''"

definition canonicalJSON :: "(json \<Rightarrow> string) \<Rightarrow> json \<Rightarrow> string" where
  "canonicalJSON leaf v = marshalSorted leaf (as_generic v)"

section \<open>Objects up to the order of their entries\<close>

text \<open>A Go map has distinct keys and no order: two values that list the same entries in another
  order, at whatever depth, are the same value.\<close>

inductive same_json :: "json \<Rightarrow> json \<Rightarrow> bool" where
  same: "same_json v v"
| arr: "list_all2 same_json xs ys \<Longrightarrow> same_json (JArr xs) (JArr ys)"
| obj: "distinct (map fst kvs) \<Longrightarrow> mset kvs = mset mid \<Longrightarrow>
        list_all2 (\<lambda>a b. fst a = fst b \<and> same_json (snd a) (snd b)) mid lvs \<Longrightarrow>
        same_json (JObj kvs) (JObj lvs)"

inductive_cases same_json_ObjE: "same_json (JObj kvs) w"

lemma filter_eq_single: "distinct zs \<Longrightarrow> k \<in> set zs \<Longrightarrow> filter (\<lambda>x. x = k) zs = [k]"
  by (induction zs) (auto simp: filter_empty_conv)

lemma sort_key_mset_eq:
  assumes "mset xs = mset ys" "distinct (map f xs)"
  shows "sort_key f xs = sort_key f ys"
proof (rule properties_for_sort_key [symmetric])
  show "mset (sort_key f xs) = mset ys" using assms by simp
  show "sorted (map f (sort_key f xs))" by simp
  have ix: "inj_on f (set xs)" "distinct xs" using assms(2) by (auto simp: distinct_map)
  have iy: "inj_on f (set ys)" "distinct ys"
    using ix assms(1) by (metis set_mset_mset, metis mset_eq_imp_distinct_iff)
  show "filter (\<lambda>x. f k = f x) (sort_key f xs) = filter (\<lambda>x. f k = f x) ys"
    if "k \<in> set (sort_key f xs)" for k
  proof -
    have sets: "set (sort_key f xs) = set ys" "distinct (sort_key f xs)"
      using assms(1) ix(2) by (metis set_mset_mset set_sort, simp)
    have one: "filter (\<lambda>x. f k = f x) zs = [k]" if "set zs = set ys" "distinct zs" for zs
    proof -
      have "filter (\<lambda>x. f k = f x) zs = filter (\<lambda>x. x = k) zs"
        using that(1) iy(1) \<open>k \<in> _\<close> sets(1) by (intro filter_cong) (auto dest: inj_onD)
      then show ?thesis using that \<open>k \<in> _\<close> sets(1) by (simp add: filter_eq_single)
    qed
    then show ?thesis using sets iy(2) by metis
  qed
qed

lemma canonicalJSON_simps [simp]:
  "canonicalJSON leaf (JArr xs) = ''['' @ commas (map (canonicalJSON leaf) xs) @ '']''"
  "canonicalJSON leaf (JObj kvs) =
     ''{'' @ commas (map (\<lambda>(k, v). leaf (JStr k) @ '':'' @ v)
               (sort_key fst (map (map_prod (\<lambda>k. k) (canonicalJSON leaf)) kvs))) @ ''}''"
proof -
  have c: "canonicalJSON leaf = (\<lambda>v. marshalSorted leaf (as_generic v))"
    by (simp add: fun_eq_iff canonicalJSON_def)
  show "canonicalJSON leaf (JArr xs) = ''['' @ commas (map (canonicalJSON leaf) xs) @ '']''"
    by (simp add: c comp_def)
  show "canonicalJSON leaf (JObj kvs) =
     ''{'' @ commas (map (\<lambda>(k, v). leaf (JStr k) @ '':'' @ v)
               (sort_key fst (map (map_prod (\<lambda>k. k) (canonicalJSON leaf)) kvs))) @ ''}''"
    by (simp add: c comp_def case_prod_unfold map_prod_def)
qed

lemma same_json_canonical: "same_json v w \<Longrightarrow> canonicalJSON leaf v = canonicalJSON leaf w"
proof (induction rule: same_json.induct)
  case (arr xs ys)
  then have "map (canonicalJSON leaf) xs = map (canonicalJSON leaf) ys"
    by (simp add: list_all2_conv_all_nth list_eq_iff_nth_eq)
  then show ?case by simp
next
  case (obj kvs mid lvs)
  let ?g = "map_prod (\<lambda>k. k) (canonicalJSON leaf)"
  have "map ?g mid = map ?g lvs"
    using obj.IH by (simp add: list_all2_conv_all_nth list_eq_iff_nth_eq map_prod_def case_prod_beta)
  moreover have "sort_key fst (map ?g kvs) = sort_key fst (map ?g mid)"
    using obj.hyps by (intro sort_key_mset_eq) (simp_all add: comp_def)
  ultimately show ?case by simp
qed simp

end
