(* ===== verification/Quote.thy ===== *)
theory Quote
  imports Pricing_Units Json
begin

text \<open>
  The quote of a call: \<open>internal/service/billing/billing_quote.go\<close> and
  \<open>billing_quote_service.go\<close>. A cost becomes a list of line items, a
  \<open>BillingQuote\<close> with its hash, and the map stored in the call log. Previews, charges and
  replays all format through \<open>buildBillingQuote\<close>. SHA-256 (with the hexadecimal text)
  and the JSON text of leaves are parameters, the fields of \<open>hash_env\<close>.
\<close>

section \<open>Data\<close>

record QuoteUsage =
  qu_InputTokens :: int64
  qu_OutputTokens :: int64
  qu_TotalTokens :: int64
  qu_CacheReadTokens :: int64
  qu_CacheWriteTokens :: int64
  qu_CacheWrite1hTokens :: int64
  qu_ReasoningTokens :: int64
  qu_ImageCount :: int64
  qu_DurationSec :: float64
  qu_CharCount :: int64
  qu_CallCount :: int64

text \<open>\<open>provider.Usage\<close>, what the upstream reports.\<close>

record ProviderUsage =
  pu_PromptTokens :: int64
  pu_CompletionTokens :: int64
  pu_TotalTokens :: int64
  pu_CacheReadTokens :: int64
  pu_CacheWriteTokens :: int64
  pu_CacheWrite1hTokens :: int64
  pu_ReasoningTokens :: int64

record QuoteRequest =
  qr_Scenario :: string
  qr_RequestID :: string
  qr_ModelID :: nat
  qr_ModelName :: string
  qr_UserID :: nat
  qr_TenantID :: nat
  qr_AgentLevel :: int64
  qr_Usage :: QuoteUsage
  qr_ThinkingMode :: bool
  qr_FreezeID :: string
  qr_DimValues :: "(string \<times> iface) list"

record QuoteLineItem =
  li_Component :: string
  li_UsageKey :: string
  li_Quantity :: json
  li_Unit :: string
  li_Denominator :: int64
  li_UnitPriceCredits :: int64
  li_UnitPriceRMB :: float64
  li_CostCredits :: int64
  li_CostUnits :: int64
  li_CostRMB :: float64
  li_Source :: string
  li_Section :: string

record BillingQuote =
  bq_SchemaVersion :: int64
  bq_EngineVersion :: string
  bq_Scenario :: string
  bq_QuoteID :: string
  bq_ModelID :: nat
  bq_ModelName :: string
  bq_ModelType :: string
  bq_PricingUnit :: string
  bq_Currency :: string
  bq_PricingSource :: string
  bq_Usage :: QuoteUsage
  bq_LineItems :: "QuoteLineItem list"
  bq_TotalCredits :: int64
  bq_TotalUnits :: int64
  bq_TotalCreditsDecimal :: float64
  bq_TotalRMB :: float64
  bq_PlatformCostCredits :: int64
  bq_PlatformCostUnits :: int64
  bq_PlatformCreditsDecimal :: float64
  bq_PlatformCostRMB :: float64
  bq_ActualCostCredits :: int64
  bq_ActualCostUnits :: int64
  bq_ActualCreditsDecimal :: float64
  bq_UnderCollectedCredits :: int64
  bq_UnderCollectedUnits :: int64
  bq_UnderCollectedCreditsDecimal :: float64
  bq_BillingStatus :: string
  bq_MatchedTierName :: string
  bq_MatchedTierIdx :: int64
  bq_UserDiscountType :: string
  bq_UserDiscountID :: "nat option"
  bq_UserDiscountRate :: "float64 option"
  bq_ThinkingModeApplied :: bool
  bq_MatchedDimValues :: "(string \<times> iface) list option"
  bq_MatchedMatrixNote :: string
  bq_Warnings :: "string list"
  bq_QuoteHash :: string

text \<open>\<open>he_ok\<close>: the standard encoder accepts the value.\<close>

record hash_env =
  he_leaf :: "json \<Rightarrow> string"
  he_sha256_hex :: "string \<Rightarrow> string"
  he_ok :: "json \<Rightarrow> bool"

section \<open>Usage\<close>

definition zero_QuoteUsage :: QuoteUsage where
  "zero_QuoteUsage =
     \<lparr>qu_InputTokens = 0, qu_OutputTokens = 0, qu_TotalTokens = 0, qu_CacheReadTokens = 0,
      qu_CacheWriteTokens = 0, qu_CacheWrite1hTokens = 0, qu_ReasoningTokens = 0,
      qu_ImageCount = 0, qu_DurationSec = 0, qu_CharCount = 0, qu_CallCount = 0\<rparr>"

definition QuoteUsageFromProvider :: "ProviderUsage \<Rightarrow> QuoteUsage" where
  "QuoteUsageFromProvider u =
     zero_QuoteUsage\<lparr>qu_InputTokens := pu_PromptTokens u, qu_OutputTokens := pu_CompletionTokens u,
       qu_TotalTokens := pu_TotalTokens u, qu_CacheReadTokens := pu_CacheReadTokens u,
       qu_CacheWriteTokens := pu_CacheWriteTokens u,
       qu_CacheWrite1hTokens := pu_CacheWrite1hTokens u,
       qu_ReasoningTokens := pu_ReasoningTokens u\<rparr>"

definition QuoteUsageFromUnit :: "UsageInput \<Rightarrow> QuoteUsage" where
  "QuoteUsageFromUnit u =
     zero_QuoteUsage\<lparr>qu_InputTokens := ui_InputTokens u, qu_OutputTokens := ui_OutputTokens u,
       qu_ImageCount := ui_ImageCount u, qu_DurationSec := ui_DurationSec u,
       qu_CharCount := ui_CharCount u, qu_CallCount := ui_CallCount u\<rparr>"

definition unit_pricing_units :: "string list" where
  "unit_pricing_units =
     [''per_image'', ''per_second'', ''per_minute'', ''per_hour'', ''per_10k_characters'',
      ''per_k_chars'', ''per_million_characters'', ''per_call'']"

definition isUnitPricingUnit :: "string \<Rightarrow> bool" where
  "isUnitPricingUnit pu \<longleftrightarrow>
     (if pu = '''' \<or> pu = ''per_million_tokens'' then False
      else pu \<in> set unit_pricing_units)"

definition roundFloat :: "float64 \<Rightarrow> nat \<Rightarrow> float64" where
  "roundFloat v places =
     (if places = 0 then math_Round v
      else fdiv (math_Round (fmul v (10 ^ places))) (10 ^ places))"

section \<open>Line items\<close>

definition makeTokenLineItem ::
  "string \<Rightarrow> string \<Rightarrow> int64 \<Rightarrow> int64 \<Rightarrow> float64 \<Rightarrow> int64 \<Rightarrow> string \<Rightarrow> QuoteLineItem" where
  "makeTokenLineItem component usageKey quantity unitPriceCredits unitPriceRMB costUnits source =
     \<lparr>li_Component = component, li_UsageKey = usageKey, li_Quantity = JInt quantity,
      li_Unit = ''token'', li_Denominator = 1000000, li_UnitPriceCredits = unitPriceCredits,
      li_UnitPriceRMB = unitPriceRMB, li_CostCredits = BillingUnitsToCredits costUnits,
      li_CostUnits = costUnits, li_CostRMB = BillingUnitsToRMB costUnits,
      li_Source = source, li_Section = ''''\<rparr>"

definition nonZeroUnits :: "int64 \<Rightarrow> int64 \<Rightarrow> int64" where
  "nonZeroUnits units legacyCredits =
     (if units > 0 then units
      else if legacyCredits > 0 then CreditsToBillingUnits legacyCredits else 0)"

text \<open>The parts of \<open>buildTokenLineItems\<close>, one per \<open>append\<close>.\<close>

definition has_cache :: "CostResult \<Rightarrow> bool" where
  "has_cache cr \<longleftrightarrow>
     cr_CacheReadTokens cr > 0 \<or> cr_CacheWriteTokens cr > 0 \<or> cr_CacheWrite1hTokens cr > 0"

definition regular_items :: "QuoteRequest \<Rightarrow> CostResult \<Rightarrow> QuoteLineItem list" where
  "regular_items req cr =
     (let tokens = (if cr_RegularInputTokens cr = 0 \<and> qu_InputTokens (qr_Usage req) > 0 \<and> \<not> has_cache cr
                    then qu_InputTokens (qr_Usage req) else cr_RegularInputTokens cr);
          cost = (if has_cache cr then cr_RegularInputCost cr else cr_InputCost cr);
          units0 = (if has_cache cr then cr_RegularInputCostUnits cr else cr_InputCostUnits cr);
          units = (if units0 = 0 \<and> cost > 0 then CreditsToBillingUnits cost else units0)
      in if tokens > 0 \<or> cost > 0
         then [makeTokenLineItem ''regular_input'' ''input_tokens'' tokens
                 (pr_InputPricePerMillion (cr_PriceDetail cr)) (pr_InputPriceRMB (cr_PriceDetail cr))
                 units (pr_Source (cr_PriceDetail cr))]
         else [])"

definition cache_read_items :: "CostResult \<Rightarrow> QuoteLineItem list" where
  "cache_read_items cr =
     (if cr_CacheReadTokens cr > 0 \<or> cr_CacheReadCost cr > 0
      then [makeTokenLineItem ''cache_read_input'' ''cache_read_tokens'' (cr_CacheReadTokens cr)
              (cr_CacheReadPricePerMillion cr) (CreditsToRMB (cr_CacheReadPricePerMillion cr))
              (nonZeroUnits (cr_CacheReadCostUnits cr) (cr_CacheReadCost cr))
              (pr_Source (cr_PriceDetail cr))]
      else [])"

definition write1h_cost :: "CostResult \<Rightarrow> int64 \<times> int64" where
  "write1h_cost cr =
     (if cr_CacheWrite1hTokens cr > 0 \<and> cr_CacheWrite1hPricePerMillion cr > 0
      then (div64 (mul64 (cr_CacheWrite1hPricePerMillion cr) (cr_CacheWrite1hTokens cr)) 1000000,
            CostUnitsFromCreditsPerMillion (cr_CacheWrite1hPricePerMillion cr) (cr_CacheWrite1hTokens cr))
      else (0, 0))"

definition less_or_zero :: "int64 \<Rightarrow> int64 \<Rightarrow> int64" where
  "less_or_zero a b = (let d = sub64 a b in if d < 0 then 0 else d)"

definition cache_write_items :: "CostResult \<Rightarrow> QuoteLineItem list" where
  "cache_write_items cr =
     (let (write1hCost, write1hCostUnits) = write1h_cost cr;
          tokens = less_or_zero (cr_CacheWriteTokens cr) (cr_CacheWrite1hTokens cr);
          cost = less_or_zero (cr_CacheWriteCost cr) write1hCost;
          units0 = less_or_zero (cr_CacheWriteCostUnits cr) write1hCostUnits;
          units = (if units0 = 0 \<and> cost > 0 then CreditsToBillingUnits cost else units0)
      in (if tokens > 0 \<or> cost > 0
          then [makeTokenLineItem ''cache_write_input'' ''cache_write_tokens'' tokens
                  (cr_CacheWritePricePerMillion cr) (CreditsToRMB (cr_CacheWritePricePerMillion cr))
                  units (pr_Source (cr_PriceDetail cr))]
          else []) @
         (if cr_CacheWrite1hTokens cr > 0 \<or> write1hCost > 0
          then [makeTokenLineItem ''cache_write_1h_input'' ''cache_write_1h_tokens''
                  (cr_CacheWrite1hTokens cr) (cr_CacheWrite1hPricePerMillion cr)
                  (CreditsToRMB (cr_CacheWrite1hPricePerMillion cr))
                  (nonZeroUnits write1hCostUnits write1hCost) (pr_Source (cr_PriceDetail cr))]
          else []))"

definition output_items :: "QuoteRequest \<Rightarrow> CostResult \<Rightarrow> QuoteLineItem list" where
  "output_items req cr =
     (let cost = less_or_zero (cr_OutputCost cr) (cr_ThinkingOutputCost cr);
          units0 = less_or_zero (cr_OutputCostUnits cr) (cr_ThinkingOutputCostUnits cr);
          units = (if units0 = 0 \<and> cost > 0 then CreditsToBillingUnits cost else units0)
      in if qu_OutputTokens (qr_Usage req) > 0 \<or> cost > 0
         then [makeTokenLineItem ''output'' ''output_tokens'' (qu_OutputTokens (qr_Usage req))
                 (pr_OutputPricePerMillion (cr_PriceDetail cr)) (pr_OutputPriceRMB (cr_PriceDetail cr))
                 units (pr_Source (cr_PriceDetail cr))]
         else [])"

definition thinking_items :: "QuoteRequest \<Rightarrow> CostResult \<Rightarrow> QuoteLineItem list" where
  "thinking_items req cr =
     (if cr_ThinkingOutputCost cr > 0
      then (let d = fsub (cr_ThinkingOutputPriceRMB cr) (pr_OutputPriceRMB (cr_PriceDetail cr))
            in [makeTokenLineItem ''thinking_output'' ''completion_tokens''
                  (qu_OutputTokens (qr_Usage req)) (cr_ThinkingOutputPricePerMillion cr)
                  (if d < 0 then 0 else d)
                  (nonZeroUnits (cr_ThinkingOutputCostUnits cr) (cr_ThinkingOutputCost cr))
                  (pr_Source (cr_PriceDetail cr))])
      else [])"

definition buildTokenLineItems :: "QuoteRequest \<Rightarrow> CostResult \<Rightarrow> QuoteLineItem list" where
  "buildTokenLineItems req cr =
     regular_items req cr @ cache_read_items cr @ cache_write_items cr @ output_items req cr @
     thinking_items req cr"

definition unitQuoteComponentForUsage ::
  "string \<Rightarrow> QuoteUsage \<Rightarrow> string \<times> string \<times> json \<times> string \<times> int64" where
  "unitQuoteComponentForUsage u q =
     (if u = ''per_image'' then (''image_unit'', ''image_count'', JInt (qu_ImageCount q), ''image'', 1)
      else if u = ''per_second''
        then (''duration_second'', ''duration_sec'', JNum (qu_DurationSec q), ''second'', 1)
      else if u = ''per_minute''
        then (''duration_minute'', ''duration_sec'', JNum (roundFloat (fdiv (qu_DurationSec q) 60) 6), ''minute'', 1)
      else if u = ''per_10k_characters'' \<or> u = ''per_k_chars''
        then (''character_10k'', ''char_count'', JNum (roundFloat (fdiv (i2f (qu_CharCount q)) 10000) 6),
              ''10k_characters'', 1)
      else if u = ''per_million_characters''
        then (''character_million'', ''char_count'', JNum (roundFloat (fdiv (i2f (qu_CharCount q)) 1000000) 6),
              ''million_characters'', 1)
      else if u = ''per_call'' then (''call'', ''call_count'', JInt (qu_CallCount q), ''call'', 1)
      else if u = ''per_hour''
        then (''duration_hour'', ''duration_sec'', JNum (roundFloat (fdiv (qu_DurationSec q) 3600) 6), ''hour'', 1)
      else (''regular_input'', ''input_tokens'', JInt (qu_InputTokens q), ''token'', 1000000))"

definition buildUnitLineItems :: "QuoteRequest \<Rightarrow> AIModel \<Rightarrow> CostResult \<Rightarrow> QuoteLineItem list" where
  "buildUnitLineItems req aiModel cr =
     (let (component, usageKey, quantity, unit, denominator) =
            unitQuoteComponentForUsage (am_PricingUnit aiModel) (qr_Usage req);
          units = nonZeroUnits (cr_TotalCostUnits cr) (cr_TotalCost cr)
      in [\<lparr>li_Component = component, li_UsageKey = usageKey, li_Quantity = quantity,
           li_Unit = unit, li_Denominator = denominator,
           li_UnitPriceCredits = pr_InputPricePerMillion (cr_PriceDetail cr),
           li_UnitPriceRMB = pr_InputPriceRMB (cr_PriceDetail cr),
           li_CostCredits = cr_TotalCost cr, li_CostUnits = units,
           li_CostRMB = BillingUnitsToRMB units, li_Source = pr_Source (cr_PriceDetail cr),
           li_Section = ''''\<rparr>])"

fun sum_units :: "QuoteLineItem list \<Rightarrow> int64 \<Rightarrow> int64" where
  "sum_units [] acc = acc"
| "sum_units (li # rest) acc = sum_units rest (add64 acc (li_CostUnits li))"

definition lineItemsWithAdjustmentStruct :: "QuoteLineItem list \<Rightarrow> int64 \<Rightarrow> QuoteLineItem list" where
  "lineItemsWithAdjustmentStruct items totalUnits =
     (let delta = sub64 totalUnits (sum_units items 0)
      in if delta \<noteq> 0
         then items @
           [\<lparr>li_Component = ''minimum_charge_adjustment'', li_UsageKey = ''minimum_charge'',
             li_Quantity = JInt 1, li_Unit = ''request'', li_Denominator = 1,
             li_UnitPriceCredits = BillingUnitsToCredits delta,
             li_UnitPriceRMB = BillingUnitsToRMB delta,
             li_CostCredits = BillingUnitsToCredits delta, li_CostUnits = delta,
             li_CostRMB = BillingUnitsToRMB delta, li_Source = ''billing_minimum'', li_Section = ''''\<rparr>]
         else items)"

section \<open>Quotes as JSON\<close>

definition key_if :: "bool \<Rightarrow> string \<Rightarrow> json \<Rightarrow> (string \<times> json) list" where
  "key_if b k v = (if b then [(k, v)] else [])"

definition json_of_dims :: "(string \<times> iface) list \<Rightarrow> json" where
  "json_of_dims d = JObj (map (map_prod (\<lambda>k. k) json_of_iface) d)"

definition json_opt :: "('a \<Rightarrow> json) \<Rightarrow> 'a option \<Rightarrow> json" where
  "json_opt f x = (case x of None \<Rightarrow> JNull | Some v \<Rightarrow> f v)"

text \<open>The struct tags of a usage and \<open>QuoteUsage.ToMap\<close> list the same non-zero fields.\<close>

definition usage_ToMap :: "QuoteUsage \<Rightarrow> json" where
  "usage_ToMap u = JObj
     (key_if (qu_InputTokens u \<noteq> 0) ''input_tokens'' (JInt (qu_InputTokens u)) @
      key_if (qu_OutputTokens u \<noteq> 0) ''output_tokens'' (JInt (qu_OutputTokens u)) @
      key_if (qu_TotalTokens u \<noteq> 0) ''total_tokens'' (JInt (qu_TotalTokens u)) @
      key_if (qu_CacheReadTokens u \<noteq> 0) ''cache_read_tokens'' (JInt (qu_CacheReadTokens u)) @
      key_if (qu_CacheWriteTokens u \<noteq> 0) ''cache_write_tokens'' (JInt (qu_CacheWriteTokens u)) @
      key_if (qu_CacheWrite1hTokens u \<noteq> 0) ''cache_write_1h_tokens'' (JInt (qu_CacheWrite1hTokens u)) @
      key_if (qu_ReasoningTokens u \<noteq> 0) ''reasoning_tokens'' (JInt (qu_ReasoningTokens u)) @
      key_if (qu_ImageCount u \<noteq> 0) ''image_count'' (JInt (qu_ImageCount u)) @
      key_if (qu_DurationSec u \<noteq> 0) ''duration_sec'' (JNum (qu_DurationSec u)) @
      key_if (qu_CharCount u \<noteq> 0) ''char_count'' (JInt (qu_CharCount u)) @
      key_if (qu_CallCount u \<noteq> 0) ''call_count'' (JInt (qu_CallCount u)))"

definition item_fields :: "QuoteLineItem \<Rightarrow> (string \<times> json) list" where
  "item_fields li =
     [(''component'', JStr (li_Component li)), (''usage_key'', JStr (li_UsageKey li)),
      (''quantity'', li_Quantity li), (''unit'', JStr (li_Unit li)),
      (''denominator'', JInt (li_Denominator li)),
      (''unit_price_credits'', JInt (li_UnitPriceCredits li)),
      (''unit_price_rmb'', JNum (li_UnitPriceRMB li)),
      (''cost_credits'', JInt (li_CostCredits li)), (''cost_units'', JInt (li_CostUnits li)),
      (''cost_rmb'', JNum (li_CostRMB li)), (''source'', JStr (li_Source li))] @
     key_if (li_Section li \<noteq> '''') ''section'' (JStr (li_Section li))"

text \<open>The struct of a line item as the encoder writes it, and \<open>QuoteLineItem.ToMap\<close>, which
  adds a decimal amount.\<close>

definition json_of_item :: "QuoteLineItem \<Rightarrow> json" where
  "json_of_item li = JObj (item_fields li)"

definition item_ToMap :: "QuoteLineItem \<Rightarrow> json" where
  "item_ToMap li =
     JObj ((''cost_credits_decimal'', JNum (BillingUnitsToCreditAmount (li_CostUnits li))) # item_fields li)"

definition quote_payload :: "BillingQuote \<Rightarrow> json" where
  "quote_payload q = JObj
     [(''schema_version'', JInt (bq_SchemaVersion q)), (''engine_version'', JStr (bq_EngineVersion q)),
      (''scenario'', JStr (bq_Scenario q)), (''quote_id'', JStr (bq_QuoteID q)),
      (''model_id'', JInt (int (bq_ModelID q))), (''model_name'', JStr (bq_ModelName q)),
      (''pricing_unit'', JStr (bq_PricingUnit q)), (''pricing_source'', JStr (bq_PricingSource q)),
      (''usage'', usage_ToMap (bq_Usage q)), (''line_items'', JArr (map json_of_item (bq_LineItems q))),
      (''total_units'', JInt (bq_TotalUnits q)), (''platform_units'', JInt (bq_PlatformCostUnits q)),
      (''matched_tier'', JStr (bq_MatchedTierName q)), (''matched_tier_idx'', JInt (bq_MatchedTierIdx q)),
      (''discount_type'', JStr (bq_UserDiscountType q)),
      (''discount_id'', json_opt (\<lambda>n. JInt (int n)) (bq_UserDiscountID q)),
      (''discount_rate'', json_opt JNum (bq_UserDiscountRate q)),
      (''thinking_applied'', JBool (bq_ThinkingModeApplied q)),
      (''matched_dim'', json_opt json_of_dims (bq_MatchedDimValues q))]"

definition computeQuoteHash :: "hash_env \<Rightarrow> BillingQuote \<Rightarrow> string" where
  "computeQuoteHash he q =
     (if he_ok he (quote_payload q) then he_sha256_hex he (canonicalJSON (he_leaf he) (quote_payload q))
      else '''')"

definition ToSnapshotMap :: "BillingQuote \<Rightarrow> json" where
  "ToSnapshotMap q = JObj
     ([(''schema_version'', JInt (bq_SchemaVersion q)), (''engine_version'', JStr (bq_EngineVersion q)),
       (''scenario'', JStr (bq_Scenario q)), (''quote_id'', JStr (bq_QuoteID q)),
       (''model_id'', JInt (int (bq_ModelID q))), (''model_name'', JStr (bq_ModelName q)),
       (''model_type'', JStr (bq_ModelType q)), (''pricing_unit'', JStr (bq_PricingUnit q)),
       (''currency'', JStr (bq_Currency q)), (''pricing_source'', JStr (bq_PricingSource q)),
       (''usage'', usage_ToMap (bq_Usage q)), (''line_items'', JArr (map item_ToMap (bq_LineItems q))),
       (''total_credits'', JInt (bq_TotalCredits q)), (''total_units'', JInt (bq_TotalUnits q)),
       (''total_credits_decimal'', JNum (bq_TotalCreditsDecimal q)), (''total_rmb'', JNum (bq_TotalRMB q)),
       (''platform_cost_credits'', JInt (bq_PlatformCostCredits q)),
       (''platform_cost_units'', JInt (bq_PlatformCostUnits q)),
       (''platform_cost_credits_decimal'', JNum (bq_PlatformCreditsDecimal q)),
       (''platform_cost_rmb'', JNum (bq_PlatformCostRMB q)),
       (''matched_tier_name'', JStr (bq_MatchedTierName q)),
       (''matched_tier_idx'', JInt (bq_MatchedTierIdx q)),
       (''user_discount_type'', JStr (bq_UserDiscountType q)),
       (''actual_cost_credits'', JInt (bq_ActualCostCredits q)),
       (''actual_cost_units'', JInt (bq_ActualCostUnits q)),
       (''actual_cost_credits_decimal'', JNum (bq_ActualCreditsDecimal q)),
       (''billing_status'', JStr (bq_BillingStatus q)),
       (''thinking_mode_applied'', JBool (bq_ThinkingModeApplied q)),
       (''quote_hash'', JStr (bq_QuoteHash q))] @
      key_if (bq_UnderCollectedCredits q \<noteq> 0) ''under_collected_credits'' (JInt (bq_UnderCollectedCredits q)) @
      key_if (bq_UnderCollectedUnits q \<noteq> 0) ''under_collected_units'' (JInt (bq_UnderCollectedUnits q)) @
      key_if (bq_UnderCollectedUnits q \<noteq> 0) ''under_collected_credits_decimal''
        (JNum (bq_UnderCollectedCreditsDecimal q)) @
      (case bq_UserDiscountID q of None \<Rightarrow> [] | Some n \<Rightarrow> [(''user_discount_id'', JInt (int n))]) @
      (case bq_UserDiscountRate q of None \<Rightarrow> [] | Some r \<Rightarrow> [(''user_discount_rate'', JNum r)]) @
      key_if (bq_Warnings q \<noteq> []) ''warnings'' (JArr (map JStr (bq_Warnings q))) @
      (case bq_MatchedDimValues q of None \<Rightarrow> []
       | Some d \<Rightarrow> key_if (d \<noteq> []) ''matched_dim_values'' (json_of_dims d)) @
      key_if (bq_MatchedMatrixNote q \<noteq> '''') ''matched_matrix_note'' (JStr (bq_MatchedMatrixNote q)))"

section \<open>Building a quote\<close>

definition defaultScenario :: "string \<Rightarrow> string" where
  "defaultScenario s = (if s = '''' then ''charge'' else s)"

definition units_or_credits :: "int64 \<Rightarrow> int64 \<Rightarrow> int64" where
  "units_or_credits units legacy =
     (if units = 0 \<and> legacy > 0 then CreditsToBillingUnits legacy else units)"

definition fill_total_tokens :: "QuoteUsage \<Rightarrow> QuoteUsage" where
  "fill_total_tokens u =
     (if qu_TotalTokens u = 0 \<and> (qu_InputTokens u > 0 \<or> qu_OutputTokens u > 0)
      then u\<lparr>qu_TotalTokens := add64 (qu_InputTokens u) (qu_OutputTokens u)\<rparr> else u)"

definition buildBillingQuote ::
  "hash_env \<Rightarrow> QuoteRequest \<Rightarrow> AIModel \<Rightarrow> CostResult \<Rightarrow> bool \<Rightarrow> BillingQuote" where
  "buildBillingQuote he req aiModel cr thinkingApplied =
     (let lineItems = (if isUnitPricingUnit (am_PricingUnit aiModel)
                       then buildUnitLineItems req aiModel cr else buildTokenLineItems req cr);
          totalUnits = units_or_credits (cr_TotalCostUnits cr) (cr_TotalCost cr);
          platformUnits = units_or_credits (cr_PlatformCostUnits cr) (cr_PlatformCost cr);
          quote =
            \<lparr>bq_SchemaVersion = 2, bq_EngineVersion = ''billing_quote_v1'',
             bq_Scenario = defaultScenario (qr_Scenario req), bq_QuoteID = qr_RequestID req,
             bq_ModelID = am_ID aiModel, bq_ModelName = am_ModelName aiModel,
             bq_ModelType = am_ModelType aiModel, bq_PricingUnit = am_PricingUnit aiModel,
             bq_Currency = pr_Currency (cr_PriceDetail cr),
             bq_PricingSource = pr_Source (cr_PriceDetail cr),
             bq_Usage = fill_total_tokens (qr_Usage req),
             bq_LineItems = lineItemsWithAdjustmentStruct lineItems totalUnits,
             bq_TotalCredits = cr_TotalCost cr, bq_TotalUnits = totalUnits,
             bq_TotalCreditsDecimal = BillingUnitsToCreditAmount totalUnits,
             bq_TotalRMB = BillingUnitsToRMB totalUnits,
             bq_PlatformCostCredits = cr_PlatformCost cr, bq_PlatformCostUnits = platformUnits,
             bq_PlatformCreditsDecimal = BillingUnitsToCreditAmount platformUnits,
             bq_PlatformCostRMB = BillingUnitsToRMB platformUnits,
             bq_ActualCostCredits = 0, bq_ActualCostUnits = 0, bq_ActualCreditsDecimal = 0,
             bq_UnderCollectedCredits = 0, bq_UnderCollectedUnits = 0,
             bq_UnderCollectedCreditsDecimal = 0, bq_BillingStatus = '''',
             bq_MatchedTierName = cr_MatchedTier cr, bq_MatchedTierIdx = cr_MatchedTierIdx cr,
             bq_UserDiscountType = cr_UserDiscountType cr, bq_UserDiscountID = cr_UserDiscountID cr,
             bq_UserDiscountRate = cr_UserDiscountRate cr, bq_ThinkingModeApplied = thinkingApplied,
             bq_MatchedDimValues = cr_MatchedDimValues cr,
             bq_MatchedMatrixNote = cr_MatchedMatrixCellNote cr, bq_Warnings = [], bq_QuoteHash = ''''\<rparr>
      in quote\<lparr>bq_QuoteHash := computeQuoteHash he quote\<rparr>)"

section \<open>Lemmas\<close>

lemma in64_sum_units [simp, intro]: "in64 acc \<Longrightarrow> in64 (sum_units items acc)"
  by (induction items acc rule: sum_units.induct) auto

lemma sum_units_append [simp]: "sum_units (xs @ ys) acc = sum_units ys (sum_units xs acc)"
  by (induction xs acc rule: sum_units.induct) auto

text \<open>The adjustment line always closes the gap, whatever the items are and however the sum wraps.\<close>

lemma adjusted_items_sum:
  assumes "in64 totalUnits"
  shows "sum_units (lineItemsWithAdjustmentStruct items totalUnits) 0 = totalUnits"
proof (cases "sub64 totalUnits (sum_units items 0) = 0")
  case True
  have s: "in64 (sum_units items 0)" by (simp add: in64_def [of 0])
  have "add64 (sub64 totalUnits (sum_units items 0)) (sum_units items 0) = totalUnits"
    using assms by simp
  then show ?thesis using True s by (simp add: lineItemsWithAdjustmentStruct_def add64_def)
next
  case False
  then show ?thesis
    using assms by (simp add: lineItemsWithAdjustmentStruct_def Let_def add64_def sub64_def)
qed

lemma in64_units_or_credits [simp, intro]: "in64 u \<Longrightarrow> in64 (units_or_credits u c)"
  by (simp add: units_or_credits_def CreditsToBillingUnits_def mul64_def)

lemma buildBillingQuote_simps [simp]:
  "bq_TotalUnits (buildBillingQuote he req m cr t) = units_or_credits (cr_TotalCostUnits cr) (cr_TotalCost cr)"
  "bq_LineItems (buildBillingQuote he req m cr t) =
     lineItemsWithAdjustmentStruct
       (if isUnitPricingUnit (am_PricingUnit m) then buildUnitLineItems req m cr else buildTokenLineItems req cr)
       (units_or_credits (cr_TotalCostUnits cr) (cr_TotalCost cr))"
  by (simp_all add: buildBillingQuote_def Let_def)

end
