(* ===== verification/Billing.thy ===== *)
theory Billing
  imports Quote Wallet
begin

text \<open>
  \<open>internal/service/billing/billing_service.go\<close> and the calculation of
  \<open>billing_quote_service.go\<close>: how a call is priced, frozen, settled and quoted. The state
  is the price caches, the cache of billable models and the ledger. \<open>SettleBalanceUnits\<close>,
  which the settlement calls and the repository does not define, is the parameter
  \<open>be_settle\<close>; so are the JSON text of a snapshot and the time stamp in it. One reading of
  the clock serves a call. The formula texts are glosses of the Chinese ones.
\<close>

section \<open>State and environment\<close>

datatype billing_query = QModelByID | QActiveModel | QAnyModel | QThinkingPrice

record billing_state =
  bs_caches :: price_caches
  bs_billable :: "string \<Rightarrow> (AIModel \<times> int) option"
  bs_ledger :: ledger

text \<open>\<open>be_pricer\<close>, \<open>be_wallet\<close>: the calculator and the balance service are not nil;
  \<open>be_models\<close> is the model table and \<open>be_tiers_len\<close> the length of the raw tier
  column, which the decoded row does not keep.\<close>

record billing_env =
  be_pricer :: bool
  be_wallet :: bool
  be_price :: pricing_env
  be_redis :: "price_key \<Rightarrow> PriceResult option"
  be_now :: int
  be_models :: "AIModel list"
  be_fails :: "billing_query \<Rightarrow> bool"
  be_tiers_len :: "AIModel \<Rightarrow> int"
  be_ledger :: ledger_env
  be_settle :: "string \<Rightarrow> int64 \<Rightarrow> unit ledger_act"
  be_hash :: hash_env
  be_stamp :: string
  be_marshal :: "json \<Rightarrow> string option"

datatype billing_error =
  PriceError price_error | LedgerError ledger_error | NoPricer | QuoteModelNotFound

type_synonym 'a billing = "(billing_state, billing_error, 'a) act"

definition in_caches :: "'a pricing \<Rightarrow> 'a billing" where
  [act_simps]: "in_caches m s =
     (case m (bs_caches s) of
        (Inl e, c) \<Rightarrow> (Inl (PriceError e), s\<lparr>bs_caches := c\<rparr>)
      | (Inr a, c) \<Rightarrow> (Inr a, s\<lparr>bs_caches := c\<rparr>))"

definition in_ledger :: "'a ledger_act \<Rightarrow> 'a billing" where
  [act_simps]: "in_ledger m s =
     (case m (bs_ledger s) of
        (Inl e, l) \<Rightarrow> (Inl (LedgerError e), s\<lparr>bs_ledger := l\<rparr>)
      | (Inr a, l) \<Rightarrow> (Inr a, s\<lparr>bs_ledger := l\<rparr>))"

record UsageRequest =
  ur_RequestID :: string
  ur_UserID :: nat
  ur_TenantID :: nat
  ur_AgentLevel :: int64
  ur_ModelName :: string
  ur_Usage :: ProviderUsage
  ur_ThinkingMode :: bool
  ur_FreezeID :: string
  ur_DimValues :: "(string \<times> iface) list"

record UnitUsageRequest =
  uu_RequestID :: string
  uu_UserID :: nat
  uu_TenantID :: nat
  uu_AgentLevel :: int64
  uu_ModelName :: string
  uu_Usage :: UsageInput
  uu_FreezeID :: string
  uu_DimValues :: "(string \<times> iface) list"

record FreezeOutcome =
  fo_FreezeID :: string
  fo_EstimatedCostCredits :: int64
  fo_EstimatedCostUnits :: int64
  fo_EstimatedCostRMB :: float64
  fo_Model :: AIModel
  fo_CostResult :: "CostResult option"

record UsageOutcome =
  uo_Model :: AIModel
  uo_CostResult :: "CostResult option"
  uo_CostCredits :: int64
  uo_CostUnits :: int64
  uo_CostRMB :: float64
  uo_PlatformCostRMB :: float64
  uo_PlatformCostUnits :: int64
  uo_BillingStatus :: string
  uo_ActualCostCredits :: int64
  uo_ActualCostUnits :: int64
  uo_UnderCollectedCredits :: int64
  uo_UnderCollectedUnits :: int64
  uo_UsageSource :: string
  uo_UsageEstimated :: bool
  uo_ThinkingModeApplied :: bool
  uo_ThinkingOutputPriceRMB :: float64
  uo_Snapshot :: "json option"
  uo_SnapshotJSON :: string

definition no_charge_outcome :: UsageOutcome where
  "no_charge_outcome =
     \<lparr>uo_Model = zero_AIModel, uo_CostResult = None, uo_CostCredits = 0, uo_CostUnits = 0,
      uo_CostRMB = 0, uo_PlatformCostRMB = 0, uo_PlatformCostUnits = 0,
      uo_BillingStatus = ''no_charge'', uo_ActualCostCredits = 0, uo_ActualCostUnits = 0,
      uo_UnderCollectedCredits = 0, uo_UnderCollectedUnits = 0, uo_UsageSource = ''provider'',
      uo_UsageEstimated = False, uo_ThinkingModeApplied = False, uo_ThinkingOutputPriceRMB = 0,
      uo_Snapshot = None, uo_SnapshotJSON = ''''\<rparr>"

definition empty_freeze :: FreezeOutcome where
  "empty_freeze =
     \<lparr>fo_FreezeID = '''', fo_EstimatedCostCredits = 0, fo_EstimatedCostUnits = 0,
      fo_EstimatedCostRMB = 0, fo_Model = zero_AIModel, fo_CostResult = None\<rparr>"

section \<open>The billable model\<close>

definition billableModelCacheTTL :: int where
  "billableModelCacheTTL = 2 * 60 * 1000000000"

definition load_billable :: "string \<Rightarrow> int \<Rightarrow> billing_state \<Rightarrow> AIModel option \<times> billing_state" where
  "load_billable modelName now s =
     (case bs_billable s modelName of
        None \<Rightarrow> (None, s)
      | Some (m, expiresAt) \<Rightarrow>
          if now < expiresAt then (Some m, s)
          else (None, s\<lparr>bs_billable := (bs_billable s)(modelName := None)\<rparr>))"

definition store_billable :: "string \<Rightarrow> AIModel \<Rightarrow> int \<Rightarrow> billing_state \<Rightarrow> billing_state" where
  "store_billable modelName m now s =
     s\<lparr>bs_billable := (bs_billable s)(modelName \<mapsto> (m, now + billableModelCacheTTL))\<rparr>"

definition active_model :: "billing_env \<Rightarrow> string \<Rightarrow> AIModel option" where
  "active_model env name =
     (if be_fails env QActiveModel then None
      else first_row am_ID (filter (\<lambda>m. am_ModelName m = name \<and> am_IsActive m) (be_models env)))"

definition any_model :: "billing_env \<Rightarrow> string \<Rightarrow> AIModel option" where
  "any_model env name =
     (if be_fails env QAnyModel then None
      else first_row am_ID (filter (\<lambda>m. am_ModelName m = name) (be_models env)))"

text \<open>An active row first, else the oldest row of that name.\<close>

definition query_billable :: "billing_env \<Rightarrow> string \<Rightarrow> AIModel option" where
  "query_billable env name =
     (case active_model env name of Some m \<Rightarrow> Some m | None \<Rightarrow> any_model env name)"

definition loadBillableModel :: "billing_env \<Rightarrow> string \<Rightarrow> AIModel billing" where
  "loadBillableModel env name s =
     (case load_billable name (be_now env) s of
        (Some m, s1) \<Rightarrow> (Inr m, s1)
      | (None, s1) \<Rightarrow>
          (case query_billable env name of
             None \<Rightarrow> (Inl QuoteModelNotFound, s1)
           | Some m \<Rightarrow> (Inr m, store_billable name m (be_now env) s1)))"

interpretation billable: ttl_cache load_billable store_billable billableModelCacheTTL
proof
  fix k t k' t' and s :: billing_state and v :: AIModel
  assume "fst (load_billable k' t' (snd (load_billable k t s))) = Some v"
  then show "fst (load_billable k' t' s) = Some v"
    by (auto simp: load_billable_def split: option.splits if_splits)
next
  fix k t k' t' and s :: billing_state and v w :: AIModel
  assume "fst (load_billable k' t' (store_billable k v t s)) = Some w"
  then show "k' = k \<and> w = v \<or> fst (load_billable k' t' s) = Some w"
    by (auto simp: load_billable_def store_billable_def split: option.splits if_splits)
next
  fix k t' t and s :: billing_state and v :: AIModel
  assume "t' < t + billableModelCacheTTL"
  then show "fst (load_billable k t' (store_billable k v t s)) = Some v"
    by (simp add: load_billable_def store_billable_def)
qed

section \<open>The thinking surcharge\<close>

definition tier_at :: "PriceTiersData option \<Rightarrow> int64 \<Rightarrow> PriceTier option" where
  "tier_at data idx =
     (case data of
        None \<Rightarrow> None
      | Some d \<Rightarrow> if idx < int (length (ptd_Tiers d)) then Some (ptd_Tiers d ! nat idx) else None)"

definition sale_tier_thinking :: "ModelPricing option \<Rightarrow> int64 \<Rightarrow> float64 option" where
  "sale_tier_thinking mp idx =
     (case Option.bind mp (\<lambda>p. tier_at (mp_PriceTiers p) idx) of
        None \<Rightarrow> None
      | Some t \<Rightarrow>
          (case pt_SellingOutputThinkingPrice t of
             Some p \<Rightarrow> if p > 0 then Some p else None
           | None \<Rightarrow> None))"

definition cost_tier_thinking :: "AIModel \<Rightarrow> int64 \<Rightarrow> float64 \<Rightarrow> float64 option" where
  "cost_tier_thinking m idx normalSellRMB =
     (case tier_at (am_PriceTiers m) idx of
        None \<Rightarrow> None
      | Some t \<Rightarrow>
          if pt_OutputPriceThinking t > 0 \<and> pt_OutputPrice t > 0 \<and> normalSellRMB > 0
          then Some (fmul (pt_OutputPriceThinking t) (fdiv normalSellRMB (pt_OutputPrice t)))
          else None)"

definition list_thinking :: "ModelPricing option \<Rightarrow> AIModel \<Rightarrow> float64 \<Rightarrow> float64" where
  "list_thinking mp m normalSellRMB =
     (if (case mp of None \<Rightarrow> False | Some p \<Rightarrow> mp_OutputPriceThinkingRMB p > 0)
      then mp_OutputPriceThinkingRMB (the mp)
      else if am_OutputCostThinkingRMB m > 0 \<and> am_OutputCostRMB m > 0 \<and> normalSellRMB > 0
      then fmul (am_OutputCostThinkingRMB m) (fdiv normalSellRMB (am_OutputCostRMB m))
      else 0)"

definition resolveThinkingOutputSellRMB :: "billing_env \<Rightarrow> AIModel \<Rightarrow> CostResult \<Rightarrow> float64" where
  "resolveThinkingOutputSellRMB env m cr =
     (let normalSellRMB = pr_OutputPriceRMB (cr_PriceDetail cr);
          mp = (if be_fails env QThinkingPrice then None
                else first_row mp_ID (pricings_of (be_price env) (am_ID m)));
          idx = cr_MatchedTierIdx cr
      in case (if idx \<ge> 0 then sale_tier_thinking mp idx else None) of
           Some p \<Rightarrow> p
         | None \<Rightarrow>
             (case (if idx \<ge> 0 then cost_tier_thinking m idx normalSellRMB else None) of
                Some p \<Rightarrow> p
              | None \<Rightarrow> list_thinking mp m normalSellRMB))"

definition add_surcharge :: "float64 \<Rightarrow> int64 \<Rightarrow> CostResult \<Rightarrow> CostResult" where
  "add_surcharge thinkingSellRMB surchargeUnits cr =
     (let surchargeCredits = BillingUnitsToCredits surchargeUnits;
          totalUnits = add64 (cr_TotalCostUnits cr) surchargeUnits
      in cr\<lparr>cr_TotalCost := add64 (cr_TotalCost cr) surchargeCredits,
            cr_OutputCost := add64 (cr_OutputCost cr) surchargeCredits,
            cr_TotalCostUnits := totalUnits,
            cr_OutputCostUnits := add64 (cr_OutputCostUnits cr) surchargeUnits,
            cr_TotalCostRMB := BillingUnitsToRMB totalUnits,
            cr_ThinkingOutputCost := surchargeCredits,
            cr_ThinkingOutputCostUnits := surchargeUnits,
            cr_ThinkingOutputPriceRMB := thinkingSellRMB,
            cr_ThinkingOutputPricePerMillion :=
              RMBToCredits (fsub thinkingSellRMB (pr_OutputPriceRMB (cr_PriceDetail cr)))\<rparr>)"

text \<open>Whether it applied, at which price, and the cost after it.\<close>

definition applyThinkingSurchargeToCostResult ::
  "billing_env \<Rightarrow> AIModel \<Rightarrow> CostResult \<Rightarrow> int64 \<Rightarrow> bool \<times> float64 \<times> CostResult" where
  "applyThinkingSurchargeToCostResult env m cr completionTokens =
     (let thinkingSellRMB = resolveThinkingOutputSellRMB env m cr;
          diffRMB = fsub thinkingSellRMB (pr_OutputPriceRMB (cr_PriceDetail cr));
          surchargeUnits = RMBToBillingUnits (fdiv (fmul diffRMB (i2f completionTokens)) 1000000)
      in if completionTokens \<le> 0 \<or> thinkingSellRMB \<le> 0 \<or> diffRMB \<le> 0 \<or> surchargeUnits \<le> 0
         then (False, 0, cr)
         else (True, thinkingSellRMB, add_surcharge thinkingSellRMB surchargeUnits cr))"

section \<open>The cost of a call\<close>

definition stamp_cell :: "PriceMatrixCell option \<Rightarrow> CostResult \<Rightarrow> CostResult" where
  "stamp_cell cell cr =
     (case cell of
        None \<Rightarrow> cr
      | Some c \<Rightarrow>
          (let cr1 = cr\<lparr>cr_MatchedDimValues := Some (pmc_DimValues c)\<rparr>
           in if pmc_Note c \<noteq> '''' then cr1\<lparr>cr_MatchedMatrixCellNote := pmc_Note c\<rparr> else cr1))"

definition calculateCost :: "billing_env \<Rightarrow> UsageRequest \<Rightarrow> AIModel \<Rightarrow> CostResult billing" where
  "calculateCost env req m =
     (let u = ur_Usage req
      in andThen
          (in_caches
            (if pu_CacheReadTokens u > 0 \<or> pu_CacheWriteTokens u > 0
             then CalculateCostWithCache (be_price env) (be_redis env) (be_now env) (ur_UserID req)
                    (Some m) (ur_TenantID req) (ur_AgentLevel req)
                    \<lparr>cu_InputTokens = pu_PromptTokens u, cu_OutputTokens = pu_CompletionTokens u,
                     cu_CacheReadTokens = pu_CacheReadTokens u,
                     cu_CacheWriteTokens = pu_CacheWriteTokens u,
                     cu_CacheWrite1hTokens = pu_CacheWrite1hTokens u\<rparr>
             else CalculateCost (be_price env) (be_redis env) (be_now env) (ur_UserID req) (am_ID m)
                    (ur_TenantID req) (ur_AgentLevel req) (pu_PromptTokens u) (pu_CompletionTokens u)))
          (\<lambda>cr. ret (stamp_cell (MatchCellByModelID (be_price env) (am_ID m) (ur_DimValues req)) cr)))"

definition unitCost :: "billing_env \<Rightarrow> UnitUsageRequest \<Rightarrow> AIModel \<Rightarrow> CostResult billing" where
  "unitCost env req m =
     in_caches (CalculateCostByUnit (be_price env) (be_redis env) (be_now env) (uu_UserID req)
       (am_ID m) (uu_TenantID req) (uu_AgentLevel req) (uu_Usage req))"

section \<open>Snapshots\<close>

fun contains :: "string \<Rightarrow> string \<Rightarrow> bool" where
  "contains [] sub = (sub = [])"
| "contains (c # cs) sub = (take (length sub) (c # cs) = sub \<or> contains cs sub)"

definition billingCalculatorType :: "billing_env \<Rightarrow> AIModel \<Rightarrow> string" where
  "billingCalculatorType env m =
     (let name = map lower_char (am_ModelName m); u = am_PricingUnit m
      in if u = ''per_image''
         then (if contains name ''vision'' \<or> contains name ''vl'' then ''vision_image_unit'' else ''image_unit'')
         else if u = ''per_second'' \<or> u = ''per_minute'' \<or> u = ''per_hour''
         then (if am_ModelType m = ''VideoGeneration'' then ''video_duration_resolution'' else ''asr_duration'')
         else if u = ''per_10k_characters'' \<or> u = ''per_million_characters'' \<or> u = ''per_k_chars''
         then ''tts_characters''
         else if u = ''per_call'' then ''rerank_call''
         else if contains name ''seedance-2'' then ''volc_seedance_2_video_formula''
         else if contains name ''embed'' \<or> am_ModelType m = ''Embedding'' then ''embedding_token''
         else if contains name ''rerank'' \<or> am_ModelType m = ''Rerank'' then ''rerank_token''
         else if am_SupportsCache m \<or> be_tiers_len env m > 2 then ''token_io_tiered_cache''
         else ''token_io'')"

definition billingCalculatorFormula :: "string \<Rightarrow> string list" where
  "billingCalculatorFormula t =
     (if t = ''volc_seedance_2_video_formula''
      then [''estimated tokens = max(min_tokens, (input_seconds + output_seconds) * width * height * fps / 1024)'',
            ''amount = token price * estimated tokens / 1,000,000'']
      else if t = ''video_duration_resolution''
      then [''amount = number of videos * price of the resolution/audio/draft class'']
      else if t = ''image_unit'' \<or> t = ''vision_image_unit''
      then [''amount = number of images * price of the image class'']
      else if t = ''tts_characters''
      then [''amount = characters / charging unit * character price'']
      else if t = ''asr_duration'' then [''amount = audio duration / charging unit * duration price'']
      else if t = ''rerank_call'' then [''amount = calls * price per call'']
      else [''input amount = input price * input tokens / 1,000,000'',
            ''output amount = output price * output tokens / 1,000,000''])"

definition encodeSnapshot :: "billing_env \<Rightarrow> json \<Rightarrow> string" where
  "encodeSnapshot env snapshot =
     (if snapshot = JObj [] then ''''
      else case be_marshal env snapshot of None \<Rightarrow> '''' | Some s \<Rightarrow> s)"

definition toQuoteRequest :: "UsageRequest \<Rightarrow> nat \<Rightarrow> string \<Rightarrow> QuoteRequest" where
  "toQuoteRequest req aiModelID scenario =
     \<lparr>qr_Scenario = scenario, qr_RequestID = ur_RequestID req, qr_ModelID = aiModelID,
      qr_ModelName = ur_ModelName req, qr_UserID = ur_UserID req, qr_TenantID = ur_TenantID req,
      qr_AgentLevel = ur_AgentLevel req, qr_Usage = QuoteUsageFromProvider (ur_Usage req),
      qr_ThinkingMode = ur_ThinkingMode req, qr_FreezeID = ur_FreezeID req,
      qr_DimValues = ur_DimValues req\<rparr>"

definition toQuoteRequestUnit :: "UnitUsageRequest \<Rightarrow> nat \<Rightarrow> string \<Rightarrow> QuoteRequest" where
  "toQuoteRequestUnit req aiModelID scenario =
     \<lparr>qr_Scenario = scenario, qr_RequestID = uu_RequestID req, qr_ModelID = aiModelID,
      qr_ModelName = uu_ModelName req, qr_UserID = uu_UserID req, qr_TenantID = uu_TenantID req,
      qr_AgentLevel = uu_AgentLevel req, qr_Usage = QuoteUsageFromUnit (uu_Usage req),
      qr_ThinkingMode = False, qr_FreezeID = uu_FreezeID req, qr_DimValues = uu_DimValues req\<rparr>"

definition finalizeQuoteForOutcome :: "UsageOutcome \<Rightarrow> BillingQuote \<Rightarrow> BillingQuote" where
  "finalizeQuoteForOutcome out q =
     q\<lparr>bq_ActualCostCredits := uo_ActualCostCredits out, bq_ActualCostUnits := uo_ActualCostUnits out,
       bq_ActualCreditsDecimal := BillingUnitsToCreditAmount (uo_ActualCostUnits out),
       bq_UnderCollectedCredits := uo_UnderCollectedCredits out,
       bq_UnderCollectedUnits := uo_UnderCollectedUnits out,
       bq_UnderCollectedCreditsDecimal := BillingUnitsToCreditAmount (uo_UnderCollectedUnits out),
       bq_BillingStatus := uo_BillingStatus out\<rparr>"

text \<open>The entries the two kinds of snapshot share, the prices and costs and the settlement.\<close>

definition cost_entries :: "UsageOutcome \<Rightarrow> CostResult \<Rightarrow> (string \<times> json) list" where
  "cost_entries out cr =
     [(''estimated_cost_credits'', JInt (uo_CostCredits out)),
      (''sell_input_rmb'', JNum (pr_InputPriceRMB (cr_PriceDetail cr))),
      (''sell_output_rmb'', JNum (pr_OutputPriceRMB (cr_PriceDetail cr))),
      (''input_cost_credits'', JInt (cr_InputCost cr)), (''input_cost_units'', JInt (cr_InputCostUnits cr)),
      (''output_cost_credits'', JInt (cr_OutputCost cr)), (''output_cost_units'', JInt (cr_OutputCostUnits cr)),
      (''total_cost_credits'', JInt (cr_TotalCost cr)), (''total_cost_units'', JInt (uo_CostUnits out)),
      (''total_cost_rmb'', JNum (cr_TotalCostRMB cr)),
      (''platform_cost_credits'', JInt (cr_PlatformCost cr)),
      (''platform_cost_units'', JInt (uo_PlatformCostUnits out)),
      (''platform_cost_rmb'', JNum (uo_PlatformCostRMB out)),
      (''pricing_source'', JStr (pr_Source (cr_PriceDetail cr))),
      (''matched_price_tier'', JStr (cr_MatchedTier cr)),
      (''matched_price_tier_idx'', JInt (cr_MatchedTierIdx cr)),
      (''user_discount_type'', JStr (cr_UserDiscountType cr)),
      (''billing_status'', JStr (uo_BillingStatus out)),
      (''actual_cost_credits'', JInt (uo_ActualCostCredits out)),
      (''actual_cost_units'', JInt (uo_ActualCostUnits out)),
      (''under_collected_credits'', JInt (uo_UnderCollectedCredits out)),
      (''under_collected_units'', JInt (uo_UnderCollectedUnits out))]"

definition head_entries :: "billing_env \<Rightarrow> string \<Rightarrow> string \<Rightarrow> UsageOutcome \<Rightarrow> (string \<times> json) list" where
  "head_entries env requestID modelName out =
     (let calculatorType = billingCalculatorType env (uo_Model out)
      in [(''schema_version'', JInt 1), (''generated_at'', JStr (be_stamp env)),
          (''request_id'', JStr requestID), (''model_id'', JInt (int (am_ID (uo_Model out)))),
          (''model_name'', JStr modelName), (''pricing_unit'', JStr (am_PricingUnit (uo_Model out))),
          (''calculator_type'', JStr calculatorType), (''calculator_version'', JStr ''v1''),
          (''calculator_source'', JStr ''billing_service''),
          (''calculator_formula'', JArr (map JStr (billingCalculatorFormula calculatorType)))])"

definition discount_entries :: "CostResult \<Rightarrow> (string \<times> json) list" where
  "discount_entries cr =
     (case cr_UserDiscountID cr of None \<Rightarrow> [] | Some n \<Rightarrow> [(''user_discount_id'', JInt (int n))]) @
     (case cr_UserDiscountRate cr of None \<Rightarrow> [] | Some r \<Rightarrow> [(''user_discount_rate'', JNum r)])"

definition quote_entries :: "UsageOutcome \<Rightarrow> BillingQuote \<Rightarrow> (string \<times> json) list" where
  "quote_entries out q =
     [(''quote'', ToSnapshotMap (finalizeQuoteForOutcome out q)), (''quote_hash'', JStr (bq_QuoteHash q)),
      (''quote_schema_version'', JInt 2)]"

definition usage_quote :: "billing_env \<Rightarrow> UsageRequest \<Rightarrow> UsageOutcome \<Rightarrow> CostResult \<Rightarrow> BillingQuote" where
  "usage_quote env req out cr =
     buildBillingQuote (be_hash env) (toQuoteRequest req (am_ID (uo_Model out)) ''charge'')
       (uo_Model out) cr (uo_ThinkingModeApplied out)"

definition buildSnapshot :: "billing_env \<Rightarrow> UsageRequest \<Rightarrow> UsageOutcome \<Rightarrow> CostResult \<Rightarrow> json" where
  "buildSnapshot env req out cr = JObj
     (head_entries env (ur_RequestID req) (ur_ModelName req) out @
      [(''prompt_tokens'', JInt (pu_PromptTokens (ur_Usage req))),
       (''completion_tokens'', JInt (pu_CompletionTokens (ur_Usage req))),
       (''total_tokens'', JInt (pu_TotalTokens (ur_Usage req))),
       (''cache_read_tokens'', JInt (pu_CacheReadTokens (ur_Usage req))),
       (''cache_write_tokens'', JInt (pu_CacheWriteTokens (ur_Usage req))),
       (''reasoning_tokens'', JInt (pu_ReasoningTokens (ur_Usage req))),
       (''freeze_id'', JStr (ur_FreezeID req)),
       (''sell_input_per_million'', JInt (pr_InputPricePerMillion (cr_PriceDetail cr))),
       (''sell_output_per_million'', JInt (pr_OutputPricePerMillion (cr_PriceDetail cr)))] @
      cost_entries out cr @
      [(''cache_read_cost'', JInt (cr_CacheReadCost cr)),
       (''cache_read_cost_units'', JInt (cr_CacheReadCostUnits cr)),
       (''cache_write_cost'', JInt (cr_CacheWriteCost cr)),
       (''cache_write_cost_units'', JInt (cr_CacheWriteCostUnits cr)),
       (''regular_input_cost'', JInt (cr_RegularInputCost cr)),
       (''regular_input_cost_units'', JInt (cr_RegularInputCostUnits cr)),
       (''cache_saving_credits'', JInt (cr_CacheSavingCredits cr)),
       (''cache_saving_units'', JInt (cr_CacheSavingUnits cr)),
       (''thinking_mode'', JBool (ur_ThinkingMode req)),
       (''thinking_mode_applied'', JBool (uo_ThinkingModeApplied out))] @
      discount_entries cr @
      key_if (uo_ThinkingOutputPriceRMB out > 0) ''thinking_output_price_rmb''
        (JNum (uo_ThinkingOutputPriceRMB out)) @
      quote_entries out (usage_quote env req out cr))"

definition buildUnitSnapshot :: "billing_env \<Rightarrow> UnitUsageRequest \<Rightarrow> UsageOutcome \<Rightarrow> CostResult \<Rightarrow> json" where
  "buildUnitSnapshot env req out cr = JObj
     (head_entries env (uu_RequestID req) (uu_ModelName req) out @
      [(''model_type'', JStr (am_ModelType (uo_Model out))),
       (''input_tokens'', JInt (ui_InputTokens (uu_Usage req))),
       (''output_tokens'', JInt (ui_OutputTokens (uu_Usage req))),
       (''image_count'', JInt (ui_ImageCount (uu_Usage req))),
       (''char_count'', JInt (ui_CharCount (uu_Usage req))),
       (''duration_sec'', JNum (ui_DurationSec (uu_Usage req))),
       (''call_count'', JInt (ui_CallCount (uu_Usage req))), (''freeze_id'', JStr (uu_FreezeID req))] @
      cost_entries out cr @ discount_entries cr @
      quote_entries out
        (buildBillingQuote (be_hash env) (toQuoteRequestUnit req (am_ID (uo_Model out)) ''charge'')
           (uo_Model out) cr False))"

section \<open>Settling\<close>

definition billing_ReleaseFrozen :: "billing_env \<Rightarrow> string \<Rightarrow> unit billing" where
  "billing_ReleaseFrozen env freezeID =
     (if \<not> be_wallet env \<or> freezeID = '''' then ret ()
      else in_ledger (ReleaseFrozen (be_ledger env) freezeID))"

text \<open>The error is dropped.\<close>

definition release_if :: "billing_env \<Rightarrow> string \<Rightarrow> billing_state \<Rightarrow> billing_state" where
  "release_if env freezeID s =
     (if freezeID \<noteq> '''' then snd (billing_ReleaseFrozen env freezeID s) else s)"

definition collect ::
  "billing_env \<Rightarrow> string \<Rightarrow> nat \<Rightarrow> nat \<Rightarrow> int64 \<Rightarrow> string \<Rightarrow> string \<Rightarrow> unit billing" where
  "collect env freezeID userID tenantID units modelName requestID =
     (if \<not> be_wallet env then ret ()
      else if freezeID \<noteq> '''' then in_ledger (be_settle env freezeID units)
      else if units > 0
      then in_ledger (DeductUnitsForRequest (be_ledger env) userID tenantID units modelName requestID)
      else ret ())"

definition priced_outcome :: "AIModel \<Rightarrow> CostResult \<Rightarrow> UsageOutcome" where
  "priced_outcome m cr =
     no_charge_outcome\<lparr>uo_Model := m, uo_CostResult := Some cr, uo_CostCredits := cr_TotalCost cr,
       uo_CostUnits := cr_TotalCostUnits cr, uo_CostRMB := cr_TotalCostRMB cr,
       uo_PlatformCostRMB := BillingUnitsToRMB (cr_PlatformCostUnits cr),
       uo_PlatformCostUnits := cr_PlatformCostUnits cr\<rparr>"

definition failed_outcome :: "CostResult \<Rightarrow> UsageOutcome \<Rightarrow> UsageOutcome" where
  "failed_outcome cr out =
     out\<lparr>uo_BillingStatus := ''deduct_failed'', uo_ActualCostCredits := 0, uo_ActualCostUnits := 0,
         uo_UnderCollectedCredits := cr_TotalCost cr, uo_UnderCollectedUnits := cr_TotalCostUnits cr\<rparr>"

definition charged_outcome :: "CostResult \<Rightarrow> UsageOutcome \<Rightarrow> UsageOutcome" where
  "charged_outcome cr out =
     (if cr_TotalCostUnits cr > 0
      then out\<lparr>uo_BillingStatus := ''settled'', uo_ActualCostCredits := cr_TotalCost cr,
               uo_ActualCostUnits := cr_TotalCostUnits cr\<rparr>
      else out\<lparr>uo_BillingStatus := ''no_charge''\<rparr>)\<lparr>uo_UnderCollectedCredits := 0\<rparr>"

definition with_snapshot :: "billing_env \<Rightarrow> (UsageOutcome \<Rightarrow> json) \<Rightarrow> UsageOutcome \<Rightarrow> UsageOutcome" where
  "with_snapshot env snap out =
     out\<lparr>uo_Snapshot := Some (snap out), uo_SnapshotJSON := encodeSnapshot env (snap out)\<rparr>"

text \<open>A method may return an outcome and an error together.\<close>

type_synonym settled = "(UsageOutcome option \<times> billing_error option) \<times> billing_state"

definition conclude ::
  "billing_env \<Rightarrow> (UsageOutcome \<Rightarrow> json) \<Rightarrow> CostResult \<Rightarrow> UsageOutcome \<Rightarrow> unit billing \<Rightarrow> billing_state \<Rightarrow> settled" where
  "conclude env snap cr out payment s =
     (case payment s of
        (Inl e, s') \<Rightarrow> ((Some (with_snapshot env snap (failed_outcome cr out)), Some e), s')
      | (Inr _, s') \<Rightarrow> ((Some (with_snapshot env snap (charged_outcome cr out)), None), s'))"

definition thinking_cost ::
  "billing_env \<Rightarrow> bool \<Rightarrow> AIModel \<Rightarrow> CostResult \<Rightarrow> int64 \<Rightarrow> bool \<times> float64 \<times> CostResult" where
  "thinking_cost env on m cr completionTokens =
     (if on then applyThinkingSurchargeToCostResult env m cr completionTokens else (False, 0, cr))"

definition settle_priced :: "billing_env \<Rightarrow> UsageRequest \<Rightarrow> AIModel \<Rightarrow> CostResult \<Rightarrow> billing_state \<Rightarrow> settled" where
  "settle_priced env req m cr0 =
     (let (applied, price, cr) = thinking_cost env (ur_ThinkingMode req) m cr0
                                   (pu_CompletionTokens (ur_Usage req));
          out = (priced_outcome m cr)\<lparr>uo_ThinkingModeApplied := applied, uo_ThinkingOutputPriceRMB := price\<rparr>
      in conclude env (\<lambda>oc. buildSnapshot env req oc cr) cr out
           (collect env (ur_FreezeID req) (ur_UserID req) (ur_TenantID req) (cr_TotalCostUnits cr)
              (ur_ModelName req) (ur_RequestID req)))"

definition SettleUsage :: "billing_env \<Rightarrow> UsageRequest \<Rightarrow> billing_state \<Rightarrow> settled" where
  "SettleUsage env req s =
     (if \<not> be_pricer env then ((Some no_charge_outcome, None), s)
      else case loadBillableModel env (ur_ModelName req) s of
        (Inl _, s1) \<Rightarrow> ((Some no_charge_outcome, None), release_if env (ur_FreezeID req) s1)
      | (Inr m, s1) \<Rightarrow>
          (case calculateCost env req m s1 of
             (Inl e, s2) \<Rightarrow> ((None, Some e), release_if env (ur_FreezeID req) s2)
           | (Inr cr, s2) \<Rightarrow> settle_priced env req m cr s2))"

definition settle_unit_priced ::
  "billing_env \<Rightarrow> UnitUsageRequest \<Rightarrow> AIModel \<Rightarrow> CostResult \<Rightarrow> billing_state \<Rightarrow> settled" where
  "settle_unit_priced env req m cr0 =
     (let cr = stamp_cell (MatchCellByModelID (be_price env) (am_ID m) (uu_DimValues req)) cr0
      in conclude env (\<lambda>oc. buildUnitSnapshot env req oc cr) cr (priced_outcome m cr)
           (collect env (uu_FreezeID req) (uu_UserID req) (uu_TenantID req) (cr_TotalCostUnits cr)
              (uu_ModelName req) (uu_RequestID req)))"

definition SettleUnitUsage :: "billing_env \<Rightarrow> UnitUsageRequest \<Rightarrow> billing_state \<Rightarrow> settled" where
  "SettleUnitUsage env req s =
     (if \<not> be_pricer env then ((Some no_charge_outcome, None), s)
      else case loadBillableModel env (uu_ModelName req) s of
        (Inl _, s1) \<Rightarrow> ((Some no_charge_outcome, None), release_if env (uu_FreezeID req) s1)
      | (Inr m, s1) \<Rightarrow>
          (case unitCost env req m s1 of
             (Inl e, s2) \<Rightarrow> ((None, Some e), s2)
           | (Inr cr, s2) \<Rightarrow> settle_unit_priced env req m cr s2))"

section \<open>Freezing\<close>

definition freeze_cost ::
  "billing_env \<Rightarrow> AIModel \<Rightarrow> CostResult \<Rightarrow> nat \<Rightarrow> nat \<Rightarrow> string \<Rightarrow> string \<Rightarrow> billing_state \<Rightarrow>
     (FreezeOutcome option \<times> billing_error option) \<times> billing_state" where
  "freeze_cost env m cr userID tenantID modelName requestID s =
     (let freeze = empty_freeze\<lparr>fo_EstimatedCostCredits := cr_TotalCost cr,
            fo_EstimatedCostUnits := cr_TotalCostUnits cr, fo_EstimatedCostRMB := cr_TotalCostRMB cr,
            fo_Model := m, fo_CostResult := Some cr\<rparr>
      in if cr_TotalCostUnits cr \<le> 0 then ((Some freeze, None), s)
         else case in_ledger (FreezeBalanceUnits (be_ledger env) userID tenantID
                (cr_TotalCostUnits cr) modelName requestID) s of
                (Inl e, s') \<Rightarrow> ((Some freeze, Some e), s')
              | (Inr freezeID, s') \<Rightarrow> ((Some (freeze\<lparr>fo_FreezeID := freezeID\<rparr>), None), s'))"

definition FreezeUsage ::
  "billing_env \<Rightarrow> UsageRequest \<Rightarrow> billing_state \<Rightarrow>
     (FreezeOutcome option \<times> billing_error option) \<times> billing_state" where
  "FreezeUsage env req s =
     (if \<not> be_pricer env \<or> \<not> be_wallet env then ((Some empty_freeze, None), s)
      else case loadBillableModel env (ur_ModelName req) s of
        (Inl _, s1) \<Rightarrow> ((Some empty_freeze, None), s1)
      | (Inr m, s1) \<Rightarrow>
          (case calculateCost env req m s1 of
             (Inl e, s2) \<Rightarrow> ((None, Some e), s2)
           | (Inr cr0, s2) \<Rightarrow>
               (let (_, _, cr) = thinking_cost env (ur_ThinkingMode req) m cr0
                                   (pu_CompletionTokens (ur_Usage req))
                in freeze_cost env m cr (ur_UserID req) (ur_TenantID req) (ur_ModelName req)
                     (ur_RequestID req) s2)))"

definition FreezeUnitUsage ::
  "billing_env \<Rightarrow> UnitUsageRequest \<Rightarrow> billing_state \<Rightarrow>
     (FreezeOutcome option \<times> billing_error option) \<times> billing_state" where
  "FreezeUnitUsage env req s =
     (if \<not> be_pricer env \<or> \<not> be_wallet env then ((Some empty_freeze, None), s)
      else case loadBillableModel env (uu_ModelName req) s of
        (Inl _, s1) \<Rightarrow> ((Some empty_freeze, None), s1)
      | (Inr m, s1) \<Rightarrow>
          (case unitCost env req m s1 of
             (Inl e, s2) \<Rightarrow> ((None, Some e), s2)
           | (Inr cr, s2) \<Rightarrow>
               freeze_cost env m cr (uu_UserID req) (uu_TenantID req) (uu_ModelName req)
                 (uu_RequestID req) s2))"

section \<open>Quoting\<close>

definition loadModel :: "billing_env \<Rightarrow> QuoteRequest \<Rightarrow> AIModel option" where
  "loadModel env req =
     (case (if qr_ModelID req > 0 \<and> \<not> be_fails env QModelByID
            then first_row am_ID (filter (\<lambda>m. am_ID m = qr_ModelID req) (be_models env)) else None) of
        Some m \<Rightarrow> Some m
      | None \<Rightarrow> if qr_ModelName req \<noteq> '''' then query_billable env (qr_ModelName req) else None)"

definition computeCost :: "billing_env \<Rightarrow> QuoteRequest \<Rightarrow> AIModel \<Rightarrow> CostResult pricing" where
  "computeCost env req m =
     (let u = qr_Usage req
      in if isUnitPricingUnit (am_PricingUnit m)
         then CalculateCostByUnit (be_price env) (be_redis env) (be_now env) (qr_UserID req) (am_ID m)
                (qr_TenantID req) (qr_AgentLevel req)
                \<lparr>ui_InputTokens = qu_InputTokens u, ui_OutputTokens = qu_OutputTokens u,
                 ui_ImageCount = qu_ImageCount u, ui_CharCount = qu_CharCount u,
                 ui_DurationSec = qu_DurationSec u, ui_CallCount = qu_CallCount u,
                 ui_Variant = '''', ui_Dimensions = []\<rparr>
         else if qu_CacheReadTokens u > 0 \<or> qu_CacheWriteTokens u > 0
         then CalculateCostWithCache (be_price env) (be_redis env) (be_now env) (qr_UserID req) (Some m)
                (qr_TenantID req) (qr_AgentLevel req)
                \<lparr>cu_InputTokens = qu_InputTokens u, cu_OutputTokens = qu_OutputTokens u,
                 cu_CacheReadTokens = qu_CacheReadTokens u, cu_CacheWriteTokens = qu_CacheWriteTokens u,
                 cu_CacheWrite1hTokens = qu_CacheWrite1hTokens u\<rparr>
         else CalculateCost (be_price env) (be_redis env) (be_now env) (qr_UserID req) (am_ID m)
                (qr_TenantID req) (qr_AgentLevel req) (qu_InputTokens u) (qu_OutputTokens u))"

definition quote_of_cost :: "billing_env \<Rightarrow> QuoteRequest \<Rightarrow> AIModel \<Rightarrow> CostResult \<Rightarrow> BillingQuote" where
  "quote_of_cost env req m cr0 =
     (let (applied, _, cr) = thinking_cost env (qr_ThinkingMode req) m
            (stamp_cell (MatchCellByModelID (be_price env) (am_ID m) (qr_DimValues req)) cr0)
            (qu_OutputTokens (qr_Usage req))
      in buildBillingQuote (be_hash env) req m cr applied)"

definition Calculate :: "billing_env \<Rightarrow> QuoteRequest \<Rightarrow> BillingQuote billing" where
  "Calculate env req =
     (if \<not> be_pricer env then fail NoPricer
      else case loadModel env req of
             None \<Rightarrow> fail QuoteModelNotFound
           | Some m \<Rightarrow> andThen (in_caches (computeCost env req m)) (\<lambda>cr. ret (quote_of_cost env req m cr)))"

end
