(* ===== verification/Billing_Laws.thy ===== *)
theory Billing_Laws
  imports Billing Price_Laws
begin

text \<open>
  What the billing service promises: quotes that add up and hash the same whatever the order of
  their maps, a preview that equals the charge, and settlements that either charge exactly the
  priced units or leave the ledger alone. It also shows where it does not keep its word: a
  per-unit settlement keeps the freeze after a pricing error, and a preview of a per-unit call
  forgets the variant.
\<close>

section \<open>Lifted actions\<close>

lemma in_caches_ok:
  "in_caches m s = (Inr a, t) \<longleftrightarrow> (\<exists>c. m (bs_caches s) = (Inr a, c) \<and> t = s\<lparr>bs_caches := c\<rparr>)"
  by (auto simp: in_caches_def split: prod.splits sum.splits)

lemma in_caches_err:
  "in_caches m s = (Inl e, t) \<longleftrightarrow>
     (\<exists>e' c. m (bs_caches s) = (Inl e', c) \<and> e = PriceError e' \<and> t = s\<lparr>bs_caches := c\<rparr>)"
  by (auto simp: in_caches_def split: prod.splits sum.splits)

lemma in_ledger_ok:
  "in_ledger m s = (Inr a, t) \<longleftrightarrow> (\<exists>l. m (bs_ledger s) = (Inr a, l) \<and> t = s\<lparr>bs_ledger := l\<rparr>)"
  by (auto simp: in_ledger_def split: prod.splits sum.splits)

lemma in_ledger_err:
  "in_ledger m s = (Inl e, t) \<longleftrightarrow>
     (\<exists>e' l. m (bs_ledger s) = (Inl e', l) \<and> e = LedgerError e' \<and> t = s\<lparr>bs_ledger := l\<rparr>)"
  by (auto simp: in_ledger_def split: prod.splits sum.splits)

lemmas in_simps = in_caches_ok in_caches_err in_ledger_ok in_ledger_err

lemma in_caches_ledger: "in_caches m s = (r, t) \<Longrightarrow> bs_ledger t = bs_ledger s"
  by (cases r) (auto simp: in_simps)

lemma loadBillableModel_ledger:
  assumes "loadBillableModel env name s = (r, t)"
  shows "bs_ledger t = bs_ledger s" "bs_caches t = bs_caches s"
  using assms
  by (auto simp: loadBillableModel_def load_billable_def store_billable_def split: option.splits if_splits prod.splits)

lemma calculateCost_ledger:
  assumes "calculateCost env req m s = (r, t)"
  shows "bs_ledger t = bs_ledger s"
  using assms
  by (auto simp: calculateCost_def Let_def andThen_def ret_def dest!: in_caches_ledger split: prod.splits sum.splits)

lemma unitCost_ledger: "unitCost env req m s = (r, t) \<Longrightarrow> bs_ledger t = bs_ledger s"
  unfolding unitCost_def by (rule in_caches_ledger)

lemma stamp_cell_units [simp]:
  "cr_TotalCostUnits (stamp_cell c cr) = cr_TotalCostUnits cr"
  "cr_TotalCost (stamp_cell c cr) = cr_TotalCost cr"
  by (auto simp: stamp_cell_def Let_def split: option.splits)

section \<open>Totals are 64-bit values\<close>

lemma in64_min_charge [intro]: "in64 u \<Longrightarrow> in64 (min_charge u b)"
  by (simp add: min_charge_def in64_def)

text \<open>Every answer of an action satisfies a test.\<close>

definition yields :: "('a \<Rightarrow> bool) \<Rightarrow> ('s, 'e, 'a) act \<Rightarrow> bool" where
  "yields P m \<longleftrightarrow> (\<forall>s a t. m s = (Inr a, t) \<longrightarrow> P a)"

lemma yieldsD: "yields P m \<Longrightarrow> m s = (Inr a, t) \<Longrightarrow> P a"
  by (auto simp: yields_def)

lemma yields_ret: "P a \<Longrightarrow> yields P (ret a)"
  by (simp add: yields_def)

lemma yields_fail: "yields P (fail e)"
  by (simp add: yields_def)

lemma yields_andThen: "(\<And>a. yields P (f a)) \<Longrightarrow> yields P (andThen m f)"
  by (auto simp: yields_def andThen_ok)

lemma yields_if: "yields P m \<Longrightarrow> yields P n \<Longrightarrow> yields P (if b then m else n)"
  by simp

lemma yields_option: "yields P m \<Longrightarrow> (\<And>x. yields P (n x)) \<Longrightarrow> yields P (case y of None \<Rightarrow> m | Some x \<Rightarrow> n x)"
  by (cases y) auto

lemmas yields_intros = yields_ret yields_fail yields_andThen yields_if yields_option

abbreviation total64 :: "CostResult \<Rightarrow> bool" where
  "total64 c \<equiv> in64 (cr_TotalCostUnits c)"

lemma cost_result_total64: "total64 (cost_result p sel v ps i out)"
  by (auto intro!: in64_min_charge)

lemma cache_cost_total64: "total64 (cache_cost_result m u base)"
  by (auto simp: cache_cost_result_def Let_def intro!: in64_min_charge split: prod.splits)

lemma in64_RMBToBillingUnits [simp, intro]: "in64 (RMBToBillingUnits x)"
  by (simp add: RMBToBillingUnits_def)

lemma zero_total64: "total64 zero_CostResult"
  by (simp add: zero_CostResult_def in64_def)

lemma unit_cost_total64: "total64 (unit_cost_result p b q d)"
  by (auto simp: unit_cost_result_def Let_def zero_CostResult_def in64_def [of 0] intro!: in64_min_charge)

lemma yields_CalculateCost:
  "yields total64 (CalculateCostWithDims env rg now u m t l i out dims)"
  "yields total64 (CalculateCost env rg now u m t l i out)"
  unfolding CalculateCost_def CalculateCostWithDims_def Let_def
  by (intro yields_intros cost_result_total64)+

lemma yields_computeCost: "yields total64 (computeCost env req m)"
  unfolding computeCost_def Let_def CalculateCostByUnit_def CalculateCostWithCache_def
  by (simp only: option.case)
    (intro yields_intros yields_CalculateCost cache_cost_total64 unit_cost_total64 zero_total64)

lemma thinking_cost_total_in64:
  assumes "thinking_cost env on m cr n = (a, p, cr')" "in64 (cr_TotalCostUnits cr)"
  shows "in64 (cr_TotalCostUnits cr')"
  using assms
  by (auto simp: thinking_cost_def applyThinkingSurchargeToCostResult_def add_surcharge_def Let_def split: if_splits)

section \<open>Quotes\<close>

text \<open>C12: The line items of every quote sum, in the wrapping arithmetic of the machine, to its total:
  whatever the token split, the prompt cache, the thinking surcharge or the minimum charge
  contribute, the adjustment line closes the gap.\<close>

theorem quote_items_sum_to_total:
  assumes "Calculate env req s = (Inr q, s')"
  shows "sum_units (bq_LineItems q) 0 = bq_TotalUnits q"
proof -
  obtain m cr c where cr: "computeCost env req m (bs_caches s) = (Inr cr, c)" and q: "q = quote_of_cost env req m cr"
    using assms by (auto simp: Calculate_def andThen_ok in_simps split: if_splits option.splits)
  obtain a p cr' where t: "thinking_cost env (qr_ThinkingMode req) m
      (stamp_cell (MatchCellByModelID (be_price env) (am_ID m) (qr_DimValues req)) cr)
      (qu_OutputTokens (qr_Usage req)) = (a, p, cr')"
    by (metis prod_cases3)
  have "in64 (cr_TotalCostUnits cr')"
    using thinking_cost_total_in64 [OF t] yieldsD [OF yields_computeCost cr] by simp
  then show ?thesis by (simp add: q quote_of_cost_def t adjusted_items_sum)
qed

text \<open>The hash of a quote depends neither on the order in which the map of matched dimensions is
  listed nor on anything the settlement fills in afterwards.\<close>

theorem quote_hash_stable:
  assumes "distinct (map fst d)" "mset d = mset d'"
    and "he_ok he (quote_payload (q\<lparr>bq_MatchedDimValues := Some d\<rparr>)) =
         he_ok he (quote_payload (q\<lparr>bq_MatchedDimValues := Some d'\<rparr>))"
  shows "computeQuoteHash he (finalizeQuoteForOutcome out (q\<lparr>bq_MatchedDimValues := Some d\<rparr>)) =
         computeQuoteHash he (q\<lparr>bq_MatchedDimValues := Some d'\<rparr>)"
proof -
  have f: "quote_payload (finalizeQuoteForOutcome out x) = quote_payload x" for x
    by (simp add: quote_payload_def finalizeQuoteForOutcome_def)
  have all: "list_all2 (\<lambda>a b. fst a = fst b \<and> same_json (snd a) (snd b)) xs xs" for xs
    by (auto simp: list_all2_conv_all_nth intro: same_json.same)
  have "same_json (json_of_dims d) (json_of_dims d')"
    unfolding json_of_dims_def
    by (rule same_json.obj [where mid = "map (map_prod (\<lambda>k. k) json_of_iface) d'"])
      (use assms in \<open>simp_all add: comp_def all\<close>)
  then have "same_json (quote_payload (q\<lparr>bq_MatchedDimValues := Some d\<rparr>))
      (quote_payload (q\<lparr>bq_MatchedDimValues := Some d'\<rparr>))"
    unfolding quote_payload_def
    by (intro same_json.obj [OF _ refl]) (auto simp: json_opt_def intro: same_json.same)
  then show ?thesis
    using assms(3) by (simp add: computeQuoteHash_def f same_json_canonical)
qed

section \<open>The thinking surcharge\<close>

lemma rnd_pos_iff: "0 < rnd x \<Longrightarrow> 0 < x"
proof (rule ccontr)
  assume "0 < rnd x" "\<not> 0 < x"
  then have "0 \<le> rnd (- x)" by (intro rnd_nonneg) simp
  with \<open>0 < rnd x\<close> show False by simp
qed

text \<open>The surcharge for thinking is all or nothing: when it does not apply the cost is untouched, and
  when it does, a positive number of units is added to the output part and to the total alike,
  the total is never cheaper, and the thinking price is above the normal one.\<close>

theorem thinking_surcharge_all_or_nothing:
  assumes "applyThinkingSurchargeToCostResult env m cr n = (applied, p, cr')"
  shows "(\<not> applied \<longrightarrow> cr' = cr \<and> p = 0) \<and>
    (applied \<longrightarrow> 0 < n \<and> pr_OutputPriceRMB (cr_PriceDetail cr) < p \<and>
      0 < cr_ThinkingOutputCostUnits cr' \<and>
      cr_TotalCostUnits cr' = add64 (cr_TotalCostUnits cr) (cr_ThinkingOutputCostUnits cr') \<and>
      cr_OutputCostUnits cr' = add64 (cr_OutputCostUnits cr) (cr_ThinkingOutputCostUnits cr') \<and>
      (in64 (cr_TotalCostUnits cr + cr_ThinkingOutputCostUnits cr') \<longrightarrow>
         cr_TotalCostUnits cr < cr_TotalCostUnits cr'))"
  using assms
  by (auto simp: applyThinkingSurchargeToCostResult_def add_surcharge_def Let_def add64_id not_le fsub_def
      dest: rnd_pos_iff split: if_splits)

section \<open>Preview and charge\<close>

lemma calculateCost_computeCost:
  assumes "\<not> isUnitPricingUnit (am_PricingUnit m)"
  shows "calculateCost env req m =
    andThen (in_caches (computeCost env (toQuoteRequest req i sc) m))
      (\<lambda>cr. ret (stamp_cell (MatchCellByModelID (be_price env) (am_ID m) (ur_DimValues req)) cr))"
  using assms
  by (simp add: calculateCost_def computeCost_def toQuoteRequest_def QuoteUsageFromProvider_def
      zero_QuoteUsage_def Let_def)

lemma computeQuoteHash_hash [simp]: "computeQuoteHash he (q\<lparr>bq_QuoteHash := h\<rparr>) = computeQuoteHash he q"
  by (simp add: computeQuoteHash_def quote_payload_def)

lemma toQuoteRequest_usage: "qr_Usage (toQuoteRequest req i sc) = QuoteUsageFromProvider (ur_Usage req)"
  by (simp add: toQuoteRequest_def)

lemma quote_scenario:
  "buildBillingQuote he (toQuoteRequest req j ''charge'') m cr t =
    (let q = (buildBillingQuote he (toQuoteRequest req i sc) m cr t)\<lparr>bq_Scenario := ''charge''\<rparr>
     in q\<lparr>bq_QuoteHash := computeQuoteHash he q\<rparr>)"
proof -
  have items: "buildUnitLineItems (toQuoteRequest req j ''charge'') m cr = buildUnitLineItems (toQuoteRequest req i sc) m cr"
      "buildTokenLineItems (toQuoteRequest req j ''charge'') cr = buildTokenLineItems (toQuoteRequest req i sc) cr"
    by (simp_all only: buildUnitLineItems_def buildTokenLineItems_def regular_items_def output_items_def
        thinking_items_def toQuoteRequest_usage)
  show ?thesis
    unfolding buildBillingQuote_def Let_def items
    by (simp add: toQuoteRequest_def defaultScenario_def computeQuoteHash_def quote_payload_def)
qed

lemma settled_fields [simp]:
  "uo_CostResult (with_snapshot env sn out) = uo_CostResult out"
  "uo_CostUnits (with_snapshot env sn out) = uo_CostUnits out"
  "uo_Model (with_snapshot env sn out) = uo_Model out"
  "uo_BillingStatus (with_snapshot env sn out) = uo_BillingStatus out"
  "uo_ActualCostUnits (with_snapshot env sn out) = uo_ActualCostUnits out"
  "uo_UnderCollectedUnits (with_snapshot env sn out) = uo_UnderCollectedUnits out"
  "uo_ThinkingModeApplied (with_snapshot env sn out) = uo_ThinkingModeApplied out"
  "uo_CostResult (failed_outcome c out) = uo_CostResult out"
  "uo_CostUnits (failed_outcome c out) = uo_CostUnits out"
  "uo_Model (failed_outcome c out) = uo_Model out"
  "uo_ThinkingModeApplied (failed_outcome c out) = uo_ThinkingModeApplied out"
  "uo_CostResult (charged_outcome c out) = uo_CostResult out"
  "uo_CostUnits (charged_outcome c out) = uo_CostUnits out"
  "uo_Model (charged_outcome c out) = uo_Model out"
  "uo_ThinkingModeApplied (charged_outcome c out) = uo_ThinkingModeApplied out"
  by (simp_all add: with_snapshot_def failed_outcome_def charged_outcome_def)

lemma priced_outcome_units: "uo_CostUnits (priced_outcome m cr) = cr_TotalCostUnits cr"
  by (simp add: priced_outcome_def)

lemma conclude_outcome:
  "\<exists>out' err t. conclude env sn cr out m s = ((Some out', err), t) \<and> uo_CostResult out' = uo_CostResult out \<and>
    uo_CostUnits out' = uo_CostUnits out \<and> uo_Model out' = uo_Model out \<and>
    uo_ThinkingModeApplied out' = uo_ThinkingModeApplied out"
  by (auto simp: conclude_def split: prod.splits sum.splits)

lemma settle_priced_outcome:
  assumes "thinking_cost env (ur_ThinkingMode req) m cr0 (pu_CompletionTokens (ur_Usage req)) = (a, p, cr)"
  shows "\<exists>out err t. settle_priced env req m cr0 s = ((Some out, err), t) \<and> uo_CostResult out = Some cr \<and>
    uo_CostUnits out = cr_TotalCostUnits cr \<and> uo_Model out = m \<and> uo_ThinkingModeApplied out = a \<and>
    uo_CostCredits out = cr_TotalCost cr"
  by (auto simp: settle_priced_def assms conclude_def priced_outcome_def with_snapshot_def failed_outcome_def
      charged_outcome_def split: prod.splits sum.splits)

text \<open>What the snapshot stored with a settlement says of its quote.\<close>

lemma snapshot_quote:
  "\<exists>entries. buildSnapshot env req oc cr = JObj entries \<and>
     map_of entries ''quote'' = Some (ToSnapshotMap (finalizeQuoteForOutcome oc (usage_quote env req oc cr))) \<and>
     map_of entries ''quote_hash'' = Some (JStr (bq_QuoteHash (usage_quote env req oc cr)))"
  by (simp add: buildSnapshot_def head_entries_def cost_entries_def discount_entries_def quote_entries_def
      key_if_def Let_def split: option.split)

lemma settled_snapshot:
  assumes "conclude env (\<lambda>oc. buildSnapshot env req oc cr) cr out m s = ((Some out', err), t)"
  shows "\<exists>entries. uo_Snapshot out' = Some (JObj entries) \<and> uo_SnapshotJSON out' = encodeSnapshot env (JObj entries) \<and>
    map_of entries ''quote'' = Some (ToSnapshotMap (finalizeQuoteForOutcome out' (usage_quote env req out' cr))) \<and>
    map_of entries ''quote_hash'' = Some (JStr (bq_QuoteHash (usage_quote env req out' cr)))"
proof -
  obtain oc where oc: "out' = with_snapshot env (\<lambda>oc. buildSnapshot env req oc cr) oc"
    using assms by (auto simp: conclude_def split: prod.splits sum.splits)
  have same: "finalizeQuoteForOutcome out' = finalizeQuoteForOutcome oc" "usage_quote env req out' cr = usage_quote env req oc cr"
    by (simp_all add: oc with_snapshot_def finalizeQuoteForOutcome_def usage_quote_def fun_eq_iff)
  show ?thesis
    using snapshot_quote [of env req oc cr] unfolding same by (auto simp: oc with_snapshot_def)
qed

text \<open>C10: A preview is the charge: for a model priced by tokens, found by both paths, let \<open>Calculate\<close> have
  given a quote for a request, under any scenario label. The settlement of the same request is priced at
  the total of that quote (the same credits, and the same units where it has units at all), and the quote in the snapshot stored with the settlement is that quote with
  the label \<open>charge\<close>, the hash computed anew over it, and the fields of the settlement (actual cost,
  under-collected amount, status) filled in from the outcome; all its other fields, the line items and
  prices among them, are those of the preview.\<close>

theorem preview_equals_charge:
  assumes "be_pricer env" "\<not> isUnitPricingUnit (am_PricingUnit m)"
    and "loadBillableModel env (ur_ModelName req) s = (Inr m, s1)"
    and "loadModel env (toQuoteRequest req i sc) = Some m"
    and "Calculate env (toQuoteRequest req i sc) s = (Inr q, s')"
  shows "\<exists>out err t entries. SettleUsage env req s = ((Some out, err), t) \<and> bq_TotalCredits q = uo_CostCredits out \<and>
    bq_TotalUnits q = units_or_credits (uo_CostUnits out) (uo_CostCredits out) \<and>
    uo_Snapshot out = Some (JObj entries) \<and> uo_SnapshotJSON out = encodeSnapshot env (JObj entries) \<and>
    (let r = q\<lparr>bq_Scenario := ''charge''\<rparr>; h = computeQuoteHash (be_hash env) r
     in map_of entries ''quote_hash'' = Some (JStr h) \<and>
        map_of entries ''quote'' = Some (ToSnapshotMap (r\<lparr>bq_QuoteHash := h,
          bq_ActualCostCredits := uo_ActualCostCredits out, bq_ActualCostUnits := uo_ActualCostUnits out,
          bq_ActualCreditsDecimal := BillingUnitsToCreditAmount (uo_ActualCostUnits out),
          bq_UnderCollectedCredits := uo_UnderCollectedCredits out,
          bq_UnderCollectedUnits := uo_UnderCollectedUnits out,
          bq_UnderCollectedCreditsDecimal := BillingUnitsToCreditAmount (uo_UnderCollectedUnits out),
          bq_BillingStatus := uo_BillingStatus out\<rparr>)))"
proof -
  let ?stamp = "stamp_cell (MatchCellByModelID (be_price env) (am_ID m) (ur_DimValues req))"
  obtain cr0 c where c: "computeCost env (toQuoteRequest req i sc) m (bs_caches s) = (Inr cr0, c)"
    and q: "q = quote_of_cost env (toQuoteRequest req i sc) m cr0"
    using assms(1,4,5) by (auto simp: Calculate_def andThen_ok in_simps)
  obtain a p cr where t: "thinking_cost env (ur_ThinkingMode req) m (?stamp cr0)
      (pu_CompletionTokens (ur_Usage req)) = (a, p, cr)"
    by (metis prod_cases3)
  have q': "q = buildBillingQuote (be_hash env) (toQuoteRequest req i sc) m cr a"
    using t by (simp add: q quote_of_cost_def toQuoteRequest_def QuoteUsageFromProvider_def zero_QuoteUsage_def)
  have "calculateCost env req m s1 = (Inr (?stamp cr0), s1\<lparr>bs_caches := c\<rparr>)"
    using c loadBillableModel_ledger(2) [OF assms(3)]
    by (auto simp: calculateCost_computeCost [OF assms(2), of env req i sc] andThen_ok in_simps)
  then have run: "SettleUsage env req s = settle_priced env req m (?stamp cr0) (s1\<lparr>bs_caches := c\<rparr>)"
    using assms(1,3) by (simp add: SettleUsage_def)
  obtain out err t' where o: "settle_priced env req m (?stamp cr0) (s1\<lparr>bs_caches := c\<rparr>) = ((Some out, err), t')"
    "uo_CostResult out = Some cr" "uo_CostUnits out = cr_TotalCostUnits cr" "uo_Model out = m"
    "uo_ThinkingModeApplied out = a" "uo_CostCredits out = cr_TotalCost cr"
    using settle_priced_outcome [OF t] by blast
  let ?r = "q\<lparr>bq_Scenario := ''charge''\<rparr>"
  have u: "usage_quote env req out cr = ?r\<lparr>bq_QuoteHash := computeQuoteHash (be_hash env) ?r\<rparr>"
    using quote_scenario [of "be_hash env" req "am_ID m" m cr a i sc]
    unfolding usage_quote_def o q' by (simp add: Let_def)
  obtain entries where e: "uo_Snapshot out = Some (JObj entries)" "uo_SnapshotJSON out = encodeSnapshot env (JObj entries)"
      "map_of entries ''quote'' = Some (ToSnapshotMap (finalizeQuoteForOutcome out (usage_quote env req out cr)))"
      "map_of entries ''quote_hash'' = Some (JStr (bq_QuoteHash (usage_quote env req out cr)))"
    using o(1) t by (auto simp: settle_priced_def dest!: settled_snapshot)
  have tot: "bq_TotalCredits q = uo_CostCredits out" "bq_TotalUnits q = units_or_credits (uo_CostUnits out) (uo_CostCredits out)"
    using o q' by (simp_all add: buildBillingQuote_def Let_def)
  show ?thesis
    using run o(1) e tot unfolding u by (simp add: finalizeQuoteForOutcome_def Let_def)
qed

section \<open>Settlement\<close>

lemma DeductUnitsForRequest_err:
  "DeductUnitsForRequest env u tn a model rid s = (Inl e, t) \<Longrightarrow> t = s"
  by (auto simp: DeductUnitsForRequest_def andThen_def ret_def dest: DeductUnits_err split: prod.splits sum.splits)

text \<open>C11: A settlement without a freeze either charges the account exactly the priced units and says so,
  or leaves the ledger as it was and reports every unit as under-collected; a call priced at
  nothing charges nothing.\<close>

theorem settlement_charges_all_or_nothing:
  assumes "SettleUsage env req s = ((Some out, err), t)" "uo_CostResult out = Some cr"
    and "be_pricer env" "be_wallet env" "ur_FreezeID req = ''''"
  shows "case err of
      None \<Rightarrow> uo_UnderCollectedUnits out = 0 \<and>
        (if 0 < uo_CostUnits out
         then uo_BillingStatus out = ''settled'' \<and> uo_ActualCostUnits out = uo_CostUnits out \<and>
           DeductUnitsForRequest (be_ledger env) (ur_UserID req) (ur_TenantID req) (uo_CostUnits out)
             (ur_ModelName req) (ur_RequestID req) (bs_ledger s) = (Inr (), bs_ledger t)
         else uo_BillingStatus out = ''no_charge'' \<and> uo_ActualCostUnits out = 0 \<and> bs_ledger t = bs_ledger s)
    | Some _ \<Rightarrow> uo_BillingStatus out = ''deduct_failed'' \<and> uo_ActualCostUnits out = 0 \<and>
        uo_UnderCollectedUnits out = uo_CostUnits out \<and> bs_ledger t = bs_ledger s"
proof -
  obtain m s1 where l: "loadBillableModel env (ur_ModelName req) s = (Inr m, s1)"
    using assms(1-3) by (auto simp: SettleUsage_def no_charge_outcome_def split: prod.splits sum.splits)
  obtain cr0 s2 where c: "calculateCost env req m s1 = (Inr cr0, s2)"
    using assms(1,3) l by (auto simp: SettleUsage_def split: prod.splits sum.splits)
  have s2: "bs_ledger s2 = bs_ledger s"
    using loadBillableModel_ledger(1) [OF l] calculateCost_ledger [OF c] by simp
  obtain a p cr1 where th: "thinking_cost env (ur_ThinkingMode req) m cr0 (pu_CompletionTokens (ur_Usage req)) = (a, p, cr1)"
    by (metis prod_cases3)
  have run: "settle_priced env req m cr0 s2 = ((Some out, err), t)"
    using assms(1,3) l c by (simp add: SettleUsage_def)
  show ?thesis
    using run s2 assms(4,5) DeductUnitsForRequest_err
    by (auto simp: settle_priced_def th conclude_def collect_def in_simps with_snapshot_def failed_outcome_def
        charged_outcome_def priced_outcome_def no_charge_outcome_def ret_def split: prod.splits sum.splits if_splits)
qed

text \<open>When pricing fails after a freeze, \<open>SettleUsage\<close> gives the frozen amount back, while
  \<open>SettleUnitUsage\<close> returns with the ledger, and so the freeze, as it was.\<close>

theorem unit_settlement_keeps_the_freeze:
  assumes "be_pricer env" "be_wallet env"
    and "loadBillableModel env (ur_ModelName req) s = (Inr m, s1)" "calculateCost env req m s1 = (Inl e, s2)"
    and "uu_ModelName ureq = ur_ModelName req" "unitCost env ureq m s1 = (Inl e', s2')"
    and "ur_FreezeID req \<noteq> ''''" "uu_FreezeID ureq = ur_FreezeID req"
  shows "fst (SettleUsage env req s) = (None, Some e) \<and> fst (SettleUnitUsage env ureq s) = (None, Some e') \<and>
    bs_ledger (snd (SettleUsage env req s)) = snd (ReleaseFrozen (be_ledger env) (ur_FreezeID req) (bs_ledger s)) \<and>
    bs_ledger (snd (SettleUnitUsage env ureq s)) = bs_ledger s"
proof -
  have l: "bs_ledger s2 = bs_ledger s" "bs_ledger s2' = bs_ledger s"
    using loadBillableModel_ledger(1) [OF assms(3)] calculateCost_ledger [OF assms(4)] unitCost_ledger [OF assms(6)]
    by simp_all
  have "bs_ledger (release_if env (ur_FreezeID req) s2) =
      snd (ReleaseFrozen (be_ledger env) (ur_FreezeID req) (bs_ledger s))"
    using assms(2,7) l by (simp add: release_if_def billing_ReleaseFrozen_def in_ledger_def split: prod.splits sum.splits)
  then show ?thesis using assms l by (simp add: SettleUsage_def SettleUnitUsage_def)
qed

section \<open>A small billing system\<close>

definition plain_hash :: hash_env where
  "plain_hash = \<lparr>he_leaf = (\<lambda>j. case j of JStr s \<Rightarrow> s | _ \<Rightarrow> ''x''), he_sha256_hex = (\<lambda>s. s), he_ok = (\<lambda>_. True)\<rparr>"

definition billed_model :: AIModel where
  "billed_model = sample_model\<lparr>am_ModelName := ''m''\<rparr>"

definition sample_billing :: billing_env where
  "sample_billing =
     \<lparr>be_pricer = True, be_wallet = True, be_price = sample_env, be_redis = (\<lambda>_. None), be_now = 100,
      be_models = [billed_model], be_fails = (\<lambda>_. False), be_tiers_len = (\<lambda>_. 0), be_ledger = calm,
      be_settle = (\<lambda>_ _. ret ()), be_hash = plain_hash, be_stamp = ''t'', be_marshal = (\<lambda>_. Some ''j'')\<rparr>"

definition sample_request :: UsageRequest where
  "sample_request =
     \<lparr>ur_RequestID = ''r'', ur_UserID = 7, ur_TenantID = 0, ur_AgentLevel = 0, ur_ModelName = ''m'',
      ur_Usage = \<lparr>pu_PromptTokens = 1000, pu_CompletionTokens = 500, pu_TotalTokens = 1500,
        pu_CacheReadTokens = 0, pu_CacheWriteTokens = 0, pu_CacheWrite1hTokens = 0, pu_ReasoningTokens = 0\<rparr>,
      ur_ThinkingMode = False, ur_FreezeID = '''', ur_DimValues = []\<rparr>"

definition sample_state :: billing_state where
  "sample_state = \<lparr>bs_caches = empty_caches, bs_billable = (\<lambda>_. None), bs_ledger = sample_ledger\<rparr>"

definition loaded_state :: billing_state where
  "loaded_state = store_billable ''m'' billed_model 100 sample_state"

lemma sample_env_simps [simp]:
  "be_pricer sample_billing" "be_wallet sample_billing" "be_price sample_billing = sample_env"
  "be_redis sample_billing = (\<lambda>_. None)" "be_now sample_billing = 100" "be_ledger sample_billing = calm"
  "be_hash sample_billing = plain_hash" "\<not> be_fails sample_billing q" "be_models sample_billing = [billed_model]"
  by (simp_all add: sample_billing_def)

lemma sample_request_simps [simp]:
  "ur_ModelName sample_request = ''m''" "ur_UserID sample_request = 7" "ur_TenantID sample_request = 0"
  "ur_AgentLevel sample_request = 0" "ur_FreezeID sample_request = ''''" "ur_DimValues sample_request = []"
  "ur_RequestID sample_request = ''r''" "\<not> ur_ThinkingMode sample_request"
  "pu_PromptTokens (ur_Usage sample_request) = 1000" "pu_CompletionTokens (ur_Usage sample_request) = 500"
  "pu_CacheReadTokens (ur_Usage sample_request) = 0" "pu_CacheWriteTokens (ur_Usage sample_request) = 0"
  by (simp_all add: sample_request_def)

lemma billed_model_simps [simp]:
  "am_ID billed_model = 11" "am_ModelName billed_model = ''m''" "am_IsActive billed_model"
  "am_PricingUnit billed_model = ''''"
  by (simp_all add: billed_model_def sample_model_def zero_AIModel_def)

lemma sample_query: "query_billable env ''m'' = Some billed_model"
  if "be_models env = [billed_model]" "\<not> be_fails env QActiveModel"
  using that by (simp add: query_billable_def active_model_def first_row_def)

lemma sample_load: "loadBillableModel sample_billing ''m'' sample_state = (Inr billed_model, loaded_state)"
  by (simp add: loadBillableModel_def load_billable_def sample_state_def sample_query
      loaded_state_def [unfolded sample_state_def])

lemma loaded_state_simps [simp]:
  "bs_caches loaded_state = empty_caches" "bs_ledger loaded_state = sample_ledger"
  "bs_caches sample_state = empty_caches" "bs_ledger sample_state = sample_ledger"
  by (simp_all add: loaded_state_def store_billable_def sample_state_def)

lemma sample_computeCost:
  "\<exists>c. computeCost sample_billing (toQuoteRequest sample_request 11 sc) billed_model empty_caches = (Inr sample_cost, c)"
  using sample_run
  by (simp add: computeCost_def toQuoteRequest_def QuoteUsageFromProvider_def zero_QuoteUsage_def
      isUnitPricingUnit_def CalculateCost_def)

lemma sample_quote:
  "\<exists>q s'. Calculate sample_billing (toQuoteRequest sample_request 11 sc) sample_state = (Inr q, s')"
proof -
  obtain c where "computeCost sample_billing (toQuoteRequest sample_request 11 sc) billed_model empty_caches =
      (Inr sample_cost, c)"
    using sample_computeCost by blast
  moreover have "loadModel sample_billing (toQuoteRequest sample_request 11 sc) = Some billed_model"
    by (simp add: loadModel_def toQuoteRequest_def first_row_def)
  ultimately show ?thesis by (auto simp: Calculate_def andThen_ok in_simps)
qed

theorem quote_items_sum_to_total_witness:
  "\<exists>q s'. Calculate sample_billing (toQuoteRequest sample_request 11 ''preview'') sample_state = (Inr q, s') \<and>
     sum_units (bq_LineItems q) 0 = bq_TotalUnits q"
  using sample_quote quote_items_sum_to_total by blast

theorem quote_hash_stable_witness:
  "\<exists>q. computeQuoteHash plain_hash (finalizeQuoteForOutcome no_charge_outcome
        (q\<lparr>bq_MatchedDimValues := Some [(''b'', IBool True), (''a'', IStr ''x'')]\<rparr>)) =
      computeQuoteHash plain_hash (q\<lparr>bq_MatchedDimValues := Some [(''a'', IStr ''x''), (''b'', IBool True)]\<rparr>)"
  by (rule exI [of _ undefined], rule quote_hash_stable) (simp_all add: plain_hash_def)

theorem preview_equals_charge_witness:
  "\<exists>q s' out err t. Calculate sample_billing (toQuoteRequest sample_request 11 ''preview'') sample_state = (Inr q, s') \<and>
     SettleUsage sample_billing sample_request sample_state = ((Some out, err), t) \<and>
     uo_CostCredits out = bq_TotalCredits q \<and> uo_Snapshot out \<noteq> None"
proof -
  obtain q s' where "Calculate sample_billing (toQuoteRequest sample_request 11 ''preview'') sample_state = (Inr q, s')"
    using sample_quote by blast
  moreover have "loadModel sample_billing (toQuoteRequest sample_request 11 ''preview'') = Some billed_model"
    by (simp add: loadModel_def toQuoteRequest_def first_row_def)
  ultimately show ?thesis
    using preview_equals_charge [of sample_billing billed_model sample_request sample_state loaded_state 11 "''preview''" q s']
      sample_load by (fastforce simp: isUnitPricingUnit_def)
qed

lemma sample_settles:
  "\<exists>out err t cr. SettleUsage sample_billing sample_request sample_state = ((Some out, err), t) \<and>
     uo_CostResult out = Some cr \<and> uo_CostUnits out = 300000"
proof -
  obtain c where c: "computeCost sample_billing (toQuoteRequest sample_request 11 ''charge'') billed_model empty_caches =
      (Inr sample_cost, c)"
    using sample_computeCost by blast
  have u: "\<not> isUnitPricingUnit (am_PricingUnit billed_model)" by (simp add: isUnitPricingUnit_def)
  have "calculateCost sample_billing sample_request billed_model loaded_state =
      (Inr (stamp_cell None sample_cost), loaded_state\<lparr>bs_caches := c\<rparr>)"
    using c by (simp add: calculateCost_computeCost [OF u, of _ _ 11 "''charge''"] andThen_ok in_simps MatchCellByModelID_def)
  then have run: "SettleUsage sample_billing sample_request sample_state =
      settle_priced sample_billing sample_request billed_model (stamp_cell None sample_cost) (loaded_state\<lparr>bs_caches := c\<rparr>)"
    by (simp add: SettleUsage_def sample_load)
  have th: "thinking_cost sample_billing (ur_ThinkingMode sample_request) billed_model (stamp_cell None sample_cost)
      (pu_CompletionTokens (ur_Usage sample_request)) = (False, 0, stamp_cell None sample_cost)"
    by (simp add: thinking_cost_def)
  have "cr_TotalCostUnits sample_cost = 300000" by code_simp
  then show ?thesis using settle_priced_outcome [OF th] unfolding run by fastforce
qed

theorem settlement_charges_all_or_nothing_witness:
  "\<exists>out err t. SettleUsage sample_billing sample_request sample_state = ((Some out, err), t) \<and>
     (if err = None
      then uo_BillingStatus out = ''settled'' \<and> uo_ActualCostUnits out = 300000
      else uo_UnderCollectedUnits out = 300000 \<and> bs_ledger t = sample_ledger)"
proof -
  obtain out err t cr where o: "SettleUsage sample_billing sample_request sample_state = ((Some out, err), t)"
    "uo_CostResult out = Some cr" "uo_CostUnits out = 300000"
    using sample_settles by blast
  show ?thesis
    using settlement_charges_all_or_nothing [OF o(1,2)] o by (cases err) auto
qed

definition unpriced_billing :: billing_env where
  "unpriced_billing = sample_billing\<lparr>be_price := sample_env\<lparr>pe_model_pricings := []\<rparr>\<rparr>"

definition frozen_request :: UsageRequest where
  "frozen_request = sample_request\<lparr>ur_FreezeID := ''f0''\<rparr>"

definition unit_request :: UnitUsageRequest where
  "unit_request =
     \<lparr>uu_RequestID = ''r'', uu_UserID = 7, uu_TenantID = 0, uu_AgentLevel = 0, uu_ModelName = ''m'',
      uu_Usage = \<lparr>ui_InputTokens = 10, ui_OutputTokens = 5, ui_ImageCount = 1, ui_CharCount = 0,
        ui_DurationSec = 0, ui_CallCount = 0, ui_Variant = '''', ui_Dimensions = []\<rparr>,
      uu_FreezeID = ''f0'', uu_DimValues = []\<rparr>"

theorem unit_settlement_keeps_the_freeze_witness:
  "bs_ledger (snd (SettleUsage unpriced_billing frozen_request sample_state)) =
     snd (ReleaseFrozen calm ''f0'' sample_ledger) \<and>
   bs_ledger (snd (SettleUnitUsage unpriced_billing unit_request sample_state)) = sample_ledger"
proof -
  let ?pe = "sample_env\<lparr>pe_model_pricings := []\<rparr>"
  have l: "loadBillableModel unpriced_billing ''m'' sample_state = (Inr billed_model, loaded_state)"
    by (simp add: loadBillableModel_def load_billable_def sample_state_def sample_query unpriced_billing_def
        loaded_state_def [unfolded sample_state_def])
  have g: "getPlatformPrice ?pe 100 11 empty_caches = (Inl (ModelNotPriced 11), empty_caches)"
    by (simp add: getPlatformPrice_def load_platform_def query_platform_def pricings_of_def empty_caches_def
        sample_env_def first_row_def)
  have d: "CalculateCostWithDims ?pe (\<lambda>_. None) 100 7 11 0 0 i out dims empty_caches =
      (Inl (ModelNotPriced 11), empty_caches)" for i out dims
    by (simp add: CalculateCostWithDims_def Let_def andThen_def g)
  have c: "calculateCost unpriced_billing frozen_request billed_model loaded_state =
      (Inl (PriceError (ModelNotPriced 11)), loaded_state\<lparr>bs_caches := empty_caches\<rparr>)"
    by (simp add: calculateCost_def Let_def andThen_def in_caches_def unpriced_billing_def frozen_request_def
        CalculateCost_def d)
  have m: "pe_ai_models ?pe 11 = Some sample_model" "am_PricingUnit sample_model = ''''" "\<not> pe_fails ?pe QUnitModel"
    by (simp_all add: sample_env_def sample_model_def zero_AIModel_def)
  have u: "unitCost unpriced_billing unit_request billed_model loaded_state =
      (Inl (PriceError (ModelNotPriced 11)), loaded_state\<lparr>bs_caches := empty_caches\<rparr>)"
    using m by (simp add: unitCost_def in_caches_def unpriced_billing_def unit_request_def
        CalculateCostByUnit_def is_token_unit_def d)
  show ?thesis
    using unit_settlement_keeps_the_freeze [of unpriced_billing frozen_request sample_state billed_model loaded_state
        _ _ unit_request, OF _ _ _ c _ u] l
    by (simp add: unpriced_billing_def frozen_request_def unit_request_def)
qed

definition thinking_billing :: billing_env where
  "thinking_billing = sample_billing\<lparr>be_price := sample_env\<lparr>pe_model_pricings :=
     [sample_pricing\<lparr>mp_OutputPriceThinkingRMB := 10\<rparr>]\<rparr>\<rparr>"

theorem thinking_surcharge_all_or_nothing_witness:
  "\<exists>p cr'. applyThinkingSurchargeToCostResult thinking_billing billed_model sample_cost 500 = (True, p, cr') \<and>
     cr_TotalCostUnits sample_cost < cr_TotalCostUnits cr'"
proof -
  have price: "resolveThinkingOutputSellRMB thinking_billing billed_model sample_cost = 10"
    by (simp add: resolveThinkingOutputSellRMB_def Let_def thinking_billing_def list_thinking_def pricings_of_def
        first_row_def sample_pricing_def zero_ModelPricing_def sample_cost_def cost_result_def stamp_matrix_def
        unmatched_def zero_TierPriceSelection_def sample_vars_def)
  have out: "pr_OutputPriceRMB (cr_PriceDetail sample_cost) = 4"
    by (simp add: sample_cost_def sample_vars_def)
  have k: "RMBToBillingUnits (fdiv (fmul (fsub 10 4) 500) 1000000) = 300000" by code_simp
  have d: "0 < fsub 10 4" by code_simp
  have total: "cr_TotalCostUnits sample_cost = 300000" by code_simp
  have a: "applyThinkingSurchargeToCostResult thinking_billing billed_model sample_cost 500 =
      (True, 10, add_surcharge 10 300000 sample_cost)"
    using d by (simp add: applyThinkingSurchargeToCostResult_def Let_def price out k)
  have "cr_ThinkingOutputCostUnits (add_surcharge 10 300000 sample_cost) = 300000"
    by (simp add: add_surcharge_def Let_def)
  then show ?thesis
    using thinking_surcharge_all_or_nothing [OF a] a by (auto simp: total in64_def)
qed

section \<open>Variants\<close>

definition image_model :: AIModel where
  "image_model = zero_AIModel\<lparr>am_ID := 12, am_ModelName := ''img'', am_IsActive := True,
     am_PricingUnit := ''per_image'', am_InputCostRMB := 1,
     am_PriceTiers := Some \<lparr>ptd_Tiers = [zero_PriceTier\<lparr>pt_Variant := ''hd'', pt_InputPrice := 2\<rparr>],
       ptd_Currency = ''CREDIT''\<rparr>\<rparr>"

definition image_billing :: billing_env where
  "image_billing = sample_billing\<lparr>be_models := [image_model], be_price := sample_env\<lparr>
     pe_ai_models := (\<lambda>m. if m = 12 then Some image_model else None), pe_model_pricings := [],
     pe_user_discounts := []\<rparr>\<rparr>"

definition image_request :: UnitUsageRequest where
  "image_request = unit_request\<lparr>uu_ModelName := ''img'', uu_UserID := 0, uu_FreezeID := '''',
     uu_Usage := (uu_Usage unit_request)\<lparr>ui_Variant := ''hd''\<rparr>\<rparr>"

lemma image_cost:
  assumes "ui_ImageCount u = 1" "ui_Dimensions u = []" "ui_Variant u = '''' \<or> ui_Variant u = ''hd''"
  shows "\<exists>c s'. CalculateCostByUnit (be_price image_billing) rg 100 0 12 0 0 u empty_caches = (Inr c, s') \<and>
    cr_TotalCostUnits c = (if ui_Variant u = '''' then 100000000 else 200000000)"
proof -
  let ?pe = "be_price image_billing"
  have m: "pe_ai_models ?pe 12 = Some image_model" "\<not> pe_fails ?pe QUnitModel"
    by (simp_all add: image_billing_def sample_env_def)
  have g: "getPlatformPrice ?pe 100 12 empty_caches = (Inl (ModelNotPriced 12), empty_caches)"
    by (simp add: getPlatformPrice_def load_platform_def query_platform_def pricings_of_def empty_caches_def
        image_billing_def sample_env_def first_row_def)
  have d: "ResolveDiscount ?pe 100 0 0 12 0 empty_caches = (Inr no_discount, empty_caches)"
    by (simp add: ResolveDiscount_def ret_def)
  have p: "unit_sell_price image_model None u = (if ui_Variant u = '''' then 1 else 2)"
    using assms(2,3)
    by (auto simp: unit_sell_price_def Let_def tiers_of_def image_model_def zero_AIModel_def selectPriceByVariant_def
        zero_PriceTier_def EqualFold_def lower_char_def)
  have q: "unit_quantity (am_PricingUnit image_model) u = Some 1"
    by (simp add: unit_quantity_def image_model_def assms(1))
  have n: "\<not> is_token_unit (am_PricingUnit image_model)" "am_InputCostRMB image_model = 1"
    by (simp_all add: is_token_unit_def image_model_def)
  have up: "unit_price ?pe x no_discount = x" for x
    by (simp add: unit_price_def discount_counts_def no_discount_def)
  have u: "RMBToBillingUnits 1 = 100000000" "RMBToBillingUnits 2 = 200000000" "fmul 1 1 = 1" "fmul 2 1 = 2"
    by code_simp+
  show ?thesis
    using assms(3)
    by (auto simp: CalculateCostByUnit_def Let_def m n andThen_def attempt_def g p d q up ret_def
        unit_cost_result_def min_charge_def u)
qed

text \<open>The preview of a call priced by the unit forgets the variant and the dimensions of its usage:
  \<open>Calculate\<close> answers the same whatever they are, so an image whose variant costs twice
  the base price is quoted at half of what its settlement charges.\<close>

theorem preview_forgets_variant:
  "Calculate env (toQuoteRequestUnit (req\<lparr>uu_Usage := (uu_Usage req)\<lparr>ui_Variant := v, ui_Dimensions := d\<rparr>\<rparr>) i sc) s =
     Calculate env (toQuoteRequestUnit req i sc) s \<and>
   (\<exists>q s1 out err s2. Calculate image_billing (toQuoteRequestUnit image_request 12 ''preview'') sample_state = (Inr q, s1) \<and>
      SettleUnitUsage image_billing image_request sample_state = ((Some out, err), s2) \<and>
      bq_TotalUnits q = 100000000 \<and> uo_CostUnits out = 200000000)"
proof (intro conjI)
  show "Calculate env (toQuoteRequestUnit (req\<lparr>uu_Usage := (uu_Usage req)\<lparr>ui_Variant := v, ui_Dimensions := d\<rparr>\<rparr>) i sc) s =
     Calculate env (toQuoteRequestUnit req i sc) s"
    by (simp add: toQuoteRequestUnit_def QuoteUsageFromUnit_def)
  let ?u = "\<lparr>ui_InputTokens = 10, ui_OutputTokens = 5, ui_ImageCount = 1, ui_CharCount = 0, ui_DurationSec = 0,
     ui_CallCount = 0, ui_Variant = '''', ui_Dimensions = []\<rparr> :: UsageInput"
  have e: "be_pricer image_billing" "be_redis image_billing = (\<lambda>_. None)" "be_now image_billing = 100"
      "be_models image_billing = [image_model]" "\<not> be_fails image_billing x" for x
    by (simp_all add: image_billing_def)
  have m: "am_ID image_model = 12" "am_ModelName image_model = ''img''" "am_IsActive image_model"
      "isUnitPricingUnit (am_PricingUnit image_model)"
    by (simp_all add: image_model_def isUnitPricingUnit_def unit_pricing_units_def)
  obtain c1 t1 where q1: "CalculateCostByUnit (be_price image_billing) (\<lambda>_. None) 100 0 12 0 0 ?u empty_caches = (Inr c1, t1)"
    "cr_TotalCostUnits c1 = 100000000"
    using image_cost [where u = ?u and rg = "\<lambda>_. None"] by auto
  have "computeCost image_billing (toQuoteRequestUnit image_request 12 ''preview'') image_model empty_caches = (Inr c1, t1)"
    using q1(1) by (simp add: computeCost_def Let_def m e toQuoteRequestUnit_def QuoteUsageFromUnit_def zero_QuoteUsage_def
        image_request_def unit_request_def)
  moreover have "loadModel image_billing (toQuoteRequestUnit image_request 12 ''preview'') = Some image_model"
    by (simp add: loadModel_def toQuoteRequestUnit_def first_row_def e m)
  ultimately obtain s1 where quote: "Calculate image_billing (toQuoteRequestUnit image_request 12 ''preview'') sample_state =
      (Inr (quote_of_cost image_billing (toQuoteRequestUnit image_request 12 ''preview'') image_model c1), s1)"
    by (auto simp: Calculate_def e andThen_def in_caches_def ret_def)
  have tot: "bq_TotalUnits (quote_of_cost image_billing (toQuoteRequestUnit image_request 12 ''preview'') image_model c1) = 100000000"
    using q1(2) by (simp add: quote_of_cost_def thinking_cost_def toQuoteRequestUnit_def units_or_credits_def)
  define l where "l = store_billable ''img'' image_model 100 sample_state"
  have load: "loadBillableModel image_billing ''img'' sample_state = (Inr image_model, l)"
    by (simp add: loadBillableModel_def load_billable_def sample_state_def query_billable_def active_model_def
        first_row_def e m l_def)
  obtain c2 t2 where q2: "CalculateCostByUnit (be_price image_billing) (\<lambda>_. None) 100 0 12 0 0 (uu_Usage image_request) empty_caches =
      (Inr c2, t2)" "cr_TotalCostUnits c2 = 200000000"
    using image_cost [where u = "uu_Usage image_request" and rg = "\<lambda>_. None"] by (auto simp: image_request_def unit_request_def)
  have "unitCost image_billing image_request image_model l = (Inr c2, l\<lparr>bs_caches := t2\<rparr>)"
    using q2(1) by (simp add: unitCost_def in_caches_def e m l_def store_billable_def sample_state_def image_request_def unit_request_def)
  then have "SettleUnitUsage image_billing image_request sample_state =
      settle_unit_priced image_billing image_request image_model c2 (l\<lparr>bs_caches := t2\<rparr>)"
    using load by (simp add: SettleUnitUsage_def e image_request_def)
  moreover obtain out err s2 where "settle_unit_priced image_billing image_request image_model c2 (l\<lparr>bs_caches := t2\<rparr>) =
      ((Some out, err), s2)" "uo_CostUnits out = 200000000"
    using q2(2) conclude_outcome unfolding settle_unit_priced_def Let_def
    by (metis priced_outcome_units stamp_cell_units(1))
  ultimately show "\<exists>q s1 out err s2. Calculate image_billing (toQuoteRequestUnit image_request 12 ''preview'') sample_state = (Inr q, s1) \<and>
      SettleUnitUsage image_billing image_request sample_state = ((Some out, err), s2) \<and>
      bq_TotalUnits q = 100000000 \<and> uo_CostUnits out = 200000000"
    by (simp add: quote tot)
qed

end
