(* ===== verification/Rate_Limiter.thy ===== *)
theory Rate_Limiter
  imports Price_Matrix
begin

text \<open>
  Request limiting: \<open>internal/middleware/rate_limiter.go\<close>. The state is the sorted sets and
  counters in Redis, the process-wide counter of the current second, the cached configuration
  and the events recorded. \<open>lv_now\<close> is the first reading of the clock in a call and
  \<open>lv_now2\<close> the one that makes the member of the sorted set, both in nanoseconds. The Lua
  script and the pipeline that replaces it are atomic; which Redis calls fail is a parameter, as
  is the answer of the member service. Rejections set the headers of the response and stop the
  request.
\<close>

section \<open>State\<close>

record RateLimiterConfig =
  lc_IPRPM :: int64
  lc_UserRPM :: int64
  lc_APIKeyRPM :: int64
  lc_GlobalQPS :: int64

record rate_event =
  re_SubjectType :: string
  re_SubjectID :: string
  re_Rule :: string
  re_LimitVal :: int64
  re_WindowSec :: int64

type_synonym zset = "(string \<times> int) list"

record limiter_state =
  ls_zsets :: "string \<Rightarrow> (zset \<times> int) option"
  ls_tpm :: "nat \<times> int \<Rightarrow> (int64 \<times> int option) option"
  ls_hash :: "(string \<times> string) list"
  ls_cfg :: "RateLimiterConfig option"
  ls_cfgUntil :: int
  ls_counter :: int64
  ls_resetTime :: int
  ls_events :: "rate_event list"

datatype limiter_call = LuaScript | PipelineExec | HashGet | HashPut | CounterGet | CounterIncr | CounterExpire

record limiter_env =
  lv_now :: int
  lv_now2 :: int
  lv_redis :: bool
  lv_recorder :: bool
  lv_bypassToken :: string
  lv_fails :: "limiter_call \<Rightarrow> bool"

text \<open>What a check writes to the response: whether the request goes on, the three limit headers, and
  \<open>Retry-After\<close>.\<close>

record verdict =
  vd_allowed :: bool
  vd_headers :: "(int64 \<times> int64 \<times> int) option"
  vd_retryAfter :: "int option"

definition pass :: verdict where
  "pass = \<lparr>vd_allowed = True, vd_headers = None, vd_retryAfter = None\<rparr>"

definition unix_sec :: "int \<Rightarrow> int" where "unix_sec ns = ns div 1000000000"

definition unix_milli :: "int \<Rightarrow> int" where "unix_milli ns = ns div 1000000"

definition rateLimitWindow :: int where "rateLimitWindow = 60 * 1000000000"

definition rateLimiterConfigCacheTTL :: int where "rateLimiterConfigCacheTTL = 2 * 1000000000"

section \<open>Configuration\<close>

definition DefaultRateLimiterConfig :: RateLimiterConfig where
  "DefaultRateLimiterConfig = \<lparr>lc_IPRPM = 600, lc_UserRPM = 300, lc_APIKeyRPM = 120, lc_GlobalQPS = 1000\<rparr>"

definition positive_field :: "(string \<times> string) list \<Rightarrow> string \<Rightarrow> int64 \<Rightarrow> int64" where
  "positive_field v key dflt =
     (case map_of v key of
        None \<Rightarrow> dflt
      | Some text \<Rightarrow> (case Atoi text of None \<Rightarrow> dflt | Some n \<Rightarrow> if n > 0 then n else dflt))"

definition config_of_hash :: "(string \<times> string) list \<Rightarrow> RateLimiterConfig" where
  "config_of_hash v =
     \<lparr>lc_IPRPM = positive_field v ''ip_rpm'' (lc_IPRPM DefaultRateLimiterConfig),
      lc_UserRPM = positive_field v ''user_rpm'' (lc_UserRPM DefaultRateLimiterConfig),
      lc_APIKeyRPM = positive_field v ''api_key_rpm'' (lc_APIKeyRPM DefaultRateLimiterConfig),
      lc_GlobalQPS = positive_field v ''global_qps'' (lc_GlobalQPS DefaultRateLimiterConfig)\<rparr>"

definition store_config :: "int \<Rightarrow> RateLimiterConfig \<Rightarrow> limiter_state \<Rightarrow> limiter_state" where
  "store_config now cfg s = s\<lparr>ls_cfg := Some cfg, ls_cfgUntil := now + rateLimiterConfigCacheTTL\<rparr>"

definition LoadRateLimiterConfig :: "limiter_env \<Rightarrow> limiter_state \<Rightarrow> RateLimiterConfig \<times> limiter_state" where
  "LoadRateLimiterConfig env s =
     (if ls_cfg s \<noteq> None \<and> lv_now env < ls_cfgUntil s then (the (ls_cfg s), s)
      else if \<not> lv_redis env then (DefaultRateLimiterConfig, s)
      else (let cfg = (if lv_fails env HashGet \<or> ls_hash s = [] then DefaultRateLimiterConfig
                       else config_of_hash (ls_hash s))
            in (cfg, store_config (lv_now env) cfg s)))"

definition hash_put :: "string \<Rightarrow> string \<Rightarrow> (string \<times> string) list \<Rightarrow> (string \<times> string) list" where
  "hash_put k v h = (k, v) # filter (\<lambda>(k', _). k' \<noteq> k) h"

text \<open>False: the error is returned.\<close>

definition SaveRateLimiterConfig :: "limiter_env \<Rightarrow> RateLimiterConfig \<Rightarrow> limiter_state \<Rightarrow> bool \<times> limiter_state" where
  "SaveRateLimiterConfig env cfg s =
     (if \<not> lv_redis env \<or> lv_fails env HashPut then (False, s)
      else (True, store_config (lv_now env) cfg
             (s\<lparr>ls_hash := hash_put ''ip_rpm'' (show_int (lc_IPRPM cfg))
                (hash_put ''user_rpm'' (show_int (lc_UserRPM cfg))
                (hash_put ''api_key_rpm'' (show_int (lc_APIKeyRPM cfg))
                (hash_put ''global_qps'' (show_int (lc_GlobalQPS cfg)) (ls_hash s))))\<rparr>)))"

section \<open>The sliding window\<close>

definition live_zset :: "int \<Rightarrow> (zset \<times> int) option \<Rightarrow> zset" where
  "live_zset now slot = (case slot of None \<Rightarrow> [] | Some (z, e) \<Rightarrow> if now < e then z else [])"

definition zremrange :: "int \<Rightarrow> int \<Rightarrow> zset \<Rightarrow> zset" where
  "zremrange lo hi z = filter (\<lambda>(_, score). \<not> (lo \<le> score \<and> score \<le> hi)) z"

definition zadd :: "string \<Rightarrow> int \<Rightarrow> zset \<Rightarrow> zset" where
  "zadd member score z =
     (if member \<in> fst ` set z then map (\<lambda>(m, sc). if m = member then (m, score) else (m, sc)) z
      else z @ [(member, score)])"

text \<open>A sorted set without members does not exist, and then has no expiry either.\<close>

definition with_expiry :: "int \<Rightarrow> zset \<Rightarrow> (zset \<times> int) option" where
  "with_expiry e z = (if z = [] then None else Some (z, e))"

definition slidingWindowLua ::
  "int \<Rightarrow> int \<Rightarrow> int \<Rightarrow> string \<Rightarrow> int64 \<Rightarrow> (zset \<times> int) option \<Rightarrow> (bool \<times> int64) \<times> (zset \<times> int) option" where
  "slidingWindowLua now windowStart ttlMs member limit slot =
     (let z = zremrange 0 windowStart (live_zset now slot); n = int (length z)
      in if n \<ge> limit then ((False, n), with_expiry (now + ttlMs) z)
         else ((True, n + 1), with_expiry (now + ttlMs) (zadd member now z)))"

definition zset_member :: "limiter_env \<Rightarrow> string" where
  "zset_member env = show_int (unix_milli (lv_now env)) @ '':'' @ show_int (lv_now2 env mod 1000000)"

definition put_zset :: "string \<Rightarrow> (zset \<times> int) option \<Rightarrow> limiter_state \<Rightarrow> limiter_state" where
  "put_zset key slot s = s\<lparr>ls_zsets := (ls_zsets s)(key := slot)\<rparr>"

definition runSlidingWindowLua ::
  "limiter_env \<Rightarrow> string \<Rightarrow> int64 \<Rightarrow> limiter_state \<Rightarrow> (bool \<times> int64) option \<times> limiter_state" where
  "runSlidingWindowLua env key limit s =
     (if lv_fails env LuaScript then (None, s)
      else (let now = unix_milli (lv_now env);
                (r, slot) = slidingWindowLua now (now - 60000) 61000 (zset_member env) limit (ls_zsets s key)
            in (Some r, put_zset key slot s)))"

definition parseRateLimitKey :: "string \<Rightarrow> string \<times> string \<times> string" where
  "parseRateLimitKey key =
     (if has_prefix key ''rl:ip:'' then (''ip'', trim_prefix key ''rl:ip:'', ''sliding_60s'')
      else if has_prefix key ''rl:user:'' then (''user'', trim_prefix key ''rl:user:'', ''sliding_60s'')
      else if has_prefix key ''rl:apikey:'' then (''apikey'', trim_prefix key ''rl:apikey:'', ''sliding_60s'')
      else if has_prefix key ''rl:member_rpm:''
        then (''member'', trim_prefix key ''rl:member_rpm:'', ''member_rpm'')
      else if has_prefix key ''rl:strict:''
        then (let rest = trim_prefix key ''rl:strict:''
              in case last_index rest '':user:'' of
                   Some i \<Rightarrow> (''strict_user'', drop (i + 6) rest, ''strict:'' @ take i rest)
                 | None \<Rightarrow>
                     (case last_index rest '':'' of
                        Some i \<Rightarrow> (''strict_ip'', drop (i + 1) rest, ''strict:'' @ take i rest)
                      | None \<Rightarrow> (''strict'', rest, ''strict'')))
      else (''unknown'', key, ''sliding_60s''))"

definition recordRateLimitEvent ::
  "limiter_env \<Rightarrow> string \<Rightarrow> string \<Rightarrow> string \<Rightarrow> int64 \<Rightarrow> int64 \<Rightarrow> limiter_state \<Rightarrow> limiter_state" where
  "recordRateLimitEvent env subjectType subjectID rule limit windowSec s =
     (if \<not> lv_recorder env then s
      else s\<lparr>ls_events := ls_events s @ [\<lparr>re_SubjectType = subjectType, re_SubjectID = subjectID,
               re_Rule = rule, re_LimitVal = limit, re_WindowSec = windowSec\<rparr>]\<rparr>)"

text \<open>The headers, and for a rejection the event and \<open>Retry-After\<close>; both paths end in it.\<close>

definition finishSlidingWindowCheck ::
  "limiter_env \<Rightarrow> string \<Rightarrow> int64 \<Rightarrow> bool \<Rightarrow> int64 \<Rightarrow> limiter_state \<Rightarrow> verdict \<times> limiter_state" where
  "finishSlidingWindowCheck env key limit allowed n s =
     (let remaining = (if sub64 limit n < 0 then 0 else sub64 limit n);
          resetTime = unix_sec (lv_now env + rateLimitWindow);
          headers = Some (limit, remaining, resetTime)
      in if allowed then (\<lparr>vd_allowed = True, vd_headers = headers, vd_retryAfter = None\<rparr>, s)
         else (let secondsUntilReset = resetTime - unix_sec (lv_now env);
                   (subjectType, subjectID, rule) = parseRateLimitKey key
               in (\<lparr>vd_allowed = False, vd_headers = headers,
                    vd_retryAfter = Some (if secondsUntilReset < 1 then 1 else secondsUntilReset)\<rparr>,
                   recordRateLimitEvent env subjectType subjectID rule limit 60 s)))"

text \<open>The pipeline counts the members before it adds the request, allowed or not.\<close>

definition pipeline_window ::
  "int \<Rightarrow> string \<Rightarrow> int64 \<Rightarrow> (zset \<times> int) option \<Rightarrow> (bool \<times> int64) \<times> (zset \<times> int) option" where
  "pipeline_window now member limit slot =
     (let z = zremrange 0 (now - 60000) (live_zset now slot); n = int (length z)
      in ((n < limit, n), with_expiry (now + 61000) (zadd member now z)))"

definition slidingWindowCheck ::
  "limiter_env \<Rightarrow> string \<Rightarrow> int64 \<Rightarrow> limiter_state \<Rightarrow> verdict \<times> limiter_state" where
  "slidingWindowCheck env key limit s =
     (if limit \<le> 0 then (pass, s)
      else case runSlidingWindowLua env key limit s of
        (Some (allowed, n), s1) \<Rightarrow> finishSlidingWindowCheck env key limit allowed n s1
      | (None, s1) \<Rightarrow>
          if lv_fails env PipelineExec then (pass, s1)
          else (let ((allowed, n), slot) =
                  pipeline_window (unix_milli (lv_now env)) (zset_member env) limit (ls_zsets s1 key)
                in finishSlidingWindowCheck env key limit allowed n (put_zset key slot s1)))"

section \<open>The counter of the second\<close>

definition checkGlobalQPS :: "int64 \<Rightarrow> int \<Rightarrow> limiter_state \<Rightarrow> bool \<times> limiter_state" where
  "checkGlobalQPS maxQPS nowSec s =
     (if maxQPS \<le> 0 then (True, s)
      else (let s1 = (if nowSec > ls_resetTime s then s\<lparr>ls_resetTime := nowSec, ls_counter := 0\<rparr> else s);
                current = add64 (ls_counter s1) 1
            in (current \<le> maxQPS, s1\<lparr>ls_counter := current\<rparr>)))"

section \<open>The middlewares\<close>

record web_request =
  wr_path :: string
  wr_skipHeader :: string
  wr_apiKeyId :: "string option"
  wr_userId :: "string option"
  wr_uintUser :: "nat option"
  wr_ip :: string

definition IsHealthPath :: "string \<Rightarrow> bool" where
  "IsHealthPath path \<longleftrightarrow> path = ''/health'' \<or> path = ''/livez'' \<or> path = ''/readyz''"

definition bypassed :: "limiter_env \<Rightarrow> web_request \<Rightarrow> bool" where
  "bypassed env req \<longleftrightarrow> lv_bypassToken env \<noteq> '''' \<and> wr_skipHeader req = lv_bypassToken env"

definition local_ip :: "string \<Rightarrow> bool" where
  "local_ip ip \<longleftrightarrow> ip = ''::1'' \<or> ip = ''127.0.0.1'' \<or> has_prefix ip ''172.17.'' \<or> has_prefix ip ''172.18.''"

definition level_check :: "limiter_env \<Rightarrow> RateLimiterConfig \<Rightarrow> web_request \<Rightarrow> limiter_state \<Rightarrow> verdict \<times> limiter_state" where
  "level_check env cfg req s =
     (case wr_apiKeyId req of
        Some apiKey \<Rightarrow> slidingWindowCheck env (''rl:apikey:'' @ apiKey) (lc_APIKeyRPM cfg) s
      | None \<Rightarrow>
          (case wr_userId req of
             Some user \<Rightarrow> slidingWindowCheck env (''rl:user:'' @ user) (lc_UserRPM cfg) s
           | None \<Rightarrow>
               if local_ip (wr_ip req) then (pass, s)
               else slidingWindowCheck env (''rl:ip:'' @ wr_ip req) (lc_IPRPM cfg) s))"

definition MultiLevelRateLimiter :: "limiter_env \<Rightarrow> web_request \<Rightarrow> limiter_state \<Rightarrow> verdict \<times> limiter_state" where
  "MultiLevelRateLimiter env req s =
     (if IsHealthPath (wr_path req) \<or> bypassed env req \<or> has_prefix (wr_path req) ''/api/v1/admin/'' \<or> \<not> lv_redis env
      then (pass, s)
      else
       (let (cfg, s1) = LoadRateLimiterConfig env s;
            (ok, s2) = checkGlobalQPS (lc_GlobalQPS cfg) (unix_sec (lv_now env)) s1
        in if \<not> ok
           then (\<lparr>vd_allowed = False,
                  vd_headers = Some (lc_GlobalQPS cfg, 0, unix_sec (lv_now env + 1000000000)),
                  vd_retryAfter = None\<rparr>,
                 recordRateLimitEvent env ''global'' ''qps'' ''global_qps'' (lc_GlobalQPS cfg) 1 s2)
           else level_check env cfg req s2))"

record UserRateLimits =
  rl_RPM :: int64
  rl_TPM :: int64

definition MemberRateLimiter ::
  "(nat \<Rightarrow> UserRateLimits option) \<Rightarrow> limiter_env \<Rightarrow> web_request \<Rightarrow> limiter_state \<Rightarrow> verdict \<times> limiter_state" where
  "MemberRateLimiter member_limits env req s =
     (if bypassed env req \<or> \<not> lv_redis env then (pass, s)
      else case wr_uintUser req of
        None \<Rightarrow> (pass, s)
      | Some userID \<Rightarrow>
          (case member_limits userID of
             None \<Rightarrow> (pass, s)
           | Some limits \<Rightarrow>
               if rl_RPM limits > 0
               then slidingWindowCheck env (''rl:member_rpm:'' @ show_nat userID) (rl_RPM limits) s
               else (pass, s)))"

section \<open>Tokens per minute\<close>

definition minute_key :: "limiter_env \<Rightarrow> int" where
  "minute_key env = unix_sec (lv_now env) div 60"

definition alive :: "int \<Rightarrow> int option \<Rightarrow> bool" where
  "alive now e \<longleftrightarrow> (case e of None \<Rightarrow> True | Some t \<Rightarrow> now < t)"

definition read_tpm :: "limiter_env \<Rightarrow> nat \<Rightarrow> limiter_state \<Rightarrow> int64" where
  "read_tpm env userID s =
     (if lv_fails env CounterGet then 0
      else case ls_tpm s (userID, minute_key env) of
             None \<Rightarrow> 0
           | Some (n, e) \<Rightarrow> if alive (unix_sec (lv_now env)) e then n else 0)"

definition CheckTPM ::
  "(nat \<Rightarrow> UserRateLimits option) \<Rightarrow> limiter_env \<Rightarrow> nat \<Rightarrow> int64 \<Rightarrow> limiter_state \<Rightarrow> bool \<times> int64" where
  "CheckTPM member_limits env userID estimatedTokens s =
     (if \<not> lv_redis env \<or> estimatedTokens \<le> 0 then (True, 0)
      else case member_limits userID of
        None \<Rightarrow> (True, 0)
      | Some limits \<Rightarrow>
          if rl_TPM limits \<le> 0 then (True, 0)
          else (add64 (read_tpm env userID s) estimatedTokens \<le> rl_TPM limits, rl_TPM limits))"

text \<open>\<open>INCRBY\<close> refuses to overflow; \<open>EXPIRE\<close> runs whether or not it went through, on a key that exists.\<close>

definition incrby :: "int64 \<Rightarrow> (int64 \<times> int option) option \<Rightarrow> (int64 \<times> int option) option" where
  "incrby k slot =
     (case slot of
        None \<Rightarrow> Some (k, None)
      | Some (n, e) \<Rightarrow> if in64 (n + k) then Some (n + k, e) else Some (n, e))"

definition RecordTPM :: "limiter_env \<Rightarrow> nat \<Rightarrow> int64 \<Rightarrow> limiter_state \<Rightarrow> limiter_state" where
  "RecordTPM env userID actualTokens s =
     (if \<not> lv_redis env \<or> actualTokens \<le> 0 then s
      else (let key = (userID, minute_key env);
                now = unix_sec (lv_now env);
                slot0 = (case ls_tpm s key of
                    Some (n, e) \<Rightarrow> if alive now e then Some (n, e) else None
                  | None \<Rightarrow> None);
                slot1 = (if lv_fails env CounterIncr then slot0 else incrby actualTokens slot0);
                slot2 = (if lv_fails env CounterExpire then slot1
                         else map_option (\<lambda>(n, _). (n, Some (now + 120))) slot1)
            in s\<lparr>ls_tpm := (ls_tpm s)(key := slot2)\<rparr>))"

definition GetTPMUsage ::
  "(nat \<Rightarrow> UserRateLimits option) \<Rightarrow> limiter_env \<Rightarrow> nat \<Rightarrow> limiter_state \<Rightarrow> int64 \<times> int64" where
  "GetTPMUsage member_limits env userID s =
     (if \<not> lv_redis env then (0, 0)
      else (read_tpm env userID s, case member_limits userID of None \<Rightarrow> 0 | Some l \<Rightarrow> rl_TPM l))"

end
