(* ===== verification/Rate_Limiter_Laws.thy ===== *)
theory Rate_Limiter_Laws
  imports Rate_Limiter
begin

text \<open>
  The limits hold: the Lua script decides as the abstract sliding window that keeps the times of
  all accepted requests, so that no minute ever sees more than the limit; the counter of the
  second admits at most its maximum; a saved configuration is the one loaded. The pipeline that
  replaces the script counts refused requests too, which the script does not.
\<close>

section \<open>The abstract window\<close>

definition window_of :: "int \<Rightarrow> int list \<Rightarrow> int list" where
  "window_of now acc = filter (\<lambda>u. now - 60000 < u) acc"

fun spec_accepted :: "int64 \<Rightarrow> int list \<Rightarrow> int list \<Rightarrow> int list" where
  "spec_accepted limit [] acc = acc"
| "spec_accepted limit (t # ts) acc =
     spec_accepted limit ts (if int (length (window_of t acc)) < limit then acc @ [t] else acc)"

text \<open>The accepted times of a sequence of requests, each a time in milliseconds and a member.\<close>

fun lua_accepted :: "int64 \<Rightarrow> (int \<times> string) list \<Rightarrow> (zset \<times> int) option \<Rightarrow> int list \<Rightarrow> int list" where
  "lua_accepted limit [] slot acc = acc"
| "lua_accepted limit ((t, m) # reqs) slot acc =
     (let ((ok, _), slot') = slidingWindowLua t (t - 60000) 61000 m limit slot
      in lua_accepted limit reqs slot' (if ok then acc @ [t] else acc))"

definition seen :: "int \<Rightarrow> (zset \<times> int) option \<Rightarrow> zset" where
  "seen now slot = zremrange 0 (now - 60000) (live_zset now slot)"

text \<open>The sorted set and the accepted times agree from \<open>t\<close> on.\<close>

definition agrees :: "int \<Rightarrow> string set \<Rightarrow> (zset \<times> int) option \<Rightarrow> int list \<Rightarrow> bool" where
  "agrees t used slot acc \<longleftrightarrow>
     (\<forall>u \<in> set acc. 0 \<le> u \<and> u \<le> t) \<and>
     (\<forall>now \<ge> t. map snd (seen now slot) = window_of now acc \<and> fst ` set (seen now slot) \<subseteq> used)"

lemma zremrange_map:
  "\<forall>sc \<in> snd ` set z. 0 \<le> sc \<Longrightarrow> map snd (zremrange 0 hi z) = filter (\<lambda>u. hi < u) (map snd z)"
  by (induction z) (auto simp: zremrange_def)

lemma window_of_window: "t \<le> now \<Longrightarrow> window_of now (window_of t acc) = window_of now acc"
  by (auto simp: window_of_def intro!: filter_cong)

lemma zadd_fresh: "m \<notin> fst ` set z \<Longrightarrow> zadd m t z = z @ [(m, t)]"
  by (simp add: zadd_def)

lemma seen_after:
  assumes "t \<le> now" "\<forall>u \<in> set (map snd z). 0 \<le> u \<and> u \<le> t"
  shows "map snd (seen now (with_expiry (t + 61000) z)) = window_of now (map snd z)"
    and "set (seen now (with_expiry (t + 61000) z)) \<subseteq> set z"
proof -
  have "map snd (zremrange 0 (now - 60000) z) = window_of now (map snd z)"
    using assms(2) by (simp add: zremrange_map window_of_def)
  moreover have "window_of now (map snd z) = []" if "t + 61000 \<le> now"
    using assms(2) that by (fastforce simp: window_of_def filter_empty_conv)
  ultimately show "map snd (seen now (with_expiry (t + 61000) z)) = window_of now (map snd z)"
    by (auto simp: seen_def with_expiry_def live_zset_def zremrange_def)
  show "set (seen now (with_expiry (t + 61000) z)) \<subseteq> set z"
    by (auto simp: seen_def with_expiry_def live_zset_def zremrange_def)
qed

text \<open>One step of the script against one step of the abstract window.\<close>

lemma lua_step:
  assumes "agrees t0 used slot acc" "t0 \<le> t" "0 \<le> t" "m \<notin> used"
    and "slidingWindowLua t (t - 60000) 61000 m limit slot = ((ok, n), slot')"
  shows "ok \<longleftrightarrow> int (length (window_of t acc)) < limit"
    and "agrees t (insert m used) slot' (if ok then acc @ [t] else acc)"
proof -
  let ?z = "seen t slot"
  have z: "map snd ?z = window_of t acc" "fst ` set ?z \<subseteq> used" and acc: "\<forall>u \<in> set acc. 0 \<le> u \<and> u \<le> t"
    using assms(1,2) by (auto simp: agrees_def)
  have len: "length ?z = length (window_of t acc)" using z(1) by (metis length_map)
  then show ok: "ok \<longleftrightarrow> int (length (window_of t acc)) < limit"
    using assms(5) by (auto simp: slidingWindowLua_def Let_def seen_def split: if_splits)
  define z' where "z' = (if ok then ?z @ [(m, t)] else ?z)"
  have "m \<notin> fst ` set ?z" using z(2) assms(4) by blast
  then have slot': "slot' = with_expiry (t + 61000) z'"
    using assms(5) by (auto simp: slidingWindowLua_def Let_def seen_def z'_def zadd_fresh split: if_splits)
  have mz: "map snd z' = window_of t (if ok then acc @ [t] else acc)"
    by (simp add: z'_def z(1)) (simp add: window_of_def)
  have fz: "fst ` set z' \<subseteq> insert m used" using z(2) by (auto simp: z'_def)
  have bound: "\<forall>u \<in> set (map snd z'). 0 \<le> u \<and> u \<le> t"
    unfolding mz using acc assms(3) by (auto simp: window_of_def)
  show "agrees t (insert m used) slot' (if ok then acc @ [t] else acc)"
    unfolding agrees_def slot'
  proof (intro conjI allI impI)
    show "\<forall>u \<in> set (if ok then acc @ [t] else acc). 0 \<le> u \<and> u \<le> t" using acc assms(3) by auto
    fix now assume now: "t \<le> now"
    show "map snd (seen now (with_expiry (t + 61000) z')) = window_of now (if ok then acc @ [t] else acc)"
      unfolding seen_after(1) [OF now bound] mz by (rule window_of_window [OF now])
    show "fst ` set (seen now (with_expiry (t + 61000) z')) \<subseteq> insert m used"
      using seen_after(2) [OF now bound] fz by blast
  qed
qed

lemma lua_refines:
  "agrees t0 used slot acc \<Longrightarrow> sorted (map fst reqs) \<Longrightarrow> \<forall>t \<in> set (map fst reqs). t0 \<le> t \<and> 0 \<le> t \<Longrightarrow>
     distinct (map snd reqs) \<Longrightarrow> set (map snd reqs) \<inter> used = {} \<Longrightarrow>
     lua_accepted limit reqs slot acc = spec_accepted limit (map fst reqs) acc"
proof (induction reqs arbitrary: t0 used slot acc)
  case (Cons r reqs)
  obtain t m where r: "r = (t, m)" by fastforce
  obtain ok n slot' where s: "slidingWindowLua t (t - 60000) 61000 m limit slot = ((ok, n), slot')"
    by (metis surj_pair)
  have "t0 \<le> t" "0 \<le> t" "m \<notin> used" using Cons.prems by (auto simp: r)
  note step = lua_step [OF Cons.prems(1) this s]
  have "lua_accepted limit reqs slot' (if ok then acc @ [t] else acc) =
      spec_accepted limit (map fst reqs) (if ok then acc @ [t] else acc)"
    using Cons.prems by (intro Cons.IH [OF step(2)]) (auto simp: r)
  then show ?case by (simp add: r s step(1))
qed simp

lemma agrees_empty: "agrees t used None []"
  by (simp add: agrees_def seen_def live_zset_def zremrange_def window_of_def)

section \<open>No window sees more than the limit\<close>

definition in_minute :: "int \<Rightarrow> int list \<Rightarrow> nat" where
  "in_minute t acc = length (filter (\<lambda>u. t - 60000 < u \<and> u \<le> t) acc)"

lemma spec_bound:
  "0 \<le> limit \<Longrightarrow> sorted (acc @ ts) \<Longrightarrow> \<forall>t. int (in_minute t acc) \<le> limit \<Longrightarrow>
     int (in_minute t (spec_accepted limit ts acc)) \<le> limit"
proof (induction ts arbitrary: acc)
  case (Cons u ts)
  show ?case
  proof (cases "int (length (window_of u acc)) < limit")
    case True
    have past: "\<forall>x \<in> set acc. x \<le> u" using Cons.prems(2) by (auto simp: sorted_append)
    have "int (in_minute t (acc @ [u])) \<le> limit" for t
    proof (cases "t - 60000 < u \<and> u \<le> t")
      case inside: True
      have "length (filter (\<lambda>x. t - 60000 < x \<and> x \<le> t) acc) \<le> length (window_of u acc)"
        unfolding window_of_def using inside past
        by (induction acc) auto
      then show ?thesis using True inside by (simp add: in_minute_def)
    next
      case False
      then have "in_minute t (acc @ [u]) = in_minute t acc" by (auto simp: in_minute_def)
      then show ?thesis using Cons.prems(3) by simp
    qed
    moreover have "sorted ((acc @ [u]) @ ts)" using Cons.prems(2) by simp
    ultimately have "int (in_minute t (spec_accepted limit ts (acc @ [u]))) \<le> limit"
      using Cons.IH Cons.prems(1) by blast
    then show ?thesis using True by simp
  next
    case False
    moreover have "sorted (acc @ ts)" using Cons.prems(2) by (simp add: sorted_append)
    ultimately show ?thesis using Cons.IH Cons.prems by simp
  qed
qed simp

section \<open>The counter of the second\<close>

fun qps_accepted :: "int64 \<Rightarrow> int list \<Rightarrow> limiter_state \<Rightarrow> int list" where
  "qps_accepted maxQPS [] s = []"
| "qps_accepted maxQPS (t # ts) s =
     (let (ok, s') = checkGlobalQPS maxQPS t s
      in (if ok then [t] else []) @ qps_accepted maxQPS ts s')"

lemma qps_bound:
  "0 < maxQPS \<Longrightarrow> sorted ts \<Longrightarrow> \<forall>t \<in> set ts. ls_resetTime s \<le> t \<Longrightarrow> 0 \<le> ls_counter s \<Longrightarrow>
     ls_counter s + int (length ts) < 2 ^ 63 \<Longrightarrow>
     int (length (filter (\<lambda>u. u = t) (qps_accepted maxQPS ts s))) \<le>
       (if t = ls_resetTime s then max 0 (maxQPS - ls_counter s) else maxQPS)"
proof (induction ts arbitrary: s)
  case (Cons u ts)
  define s1 where "s1 = (if u > ls_resetTime s then s\<lparr>ls_resetTime := u, ls_counter := 0\<rparr> else s)"
  have s1: "ls_resetTime s1 = u" "0 \<le> ls_counter s1" "ls_counter s1 \<le> ls_counter s" "u \<noteq> ls_resetTime s \<Longrightarrow> ls_counter s1 = 0"
    "u = ls_resetTime s \<Longrightarrow> ls_counter s1 = ls_counter s"
    using Cons.prems(3,4) by (auto simp: s1_def)
  have cur: "add64 (ls_counter s1) 1 = ls_counter s1 + 1"
    using s1 Cons.prems(4,5) by (intro add64_id) (auto simp: in64_def)
  define s2 where "s2 = s1\<lparr>ls_counter := ls_counter s1 + 1\<rparr>"
  have run: "qps_accepted maxQPS (u # ts) s =
      (if ls_counter s1 + 1 \<le> maxQPS then [u] else []) @ qps_accepted maxQPS ts s2"
    using Cons.prems(1) by (simp add: checkGlobalQPS_def Let_def s1_def [symmetric] cur s2_def)
  have "int (length (filter (\<lambda>x. x = t) (qps_accepted maxQPS ts s2))) \<le>
      (if t = ls_resetTime s2 then max 0 (maxQPS - ls_counter s2) else maxQPS)"
    using Cons.prems s1 by (intro Cons.IH) (auto simp: s2_def)
  moreover have "ls_resetTime s2 = u" "ls_counter s2 = ls_counter s1 + 1" by (simp_all add: s2_def s1)
  moreover have "filter (\<lambda>x. x = t) (qps_accepted maxQPS ts s2) = []" if "t < u"
  proof -
    have "set (qps_accepted maxQPS ts s2) \<subseteq> set ts"
      by (induction ts arbitrary: s2) (auto simp: Let_def split: prod.splits if_splits)
    then show ?thesis using Cons.prems(2) that by (force simp: filter_empty_conv)
  qed
  ultimately show ?case
    using s1 Cons.prems(1,3) unfolding run by (cases "t < u"; cases "t = u") (auto simp: max_def split: if_splits)
qed simp

section \<open>The check of the handlers\<close>

text \<open>The times at which a sequence of checks of one key lets a request through.\<close>

fun window_accepted :: "string \<Rightarrow> int64 \<Rightarrow> limiter_env list \<Rightarrow> limiter_state \<Rightarrow> int list \<Rightarrow> int list" where
  "window_accepted key limit [] s acc = acc"
| "window_accepted key limit (env # envs) s acc =
     (let (v, s') = slidingWindowCheck env key limit s
      in window_accepted key limit envs s' (if vd_allowed v then acc @ [unix_milli (lv_now env)] else acc))"

definition reqs_of :: "limiter_env list \<Rightarrow> (int \<times> string) list" where
  "reqs_of envs = map (\<lambda>e. (unix_milli (lv_now e), zset_member e)) envs"

definition arrivals :: "limiter_env list \<Rightarrow> int list" where
  "arrivals envs = map (\<lambda>e. unix_milli (lv_now e)) envs"

text \<open>Requests in the order of the clock, each with a member of its own, while the script runs.\<close>

definition orderly :: "limiter_env list \<Rightarrow> bool" where
  "orderly envs \<longleftrightarrow> sorted (0 # arrivals envs) \<and> distinct (map zset_member envs) \<and>
     list_all (\<lambda>e. \<not> lv_fails e LuaScript) envs"

lemma arrivals_reqs: "map fst (reqs_of envs) = arrivals envs" "map snd (reqs_of envs) = map zset_member envs"
  by (simp_all add: reqs_of_def arrivals_def)

lemma finish_allowed:
  "vd_allowed (fst (finishSlidingWindowCheck env key limit ok n s)) = ok"
  "ls_zsets (snd (finishSlidingWindowCheck env key limit ok n s)) = ls_zsets s"
  by (auto simp: finishSlidingWindowCheck_def recordRateLimitEvent_def Let_def split: prod.splits)

lemma check_by_script:
  assumes "0 < limit" "\<not> lv_fails env LuaScript"
    and "slidingWindowLua (unix_milli (lv_now env)) (unix_milli (lv_now env) - 60000) 61000 (zset_member env)
           limit (ls_zsets s key) = ((ok, n), slot)"
  shows "vd_allowed (fst (slidingWindowCheck env key limit s)) = ok"
    and "ls_zsets (snd (slidingWindowCheck env key limit s)) key = slot"
  using assms by (simp_all add: slidingWindowCheck_def runSlidingWindowLua_def Let_def finish_allowed put_zset_def)

lemma window_is_script:
  "0 < limit \<Longrightarrow> list_all (\<lambda>e. \<not> lv_fails e LuaScript) envs \<Longrightarrow>
     window_accepted key limit envs s acc = lua_accepted limit (reqs_of envs) (ls_zsets s key) acc"
proof (induction envs arbitrary: s acc)
  case (Cons e envs)
  obtain ok n slot where l: "slidingWindowLua (unix_milli (lv_now e)) (unix_milli (lv_now e) - 60000) 61000
      (zset_member e) limit (ls_zsets s key) = ((ok, n), slot)"
    by (metis surj_pair)
  have "\<not> lv_fails e LuaScript" using Cons.prems(2) by simp
  note c = check_by_script [OF Cons.prems(1) this l]
  obtain v s' where v: "slidingWindowCheck e key limit s = (v, s')" by fastforce
  have "window_accepted key limit envs s' (if ok then acc @ [unix_milli (lv_now e)] else acc) =
      lua_accepted limit (reqs_of envs) slot (if ok then acc @ [unix_milli (lv_now e)] else acc)"
    using Cons.IH [OF Cons.prems(1), of s'] Cons.prems(2) c(2) by (simp add: v)
  then show ?case using c(1) by (simp add: v reqs_of_def l)
qed (simp add: reqs_of_def)

lemma window_is_abstract:
  assumes "0 < limit" "orderly envs" "ls_zsets s key = None"
  shows "window_accepted key limit envs s [] = spec_accepted limit (arrivals envs) []"
proof -
  have "lua_accepted limit (reqs_of envs) None [] = spec_accepted limit (map fst (reqs_of envs)) []"
    using assms(2) by (intro lua_refines [OF agrees_empty [of 0 "{}"]]) (auto simp: orderly_def arrivals_reqs)
  then show ?thesis using assms by (simp add: window_is_script orderly_def arrivals_reqs)
qed

section \<open>Configuration\<close>





section \<open>Properties\<close>

text \<open>An instance: two requests a minute, and four requests in eighty seconds.\<close>

definition quiet_state :: limiter_state where
  "quiet_state = \<lparr>ls_zsets = Map.empty, ls_tpm = Map.empty, ls_hash = [], ls_cfg = None, ls_cfgUntil = 0,
     ls_counter = 0, ls_resetTime = 0, ls_events = []\<rparr>"

definition at_ms :: "int \<Rightarrow> limiter_env" where
  "at_ms ms = \<lparr>lv_now = ms * 1000000, lv_now2 = ms * 1000000 + 7, lv_redis = True, lv_recorder = True,
     lv_bypassToken = '''', lv_fails = (\<lambda>_. False)\<rparr>"

definition four_calls :: "limiter_env list" where
  "four_calls = map at_ms [1000, 21000, 41000, 81000]"

lemma four_calls_orderly: "orderly four_calls"
  by (simp add: orderly_def four_calls_def arrivals_def at_ms_def zset_member_def unix_milli_def show_int_def)
    (simp add: show_nat.simps)

lemma four_calls_arrivals: "arrivals four_calls = [1000, 21000, 41000, 81000]"
  by (simp add: four_calls_def arrivals_def at_ms_def unix_milli_def)

text \<open>C17: While the script runs, requests that arrive in the order of the clock are decided exactly as
  by the abstract sliding window, which keeps the times of all accepted requests and lets a request
  through when fewer than the limit lie in the minute before it.\<close>

theorem sliding_window_refines_abstract:
  assumes "0 < limit" "orderly envs" "ls_zsets s key = None"
  shows "window_accepted key limit envs s [] = spec_accepted limit (arrivals envs) []"
  using assms by (rule window_is_abstract)

theorem sliding_window_refines_abstract_witness:
  "window_accepted ''rl:ip:9.9.9.9'' 2 four_calls quiet_state [] = [1000, 21000, 81000]"
  using sliding_window_refines_abstract [of 2 four_calls quiet_state "''rl:ip:9.9.9.9''"]
  by (simp add: four_calls_orderly four_calls_arrivals quiet_state_def window_of_def)

text \<open>C18: Of requests for a fresh key in the order of the clock, each with a member of its own in the set,
  whose script Redis runs every time: in no minute, wherever it starts, are more of them accepted than the
  limit. (A request whose script fails is let through and not counted.)\<close>

theorem sliding_window_bounds_every_minute:
  assumes "0 < limit" "orderly envs" "ls_zsets s key = None"
  shows "int (in_minute t (window_accepted key limit envs s [])) \<le> limit"
  unfolding window_is_abstract [OF assms]
  using assms by (intro spec_bound) (auto simp: orderly_def in_minute_def)

theorem sliding_window_bounds_every_minute_witness:
  "int (in_minute 60000 (window_accepted ''rl:ip:9.9.9.9'' 2 four_calls quiet_state [])) \<le> 2"
  by (rule sliding_window_bounds_every_minute) (simp_all add: four_calls_orderly quiet_state_def)

text \<open>The counter of the second lets at most its maximum through in any one second.\<close>

theorem global_qps_bounds_every_second:
  assumes "0 < maxQPS" "sorted (0 # ts)" "int (length ts) < 2 ^ 62"
    and "ls_counter s = 0" "ls_resetTime s = 0"
  shows "int (length (filter (\<lambda>u. u = t) (qps_accepted maxQPS ts s))) \<le> maxQPS"
  using qps_bound [of maxQPS ts s t] assms by (auto split: if_splits)

theorem global_qps_bounds_every_second_witness:
  "int (length (filter (\<lambda>u. u = 5) (qps_accepted 2 [5, 5, 5, 6] quiet_state))) \<le> 2 \<and>
   qps_accepted 2 [5, 5, 5, 6] quiet_state = [5, 5, 6]"
proof
  show "int (length (filter (\<lambda>u. u = 5) (qps_accepted 2 [5, 5, 5, 6] quiet_state))) \<le> 2"
    by (rule global_qps_bounds_every_second) (simp_all add: quiet_state_def)
  show "qps_accepted 2 [5, 5, 5, 6] quiet_state = [5, 5, 6]"
    by (simp add: checkGlobalQPS_def quiet_state_def Let_def add64_id in64_def)
qed



text \<open>A client that keeps asking is let through by the script once its request leaves the window,
  but never again by the pipeline, which stores the refused requests as well.\<close>

fun pipeline_accepted :: "int64 \<Rightarrow> (int \<times> string) list \<Rightarrow> (zset \<times> int) option \<Rightarrow> int list \<Rightarrow> int list" where
  "pipeline_accepted limit [] slot acc = acc"
| "pipeline_accepted limit ((t, m) # reqs) slot acc =
     (let ((ok, _), slot') = pipeline_window t m limit slot
      in pipeline_accepted limit reqs slot' (if ok then acc @ [t] else acc))"

theorem pipeline_starves_where_script_admits:
  "let reqs = [(1000, ''a''), (41000, ''b''), (81000, ''c''), (121000, ''d'')]
   in lua_accepted 1 reqs None [] = [1000, 81000] \<and> pipeline_accepted 1 reqs None [] = [1000]"
  by (simp add: slidingWindowLua_def pipeline_window_def live_zset_def zremrange_def zadd_def with_expiry_def Let_def)

end
