(* ===== verification/Breakers.thy ===== *)
theory Breakers
  imports Float64
begin

text \<open>
  The two circuit breakers of the gateway: \<open>RedisCircuitBreaker\<close> of
  \<open>internal/service/channel/redis_breaker.go\<close>, shared by all instances through three Redis
  keys with expiry times, and \<open>CircuitBreaker\<close> of \<open>internal/pkg/guard/guard.go\<close>, in
  memory, with the retry loop of the same package. Both meet the interface
  \<open>circuit_breaker\<close>, in which the bound on admitted failures is proved once. Times are
  seconds for the first and nanoseconds for the second, with one reading of the clock per call;
  counters are natural numbers (Redis counters start at zero and only grow). A Redis call that
  fails does nothing; which ones fail is a parameter.
\<close>

section \<open>The interface of a circuit breaker\<close>

fun run_calls :: "(int \<Rightarrow> 's \<Rightarrow> 's) \<Rightarrow> int list \<Rightarrow> 's \<Rightarrow> 's" where
  "run_calls call [] s = s"
| "run_calls call (t # ts) s = run_calls call ts (call t s)"

fun all_admitted :: "(int \<Rightarrow> 's \<Rightarrow> bool) \<Rightarrow> (int \<Rightarrow> 's \<Rightarrow> 's) \<Rightarrow> int list \<Rightarrow> 's \<Rightarrow> bool" where
  "all_admitted adm call [] s = True"
| "all_admitted adm call (t # ts) s = (adm t s \<and> all_admitted adm call ts (call t s))"

fun spaced :: "(int \<Rightarrow> int \<Rightarrow> bool) \<Rightarrow> int list \<Rightarrow> bool" where
  "spaced close [] = True"
| "spaced close [t] = True"
| "spaced close (t # u # ts) = (t \<le> u \<and> close t u \<and> spaced close (u # ts))"

text \<open>
  \<open>failing_call t s\<close> is the state after a call at time \<open>t\<close> whose body would fail: a
  rejected call does not run. \<open>near t t'\<close> says that a failure at \<open>t\<close> still counts at
  \<open>t'\<close>.
\<close>

locale circuit_breaker =
  fixes admits :: "int \<Rightarrow> 's \<Rightarrow> bool"
    and failing_call :: "int \<Rightarrow> 's \<Rightarrow> 's"
    and streak :: "int \<Rightarrow> 's \<Rightarrow> nat"
    and near :: "int \<Rightarrow> int \<Rightarrow> bool"
    and threshold :: nat
    and timeout :: int
  assumes streak_grows: "admits t s \<Longrightarrow> t \<le> t' \<Longrightarrow> near t t' \<Longrightarrow> streak t s < streak t' (failing_call t s)"
    and trips: "admits t s \<Longrightarrow> threshold \<le> Suc (streak t s) \<Longrightarrow> t \<le> t' \<Longrightarrow> t' \<le> t + timeout \<Longrightarrow>
      \<not> admits t' (failing_call t s)"
    and recovers: "admits t s \<Longrightarrow> t \<le> t' \<Longrightarrow> t + timeout < t' \<Longrightarrow> admits t' (failing_call t s)"
begin

lemma run_calls_append [simp]: "run_calls failing_call (ts @ us) s = run_calls failing_call us (run_calls failing_call ts s)"
  by (induction ts arbitrary: s) auto

lemma all_admitted_append [simp]:
  "all_admitted admits failing_call (ts @ us) s \<longleftrightarrow> all_admitted admits failing_call ts s \<and> all_admitted admits failing_call us (run_calls failing_call ts s)"
  by (induction ts arbitrary: s) auto

lemma streak_counts:
  "all_admitted admits failing_call (ts @ [t]) s \<Longrightarrow> spaced near (ts @ [t]) \<Longrightarrow>
     streak (hd (ts @ [t])) s + length ts \<le> streak t (run_calls failing_call ts s)"
proof (induction ts arbitrary: s)
  case (Cons u us)
  let ?next = "hd (us @ [t])"
  have sp: "u \<le> ?next \<and> near u ?next \<and> spaced near (us @ [t])"
    using Cons.prems(2) by (cases us) auto
  have "streak u s < streak ?next (failing_call u s)"
    using Cons.prems(1) sp by (intro streak_grows) auto
  moreover have "streak ?next (failing_call u s) + length us \<le> streak t (run_calls failing_call us (failing_call u s))"
    using Cons.prems(1) sp by (intro Cons.IH) auto
  ultimately show ?case by simp
qed simp

lemma opens_for_timeout:
  assumes "all_admitted admits failing_call (ts @ [t]) s" "spaced near (ts @ [t])" "threshold \<le> Suc (length ts)"
  shows "t \<le> t' \<Longrightarrow> t' \<le> t + timeout \<Longrightarrow> \<not> admits t' (run_calls failing_call (ts @ [t]) s)"
    and "t \<le> t' \<Longrightarrow> t + timeout < t' \<Longrightarrow> admits t' (run_calls failing_call (ts @ [t]) s)"
  using trips [of t "run_calls failing_call ts s" t'] recovers [of t "run_calls failing_call ts s" t'] streak_counts [OF assms(1,2)] assms(1,3)
  by auto

text \<open>However many failing calls are tried within one timeout, at most \<open>threshold\<close> in a row are
  let through.\<close>

lemma admitted_failures_bounded:
  assumes "all_admitted admits failing_call ts s" "spaced near ts" "\<forall>t \<in> set ts. \<forall>u \<in> set ts. u \<le> t + timeout" "0 < threshold"
  shows "length ts \<le> threshold"
proof (rule ccontr)
  assume "\<not> length ts \<le> threshold"
  then have len: "threshold < length ts" by simp
  define k where "k = threshold - 1"
  have k: "Suc k = threshold" "Suc k < length ts" using len assms(4) by (simp_all add: k_def)
  have split: "ts = take k ts @ [ts ! k] @ drop (Suc k) ts"
    using k by (metis append_Cons append_Nil append_take_drop_id Cons_nth_drop_Suc Suc_lessD)
  have sp_take: "spaced near (as @ bs) \<Longrightarrow> spaced near as" for as bs
    by (induction as rule: induct_list012) (cases bs; auto)+
  have sp_next: "spaced near (as @ a # b # bs) \<Longrightarrow> a \<le> b" for as a b bs
    by (induction as rule: induct_list012) (cases bs; auto)+
  have "spaced near (take k ts @ [ts ! k])"
    using assms(2) split sp_take [of "take k ts @ [ts ! k]" "drop (Suc k) ts"] by (simp only: append_assoc)
  moreover have "all_admitted admits failing_call (take k ts @ [ts ! k]) s"
    using assms(1) split by (metis all_admitted_append append_assoc)
  moreover obtain u us where d: "drop (Suc k) ts = u # us" using k(2) by (metis Cons_nth_drop_Suc)
  ultimately have no: "ts ! k \<le> u \<Longrightarrow> u \<le> ts ! k + timeout \<Longrightarrow> \<not> admits u (run_calls failing_call (take k ts @ [ts ! k]) s)"
    using opens_for_timeout(1) [of "take k ts" "ts ! k" s u] k by simp
  have all: "ts = take k ts @ ts ! k # u # us" by (rule trans [OF split]) (simp add: d)
  then have "ts ! k \<le> u" using assms(2) sp_next by metis
  moreover have "u \<le> ts ! k + timeout"
  proof -
    have "u \<in> set ts" using d by (metis in_set_dropD list.set_intros(1))
    moreover have "ts ! k \<in> set ts" using k(2) by simp
    ultimately show ?thesis using assms(3) by blast
  qed
  moreover have "admits u (run_calls failing_call (take k ts @ [ts ! k]) s)"
  proof -
    have "all_admitted admits failing_call (take k ts @ [ts ! k] @ u # us) s"
      using assms(1) by (subst (asm) all) simp
    then show ?thesis by simp
  qed
  ultimately show False using no by blast
qed

end

section \<open>The breaker in Redis\<close>

record RedisCircuitBreakerConfig =
  bc_MaxFailures :: int
  bc_FailRate :: float64
  bc_MinRequests :: int
  bc_OpenTimeout :: int
  bc_WindowSec :: int

definition DefaultBreakerConfig :: RedisCircuitBreakerConfig where
  "DefaultBreakerConfig =
     \<lparr>bc_MaxFailures = 5, bc_FailRate = lit (1/2), bc_MinRequests = 5, bc_OpenTimeout = 60, bc_WindowSec = 30\<rparr>"

definition NewRedisCircuitBreaker :: "RedisCircuitBreakerConfig \<Rightarrow> RedisCircuitBreakerConfig" where
  "NewRedisCircuitBreaker cfg =
     \<lparr>bc_MaxFailures = (if bc_MaxFailures cfg \<le> 0 then 5 else bc_MaxFailures cfg),
      bc_FailRate = (if bc_FailRate cfg \<le> 0 then lit (1/2) else bc_FailRate cfg),
      bc_MinRequests = (if bc_MinRequests cfg \<le> 0 then 5 else bc_MinRequests cfg),
      bc_OpenTimeout = (if bc_OpenTimeout cfg \<le> 0 then 60 else bc_OpenTimeout cfg),
      bc_WindowSec = (if bc_WindowSec cfg \<le> 0 then 30 else bc_WindowSec cfg)\<rparr>"

record breaker_counts =
  ct_requests :: nat
  ct_failures :: nat
  ct_consecutive :: nat

text \<open>A key holds a value and the time it expires, if it does.\<close>

type_synonym 'a keyed = "('a \<times> int option) option"

record breaker_store =
  bk_state :: "string keyed"
  bk_open_at :: "int keyed"
  bk_counts :: "breaker_counts keyed"

definition live :: "int \<Rightarrow> 'a keyed \<Rightarrow> 'a option" where
  "live now k =
     (case k of
        None \<Rightarrow> None
      | Some (v, None) \<Rightarrow> Some v
      | Some (v, Some e) \<Rightarrow> if now < e then Some v else None)"

datatype breaker_call =
  GetState | GetOpenAt | EvalHalfOpen | ExecCounts | GetCounts | PutState | PutOpenAt | DelOpenAt | DelCounts | DelAll

type_synonym redis_faults = "breaker_call \<Rightarrow> bool"

definition unless_fault :: "redis_faults \<Rightarrow> breaker_call \<Rightarrow> (breaker_store \<Rightarrow> breaker_store) \<Rightarrow> breaker_store \<Rightarrow> breaker_store" where
  "unless_fault faults c f s = (if faults c then s else f s)"

definition State :: "redis_faults \<Rightarrow> RedisCircuitBreakerConfig \<Rightarrow> int \<Rightarrow> breaker_store \<Rightarrow> string \<times> breaker_store" where
  "State faults b now s =
     (if faults GetState then (''closed'', s)
      else case live now (bk_state s) of
        None \<Rightarrow> (''closed'', s)
      | Some state \<Rightarrow>
          if state = ''open'' \<and> \<not> faults GetOpenAt
          then (case live now (bk_open_at s) of
                  None \<Rightarrow> (state, s)
                | Some openAt \<Rightarrow>
                    if now - openAt > bc_OpenTimeout b
                    then (''half_open'', unless_fault faults EvalHalfOpen
                            (\<lambda>s. s\<lparr>bk_state := Some (''half_open'', None)\<rparr>) s)
                    else (state, s))
          else (state, s))"

definition IsOpen :: "redis_faults \<Rightarrow> RedisCircuitBreakerConfig \<Rightarrow> int \<Rightarrow> breaker_store \<Rightarrow> bool \<times> breaker_store" where
  "IsOpen faults b now s = (let (state, s') = State faults b now s in (state = ''open'', s'))"

definition counts_at :: "int \<Rightarrow> breaker_store \<Rightarrow> breaker_counts" where
  "counts_at now s =
     (case live now (bk_counts s) of
        None \<Rightarrow> \<lparr>ct_requests = 0, ct_failures = 0, ct_consecutive = 0\<rparr> | Some c \<Rightarrow> c)"

definition put_counts :: "RedisCircuitBreakerConfig \<Rightarrow> int \<Rightarrow> breaker_counts \<Rightarrow> breaker_store \<Rightarrow> breaker_store" where
  "put_counts b now c s = s\<lparr>bk_counts := Some (c, Some (now + bc_WindowSec b))\<rparr>"

definition RecordSuccess :: "redis_faults \<Rightarrow> RedisCircuitBreakerConfig \<Rightarrow> int \<Rightarrow> breaker_store \<Rightarrow> breaker_store" where
  "RecordSuccess faults b now s =
     (if faults ExecCounts then s
      else (let c = counts_at now s;
                s1 = put_counts b now (c\<lparr>ct_requests := Suc (ct_requests c), ct_consecutive := 0\<rparr>) s;
                (state, s2) = State faults b now s1
            in if state = ''half_open''
               then unless_fault faults DelCounts (\<lambda>s. s\<lparr>bk_counts := None\<rparr>)
                     (unless_fault faults DelOpenAt (\<lambda>s. s\<lparr>bk_open_at := None\<rparr>)
                       (unless_fault faults PutState (\<lambda>s. s\<lparr>bk_state := Some (''closed'', None)\<rparr>) s2))
               else s2))"

definition should_trip :: "redis_faults \<Rightarrow> RedisCircuitBreakerConfig \<Rightarrow> breaker_counts \<Rightarrow> bool" where
  "should_trip faults b c \<longleftrightarrow>
     bc_MaxFailures b \<le> int (ct_consecutive c) \<or>
     (\<not> faults GetCounts \<and> bc_MinRequests b \<le> int (ct_requests c) \<and>
      fdiv (i2f (int (ct_failures c))) (i2f (int (ct_requests c))) > bc_FailRate b)"

definition open_now :: "redis_faults \<Rightarrow> RedisCircuitBreakerConfig \<Rightarrow> int \<Rightarrow> breaker_store \<Rightarrow> breaker_store" where
  "open_now faults b now s =
     (let e = Some (now + (bc_OpenTimeout b + 10))
      in unless_fault faults PutOpenAt (\<lambda>s. s\<lparr>bk_open_at := Some (now, e)\<rparr>)
          (unless_fault faults PutState (\<lambda>s. s\<lparr>bk_state := Some (''open'', e)\<rparr>) s))"

definition RecordFailure :: "redis_faults \<Rightarrow> RedisCircuitBreakerConfig \<Rightarrow> int \<Rightarrow> breaker_store \<Rightarrow> breaker_store" where
  "RecordFailure faults b now s =
     (if faults ExecCounts then s
      else (let c0 = counts_at now s;
                c = \<lparr>ct_requests = Suc (ct_requests c0), ct_failures = Suc (ct_failures c0),
                     ct_consecutive = Suc (ct_consecutive c0)\<rparr>;
                s1 = put_counts b now c s
            in if should_trip faults b c then open_now faults b now s1 else s1))"

definition Reset :: "redis_faults \<Rightarrow> breaker_store \<Rightarrow> breaker_store" where
  "Reset faults s =
     unless_fault faults DelAll (\<lambda>s. s\<lparr>bk_state := None, bk_open_at := None, bk_counts := None\<rparr>) s"

definition empty_breaker :: breaker_store where
  "empty_breaker = \<lparr>bk_state = None, bk_open_at = None, bk_counts = None\<rparr>"

text \<open>A call as the channel router makes it, whose body fails, with Redis up.\<close>

abbreviation up :: redis_faults where
  "up \<equiv> \<lambda>_. False"

definition redis_admits :: "RedisCircuitBreakerConfig \<Rightarrow> int \<Rightarrow> breaker_store \<Rightarrow> bool" where
  "redis_admits b t s \<longleftrightarrow> \<not> fst (IsOpen up b t s)"

definition redis_failing_call :: "RedisCircuitBreakerConfig \<Rightarrow> int \<Rightarrow> breaker_store \<Rightarrow> breaker_store" where
  "redis_failing_call b t s =
     (let (rejected, s') = IsOpen up b t s in if rejected then s' else RecordFailure up b t s')"

definition redis_streak :: "int \<Rightarrow> breaker_store \<Rightarrow> nat" where
  "redis_streak t s = ct_consecutive (counts_at t s)"

lemma live_simps [simp]:
  "live now None = None" "live now (Some (v, None)) = Some v"
  "live now (Some (v, Some e)) = (if now < e then Some v else None)"
  by (simp_all add: live_def)

lemma live_later: "live t' k = Some v \<Longrightarrow> t \<le> t' \<Longrightarrow> live t k = Some v"
  by (auto simp: live_def split: option.splits if_splits)

lemma State_not_open:
  "live now (bk_state s) \<noteq> Some ''open'' \<Longrightarrow> fst (State up b now s) \<noteq> ''open''"
  by (cases "live now (bk_state s)") (auto simp: State_def)

lemma redis_failing_call_admitted:
  assumes "redis_admits b t s"
  shows "\<exists>s'. redis_failing_call b t s = RecordFailure up b t s' \<and> bk_counts s' = bk_counts s \<and>
    live t (bk_state s') \<noteq> Some ''open''"
  using assms
  by (auto simp: redis_failing_call_def redis_admits_def IsOpen_def State_def unless_fault_def Let_def
      split: option.splits if_splits)

lemma RecordFailure_counts:
  "counts_at t' (RecordFailure up b t s) =
     (if t' < t + bc_WindowSec b
      then \<lparr>ct_requests = Suc (ct_requests (counts_at t s)), ct_failures = Suc (ct_failures (counts_at t s)),
            ct_consecutive = Suc (ct_consecutive (counts_at t s))\<rparr>
      else \<lparr>ct_requests = 0, ct_failures = 0, ct_consecutive = 0\<rparr>)"
  by (auto simp: RecordFailure_def Let_def open_now_def unless_fault_def put_counts_def counts_at_def [of t'])

lemma RecordFailure_state:
  "bk_state (RecordFailure up b t s) = bk_state s \<or>
   bk_state (RecordFailure up b t s) = Some (''open'', Some (t + (bc_OpenTimeout b + 10))) \<and>
   bk_open_at (RecordFailure up b t s) = Some (t, Some (t + (bc_OpenTimeout b + 10)))"
  by (simp add: RecordFailure_def Let_def open_now_def unless_fault_def put_counts_def)

lemma counts_cong: "bk_counts s = bk_counts s' \<Longrightarrow> counts_at t s = counts_at t s'"
  by (simp add: counts_at_def)

interpretation redis_breaker: circuit_breaker "redis_admits b" "redis_failing_call b" redis_streak
  "\<lambda>t t'. t' < t + bc_WindowSec b" "nat (bc_MaxFailures b)" "bc_OpenTimeout b" for b
proof
  fix t s t' assume a: "redis_admits b t s"
  obtain s' where s': "redis_failing_call b t s = RecordFailure up b t s'" "bk_counts s' = bk_counts s"
    "live t (bk_state s') \<noteq> Some ''open''"
    using redis_failing_call_admitted [OF a] by blast
  note c = counts_cong [OF s'(2)]
  { assume "t' < t + bc_WindowSec b"
    then show "redis_streak t s < redis_streak t' (redis_failing_call b t s)"
      by (simp add: s'(1) redis_streak_def RecordFailure_counts c) }
  { assume k: "nat (bc_MaxFailures b) \<le> Suc (redis_streak t s)" and t': "t \<le> t'" "t' \<le> t + bc_OpenTimeout b"
    have "should_trip up b \<lparr>ct_requests = Suc (ct_requests (counts_at t s')),
        ct_failures = Suc (ct_failures (counts_at t s')), ct_consecutive = Suc (ct_consecutive (counts_at t s'))\<rparr>"
      using k by (simp add: should_trip_def redis_streak_def c) linarith
    then show "\<not> redis_admits b t' (redis_failing_call b t s)"
      using t' by (simp add: s'(1) RecordFailure_def Let_def open_now_def unless_fault_def
          redis_admits_def IsOpen_def State_def) }
  { assume t': "t \<le> t'" "t + bc_OpenTimeout b < t'"
    show "redis_admits b t' (redis_failing_call b t s)"
    proof (cases "bk_state (RecordFailure up b t s') = bk_state s'")
      case True
      have "live t' (bk_state s') \<noteq> Some ''open''"
        using s'(3) live_later [of t' "bk_state s'" "''open''" t] t'(1) by blast
      then have "live t' (bk_state (RecordFailure up b t s')) \<noteq> Some ''open''"
        unfolding True .
      then have "fst (State up b t' (RecordFailure up b t s')) \<noteq> ''open''"
        by (rule State_not_open)
      then show ?thesis
        unfolding s'(1) redis_admits_def IsOpen_def Let_def case_prod_beta by simp
    next
      case False
      then have "bk_state (RecordFailure up b t s') = Some (''open'', Some (t + (bc_OpenTimeout b + 10)))"
          "bk_open_at (RecordFailure up b t s') = Some (t, Some (t + (bc_OpenTimeout b + 10)))"
        using RecordFailure_state [of b t s'] by auto
      then show ?thesis
        using t' by (simp add: s'(1) redis_admits_def IsOpen_def State_def Let_def)
    qed }
qed

section \<open>What can be reached, whatever Redis does\<close>

text \<open>Any sequence of reads, successes, failures and resets, at times that do not go back, each with its
  own pattern of failing Redis calls.\<close>

inductive breaker_reach :: "RedisCircuitBreakerConfig \<Rightarrow> int \<Rightarrow> breaker_store \<Rightarrow> bool" for b where
  start: "breaker_reach b t empty_breaker"
| wait: "breaker_reach b t s \<Longrightarrow> t \<le> t' \<Longrightarrow> breaker_reach b t' s"
| read: "breaker_reach b t s \<Longrightarrow> breaker_reach b t (snd (State f b t s))"
| success: "breaker_reach b t s \<Longrightarrow> breaker_reach b t (RecordSuccess f b t s)"
| failure: "breaker_reach b t s \<Longrightarrow> breaker_reach b t (RecordFailure f b t s)"
| reset: "breaker_reach b t s \<Longrightarrow> breaker_reach b t (Reset f s)"

definition counts_typed :: "breaker_counts keyed \<Rightarrow> bool" where
  "counts_typed k \<longleftrightarrow>
     (case k of None \<Rightarrow> True
      | Some (c, e) \<Rightarrow> ct_consecutive c \<le> ct_failures c \<and> ct_failures c \<le> ct_requests c \<and> e \<noteq> None)"

definition state_typed :: "RedisCircuitBreakerConfig \<Rightarrow> int \<Rightarrow> string keyed \<Rightarrow> bool" where
  "state_typed b now k \<longleftrightarrow>
     (case k of None \<Rightarrow> True
      | Some (v, e) \<Rightarrow>
          if v = ''open'' then (\<exists>x. e = Some x \<and> x \<le> now + bc_OpenTimeout b + 10)
          else v = ''closed'' \<or> v = ''half_open'')"

definition breaker_typed :: "RedisCircuitBreakerConfig \<Rightarrow> int \<Rightarrow> breaker_store \<Rightarrow> bool" where
  "breaker_typed b now s \<longleftrightarrow> state_typed b now (bk_state s) \<and> counts_typed (bk_counts s)"

lemma counts_at_typed:
  "counts_typed (bk_counts s) \<Longrightarrow>
     ct_consecutive (counts_at t s) \<le> ct_failures (counts_at t s) \<and> ct_failures (counts_at t s) \<le> ct_requests (counts_at t s)"
  by (auto simp: counts_typed_def counts_at_def live_def split: option.splits if_splits)

lemma state_typed_mono: "state_typed b t k \<Longrightarrow> t \<le> t' \<Longrightarrow> state_typed b t' k"
  by (fastforce simp: state_typed_def split: option.splits if_splits)

lemma State_parts:
  "bk_counts (snd (State f b t s)) = bk_counts s"
  "bk_state (snd (State f b t s)) = bk_state s \<or> bk_state (snd (State f b t s)) = Some (''half_open'', None)"
  by (auto simp: State_def unless_fault_def split: option.splits)

lemma State_typed: "breaker_typed b t s \<Longrightarrow> breaker_typed b t (snd (State f b t s))"
  using State_parts [of f b t s] by (auto simp: breaker_typed_def state_typed_def split: option.splits)

lemma put_counts_typed:
  "breaker_typed b t s \<Longrightarrow> ct_consecutive c \<le> ct_failures c \<Longrightarrow> ct_failures c \<le> ct_requests c \<Longrightarrow>
     breaker_typed b t (put_counts b t c s)"
  by (simp add: breaker_typed_def put_counts_def counts_typed_def)

lemma RecordSuccess_typed:
  assumes "breaker_typed b t s" shows "breaker_typed b t (RecordSuccess f b t s)"
proof -
  let ?c = "counts_at t s"
  let ?s1 = "put_counts b t (?c\<lparr>ct_requests := Suc (ct_requests ?c), ct_consecutive := 0\<rparr>) s"
  have "breaker_typed b t ?s1"
    using assms counts_at_typed [of s t] by (intro put_counts_typed) (auto simp: breaker_typed_def)
  then have s2: "breaker_typed b t (snd (State f b t ?s1))" by (rule State_typed)
  show ?thesis
    using assms s2 by (cases "State f b t ?s1")
      (auto simp: RecordSuccess_def Let_def unless_fault_def breaker_typed_def state_typed_def counts_typed_def)
qed

lemma RecordFailure_typed:
  assumes "breaker_typed b t s" shows "breaker_typed b t (RecordFailure f b t s)"
proof -
  let ?c = "counts_at t s"
  let ?s1 = "put_counts b t \<lparr>ct_requests = Suc (ct_requests ?c), ct_failures = Suc (ct_failures ?c),
     ct_consecutive = Suc (ct_consecutive ?c)\<rparr> s"
  have "breaker_typed b t ?s1"
    using assms counts_at_typed [of s t] by (intro put_counts_typed) (auto simp: breaker_typed_def)
  then show ?thesis
    using assms by (auto simp: RecordFailure_def Let_def open_now_def unless_fault_def breaker_typed_def state_typed_def)
qed

lemma breaker_reach_typed: "breaker_reach b t s \<Longrightarrow> breaker_typed b t s"
proof (induction rule: breaker_reach.induct)
  case (start t)
  then show ?case by (simp add: breaker_typed_def state_typed_def counts_typed_def empty_breaker_def)
next
  case (wait t s t')
  then show ?case using state_typed_mono by (auto simp: breaker_typed_def)
next
  case (reset t s f)
  then show ?case by (simp add: Reset_def unless_fault_def breaker_typed_def state_typed_def counts_typed_def)
qed (simp_all add: State_typed RecordSuccess_typed RecordFailure_typed)

lemma typed_state_of:
  assumes "breaker_typed b t s"
  shows "fst (State f b t' s) \<in> {''closed'', ''open'', ''half_open''}"
    and "t + bc_OpenTimeout b + 10 \<le> t' \<Longrightarrow> fst (State f b t' s) \<noteq> ''open''"
proof -
  show "fst (State f b t' s) \<in> {''closed'', ''open'', ''half_open''}"
    using assms by (auto simp: State_def breaker_typed_def state_typed_def live_def split: option.splits if_splits)
  assume late: "t + bc_OpenTimeout b + 10 \<le> t'"
  have "live t' (bk_state s) \<noteq> Some ''open''"
    using assms late by (auto simp: breaker_typed_def state_typed_def live_def split: option.splits if_splits)
  then show "fst (State f b t' s) \<noteq> ''open''"
    by (cases "live t' (bk_state s)") (auto simp: State_def)
qed

section \<open>The breaker in memory\<close>

datatype CircuitState = StateClosed | StateOpen | StateHalfOpen

record CircuitBreaker =
  cb_state :: CircuitState
  cb_failureCount :: nat
  cb_failureThreshold :: int
  cb_successThreshold :: int
  cb_successCount :: nat
  cb_timeout :: int
  cb_lastFailureTime :: int

definition NewCircuitBreaker :: "int \<Rightarrow> int \<Rightarrow> int \<Rightarrow> CircuitBreaker" where
  "NewCircuitBreaker failureThreshold successThreshold timeout =
     \<lparr>cb_state = StateClosed, cb_failureCount = 0,
      cb_failureThreshold = (if failureThreshold < 1 then 5 else failureThreshold),
      cb_successThreshold = (if successThreshold < 1 then 2 else successThreshold),
      cb_successCount = 0, cb_timeout = (if timeout \<le> 0 then 30 * 1000000000 else timeout),
      cb_lastFailureTime = 0\<rparr>"

datatype 'e guard_error = BreakerIsOpen | BodyError 'e | FailedAfter int "'e option"

text \<open>The state in which the body runs: open until the timeout has passed, half-open from then on.\<close>

definition enter :: "int \<Rightarrow> CircuitBreaker \<Rightarrow> CircuitBreaker option" where
  "enter now cb =
     (if cb_state cb = StateOpen
      then (if now - cb_lastFailureTime cb > cb_timeout cb
            then Some (cb\<lparr>cb_state := StateHalfOpen, cb_successCount := 0\<rparr>) else None)
      else Some cb)"

text \<open>\<open>Execute\<close>, without and with a body whose result is given.\<close>

definition Execute :: "int \<Rightarrow> 'e option option \<Rightarrow> CircuitBreaker \<Rightarrow> 'e guard_error option \<times> CircuitBreaker" where
  "Execute now fn cb =
     (case fn of
        None \<Rightarrow> (None, cb)
      | Some result \<Rightarrow>
          (case enter now cb of
             None \<Rightarrow> (Some BreakerIsOpen, cb)
           | Some cb1 \<Rightarrow>
               (case result of
                  Some err \<Rightarrow>
                    (let n = Suc (cb_failureCount cb1)
                     in (Some (BodyError err),
                         cb1\<lparr>cb_failureCount := n, cb_successCount := 0, cb_lastFailureTime := now,
                             cb_state := (if cb_failureThreshold cb1 \<le> int n then StateOpen else cb_state cb1)\<rparr>))
                | None \<Rightarrow>
                    if cb_state cb1 = StateHalfOpen
                    then (let n = Suc (cb_successCount cb1)
                          in (None, if cb_successThreshold cb1 \<le> int n
                                    then cb1\<lparr>cb_successCount := n, cb_state := StateClosed, cb_failureCount := 0\<rparr>
                                    else cb1\<lparr>cb_successCount := n\<rparr>))
                    else (None, cb1\<lparr>cb_failureCount := 0\<rparr>))))"

text \<open>The two settings are fixed when the breaker is made; the interface is met for every pair.\<close>

definition guard_admits :: "int \<Rightarrow> int \<Rightarrow> int \<Rightarrow> CircuitBreaker \<Rightarrow> bool" where
  "guard_admits n d t cb \<longleftrightarrow> cb_failureThreshold cb = n \<and> cb_timeout cb = d \<and> enter t cb \<noteq> None"

definition guard_failing_call :: "int \<Rightarrow> CircuitBreaker \<Rightarrow> CircuitBreaker" where
  "guard_failing_call t cb = snd (Execute t (Some (Some ())) cb)"

interpretation guard_breaker: circuit_breaker "guard_admits n d" guard_failing_call
  "\<lambda>_. cb_failureCount" "\<lambda>_ _. True" "nat n" d for n d
  by unfold_locales
    (auto simp: guard_admits_def guard_failing_call_def Execute_def enter_def Let_def split: if_splits)

section \<open>Retrying\<close>

text \<open>
  The loop of \<open>Retry\<close>: \<open>fn\<close> acts on a state and may fail; \<open>sleep\<close> is what passes
  between two attempts.
\<close>

function retry_loop ::
  "('s \<Rightarrow> 'e option \<times> 's) \<Rightarrow> ('s \<Rightarrow> 's) \<Rightarrow> int \<Rightarrow> int \<Rightarrow> 'e option \<Rightarrow> 's \<Rightarrow> 'e guard_error option \<times> 's" where
  "retry_loop fn sleep maxAttempts i lastErr s =
     (if i < maxAttempts
      then (case fn s of
              (Some err, s') \<Rightarrow>
                retry_loop fn sleep maxAttempts (i + 1) (Some err)
                  (if i < maxAttempts - 1 then sleep s' else s')
            | (None, s') \<Rightarrow> (None, s'))
      else (Some (FailedAfter maxAttempts lastErr), s))"
  by pat_completeness auto
termination by (relation "measure (\<lambda>(fn, sleep, maxAttempts, i, lastErr, s). nat (maxAttempts - i))") auto

declare retry_loop.simps [simp del]

definition Retry :: "int \<Rightarrow> ('s \<Rightarrow> 's) \<Rightarrow> ('s \<Rightarrow> 'e option \<times> 's) option \<Rightarrow> 's \<Rightarrow> 'e guard_error option \<times> 's" where
  "Retry maxAttempts sleep fn s =
     (case fn of
        None \<Rightarrow> (None, s)
      | Some f \<Rightarrow> retry_loop f sleep (if maxAttempts < 1 then 1 else maxAttempts) 0 None s)"

text \<open>A body that answers by the number of attempts so far and counts them.\<close>

definition attempts :: "(nat \<Rightarrow> 'e option) \<Rightarrow> nat \<Rightarrow> 'e option \<times> nat" where
  "attempts r k = (r k, Suc k)"

lemma retry_loop_attempts:
  assumes "i \<le> m"
  shows "retry_loop (attempts r) (\<lambda>k. k) (int m) (int i) e i =
    (if \<exists>k. i \<le> k \<and> k < m \<and> r k = None
     then (None, Suc (LEAST k. i \<le> k \<and> r k = None))
     else (Some (FailedAfter (int m) (if i < m then r (m - 1) else e)), m))"
  using assms
proof (induction "m - i" arbitrary: i e)
  case 0
  then show ?case by (simp add: retry_loop.simps)
next
  case (Suc d)
  have lt: "i < m" using Suc.hyps(2) by simp
  show ?case
  proof (cases "r i")
    case None
    have "(LEAST k. i \<le> k \<and> r k = None) = i" by (rule Least_equality) (use None in auto)
    moreover have "\<exists>k. i \<le> k \<and> k < m \<and> r k = None" using None Suc.hyps by force
    ultimately show ?thesis using None Suc.hyps by (simp add: retry_loop.simps attempts_def)
  next
    case (Some err)
    have step: "r k = None \<and> i \<le> k \<longleftrightarrow> r k = None \<and> Suc i \<le> k" for k
      using Some by (cases "k = i") auto
    have e1: "(\<exists>k. i \<le> k \<and> k < m \<and> r k = None) \<longleftrightarrow> (\<exists>k. Suc i \<le> k \<and> k < m \<and> r k = None)"
      using step by blast
    have e2: "(\<lambda>k. i \<le> k \<and> r k = None) = (\<lambda>k. Suc i \<le> k \<and> r k = None)"
      using step by blast
    have e3: "(if Suc i < m then r (m - 1) else Some err) = (if i < m then r (m - 1) else e)"
      using lt Some by (cases "Suc i = m") auto
    have "retry_loop (attempts r) (\<lambda>k. k) (int m) (int i) e i =
        retry_loop (attempts r) (\<lambda>k. k) (int m) (int (Suc i)) (Some err) (Suc i)"
      using lt Some by (subst retry_loop.simps) (simp add: attempts_def add.commute)
    also have "\<dots> = (if \<exists>k. Suc i \<le> k \<and> k < m \<and> r k = None
        then (None, Suc (LEAST k. Suc i \<le> k \<and> r k = None))
        else (Some (FailedAfter (int m) (if Suc i < m then r (m - 1) else Some err)), m))"
      by (rule Suc.hyps(1)) (use Suc.hyps in auto)
    also have "\<dots> = (if \<exists>k. i \<le> k \<and> k < m \<and> r k = None
        then (None, Suc (LEAST k. i \<le> k \<and> r k = None))
        else (Some (FailedAfter (int m) (if i < m then r (m - 1) else e)), m))"
      by (simp only: e1 e2 e3)
    finally show ?thesis .
  qed
qed

section \<open>Properties\<close>

text \<open>C13: After \<open>MaxFailures\<close> failing calls in a row, each counted while the one before still is,
  the breaker answers open for exactly \<open>OpenTimeout\<close> seconds and then lets calls through again. And
  from every store it can reach, whichever Redis calls failed on the way or fail now, it is not open any
  more \<open>OpenTimeout + 10\<close> seconds after the last event.\<close>

theorem redis_breaker_opens_and_recovers:
  assumes "all_admitted (redis_admits b) (redis_failing_call b) (ts @ [t]) s"
    and "spaced (\<lambda>t t'. t' < t + bc_WindowSec b) (ts @ [t])" "nat (bc_MaxFailures b) \<le> Suc (length ts)"
    and "breaker_reach b t1 r" "t1 + bc_OpenTimeout b + 10 \<le> t2"
  shows "(t \<le> t' \<longrightarrow> (fst (IsOpen up b t' (run_calls (redis_failing_call b) (ts @ [t]) s)) \<longleftrightarrow> t' \<le> t + bc_OpenTimeout b)) \<and>
    \<not> fst (IsOpen f b t2 r)"
proof -
  have "\<not> fst (IsOpen f b t2 r)"
    using typed_state_of(2) [OF breaker_reach_typed [OF assms(4)] assms(5)]
    by (simp add: IsOpen_def case_prod_beta)
  moreover have "redis_admits b t' (run_calls (redis_failing_call b) (ts @ [t]) s) \<longleftrightarrow> \<not> t' \<le> t + bc_OpenTimeout b" if "t \<le> t'"
    using redis_breaker.opens_for_timeout [OF assms(1-3) that] by force
  ultimately show ?thesis by (simp add: redis_admits_def)
qed

theorem redis_breaker_opens_and_recovers_witness:
  "fst (IsOpen up DefaultBreakerConfig 64 (run_calls (redis_failing_call DefaultBreakerConfig) [0, 1, 2, 3, 4] empty_breaker)) \<and>
   \<not> fst (IsOpen up DefaultBreakerConfig 65 (run_calls (redis_failing_call DefaultBreakerConfig) [0, 1, 2, 3, 4] empty_breaker)) \<and>
   \<not> fst (IsOpen (\<lambda>c. c = PutOpenAt) DefaultBreakerConfig 70 (RecordFailure (\<lambda>c. c = PutOpenAt) DefaultBreakerConfig 0 empty_breaker))"
proof -
  let ?b = DefaultBreakerConfig
  have a: "all_admitted (redis_admits ?b) (redis_failing_call ?b) ([0, 1, 2, 3] @ [4]) empty_breaker"
    by code_simp
  have s: "spaced (\<lambda>t t'. t' < t + bc_WindowSec ?b) ([0, 1, 2, 3] @ [4])" "nat (bc_MaxFailures ?b) \<le> Suc (length [0, 1, 2, 3::int])"
    by (simp_all add: DefaultBreakerConfig_def)
  have r: "breaker_reach ?b 0 (RecordFailure (\<lambda>c. c = PutOpenAt) ?b 0 empty_breaker)"
    by (rule breaker_reach.failure [OF breaker_reach.start])
  have o: "bc_OpenTimeout ?b = 60" by (simp add: DefaultBreakerConfig_def)
  from redis_breaker_opens_and_recovers [OF a s r, of 70 64 "\<lambda>c. c = PutOpenAt"]
    redis_breaker_opens_and_recovers [OF a s r, of 70 65 "\<lambda>c. c = PutOpenAt"]
  show ?thesis by (simp add: o)
qed

text \<open>C15: Whatever sequence of reads, successes, failures and resets, and whichever Redis calls fail, the
  stored values keep their types: the state is one of the three, an open state carries an expiry time
  within \<open>OpenTimeout + 10\<close> seconds, counters expire and are ordered, and \<open>State\<close> answers
  one of the three.\<close>

theorem redis_breaker_stays_typed:
  assumes "breaker_reach b t s"
  shows "breaker_typed b t s \<and> fst (State f b t' s) \<in> {''closed'', ''open'', ''half_open''}"
  using breaker_reach_typed [OF assms] typed_state_of(1) by blast

theorem redis_breaker_stays_typed_witness:
  "breaker_typed DefaultBreakerConfig 5 (RecordFailure up DefaultBreakerConfig 5 empty_breaker) \<and>
   fst (State up DefaultBreakerConfig 7 (RecordFailure up DefaultBreakerConfig 5 empty_breaker)) \<in> {''closed'', ''open'', ''half_open''}"
proof -
  have "breaker_reach DefaultBreakerConfig 5 (RecordFailure up DefaultBreakerConfig 5 empty_breaker)"
    by (rule breaker_reach.failure [OF breaker_reach.start])
  then show ?thesis by (rule redis_breaker_stays_typed)
qed

text \<open>C14: Of calls made one after another that all fail, within one open timeout, both breakers let at most
  their threshold through: the one in Redis while Redis is up and as long as each of the calls let through
  comes within \<open>WindowSec\<close> of the one before (after a longer pause its counts have expired), the one in
  memory with whatever pauses. Calls that are in flight together are not covered.\<close>

theorem breakers_bound_failures:
  assumes "all_admitted (redis_admits b) (redis_failing_call b) ts s" "spaced (\<lambda>t t'. t' < t + bc_WindowSec b) ts"
    and "\<forall>t \<in> set ts. \<forall>u \<in> set ts. u \<le> t + bc_OpenTimeout b" "0 < bc_MaxFailures b"
    and "all_admitted (guard_admits n d) guard_failing_call us cb" "spaced (\<lambda>_ _. True) us"
    and "\<forall>t \<in> set us. \<forall>u \<in> set us. u \<le> t + d" "0 < n"
  shows "int (length ts) \<le> bc_MaxFailures b \<and> int (length us) \<le> n"
  using redis_breaker.admitted_failures_bounded [OF assms(1-3)] guard_breaker.admitted_failures_bounded [OF assms(5-7)]
    assms(4,8) by (simp add: le_nat_iff)

theorem breakers_bound_failures_witness:
  "int (length [0, 10, 20, 30, 40 :: int]) \<le> bc_MaxFailures DefaultBreakerConfig \<and> int (length [0, 10, 20 :: int]) \<le> 3"
proof (rule breakers_bound_failures [where s = empty_breaker and d = 50 and cb = "NewCircuitBreaker 3 1 50"])
  show "all_admitted (redis_admits DefaultBreakerConfig) (redis_failing_call DefaultBreakerConfig) [0, 10, 20, 30, 40] empty_breaker"
    by code_simp
  show "all_admitted (guard_admits 3 50) guard_failing_call [0, 10, 20] (NewCircuitBreaker 3 1 50)"
    by code_simp
qed (simp_all add: DefaultBreakerConfig_def)

text \<open>C16: \<open>Retry\<close> returns after at least one and at most \<open>maxAttempts\<close> attempts (one when that is
  less than one): nil right after the first attempt that succeeds, and otherwise the last error after
  all of them.\<close>

theorem retry_returns_within_attempts:
  "Retry maxAttempts (\<lambda>k. k) (Some (attempts r)) 0 =
     (let m = nat (max 1 maxAttempts)
      in if \<exists>k. k < m \<and> r k = None then (None, Suc (LEAST k. r k = None))
         else (Some (FailedAfter (int m) (r (m - 1))), m))"
proof -
  have m: "(if maxAttempts < 1 then 1 else maxAttempts) = int (nat (max 1 maxAttempts))" by simp
  have "0 < nat (max 1 maxAttempts)" by simp
  then show ?thesis
    using retry_loop_attempts [of 0 "nat (max 1 maxAttempts)" r None]
    unfolding Retry_def option.case m Let_def by simp
qed

end
