(* ===== verification/Routing.thy ===== *)
theory Routing
  imports Breakers Go_Text "HOL-Library.Multiset"
begin

text \<open>
  The choice of a channel for a request: \<open>internal/service/channel/channel_router.go\<close> with the
  members of channel groups (\<open>channel_group_service.go\<close>), the capabilities of a channel
  (\<open>internal/model/channel.go\<close>) and the classes of errors (\<open>errors.go\<close>). The router
  keeps its state in Redis: a breaker and a count of requests in flight per channel, the counters
  of the round robin, two caches with a life of five minutes and the switches to backup groups.
  Tables are lists in the order of their ids and only hold live rows; JSON columns are given
  parsed. The client of Redis is configured. Which queries and Redis calls fail, the answer of
  \<open>rand.Intn\<close> and the clock (one reading per call, in seconds) are parameters.
\<close>

section \<open>Tables\<close>

datatype 'a json_column = NullColumn | BadColumn | Column 'a

record Supplier =
  sp_ID :: nat
  sp_InputPricePerM :: float64
  sp_OutputPricePerM :: float64
  sp_Discount :: float64

record Channel =
  ch_ID :: nat
  ch_SupplierID :: nat
  ch_SupportedCapabilities :: string
  ch_Models :: "string list json_column"
  ch_Weight :: int64
  ch_Priority :: int64
  ch_Status :: string
  ch_Tags :: "nat list"

record CustomChannel =
  cc_ID :: nat
  cc_Name :: string
  cc_Strategy :: string
  cc_IsDefault :: bool
  cc_AutoRoute :: bool
  cc_Visibility :: string
  cc_IsActive :: bool

record CustomChannelRoute =
  rt_CustomChannelID :: nat
  rt_AliasModel :: string
  rt_ChannelID :: nat
  rt_ActualModel :: string
  rt_Weight :: int64
  rt_Priority :: int64
  rt_IsActive :: bool

record ChannelModel =
  cml_ChannelID :: nat
  cml_StandardModelID :: string
  cml_VendorModelID :: string
  cml_IsActive :: bool

record TagFilterConfig =
  tf_TagIDs :: "nat list"
  tf_MatchAll :: bool

record ChannelGroup =
  gp_ID :: nat
  gp_Code :: string
  gp_Strategy :: string
  gp_ChannelIDs :: "nat list json_column"
  gp_MixMode :: string
  gp_MixConfig :: "(string \<times> nat) list json_column"
  gp_TagFilter :: "TagFilterConfig json_column"
  gp_IsActive :: bool

record routing_db =
  rd_suppliers :: "Supplier list"
  rd_channels :: "Channel list"
  rd_customs :: "CustomChannel list"
  rd_access :: "(nat \<times> nat) list"
  rd_routes :: "CustomChannelRoute list"
  rd_channel_models :: "ChannelModel list"
  rd_groups :: "ChannelGroup list"

section \<open>State and environment\<close>

record router_state =
  ro_breakers :: "nat \<Rightarrow> breaker_store"
  ro_inflight :: "nat \<Rightarrow> int64"
  ro_rr :: "nat \<Rightarrow> int64"
  ro_ccCache :: "nat \<Rightarrow> CustomChannel keyed"
  ro_routeCache :: "nat \<times> string \<Rightarrow> CustomChannelRoute list keyed"
  ro_backup :: "nat \<Rightarrow> nat option"

datatype router_call =
  GetCustom | PutCustom | QueryCustom | CountAccess | GetRoutes | PutRoutes | QueryRoutes | QueryChannel
| QueryChannelModels | RoundRobinIncr | LoadsGet | LoadIncr | QueryGroups | QueryGroup | QueryMembers
| GetBackup

record router_env =
  ve_now :: int
  ve_rand :: "int64 \<Rightarrow> int64"
  ve_backupSvc :: bool
  ve_fails :: "router_call \<Rightarrow> bool"
  ve_faults :: "nat \<Rightarrow> redis_faults"

datatype route_error =
  ModelNameRequired
| AccessDenied nat string
| NoCandidates
| AllBreakersOpen
| StrategyFailed string
| NoGroupFor string
| NoChannelIn string string
| GroupBreakersOpen string
| ChainBreakersOpen
| LacksCapability nat string

section \<open>Capabilities\<close>

definition is_blank :: "char \<Rightarrow> bool" where
  "is_blank c \<longleftrightarrow> c = CHR '' '' \<or> c = CHR 0x09"

definition trim_blanks :: "string \<Rightarrow> string" where
  "trim_blanks s = rev (dropWhile is_blank (rev (dropWhile is_blank s)))"

text \<open>The segments between separators; \<open>start\<close> is the segment read so far.\<close>

fun segments :: "char \<Rightarrow> string \<Rightarrow> string \<Rightarrow> string list" where
  "segments sep [] start = [start]"
| "segments sep (c # cs) start =
     (if c = sep then start # segments sep cs [] else segments sep cs (start @ [c]))"

definition splitAndTrim :: "string \<Rightarrow> char \<Rightarrow> string list" where
  "splitAndTrim s sep = filter (\<lambda>seg. seg \<noteq> []) (map trim_blanks (segments sep s []))"

definition HasCapability :: "Channel \<Rightarrow> string \<Rightarrow> bool" where
  "HasCapability c cap =
     (if ch_SupportedCapabilities c = [] then cap = ''chat''
      else cap \<in> set (splitAndTrim (ch_SupportedCapabilities c) (CHR '','')))"

definition ModelTypeToCapability :: "string \<Rightarrow> string" where
  "ModelTypeToCapability modelType =
     (if modelType = ''ImageGeneration'' then ''image''
      else if modelType = ''VideoGeneration'' then ''video''
      else if modelType = ''SpeechSynthesis'' then ''tts''
      else if modelType = ''SpeechRecognition'' then ''asr''
      else if modelType = ''TTS'' then ''tts''
      else if modelType = ''ASR'' then ''asr''
      else if modelType = ''Embedding'' then ''embedding''
      else if modelType = ''Rerank'' then ''rerank''
      else ''chat'')"

section \<open>Breakers and load\<close>

definition getOrCreateBreaker :: RedisCircuitBreakerConfig where
  "getOrCreateBreaker = NewRedisCircuitBreaker DefaultBreakerConfig"

definition breaker_open :: "router_env \<Rightarrow> nat \<Rightarrow> router_state \<Rightarrow> bool \<times> router_state" where
  "breaker_open env c s =
     (let (opened, b) = IsOpen (ve_faults env c) getOrCreateBreaker (ve_now env) (ro_breakers s c)
      in (opened, s\<lparr>ro_breakers := (ro_breakers s)(c := b)\<rparr>))"

text \<open>The loop that keeps what no breaker holds back.\<close>

fun closed_only :: "router_env \<Rightarrow> ('a \<Rightarrow> nat) \<Rightarrow> 'a list \<Rightarrow> router_state \<Rightarrow> 'a list \<times> router_state" where
  "closed_only env cid [] s = ([], s)"
| "closed_only env cid (x # xs) s =
     (let (opened, s1) = breaker_open env (cid x) s;
          (ys, s2) = closed_only env cid xs s1
      in (if opened then ys else x # ys, s2))"

definition bump_load :: "router_env \<Rightarrow> nat \<Rightarrow> int64 \<Rightarrow> router_state \<Rightarrow> router_state" where
  "bump_load env c k s =
     (if ve_fails env LoadIncr then s
      else s\<lparr>ro_inflight := (ro_inflight s)(c := add64 (ro_inflight s c) k)\<rparr>)"

definition IncrementLoad :: "router_env \<Rightarrow> nat \<Rightarrow> router_state \<Rightarrow> router_state" where
  "IncrementLoad env c s = bump_load env c 1 s"

section \<open>Strategies\<close>

definition eff_weight :: "int64 \<Rightarrow> int64" where
  "eff_weight w = (if w \<le> 0 then 1 else w)"

fun total_weight :: "('a \<Rightarrow> int64) \<Rightarrow> 'a list \<Rightarrow> int64 \<Rightarrow> int64" where
  "total_weight wt [] acc = acc"
| "total_weight wt (x # xs) acc = total_weight wt xs (add64 acc (eff_weight (wt x)))"

fun weight_loop :: "('a \<Rightarrow> int64) \<Rightarrow> int64 \<Rightarrow> int64 \<Rightarrow> 'a list \<Rightarrow> 'a option" where
  "weight_loop wt r cumulative [] = None"
| "weight_loop wt r cumulative (x # xs) =
     (let c = add64 cumulative (eff_weight (wt x))
      in if r < c then Some x else weight_loop wt r c xs)"

text \<open>
  The loops exist twice in the code, for candidates and for the channels of a group; the definitions
  take what they read of an element as a parameter. \<open>ve_rand n\<close> is \<open>rand.Intn(n)\<close>, which
  panics when \<open>n\<close> is not positive.
\<close>

definition by_weight :: "('a \<Rightarrow> int64) \<Rightarrow> router_env \<Rightarrow> 'a list \<Rightarrow> 'a option" where
  "by_weight wt env xs =
     (case xs of
        [] \<Rightarrow> None
      | [x] \<Rightarrow> Some x
      | x # _ \<Rightarrow> (case weight_loop wt (ve_rand env (total_weight wt xs 0)) 0 xs of
                    Some y \<Rightarrow> Some y
                  | None \<Rightarrow> Some x))"

text \<open>\<open>sort.Slice\<close> leaves the order of equal elements open; here they keep theirs.\<close>

definition by_priority :: "('a \<Rightarrow> int64) \<Rightarrow> ('a \<Rightarrow> int64) \<Rightarrow> router_env \<Rightarrow> 'a list \<Rightarrow> 'a option" where
  "by_priority prio wt env xs =
     (case sort_key (\<lambda>x. - prio x) xs of
        [] \<Rightarrow> None
      | x # ys \<Rightarrow> by_weight wt env (takeWhile (\<lambda>y. prio y = prio x) (x # ys)))"

definition any_of :: "router_env \<Rightarrow> 'a list \<Rightarrow> 'a" where
  "any_of env xs = xs ! nat (ve_rand env (int (length xs)))"

definition by_round_robin :: "router_env \<Rightarrow> nat \<Rightarrow> 'a list \<Rightarrow> router_state \<Rightarrow> 'a option \<times> router_state" where
  "by_round_robin env groupKey xs s =
     (if xs = [] then (None, s)
      else if ve_fails env RoundRobinIncr then (Some (any_of env xs), s)
      else (let idx = add64 (ro_rr s groupKey) 1
            in (Some (xs ! nat (rem64 (sub64 idx 1) (int (length xs)))),
                s\<lparr>ro_rr := (ro_rr s)(groupKey := idx)\<rparr>)))"

text \<open>The index of the first element of least load, from the best so far.\<close>

fun least_loop :: "int64 list \<Rightarrow> nat \<Rightarrow> nat \<Rightarrow> int64 \<Rightarrow> nat" where
  "least_loop [] i best bestLoad = best"
| "least_loop (load # loads) i best bestLoad =
     (if load < bestLoad then least_loop loads (Suc i) i load
      else least_loop loads (Suc i) best bestLoad)"

definition by_least_load :: "router_env \<Rightarrow> ('a \<Rightarrow> nat) \<Rightarrow> 'a list \<Rightarrow> router_state \<Rightarrow> 'a option" where
  "by_least_load env cid xs s =
     (if xs = [] then None
      else if ve_fails env LoadsGet then Some (any_of env xs)
      else Some (xs ! least_loop (map (\<lambda>x. ro_inflight s (cid x)) xs) 0 0 (2 ^ 63 - 1)))"

section \<open>Candidates\<close>

record SelectChannelResult =
  sr_Channel :: Channel
  sr_ActualModel :: string

record RouteCandidate =
  rc_Channel :: Channel
  rc_ActualModel :: string
  rc_Weight :: int64
  rc_Priority :: int64

abbreviation rc_id :: "RouteCandidate \<Rightarrow> nat" where
  "rc_id c \<equiv> ch_ID (rc_Channel c)"

definition selectCandidateByWeight :: "router_env \<Rightarrow> RouteCandidate list \<Rightarrow> RouteCandidate option" where
  "selectCandidateByWeight = by_weight rc_Weight"

definition selectCandidateByPriority :: "router_env \<Rightarrow> RouteCandidate list \<Rightarrow> RouteCandidate option" where
  "selectCandidateByPriority = by_priority rc_Priority rc_Weight"

definition selectCandidateByRoundRobin ::
  "router_env \<Rightarrow> nat \<Rightarrow> RouteCandidate list \<Rightarrow> router_state \<Rightarrow> RouteCandidate option \<times> router_state" where
  "selectCandidateByRoundRobin = by_round_robin"

definition selectCandidateByLeastLoad :: "router_env \<Rightarrow> RouteCandidate list \<Rightarrow> router_state \<Rightarrow> RouteCandidate option" where
  "selectCandidateByLeastLoad env = by_least_load env rc_id"

definition candidate_by_strategy ::
  "router_env \<Rightarrow> string \<Rightarrow> nat \<Rightarrow> RouteCandidate list \<Rightarrow> router_state \<Rightarrow> RouteCandidate option \<times> router_state" where
  "candidate_by_strategy env strategy groupKey xs s =
     (if strategy = ''weighted'' then (selectCandidateByWeight env xs, s)
      else if strategy = ''priority'' then (selectCandidateByPriority env xs, s)
      else if strategy = ''round_robin'' then selectCandidateByRoundRobin env groupKey xs s
      else if strategy = ''least_load'' then (selectCandidateByLeastLoad env xs s, s)
      else if strategy = ''cost_first'' then (Some (hd xs), s)
      else (selectCandidateByWeight env xs, s))"

definition applyStrategy ::
  "router_env \<Rightarrow> string \<Rightarrow> RouteCandidate list \<Rightarrow> nat \<Rightarrow> router_state \<Rightarrow> (route_error + SelectChannelResult) \<times> router_state" where
  "applyStrategy env strategy candidates groupKey s =
     (if candidates = [] then (Inl NoCandidates, s)
      else (let (available, s1) = closed_only env rc_id candidates s
            in if available = [] then (Inl AllBreakersOpen, s1)
               else case candidate_by_strategy env strategy groupKey available s1 of
                 (None, s2) \<Rightarrow> (Inl (StrategyFailed strategy), s2)
               | (Some c, s2) \<Rightarrow>
                   (Inr \<lparr>sr_Channel = rc_Channel c, sr_ActualModel = rc_ActualModel c\<rparr>,
                    IncrementLoad env (rc_id c) s2)))"

definition filterExcluded :: "RouteCandidate list \<Rightarrow> nat list \<Rightarrow> RouteCandidate list" where
  "filterExcluded candidates excludes =
     (if excludes = [] then candidates else filter (\<lambda>c. rc_id c \<notin> set excludes) candidates)"

definition filterByCapability :: "RouteCandidate list \<Rightarrow> string \<Rightarrow> RouteCandidate list" where
  "filterByCapability candidates cap =
     (if cap = [] then candidates else filter (\<lambda>c. HasCapability (rc_Channel c) cap) candidates)"

section \<open>Custom channels\<close>

text \<open>The key of the cache: the id, or 0 for the default channel. Five minutes are 300 seconds.\<close>

definition cc_key :: "nat option \<Rightarrow> nat" where
  "cc_key customChannelID = (case customChannelID of Some i \<Rightarrow> i | None \<Rightarrow> 0)"

definition query_custom :: "routing_db \<Rightarrow> nat option \<Rightarrow> CustomChannel option" where
  "query_custom db customChannelID =
     (if cc_key customChannelID > 0
      then find (\<lambda>cc. cc_ID cc = cc_key customChannelID \<and> cc_IsActive cc) (rd_customs db)
      else find (\<lambda>cc. cc_IsDefault cc \<and> cc_IsActive cc) (rd_customs db))"

definition loadCustomChannel ::
  "router_env \<Rightarrow> routing_db \<Rightarrow> nat option \<Rightarrow> router_state \<Rightarrow> CustomChannel option \<times> router_state" where
  "loadCustomChannel env db customChannelID s =
     (let key = cc_key customChannelID
      in case (if ve_fails env GetCustom then None else live (ve_now env) (ro_ccCache s key)) of
        Some cc \<Rightarrow> (Some cc, s)
      | None \<Rightarrow>
          (case (if ve_fails env QueryCustom then None else query_custom db customChannelID) of
             None \<Rightarrow> (None, s)
           | Some cc \<Rightarrow>
               (Some cc, if ve_fails env PutCustom then s
                  else s\<lparr>ro_ccCache := (ro_ccCache s)(key := Some (cc, Some (ve_now env + 300)))\<rparr>)))"

definition checkAccess :: "router_env \<Rightarrow> routing_db \<Rightarrow> CustomChannel \<Rightarrow> nat \<Rightarrow> bool" where
  "checkAccess env db cc userID =
     (if cc_Visibility cc = ''all'' \<or> cc_Visibility cc = [] then True
      else if cc_Visibility cc = ''specific''
      then \<not> ve_fails env CountAccess \<and> (cc_ID cc, userID) \<in> set (rd_access db)
      else False)"

definition query_routes :: "routing_db \<Rightarrow> CustomChannel \<Rightarrow> string \<Rightarrow> CustomChannelRoute list" where
  "query_routes db cc requestModel =
     filter (\<lambda>r. rt_CustomChannelID r = cc_ID cc \<and> rt_AliasModel r = requestModel \<and> rt_IsActive r) (rd_routes db)"

definition find_channel :: "routing_db \<Rightarrow> nat \<Rightarrow> Channel option" where
  "find_channel db c = find (\<lambda>ch. ch_ID ch = c) (rd_channels db)"

text \<open>
  A route comes with its channel when the query preloaded it, and without when the channel is gone or
  the route came out of the cache, where channels are reset.
\<close>

type_synonym loaded_route = "CustomChannelRoute \<times> Channel option"

definition selectFromCustomChannel ::
  "router_env \<Rightarrow> routing_db \<Rightarrow> CustomChannel \<Rightarrow> string \<Rightarrow> router_state \<Rightarrow> loaded_route list option \<times> router_state" where
  "selectFromCustomChannel env db cc requestModel s =
     (let key = (cc_ID cc, requestModel)
      in case (if ve_fails env GetRoutes then None else live (ve_now env) (ro_routeCache s key)) of
        Some (r # rs) \<Rightarrow> (Some (map (\<lambda>r. (r, None)) (r # rs)), s)
      | _ \<Rightarrow>
          if ve_fails env QueryRoutes then (None, s)
          else (let routes = query_routes db cc requestModel
                in if routes = [] then (None, s)
                   else (Some (map (\<lambda>r. (r, find_channel db (rt_ChannelID r))) routes),
                     if ve_fails env PutRoutes then s
                     else s\<lparr>ro_routeCache := (ro_routeCache s)(key := Some (routes, Some (ve_now env + 300)))\<rparr>)))"

definition channel_of_route :: "router_env \<Rightarrow> routing_db \<Rightarrow> loaded_route \<Rightarrow> Channel option" where
  "channel_of_route env db lr =
     (case snd lr of
        None \<Rightarrow>
          if ve_fails env QueryChannel then None
          else find (\<lambda>ch. ch_ID ch = rt_ChannelID (fst lr) \<and> ch_Status ch = ''active'') (rd_channels db)
      | Some ch \<Rightarrow> if ch_Status ch = ''active'' then Some ch else None)"

fun routesToCandidates :: "router_env \<Rightarrow> routing_db \<Rightarrow> loaded_route list \<Rightarrow> RouteCandidate list" where
  "routesToCandidates env db [] = []"
| "routesToCandidates env db (lr # lrs) =
     (case channel_of_route env db lr of
        None \<Rightarrow> routesToCandidates env db lrs
      | Some ch \<Rightarrow>
          \<lparr>rc_Channel = ch, rc_ActualModel = rt_ActualModel (fst lr), rc_Weight = rt_Weight (fst lr),
           rc_Priority = rt_Priority (fst lr)\<rparr> # routesToCandidates env db lrs)"

section \<open>Automatic routes\<close>

text \<open>A channel without a supplier row is preloaded with the zero supplier, whose cost is 0.\<close>

definition channel_cost :: "routing_db \<Rightarrow> Channel \<Rightarrow> float64" where
  "channel_cost db ch =
     (case find (\<lambda>sp. sp_ID sp = ch_SupplierID ch) (rd_suppliers db) of
        None \<Rightarrow> fmul (fadd 0 0) 0
      | Some sp \<Rightarrow> fmul (fadd (sp_InputPricePerM sp) (sp_OutputPricePerM sp)) (sp_Discount sp))"

fun active_models :: "routing_db \<Rightarrow> ChannelModel list \<Rightarrow> (ChannelModel \<times> Channel) list" where
  "active_models db [] = []"
| "active_models db (cm # cms) =
     (case find_channel db (cml_ChannelID cm) of
        Some ch \<Rightarrow> if ch_Status ch = ''active'' then (cm, ch) # active_models db cms else active_models db cms
      | None \<Rightarrow> active_models db cms)"

definition autoDiscoverByCost :: "router_env \<Rightarrow> routing_db \<Rightarrow> string \<Rightarrow> (ChannelModel \<times> Channel) list option" where
  "autoDiscoverByCost env db requestModel =
     (if ve_fails env QueryChannelModels then None
      else (let found = filter (\<lambda>cm. cml_StandardModelID cm = requestModel \<and> cml_IsActive cm) (rd_channel_models db);
                active = active_models db found
            in if found = [] \<or> active = [] then None
               else Some (sort_key (\<lambda>(_, ch). channel_cost db ch) active)))"

definition channelModelsToCandidates :: "(ChannelModel \<times> Channel) list \<Rightarrow> RouteCandidate list" where
  "channelModelsToCandidates cms =
     map (\<lambda>(cm, ch). \<lparr>rc_Channel = ch, rc_ActualModel = cml_VendorModelID cm, rc_Weight = ch_Weight ch,
            rc_Priority = ch_Priority ch\<rparr>) cms"

section \<open>Channel groups\<close>

text \<open>\<open>ORDER BY priority DESC, weight DESC\<close>; rows that tie keep the order of their ids.\<close>

definition order_channels :: "Channel list \<Rightarrow> Channel list" where
  "order_channels chs = sort_key (\<lambda>c. - ch_Priority c) (sort_key (\<lambda>c. - ch_Weight c) chs)"

definition resolveByChannelIDs :: "router_env \<Rightarrow> routing_db \<Rightarrow> ChannelGroup \<Rightarrow> Channel list option" where
  "resolveByChannelIDs env db g =
     (case gp_ChannelIDs g of
        NullColumn \<Rightarrow> Some []
      | BadColumn \<Rightarrow> None
      | Column ids \<Rightarrow>
          if ids = [] then Some []
          else if ve_fails env QueryMembers then None
          else Some (order_channels (filter (\<lambda>c. ch_ID c \<in> set ids \<and> ch_Status c = ''active'') (rd_channels db))))"

definition tag_match :: "TagFilterConfig \<Rightarrow> Channel \<Rightarrow> bool" where
  "tag_match f c =
     (let hits = remdups (filter (\<lambda>t. t \<in> set (tf_TagIDs f)) (ch_Tags c))
      in hits \<noteq> [] \<and> (tf_MatchAll f \<longrightarrow> length hits = length (tf_TagIDs f)))"

definition resolveByTagFilter :: "router_env \<Rightarrow> routing_db \<Rightarrow> ChannelGroup \<Rightarrow> Channel list option" where
  "resolveByTagFilter env db g =
     (case gp_TagFilter g of
        NullColumn \<Rightarrow> Some []
      | BadColumn \<Rightarrow> None
      | Column f \<Rightarrow>
          if tf_TagIDs f = [] then Some []
          else if ve_fails env QueryMembers then None
          else Some (order_channels (filter (\<lambda>c. tag_match f c \<and> ch_Status c = ''active'') (rd_channels db))))"

definition GetByID :: "router_env \<Rightarrow> routing_db \<Rightarrow> nat \<Rightarrow> ChannelGroup option" where
  "GetByID env db g =
     (if g = 0 \<or> ve_fails env QueryGroup then None else find (\<lambda>gp. gp_ID gp = g) (rd_groups db))"

definition GetChannels :: "router_env \<Rightarrow> routing_db \<Rightarrow> nat \<Rightarrow> Channel list option" where
  "GetChannels env db g =
     (case GetByID env db g of
        None \<Rightarrow> None
      | Some grp \<Rightarrow>
          if gp_MixMode grp = ''TAG_BASED'' then resolveByTagFilter env db grp
          else resolveByChannelIDs env db grp)"

definition channelSupportsModel :: "Channel \<Rightarrow> string \<Rightarrow> bool" where
  "channelSupportsModel ch modelName =
     (case ch_Models ch of
        Column models \<Rightarrow> modelName \<in> set models \<or> ''*'' \<in> set models
      | _ \<Rightarrow> False)"

definition findMatchingGroups :: "router_env \<Rightarrow> routing_db \<Rightarrow> string \<Rightarrow> ChannelGroup list option" where
  "findMatchingGroups env db modelName =
     (if ve_fails env QueryGroups then None
      else Some (filter (\<lambda>g. case GetChannels env db (gp_ID g) of
                     None \<Rightarrow> False
                   | Some chs \<Rightarrow> list_ex (\<lambda>ch. channelSupportsModel ch modelName) chs)
             (filter gp_IsActive (rd_groups db))))"

text \<open>The group to use; a switch to a group that cannot be loaded leaves the primary one.\<close>

definition checkBackupSwitch :: "router_env \<Rightarrow> routing_db \<Rightarrow> ChannelGroup \<Rightarrow> router_state \<Rightarrow> ChannelGroup" where
  "checkBackupSwitch env db primary s =
     (case (if \<not> ve_backupSvc env \<or> ve_fails env GetBackup then None else ro_backup s (gp_ID primary)) of
        None \<Rightarrow> primary
      | Some g \<Rightarrow> (case GetByID env db g of None \<Rightarrow> primary | Some grp \<Rightarrow> grp))"

definition resolveSplitByModel :: "router_env \<Rightarrow> routing_db \<Rightarrow> ChannelGroup \<Rightarrow> string \<Rightarrow> Channel list option" where
  "resolveSplitByModel env db grp modelName =
     (case gp_MixConfig grp of
        Column mapping \<Rightarrow>
          (case map_of mapping modelName of
             None \<Rightarrow> None
           | Some c \<Rightarrow>
               if ve_fails env QueryChannel then None
               else map_option (\<lambda>ch. [ch])
                 (find (\<lambda>ch. ch_ID ch = c \<and> ch_Status ch = ''active'') (rd_channels db)))
      | _ \<Rightarrow> None)"

definition resolveChannels :: "router_env \<Rightarrow> routing_db \<Rightarrow> ChannelGroup \<Rightarrow> string \<Rightarrow> Channel list option" where
  "resolveChannels env db grp modelName =
     (if gp_MixMode grp = ''SPLIT_BY_MODEL'' then resolveSplitByModel env db grp modelName
      else map_option (filter (\<lambda>ch. channelSupportsModel ch modelName)) (GetChannels env db (gp_ID grp)))"

section \<open>Selection within a group\<close>

definition selectByWeight :: "router_env \<Rightarrow> Channel list \<Rightarrow> Channel option" where
  "selectByWeight = by_weight ch_Weight"

definition selectByPriority :: "router_env \<Rightarrow> Channel list \<Rightarrow> Channel option" where
  "selectByPriority = by_priority ch_Priority ch_Weight"

definition selectByRoundRobin :: "router_env \<Rightarrow> nat \<Rightarrow> Channel list \<Rightarrow> router_state \<Rightarrow> Channel option \<times> router_state" where
  "selectByRoundRobin = by_round_robin"

definition selectByLeastLoad :: "router_env \<Rightarrow> Channel list \<Rightarrow> router_state \<Rightarrow> Channel option" where
  "selectByLeastLoad env = by_least_load env ch_ID"

definition selectByCostFirst :: "router_env \<Rightarrow> Channel list \<Rightarrow> Channel option" where
  "selectByCostFirst = selectByPriority"

definition channel_by_strategy ::
  "router_env \<Rightarrow> string \<Rightarrow> nat \<Rightarrow> Channel list \<Rightarrow> router_state \<Rightarrow> Channel option \<times> router_state" where
  "channel_by_strategy env strategy groupID xs s =
     (if strategy = ''Priority'' then (selectByPriority env xs, s)
      else if strategy = ''Weight'' then (selectByWeight env xs, s)
      else if strategy = ''RoundRobin'' then selectByRoundRobin env groupID xs s
      else if strategy = ''LeastLoad'' then (selectByLeastLoad env xs s, s)
      else if strategy = ''CostFirst'' then (selectByCostFirst env xs, s)
      else (selectByPriority env xs, s))"

fun selectFallbackChain :: "router_env \<Rightarrow> Channel list \<Rightarrow> router_state \<Rightarrow> (route_error + Channel) \<times> router_state" where
  "selectFallbackChain env [] s = (Inl ChainBreakersOpen, s)"
| "selectFallbackChain env (c # cs) s =
     (let (opened, s1) = breaker_open env (ch_ID c) s
      in if opened then selectFallbackChain env cs s1
         else (Inr c, IncrementLoad env (ch_ID c) s1))"

definition selectWithBreaker ::
  "router_env \<Rightarrow> ChannelGroup \<Rightarrow> Channel list \<Rightarrow> string \<Rightarrow> router_state \<Rightarrow> (route_error + Channel) \<times> router_state" where
  "selectWithBreaker env grp channels modelName s =
     (if gp_MixMode grp = ''FALLBACK_CHAIN'' then selectFallbackChain env channels s
      else (let (available, s1) = closed_only env ch_ID channels s
            in if available = [] then (Inl (GroupBreakersOpen modelName), s1)
               else case channel_by_strategy env (gp_Strategy grp) (gp_ID grp) available s1 of
                 (None, s2) \<Rightarrow> (Inl (StrategyFailed (gp_Strategy grp)), s2)
               | (Some c, s2) \<Rightarrow> (Inr c, IncrementLoad env (ch_ID c) s2)))"

definition fallbackToChannelGroup ::
  "router_env \<Rightarrow> routing_db \<Rightarrow> string \<Rightarrow> router_state \<Rightarrow> (route_error + SelectChannelResult) \<times> router_state" where
  "fallbackToChannelGroup env db modelName s =
     (case findMatchingGroups env db modelName of
        Some (g # gs) \<Rightarrow>
          (let active = checkBackupSwitch env db g s
           in case resolveChannels env db active modelName of
                Some (c # cs) \<Rightarrow>
                  (case selectWithBreaker env active (c # cs) modelName s of
                     (Inl e, s1) \<Rightarrow> (Inl e, s1)
                   | (Inr ch, s1) \<Rightarrow> (Inr \<lparr>sr_Channel = ch, sr_ActualModel = modelName\<rparr>, s1))
              | _ \<Rightarrow> (Inl (NoChannelIn (gp_Code active) modelName), s))
      | _ \<Rightarrow> (Inl (NoGroupFor modelName), s))"

section \<open>The router\<close>

definition fallbackToChannelGroupForCapability ::
  "router_env \<Rightarrow> routing_db \<Rightarrow> string \<Rightarrow> string \<Rightarrow> router_state \<Rightarrow> (route_error + SelectChannelResult) \<times> router_state" where
  "fallbackToChannelGroupForCapability env db modelName cap s =
     (case fallbackToChannelGroup env db modelName s of
        (Inl e, s1) \<Rightarrow> (Inl e, s1)
      | (Inr r, s1) \<Rightarrow>
          if cap = [] \<or> HasCapability (sr_Channel r) cap then (Inr r, s1)
          else (Inl (LacksCapability (ch_ID (sr_Channel r)) cap), s1))"

text \<open>The candidates of the explicit routes and of the automatic ones, and a try with either.\<close>

definition eligible :: "RouteCandidate list \<Rightarrow> nat list \<Rightarrow> string \<Rightarrow> RouteCandidate list" where
  "eligible candidates excludes cap = filterByCapability (filterExcluded candidates excludes) cap"

definition try_candidates ::
  "router_env \<Rightarrow> CustomChannel \<Rightarrow> RouteCandidate list \<Rightarrow> router_state \<Rightarrow> SelectChannelResult option \<times> router_state" where
  "try_candidates env cc candidates s =
     (if candidates = [] then (None, s)
      else case applyStrategy env (cc_Strategy cc) candidates (cc_ID cc) s of
        (Inl e, s1) \<Rightarrow> (None, s1)
      | (Inr r, s1) \<Rightarrow> (Some r, s1))"

definition try_explicit ::
  "router_env \<Rightarrow> routing_db \<Rightarrow> CustomChannel \<Rightarrow> string \<Rightarrow> nat list \<Rightarrow> string \<Rightarrow> router_state \<Rightarrow>
     SelectChannelResult option \<times> router_state" where
  "try_explicit env db cc modelName excludes cap s =
     (case selectFromCustomChannel env db cc modelName s of
        (None, s1) \<Rightarrow> (None, s1)
      | (Some routes, s1) \<Rightarrow>
          try_candidates env cc (eligible (routesToCandidates env db routes) excludes cap) s1)"

definition try_auto ::
  "router_env \<Rightarrow> routing_db \<Rightarrow> CustomChannel \<Rightarrow> string \<Rightarrow> nat list \<Rightarrow> string \<Rightarrow> router_state \<Rightarrow>
     SelectChannelResult option \<times> router_state" where
  "try_auto env db cc modelName excludes cap s =
     (if \<not> cc_AutoRoute cc then (None, s)
      else case autoDiscoverByCost env db modelName of
        None \<Rightarrow> (None, s)
      | Some cms \<Rightarrow> try_candidates env cc (eligible (channelModelsToCandidates cms) excludes cap) s)"

definition selectChannelWithCapability ::
  "router_env \<Rightarrow> routing_db \<Rightarrow> string \<Rightarrow> nat option \<Rightarrow> nat \<Rightarrow> nat list \<Rightarrow> string \<Rightarrow> router_state \<Rightarrow>
     (route_error + SelectChannelResult) \<times> router_state" where
  "selectChannelWithCapability env db modelName customChannelID userID excludes cap s =
     (if modelName = [] then (Inl ModelNameRequired, s)
      else case loadCustomChannel env db customChannelID s of
        (None, s1) \<Rightarrow> fallbackToChannelGroupForCapability env db modelName cap s1
      | (Some cc, s1) \<Rightarrow>
          if \<not> checkAccess env db cc userID then (Inl (AccessDenied userID (cc_Name cc)), s1)
          else case try_explicit env db cc modelName excludes cap s1 of
            (Some r, s2) \<Rightarrow> (Inr r, s2)
          | (None, s2) \<Rightarrow>
              (case try_auto env db cc modelName excludes cap s2 of
                 (Some r, s3) \<Rightarrow> (Inr r, s3)
               | (None, s3) \<Rightarrow> fallbackToChannelGroupForCapability env db modelName cap s3))"

definition SelectChannelWithExcludes ::
  "router_env \<Rightarrow> routing_db \<Rightarrow> string \<Rightarrow> nat option \<Rightarrow> nat \<Rightarrow> nat list \<Rightarrow> router_state \<Rightarrow>
     (route_error + SelectChannelResult) \<times> router_state" where
  "SelectChannelWithExcludes env db modelName customChannelID userID excludes s =
     selectChannelWithCapability env db modelName customChannelID userID excludes [] s"

definition SelectChannel ::
  "router_env \<Rightarrow> routing_db \<Rightarrow> string \<Rightarrow> nat option \<Rightarrow> nat \<Rightarrow> router_state \<Rightarrow>
     (route_error + SelectChannelResult) \<times> router_state" where
  "SelectChannel env db modelName customChannelID userID s =
     SelectChannelWithExcludes env db modelName customChannelID userID [] s"

text \<open>What the code has after its first return is unreachable.\<close>

definition SelectChannelForCapability ::
  "router_env \<Rightarrow> routing_db \<Rightarrow> string \<Rightarrow> nat option \<Rightarrow> nat \<Rightarrow> string \<Rightarrow> nat list \<Rightarrow> router_state \<Rightarrow>
     (route_error + SelectChannelResult) \<times> router_state" where
  "SelectChannelForCapability env db modelName customChannelID userID cap excludes s =
     selectChannelWithCapability env db modelName customChannelID userID excludes cap s"

section \<open>Results\<close>

datatype ErrorCategory =
  ErrCatClientCanceled | ErrCatTimeout | ErrCatUpstream4xx | ErrCatUpstream5xx | ErrCatNetwork | ErrCatSuccess | ErrCatUnknown

text \<open>What the library says of an error: whether it is the cancellation or the deadline of a context,
  whether it is a \<open>net.Error\<close> and then a timeout, and its text.\<close>

record go_error =
  ge_canceled :: bool
  ge_deadline :: bool
  ge_net :: "bool option"
  ge_text :: string

definition classify_text :: "string \<Rightarrow> ErrorCategory" where
  "classify_text msg =
     (if str_contains msg ''context canceled'' \<or> str_contains msg ''request canceled'' then ErrCatClientCanceled
      else if str_contains msg ''deadline exceeded'' \<or> str_contains msg ''timeout'' then ErrCatTimeout
      else if str_contains msg ''connection refused'' \<or> str_contains msg ''no such host'' \<or>
              str_contains msg ''network is unreachable'' \<or> str_contains msg ''connection reset'' \<or>
              str_contains msg ''broken pipe'' \<or> str_contains msg ''i/o timeout'' \<or>
              str_contains msg ''tls handshake'' then ErrCatNetwork
      else ErrCatUnknown)"

definition ClassifyError :: "go_error option \<Rightarrow> int64 \<Rightarrow> ErrorCategory" where
  "ClassifyError err upstreamStatus =
     (if err = None \<and> upstreamStatus \<ge> 200 \<and> upstreamStatus < 400 then ErrCatSuccess
      else if err = None \<and> upstreamStatus = 0 then ErrCatUnknown
      else if err \<noteq> None \<and> ge_canceled (the err) then ErrCatClientCanceled
      else if err \<noteq> None \<and> ge_deadline (the err) then ErrCatTimeout
      else if err \<noteq> None \<and> ge_net (the err) = Some True then ErrCatTimeout
      else if err \<noteq> None \<and> ge_net (the err) = Some False then ErrCatNetwork
      else if upstreamStatus \<ge> 400 \<and> upstreamStatus < 500 then ErrCatUpstream4xx
      else if upstreamStatus \<ge> 500 then ErrCatUpstream5xx
      else if err \<noteq> None then classify_text (to_lower (ge_text (the err)))
      else ErrCatUnknown)"

definition ShouldCountForBreaker :: "ErrorCategory \<Rightarrow> bool" where
  "ShouldCountForBreaker c \<longleftrightarrow>
     \<not> (c = ErrCatSuccess \<or> c = ErrCatClientCanceled \<or> c = ErrCatTimeout \<or> c = ErrCatUpstream4xx)"

definition IsSuccess :: "ErrorCategory \<Rightarrow> bool" where
  "IsSuccess c \<longleftrightarrow> c = ErrCatSuccess"

definition on_breaker ::
  "router_env \<Rightarrow> nat \<Rightarrow> (redis_faults \<Rightarrow> RedisCircuitBreakerConfig \<Rightarrow> int \<Rightarrow> breaker_store \<Rightarrow> breaker_store) \<Rightarrow>
     router_state \<Rightarrow> router_state" where
  "on_breaker env c f s =
     s\<lparr>ro_breakers := (ro_breakers s)(c := f (ve_faults env c) getOrCreateBreaker (ve_now env) (ro_breakers s c))\<rparr>"

definition RecordResult :: "router_env \<Rightarrow> nat \<Rightarrow> bool \<Rightarrow> router_state \<Rightarrow> router_state" where
  "RecordResult env c success s =
     on_breaker env c (if success then RecordSuccess else RecordFailure) (bump_load env c (- 1) s)"

definition RecordResultWithError ::
  "router_env \<Rightarrow> nat \<Rightarrow> go_error option \<Rightarrow> int64 \<Rightarrow> router_state \<Rightarrow> ErrorCategory \<times> router_state" where
  "RecordResultWithError env c err upstreamStatus s =
     (let s1 = bump_load env c (- 1) s; cat = ClassifyError err upstreamStatus
      in if IsSuccess cat then (cat, on_breaker env c RecordSuccess s1)
         else if \<not> ShouldCountForBreaker cat then (cat, s1)
         else (cat, on_breaker env c RecordFailure s1))"

text \<open>A call under the protection of the breaker of a channel: None when it is rejected.\<close>

definition router_Execute ::
  "router_env \<Rightarrow> nat \<Rightarrow> 'e + 'a \<Rightarrow> router_state \<Rightarrow> ('e + 'a) option \<times> router_state" where
  "router_Execute env c result s =
     (let (opened, s1) = breaker_open env c s
      in if opened then (None, s1)
         else (Some result, on_breaker env c (case result of Inl _ \<Rightarrow> RecordFailure | Inr _ \<Rightarrow> RecordSuccess) s1))"

end
