(* ===== verification/Routing_Laws.thy ===== *)
theory Routing_Laws
  imports Routing
begin

text \<open>
  What the router promises. Asking the breakers changes no answer of a breaker and nothing else, so a
  selection is a filter followed by a pure choice; every choice is a member of what it was given.
  From this: what a routed channel satisfies, the shares of the weighted choice, the fairness of the
  round robin, the minimum of the least load, and where the counts of requests in flight go.
\<close>

section \<open>Asking breakers\<close>

lemma IsOpen_again: "fst (IsOpen f b t (snd (IsOpen f b t s))) = fst (IsOpen f b t s)"
  by (auto simp: IsOpen_def State_def unless_fault_def case_prod_beta Let_def split: option.splits)

lemma IsOpen_twice: "snd (IsOpen f b t (snd (IsOpen f b t s))) = snd (IsOpen f b t s)"
  by (auto simp: IsOpen_def State_def unless_fault_def case_prod_beta Let_def split: option.splits)

definition held :: "router_env \<Rightarrow> router_state \<Rightarrow> nat \<Rightarrow> bool" where
  "held env s c \<longleftrightarrow> fst (breaker_open env c s)"

text \<open>Every breaker is as it was, or as asking it once leaves it.\<close>

definition asked_once :: "router_env \<Rightarrow> router_state \<Rightarrow> nat \<Rightarrow> breaker_store" where
  "asked_once env s c = snd (IsOpen (ve_faults env c) getOrCreateBreaker (ve_now env) (ro_breakers s c))"

definition probed :: "router_env \<Rightarrow> router_state \<Rightarrow> router_state \<Rightarrow> bool" where
  "probed env s s' \<longleftrightarrow> (\<forall>c. ro_breakers s' c = ro_breakers s c \<or> ro_breakers s' c = asked_once env s c)"

lemma probed_same: "ro_breakers s' = ro_breakers s \<Longrightarrow> probed env s s'"
  by (simp add: probed_def)

lemma probed_trans:
  assumes "probed env s s1" "probed env s1 s2"
  shows "probed env s s2"
proof -
  have "ro_breakers s2 c = ro_breakers s c \<or> ro_breakers s2 c = asked_once env s c" for c
    using assms [unfolded probed_def, THEN spec, of c] IsOpen_twice by (auto simp: asked_once_def)
  then show ?thesis by (simp add: probed_def)
qed

lemma probed_breaker_open: "probed env s (snd (breaker_open env c s))"
  by (simp add: probed_def asked_once_def breaker_open_def case_prod_beta Let_def)

text \<open>States that differ in nothing but what asking the breakers leaves behind.\<close>

definition same_answers :: "router_env \<Rightarrow> router_state \<Rightarrow> router_state \<Rightarrow> bool" where
  "same_answers env s s' \<longleftrightarrow> held env s' = held env s \<and> probed env s s' \<and> (\<exists>b. s' = s\<lparr>ro_breakers := b\<rparr>)"

lemma held_IsOpen: "held env s c = fst (IsOpen (ve_faults env c) getOrCreateBreaker (ve_now env) (ro_breakers s c))"
  by (simp add: held_def breaker_open_def case_prod_beta Let_def)

lemma held_frame: "ro_breakers s' = ro_breakers s \<Longrightarrow> held env s' = held env s"
  by (simp add: held_IsOpen fun_eq_iff)

lemma same_answers_refl [simp]: "same_answers env s s"
  by (auto simp: same_answers_def probed_same intro: exI [of _ "ro_breakers s"])

lemma same_answers_trans: "same_answers env s s1 \<Longrightarrow> same_answers env s1 s2 \<Longrightarrow> same_answers env s s2"
  unfolding same_answers_def using probed_trans by auto

lemma breaker_open_same: "same_answers env s (snd (breaker_open env c s))"
proof -
  have "held env (snd (breaker_open env c s)) c' = held env s c'" for c'
    by (simp add: held_IsOpen breaker_open_def case_prod_beta Let_def IsOpen_again)
  then show ?thesis using probed_breaker_open
    by (auto simp: same_answers_def breaker_open_def case_prod_beta Let_def)
qed

lemma closed_only_spec:
  "fst (closed_only env cid xs s) = filter (\<lambda>x. \<not> held env s (cid x)) xs \<and>
   same_answers env s (snd (closed_only env cid xs s))"
proof (induction xs arbitrary: s)
  case (Cons x xs)
  obtain opened s1 where o: "breaker_open env (cid x) s = (opened, s1)" by fastforce
  have s1: "same_answers env s s1" using breaker_open_same [of env s "cid x"] by (simp add: o)
  have h: "held env s (cid x) = opened" by (simp add: held_def o)
  show ?case
    using Cons.IH [of s1] s1 same_answers_trans [OF s1]
    by (auto simp: o h case_prod_beta Let_def same_answers_def)
qed simp

lemma closed_onlyE:
  assumes "closed_only env cid xs s = (ys, s')"
  shows "ys = filter (\<lambda>x. \<not> held env s (cid x)) xs" "same_answers env s s'"
  using closed_only_spec [of env cid xs s] assms by simp_all

section \<open>Choices are members\<close>

definition rand_ok :: "router_env \<Rightarrow> bool" where
  "rand_ok env \<longleftrightarrow> (\<forall>n > 0. 0 \<le> ve_rand env n \<and> ve_rand env n < n)"

lemma weight_loop_mem: "weight_loop wt r c xs = Some x \<Longrightarrow> x \<in> set xs"
  by (induction wt r c xs rule: weight_loop.induct) (auto simp: Let_def split: if_splits)

lemma by_weight_mem: "by_weight wt env xs = Some x \<Longrightarrow> x \<in> set xs"
  by (auto simp: by_weight_def simp del: weight_loop.simps total_weight.simps dest: weight_loop_mem
      split: list.splits option.splits)

lemma by_weight_some: "xs \<noteq> [] \<Longrightarrow> by_weight wt env xs \<noteq> None"
  by (auto simp: by_weight_def split: list.splits option.splits)

lemma by_priority_group:
  assumes "by_priority prio wt env xs = Some x"
  shows "x \<in> set xs" "y \<in> set xs \<Longrightarrow> prio y \<le> prio x"
proof -
  obtain z zs where zs: "sort_key (\<lambda>x. - prio x) xs = z # zs"
    using assms by (cases "sort_key (\<lambda>x. - prio x) xs") (auto simp: by_priority_def)
  have set: "set (z # zs) = set xs" using zs by (metis set_sort)
  have x: "x \<in> set (takeWhile (\<lambda>y. prio y = prio z) (z # zs))"
    using assms zs by (auto simp: by_priority_def dest!: by_weight_mem)
  have px: "prio x = prio z" and m: "x \<in> set (z # zs)" using x by (auto dest: set_takeWhileD)
  show "x \<in> set xs" using m unfolding set .
  have "sorted (map (\<lambda>x. - prio x) (z # zs))" using zs by (metis sorted_sort_key)
  then show "y \<in> set xs \<Longrightarrow> prio y \<le> prio x" using px set by auto
qed

lemma by_priority_some: "xs \<noteq> [] \<Longrightarrow> by_priority prio wt env xs \<noteq> None"
proof -
  assume "xs \<noteq> []"
  then have "sort_key (\<lambda>x. - prio x) xs \<noteq> []" by (metis length_0_conv length_sort)
  then show ?thesis
    by (cases "sort_key (\<lambda>x. - prio x) xs") (simp_all add: by_priority_def by_weight_some)
qed

lemma any_of_mem: "rand_ok env \<Longrightarrow> xs \<noteq> [] \<Longrightarrow> any_of env xs \<in> set xs"
  unfolding any_of_def rand_ok_def by (intro nth_mem) (simp add: nat_less_iff)

lemma rem64_index:
  assumes "0 < n" "in64 a" shows "nat (rem64 a (int n)) < n"
proof (cases "0 \<le> a")
  case True
  then have "a smod int n = a mod int n" using assms(1) by (cases "a = 0") (auto simp: signed_modulo_int_def)
  moreover have "a mod int n \<le> a" using True assms(1) by (simp add: zmod_le_nonneg_dividend)
  moreover have "0 \<le> a mod int n" "a mod int n < int n" using assms(1) by simp_all
  ultimately show ?thesis using assms(2) by (simp add: rem64_def in64_def nat_less_iff)
next
  case False
  then have "a smod int n = - (- a mod int n)" using assms(1) by (auto simp: signed_modulo_int_def)
  moreover have "- a mod int n \<le> - a" using False assms(1) by (simp add: zmod_le_nonneg_dividend)
  moreover have "0 \<le> - a mod int n" using assms(1) by simp
  ultimately have "rem64 a (int n) \<le> 0" using assms(2) False by (simp add: rem64_def in64_def)
  then show ?thesis using assms(1) by simp
qed

lemma round_robin_mem:
  assumes "by_round_robin env g xs s = (Some x, s')" "rand_ok env"
  shows "x \<in> set xs" "\<exists>r. s' = s\<lparr>ro_rr := r\<rparr>"
proof -
  have "nat (rem64 (sub64 a 1) (int (length xs))) < length xs" if "xs \<noteq> []" for a
    using that by (intro rem64_index) auto
  then show "x \<in> set xs"
    using assms any_of_mem [of env xs]
    by (auto simp: by_round_robin_def Let_def split: if_splits intro!: nth_mem)
  show "\<exists>r. s' = s\<lparr>ro_rr := r\<rparr>"
    using assms by (auto simp: by_round_robin_def Let_def split: if_splits intro: exI [of _ "ro_rr s"])
qed

lemma least_loop_spec:
  "best < i \<or> (best = 0 \<and> i = 0 \<and> loads \<noteq> []) \<Longrightarrow> least_loop loads i best bl < i + length loads"
  by (induction loads i best bl rule: least_loop.induct) (auto split: if_splits)

lemma least_loop_min:
  assumes "\<forall>l \<in> set loads. l < 2 ^ 63 - 1"
  shows "loads \<noteq> [] \<Longrightarrow> \<forall>l \<in> set loads. loads ! least_loop loads 0 0 (2 ^ 63 - 1) \<le> l"
proof -
  have gen: "\<forall>l \<in> set ys. (xs @ ys) ! least_loop ys (length xs) b bl \<le> l \<and> (xs @ ys) ! least_loop ys (length xs) b bl \<le> bl"
    if "(xs @ ys) ! b = bl" "ys \<noteq> []" for xs ys b bl
    using that
  proof (induction ys arbitrary: xs b bl)
    case (Cons y ys)
    let ?b = "if y < bl then length xs else b" and ?bl = "if y < bl then y else bl"
    have at: "((xs @ [y]) @ ys) ! ?b = ?bl" using Cons.prems by simp
    have step: "least_loop (y # ys) (length xs) b bl = least_loop ys (length (xs @ [y])) ?b ?bl" by simp
    show ?case
    proof (cases "ys = []")
      case True
      then show ?thesis using at Cons.prems by (auto split: if_splits)
    next
      case False
      have "\<forall>l \<in> set ys. ((xs @ [y]) @ ys) ! least_loop ys (length (xs @ [y])) ?b ?bl \<le> l \<and>
          ((xs @ [y]) @ ys) ! least_loop ys (length (xs @ [y])) ?b ?bl \<le> ?bl"
        by (rule Cons.IH [OF at False])
      then show ?thesis unfolding step using False by (cases ys) (auto split: if_splits)
    qed
  qed simp
  show ?thesis if ne: "loads \<noteq> []"
  proof -
    obtain y ys where c: "loads = y # ys" using ne by (cases loads) auto
    have "least_loop loads 0 0 (2 ^ 63 - 1) = least_loop ys (length [y]) 0 y" using assms by (simp add: c)
    moreover have "\<forall>l \<in> set ys. (y # ys) ! least_loop ys (Suc 0) 0 y \<le> l \<and> (y # ys) ! least_loop ys (Suc 0) 0 y \<le> y"
      using gen [of "[y]" ys 0 y] by (cases "ys = []") auto
    ultimately show ?thesis by (cases ys) (auto simp: c)
  qed
qed

lemma least_load_mem:
  assumes "by_least_load env cid xs s = Some x" "rand_ok env" shows "x \<in> set xs"
  using assms any_of_mem [of env xs]
    least_loop_spec [of 0 0 "map (\<lambda>x. ro_inflight s (cid x)) xs" "2 ^ 63 - 1"]
  by (auto simp: by_least_load_def split: if_splits)

section \<open>What a selection changes\<close>

text \<open>Nothing that matters: the answers of the breakers, the counts in flight and the switches to backups
  stay. Or: one more request in flight on one channel.\<close>

definition frame :: "router_env \<Rightarrow> router_state \<Rightarrow> router_state \<Rightarrow> bool" where
  "frame env s s' \<longleftrightarrow> held env s' = held env s \<and> probed env s s' \<and> ro_inflight s' = ro_inflight s \<and> ro_backup s' = ro_backup s"

definition one_more :: "router_env \<Rightarrow> nat \<Rightarrow> router_state \<Rightarrow> router_state \<Rightarrow> bool" where
  "one_more env c s s' \<longleftrightarrow> frame env s (s'\<lparr>ro_inflight := ro_inflight s\<rparr>) \<and>
     ro_inflight s' = (if ve_fails env LoadIncr then ro_inflight s
                       else (ro_inflight s)(c := add64 (ro_inflight s c) 1))"

lemma frame_refl [simp]: "frame env s s"
  by (simp add: frame_def probed_same)

lemma frame_trans: "frame env s s1 \<Longrightarrow> frame env s1 s2 \<Longrightarrow> frame env s s2"
  unfolding frame_def using probed_trans by auto

lemma probed_inflight [simp]:
  "probed env s (s'\<lparr>ro_inflight := f\<rparr>) = probed env s s'" "probed env (s\<lparr>ro_inflight := f\<rparr>) s' = probed env s s'"
  by (simp_all add: probed_def asked_once_def)

lemma frame_one_more: "frame env s s1 \<Longrightarrow> one_more env c s1 s2 \<Longrightarrow> one_more env c s s2"
  unfolding frame_def one_more_def using probed_trans by auto

lemma same_answers_frame: "same_answers env s s' \<Longrightarrow> frame env s s'"
  by (auto simp: same_answers_def frame_def)

lemma held_updates [simp]:
  "held env (s\<lparr>ro_rr := r\<rparr>) = held env s" "held env (s\<lparr>ro_ccCache := a\<rparr>) = held env s"
  "held env (s\<lparr>ro_routeCache := b\<rparr>) = held env s" "held env (s\<lparr>ro_inflight := f\<rparr>) = held env s"
  by (rule held_frame; simp)+

lemma frame_updates [simp]:
  "frame env s (s\<lparr>ro_rr := r\<rparr>)" "frame env s (s\<lparr>ro_ccCache := a\<rparr>)" "frame env s (s\<lparr>ro_routeCache := b\<rparr>)"
  by (simp_all add: frame_def probed_same)

lemma one_more_IncrementLoad [intro]: "one_more env c s (IncrementLoad env c s)"
  by (simp add: one_more_def frame_def IncrementLoad_def bump_load_def probed_same)

lemma held_one_more: "one_more env c s s' \<Longrightarrow> held env s' = held env s"
  by (auto simp: one_more_def frame_def)

lemma candidate_by_strategy_mem:
  assumes "candidate_by_strategy env strategy g xs s = (r, s')" "xs \<noteq> []" "rand_ok env"
  shows "frame env s s'" "r = Some c \<Longrightarrow> c \<in> set xs"
proof -
  consider "strategy = ''round_robin''" "by_round_robin env g xs s = (r, s')"
    | "strategy \<noteq> ''round_robin''" "s' = s"
    using assms(1) by (cases "strategy = ''round_robin''")
      (auto simp: candidate_by_strategy_def selectCandidateByRoundRobin_def split: if_splits)
  then show "frame env s s'"
  proof cases
    case 1
    then show ?thesis using assms(2) round_robin_mem [of env g xs s _ s'] assms(3)
      by (cases r) (auto simp: by_round_robin_def Let_def split: if_splits)
  qed simp
  assume some: "r = Some c"
  have "r = by_weight rc_Weight env xs \<or> r = by_priority rc_Priority rc_Weight env xs \<or>
      by_round_robin env g xs s = (r, s') \<or> r = by_least_load env rc_id xs s \<or> r = Some (hd xs)"
    using assms(1) by (simp add: candidate_by_strategy_def selectCandidateByRoundRobin_def selectCandidateByWeight_def
        selectCandidateByPriority_def selectCandidateByLeastLoad_def split: if_splits) auto
  then show "c \<in> set xs"
    using some assms(2) by_weight_mem [of rc_Weight env xs c] by_priority_group(1) [of rc_Priority rc_Weight env xs c]
      round_robin_mem(1) [of env g xs s c s', OF _ assms(3)] least_load_mem [of env rc_id xs s c, OF _ assms(3)]
    by auto
qed

lemma applyStrategy_ok:
  assumes "applyStrategy env strategy cs g s = (Inr r, s')" "rand_ok env"
  shows "\<exists>c \<in> set cs. r = \<lparr>sr_Channel = rc_Channel c, sr_ActualModel = rc_ActualModel c\<rparr> \<and>
    \<not> held env s (rc_id c) \<and> one_more env (rc_id c) s s'"
proof -
  obtain ys s1 where y: "closed_only env rc_id cs s = (ys, s1)" by fastforce
  obtain o' s2 where c: "candidate_by_strategy env strategy g ys s1 = (o', s2)" by fastforce
  have ne: "ys \<noteq> []" using assms(1) y by (auto simp: applyStrategy_def split: if_splits)
  obtain c where o': "o' = Some c" "r = \<lparr>sr_Channel = rc_Channel c, sr_ActualModel = rc_ActualModel c\<rparr>"
      "s' = IncrementLoad env (rc_id c) s2"
    using assms(1) y c ne by (cases o') (auto simp: applyStrategy_def split: if_splits)
  have "c \<in> set cs" "\<not> held env s (rc_id c)"
    using candidate_by_strategy_mem(2) [OF c ne assms(2) o'(1)] closed_onlyE(1) [OF y] by auto
  moreover have "frame env s s2"
    using candidate_by_strategy_mem(1) [OF c ne assms(2)] closed_onlyE(2) [OF y] same_answers_frame frame_trans by blast
  ultimately show ?thesis using o' frame_one_more by blast
qed

lemma applyStrategy_err:
  assumes "applyStrategy env strategy cs g s = (Inl e, s')" "rand_ok env"
  shows "frame env s s'"
proof -
  obtain ys s1 where y: "closed_only env rc_id cs s = (ys, s1)" by fastforce
  have f: "frame env s s1" using closed_onlyE(2) [OF y] by (rule same_answers_frame)
  obtain o' s2 where c: "candidate_by_strategy env strategy g ys s1 = (o', s2)" by fastforce
  consider "s' = s" | "s' = s1" | "ys \<noteq> []" "s' = s2"
    using assms(1) y c by (cases o') (auto simp: applyStrategy_def split: if_splits)
  then show ?thesis
  proof cases
    case 3
    then show ?thesis using frame_trans [OF f candidate_by_strategy_mem(1) [OF c _ assms(2)]] by simp
  qed (simp_all add: f)
qed

section \<open>Where channels come from\<close>

text \<open>An active row of the table that supports what the request needs.\<close>

definition usable :: "routing_db \<Rightarrow> string \<Rightarrow> Channel \<Rightarrow> bool" where
  "usable db cap c \<longleftrightarrow> c \<in> set (rd_channels db) \<and> ch_Status c = ''active'' \<and> (cap \<noteq> [] \<longrightarrow> HasCapability c cap)"

lemma find_mem: "find P xs = Some x \<Longrightarrow> x \<in> set xs \<and> P x"
  by (auto simp: find_Some_iff)

lemma eligible_mem:
  "c \<in> set (eligible cs excludes cap) \<Longrightarrow> c \<in> set cs \<and> rc_id c \<notin> set excludes \<and> (cap \<noteq> [] \<longrightarrow> HasCapability (rc_Channel c) cap)"
  by (auto simp: eligible_def filterByCapability_def filterExcluded_def split: if_splits)

text \<open>What a try with candidates comes to, from \<open>s\<close> to \<open>s'\<close>.\<close>

definition outcome ::
  "router_env \<Rightarrow> routing_db \<Rightarrow> string \<Rightarrow> nat list \<Rightarrow> router_state \<Rightarrow> SelectChannelResult option \<Rightarrow> router_state \<Rightarrow> bool" where
  "outcome env db cap excludes s r s' \<longleftrightarrow>
     (case r of
        None \<Rightarrow> frame env s s'
      | Some r \<Rightarrow> usable db cap (sr_Channel r) \<and> ch_ID (sr_Channel r) \<notin> set excludes \<and>
          \<not> held env s (ch_ID (sr_Channel r)) \<and> one_more env (ch_ID (sr_Channel r)) s s')"

lemma outcome_after: "frame env s s1 \<Longrightarrow> outcome env db cap excludes s1 r s' \<Longrightarrow> outcome env db cap excludes s r s'"
  unfolding outcome_def using frame_trans [of env s s1 s'] frame_one_more [of env s s1 _ s']
  by (cases r) (simp_all add: frame_def [of env s s1])

lemma try_candidates_spec:
  assumes "try_candidates env cc (eligible cs excludes cap) s = (r, s')" "rand_ok env"
    and "\<forall>c \<in> set cs. rc_Channel c \<in> set (rd_channels db) \<and> ch_Status (rc_Channel c) = ''active''"
  shows "outcome env db cap excludes s r s'"
proof (cases "eligible cs excludes cap = []")
  case True
  then show ?thesis using assms(1) by (auto simp: try_candidates_def outcome_def)
next
  case False
  obtain a s1 where a: "applyStrategy env (cc_Strategy cc) (eligible cs excludes cap) (cc_ID cc) s = (a, s1)" by fastforce
  show ?thesis
  proof (cases a)
    case (Inl e)
    then have "r = None" "s' = s1" using assms(1) a False by (simp_all add: try_candidates_def)
    then show ?thesis using applyStrategy_err [OF a [unfolded Inl] assms(2)] by (simp add: outcome_def)
  next
    case (Inr x)
    then have r: "r = Some x" "s' = s1" using assms(1) a False by (simp_all add: try_candidates_def)
    obtain c where c: "c \<in> set (eligible cs excludes cap)" "x = \<lparr>sr_Channel = rc_Channel c, sr_ActualModel = rc_ActualModel c\<rparr>"
        "\<not> held env s (rc_id c)" "one_more env (rc_id c) s s1"
      using applyStrategy_ok [OF a [unfolded Inr] assms(2)] by blast
    then show ?thesis using r assms(3) eligible_mem [OF c(1)] by (simp add: outcome_def usable_def)
  qed
qed

lemma selectFromCustomChannel_spec:
  assumes "selectFromCustomChannel env db cc m s = (r, s')"
  shows "frame env s s'" "r = Some lrs \<Longrightarrow> lr \<in> set lrs \<Longrightarrow> snd lr = Some ch \<Longrightarrow> ch \<in> set (rd_channels db)"
  using assms
  by (auto simp: selectFromCustomChannel_def Let_def find_channel_def dest!: find_mem
      split: option.splits list.splits if_splits)

lemma routesToCandidates_mem:
  "\<forall>lr \<in> set lrs. \<forall>ch. snd lr = Some ch \<longrightarrow> ch \<in> set (rd_channels db) \<Longrightarrow> c \<in> set (routesToCandidates env db lrs) \<Longrightarrow>
     rc_Channel c \<in> set (rd_channels db) \<and> ch_Status (rc_Channel c) = ''active''"
proof (induction lrs)
  case (Cons lr lrs)
  have "ch \<in> set (rd_channels db) \<and> ch_Status ch = ''active''" if "channel_of_route env db lr = Some ch" for ch
    using that Cons.prems(1) by (auto simp: channel_of_route_def dest!: find_mem split: option.splits if_splits)
  then show ?case using Cons by (auto split: option.splits)
qed simp

lemma active_models_mem:
  "(cm, ch) \<in> set (active_models db cms) \<Longrightarrow> ch \<in> set (rd_channels db) \<and> ch_Status ch = ''active''"
  by (induction cms) (auto simp: find_channel_def dest!: find_mem split: option.splits if_splits)

lemma try_explicit_spec:
  assumes "try_explicit env db cc m excludes cap s = (r, s')" "rand_ok env"
  shows "outcome env db cap excludes s r s'"
proof -
  obtain rs s1 where l: "selectFromCustomChannel env db cc m s = (rs, s1)" by fastforce
  note f = selectFromCustomChannel_spec(1) [OF l]
  show ?thesis
  proof (cases rs)
    case None
    then show ?thesis using assms(1) l f by (auto simp: try_explicit_def outcome_def)
  next
    case (Some lrs)
    have "\<forall>c \<in> set (routesToCandidates env db lrs). rc_Channel c \<in> set (rd_channels db) \<and> ch_Status (rc_Channel c) = ''active''"
      using routesToCandidates_mem selectFromCustomChannel_spec(2) [OF l Some] by blast
    then have "outcome env db cap excludes s1 r s'"
      using assms l Some by (intro try_candidates_spec) (auto simp: try_explicit_def)
    then show ?thesis by (rule outcome_after [OF f])
  qed
qed

lemma try_auto_spec:
  assumes "try_auto env db cc m excludes cap s = (r, s')" "rand_ok env"
  shows "outcome env db cap excludes s r s'"
proof (cases "cc_AutoRoute cc \<and> autoDiscoverByCost env db m \<noteq> None")
  case True
  then obtain cms where c: "autoDiscoverByCost env db m = Some cms" by blast
  have "\<forall>c \<in> set (channelModelsToCandidates cms). rc_Channel c \<in> set (rd_channels db) \<and> ch_Status (rc_Channel c) = ''active''"
    using c by (auto simp: autoDiscoverByCost_def channelModelsToCandidates_def Let_def dest: active_models_mem split: if_splits)
  then show ?thesis using assms True c by (intro try_candidates_spec) (auto simp: try_auto_def)
next
  case False
  then show ?thesis using assms(1) by (auto simp: try_auto_def outcome_def split: if_splits)
qed

section \<open>Groups\<close>

lemma order_channels_set [simp]: "set (order_channels chs) = set chs"
  by (simp add: order_channels_def)

lemma GetChannels_mem:
  "GetChannels env db g = Some chs \<Longrightarrow> c \<in> set chs \<Longrightarrow> c \<in> set (rd_channels db) \<and> ch_Status c = ''active''"
  by (auto simp: GetChannels_def resolveByTagFilter_def resolveByChannelIDs_def split: option.splits json_column.splits if_splits)

lemma resolveChannels_mem:
  assumes "resolveChannels env db g m = Some chs" "c \<in> set chs"
  shows "c \<in> set (rd_channels db) \<and> ch_Status c = ''active''"
proof (cases "gp_MixMode g = ''SPLIT_BY_MODEL''")
  case True
  then show ?thesis using assms
    by (auto simp: resolveChannels_def resolveSplitByModel_def dest!: find_mem split: json_column.splits option.splits if_splits)
next
  case False
  then show ?thesis using assms GetChannels_mem by (auto simp: resolveChannels_def)
qed

lemma selectFallbackChain_spec:
  "selectFallbackChain env cs s = (r, s') \<Longrightarrow>
     (case r of Inl _ \<Rightarrow> frame env s s'
      | Inr c \<Rightarrow> c \<in> set cs \<and> \<not> held env s (ch_ID c) \<and> one_more env (ch_ID c) s s')"
proof (induction cs arbitrary: s)
  case (Cons c cs)
  obtain opened s1 where o: "breaker_open env (ch_ID c) s = (opened, s1)" by fastforce
  have f: "frame env s s1" using same_answers_frame [OF breaker_open_same [of env s "ch_ID c"]] by (simp add: o)
  have h: "held env s (ch_ID c) = opened" by (simp add: held_def o)
  show ?case
  proof (cases opened)
    case True
    then have "selectFallbackChain env cs s1 = (r, s')" using Cons.prems by (simp add: o)
    from Cons.IH [OF this] show ?thesis
      using f frame_trans [OF f] frame_one_more [OF f] by (cases r) (auto simp: frame_def [of env s s1])
  next
    case False
    then have "r = Inr c" "s' = IncrementLoad env (ch_ID c) s1" using Cons.prems by (auto simp: o)
    then show ?thesis using False h frame_one_more [OF f one_more_IncrementLoad] by auto
  qed
qed auto

lemma channel_by_strategy_mem:
  assumes "channel_by_strategy env strategy g xs s = (r, s')" "xs \<noteq> []" "rand_ok env"
  shows "frame env s s'" "r = Some c \<Longrightarrow> c \<in> set xs"
proof -
  have cases: "(r = by_weight ch_Weight env xs \<or> r = by_priority ch_Priority ch_Weight env xs \<or> r = by_least_load env ch_ID xs s) \<and> s' = s
      \<or> by_round_robin env g xs s = (r, s')"
    using assms(1) by (auto simp: channel_by_strategy_def selectByRoundRobin_def selectByWeight_def selectByCostFirst_def
        selectByPriority_def selectByLeastLoad_def split: if_splits)
  then show "frame env s s'"
    using round_robin_mem(2) [of env g xs s _ s', OF _ assms(3)] assms(2)
    by (cases r) (auto simp: by_round_robin_def Let_def split: if_splits)
  assume "r = Some c"
  then show "c \<in> set xs"
    using cases by_weight_mem [of ch_Weight env xs c] by_priority_group(1) [of ch_Priority ch_Weight env xs c]
      round_robin_mem(1) [of env g xs s c s', OF _ assms(3)] least_load_mem [of env ch_ID xs s c, OF _ assms(3)]
    by auto
qed

lemma selectWithBreaker_spec:
  assumes "selectWithBreaker env g cs m s = (r, s')" "rand_ok env"
  shows "case r of Inl _ \<Rightarrow> frame env s s'
    | Inr c \<Rightarrow> c \<in> set cs \<and> \<not> held env s (ch_ID c) \<and> one_more env (ch_ID c) s s'"
proof (cases "gp_MixMode g = ''FALLBACK_CHAIN''")
  case True
  then show ?thesis using assms selectFallbackChain_spec by (auto simp: selectWithBreaker_def)
next
  case chain: False
  obtain ys s1 where y: "closed_only env ch_ID cs s = (ys, s1)" by fastforce
  have f: "frame env s s1" using closed_onlyE(2) [OF y] by (rule same_answers_frame)
  show ?thesis
  proof (cases "ys = []")
    case True
    then show ?thesis using assms(1) y f chain by (auto simp: selectWithBreaker_def)
  next
    case False
    obtain o' s2 where c: "channel_by_strategy env (gp_Strategy g) (gp_ID g) ys s1 = (o', s2)" by fastforce
    note f2 = frame_trans [OF f channel_by_strategy_mem(1) [OF c False assms(2)]]
    show ?thesis
    proof (cases o')
      case None
      then show ?thesis using assms(1) y False c chain f2 by (auto simp: selectWithBreaker_def)
    next
      case (Some x)
      then have "r = Inr x" "s' = IncrementLoad env (ch_ID x) s2"
        using assms(1) y False c chain by (auto simp: selectWithBreaker_def)
      then show ?thesis
        using channel_by_strategy_mem(2) [OF c False assms(2) Some] closed_onlyE(1) [OF y]
          frame_one_more [OF f2 one_more_IncrementLoad] by auto
    qed
  qed
qed

lemma fallback_spec:
  assumes "fallbackToChannelGroup env db m s = (r, s')" "rand_ok env"
  shows "case r of Inl _ \<Rightarrow> frame env s s'
    | Inr x \<Rightarrow> usable db [] (sr_Channel x) \<and> \<not> held env s (ch_ID (sr_Channel x)) \<and> one_more env (ch_ID (sr_Channel x)) s s'"
proof -
  consider e where "r = Inl e" "s' = s"
    | g chs a where "resolveChannels env db g m = Some chs" "selectWithBreaker env g chs m s = (a, s')"
        "r = map_sum id (\<lambda>ch. \<lparr>sr_Channel = ch, sr_ActualModel = m\<rparr>) a"
    using assms(1)
    by (auto simp: fallbackToChannelGroup_def Let_def id_def split: option.splits list.splits prod.splits sum.splits)
  then show ?thesis
  proof cases
    case (2 g chs a)
    then show ?thesis
      using selectWithBreaker_spec [OF 2(2) assms(2)] resolveChannels_mem [OF 2(1)]
      by (cases a) (auto simp: usable_def)
  qed simp
qed

text \<open>The groups themselves never refuse for want of a capability.\<close>

lemma fallback_lacks_nothing:
  assumes "fallbackToChannelGroup env db m s = (Inl e, s1)"
  shows "e \<noteq> LacksCapability c k"
proof
  assume e: "e = LacksCapability c k"
  have chain: "fst (selectFallbackChain env cs s) \<noteq> Inl (LacksCapability c k)" for cs s
    by (induction cs arbitrary: s) (auto simp: case_prod_beta Let_def)
  have "fst (selectWithBreaker env g cs m s) \<noteq> Inl (LacksCapability c k)" for g cs
    by (auto simp: selectWithBreaker_def chain split: prod.splits option.splits)
  then have "\<not> selectWithBreaker env g cs m s = (Inl (LacksCapability c k), s1)" for g cs
    by (metis fst_conv)
  moreover have "e = NoGroupFor m \<or> (\<exists>code. e = NoChannelIn code m) \<or>
      (\<exists>g cs. selectWithBreaker env g cs m s = (Inl e, s1))"
    using assms by (auto simp: fallbackToChannelGroup_def Let_def split: option.splits list.splits prod.splits sum.splits)
  ultimately show False using e by auto
qed

lemma fallback_cap_spec:
  assumes "fallbackToChannelGroupForCapability env db m cap s = (r, s')" "rand_ok env"
  shows "case r of
      Inl e \<Rightarrow> (case e of LacksCapability c _ \<Rightarrow> one_more env c s s' | _ \<Rightarrow> frame env s s')
    | Inr x \<Rightarrow> usable db cap (sr_Channel x) \<and> \<not> held env s (ch_ID (sr_Channel x)) \<and>
        one_more env (ch_ID (sr_Channel x)) s s' \<and> fst (fallbackToChannelGroup env db m s) = Inr x"
proof -
  obtain a s1 where f: "fallbackToChannelGroup env db m s = (a, s1)" by fastforce
  note spec = fallback_spec [OF f assms(2)]
  have s': "s' = s1" using assms(1) f
    by (auto simp: fallbackToChannelGroupForCapability_def split: sum.splits if_splits)
  show ?thesis
  proof (cases a)
    case (Inl e)
    then have "r = Inl e" using assms(1) f by (simp add: fallbackToChannelGroupForCapability_def)
    moreover have "\<not> (\<exists>c k. e = LacksCapability c k)" using fallback_lacks_nothing f Inl by blast
    ultimately show ?thesis using spec Inl s' by (cases e) auto
  next
    case (Inr x)
    then show ?thesis
      using assms(1) f spec s' by (auto simp: fallbackToChannelGroupForCapability_def usable_def split: if_splits)
  qed
qed

lemma loadCustomChannel_frame: "loadCustomChannel env db i s = (r, s') \<Longrightarrow> frame env s s'"
  by (auto simp: loadCustomChannel_def Let_def split: option.splits if_splits)

text \<open>What a whole selection comes to.\<close>

lemma select_spec:
  assumes "selectChannelWithCapability env db m i user excludes cap s = (r, s')" "rand_ok env"
  shows "case r of
      Inl e \<Rightarrow> (case e of LacksCapability c _ \<Rightarrow> one_more env c s s' | _ \<Rightarrow> frame env s s')
    | Inr x \<Rightarrow> usable db cap (sr_Channel x) \<and> \<not> held env s (ch_ID (sr_Channel x)) \<and>
        one_more env (ch_ID (sr_Channel x)) s s' \<and>
        (ch_ID (sr_Channel x) \<notin> set excludes \<or> (\<exists>s1. frame env s s1 \<and> fst (fallbackToChannelGroup env db m s1) = Inr x))"
proof -
  obtain c s1 where l: "loadCustomChannel env db i s = (c, s1)" by fastforce
  note f1 = loadCustomChannel_frame [OF l]
  have group: ?thesis if f: "frame env s t" and g: "fallbackToChannelGroupForCapability env db m cap t = (r, s')" for t
  proof -
    have held: "held env t = held env s" using f by (simp add: frame_def)
    have err: "frame env t s' \<Longrightarrow> frame env s s'" by (rule frame_trans [OF f])
    have one: "one_more env c t s' \<Longrightarrow> one_more env c s s'" for c by (rule frame_one_more [OF f])
    show ?thesis
      using fallback_cap_spec [OF g assms(2)] held err one f
      by (cases r) (auto split: route_error.splits)
  qed
  show ?thesis
  proof (cases "m = []")
    case True
    then show ?thesis using assms(1) by (auto simp: selectChannelWithCapability_def)
  next
    case ne: False
    show ?thesis
    proof (cases c)
      case None
      then show ?thesis using assms(1) l ne f1 group by (simp add: selectChannelWithCapability_def)
    next
      case (Some cc)
      show ?thesis
      proof (cases "checkAccess env db cc user")
        case False
        then show ?thesis using assms(1) l ne Some f1 by (auto simp: selectChannelWithCapability_def)
      next
        case acc: True
        obtain a s2 where a: "try_explicit env db cc m excludes cap s1 = (a, s2)" by fastforce
        obtain b s3 where b: "try_auto env db cc m excludes cap s2 = (b, s3)" by fastforce
        note oa = outcome_after [OF f1 try_explicit_spec [OF a assms(2)]]
        have picked: ?thesis if "outcome env db cap excludes s (Some x) s'" "r = Inr x" for x
          using that by (simp add: outcome_def)
        have run: "(r, s') = (case a of Some x \<Rightarrow> (Inr x, s2)
            | None \<Rightarrow> (case b of Some x \<Rightarrow> (Inr x, s3) | None \<Rightarrow> fallbackToChannelGroupForCapability env db m cap s3))"
          using assms(1) l ne Some acc a b by (simp add: selectChannelWithCapability_def split: option.splits)
        show ?thesis
        proof (cases a)
          case (Some x)
          then show ?thesis using run oa by (intro picked [of x]) simp_all
        next
          case None
          then have f2: "frame env s s2" using oa by (simp add: outcome_def)
          note ob = outcome_after [OF f2 try_auto_spec [OF b assms(2)]]
          show ?thesis
          proof (cases b)
            case (Some x)
            then show ?thesis using run None ob by (intro picked [of x]) simp_all
          next
            case b_none: None
            then have f3: "frame env s s3" using ob by (simp add: outcome_def)
            show ?thesis using run None b_none by (intro group [OF f3]) simp
          qed
        qed
      qed
    qed
  qed
qed

lemma select_lacks_nothing:
  assumes "selectChannelWithCapability env db m i user excludes [] s = (Inl e, s')"
  shows "e \<noteq> LacksCapability c k"
proof -
  have "fallbackToChannelGroupForCapability env db m [] t = fallbackToChannelGroup env db m t" for t
    by (auto simp: fallbackToChannelGroupForCapability_def split: prod.splits sum.splits)
  then show ?thesis
    using assms fallback_lacks_nothing [of env db m _ e _ c k]
    by (auto simp: selectChannelWithCapability_def split: if_splits prod.splits option.splits)
qed

section \<open>Shares of the weighted choice\<close>

definition weights :: "('a \<Rightarrow> int64) \<Rightarrow> 'a list \<Rightarrow> int" where
  "weights wt xs = sum_list (map (\<lambda>x. eff_weight (wt x)) xs)"

lemma eff_weight_pos: "0 < eff_weight w"
  by (simp add: eff_weight_def)

lemma weights_simps [simp]: "weights wt [] = 0" "weights wt (x # xs) = eff_weight (wt x) + weights wt xs"
  by (simp_all add: weights_def)

lemma weights_nonneg: "0 \<le> weights wt xs"
  by (induction xs) (use eff_weight_pos in \<open>auto intro: add_nonneg_nonneg order_less_imp_le\<close>)

lemma total_weight_exact: "0 \<le> acc \<Longrightarrow> acc + weights wt xs < 2 ^ 63 \<Longrightarrow> total_weight wt xs acc = acc + weights wt xs"
proof (induction xs arbitrary: acc)
  case (Cons x xs)
  have w: "0 < eff_weight (wt x)" "0 \<le> weights wt xs" by (rule eff_weight_pos, rule weights_nonneg)
  have "add64 acc (eff_weight (wt x)) = acc + eff_weight (wt x)"
    using Cons.prems w by (intro add64_id) (simp add: in64_def)
  then show ?case using Cons.IH [of "acc + eff_weight (wt x)"] Cons.prems w by (simp add: ac_simps)
qed simp

lemma weight_loop_at:
  "distinct xs \<Longrightarrow> 0 \<le> cum \<Longrightarrow> cum + weights wt xs < 2 ^ 63 \<Longrightarrow> cum \<le> r \<Longrightarrow> i < length xs \<Longrightarrow>
     weight_loop wt r cum xs = Some (xs ! i) \<longleftrightarrow>
       cum + weights wt (take i xs) \<le> r \<and> r < cum + weights wt (take (Suc i) xs)"
proof (induction xs arbitrary: cum i)
  case (Cons x xs)
  have w: "0 < eff_weight (wt x)" "0 \<le> weights wt xs" by (rule eff_weight_pos, rule weights_nonneg)
  have c: "add64 cum (eff_weight (wt x)) = cum + eff_weight (wt x)"
    using Cons.prems w by (intro add64_id) (simp add: in64_def)
  show ?case
  proof (cases "r < cum + eff_weight (wt x)")
    case True
    show ?thesis
    proof (cases i)
      case (Suc k)
      then have "xs ! k \<in> set xs" using Cons.prems(5) by simp
      then have "x \<noteq> xs ! k" using Cons.prems(1) by auto
      then show ?thesis using True c Suc weights_nonneg [of wt "take k xs"] by auto
    qed (use True c Cons.prems in simp)
  next
    case False
    show ?thesis
    proof (cases i)
      case 0
      have "weight_loop wt r (cum + eff_weight (wt x)) xs \<noteq> Some x"
        using Cons.prems(1) weight_loop_mem [of wt r "cum + eff_weight (wt x)" xs x] by auto
      then show ?thesis using False c 0 by simp
    next
      case (Suc j)
      then show ?thesis
        using False c Cons.IH [of "cum + eff_weight (wt x)" j] Cons.prems w by (simp add: ac_simps)
    qed
  qed
qed simp

lemma weight_loop_hits: "cum + weights wt xs < 2 ^ 63 \<Longrightarrow> 0 \<le> cum \<Longrightarrow> r < cum + weights wt xs \<Longrightarrow> weight_loop wt r cum xs \<noteq> None \<or> xs = []"
proof (induction xs arbitrary: cum)
  case (Cons x xs)
  have w: "0 < eff_weight (wt x)" "0 \<le> weights wt xs" by (rule eff_weight_pos, rule weights_nonneg)
  have c: "add64 cum (eff_weight (wt x)) = cum + eff_weight (wt x)"
    using Cons.prems w by (intro add64_id) (simp add: in64_def)
  show ?case
    using Cons.IH [of "cum + eff_weight (wt x)"] Cons.prems w c by (cases "xs = []") (auto simp: Let_def ac_simps)
qed simp

definition with_rand :: "int64 \<Rightarrow> router_env \<Rightarrow> router_env" where
  "with_rand r env = env\<lparr>ve_rand := \<lambda>_. r\<rparr>"

lemma by_weight_at:
  assumes "distinct xs" "2 \<le> length xs" "weights wt xs < 2 ^ 63" "0 \<le> r" "r < weights wt xs" "i < length xs"
  shows "by_weight wt (with_rand r env) xs = Some (xs ! i) \<longleftrightarrow>
    weights wt (take i xs) \<le> r \<and> r < weights wt (take (Suc i) xs)"
proof -
  obtain x y ys where xs: "xs = x # y # ys" using assms(2) by (cases xs; cases "tl xs") auto
  have "weight_loop wt r 0 xs \<noteq> None" using weight_loop_hits [of 0 wt xs r] assms xs by auto
  then have "by_weight wt (with_rand r env) xs = weight_loop wt r 0 xs"
    unfolding by_weight_def xs with_rand_def by (auto simp del: weight_loop.simps total_weight.simps)
  then show ?thesis using weight_loop_at [OF assms(1), of 0 wt r i] assms by simp
qed

lemma take_weights: "i < length xs \<Longrightarrow> weights wt (take (Suc i) xs) = weights wt (take i xs) + eff_weight (wt (xs ! i))"
  by (simp add: weights_def take_Suc_conv_app_nth)

lemma weights_take_le: "weights wt (take i xs) \<le> weights wt xs"
  using weights_nonneg [of wt "drop i xs"] append_take_drop_id [of i xs]
  by (metis (no_types, lifting) add_increasing2 map_append order_refl sum_list_append weights_def)

lemma by_weight_share:
  assumes "distinct xs" "2 \<le> length xs" "weights wt xs < 2 ^ 63" "i < length xs"
  shows "card {r. 0 \<le> r \<and> r < weights wt xs \<and> by_weight wt (with_rand r env) xs = Some (xs ! i)} =
    nat (eff_weight (wt (xs ! i)))"
proof -
  have "{r. 0 \<le> r \<and> r < weights wt xs \<and> by_weight wt (with_rand r env) xs = Some (xs ! i)} =
      {weights wt (take i xs)..<weights wt (take (Suc i) xs)}"
    using by_weight_at [OF assms(1-3) _ _ assms(4)] weights_nonneg [of wt "take i xs"] weights_take_le [of wt "Suc i" xs]
    by auto
  then show ?thesis by (simp add: take_weights [OF assms(4)])
qed

section \<open>Turns of the round robin\<close>

fun draws :: "router_env \<Rightarrow> nat \<Rightarrow> 'a list \<Rightarrow> nat \<Rightarrow> router_state \<Rightarrow> 'a option list" where
  "draws env g xs 0 s = []"
| "draws env g xs (Suc k) s = (let (x, s') = by_round_robin env g xs s in x # draws env g xs k s')"

lemma draws_nth:
  "xs \<noteq> [] \<Longrightarrow> \<not> ve_fails env RoundRobinIncr \<Longrightarrow> 0 \<le> ro_rr s g \<Longrightarrow> ro_rr s g + int k < 2 ^ 63 \<Longrightarrow>
     draws env g xs k s = map (\<lambda>j. Some (xs ! ((nat (ro_rr s g) + j) mod length xs))) [0..<k]"
proof (induction k arbitrary: s)
  case (Suc k)
  let ?c = "ro_rr s g"
  have range: "in64 ?c" "in64 (?c + 1)" using Suc.prems by (simp_all add: in64_def)
  then have inc: "add64 ?c 1 = ?c + 1" "sub64 (?c + 1) 1 = ?c"
    by (simp add: add64_id) (use range in \<open>simp add: sub64_id\<close>)
  have "?c smod int (length xs) = ?c mod int (length xs)"
    using Suc.prems by (cases "?c = 0") (auto simp: signed_modulo_int_def)
  moreover have "0 \<le> ?c mod int (length xs)" "?c mod int (length xs) \<le> ?c"
    using Suc.prems by (simp_all add: zmod_le_nonneg_dividend)
  then have "- (2 ^ 63) \<le> ?c mod int (length xs)" "?c mod int (length xs) < 2 ^ 63" using Suc.prems by linarith+
  then have "in64 (?c mod int (length xs))" unfolding in64_def by blast
  ultimately have "nat (rem64 ?c (int (length xs))) = nat ?c mod length xs"
    using Suc.prems by (simp add: rem64_def nat_mod_distrib)
  then have "by_round_robin env g xs s = (Some (xs ! (nat ?c mod length xs)), s\<lparr>ro_rr := (ro_rr s)(g := ?c + 1)\<rparr>)"
    using Suc.prems by (simp add: by_round_robin_def Let_def inc)
  moreover have "draws env g xs k (s\<lparr>ro_rr := (ro_rr s)(g := ?c + 1)\<rparr>) =
      map (\<lambda>j. Some (xs ! ((nat (?c + 1) + j) mod length xs))) [0..<k]"
    using Suc.IH [of "s\<lparr>ro_rr := (ro_rr s)(g := ?c + 1)\<rparr>"] Suc.prems by simp
  moreover have "nat (?c + 1) = Suc (nat ?c)" using Suc.prems by simp
  ultimately show ?case
    by (simp add: upt_conv_Cons map_Suc_upt [symmetric] del: upt_Suc)
qed simp

text \<open>As many draws as there are elements go once around.\<close>

lemma draws_round:
  assumes "\<not> ve_fails env RoundRobinIncr" "0 \<le> ro_rr s g" "ro_rr s g + int (length xs) < 2 ^ 63"
  shows "draws env g xs (length xs) s = map Some (rotate (nat (ro_rr s g)) xs)"
proof (cases "xs = []")
  case False
  then show ?thesis
    using assms by (subst draws_nth) (auto intro!: nth_equalityI simp: nth_rotate)
qed simp

lemma mset_rotate_list: "mset (rotate k xs) = mset xs"
proof -
  have "mset (rotate k xs) = mset (take (k mod length xs) xs) + mset (drop (k mod length xs) xs)"
    by (simp add: rotate_drop_take)
  also have "\<dots> = mset (take (k mod length xs) xs @ drop (k mod length xs) xs)"
    by (simp only: mset_append)
  finally show ?thesis by (simp only: append_take_drop_id)
qed

section \<open>Requests in flight\<close>

text \<open>
  Selections and results while Redis answers the increments of the counts, on tables that may change
  from one selection to the next, with the channels of the calls in flight and those of the selections
  that were refused after the count had been raised.
\<close>

definition quiet :: "router_env \<Rightarrow> bool" where
  "quiet env \<longleftrightarrow> rand_ok env \<and> \<not> ve_fails env LoadIncr"

inductive routing_run :: "router_state \<Rightarrow> nat multiset \<Rightarrow> nat multiset \<Rightarrow> bool" where
  start: "ro_inflight s = (\<lambda>_. 0) \<Longrightarrow> routing_run s {#} {#}"
| routed: "routing_run s out leak \<Longrightarrow> quiet env \<Longrightarrow>
    selectChannelWithCapability env db m i user excludes cap s = (Inr x, s') \<Longrightarrow>
    routing_run s' (add_mset (ch_ID (sr_Channel x)) out) leak"
| refused: "routing_run s out leak \<Longrightarrow> quiet env \<Longrightarrow>
    selectChannelWithCapability env db m i user excludes cap s = (Inl e, s') \<Longrightarrow>
    routing_run s' out (case e of LacksCapability c _ \<Rightarrow> add_mset c leak | _ \<Rightarrow> leak)"
| result: "routing_run s out leak \<Longrightarrow> quiet env \<Longrightarrow> c \<in># out \<Longrightarrow>
    s' = RecordResult env c ok s \<or> s' = snd (RecordResultWithError env c err status s) \<Longrightarrow>
    routing_run s' (out - {#c#}) leak"

lemma inflight_on_breaker [simp]: "ro_inflight (on_breaker env c f s) = ro_inflight s"
  by (simp add: on_breaker_def)

lemma inflight_result:
  assumes "quiet env" "s' = RecordResult env c ok s \<or> s' = snd (RecordResultWithError env c err status s)"
  shows "ro_inflight s' = (ro_inflight s)(c := add64 (ro_inflight s c) (- 1))"
  using assms by (auto simp: RecordResult_def RecordResultWithError_def Let_def bump_load_def quiet_def)

lemma inflight_one_more: "quiet env \<Longrightarrow> one_more env c s s' \<Longrightarrow> ro_inflight s' = (ro_inflight s)(c := add64 (ro_inflight s c) 1)"
  by (simp add: one_more_def quiet_def)

lemma add64_i64 [simp]: "add64 (i64 x) k = i64 (x + k)"
  by (simp add: add64_def)

lemma inflight_counts:
  "routing_run s out leak \<Longrightarrow> ro_inflight s c = i64 (int (count out c) + int (count leak c))"
proof (induction rule: routing_run.induct)
  case (routed s out leak env db m i user excludes cap x s')
  have "one_more env (ch_ID (sr_Channel x)) s s'"
    using select_spec [OF routed.hyps(3)] routed.hyps(2) by (simp add: quiet_def)
  then show ?case using routed inflight_one_more by (auto simp: ac_simps)
next
  case (refused s out leak env db m i user excludes cap e s')
  have sp: "case e of LacksCapability c _ \<Rightarrow> one_more env c s s' | _ \<Rightarrow> frame env s s'"
    using select_spec [OF refused.hyps(3)] refused.hyps(2) by (simp add: quiet_def)
  show ?case
  proof (cases "\<exists>d k. e = LacksCapability d k")
    case True
    then show ?thesis using sp refused inflight_one_more by (auto simp: ac_simps)
  next
    case False
    then have "ro_inflight s' = ro_inflight s" using sp by (auto simp: frame_def split: route_error.splits)
    then show ?thesis using False refused.IH by (auto split: route_error.splits)
  qed
next
  case (result s out leak env d s' ok err status)
  have "0 < count out d" using result.hyps(3) by (simp add: count_greater_zero_iff)
  then show ?case using result inflight_result [OF result.hyps(2) result.hyps(4)] by (auto simp: algebra_simps of_nat_diff)
qed simp

section \<open>Breakers isolate\<close>

lemma breaker_constants: "bc_MaxFailures getOrCreateBreaker = 5" "bc_OpenTimeout getOrCreateBreaker = 60" "bc_WindowSec getOrCreateBreaker = 30"
  by (simp_all add: getOrCreateBreaker_def NewRedisCircuitBreaker_def DefaultBreakerConfig_def)

text \<open>
  Failures of a channel in a row: \<open>failing_run c t n s\<close> where the results of \<open>n\<close> calls of the channel have
  been recorded as failures that count, the last one at \<open>t\<close>, each within thirty seconds of the one before,
  with Redis up as they were recorded. In between: results of the channel that do not count (timeouts,
  cancellations, answers of the 400s), results of other channels, and selections of whatever request on
  whatever tables, with whatever Redis calls failing, up to a minute after the last failure.
\<close>

inductive failing_run :: "nat \<Rightarrow> int \<Rightarrow> nat \<Rightarrow> router_state \<Rightarrow> bool" for c where
  first: "ShouldCountForBreaker (ClassifyError err status) \<Longrightarrow> ve_faults env c = up \<Longrightarrow>
    failing_run c (ve_now env) 1 (snd (RecordResultWithError env c err status s))"
| again: "failing_run c t n s \<Longrightarrow> ShouldCountForBreaker (ClassifyError err status) \<Longrightarrow> ve_faults env c = up \<Longrightarrow>
    t \<le> ve_now env \<Longrightarrow> ve_now env < t + 30 \<Longrightarrow>
    failing_run c (ve_now env) (Suc n) (snd (RecordResultWithError env c err status s))"
| uncounted: "failing_run c t n s \<Longrightarrow> \<not> IsSuccess (ClassifyError err status) \<Longrightarrow>
    \<not> ShouldCountForBreaker (ClassifyError err status) \<Longrightarrow>
    failing_run c t n (snd (RecordResultWithError env c err status s))"
| other: "failing_run c t n s \<Longrightarrow> d \<noteq> c \<Longrightarrow> failing_run c t n (snd (RecordResultWithError env d err status s))"
| selection: "failing_run c t n s \<Longrightarrow> rand_ok env \<Longrightarrow> t \<le> ve_now env \<Longrightarrow> ve_now env \<le> t + 60 \<Longrightarrow>
    selectChannelWithCapability env db m i user excludes cap s = (r, s') \<Longrightarrow> failing_run c t n s'"

definition streak_kept :: "int \<Rightarrow> nat \<Rightarrow> breaker_store \<Rightarrow> bool" where
  "streak_kept t n b \<longleftrightarrow>
     (\<exists>k. bk_counts b = Some (k, Some (t + 30)) \<and> n \<le> ct_consecutive k) \<and>
     (5 \<le> n \<longrightarrow> bk_state b = Some (''open'', Some (t + 70)) \<and> bk_open_at b = Some (t, Some (t + 70)))"

lemma counted_not_success: "ShouldCountForBreaker x \<Longrightarrow> \<not> IsSuccess x"
  by (simp add: ShouldCountForBreaker_def IsSuccess_def)

lemma counted_result:
  assumes "ShouldCountForBreaker (ClassifyError err status)" "ve_faults env c = up"
  shows "ro_breakers (snd (RecordResultWithError env c err status s)) c =
    RecordFailure up getOrCreateBreaker (ve_now env) (ro_breakers s c)"
  using assms counted_not_success [OF assms(1)]
  by (simp add: RecordResultWithError_def Let_def on_breaker_def bump_load_def)

lemma RecordFailure_streak:
  assumes "n \<le> Suc (ct_consecutive (counts_at t b))"
  shows "streak_kept t n (RecordFailure up getOrCreateBreaker t b)"
  using assms
  by (auto simp: streak_kept_def RecordFailure_def Let_def breaker_constants should_trip_def open_now_def
      unless_fault_def put_counts_def)

lemma kept_streak_counts: "streak_kept t n b \<Longrightarrow> t' < t + 30 \<Longrightarrow> n \<le> ct_consecutive (counts_at t' b)"
  by (auto simp: streak_kept_def counts_at_def)

lemma streak_asked:
  assumes "streak_kept t n b" "t' \<le> t + 60"
  shows "streak_kept t n (snd (IsOpen f getOrCreateBreaker t' b))"
proof -
  have s: "bk_counts (snd (State f getOrCreateBreaker t' b)) = bk_counts b" by (rule State_parts(1))
  have "snd (State f getOrCreateBreaker t' b) = b" if "5 \<le> n"
    using assms that by (auto simp: streak_kept_def State_def breaker_constants)
  then show ?thesis
    using assms s by (auto simp: streak_kept_def IsOpen_def case_prod_beta Let_def)
qed

lemma select_probed:
  assumes "selectChannelWithCapability env db m i user excludes cap s = (r, s')" "rand_ok env"
  shows "probed env s s'"
  using select_spec [OF assms] by (auto simp: frame_def one_more_def split: sum.splits route_error.splits)

lemma failing_run_kept: "failing_run c t n s \<Longrightarrow> streak_kept t n (ro_breakers s c)"
proof (induction rule: failing_run.induct)
  case (first err status env s)
  show ?case unfolding counted_result [OF first] by (rule RecordFailure_streak) simp
next
  case (again t n s err status env)
  show ?case unfolding counted_result [OF again.hyps(2,3)]
    using kept_streak_counts [OF again.IH again.hyps(5)] by (intro RecordFailure_streak) simp
next
  case (uncounted t n s err status env)
  then show ?case by (simp add: RecordResultWithError_def Let_def bump_load_def)
next
  case (other t n s d err status env)
  then show ?case by (simp add: RecordResultWithError_def Let_def bump_load_def on_breaker_def)
next
  case (selection t n s env db m i user excludes cap r s')
  show ?case
    using select_probed [OF selection.hyps(5,2)] selection.IH streak_asked [OF selection.IH selection.hyps(4)]
    unfolding probed_def asked_once_def by metis
qed

lemma streak_held:
  assumes "streak_kept t n (ro_breakers s c)" "5 \<le> n" "t \<le> ve_now env" "ve_now env \<le> t + 60" "\<not> ve_faults env c GetState"
  shows "held env s c"
  using assms by (auto simp: held_IsOpen IsOpen_def State_def streak_kept_def breaker_constants)

section \<open>Properties\<close>

text \<open>An instance: two channels behind a default custom channel, and a group of both.\<close>

definition demo_channel :: "nat \<Rightarrow> string \<Rightarrow> Channel" where
  "demo_channel i caps =
     \<lparr>ch_ID = i, ch_SupplierID = 0, ch_SupportedCapabilities = caps, ch_Models = Column [''*''], ch_Weight = 1,
      ch_Priority = 0, ch_Status = ''active'', ch_Tags = []\<rparr>"

definition demo_route :: "nat \<Rightarrow> int64 \<Rightarrow> CustomChannelRoute" where
  "demo_route i w =
     \<lparr>rt_CustomChannelID = 1, rt_AliasModel = ''m'', rt_ChannelID = i, rt_ActualModel = ''v'', rt_Weight = w,
      rt_Priority = 0, rt_IsActive = True\<rparr>"

definition demo_db :: routing_db where
  "demo_db =
     \<lparr>rd_suppliers = [], rd_channels = [demo_channel 1 ''chat'', demo_channel 2 ''chat''],
      rd_customs = [\<lparr>cc_ID = 1, cc_Name = ''d'', cc_Strategy = ''cost_first'', cc_IsDefault = True, cc_AutoRoute = False,
        cc_Visibility = ''all'', cc_IsActive = True\<rparr>],
      rd_access = [], rd_routes = [demo_route 1 1, demo_route 2 3], rd_channel_models = [],
      rd_groups = [\<lparr>gp_ID = 1, gp_Code = ''g'', gp_Strategy = ''Priority'', gp_ChannelIDs = Column [1],
        gp_MixMode = ''SINGLE'', gp_MixConfig = NullColumn, gp_TagFilter = NullColumn, gp_IsActive = True\<rparr>]\<rparr>"

definition demo_env :: router_env where
  "demo_env = \<lparr>ve_now = 100, ve_rand = (\<lambda>_. 0), ve_backupSvc = False, ve_fails = (\<lambda>_. False), ve_faults = (\<lambda>_. up)\<rparr>"

definition fresh_router :: router_state where
  "fresh_router =
     \<lparr>ro_breakers = (\<lambda>_. empty_breaker), ro_inflight = (\<lambda>_. 0), ro_rr = (\<lambda>_. 0), ro_ccCache = (\<lambda>_. None),
      ro_routeCache = (\<lambda>_. None), ro_backup = (\<lambda>_. None)\<rparr>"

lemma demo_env_ok [simp]: "rand_ok demo_env" "quiet demo_env"
  by (simp_all add: quiet_def rand_ok_def demo_env_def)

text \<open>C20: A channel the router returns is an active row of the table, supports the capability asked for
  and is not held back by its breaker; it is not one of the excluded channels, unless it came from the
  fallback to channel groups, which does not know of them.\<close>

theorem routed_channel_is_eligible:
  assumes "rand_ok env" "selectChannelWithCapability env db m i user excludes cap s = (Inr x, s')"
  shows "usable db cap (sr_Channel x) \<and> \<not> fst (breaker_open env (ch_ID (sr_Channel x)) s) \<and>
    (ch_ID (sr_Channel x) \<notin> set excludes \<or> (\<exists>s1. fst (fallbackToChannelGroup env db m s1) = Inr x))"
  using select_spec [OF assms(2,1)] by (auto simp: held_def)

lemma demo_select:
  "fst (selectChannelWithCapability demo_env demo_db ''m'' None 7 [1] ''chat'' fresh_router) =
     Inr \<lparr>sr_Channel = demo_channel 2 ''chat'', sr_ActualModel = ''v''\<rparr>"
  by code_simp

theorem routed_channel_is_eligible_witness:
  "usable demo_db ''chat'' (demo_channel 2 ''chat'') \<and> \<not> fst (breaker_open demo_env 2 fresh_router)"
proof -
  obtain s' where "selectChannelWithCapability demo_env demo_db ''m'' None 7 [1] ''chat'' fresh_router =
      (Inr \<lparr>sr_Channel = demo_channel 2 ''chat'', sr_ActualModel = ''v''\<rparr>, s')"
    by (metis demo_select prod.collapse)
  from routed_channel_is_eligible [OF demo_env_ok(1) this] show ?thesis by (simp add: demo_channel_def)
qed

text \<open>The fallback can return the very channel that has just failed: with both explicit routes
  excluded the router answers with channel 1 again.\<close>

theorem fallback_returns_excluded:
  "fst (SelectChannelWithExcludes demo_env demo_db ''m'' None 7 [1, 2] fresh_router) =
     Inr \<lparr>sr_Channel = demo_channel 1 ''chat'', sr_ActualModel = ''m''\<rparr>"
  by code_simp

text \<open>C21: After any run of selections and results, on tables that may change between them, in which the
  counter in Redis always answers and results come only for calls that were routed: the count of a channel
  is the number of its calls in flight plus the number of selections refused for want of a capability,
  which are never taken off again.\<close>

theorem load_counts_calls_in_flight:
  assumes "routing_run s out leak"
  shows "ro_inflight s c = i64 (int (count out c) + int (count leak c))"
  using assms by (rule inflight_counts)

theorem load_counts_calls_in_flight_witness:
  "ro_inflight (snd (selectChannelWithCapability demo_env demo_db ''m'' None 7 [] ''image'' fresh_router)) 1 = 1 \<and>
   fst (selectChannelWithCapability demo_env demo_db ''m'' None 7 [] ''image'' fresh_router) = Inl (LacksCapability 1 ''image'')"
proof -
  have e: "fst (selectChannelWithCapability demo_env demo_db ''m'' None 7 [] ''image'' fresh_router) = Inl (LacksCapability 1 ''image'')"
    by code_simp
  obtain s' where r: "selectChannelWithCapability demo_env demo_db ''m'' None 7 [] ''image'' fresh_router =
      (Inl (LacksCapability 1 ''image''), s')"
    by (metis e prod.collapse)
  have "routing_run s' {#} (case LacksCapability 1 ''image'' of LacksCapability c _ \<Rightarrow> add_mset c {#} | _ \<Rightarrow> {#})"
    by (rule routing_run.refused [OF routing_run.start demo_env_ok(2) r]) (simp add: fresh_router_def)
  from load_counts_calls_in_flight [OF this, of 1] show ?thesis using e r by (simp add: in64_def)
qed

text \<open>C22: Both weighted choices give every element exactly its weight, at least one, out of the total of
  the weights, as the number drawn runs through the total.\<close>

theorem weighted_choice_is_proportional:
  assumes "distinct xs" "2 \<le> length xs" "weights rc_Weight xs < 2 ^ 63" "i < length xs"
    and "distinct chs" "2 \<le> length chs" "weights ch_Weight chs < 2 ^ 63" "j < length chs"
  shows "card {r. 0 \<le> r \<and> r < weights rc_Weight xs \<and> selectCandidateByWeight (with_rand r env) xs = Some (xs ! i)} =
      nat (eff_weight (rc_Weight (xs ! i))) \<and>
    card {r. 0 \<le> r \<and> r < weights ch_Weight chs \<and> selectByWeight (with_rand r env) chs = Some (chs ! j)} =
      nat (eff_weight (ch_Weight (chs ! j)))"
  unfolding selectCandidateByWeight_def selectByWeight_def
  using by_weight_share [OF assms(1-4)] by_weight_share [OF assms(5-8)] by blast

theorem weighted_choice_is_proportional_witness:
  "card {r. 0 \<le> r \<and> r < 4 \<and> selectCandidateByWeight (with_rand r demo_env)
       (routesToCandidates demo_env demo_db [(demo_route 1 1, None), (demo_route 2 3, None)]) =
     Some (routesToCandidates demo_env demo_db [(demo_route 1 1, None), (demo_route 2 3, None)] ! 1)} = 3"
proof -
  let ?xs = "routesToCandidates demo_env demo_db [(demo_route 1 1, None), (demo_route 2 3, None)]"
  let ?chs = "rd_channels demo_db"
  have a: "distinct ?xs" "2 \<le> length ?xs" "weights rc_Weight ?xs < 2 ^ 63" "1 < length ?xs" "weights rc_Weight ?xs = 4"
    "eff_weight (rc_Weight (?xs ! 1)) = 3"
    by code_simp+
  have b: "distinct ?chs" "2 \<le> length ?chs" "weights ch_Weight ?chs < 2 ^ 63" "0 < length ?chs" by code_simp+
  show ?thesis using weighted_choice_is_proportional [OF a(1-4) b, of demo_env] a(5,6) by simp
qed

text \<open>C23: While Redis answers the increments of its counter, and the counter is neither negative nor near
  its limit of 63 bits, the round robin visits every element exactly once in as many turns as there are
  elements. (A failing increment is answered by a random choice.)\<close>

theorem round_robin_is_fair:
  assumes "\<not> ve_fails env RoundRobinIncr" "0 \<le> ro_rr s g" "ro_rr s g + int (length xs) < 2 ^ 63"
  shows "mset (draws env g xs (length xs) s) = mset (map Some xs)"
  unfolding draws_round [OF assms] by (simp add: mset_rotate_list)

theorem round_robin_is_fair_witness:
  "mset (draws demo_env 1 (rd_channels demo_db) 2 fresh_router) = mset (map Some (rd_channels demo_db))"
  using round_robin_is_fair [of demo_env fresh_router 1 "rd_channels demo_db"]
  by (simp add: demo_env_def fresh_router_def demo_db_def numeral_2_eq_2)

text \<open>The least loaded choice has no more calls in flight than any other, and the choice by priority
  no lower priority.\<close>

theorem load_and_priority_choices_are_best:
  assumes "\<not> ve_fails env LoadsGet" "\<forall>c. ro_inflight s c < 2 ^ 63 - 1"
    and "selectCandidateByLeastLoad env xs s = Some x" "selectCandidateByPriority env xs = Some p" "y \<in> set xs"
  shows "ro_inflight s (rc_id x) \<le> ro_inflight s (rc_id y) \<and> rc_Priority y \<le> rc_Priority p"
proof -
  let ?loads = "map (\<lambda>x. ro_inflight s (rc_id x)) xs"
  have ne: "?loads \<noteq> []" using assms(5) by auto
  have k: "least_loop ?loads 0 0 (2 ^ 63 - 1) < length xs"
    using least_loop_spec [of 0 0 ?loads "2 ^ 63 - 1"] ne by simp
  have x: "x = xs ! least_loop ?loads 0 0 (2 ^ 63 - 1)"
    using assms(1,3) ne by (simp add: selectCandidateByLeastLoad_def by_least_load_def split: if_splits)
  have "\<forall>l \<in> set ?loads. ?loads ! least_loop ?loads 0 0 (2 ^ 63 - 1) \<le> l"
    using ne assms(2) by (intro least_loop_min) auto
  then have "ro_inflight s (rc_id x) \<le> ro_inflight s (rc_id y)" using k assms(5) unfolding x by auto
  then show ?thesis
    using by_priority_group(2) [of rc_Priority rc_Weight env xs p y] assms(4,5)
    by (simp add: selectCandidateByPriority_def)
qed

theorem load_and_priority_choices_are_best_witness:
  "ro_inflight (fresh_router\<lparr>ro_inflight := (\<lambda>c. if c = 1 then 5 else 0)\<rparr>) 2 \<le>
   ro_inflight (fresh_router\<lparr>ro_inflight := (\<lambda>c. if c = 1 then 5 else 0)\<rparr>) 1"
proof -
  let ?xs = "routesToCandidates demo_env demo_db [(demo_route 1 1, None), (demo_route 2 3, None)]"
  let ?s = "fresh_router\<lparr>ro_inflight := (\<lambda>c. if c = 1 then 5 else 0)\<rparr>"
  have "selectCandidateByLeastLoad demo_env ?xs ?s = Some (?xs ! 1)" "selectCandidateByPriority demo_env ?xs = Some (?xs ! 0)"
      "?xs ! 0 \<in> set ?xs" "rc_id (?xs ! 1) = 2" "rc_id (?xs ! 0) = 1"
    by code_simp+
  then show ?thesis
    using load_and_priority_choices_are_best [of demo_env ?s ?xs "?xs ! 1" "?xs ! 0" "?xs ! 0"] by (simp add: demo_env_def)
qed

text \<open>C24: Once five results in a row of a channel have been recorded as failures that count for the
  breaker (network failures, answers of the 500s and unknown errors; not timeouts, cancellations or answers
  of the 400s), each within thirty seconds of the one before, with no success between and Redis up as they
  were recorded, no selection returns the channel for sixty seconds after the last of them, by whatever
  path and for whatever model, as long as Redis answers for the state of its breaker; whatever the results
  of other channels and the selections in between.\<close>

theorem failing_channel_is_isolated:
  assumes "failing_run c t n s" "5 \<le> n" "t \<le> ve_now env" "ve_now env \<le> t + 60" "\<not> ve_faults env c GetState" "rand_ok env"
    and "selectChannelWithCapability env db m i user excludes cap s = (Inr x, s')"
  shows "ch_ID (sr_Channel x) \<noteq> c"
  using streak_held [OF failing_run_kept [OF assms(1)] assms(2-5)] select_spec [OF assms(7,6)] by auto

definition demo_refused :: go_error where
  "demo_refused = \<lparr>ge_canceled = False, ge_deadline = False, ge_net = Some False, ge_text = ''connection refused''\<rparr>"

definition demo_fail :: "int \<Rightarrow> router_state \<Rightarrow> router_state" where
  "demo_fail t s = snd (RecordResultWithError (demo_env\<lparr>ve_now := t\<rparr>) 1 (Some demo_refused) 0 s)"

lemma demo_failing_run: "failing_run 1 94 5 (fold demo_fail [90, 91, 92, 93, 94] fresh_router)"
proof -
  have c: "ShouldCountForBreaker (ClassifyError (Some demo_refused) 0)" by code_simp
  have one: "failing_run 1 t 1 (demo_fail t s)" for t s
    using failing_run.first [OF c, of "demo_env\<lparr>ve_now := t\<rparr>" 1 s] by (simp add: demo_fail_def demo_env_def)
  have more: "failing_run 1 (t + 1) (Suc n) (demo_fail (t + 1) s)" if "failing_run 1 t n s" for t n s
    using failing_run.again [OF that c, of "demo_env\<lparr>ve_now := t + 1\<rparr>"] by (simp add: demo_fail_def demo_env_def)
  show ?thesis using more [OF more [OF more [OF more [OF one [of 90 fresh_router]]]]] by (simp add: eval_nat_numeral)
qed

theorem failing_channel_is_isolated_witness:
  "\<exists>x. fst (selectChannelWithCapability demo_env demo_db ''m'' None 7 [] ''chat''
       (fold demo_fail [90, 91, 92, 93, 94] fresh_router)) = Inr x \<and> ch_ID (sr_Channel x) \<noteq> 1"
proof -
  let ?s = "fold demo_fail [90, 91, 92, 93, 94] fresh_router"
  have sel: "fst (selectChannelWithCapability demo_env demo_db ''m'' None 7 [] ''chat'' ?s) =
      Inr \<lparr>sr_Channel = demo_channel 2 ''chat'', sr_ActualModel = ''v''\<rparr>"
    by code_simp
  obtain s' where r: "selectChannelWithCapability demo_env demo_db ''m'' None 7 [] ''chat'' ?s =
      (Inr \<lparr>sr_Channel = demo_channel 2 ''chat'', sr_ActualModel = ''v''\<rparr>, s')"
    by (metis sel prod.collapse)
  have "ch_ID (sr_Channel \<lparr>sr_Channel = demo_channel 2 ''chat'', sr_ActualModel = ''v''\<rparr>) \<noteq> 1"
    by (rule failing_channel_is_isolated [OF demo_failing_run _ _ _ _ demo_env_ok(1) r]) (simp_all add: demo_env_def)
  then show ?thesis using sel by blast
qed

text \<open>Without a status of the upstream, as every handler calls it, no error is ever put down to the
  upstream's answer; a success without status is unknown and counts against the breaker.\<close>

theorem errors_without_status_have_no_side:
  "ClassifyError err 0 \<notin> {ErrCatSuccess, ErrCatUpstream4xx, ErrCatUpstream5xx} \<and>
   ShouldCountForBreaker (ClassifyError None 0)"
  by (auto simp: ClassifyError_def classify_text_def ShouldCountForBreaker_def)

end
