(* ===== verification/Completion.thy ===== *)
theory Completion
  imports Routing_Laws Billing
begin

text \<open>
  A chat request from the freeze on, in \<open>internal/handler/v1/completions_handler.go\<close>: the freeze
  of \<open>ChatCompletions\<close> and its retry loop, over the state of the router and the state of the
  billing service, and the two estimates of the tokens of a request: the one the freeze is computed
  from and \<open>internal/pkg/tokenestimator\<close>, which replaces a usage that the upstream did not
  report. The answers of the upstream, the channel of the coding service and the environments of the
  router and of the two billing calls (the freeze, and the settlement or release that ends it) are
  parameters; the billing service, the commission calculator and the token limiter are there. Calls
  of the upstream, the billing calls that end the freeze with what they returned, and the starts of
  commissions and token counts are listed as events. The checks before the freeze, building the
  request for the provider, logs and the response are left out.
\<close>

section \<open>Estimates of tokens\<close>

text \<open>A text as Go iterates over it: code points, and bytes that are not valid UTF-8.\<close>

datatype rune = Rune nat | BadByte

type_synonym utext = "rune list"

fun multi_byte :: "rune \<Rightarrow> bool" where
  "multi_byte (Rune c) = (128 \<le> c)"
| "multi_byte BadByte = False"

fun one_byte :: "rune \<Rightarrow> bool" where
  "one_byte (Rune c) = (c < 128)"
| "one_byte BadByte = False"

definition SafetyMargin :: float64 where "SafetyMargin = lit (6 / 5)"

definition applyMargin :: "int64 \<Rightarrow> int64" where
  "applyMargin raw = (if raw \<le> 0 then 0 else f2i (fadd (fmul (i2f raw) SafetyMargin) (lit (1 / 2))))"

definition estimateText :: "utext \<Rightarrow> int64" where
  "estimateText s =
     (let multiByte = length (filter multi_byte s); asciiBytes = length (filter one_byte s);
          tokens = multiByte + asciiBytes div 4
      in if s = [] then 0
         else if tokens = 0 \<and> (multiByte > 0 \<or> asciiBytes > 0) then 1 else int tokens)"

record message =
  ms_Role :: utext
  ms_Content :: utext

fun prompt_loop :: "message list \<Rightarrow> int64 \<Rightarrow> int64" where
  "prompt_loop [] acc = acc"
| "prompt_loop (m # ms) acc = prompt_loop ms (acc + 4 + estimateText (ms_Role m) + estimateText (ms_Content m))"

definition EstimatePromptTokens :: "message list \<Rightarrow> int64" where
  "EstimatePromptTokens messages = (if messages = [] then 0 else applyMargin (prompt_loop messages 0 + 2))"

definition EstimateCompletionTokens :: "utext \<Rightarrow> int64" where
  "EstimateCompletionTokens content = (if content = [] then 0 else applyMargin (estimateText content))"

definition EstimateRawText :: "utext \<Rightarrow> int64" where
  "EstimateRawText text = applyMargin (estimateText text)"

definition estimateTextTokens :: "utext \<Rightarrow> int64" where
  "estimateTextTokens text =
     (let runes = int (length text); tokens = (runes + 3) div 4
      in if runes = 0 then 0 else if tokens < 1 then 1 else tokens)"

text \<open>The message sums of both estimates stay far below 2 to the 63 for any request that fits in
  memory and are plain integers; only the sum with the number the client sends can wrap.\<close>

definition usage_of :: "int64 \<Rightarrow> int64 \<Rightarrow> ProviderUsage" where
  "usage_of prompt out =
     \<lparr>pu_PromptTokens = prompt, pu_CompletionTokens = out, pu_TotalTokens = add64 prompt out,
      pu_CacheReadTokens = 0, pu_CacheWriteTokens = 0, pu_CacheWrite1hTokens = 0, pu_ReasoningTokens = 0\<rparr>"

fun role_content_loop :: "message list \<Rightarrow> int64 \<Rightarrow> int64" where
  "role_content_loop [] acc = acc"
| "role_content_loop (m # ms) acc =
     role_content_loop ms (acc + estimateTextTokens (ms_Role m) + estimateTextTokens (ms_Content m))"

definition estimateChatRequestUsage :: "message list \<Rightarrow> int64 \<Rightarrow> ProviderUsage" where
  "estimateChatRequestUsage messages maxTokens =
     usage_of (role_content_loop messages 0) (if maxTokens \<le> 0 then 1024 else maxTokens)"

definition estimateFIMRequestUsage :: "utext \<Rightarrow> utext \<Rightarrow> int64 \<Rightarrow> ProviderUsage" where
  "estimateFIMRequestUsage prompt suffix maxTokens =
     usage_of (estimateTextTokens prompt + estimateTextTokens suffix) (if maxTokens \<le> 0 then 512 else maxTokens)"

definition estimateUsageFromRequest :: "message list \<Rightarrow> int64 \<Rightarrow> ProviderUsage" where
  "estimateUsageFromRequest messages maxTokens =
     usage_of (EstimatePromptTokens messages) (if maxTokens \<le> 0 \<or> maxTokens > 4000 then 200 else maxTokens)"

section \<open>The request\<close>

text \<open>What the upstream answers: no connection, a finished call with its usage, or a stream that was
  broken off or ran to its end, with the usage seen and whether there was nothing but thinking.\<close>

datatype upstream =
  CallFailed go_error
| CallDone ProviderUsage
| StreamFailed go_error
| StreamBroken go_error "ProviderUsage option"
| StreamDone "ProviderUsage option" bool

datatype chat_event =
  Called nat string
| SettleCalled ProviderUsage "UsageOutcome option" "billing_error option"
| Commission int64
| RecordedTPM int64
| ReleaseCalled "billing_error option"

type_synonym chat_state = "router_state \<times> billing_state"

record chat_env =
  cx_select :: "nat \<Rightarrow> router_env"
  cx_record :: "nat \<Rightarrow> router_env"
  cx_answer :: "nat \<Rightarrow> Channel \<Rightarrow> string \<Rightarrow> upstream"
  cx_coding :: "Channel option"
  cx_freezing :: billing_env
  cx_ending :: billing_env

record chat_request =
  cq_model :: string
  cq_customChannelID :: "nat option"
  cq_userID :: nat
  cq_tenantID :: nat
  cq_requestID :: string
  cq_thinking :: bool
  cq_messages :: "message list"
  cq_maxTokens :: int64

definition maxRetries :: nat where "maxRetries = 3"

definition usage_request :: "chat_request \<Rightarrow> ProviderUsage \<Rightarrow> string \<Rightarrow> UsageRequest" where
  "usage_request req u freezeID =
     \<lparr>ur_RequestID = cq_requestID req, ur_UserID = cq_userID req, ur_TenantID = cq_tenantID req, ur_AgentLevel = 0,
      ur_ModelName = cq_model req, ur_Usage = u, ur_ThinkingMode = cq_thinking req, ur_FreezeID = freezeID,
      ur_DimValues = []\<rparr>"

section \<open>Settling and releasing\<close>

text \<open>The cost that comes back is the computed one, also when charging it has failed.\<close>

definition calculateAndDeductCostWithErr ::
  "chat_env \<Rightarrow> chat_request \<Rightarrow> string \<Rightarrow> ProviderUsage \<Rightarrow> billing_state \<Rightarrow> int64 \<times> chat_event \<times> billing_state" where
  "calculateAndDeductCostWithErr cx req freezeID u b =
     (let ((out, err), b') = SettleUsage (cx_ending cx) (usage_request req u freezeID) b
      in (case out of None \<Rightarrow> 0 | Some o1 \<Rightarrow> uo_CostCredits o1, SettleCalled u out err, b'))"

text \<open>A usage: the settlement, the commission on a positive cost, the tokens of the minute.\<close>

definition settle_usage ::
  "chat_env \<Rightarrow> chat_request \<Rightarrow> string \<Rightarrow> ProviderUsage \<Rightarrow> chat_state \<Rightarrow> chat_event list \<times> chat_state" where
  "settle_usage cx req freezeID u s =
     (let (cost, ev, b) = calculateAndDeductCostWithErr cx req freezeID u (snd s)
      in (ev # (if cost > 0 then [Commission cost] else []) @
            (if pu_TotalTokens u > 0 then [RecordedTPM (pu_TotalTokens u)] else []),
          (fst s, b)))"

text \<open>An error of the release is logged and dropped.\<close>

definition releaseBillingFreeze :: "chat_env \<Rightarrow> string \<Rightarrow> chat_state \<Rightarrow> chat_event list \<times> chat_state" where
  "releaseBillingFreeze cx freezeID s =
     (if freezeID = '''' then ([], s)
      else case billing_ReleaseFrozen (cx_ending cx) freezeID (snd s) of
        (Inl e, b) \<Rightarrow> ([ReleaseCalled (Some e)], (fst s, b))
      | (Inr _, b) \<Rightarrow> ([ReleaseCalled None], (fst s, b)))"

text \<open>A stream that was broken off is charged when its usage had been seen.\<close>

definition end_broken_stream ::
  "chat_env \<Rightarrow> chat_request \<Rightarrow> string \<Rightarrow> ProviderUsage option \<Rightarrow> chat_state \<Rightarrow> chat_event list \<times> chat_state" where
  "end_broken_stream cx req freezeID usage s =
     (case usage of
        Some u \<Rightarrow> if pu_TotalTokens u > 0 then settle_usage cx req freezeID u s else releaseBillingFreeze cx freezeID s
      | None \<Rightarrow> releaseBillingFreeze cx freezeID s)"

text \<open>A stream that ended without a usage is charged an estimate, unless it was nothing but thinking.\<close>

definition end_stream ::
  "chat_env \<Rightarrow> chat_request \<Rightarrow> string \<Rightarrow> ProviderUsage option \<Rightarrow> bool \<Rightarrow> chat_state \<Rightarrow> chat_event list \<times> chat_state" where
  "end_stream cx req freezeID usage thinkingOnly s =
     (case usage of
        Some u \<Rightarrow> settle_usage cx req freezeID u s
      | None \<Rightarrow>
          if thinkingOnly then releaseBillingFreeze cx freezeID s
          else settle_usage cx req freezeID (estimateUsageFromRequest (cq_messages req) (cq_maxTokens req)) s)"

section \<open>The retry loop\<close>

text \<open>The channel of an attempt; the coding service is asked in the first attempt only.\<close>

definition choose_channel ::
  "chat_env \<Rightarrow> routing_db \<Rightarrow> chat_request \<Rightarrow> nat \<Rightarrow> nat list \<Rightarrow> router_state \<Rightarrow> (Channel \<times> string) option \<times> router_state" where
  "choose_channel cx db req k excludes s =
     (case SelectChannelWithExcludes (cx_select cx k) db (cq_model req) (cq_customChannelID req) (cq_userID req) excludes s of
        (Inr r, s1) \<Rightarrow>
          (Some (sr_Channel r, if sr_ActualModel r \<noteq> [] then sr_ActualModel r else cq_model req), s1)
      | (Inl e, s1) \<Rightarrow>
          (if k = 0 then map_option (\<lambda>ch. (ch, cq_model req)) (cx_coding cx) else None, s1))"

definition record_error :: "chat_env \<Rightarrow> nat \<Rightarrow> nat \<Rightarrow> go_error \<Rightarrow> router_state \<Rightarrow> router_state" where
  "record_error cx k c e s = snd (RecordResultWithError (cx_record cx k) c (Some e) 0 s)"

definition record_success :: "chat_env \<Rightarrow> nat \<Rightarrow> nat \<Rightarrow> router_state \<Rightarrow> router_state" where
  "record_success cx k c s = RecordResult (cx_record cx k) c True s"

text \<open>\<open>left\<close> attempts remain; when none is left, or no channel is found, the freeze is released. The
  result is the status of the response (a stream that has begun has answered 200), the events and the
  states of the router and of the billing service.\<close>

fun chat_loop ::
  "chat_env \<Rightarrow> routing_db \<Rightarrow> chat_request \<Rightarrow> string \<Rightarrow> nat \<Rightarrow> nat \<Rightarrow> nat list \<Rightarrow> chat_state \<Rightarrow>
     nat \<times> chat_event list \<times> chat_state" where
  "chat_loop cx db req freezeID 0 k excludes s =
     (let (evs, s') = releaseBillingFreeze cx freezeID s in (502, evs, s'))"
| "chat_loop cx db req freezeID (Suc left) k excludes s =
     (case choose_channel cx db req k excludes (fst s) of
        (None, r1) \<Rightarrow> (let (evs, s') = releaseBillingFreeze cx freezeID (r1, snd s) in (502, evs, s'))
      | (Some (ch, m), r1) \<Rightarrow>
          (let c = ch_ID ch
           in case cx_answer cx k ch m of
                CallFailed e \<Rightarrow>
                  (let (st, evs, s2) = chat_loop cx db req freezeID left (Suc k) (excludes @ [c]) (record_error cx k c e r1, snd s)
                   in (st, Called c m # evs, s2))
              | StreamFailed e \<Rightarrow>
                  (let (st, evs, s2) = chat_loop cx db req freezeID left (Suc k) (excludes @ [c]) (record_error cx k c e r1, snd s)
                   in (st, Called c m # evs, s2))
              | StreamBroken e usage \<Rightarrow>
                  (let (evs, s2) = end_broken_stream cx req freezeID usage (record_error cx k c e r1, snd s)
                   in (200, Called c m # evs, s2))
              | StreamDone usage thinkingOnly \<Rightarrow>
                  (let (evs, s2) = end_stream cx req freezeID usage thinkingOnly (record_success cx k c r1, snd s)
                   in (200, Called c m # evs, s2))
              | CallDone u \<Rightarrow>
                  (let (evs, s2) = settle_usage cx req freezeID u (record_success cx k c r1, snd s)
                   in (200, Called c m # evs, s2))))"

text \<open>The freeze comes first; without it the request is answered with 402.\<close>

definition freeze_request :: "chat_request \<Rightarrow> UsageRequest" where
  "freeze_request req = usage_request req (estimateChatRequestUsage (cq_messages req) (cq_maxTokens req)) ''''"

definition ChatCompletions ::
  "chat_env \<Rightarrow> routing_db \<Rightarrow> chat_request \<Rightarrow> chat_state \<Rightarrow> nat \<times> chat_event list \<times> chat_state" where
  "ChatCompletions cx db req s =
     (case FreezeUsage (cx_freezing cx) (freeze_request req) (snd s) of
        ((_, Some e), b) \<Rightarrow> (402, [], (fst s, b))
      | ((freeze, None), b) \<Rightarrow>
          chat_loop cx db req (case freeze of None \<Rightarrow> '''' | Some f \<Rightarrow> fo_FreezeID f) maxRetries 0 [] (fst s, b))"

end
