(* ===== verification/Completion_Laws.thy ===== *)
theory Completion_Laws
  imports Completion Billing_Laws
begin

text \<open>
  What a chat request keeps: its freeze is ended by one settlement or one release, and if it still
  stands after that, the ledger call has failed and nothing was booked; it calls the upstream at most
  three times, on different channels unless a channel group steps in, and leaves no call in flight
  behind. The estimator never counts fewer tokens of a prompt than the freeze did.
\<close>

section \<open>Events\<close>

fun ends_freeze :: "chat_event \<Rightarrow> bool" where
  "ends_freeze (SettleCalled u out err) = True"
| "ends_freeze (ReleaseCalled err) = True"
| "ends_freeze _ = False"

fun called :: "chat_event list \<Rightarrow> nat list" where
  "called [] = []"
| "called (Called c m # es) = c # called es"
| "called (_ # es) = called es"

text \<open>The ways a request ends: it settles a usage, or it releases the freeze.\<close>

definition ending :: "chat_env \<Rightarrow> chat_request \<Rightarrow> string \<Rightarrow> chat_state \<Rightarrow> chat_event list \<Rightarrow> chat_state \<Rightarrow> bool" where
  "ending cx req F s evs s' \<longleftrightarrow>
     (\<exists>u. settle_usage cx req F u s = (evs, s')) \<or> releaseBillingFreeze cx F s = (evs, s')"

lemma end_broken_stream_ending: "end_broken_stream cx req F us s = (evs, s') \<Longrightarrow> ending cx req F s evs s'"
  by (auto simp: ending_def end_broken_stream_def split: option.splits if_splits)

lemma end_stream_ending: "end_stream cx req F us th s = (evs, s') \<Longrightarrow> ending cx req F s evs s'"
  by (auto simp: ending_def end_stream_def split: option.splits if_splits)

lemma ending_events:
  assumes "ending cx req F s evs s'"
  shows "fst s' = fst s" "called evs = []" "F \<noteq> '''' \<Longrightarrow> length (filter ends_freeze evs) = 1"
proof -
  have "fst s' = fst s \<and> called evs = [] \<and> (F \<noteq> '''' \<longrightarrow> length (filter ends_freeze evs) = 1)"
    using assms
    by (auto simp: ending_def settle_usage_def calculateAndDeductCostWithErr_def releaseBillingFreeze_def Let_def
        split: prod.splits sum.splits if_splits)
  then show "fst s' = fst s" "called evs = []" "F \<noteq> '''' \<Longrightarrow> length (filter ends_freeze evs) = 1" by auto
qed

text \<open>The shape of one turn: give up, finish, or fail and go on.\<close>

lemma chat_loop_cases:
  assumes "chat_loop cx db req F left k ex s = (st, evs, s')"
  obtains (gave_up) r1 where "ending cx req F (r1, snd s) evs s'"
      "left = 0 \<and> r1 = fst s \<or> (\<exists>l. left = Suc l \<and> choose_channel cx db req k ex (fst s) = (None, r1))"
  | (finished) l ch m r1 r2 es where "left = Suc l" "choose_channel cx db req k ex (fst s) = (Some (ch, m), r1)"
      "evs = Called (ch_ID ch) m # es" "ending cx req F (r2, snd s) es s'"
      "(\<exists>e. r2 = record_error cx k (ch_ID ch) e r1) \<or> r2 = record_success cx k (ch_ID ch) r1"
  | (went_on) l ch m r1 e es where "left = Suc l" "choose_channel cx db req k ex (fst s) = (Some (ch, m), r1)"
      "evs = Called (ch_ID ch) m # es"
      "chat_loop cx db req F l (Suc k) (ex @ [ch_ID ch]) (record_error cx k (ch_ID ch) e r1, snd s) = (st, es, s')"
proof (cases left)
  case 0
  obtain es t where r: "releaseBillingFreeze cx F s = (es, t)" by (cases "releaseBillingFreeze cx F s")
  then show ?thesis using assms 0 by (intro gave_up [of "fst s"]) (auto simp: ending_def)
next
  case (Suc l)
  obtain o' r1 where c: "choose_channel cx db req k ex (fst s) = (o', r1)" by fastforce
  show ?thesis
  proof (cases o')
    case None
    obtain es t where r: "releaseBillingFreeze cx F (r1, snd s) = (es, t)" by (cases "releaseBillingFreeze cx F (r1, snd s)")
    then show ?thesis using assms Suc c None by (intro gave_up [of r1]) (auto simp: ending_def)
  next
    case (Some p)
    obtain ch m where p: "p = (ch, m)" by fastforce
    note c' = c [unfolded Some p]
    let ?err = "\<lambda>e. record_error cx k (ch_ID ch) e r1" and ?ok = "record_success cx k (ch_ID ch) r1"
    show ?thesis
    proof (cases "cx_answer cx k ch m")
      case (CallFailed e)
      obtain st' es s2 where r: "chat_loop cx db req F l (Suc k) (ex @ [ch_ID ch]) (?err e, snd s) = (st', es, s2)"
        using prod_cases3 by blast
      then show ?thesis using assms Suc c' CallFailed by (intro went_on [OF Suc c', of es e]) simp_all
    next
      case (StreamFailed e)
      obtain st' es s2 where r: "chat_loop cx db req F l (Suc k) (ex @ [ch_ID ch]) (?err e, snd s) = (st', es, s2)"
        using prod_cases3 by blast
      then show ?thesis using assms Suc c' StreamFailed by (intro went_on [OF Suc c', of es e]) simp_all
    next
      case (CallDone u)
      obtain es s2 where r: "settle_usage cx req F u (?ok, snd s) = (es, s2)" by (cases "settle_usage cx req F u (?ok, snd s)")
      then have "ending cx req F (?ok, snd s) es s2" unfolding ending_def by blast
      then show ?thesis using assms Suc c' CallDone r by (intro finished [OF Suc c', of es ?ok]) simp_all
    next
      case (StreamBroken e us)
      obtain es s2 where r: "end_broken_stream cx req F us (?err e, snd s) = (es, s2)" by (cases "end_broken_stream cx req F us (?err e, snd s)")
      then show ?thesis using assms Suc c' StreamBroken end_broken_stream_ending [OF r]
        by (intro finished [OF Suc c', of es "?err e"]) auto
    next
      case (StreamDone us th)
      obtain es s2 where r: "end_stream cx req F us th (?ok, snd s) = (es, s2)" by (cases "end_stream cx req F us th (?ok, snd s)")
      then show ?thesis using assms Suc c' StreamDone end_stream_ending [OF r]
        by (intro finished [OF Suc c', of es ?ok]) simp_all
    qed
  qed
qed

lemma chat_loop_ends:
  "chat_loop cx db req F left k ex s = (st, evs, s') \<Longrightarrow>
     \<exists>r es. ending cx req F (r, snd s) es s' \<and> filter ends_freeze evs = filter ends_freeze es \<and> length (called evs) \<le> left"
proof (induction left arbitrary: k ex s st evs s')
  case 0
  from 0 have e: "releaseBillingFreeze cx F s = (evs, s')" by (auto split: prod.splits)
  then have "ending cx req F (fst s, snd s) evs s'" by (simp add: ending_def)
  then show ?case using ending_events(2) by fastforce
next
  case (Suc left)
  from Suc.prems show ?case
  proof (cases rule: chat_loop_cases)
    case (gave_up r1)
    then show ?thesis using ending_events(2) by fastforce
  next
    case (finished l ch m r1 r2 es)
    then show ?thesis using ending_events(2) by fastforce
  next
    case (went_on l ch m r1 e es)
    then show ?thesis using Suc.IH [of "Suc k" "ex @ [ch_ID ch]" "(record_error cx k (ch_ID ch) e r1, snd s)" st es s'] by fastforce
  qed
qed

section \<open>The ledger at the end\<close>

text \<open>The contract of \<open>SettleBalanceUnits\<close>, which the settlement calls and the repository does not
  define: it ends the freeze it is given, or fails and books nothing.\<close>

definition settles_freezes :: "(string \<Rightarrow> int64 \<Rightarrow> unit ledger_act) \<Rightarrow> bool" where
  "settles_freezes settle \<longleftrightarrow>
     (\<forall>F n l x l'. F \<noteq> '''' \<longrightarrow> settle F n l = (x, l') \<longrightarrow>
        (case x of Inl e \<Rightarrow> l' = l | Inr _ \<Rightarrow> find_frozen F l' = None))"

lemma updated_freeze:
  assumes "\<And>f. fr_Status (upd f) \<noteq> FROZEN"
  shows "find_frozen F (l\<lparr>lg_freezes := map (\<lambda>x. if fr_FreezeID x = F then upd x else x) fs\<rparr>) = None"
  using assms by (auto simp: find_frozen_def first_where_None)

lemma find_frozen_freezes: "lg_freezes l' = lg_freezes l \<Longrightarrow> find_frozen F l' = find_frozen F l"
  by (simp add: find_frozen_def)

lemma ReleaseFrozen_ends:
  assumes "ReleaseFrozen env F l = (x, l')" "F \<noteq> ''''"
  shows "case x of Inl e \<Rightarrow> l' = l | Inr _ \<Rightarrow> find_frozen F l' = None"
proof (cases x)
  case (Inl e)
  then show ?thesis using ReleaseFrozen_err assms(1) by fastforce
next
  case (Inr u)
  show ?thesis
  proof (cases "find_frozen F l")
    case None
    then show ?thesis using assms Inr by (auto simp: ReleaseFrozen_def ret_def fail_def split: if_splits)
  next
    case (Some fr)
    obtain fs where "lg_freezes l' = map (\<lambda>x. if fr_FreezeID x = F then x\<lparr>fr_Status := RELEASED\<rparr> else x) fs"
      using assms Inr Some by (auto simp: ReleaseFrozen_def act_ok Let_def split: if_splits)
    then have "find_frozen F l' = find_frozen F (l\<lparr>lg_freezes := map (\<lambda>x. if fr_FreezeID x = F then x\<lparr>fr_Status := RELEASED\<rparr> else x) fs\<rparr>)"
      by (intro find_frozen_freezes) simp
    then show ?thesis using Inr updated_freeze [of "\<lambda>x. x\<lparr>fr_Status := RELEASED\<rparr>" F fs l] by simp
  qed
qed

text \<open>\<open>SettleBalance\<close>, the settlement in credits that the repository does have, meets the contract.\<close>

lemma SettleBalance_err: "SettleBalance env F n l = (Inl e, l') \<Longrightarrow> l' = l"
  by (auto simp: SettleBalance_def andThen_def ret_def fail_def InvalidateCache_def modify_def after_consumption_def
      dest: transaction_error_rolls_back split: if_splits prod.splits sum.splits option.splits)

lemma after_consumption_freezes:
  assumes "after_consumption env u l = (r, l')"
  shows "lg_freezes l' = lg_freezes l"
proof (cases "lg_balances l u")
  case None
  obtain as where u: "TryUnlockAttribution env u l = l\<lparr>lg_attributions := as\<rparr>" using unlock_effect by blast
  have g: "TryGrantInviteeBonus env u (l\<lparr>lg_attributions := as\<rparr>) = l\<lparr>lg_attributions := as\<rparr>"
    using None by (simp add: TryGrantInviteeBonus_def query_balance_def split: option.split)
  have "l' = TryGrantInviteeBonus env u (TryUnlockAttribution env u l)"
    using assms by (simp add: after_consumption_def modify_def)
  then show ?thesis by (simp add: u g)
next
  case (Some row)
  show ?thesis by (rule after_consumption_effect [OF Some assms]) simp
qed

lemma SettleBalance_ends:
  assumes "SettleBalance env F n l = (Inr x, l')" "F \<noteq> ''''"
  shows "find_frozen F l' = None"
proof -
  let ?upd = "\<lambda>f. f\<lparr>fr_Status := SETTLED, fr_ActualCost := n, fr_ActualCostRMB := CreditsToRMB n\<rparr>"
  obtain fr where fr: "find_frozen F l = Some fr"
    using assms by (cases "find_frozen F l") (auto simp: SettleBalance_def fail_def split: if_splits)
  have "lg_freezes l' = map (\<lambda>x. if fr_FreezeID x = F then ?upd x else x) (lg_freezes l)"
    using assms fr
    by (auto simp: SettleBalance_def act_ok Let_def dest!: after_consumption_freezes split: if_splits)
  then have "find_frozen F l' = find_frozen F (l\<lparr>lg_freezes := map (\<lambda>x. if fr_FreezeID x = F then ?upd x else x) (lg_freezes l)\<rparr>)"
    by (intro find_frozen_freezes) simp
  also have "\<dots> = None" by (rule updated_freeze) simp
  finally show ?thesis .
qed

lemma settle_standin: "settles_freezes (SettleBalance env)"
  unfolding settles_freezes_def using SettleBalance_err SettleBalance_ends by (fastforce split: sum.split)

text \<open>What a call that ends a freeze comes to, given the answer of the settlement (none for a release): the
  freeze is over, or the ledger is untouched. In the second case the release was refused, or the charge was,
  and the outcome of the settlement says so.\<close>

definition charge_refused :: "billing_env \<Rightarrow> string \<Rightarrow> ledger \<Rightarrow> UsageOutcome option \<times> billing_error option \<Rightarrow> bool" where
  "charge_refused env F l x \<longleftrightarrow>
     (\<exists>out e. x = (Some out, Some (LedgerError e)) \<and> uo_ActualCostUnits out = 0 \<and>
        fst (be_settle env F (uo_CostUnits out) l) = Inl e)"

definition ended ::
  "billing_env \<Rightarrow> string \<Rightarrow> UsageOutcome option \<times> billing_error option \<Rightarrow> ledger \<Rightarrow> ledger \<Rightarrow> bool" where
  "ended env F x l l' \<longleftrightarrow> find_frozen F l' = None \<or>
     l' = l \<and> (isl (fst (ReleaseFrozen (be_ledger env) F l)) \<or> charge_refused env F l x)"

lemma billing_release_ended:
  assumes "billing_ReleaseFrozen env F b = (y, b')" "be_wallet env" "F \<noteq> ''''"
  shows "ended env F x (bs_ledger b) (bs_ledger b')"
proof -
  obtain z l where r: "ReleaseFrozen (be_ledger env) F (bs_ledger b) = (z, l)" by fastforce
  have "bs_ledger b' = l" using assms r by (auto simp: billing_ReleaseFrozen_def in_ledger_def split: sum.splits)
  then show ?thesis
    using ReleaseFrozen_ends [OF r assms(3)] r by (cases z) (auto simp: ended_def)
qed

lemma release_if_ended:
  assumes "be_wallet env" "F \<noteq> ''''"
  shows "ended env F x (bs_ledger b) (bs_ledger (release_if env F b))"
  using billing_release_ended [OF _ assms] assms(2) by (simp add: release_if_def) (metis prod.collapse)

lemma settle_priced_ended:
  assumes "settle_priced env req m cr0 b = (x, b')" "be_wallet env" "ur_FreezeID req \<noteq> ''''" "settles_freezes (be_settle env)"
  shows "ended env (ur_FreezeID req) x (bs_ledger b) (bs_ledger b')"
proof -
  let ?F = "ur_FreezeID req"
  obtain a p cr where t: "thinking_cost env (ur_ThinkingMode req) m cr0 (pu_CompletionTokens (ur_Usage req)) = (a, p, cr)"
    by (metis prod_cases3)
  obtain y l where r: "be_settle env ?F (cr_TotalCostUnits cr) (bs_ledger b) = (y, l)" by fastforce
  have c: "case y of Inl e \<Rightarrow> l = bs_ledger b | Inr _ \<Rightarrow> find_frozen ?F l = None"
    using assms(3,4) r unfolding settles_freezes_def by blast
  show ?thesis
  proof (cases y)
    case (Inl e)
    then have "bs_ledger b' = bs_ledger b" "charge_refused env ?F (bs_ledger b) x"
      using assms(1-3) t r c
      by (auto simp: settle_priced_def conclude_def collect_def in_ledger_def charge_refused_def with_snapshot_def
          failed_outcome_def priced_outcome_def)
    then show ?thesis by (simp add: ended_def)
  next
    case (Inr u)
    then have "bs_ledger b' = l"
      using assms(1-3) t r by (auto simp: settle_priced_def conclude_def collect_def in_ledger_def)
    then show ?thesis using Inr c by (simp add: ended_def)
  qed
qed

lemma SettleUsage_ended:
  assumes "SettleUsage env req b = (x, b')" "be_pricer env" "be_wallet env" "ur_FreezeID req \<noteq> ''''" "settles_freezes (be_settle env)"
  shows "ended env (ur_FreezeID req) x (bs_ledger b) (bs_ledger b')"
proof -
  obtain lm b1 where l: "loadBillableModel env (ur_ModelName req) b = (lm, b1)" by fastforce
  have b1: "bs_ledger b1 = bs_ledger b" using loadBillableModel_ledger(1) [OF l] .
  note rel = release_if_ended [OF assms(3,4)]
  show ?thesis
  proof (cases lm)
    case (Inl e)
    then show ?thesis using assms(1,2) l rel [of x b1] b1 by (auto simp: SettleUsage_def)
  next
    case (Inr m)
    obtain c b2 where c: "calculateCost env req m b1 = (c, b2)" by fastforce
    have b2: "bs_ledger b2 = bs_ledger b" using calculateCost_ledger [OF c] b1 by simp
    show ?thesis
    proof (cases c)
      case (Inl e)
      then show ?thesis using assms(1,2) l Inr c rel [of x b2] b2 by (auto simp: SettleUsage_def)
    next
      case cr: (Inr cr)
      have "settle_priced env req m cr b2 = (x, b')" using assms(1,2) l Inr c cr by (simp add: SettleUsage_def)
      from settle_priced_ended [OF this assms(3-5)] show ?thesis using b2 by simp
    qed
  qed
qed

lemma ending_ended:
  assumes "ending cx req F s evs s'" "be_pricer (cx_ending cx)" "be_wallet (cx_ending cx)" "settles_freezes (be_settle (cx_ending cx))"
    and "F \<noteq> ''''"
  shows "\<exists>x. ended (cx_ending cx) F x (bs_ledger (snd s)) (bs_ledger (snd s')) \<and>
    (x = (None, None) \<or> (\<exists>u. SettleCalled u (fst x) (snd x) \<in> set (filter ends_freeze evs)))"
proof -
  have fz: "ur_FreezeID (usage_request req u F) = F" for u by (simp add: usage_request_def)
  consider u where "settle_usage cx req F u s = (evs, s')" | "releaseBillingFreeze cx F s = (evs, s')"
    using assms(1) unfolding ending_def by blast
  then show ?thesis
  proof cases
    case (1 u)
    obtain x b where b: "SettleUsage (cx_ending cx) (usage_request req u F) (snd s) = (x, b)" by fastforce
    have "snd s' = b" "SettleCalled u (fst x) (snd x) \<in> set (filter ends_freeze evs)"
      using 1 b by (auto simp: settle_usage_def calculateAndDeductCostWithErr_def split: prod.splits)
    then show ?thesis using SettleUsage_ended [OF b assms(2,3) _ assms(4)] assms(5) unfolding fz by blast
  next
    case 2
    obtain x b where b: "billing_ReleaseFrozen (cx_ending cx) F (snd s) = (x, b)" by fastforce
    have "snd s' = b" using 2 b assms(5) by (auto simp: releaseBillingFreeze_def split: sum.splits)
    then show ?thesis using billing_release_ended [OF b assms(3,5)] by blast
  qed
qed

section \<open>Channels\<close>

definition no_group :: "chat_env \<Rightarrow> routing_db \<Rightarrow> chat_request \<Rightarrow> bool" where
  "no_group cx db req \<longleftrightarrow>
     (\<forall>k. rand_ok (cx_select cx k) \<and> findMatchingGroups (cx_select cx k) db (cq_model req) \<in> {None, Some []})"

lemma choose_channel_fresh:
  assumes "no_group cx db req" "cx_coding cx = None" "choose_channel cx db req k ex s = (Some (ch, m), s1)"
  shows "ch_ID ch \<notin> set ex"
proof -
  obtain r where r: "selectChannelWithCapability (cx_select cx k) db (cq_model req) (cq_customChannelID req) (cq_userID req) ex [] s = (Inr r, s1)"
      "ch = sr_Channel r"
    using assms(2,3) by (auto simp: choose_channel_def SelectChannelWithExcludes_def split: prod.splits sum.splits if_splits)
  have ok: "rand_ok (cx_select cx k)" "findMatchingGroups (cx_select cx k) db (cq_model req) \<in> {None, Some []}"
    using assms(1) by (auto simp: no_group_def)
  then have "fst (fallbackToChannelGroup (cx_select cx k) db (cq_model req) t) = Inl (NoGroupFor (cq_model req))" for t
    by (auto simp: fallbackToChannelGroup_def)
  then show ?thesis using select_spec [OF r(1) ok(1)] r(2) by auto
qed

lemma chat_loop_distinct:
  "no_group cx db req \<Longrightarrow> cx_coding cx = None \<Longrightarrow> chat_loop cx db req F left k ex s = (st, evs, s') \<Longrightarrow>
     distinct (called evs) \<and> set (called evs) \<inter> set ex = {}"
proof (induction left arbitrary: k ex s st evs s')
  case 0
  from 0(3) show ?case by (cases rule: chat_loop_cases) (auto dest: ending_events(2))
next
  case (Suc left)
  from Suc.prems(3) show ?case
  proof (cases rule: chat_loop_cases)
    case (gave_up r1)
    then show ?thesis using ending_events(2) by fastforce
  next
    case (finished l ch m r1 r2 es)
    then show ?thesis using choose_channel_fresh [OF Suc.prems(1,2) finished(2)] ending_events(2) by fastforce
  next
    case (went_on l ch m r1 e es)
    then show ?thesis
      using choose_channel_fresh [OF Suc.prems(1,2) went_on(2)]
        Suc.IH [OF Suc.prems(1,2), of "Suc k" "ex @ [ch_ID ch]" "(record_error cx k (ch_ID ch) e r1, snd s)" st es s']
      by auto
  qed
qed

section \<open>Load\<close>

definition calm_router :: "chat_env \<Rightarrow> bool" where
  "calm_router cx \<longleftrightarrow> (\<forall>k. quiet (cx_select cx k) \<and> quiet (cx_record cx k)) \<and> cx_coding cx = None"

lemma add64_back: "in64 x \<Longrightarrow> add64 (add64 x 1) (- 1) = x"
  by (simp add: add64_def)

lemma choose_channel_inflight:
  assumes "calm_router cx" "choose_channel cx db req k ex s = (r, s1)"
  shows "ro_inflight s1 = (case r of None \<Rightarrow> ro_inflight s
    | Some (ch, m) \<Rightarrow> (ro_inflight s)(ch_ID ch := add64 (ro_inflight s (ch_ID ch)) 1))"
proof -
  have q: "quiet (cx_select cx k)" "cx_coding cx = None" using assms(1) by (auto simp: calm_router_def)
  then have ok: "rand_ok (cx_select cx k)" by (simp add: quiet_def)
  obtain a t where a: "selectChannelWithCapability (cx_select cx k) db (cq_model req) (cq_customChannelID req) (cq_userID req) ex [] s = (a, t)"
    by fastforce
  note sp = select_spec [OF a ok]
  show ?thesis
  proof (cases a)
    case (Inl e)
    then have "frame (cx_select cx k) s t"
      using sp select_lacks_nothing [OF a [unfolded Inl]] by (cases e) auto
    moreover have "r = None" "s1 = t"
      using assms(2) a Inl q(2) by (auto simp: choose_channel_def SelectChannelWithExcludes_def)
    ultimately show ?thesis by (simp add: frame_def)
  next
    case (Inr x)
    then have "one_more (cx_select cx k) (ch_ID (sr_Channel x)) s t" using sp by simp
    moreover have "r = Some (sr_Channel x, if sr_ActualModel x \<noteq> [] then sr_ActualModel x else cq_model req)" "s1 = t"
      using assms(2) a Inr by (auto simp: choose_channel_def SelectChannelWithExcludes_def)
    ultimately show ?thesis using inflight_one_more [OF q(1)] by simp
  qed
qed

lemma record_inflight:
  assumes "calm_router cx"
  shows "ro_inflight (record_error cx k c e s) = (ro_inflight s)(c := add64 (ro_inflight s c) (- 1))"
    and "ro_inflight (record_success cx k c s) = (ro_inflight s)(c := add64 (ro_inflight s c) (- 1))"
  using assms unfolding calm_router_def record_error_def record_success_def by (blast intro: inflight_result)+

lemma turn_inflight:
  assumes "calm_router cx" "\<forall>c. in64 (ro_inflight s c)" "choose_channel cx db req k ex s = (Some (ch, m), s1)"
    and "(\<exists>e. s' = record_error cx k (ch_ID ch) e s1) \<or> s' = record_success cx k (ch_ID ch) s1"
  shows "ro_inflight s' = ro_inflight s"
proof -
  have "ro_inflight s' = (ro_inflight s1)(ch_ID ch := add64 (ro_inflight s1 (ch_ID ch)) (- 1))"
    using assms(4) record_inflight [OF assms(1)] by auto
  then show ?thesis
    using choose_channel_inflight [OF assms(1,3)] assms(2) by (auto simp: add64_back)
qed

lemma chat_loop_inflight:
  "calm_router cx \<Longrightarrow> \<forall>c. in64 (ro_inflight (fst s) c) \<Longrightarrow> chat_loop cx db req F left k ex s = (st, evs, s') \<Longrightarrow>
     ro_inflight (fst s') = ro_inflight (fst s)"
proof (induction left arbitrary: k ex s st evs s')
  case 0
  from 0(3) show ?case by (cases rule: chat_loop_cases) (auto dest: ending_events(1))
next
  case (Suc left)
  from Suc.prems(3) show ?case
  proof (cases rule: chat_loop_cases)
    case (gave_up r1)
    have "ro_inflight r1 = ro_inflight (fst s)"
      using gave_up(2) choose_channel_inflight [OF Suc.prems(1)] by fastforce
    then show ?thesis using ending_events(1) [OF gave_up(1)] by simp
  next
    case (finished l ch m r1 r2 es)
    then show ?thesis using turn_inflight [OF Suc.prems(1,2) finished(2,5)] ending_events(1) [OF finished(4)] by simp
  next
    case (went_on l ch m r1 e es)
    let ?t = "(record_error cx k (ch_ID ch) e r1, snd s)"
    have t: "ro_inflight (fst ?t) = ro_inflight (fst s)" using turn_inflight [OF Suc.prems(1,2) went_on(2)] by auto
    then have "ro_inflight (fst s') = ro_inflight (fst ?t)"
      using went_on(1,4) Suc.prems(1,2) by (intro Suc.IH [of ?t "Suc k" "ex @ [ch_ID ch]" st es s']) simp_all
    then show ?thesis using t by simp
  qed
qed

text \<open>What the whole request does, from the freeze on.\<close>

lemma ChatCompletions_loop:
  obtains (refused) e b f where "FreezeUsage (cx_freezing cx) (freeze_request req) (snd s) = ((f, Some e), b)"
      "ChatCompletions cx db req s = (402, [], (fst s, b))"
  | (frozen) f b where "FreezeUsage (cx_freezing cx) (freeze_request req) (snd s) = ((f, None), b)"
      "ChatCompletions cx db req s =
        chat_loop cx db req (case f of None \<Rightarrow> '''' | Some x \<Rightarrow> fo_FreezeID x) maxRetries 0 [] (fst s, b)"
proof -
  obtain f e b where "FreezeUsage (cx_freezing cx) (freeze_request req) (snd s) = ((f, e), b)" by (metis prod.collapse)
  then show ?thesis using refused [of f _ b] frozen [of f b] by (cases e) (simp_all add: ChatCompletions_def)
qed

section \<open>Estimates\<close>

lemma margin_bounds: "1 \<le> SafetyMargin" "SafetyMargin \<le> 2"
proof -
  have "rnd 1 \<le> rnd (6 / 5)" "rnd (6 / 5) \<le> rnd 2" by (rule rnd_mono; simp)+
  then show "1 \<le> SafetyMargin" "SafetyMargin \<le> 2"
    using rnd_of_int [of 1] rnd_of_int [of 2] by (simp_all add: SafetyMargin_def lit_def)
qed

lemma applyMargin_ge:
  assumes "0 \<le> raw" "raw \<le> 2 ^ 50"
  shows "raw \<le> applyMargin raw"
proof (cases "raw = 0")
  case False
  have r: "i2f raw = of_int raw" using assms by (intro i2f_exact) simp
  let ?x = "fmul (i2f raw) SafetyMargin"
  have "rnd (of_int raw) \<le> ?x"
    unfolding fmul_def r using assms margin_bounds(1) by (intro rnd_mono) (simp_all add: mult_le_cancel_left1)
  then have lo: "of_int raw \<le> ?x" using assms by simp
  have "(of_int raw :: rat) * SafetyMargin \<le> of_int raw * 2"
    using assms margin_bounds(2) by (intro mult_left_mono) simp_all
  also have "\<dots> = of_int (raw * 2)" by simp
  also have "\<dots> \<le> of_int (2 ^ 51)" unfolding of_int_le_iff using assms(2) by simp
  finally have "?x \<le> rnd (of_int (2 ^ 51))"
    unfolding fmul_def r using assms margin_bounds(1) by (intro rnd_mono) simp_all
  then have hi: "?x \<le> 2 ^ 51" using rnd_of_int [of "2 ^ 51"] by simp
  have half: "lit (1 / 2) = 1 / 2" unfolding lit_def by code_simp
  let ?y = "fadd ?x (lit (1 / 2))"
  have "rnd (of_int raw) \<le> ?y"
    unfolding fadd_def half using lo assms by (intro rnd_mono) simp_all
  then have y: "of_int raw \<le> ?y" using assms by simp
  have "?y \<le> rnd (of_int (2 ^ 52))"
    unfolding fadd_def half using hi lo assms by (intro rnd_mono) simp_all
  then have "?y \<le> 2 ^ 52" using rnd_of_int [of "2 ^ 52"] by simp
  moreover have "trunc ?y = \<lfloor>?y\<rfloor>" using y assms by (simp add: trunc_def)
  moreover have "raw \<le> \<lfloor>?y\<rfloor>" using y by (simp add: le_floor_iff)
  ultimately have "f2i ?y = \<lfloor>?y\<rfloor>" using assms by (simp add: f2i_def in64_def floor_le_iff le_floor_iff floor_less_iff)
  then show ?thesis using \<open>raw \<le> \<lfloor>?y\<rfloor>\<close> False assms by (simp add: applyMargin_def)
qed (simp add: applyMargin_def)

fun valid_text :: "utext \<Rightarrow> bool" where
  "valid_text s = list_all (\<lambda>r. r \<noteq> BadByte) s"

lemma valid_text_split: "valid_text s \<Longrightarrow> length s = length (filter multi_byte s) + length (filter one_byte s)"
proof (induction s)
  case (Cons r s)
  then show ?case by (cases r) auto
qed simp

lemma estimateText_ge:
  assumes "valid_text s"
  shows "estimateTextTokens s \<le> estimateText s + 1 \<and> 0 \<le> estimateText s"
proof -
  define m n where "m = length (filter multi_byte s)" "n = length (filter one_byte s)"
  have len: "length s = m + n" using valid_text_split [OF assms] by (simp add: m_n_def)
  have "estimateTextTokens s \<le> (int m + int n + 3) div 4"
    unfolding estimateTextTokens_def Let_def len by auto
  moreover have "int (m + n div 4) \<le> estimateText s"
    using len unfolding estimateText_def Let_def m_n_def [symmetric] by auto
  moreover have "(int m + int n + 3) div 4 \<le> int (m + n div 4) + 1" by linarith
  ultimately show ?thesis by linarith
qed

lemma prompt_sums:
  "list_all (\<lambda>m. valid_text (ms_Role m) \<and> valid_text (ms_Content m)) ms \<Longrightarrow> a \<le> b \<Longrightarrow>
     role_content_loop ms a \<le> prompt_loop ms b \<and> b \<le> prompt_loop ms b"
proof (induction ms arbitrary: a b)
  case (Cons m ms)
  have v: "valid_text (ms_Role m)" "valid_text (ms_Content m)" using Cons.prems(1) by simp_all
  let ?a = "a + estimateTextTokens (ms_Role m) + estimateTextTokens (ms_Content m)"
  let ?b = "b + 4 + estimateText (ms_Role m) + estimateText (ms_Content m)"
  have "?a \<le> ?b" "b \<le> ?b"
    using estimateText_ge [OF v(1)] estimateText_ge [OF v(2)] Cons.prems(2) by linarith+
  moreover have "role_content_loop ms ?a \<le> prompt_loop ms ?b \<and> ?b \<le> prompt_loop ms ?b"
    using Cons.prems(1) calculation(1) by (intro Cons.IH) simp_all
  ultimately show ?case by simp
qed simp


section \<open>Properties\<close>

text \<open>C25: However the upstream answers, a chat request calls at most three channels and ends its freeze
  by exactly one call, a settlement or a release. After it the freeze stands no longer; or the ledger is as
  it was after the freeze, with nothing charged, because the release of the freeze was refused (which is only
  logged), or because its settlement with the cost was, and then the one settlement has returned that
  error and an outcome with nothing charged. The calculator and the balance service are there;
  \<open>SettleBalanceUnits\<close>, which the repository does not define, ends the freeze it is given or fails
  without effect.\<close>

theorem freeze_settled_or_released_once:
  assumes "be_pricer (cx_ending cx)" "be_wallet (cx_ending cx)" "settles_freezes (be_settle (cx_ending cx))"
    and "FreezeUsage (cx_freezing cx) (freeze_request req) (snd s) = ((Some fz, None), b)" "fo_FreezeID fz \<noteq> ''''"
    and "ChatCompletions cx db req s = (st, evs, s')"
  shows "length (called evs) \<le> 3 \<and> length (filter ends_freeze evs) = 1 \<and>
    (find_frozen (fo_FreezeID fz) (bs_ledger (snd s')) = None \<or>
     bs_ledger (snd s') = bs_ledger b \<and>
       (isl (fst (ReleaseFrozen (be_ledger (cx_ending cx)) (fo_FreezeID fz) (bs_ledger b))) \<or>
        (\<exists>u out e. SettleCalled u (Some out) (Some (LedgerError e)) \<in> set evs \<and> uo_ActualCostUnits out = 0 \<and>
           fst (be_settle (cx_ending cx) (fo_FreezeID fz) (uo_CostUnits out) (bs_ledger b)) = Inl e)))"
proof -
  have "chat_loop cx db req (fo_FreezeID fz) maxRetries 0 [] (fst s, b) = (st, evs, s')"
    using assms(4,6) by (simp add: ChatCompletions_def)
  from chat_loop_ends [OF this] obtain r es where e: "ending cx req (fo_FreezeID fz) (r, b) es s'"
      "filter ends_freeze evs = filter ends_freeze es" "length (called evs) \<le> maxRetries"
    by auto
  have one: "length (filter ends_freeze es) = 1" by (rule ending_events(3) [OF e(1) assms(5)])
  have same: "x \<in> set (filter ends_freeze es) \<Longrightarrow> x \<in> set evs" for x
    unfolding e(2) [symmetric] by simp
  obtain x where x: "ended (cx_ending cx) (fo_FreezeID fz) x (bs_ledger b) (bs_ledger (snd s'))"
      "x = (None, None) \<or> (\<exists>u. SettleCalled u (fst x) (snd x) \<in> set evs)"
    using ending_ended [OF e(1) assms(1-3,5)] same unfolding snd_conv by blast
  have "charge_refused (cx_ending cx) (fo_FreezeID fz) (bs_ledger b) x \<Longrightarrow>
      \<exists>u out e. SettleCalled u (Some out) (Some (LedgerError e)) \<in> set evs \<and> uo_ActualCostUnits out = 0 \<and>
        fst (be_settle (cx_ending cx) (fo_FreezeID fz) (uo_CostUnits out) (bs_ledger b)) = Inl e"
    using x(2) unfolding charge_refused_def by (metis fst_conv snd_conv prod.inject option.distinct(1))
  then show ?thesis
    using x(1) one e(2,3) unfolding ended_def maxRetries_def by auto
qed

text \<open>The instance: two channels of which the first fails, and a prompt of 4000 characters, so that the
  freeze is for 1000 and 500 tokens. \<open>SettleBalance\<close> stands in for the missing settlement.\<close>

definition demo_request :: chat_request where
  "demo_request = \<lparr>cq_model = ''m'', cq_customChannelID = None, cq_userID = 7, cq_tenantID = 0, cq_requestID = ''r'',
     cq_thinking = False, cq_messages = [\<lparr>ms_Role = [], ms_Content = replicate 4000 (Rune 97)\<rparr>], cq_maxTokens = 500\<rparr>"

definition ending_billing :: billing_env where
  "ending_billing = sample_billing\<lparr>be_settle := SettleBalance calm\<rparr>"

definition demo_chat :: "Channel option \<Rightarrow> (nat \<Rightarrow> upstream) \<Rightarrow> chat_env" where
  "demo_chat coding answer =
     \<lparr>cx_select = (\<lambda>_. demo_env), cx_record = (\<lambda>_. demo_env), cx_answer = (\<lambda>k _ _. answer k), cx_coding = coding,
      cx_freezing = sample_billing, cx_ending = ending_billing\<rparr>"

definition one_failure :: "nat \<Rightarrow> upstream" where
  "one_failure k = (if k = 0 then CallFailed \<lparr>ge_canceled = False, ge_deadline = True, ge_net = None, ge_text = ''e''\<rparr>
     else CallDone (usage_of 5 5))"

lemma demo_freeze_request: "freeze_request demo_request = sample_request"
  by (simp add: freeze_request_def usage_request_def demo_request_def sample_request_def estimateChatRequestUsage_def
      usage_of_def estimateTextTokens_def Let_def in64_def add64_def)

lemma demo_freeze:
  "\<exists>fz b. FreezeUsage sample_billing sample_request sample_state = ((Some fz, None), b) \<and> fo_FreezeID fz = ''f1''"
proof -
  obtain c where c: "computeCost sample_billing (toQuoteRequest sample_request 11 ''charge'') billed_model empty_caches =
      (Inr sample_cost, c)"
    using sample_computeCost by blast
  have u: "\<not> isUnitPricingUnit (am_PricingUnit billed_model)" by (simp add: isUnitPricingUnit_def)
  have cost: "calculateCost sample_billing sample_request billed_model loaded_state =
      (Inr (stamp_cell None sample_cost), loaded_state\<lparr>bs_caches := c\<rparr>)"
    using c by (simp add: calculateCost_computeCost [OF u, of _ _ 11 "''charge''"] andThen_ok in_simps MatchCellByModelID_def)
  have units: "cr_TotalCostUnits (stamp_cell None sample_cost) = 300000" by code_simp
  have av: "available sample_row = 1300000"
    using available_exact [of sample_row] sample_row_facts by (simp add: row_ok_def sample_row_def zero_UserBalance_def)
  obtain l where f: "FreezeBalanceUnits calm 7 0 300000 ''m'' ''r'' sample_ledger = (Inr ''f1'', l)"
    using sample_lookup av
    by (simp add: FreezeBalanceUnits_def act_simps transaction_def lockBalance_def calm_def Let_def
        saveBalance_def createRecord_def createFreeze_def freeze_record_of_def sample_ledger_def
        empty_ledger_def InvalidateCache_def sample_row_facts)
  show ?thesis
    using cost units f
    by (simp add: FreezeUsage_def sample_load thinking_cost_def freeze_cost_def Let_def in_ledger_def)
qed

theorem freeze_settled_or_released_once_witness:
  "\<exists>st evs s'. ChatCompletions (demo_chat None one_failure) demo_db demo_request (fresh_router, sample_state) = (st, evs, s') \<and>
     length (called evs) \<le> 3 \<and> length (filter ends_freeze evs) = 1"
proof -
  let ?cx = "demo_chat None one_failure"
  obtain fz b where f: "FreezeUsage sample_billing sample_request sample_state = ((Some fz, None), b)" "fo_FreezeID fz = ''f1''"
    using demo_freeze by blast
  obtain st evs s' where c: "ChatCompletions ?cx demo_db demo_request (fresh_router, sample_state) = (st, evs, s')"
    using prod_cases3 by blast
  have "FreezeUsage (cx_freezing ?cx) (freeze_request demo_request) (snd (fresh_router, sample_state)) = ((Some fz, None), b)"
    using f(1) by (simp add: demo_chat_def demo_freeze_request)
  moreover have "be_pricer (cx_ending ?cx)" "be_wallet (cx_ending ?cx)" "settles_freezes (be_settle (cx_ending ?cx))"
    by (simp_all add: demo_chat_def ending_billing_def settle_standin)
  ultimately show ?thesis
    using freeze_settled_or_released_once [of ?cx demo_request "(fresh_router, sample_state)" fz b demo_db st evs s'] f(2) c
    by auto
qed

text \<open>C26: Where no channel group matches the model and there is no channel of the coding service, no two
  attempts of a request call the same channel.\<close>

theorem retries_try_other_channels:
  assumes "no_group cx db req" "cx_coding cx = None"
  shows "distinct (called (fst (snd (ChatCompletions cx db req s))))"
proof (cases rule: ChatCompletions_loop [of cx req s db])
  case (frozen f b)
  obtain st evs s' where c: "ChatCompletions cx db req s = (st, evs, s')" using prod_cases3 by blast
  then show ?thesis using chat_loop_distinct [OF assms] unfolding frozen(2) by fastforce
qed simp

definition ungrouped_db :: routing_db where
  "ungrouped_db = demo_db\<lparr>rd_groups := []\<rparr>"

theorem retries_try_other_channels_witness:
  "distinct (called (fst (snd (ChatCompletions (demo_chat None one_failure) ungrouped_db demo_request (fresh_router, sample_state)))))"
proof -
  have "no_group (demo_chat None one_failure) ungrouped_db demo_request"
    by (simp add: no_group_def demo_chat_def ungrouped_db_def demo_db_def findMatchingGroups_def)
  moreover have "cx_coding (demo_chat None one_failure) = None" by (simp add: demo_chat_def)
  ultimately show ?thesis by (rule retries_try_other_channels)
qed

text \<open>C27: While the counter of the calls in flight in Redis answers and no channel of the coding service
  stands in: when a request is over, the calls in flight of every channel are what they were before, as every
  attempt takes off what its selection has added, on each way out.\<close>

theorem finished_request_leaves_no_load:
  assumes "calm_router cx" "\<forall>c. in64 (ro_inflight (fst s) c)"
  shows "ro_inflight (fst (snd (snd (ChatCompletions cx db req s)))) = ro_inflight (fst s)"
proof (cases rule: ChatCompletions_loop [of cx req s db])
  case (frozen f b)
  obtain st evs s' where c: "ChatCompletions cx db req s = (st, evs, s')" using prod_cases3 by blast
  then show ?thesis
    using chat_loop_inflight [OF assms(1), of "(fst s, b)"] assms(2) unfolding frozen(2) by fastforce
qed simp

theorem finished_request_leaves_no_load_witness:
  "ro_inflight (fst (snd (snd (ChatCompletions (demo_chat None one_failure) demo_db demo_request (fresh_router, sample_state))))) =
     (\<lambda>_. 0)"
proof -
  have "calm_router (demo_chat None one_failure)" by (simp add: calm_router_def demo_chat_def)
  from finished_request_leaves_no_load [OF this, of "(fresh_router, sample_state)" demo_db demo_request] show ?thesis
    by (simp add: fresh_router_def in64_def)
qed

text \<open>Where every text is valid UTF-8, the estimate that stands in for a missing usage is never below
  the prompt tokens the freeze was computed from.\<close>

theorem estimator_never_below_freeze:
  assumes "list_all (\<lambda>m. valid_text (ms_Role m) \<and> valid_text (ms_Content m)) ms" "prompt_loop ms 0 + 2 \<le> 2 ^ 50"
  shows "pu_PromptTokens (estimateChatRequestUsage ms mt) \<le> pu_PromptTokens (estimateUsageFromRequest ms mt)"
proof (cases "ms = []")
  case False
  have "role_content_loop ms 0 \<le> prompt_loop ms 0" "0 \<le> prompt_loop ms 0" using prompt_sums [OF assms(1), of 0 0] by auto
  then show ?thesis
    using applyMargin_ge [of "prompt_loop ms 0 + 2"] assms(2) False
    by (simp add: estimateChatRequestUsage_def estimateUsageFromRequest_def EstimatePromptTokens_def usage_of_def)
qed (simp add: estimateChatRequestUsage_def estimateUsageFromRequest_def EstimatePromptTokens_def usage_of_def)

theorem estimator_never_below_freeze_witness:
  "pu_PromptTokens (estimateChatRequestUsage [\<lparr>ms_Role = [Rune 117], ms_Content = [Rune 20320, Rune 22909]\<rparr>] 5)
   \<le> pu_PromptTokens (estimateUsageFromRequest [\<lparr>ms_Role = [Rune 117], ms_Content = [Rune 20320, Rune 22909]\<rparr>] 5)"
  by (rule estimator_never_below_freeze) (simp_all add: estimateText_def)

text \<open>The channel of the coding service stands in without being counted, and is counted off all the same:
  after one good call its load is one less than before.\<close>

theorem coding_fallback_uncounts:
  assumes "SelectChannelWithExcludes (cx_select cx 0) db (cq_model req) (cq_customChannelID req) (cq_userID req) [] r = (Inl e, r1)"
    and "cx_coding cx = Some ch" "cx_answer cx 0 ch (cq_model req) = CallDone u"
    and "rand_ok (cx_select cx 0)" "quiet (cx_record cx 0)"
    and "FreezeUsage (cx_freezing cx) (freeze_request req) b = ((f, None), b1)"
  shows "ro_inflight (fst (snd (snd (ChatCompletions cx db req (r, b))))) (ch_ID ch) = add64 (ro_inflight r (ch_ID ch)) (- 1)"
proof -
  have sel: "selectChannelWithCapability (cx_select cx 0) db (cq_model req) (cq_customChannelID req) (cq_userID req) [] [] r = (Inl e, r1)"
    using assms(1) by (simp add: SelectChannelWithExcludes_def)
  have "frame (cx_select cx 0) r r1"
    using select_spec [OF sel assms(4)] select_lacks_nothing [OF sel] by (cases e) auto
  then have load: "ro_inflight r1 = ro_inflight r" by (simp add: frame_def)
  have ch: "choose_channel cx db req 0 [] r = (Some (ch, cq_model req), r1)"
    using assms(1,2) by (simp add: choose_channel_def)
  have loop: "maxRetries = Suc (Suc (Suc 0))" by (simp add: maxRetries_def)
  have rec: "ro_inflight (RecordResult (cx_record cx 0) (ch_ID ch) True r1) = (ro_inflight r)(ch_ID ch := add64 (ro_inflight r (ch_ID ch)) (- 1))"
    using inflight_result [OF assms(5) disjI1 [OF refl], of "ch_ID ch" True r1] load by simp
  show ?thesis
    using assms(3,6) ch rec
    by (simp add: ChatCompletions_def loop settle_usage_def case_prod_beta Let_def record_success_def)
qed

text \<open>A charge that failed is reported with the cost it would have had, and that cost earns a commission.\<close>

theorem failed_charge_earns_commission:
  assumes "be_pricer (cx_ending cx)" "be_wallet (cx_ending cx)" "F \<noteq> ''''" "\<not> cq_thinking req"
    and "loadBillableModel (cx_ending cx) (cq_model req) b = (Inr m, b1)"
    and "calculateCost (cx_ending cx) (usage_request req u F) m b1 = (Inr cr, b2)" "0 < cr_TotalCost cr"
    and "be_settle (cx_ending cx) F (cr_TotalCostUnits cr) (bs_ledger b2) = (Inl e, l)"
    and "settle_usage cx req F u (r, b) = (evs, s')"
  shows "Commission (cr_TotalCost cr) \<in> set evs \<and>
    (\<exists>out. SettleCalled u (Some out) (Some (LedgerError e)) \<in> set evs \<and> uo_ActualCostUnits out = 0)"
  using assms
  by (auto simp: settle_usage_def calculateAndDeductCostWithErr_def SettleUsage_def usage_request_def settle_priced_def
      thinking_cost_def conclude_def collect_def in_ledger_def with_snapshot_def failed_outcome_def priced_outcome_def Let_def)

end
