(* ===== verification/Payment.thy ===== *)
theory Payment
  imports Referral Json Routing
begin

text \<open>
  \<open>internal/service/payment\<close>: orders and the callbacks of the gateways
  (\<open>payment_service.go\<close>, \<open>payment_service_v2.go\<close>), the conversion of currencies
  (\<open>exchange_service.go\<close>) and the routing over several accounts of a provider
  (\<open>account_router.go\<close>). The gateways are parameters: what they verified, what they answer;
  the calls made to them are kept in order. The text of log entries, URLs and IP addresses is left
  out. A callback reads the order, then acts on what it read: the two halves are separate definitions,
  since nothing in the code keeps two callbacks apart.
\<close>

section \<open>Tables\<close>

datatype payment_status =
    PaymentStatusPending | PaymentStatusCompleted | PaymentStatusFailed
  | PaymentStatusPartialRefunded | PaymentStatusRefunded | PaymentStatusCancelled

record Payment =
  pm_ID :: nat
  pm_TenantID :: nat
  pm_UserID :: nat
  pm_OrderNo :: "string option"
  pm_Amount :: float64
  pm_OriginalCurrency :: string
  pm_ExchangeRate :: float64
  pm_FeeRate :: float64
  pm_FeeAmount :: float64
  pm_RMBAmount :: float64
  pm_CreditAmount :: int64
  pm_Gateway :: string
  pm_GatewayTxnID :: string
  pm_Status :: payment_status
  pm_Metadata :: "json option"
  pm_ProviderAccountID :: "nat option"
  pm_DisplayCurrency :: string
  pm_DisplayAmountUSD :: float64
  pm_DisplayAmountCNY :: float64
  pm_ExchangeRateUsed :: float64
  pm_RefundedAmount :: float64
  pm_RefundCount :: int64

datatype refund_status =
    RefundStatusPending | RefundStatusApproved | RefundStatusRejected
  | RefundStatusProcessing | RefundStatusCompleted | RefundStatusFailed

record PaymentRefundRequest =
  rq_ID :: nat
  rq_PaymentID :: nat
  rq_UserID :: nat
  rq_TenantID :: nat
  rq_OrderNo :: string
  rq_RefundAmountRMB :: float64
  rq_Reason :: string
  rq_Attachments :: "string list"
  rq_Status :: refund_status
  rq_AdminID :: "nat option"
  rq_AdminRemark :: string
  rq_GatewayRefundID :: string
  rq_GatewayResponse :: string
  rq_ProcessedAt :: "int option"
  rq_CompletedAt :: "int option"
  rq_CreatedAt :: int

record PaymentProviderAccount =
  pa_ID :: nat
  pa_ProviderType :: string
  pa_Weight :: int64
  pa_Priority :: int64
  pa_SupportedCurrencies :: string
  pa_SupportedRegions :: string
  pa_IsActive :: bool
  pa_FailureCount :: int64
  pa_LastFailedAt :: "int option"
  pa_TotalOrders :: int64
  pa_TotalAmountRMB :: float64

record ExchangeRate =
  xr_ID :: nat
  xr_FromCurrency :: string
  xr_ToCurrency :: string
  xr_Rate :: float64
  xr_FeeRate :: float64
  xr_IsActive :: bool

section \<open>Gateways\<close>

record PaymentOrder =
  po_OrderNo :: string
  po_Amount :: float64
  po_Currency :: string

record CallbackResult =
  cb_OrderNo :: string
  cb_GatewayTxnID :: string
  cb_Amount :: float64
  cb_Status :: string

record RefundResult =
  rr_RefundStatus :: string
  rr_GatewayRefundID :: string

datatype gateway_call =
    CreateOrderCall string PaymentOrder
  | RefundCall string string float64

section \<open>State and environment\<close>

record pay_event =
  ev_Type :: string
  ev_PaymentID :: "nat option"
  ev_RefundID :: "nat option"
  ev_Success :: bool

text \<open>\<open>py_orderCache\<close> and \<open>py_penalty\<close> are the keys of Redis, with the moment they expire;
  \<open>py_published\<close> the orders announced on \<open>payment:success\<close>.\<close>

record payments =
  py_ledger :: ledger
  py_payments :: "Payment list"
  py_requests :: "PaymentRefundRequest list"
  py_accounts :: "PaymentProviderAccount list"
  py_rates :: "ExchangeRate list"
  py_orderCache :: "string \<Rightarrow> (nat \<times> int) option"
  py_penalty :: "nat \<Rightarrow> int option"
  py_gateway :: "gateway_call list"
  py_events :: "pay_event list"
  py_audit :: "(string \<times> nat) list"
  py_published :: "string list"

datatype pay_call =
    QueryRate | CreatePaymentRow | UpdatePayment | QueryPaymentRow | GetOrderKey | SetOrderKey
  | QueryAccounts | PenaltyExists | SetPenalty | DelPenalty | UpdateAccountRow | CreateAudit
  | QueryRequest | UpdateRequest | CreateRequest | CountRequests | CountDaily

datatype pay_error =
    UnsupportedGateway string | InvalidAmount | VerifyFailed | MissingOrderNo | PaymentNotFound
  | AmountMismatch | NotRefundable payment_status | GatewayFailed | NoAccount | ProviderRequired
  | AllAttemptsFailed | PayDown pay_call | PayLedger ledger_error
  | InvalidInput | ReasonRequired | ReasonTooLong | NotPaymentOwner | ExceedsRemaining
  | RequestPending | DailyLimit | TooManyAttachments | WrongRefundStatus refund_status

type_synonym 'a pay_act = "(payments, pay_error, 'a) act"

text \<open>\<open>pv_verified\<close> is what \<open>VerifyCallback\<close> makes of the notification, \<open>pv_parsed\<close> what the
  development bypass reads from it; \<open>pv_orderNo\<close> the result of \<open>GenerateOrderNo\<close> in each turn of
  the routing loop; \<open>pv_rand\<close> the answer of \<open>Intn\<close>; \<open>pv_router\<close>, \<open>pv_fetcher\<close> and \<open>pv_logger\<close> whether
  these are configured.\<close>

record pay_env =
  pv_ledger :: ledger_env
  pv_now :: int
  pv_monthStart :: int
  pv_gateways :: "string list"
  pv_bypass :: bool
  pv_verified :: "string \<Rightarrow> CallbackResult option"
  pv_parsed :: "string \<Rightarrow> CallbackResult option"
  pv_create :: "nat \<Rightarrow> PaymentOrder \<Rightarrow> string option"
  pv_refund :: "string \<Rightarrow> float64 \<Rightarrow> RefundResult option"
  pv_orderNo :: "nat \<Rightarrow> string"
  pv_rand :: "nat \<Rightarrow> int64 \<Rightarrow> int64"
  pv_router :: bool
  pv_fetcher :: "float64 option"
  pv_logger :: bool
  pv_down :: "pay_call \<Rightarrow> bool"

definition on_pay_ledger :: "'a ledger_act \<Rightarrow> 'a pay_act" where
  "on_pay_ledger m s =
     (case m (py_ledger s) of
        (Inl e, l) \<Rightarrow> (Inl (PayLedger e), s\<lparr>py_ledger := l\<rparr>)
      | (Inr a, l) \<Rightarrow> (Inr a, s\<lparr>py_ledger := l\<rparr>))"

definition LogPaymentEvent :: "pay_env \<Rightarrow> string \<Rightarrow> nat option \<Rightarrow> nat option \<Rightarrow> bool \<Rightarrow> payments \<Rightarrow> payments" where
  "LogPaymentEvent env ty pid rid ok s =
     (if pv_logger env
      then s\<lparr>py_events := py_events s @ [\<lparr>ev_Type = ty, ev_PaymentID = pid, ev_RefundID = rid, ev_Success = ok\<rparr>]\<rparr>
      else s)"

definition pay_recordAuditLog :: "pay_env \<Rightarrow> string \<Rightarrow> nat \<Rightarrow> payments \<Rightarrow> payments" where
  "pay_recordAuditLog env action resourceID s =
     (if pv_down env CreateAudit then s else s\<lparr>py_audit := py_audit s @ [(action, resourceID)]\<rparr>)"

definition on_payment :: "nat \<Rightarrow> (Payment \<Rightarrow> Payment) \<Rightarrow> payments \<Rightarrow> payments" where
  "on_payment pid f s = s\<lparr>py_payments := map (\<lambda>p. if pm_ID p = pid then f p else p) (py_payments s)\<rparr>"

section \<open>Amounts\<close>

definition AmountToCents :: "float64 \<Rightarrow> int64" where
  "AmountToCents amount = f2i (fadd (fmul amount 100) (lit (1 / 2)))"

definition roundHalf :: "float64 \<Rightarrow> float64" where
  "roundHalf v = fdiv (i2f (f2i (fadd (fmul v 100) (lit (1 / 2))))) 100"

section \<open>Exchange\<close>

definition plain_rate :: "string \<Rightarrow> ExchangeRate" where
  "plain_rate fromCurrency =
     \<lparr>xr_ID = 0, xr_FromCurrency = fromCurrency, xr_ToCurrency = ''CNY'', xr_Rate = 1, xr_FeeRate = 0, xr_IsActive = True\<rparr>"

definition GetExchangeRate :: "pay_env \<Rightarrow> string \<Rightarrow> payments \<Rightarrow> pay_error + ExchangeRate" where
  "GetExchangeRate env fromCurrency s =
     (if fromCurrency = '''' \<or> fromCurrency = ''CNY'' then Inr (plain_rate ''CNY'')
      else if pv_down env QueryRate then Inl (PayDown QueryRate)
      else case first_where (\<lambda>x. xr_FromCurrency x = fromCurrency \<and> xr_IsActive x) (py_rates s) of
             None \<Rightarrow> Inr (plain_rate fromCurrency)
           | Some x \<Rightarrow> Inr x)"

record ExchangeResult =
  er_ExchangeRate :: float64
  er_FeeRate :: float64
  er_FeeAmount :: float64
  er_RMBAmount :: float64
  er_CreditAmount :: int64

definition exchange_at :: "ExchangeRate \<Rightarrow> float64 \<Rightarrow> ExchangeResult" where
  "exchange_at rate amount =
     (let rmbAmount = fmul amount (xr_Rate rate);
          feeAmount = fmul rmbAmount (xr_FeeRate rate);
          diff = fsub rmbAmount feeAmount;
          rmbNet = (if diff < 0 then 0 else diff)
      in \<lparr>er_ExchangeRate = xr_Rate rate, er_FeeRate = xr_FeeRate rate, er_FeeAmount = feeAmount,
          er_RMBAmount = rmbNet, er_CreditAmount = RMBToCredits rmbNet\<rparr>)"

definition CalculateExchange :: "pay_env \<Rightarrow> float64 \<Rightarrow> string \<Rightarrow> payments \<Rightarrow> pay_error + ExchangeResult" where
  "CalculateExchange env amount currency s =
     (case GetExchangeRate env currency s of Inl e \<Rightarrow> Inl e | Inr rate \<Rightarrow> Inr (exchange_at rate amount))"

text \<open>GORM does not send the zero value of a column that has a default: a new row is active even when
  the caller asked for an inactive one.\<close>

definition UpdateExchangeRate :: "pay_env \<Rightarrow> ExchangeRate \<Rightarrow> unit pay_act" where
  "UpdateExchangeRate env rate s =
     (if pv_down env QueryRate then (Inl (PayDown QueryRate), s)
      else case first_where (\<lambda>x. xr_FromCurrency x = xr_FromCurrency rate \<and> xr_ToCurrency x = xr_ToCurrency rate) (py_rates s) of
        None \<Rightarrow> (Inr (), s\<lparr>py_rates := py_rates s @ [rate\<lparr>xr_ID := Suc (fold max (map xr_ID (py_rates s)) 0),
            xr_ToCurrency := (if xr_ToCurrency rate = '''' then ''CNY'' else xr_ToCurrency rate),
            xr_IsActive := True\<rparr>]\<rparr>)
      | Some old \<Rightarrow> (Inr (), s\<lparr>py_rates := map (\<lambda>x. if xr_ID x = xr_ID old
            then old\<lparr>xr_Rate := xr_Rate rate, xr_FeeRate := xr_FeeRate rate, xr_IsActive := xr_IsActive rate\<rparr> else x) (py_rates s)\<rparr>))"


definition UpdateExchangeRateByID :: "pay_env \<Rightarrow> nat \<Rightarrow> ExchangeRate \<Rightarrow> unit pay_act" where
  "UpdateExchangeRateByID env i rate s =
     (if pv_down env QueryRate then (Inl (PayDown QueryRate), s)
      else if \<not> (\<exists>x \<in> set (py_rates s). xr_ID x = i) then (Inl PaymentNotFound, s)
      else (Inr (), s\<lparr>py_rates := map (\<lambda>x. if xr_ID x = i
          then x\<lparr>xr_Rate := xr_Rate rate, xr_FeeRate := xr_FeeRate rate, xr_IsActive := xr_IsActive rate\<rparr> else x) (py_rates s)\<rparr>))"

section \<open>Accounts of a provider\<close>

record SelectAccountRequest =
  sa_ProviderType :: string
  sa_Currency :: string
  sa_Region :: string
  sa_ExcludeIDs :: "nat list"

definition loadActiveAccounts :: "string \<Rightarrow> payments \<Rightarrow> PaymentProviderAccount list" where
  "loadActiveAccounts providerType s =
     sort_key (\<lambda>a. (pa_Priority a, int (pa_ID a)))
       (filter (\<lambda>a. pa_ProviderType a = providerType \<and> pa_IsActive a) (py_accounts s))"

definition isPenaltyActive :: "pay_env \<Rightarrow> payments \<Rightarrow> nat \<Rightarrow> bool" where
  "isPenaltyActive env s accountID =
     (if pv_down env PenaltyExists then False
      else case py_penalty s accountID of None \<Rightarrow> False | Some t \<Rightarrow> pv_now env < t)"

definition matchCSV :: "string \<Rightarrow> string \<Rightarrow> bool" where
  "matchCSV csv target =
     (if csv = '''' then True
      else list_ex (\<lambda>item. TrimSpace item = to_upper target) (strings_Split (to_upper csv) (CHR '','')))"

fun min_priority :: "PaymentProviderAccount list \<Rightarrow> int64 \<Rightarrow> int64" where
  "min_priority [] acc = acc"
| "min_priority (a # xs) acc = min_priority xs (if acc = -1 \<or> pa_Priority a < acc then pa_Priority a else acc)"

definition filter_accounts ::
  "pay_env \<Rightarrow> payments \<Rightarrow> PaymentProviderAccount list \<Rightarrow> SelectAccountRequest \<Rightarrow> nat \<Rightarrow> PaymentProviderAccount list" where
  "filter_accounts env s all req mode =
     filter (\<lambda>a. pa_Priority a = min_priority all (- 1) \<and> pa_ID a \<notin> set (sa_ExcludeIDs req) \<and>
         \<not> isPenaltyActive env s (pa_ID a) \<and>
         \<not> (mode \<le> 1 \<and> sa_Currency req \<noteq> '''' \<and> \<not> matchCSV (pa_SupportedCurrencies a) (sa_Currency req)) \<and>
         \<not> (mode = 0 \<and> sa_Region req \<noteq> '''' \<and> \<not> matchCSV (pa_SupportedRegions a) (sa_Region req))) all"

fun pick_loop :: "int64 \<Rightarrow> PaymentProviderAccount list \<Rightarrow> PaymentProviderAccount option" where
  "pick_loop pick [] = None"
| "pick_loop pick (a # xs) =
     (let p = sub64 pick (eff_weight (pa_Weight a)) in if p < 0 then Some a else pick_loop p xs)"

text \<open>\<open>k\<close> is the number of the turn: every selection draws anew.\<close>

definition weightedPick :: "pay_env \<Rightarrow> nat \<Rightarrow> PaymentProviderAccount list \<Rightarrow> PaymentProviderAccount option" where
  "weightedPick env k candidates =
     (case candidates of
        [] \<Rightarrow> None
      | [a] \<Rightarrow> Some a
      | _ \<Rightarrow> (let total = total_weight pa_Weight candidates 0
              in if total \<le> 0 then Some (candidates ! nat (pv_rand env k (int (length candidates))))
                 else case pick_loop (pv_rand env k total) candidates of
                        Some a \<Rightarrow> Some a
                      | None \<Rightarrow> Some (last candidates)))"

fun first_mode ::
  "pay_env \<Rightarrow> nat \<Rightarrow> payments \<Rightarrow> PaymentProviderAccount list \<Rightarrow> SelectAccountRequest \<Rightarrow> nat list \<Rightarrow> PaymentProviderAccount option" where
  "first_mode env k s all req [] = None"
| "first_mode env k s all req (mode # modes) =
     (let candidates = filter_accounts env s all req mode
      in if candidates \<noteq> [] then weightedPick env k candidates else first_mode env k s all req modes)"

definition SelectAccount ::
  "pay_env \<Rightarrow> nat \<Rightarrow> SelectAccountRequest \<Rightarrow> payments \<Rightarrow> pay_error + PaymentProviderAccount" where
  "SelectAccount env k req s =
     (if sa_ProviderType req = '''' then Inl ProviderRequired
      else if pv_down env QueryAccounts then Inl (PayDown QueryAccounts)
      else (let all = loadActiveAccounts (sa_ProviderType req) s
            in if all = [] then Inl NoAccount
               else case first_mode env k s all req [0, 1, 2] of None \<Rightarrow> Inl NoAccount | Some a \<Rightarrow> Inr a))"

definition on_account :: "pay_env \<Rightarrow> nat \<Rightarrow> (PaymentProviderAccount \<Rightarrow> PaymentProviderAccount) \<Rightarrow> payments \<Rightarrow> payments" where
  "on_account env aid f s =
     (if pv_down env UpdateAccountRow then s
      else s\<lparr>py_accounts := map (\<lambda>a. if pa_ID a = aid then f a else a) (py_accounts s)\<rparr>)"

definition accountPenaltyTTL :: int where "accountPenaltyTTL = 300"

definition MarkAccountFailed :: "pay_env \<Rightarrow> nat \<Rightarrow> payments \<Rightarrow> payments" where
  "MarkAccountFailed env accountID s =
     (if accountID = 0 then s
      else on_account env accountID
        (\<lambda>a. a\<lparr>pa_FailureCount := pa_FailureCount a + 1, pa_LastFailedAt := Some (pv_now env)\<rparr>)
        (if pv_down env SetPenalty then s
         else s\<lparr>py_penalty := (py_penalty s)(accountID := Some (pv_now env + accountPenaltyTTL))\<rparr>))"

definition MarkAccountSuccess :: "pay_env \<Rightarrow> nat \<Rightarrow> float64 \<Rightarrow> payments \<Rightarrow> payments" where
  "MarkAccountSuccess env accountID amountRMB s =
     (if accountID = 0 then s
      else on_account env accountID
        (\<lambda>a. a\<lparr>pa_TotalOrders := pa_TotalOrders a + 1, pa_TotalAmountRMB := pa_TotalAmountRMB a + amountRMB\<rparr>)
        (if pv_down env DelPenalty then s else s\<lparr>py_penalty := (py_penalty s)(accountID := None)\<rparr>))"

text \<open>\<open>default:10\<close> and \<open>default:true\<close> take the place of a zero weight and of an inactive flag in a new row.\<close>

definition CreateAccount :: "pay_env \<Rightarrow> PaymentProviderAccount \<Rightarrow> unit pay_act" where
  "CreateAccount env acc s =
     (if pv_down env UpdateAccountRow then (Inl (PayDown UpdateAccountRow), s)
      else (Inr (), s\<lparr>py_accounts := py_accounts s @
        [acc\<lparr>pa_ID := Suc (fold max (map pa_ID (py_accounts s)) 0),
             pa_Weight := (if pa_Weight acc = 0 then 10 else pa_Weight acc), pa_IsActive := True\<rparr>]\<rparr>))"

definition UpdateAccount :: "pay_env \<Rightarrow> nat \<Rightarrow> (PaymentProviderAccount \<Rightarrow> PaymentProviderAccount) \<Rightarrow> unit pay_act" where
  "UpdateAccount env i updates s =
     (if pv_down env UpdateAccountRow then (Inl (PayDown UpdateAccountRow), s) else (Inr (), on_account env i updates s))"

definition DeleteAccount :: "pay_env \<Rightarrow> nat \<Rightarrow> unit pay_act" where
  "DeleteAccount env i s =
     (if pv_down env UpdateAccountRow then (Inl (PayDown UpdateAccountRow), s)
      else (Inr (), s\<lparr>py_accounts := filter (\<lambda>a. pa_ID a \<noteq> i) (py_accounts s)\<rparr>))"

definition ToggleAccount :: "pay_env \<Rightarrow> nat \<Rightarrow> unit pay_act" where
  "ToggleAccount env i s =
     (if pv_down env QueryAccounts then (Inl (PayDown QueryAccounts), s)
      else case first_where (\<lambda>a. pa_ID a = i) (py_accounts s) of
        None \<Rightarrow> (Inl NoAccount, s)
      | Some a \<Rightarrow> if pv_down env UpdateAccountRow then (Inl (PayDown UpdateAccountRow), s)
                  else (Inr (), on_account env i (\<lambda>b. b\<lparr>pa_IsActive := \<not> pa_IsActive a\<rparr>) s))"

definition UpdateAccountAfterPayment :: "pay_env \<Rightarrow> nat \<Rightarrow> bool \<Rightarrow> float64 \<Rightarrow> payments \<Rightarrow> payments" where
  "UpdateAccountAfterPayment env accountID success amountRMB s =
     (if \<not> pv_router env \<or> accountID = 0 then s
      else if success then MarkAccountSuccess env accountID amountRMB s
      else MarkAccountFailed env accountID s)"


section \<open>Orders\<close>

definition fresh_payment_id :: "payments \<Rightarrow> nat" where
  "fresh_payment_id s = Suc (fold max (map pm_ID (py_payments s)) 0)"

definition orderCacheTTL :: int where "orderCacheTTL = 24 * 3600"

definition cache_order :: "pay_env \<Rightarrow> string \<Rightarrow> nat \<Rightarrow> payments \<Rightarrow> payments" where
  "cache_order env orderNo pid s =
     (if pv_down env SetOrderKey then s
      else s\<lparr>py_orderCache := (py_orderCache s)(orderNo := Some (pid, pv_now env + orderCacheTTL))\<rparr>)"

definition cached_order :: "pay_env \<Rightarrow> string \<Rightarrow> payments \<Rightarrow> nat option" where
  "cached_order env orderNo s =
     (if pv_down env GetOrderKey then None
      else case py_orderCache s orderNo of
             None \<Rightarrow> None
           | Some (pid, expiry) \<Rightarrow> if pv_now env < expiry \<and> pid > 0 then Some pid else None)"

definition meta_order_no :: "json option \<Rightarrow> string option" where
  "meta_order_no meta =
     (case meta of Some (JObj kvs) \<Rightarrow> (case map_of kvs ''order_no'' of Some (JStr v) \<Rightarrow> Some v | _ \<Rightarrow> None) | _ \<Rightarrow> None)"

definition findPaymentIDByOrderNo :: "pay_env \<Rightarrow> string \<Rightarrow> nat pay_act" where
  "findPaymentIDByOrderNo env orderNo s =
     (case cached_order env orderNo s of
        Some pid \<Rightarrow> (Inr pid, s)
      | None \<Rightarrow>
          if pv_down env QueryPaymentRow then (Inl (PayDown QueryPaymentRow), s)
          else case (case first_where (\<lambda>p. pm_OrderNo p = Some orderNo) (py_payments s) of
                       None \<Rightarrow> first_where (\<lambda>p. meta_order_no (pm_Metadata p) = Some orderNo) (py_payments s)
                     | Some p \<Rightarrow> Some p) of
                 None \<Rightarrow> (Inl PaymentNotFound, s)
               | Some p \<Rightarrow> (Inr (pm_ID p), cache_order env orderNo (pm_ID p) s))"

definition load_payment :: "pay_env \<Rightarrow> nat \<Rightarrow> Payment pay_act" where
  "load_payment env pid s =
     (if pv_down env QueryPaymentRow then (Inl (PayDown QueryPaymentRow), s)
      else case first_where (\<lambda>p. pm_ID p = pid) (py_payments s) of
             None \<Rightarrow> (Inl PaymentNotFound, s)
           | Some p \<Rightarrow> (Inr p, s))"

definition QueryPayment :: "pay_env \<Rightarrow> string \<Rightarrow> Payment pay_act" where
  "QueryPayment env orderNo = andThen (findPaymentIDByOrderNo env orderNo) (load_payment env)"

text \<open>The row of a new order; the columns with a default take it for the zero value.\<close>

definition new_payment ::
  "nat \<Rightarrow> nat \<Rightarrow> nat \<Rightarrow> string \<Rightarrow> float64 \<Rightarrow> string \<Rightarrow> string \<Rightarrow> string \<Rightarrow> ExchangeResult \<Rightarrow> Payment" where
  "new_payment pid userID tenantID gateway amount currency subject orderNo x =
     \<lparr>pm_ID = pid, pm_TenantID = tenantID, pm_UserID = userID, pm_OrderNo = Some orderNo, pm_Amount = amount,
      pm_OriginalCurrency = (if currency = '''' then ''CNY'' else currency),
      pm_ExchangeRate = (if er_ExchangeRate x = 0 then 1 else er_ExchangeRate x),
      pm_FeeRate = er_FeeRate x, pm_FeeAmount = er_FeeAmount x, pm_RMBAmount = er_RMBAmount x,
      pm_CreditAmount = er_CreditAmount x, pm_Gateway = gateway, pm_GatewayTxnID = '''',
      pm_Status = PaymentStatusPending,
      pm_Metadata = Some (JObj ((''order_no'', JStr orderNo) #
        (if subject \<noteq> '''' then [(''subject'', JStr subject)] else []))),
      pm_ProviderAccountID = None, pm_DisplayCurrency = ''CNY'', pm_DisplayAmountUSD = 0, pm_DisplayAmountCNY = 0,
      pm_ExchangeRateUsed = 0, pm_RefundedAmount = 0, pm_RefundCount = 0\<rparr>"

text \<open>What is asked of a gateway is kept in order.\<close>

definition called_gateway :: "gateway_call \<Rightarrow> payments \<Rightarrow> payments" where
  "called_gateway c s = s\<lparr>py_gateway := py_gateway s @ [c]\<rparr>"

definition set_status :: "pay_env \<Rightarrow> nat \<Rightarrow> payment_status \<Rightarrow> payments \<Rightarrow> payments" where
  "set_status env pid st s =
     (if pv_down env UpdatePayment then s else on_payment pid (\<lambda>p. p\<lparr>pm_Status := st\<rparr>) s)"

definition set_txn :: "pay_env \<Rightarrow> nat \<Rightarrow> string \<Rightarrow> payments \<Rightarrow> payments" where
  "set_txn env pid txn s =
     (if txn = '''' \<or> pv_down env UpdatePayment then s else on_payment pid (\<lambda>p. p\<lparr>pm_GatewayTxnID := txn\<rparr>) s)"

text \<open>The result is the order number.\<close>

definition CreatePayment ::
  "pay_env \<Rightarrow> nat \<Rightarrow> nat \<Rightarrow> string \<Rightarrow> float64 \<Rightarrow> string \<Rightarrow> string \<Rightarrow> string pay_act" where
  "CreatePayment env userID tenantID gateway amount currency subject s =
     (if gateway \<notin> set (pv_gateways env) then (Inl (UnsupportedGateway gateway), s)
      else if amount \<le> 0 then (Inl InvalidAmount, s)
      else case CalculateExchange env amount currency s of
        Inl e \<Rightarrow> (Inl e, s)
      | Inr x \<Rightarrow>
          (let orderNo = pv_orderNo env 0; pid = fresh_payment_id s;
               row = new_payment pid userID tenantID gateway amount currency subject orderNo x;
               order = \<lparr>po_OrderNo = orderNo, po_Amount = amount, po_Currency = currency\<rparr>
           in if pv_down env CreatePaymentRow \<or> (\<exists>p \<in> set (py_payments s). pm_OrderNo p = Some orderNo)
              then (Inl (PayDown CreatePaymentRow), s)
              else (let s2 = called_gateway (CreateOrderCall gateway order) (s\<lparr>py_payments := py_payments s @ [row]\<rparr>)
                    in case pv_create env 0 order of
                         None \<Rightarrow> (Inl GatewayFailed, set_status env pid PaymentStatusFailed s2)
                       | Some txn \<Rightarrow>
                           (Inr orderNo, pay_recordAuditLog env ''payment_create'' pid
                              (cache_order env orderNo pid (set_txn env pid txn s2))))))"

section \<open>Crediting a payment\<close>

text \<open>The balance is read without a lock (the option \<open>gorm:query_option\<close> of the first version of
  GORM is not known to the version used), changed in the legacy columns and saved as a whole row:
  reading and writing are two steps.\<close>

definition credit_load :: "ledger_env \<Rightarrow> nat \<Rightarrow> nat \<Rightarrow> UserBalance ledger_act" where
  "credit_load env userID tenantID s =
     (if le_fails env LockBalance then (Inl (DBError LockBalance), s)
      else case lg_balances s userID of
        Some ub \<Rightarrow> (Inr ub, s)
      | None \<Rightarrow>
          (if le_fails env CreateBalance then (Inl (DBError CreateBalance), s)
           else if le_fails env RelockBalance then (Inl (DBError RelockBalance), s)
           else (let ub = zero_UserBalance\<lparr>ub_UserID := userID, ub_TenantID := tenantID, ub_Currency := ''CREDIT''\<rparr>
                 in (Inr ub, s\<lparr>lg_balances := (lg_balances s)(userID \<mapsto> ub)\<rparr>))))"

definition credited_row :: "int64 \<Rightarrow> UserBalance \<Rightarrow> UserBalance" where
  "credited_row creditAmount ub =
     (let b = add64 (ub_Balance ub) creditAmount
      in ub\<lparr>ub_Balance := b, ub_BalanceRMB := CreditsToRMB b, ub_FreeQuotaRMB := CreditsToRMB (ub_FreeQuota ub),
            ub_TotalRecharged := add64 (ub_TotalRecharged ub) creditAmount\<rparr>)"

definition credit_write :: "ledger_env \<Rightarrow> nat \<Rightarrow> nat \<Rightarrow> int64 \<Rightarrow> string \<Rightarrow> UserBalance \<Rightarrow> unit ledger_act" where
  "credit_write env userID tenantID creditAmount orderNo ub =
     andThen (saveBalance env userID (credited_row creditAmount ub)) (\<lambda>_.
     createRecord env
       \<lparr>br_UserID = userID, br_TenantID = tenantID, br_Type = ''RECHARGE'', br_Amount = creditAmount,
        br_AmountRMB = CreditsToRMB creditAmount, br_BeforeBalance = ub_Balance ub,
        br_AfterBalance = add64 (ub_Balance ub) creditAmount, br_AmountUnits = 0, br_BeforeBalanceUnits = 0,
        br_AfterBalanceUnits = 0, br_Remark = ''payment recharge'', br_RelatedID = orderNo\<rparr>)"

definition credit_tenant :: "ledger_env \<Rightarrow> nat \<Rightarrow> nat \<Rightarrow> nat ledger_act" where
  "credit_tenant env userID tenantID s =
     (if tenantID \<noteq> 0 then (Inr tenantID, s)
      else if le_fails env QueryUser then (Inl (DBError QueryUser), s)
      else case first_where (\<lambda>u. us_ID u = userID) (lg_users s) of
             None \<Rightarrow> (Inl RecordNotFound, s)
           | Some u \<Rightarrow> (Inr (us_TenantID u), s))"

definition creditUserBalance :: "ledger_env \<Rightarrow> nat \<Rightarrow> nat \<Rightarrow> int64 \<Rightarrow> string \<Rightarrow> unit ledger_act" where
  "creditUserBalance env userID tenantID creditAmount orderNo =
     (if creditAmount \<le> 0 then fail NotPositive
      else andThen (credit_tenant env userID tenantID) (\<lambda>tid.
           andThen (transaction (andThen (credit_load env userID tid) (credit_write env userID tid creditAmount orderNo))) (\<lambda>_.
           InvalidateCache userID)))"


definition CreditUserFromMock :: "pay_env \<Rightarrow> nat \<Rightarrow> nat \<Rightarrow> int64 \<Rightarrow> string \<Rightarrow> unit pay_act" where
  "CreditUserFromMock env userID tenantID creditAmount orderNo =
     on_pay_ledger (creditUserBalance (pv_ledger env) userID tenantID creditAmount orderNo)"

section \<open>Callbacks\<close>

text \<open>First half: what the gateway says, and the order it is about.\<close>

definition verify_callback :: "pay_env \<Rightarrow> string \<Rightarrow> CallbackResult option" where
  "verify_callback env gateway = (if pv_bypass env then pv_parsed env gateway else pv_verified env gateway)"

definition load_callback :: "pay_env \<Rightarrow> string \<Rightarrow> (CallbackResult \<times> Payment) pay_act" where
  "load_callback env gateway s =
     (if gateway \<notin> set (pv_gateways env) then (Inl (UnsupportedGateway gateway), s)
      else case verify_callback env gateway of
        None \<Rightarrow> (Inl VerifyFailed, LogPaymentEvent env ''payment.callback_failed'' None None False s)
      | Some r \<Rightarrow>
          if cb_OrderNo r = '''' then (Inl MissingOrderNo, s)
          else andThen (QueryPayment env (cb_OrderNo r)) (\<lambda>p. ret (r, p)) s)"

definition pay_rows :: "Payment list \<Rightarrow> payment_row list" where
  "pay_rows = map (\<lambda>p. \<lparr>pay_UserID = pm_UserID p, pay_Completed = (pm_Status p = PaymentStatusCompleted),
     pay_CreditAmount = pm_CreditAmount p\<rparr>)"

definition grant_bonus :: "pay_env \<Rightarrow> nat \<Rightarrow> payments \<Rightarrow> payments" where
  "grant_bonus env userID s =
     s\<lparr>py_ledger := TryGrantInviterBonus (pv_ledger env) (pv_monthStart env) userID
        ((py_ledger s)\<lparr>lg_payments := pay_rows (py_payments s)\<rparr>)\<rparr>"

definition credit_payment :: "pay_env \<Rightarrow> CallbackResult \<Rightarrow> Payment \<Rightarrow> payments \<Rightarrow> payments" where
  "credit_payment env r p s =
     (let (outcome, s1) = on_pay_ledger (creditUserBalance (pv_ledger env) (pm_UserID p) (pm_TenantID p)
             (pm_CreditAmount p) (cb_OrderNo r)) s;
          ok = (case outcome of Inl _ \<Rightarrow> False | Inr _ \<Rightarrow> True);
          s2 = LogPaymentEvent env (if ok then ''payment.credited'' else ''payment.credit_failed'') (Some (pm_ID p)) None ok s1
      in grant_bonus env (pm_UserID p) (s2\<lparr>py_published := py_published s2 @ [cb_OrderNo r]\<rparr>))"

text \<open>Second half: acts on the order as it was read.\<close>

definition commit_callback :: "pay_env \<Rightarrow> CallbackResult \<Rightarrow> Payment \<Rightarrow> unit pay_act" where
  "commit_callback env r p s0 =
     (let s = LogPaymentEvent env ''payment.callback_verified'' (Some (pm_ID p)) None True
                (LogPaymentEvent env ''payment.callback_received'' (Some (pm_ID p)) None True s0)
      in if pm_Status p = PaymentStatusCompleted \<or> pm_Status p = PaymentStatusRefunded then (Inr (), s)
         else if AmountToCents (cb_Amount r) \<noteq> AmountToCents (pm_Amount p) then (Inl AmountMismatch, s)
         else if pv_down env UpdatePayment then (Inl (PayDown UpdatePayment), s)
         else (let new = (if cb_Status r = ''success'' then PaymentStatusCompleted else PaymentStatusFailed);
                   s1 = on_payment (pm_ID p) (\<lambda>q. q\<lparr>pm_Status := new, pm_GatewayTxnID := cb_GatewayTxnID r\<rparr>) s;
                   s2 = (if new = PaymentStatusCompleted then credit_payment env r p s1 else s1)
               in (Inr (), pay_recordAuditLog env ''payment_callback'' (pm_ID p) s2)))"

definition HandleCallback :: "pay_env \<Rightarrow> string \<Rightarrow> unit pay_act" where
  "HandleCallback env gateway = andThen (load_callback env gateway) (\<lambda>(r, p). commit_callback env r p)"

section \<open>The refund of the merchant\<close>

definition RefundPayment :: "pay_env \<Rightarrow> string \<Rightarrow> float64 \<Rightarrow> unit pay_act" where
  "RefundPayment env orderNo amount =
     andThen (QueryPayment env orderNo) (\<lambda>p s.
       if pm_Status p \<noteq> PaymentStatusCompleted then (Inl (NotRefundable (pm_Status p)), s)
       else if amount \<le> 0 \<or> AmountToCents amount > AmountToCents (pm_Amount p) then (Inl InvalidAmount, s)
       else if pm_Gateway p \<notin> set (pv_gateways env) then (Inl (UnsupportedGateway (pm_Gateway p)), s)
       else (let s1 = called_gateway (RefundCall (pm_Gateway p) orderNo amount) s
             in case pv_refund env (pm_Gateway p) amount of
                  None \<Rightarrow> (Inl GatewayFailed, s1)
                | Some r \<Rightarrow>
                    (Inr (), pay_recordAuditLog env ''payment_refund'' (pm_ID p)
                       (if rr_RefundStatus r = ''success'' then set_status env (pm_ID p) PaymentStatusRefunded s1 else s1))))"

section \<open>Orders over several accounts\<close>

record CreatePaymentWithRoutingInput =
  ci_UserID :: nat
  ci_TenantID :: nat
  ci_Gateway :: string
  ci_Amount :: float64
  ci_Currency :: string
  ci_Region :: string
  ci_Subject :: string

text \<open>The amounts shown in yuan and in dollars, and the rate.\<close>

definition display_amounts :: "pay_env \<Rightarrow> CreatePaymentWithRoutingInput \<Rightarrow> float64 \<times> float64 \<times> float64" where
  "display_amounts env inp =
     (if ci_Currency inp = ''USD'' then
        (case pv_fetcher env of
           None \<Rightarrow> (0, ci_Amount inp, 0)
         | Some rate \<Rightarrow> (roundHalf (fmul (ci_Amount inp) rate), ci_Amount inp, rate))
      else if ci_Currency inp = ''CNY'' \<or> ci_Currency inp = '''' then
        (case pv_fetcher env of
           None \<Rightarrow> (ci_Amount inp, 0, 0)
         | Some rate \<Rightarrow> if rate > 0 then (ci_Amount inp, roundHalf (fdiv (ci_Amount inp) rate), rate) else (ci_Amount inp, 0, 0))
      else (0, 0, 0))"

definition createOrderOnce ::
  "pay_env \<Rightarrow> nat \<Rightarrow> CreatePaymentWithRoutingInput \<Rightarrow> nat option \<Rightarrow> float64 \<times> float64 \<times> float64 \<Rightarrow> string pay_act" where
  "createOrderOnce env k inp account shown s =
     (if ci_Gateway inp \<notin> set (pv_gateways env) then (Inl (UnsupportedGateway (ci_Gateway inp)), s)
      else case CalculateExchange env (ci_Amount inp) (ci_Currency inp) s of
        Inl e \<Rightarrow> (Inl e, s)
      | Inr x \<Rightarrow>
          (let orderNo = pv_orderNo env k; pid = fresh_payment_id s; (cny, usd, rate) = shown;
               row = (new_payment pid (ci_UserID inp) (ci_TenantID inp) (ci_Gateway inp) (ci_Amount inp) (ci_Currency inp)
                       (ci_Subject inp) orderNo x)
                     \<lparr>pm_ProviderAccountID := account,
                      pm_DisplayCurrency := (if ci_Currency inp = '''' then ''CNY'' else ci_Currency inp),
                      pm_DisplayAmountUSD := usd, pm_DisplayAmountCNY := cny, pm_ExchangeRateUsed := rate\<rparr>;
               order = \<lparr>po_OrderNo = orderNo, po_Amount = ci_Amount inp, po_Currency = ci_Currency inp\<rparr>
           in if pv_down env CreatePaymentRow \<or> (\<exists>p \<in> set (py_payments s). pm_OrderNo p = Some orderNo)
              then (Inl (PayDown CreatePaymentRow), s)
              else (let s1 = LogPaymentEvent env ''payment.created'' (Some pid) None True (s\<lparr>py_payments := py_payments s @ [row]\<rparr>);
                        s2 = called_gateway (CreateOrderCall (ci_Gateway inp) order)
                               (LogPaymentEvent env ''payment.gateway_request'' (Some pid) None True s1)
                    in case pv_create env k order of
                         None \<Rightarrow> (Inl GatewayFailed, LogPaymentEvent env ''payment.gateway_response'' (Some pid) None False
                                   (set_status env pid PaymentStatusFailed s2))
                       | Some txn \<Rightarrow>
                           (Inr orderNo, LogPaymentEvent env ''payment.gateway_response'' (Some pid) None True
                              (cache_order env orderNo pid (set_txn env pid txn s2))))))"

definition createWithoutRouting ::
  "pay_env \<Rightarrow> CreatePaymentWithRoutingInput \<Rightarrow> float64 \<times> float64 \<times> float64 \<Rightarrow> string pay_act" where
  "createWithoutRouting env inp shown =
     andThen (CreatePayment env (ci_UserID inp) (ci_TenantID inp) (ci_Gateway inp) (ci_Amount inp) (ci_Currency inp) (ci_Subject inp))
       (\<lambda>orderNo s. let (cny, usd, rate) = shown in
          (Inr orderNo,
           if orderNo \<noteq> '''' \<and> (cny > 0 \<or> usd > 0) \<and> \<not> pv_down env UpdatePayment
           then s\<lparr>py_payments := map (\<lambda>p. if pm_OrderNo p = Some orderNo
                  then p\<lparr>pm_DisplayCurrency := ci_Currency inp, pm_DisplayAmountUSD := usd,
                         pm_DisplayAmountCNY := cny, pm_ExchangeRateUsed := rate\<rparr> else p) (py_payments s)\<rparr>
           else s))"

text \<open>\<open>left\<close> turns remain of three; \<open>k\<close> is the number of the turn.\<close>

fun routing_loop ::
  "pay_env \<Rightarrow> CreatePaymentWithRoutingInput \<Rightarrow> float64 \<times> float64 \<times> float64 \<Rightarrow> nat \<Rightarrow> nat \<Rightarrow> nat list \<Rightarrow> string pay_act" where
  "routing_loop env inp shown 0 k excluded s = (Inl AllAttemptsFailed, s)"
| "routing_loop env inp shown (Suc left) k excluded s =
     (let chosen = (if \<not> pv_router env then Inr None
            else case SelectAccount env k \<lparr>sa_ProviderType = ci_Gateway inp, sa_Currency = ci_Currency inp,
                        sa_Region = ci_Region inp, sa_ExcludeIDs = excluded\<rparr> s of
                   Inl e \<Rightarrow> Inl e | Inr a \<Rightarrow> Inr (Some (pa_ID a)))
      in case chosen of
           Inl e \<Rightarrow> if k = 0 then createWithoutRouting env inp shown s else (Inl e, s)
         | Inr account \<Rightarrow>
             (let aid = (case account of None \<Rightarrow> 0 | Some a \<Rightarrow> a)
              in case createOrderOnce env k inp account shown s of
                   (Inr orderNo, s1) \<Rightarrow> (Inr orderNo, UpdateAccountAfterPayment env aid True (fst shown) s1)
                 | (Inl e, s1) \<Rightarrow>
                     routing_loop env inp shown left (Suc k) (if aid > 0 then excluded @ [aid] else excluded)
                       (UpdateAccountAfterPayment env aid False 0 s1)))"

definition CreatePaymentWithRouting :: "pay_env \<Rightarrow> CreatePaymentWithRoutingInput \<Rightarrow> string pay_act" where
  "CreatePaymentWithRouting env inp s =
     (if ci_Amount inp \<le> 0 then (Inl InvalidAmount, s)
      else routing_loop env inp (display_amounts env inp) 3 0 [] s)"

end
