(* ===== verification/Refund.thy ===== *)
theory Refund
  imports Payment
begin

text \<open>
  \<open>internal/service/payment/refund_service.go\<close>: requests for refunds, their review, and the
  refund itself, which asks the gateway and then books it in one transaction. The review reads a
  request and updates it by its id: the two halves are separate definitions. The refund runs in a
  goroutine the approval starts; \<open>executeRefundAsync\<close> is a step of its own, split where it waits
  for the gateway.
\<close>

definition dailyRefundLimit :: nat where "dailyRefundLimit = 3"

definition InvokeGatewayRefund :: "pay_env \<Rightarrow> Payment \<Rightarrow> float64 \<Rightarrow> (pay_error + RefundResult) \<times> gateway_call option" where
  "InvokeGatewayRefund env p amount =
     (let orderNo = (case pm_OrderNo p of
            Some n \<Rightarrow> if n \<noteq> '''' then n else (case meta_order_no (pm_Metadata p) of None \<Rightarrow> '''' | Some v \<Rightarrow> v)
          | None \<Rightarrow> (case meta_order_no (pm_Metadata p) of None \<Rightarrow> '''' | Some v \<Rightarrow> v))
      in if orderNo = '''' then (Inl PaymentNotFound, None)
         else if pv_bypass env then (Inr \<lparr>rr_RefundStatus = ''success'', rr_GatewayRefundID = ''MOCK_REFUND''\<rparr>, None)
         else if pm_Gateway p \<notin> set (pv_gateways env) then (Inl (UnsupportedGateway (pm_Gateway p)), None)
         else (case pv_refund env (pm_Gateway p) amount of None \<Rightarrow> Inl GatewayFailed | Some r \<Rightarrow> Inr r,
               Some (RefundCall (pm_Gateway p) orderNo amount)))"

definition extractOrderNo :: "Payment \<Rightarrow> string" where
  "extractOrderNo p = (case meta_order_no (pm_Metadata p) of Some v \<Rightarrow> v | None \<Rightarrow> ''PAY'' @ show_nat (pm_ID p))"

definition on_request :: "nat \<Rightarrow> (PaymentRefundRequest \<Rightarrow> PaymentRefundRequest) \<Rightarrow> payments \<Rightarrow> payments" where
  "on_request i f s = s\<lparr>py_requests := map (\<lambda>q. if rq_ID q = i then f q else q) (py_requests s)\<rparr>"

section \<open>Asking\<close>

record SubmitUserRequestInput =
  su_UserID :: nat
  su_TenantID :: nat
  su_PaymentID :: nat
  su_AmountRMB :: float64
  su_Reason :: string
  su_ReasonRunes :: nat
  su_Attachments :: "string list"

definition is_open :: "refund_status \<Rightarrow> bool" where
  "is_open st = (st = RefundStatusPending \<or> st = RefundStatusApproved \<or> st = RefundStatusProcessing)"

definition today :: "int \<Rightarrow> int" where "today now = now - now mod 86400"

definition checkDailyLimit :: "pay_env \<Rightarrow> nat \<Rightarrow> payments \<Rightarrow> pay_error option" where
  "checkDailyLimit env userID s =
     (if pv_down env CountDaily then Some (PayDown CountDaily)
      else if dailyRefundLimit \<le> length (filter (\<lambda>q. rq_UserID q = userID \<and> today (pv_now env) \<le> rq_CreatedAt q) (py_requests s))
      then Some DailyLimit else None)"

definition fresh_refund_id :: "payments \<Rightarrow> nat" where
  "fresh_refund_id s = Suc (fold max (map rq_ID (py_requests s)) 0)"

definition new_refund_request :: "pay_env \<Rightarrow> SubmitUserRequestInput \<Rightarrow> Payment \<Rightarrow> nat \<Rightarrow> PaymentRefundRequest" where
  "new_refund_request env inp p i =
     \<lparr>rq_ID = i, rq_PaymentID = su_PaymentID inp, rq_UserID = su_UserID inp, rq_TenantID = su_TenantID inp,
      rq_OrderNo = extractOrderNo p, rq_RefundAmountRMB = su_AmountRMB inp, rq_Reason = su_Reason inp,
      rq_Attachments = su_Attachments inp, rq_Status = RefundStatusPending, rq_AdminID = None, rq_AdminRemark = '''',
      rq_GatewayRefundID = '''', rq_GatewayResponse = '''', rq_ProcessedAt = None, rq_CompletedAt = None,
      rq_CreatedAt = pv_now env\<rparr>"

definition SubmitUserRequest :: "pay_env \<Rightarrow> SubmitUserRequestInput \<Rightarrow> PaymentRefundRequest pay_act" where
  "SubmitUserRequest env inp s =
     (if su_UserID inp = 0 \<or> su_PaymentID inp = 0 then (Inl InvalidInput, s)
      else if su_AmountRMB inp \<le> 0 then (Inl InvalidAmount, s)
      else if TrimSpace (su_Reason inp) = '''' then (Inl ReasonRequired, s)
      else if su_ReasonRunes inp > 500 then (Inl ReasonTooLong, s)
      else andThen (load_payment env (su_PaymentID inp)) (\<lambda>p s.
        if pm_UserID p \<noteq> su_UserID inp then (Inl NotPaymentOwner, s)
        else if pm_Status p \<noteq> PaymentStatusCompleted \<and> pm_Status p \<noteq> PaymentStatusPartialRefunded
        then (Inl (NotRefundable (pm_Status p)), s)
        else if su_AmountRMB inp > fadd (roundHalf (fsub (pm_Amount p) (pm_RefundedAmount p))) (lit (1 / 1000))
        then (Inl ExceedsRemaining, s)
        else if pv_down env CountRequests then (Inl (PayDown CountRequests), s)
        else if \<exists>q \<in> set (py_requests s). rq_PaymentID q = su_PaymentID inp \<and> is_open (rq_Status q)
        then (Inl RequestPending, s)
        else case checkDailyLimit env (su_UserID inp) s of
          Some e \<Rightarrow> (Inl e, s)
        | None \<Rightarrow>
            if length (su_Attachments inp) > 3 then (Inl TooManyAttachments, s)
            else if pv_down env CreateRequest then (Inl (PayDown CreateRequest), s)
            else (let q = new_refund_request env inp p (fresh_refund_id s)
                  in (Inr q, LogPaymentEvent env ''refund.requested'' (Some (pm_ID p)) (Some (rq_ID q)) True
                        (s\<lparr>py_requests := py_requests s @ [q]\<rparr>)))) s)"

section \<open>The review\<close>

definition load_refund :: "pay_env \<Rightarrow> nat \<Rightarrow> PaymentRefundRequest pay_act" where
  "load_refund env i s =
     (if pv_down env QueryRequest then (Inl (PayDown QueryRequest), s)
      else case first_where (\<lambda>q. rq_ID q = i) (py_requests s) of
             None \<Rightarrow> (Inl PaymentNotFound, s)
           | Some q \<Rightarrow> (Inr q, s))"

definition require_pending :: "pay_env \<Rightarrow> nat \<Rightarrow> PaymentRefundRequest pay_act" where
  "require_pending env i =
     andThen (load_refund env i) (\<lambda>q s.
       if rq_Status q \<noteq> RefundStatusPending then (Inl (WrongRefundStatus (rq_Status q)), s) else (Inr q, s))"

definition review :: "pay_env \<Rightarrow> refund_status \<Rightarrow> string \<Rightarrow> nat \<Rightarrow> string \<Rightarrow> PaymentRefundRequest \<Rightarrow> unit pay_act" where
  "review env st evt adminID remark q s =
     (if pv_down env UpdateRequest then (Inl (PayDown UpdateRequest), s)
      else (Inr (), LogPaymentEvent env evt (Some (rq_PaymentID q)) (Some (rq_ID q)) True
        (on_request (rq_ID q) (\<lambda>r. r\<lparr>rq_Status := st, rq_AdminID := Some adminID, rq_AdminRemark := remark,
           rq_ProcessedAt := Some (pv_now env)\<rparr>) s)))"

definition commit_approve :: "pay_env \<Rightarrow> nat \<Rightarrow> string \<Rightarrow> PaymentRefundRequest \<Rightarrow> unit pay_act" where
  "commit_approve env = review env RefundStatusApproved ''refund.approved''"

definition commit_reject :: "pay_env \<Rightarrow> nat \<Rightarrow> string \<Rightarrow> PaymentRefundRequest \<Rightarrow> unit pay_act" where
  "commit_reject env = review env RefundStatusRejected ''refund.rejected''"

text \<open>An approval that succeeds starts \<open>executeRefundAsync\<close> for the request.\<close>

definition ApproveByAdmin :: "pay_env \<Rightarrow> nat \<Rightarrow> nat \<Rightarrow> string \<Rightarrow> unit pay_act" where
  "ApproveByAdmin env i adminID remark = andThen (require_pending env i) (commit_approve env adminID remark)"

definition RejectByAdmin :: "pay_env \<Rightarrow> nat \<Rightarrow> nat \<Rightarrow> string \<Rightarrow> unit pay_act" where
  "RejectByAdmin env i adminID reason = andThen (require_pending env i) (commit_reject env adminID reason)"

section \<open>The refund\<close>

definition markRefundFailed :: "pay_env \<Rightarrow> nat \<Rightarrow> string \<Rightarrow> payments \<Rightarrow> payments" where
  "markRefundFailed env i reason s =
     LogPaymentEvent env ''refund.failed'' None (Some i) False
       (if pv_down env UpdateRequest then s
        else on_request i (\<lambda>r. r\<lparr>rq_Status := RefundStatusFailed, rq_GatewayResponse := reason,
               rq_CompletedAt := Some (pv_now env)\<rparr>) s)"

text \<open>Up to the answer of the gateway: the request, the order and the answer it goes on with.\<close>

definition start_refund :: "pay_env \<Rightarrow> nat \<Rightarrow> payments \<Rightarrow> (PaymentRefundRequest \<times> Payment \<times> RefundResult) option \<times> payments" where
  "start_refund env i s0 =
     (let s = (if pv_down env UpdateRequest then s0 else on_request i (\<lambda>r. r\<lparr>rq_Status := RefundStatusProcessing\<rparr>) s0)
      in case load_refund env i s of
           (Inl e, s1) \<Rightarrow> (None, s1)
         | (Inr q, s1) \<Rightarrow>
             (case load_payment env (rq_PaymentID q) s1 of
                (Inl e, s2) \<Rightarrow> (None, markRefundFailed env i ''load payment failed'' s2)
              | (Inr p, s2) \<Rightarrow>
                  (let (answer, call) = InvokeGatewayRefund env p (rq_RefundAmountRMB q);
                       ok = (case answer of Inl _ \<Rightarrow> False | Inr _ \<Rightarrow> True);
                       s3 = LogPaymentEvent env ''refund.gateway_called'' (Some (pm_ID p)) (Some i) ok
                              (case call of None \<Rightarrow> s2 | Some c \<Rightarrow> called_gateway c s2)
                   in case answer of
                        Inl e \<Rightarrow> (None, markRefundFailed env i ''gateway'' s3)
                      | Inr r \<Rightarrow> (Some (q, p, r), s3))))"

text \<open>The transaction, on the order as it was read before the gateway was called. The row of the
  balance is locked.\<close>

definition refund_request_row :: "pay_env \<Rightarrow> PaymentRefundRequest \<Rightarrow> RefundResult \<Rightarrow> unit pay_act" where
  "refund_request_row env q r =
     guarded (pv_down env UpdateRequest) (PayDown UpdateRequest)
       (modify (on_request (rq_ID q) (\<lambda>x. x\<lparr>rq_Status := RefundStatusCompleted,
          rq_GatewayRefundID := rr_GatewayRefundID r, rq_GatewayResponse := rr_RefundStatus r,
          rq_CompletedAt := Some (pv_now env)\<rparr>)))"

definition refund_payment_row :: "pay_env \<Rightarrow> PaymentRefundRequest \<Rightarrow> Payment \<Rightarrow> unit pay_act" where
  "refund_payment_row env q p =
     (let newRefunded = roundHalf (fadd (pm_RefundedAmount p) (rq_RefundAmountRMB q));
          newStatus = (if newRefunded \<ge> fsub (pm_Amount p) (lit (1 / 1000)) then PaymentStatusRefunded else PaymentStatusPartialRefunded)
      in guarded (pv_down env UpdatePayment) (PayDown UpdatePayment)
           (modify (on_payment (pm_ID p) (\<lambda>x. x\<lparr>pm_RefundedAmount := newRefunded,
              pm_RefundCount := pm_RefundCount x + 1, pm_Status := newStatus\<rparr>))))"

definition refunded_row :: "int64 \<Rightarrow> UserBalance \<Rightarrow> UserBalance" where
  "refunded_row refundCredits ub =
     (let b = sub64 (ub_Balance ub) refundCredits in ub\<lparr>ub_Balance := b, ub_BalanceRMB := CreditsToRMB b\<rparr>)"

definition refund_balance :: "ledger_env \<Rightarrow> PaymentRefundRequest \<Rightarrow> Payment \<Rightarrow> unit ledger_act" where
  "refund_balance env q p =
     (let refundCredits = RMBToCredits (rq_RefundAmountRMB q)
      in andThen (lockBalance env (pm_UserID p)) (\<lambda>ub.
         andThen (saveBalance env (pm_UserID p) (refunded_row refundCredits ub)) (\<lambda>_.
         createRecord env
           \<lparr>br_UserID = pm_UserID p, br_TenantID = pm_TenantID p, br_Type = ''REFUND'', br_Amount = neg64 refundCredits,
            br_AmountRMB = - rq_RefundAmountRMB q, br_BeforeBalance = ub_Balance ub,
            br_AfterBalance = sub64 (ub_Balance ub) refundCredits, br_AmountUnits = 0, br_BeforeBalanceUnits = 0,
            br_AfterBalanceUnits = 0, br_Remark = ''refund '' @ rq_OrderNo q,
            br_RelatedID = ''refund:'' @ show_nat (rq_ID q)\<rparr>)))"

definition book_refund :: "pay_env \<Rightarrow> PaymentRefundRequest \<Rightarrow> Payment \<Rightarrow> RefundResult \<Rightarrow> unit pay_act" where
  "book_refund env q p r =
     transaction (andThen (refund_request_row env q r) (\<lambda>_.
       andThen (refund_payment_row env q p) (\<lambda>_. on_pay_ledger (refund_balance (pv_ledger env) q p))))"

definition finish_refund :: "pay_env \<Rightarrow> PaymentRefundRequest \<Rightarrow> Payment \<Rightarrow> RefundResult \<Rightarrow> payments \<Rightarrow> payments" where
  "finish_refund env q p r s =
     (case book_refund env q p r s of
        (Inl e, s1) \<Rightarrow>
          LogPaymentEvent env ''refund.failed'' (Some (pm_ID p)) (Some (rq_ID q)) False
            (markRefundFailed env (rq_ID q) ''db tx failed after gateway success'' s1)
      | (Inr _, s1) \<Rightarrow> LogPaymentEvent env ''refund.completed'' (Some (pm_ID p)) (Some (rq_ID q)) True s1)"

definition executeRefundAsync :: "pay_env \<Rightarrow> nat \<Rightarrow> payments \<Rightarrow> payments" where
  "executeRefundAsync env i s =
     (case start_refund env i s of
        (None, s1) \<Rightarrow> s1
      | (Some (q, p, r), s1) \<Rightarrow> finish_refund env q p r s1)"

section \<open>Batches\<close>

text \<open>The ids that went through and the ids that failed.\<close>

fun batch :: "(nat \<Rightarrow> unit pay_act) \<Rightarrow> nat list \<Rightarrow> nat list \<Rightarrow> nat list \<Rightarrow> payments \<Rightarrow> (nat list \<times> nat list) \<times> payments" where
  "batch act [] okIDs failedIDs s = ((okIDs, failedIDs), s)"
| "batch act (i # is) okIDs failedIDs s =
     (case act i s of
        (Inl _, s1) \<Rightarrow> batch act is okIDs (failedIDs @ [i]) s1
      | (Inr _, s1) \<Rightarrow> batch act is (okIDs @ [i]) failedIDs s1)"

definition BatchApproveRefunds :: "pay_env \<Rightarrow> nat list \<Rightarrow> nat \<Rightarrow> string \<Rightarrow> payments \<Rightarrow> (nat list \<times> nat list) \<times> payments" where
  "BatchApproveRefunds env ids adminID remark = batch (\<lambda>i. ApproveByAdmin env i adminID remark) ids [] []"

definition BatchRejectRefunds :: "pay_env \<Rightarrow> nat list \<Rightarrow> nat \<Rightarrow> string \<Rightarrow> payments \<Rightarrow> (nat list \<times> nat list) \<times> payments" where
  "BatchRejectRefunds env ids adminID reason = batch (\<lambda>i. RejectByAdmin env i adminID reason) ids [] []"

end
