(* ===== verification/Payment_Laws.thy ===== *)
theory Payment_Laws
  imports Refund Wallet
begin

text \<open>
  What payments keep: a callback credits an order at most once while orders are not refunded in part,
  a partly refunded order is credited again, a top-up in the legacy columns is lost on an account held
  in billing units, and what refunds pay out and take back.
\<close>

section \<open>The part of the state that matters\<close>

definition is_topup :: "BalanceRecord \<Rightarrow> bool" where
  "is_topup r \<longleftrightarrow> br_Type r = ''RECHARGE''"

definition topup_list :: "payments \<Rightarrow> BalanceRecord list" where
  "topup_list s = filter is_topup (lg_records (py_ledger s))"

definition core :: "payments \<Rightarrow> Payment list \<times> (string \<Rightarrow> (nat \<times> int) option) \<times> BalanceRecord list" where
  "core s = (py_payments s, py_orderCache s, topup_list s)"

lemma bonus_topups:
  "filter is_topup (lg_records (TryGrantInviterBonus env ms u s)) = filter is_topup (lg_records s)"
proof -
  define I where "I = (\<lambda>t :: ledger. filter is_topup (lg_records t) = filter is_topup (lg_records s))"
  have "keeps I (grant_inviter env attr qc inviter ib)" for attr qc inviter ib
    unfolding grant_inviter_def
    by (intro keeps_transaction keeps_andThen keeps_if keeps_ret)
      (auto simp: keeps_def I_def updateAttributions_def addBalance_def createRecord_def guarded_def fail_def modify_def
         bonus_record_def is_topup_def)
  then have "I (snd (grant_inviter env attr qc inviter ib s))" for attr qc inviter ib
    using keepsD [OF _ _ prod.collapse [symmetric], of I "grant_inviter env attr qc inviter ib" s] by (simp add: I_def)
  then have g: "filter is_topup (lg_records (snd (grant_inviter env attr qc inviter ib s))) = filter is_topup (lg_records s)"
    for attr qc inviter ib by (simp add: I_def)
  have "TryGrantInviterBonus env ms u s = s \<or>
      (\<exists>attr qc inviter ib. TryGrantInviterBonus env ms u s = snd (grant_inviter env attr qc inviter ib s))"
  proof (cases "u = 0")
    case False
    show ?thesis
    proof (cases "query_attribution env (\<lambda>a. ra_UserID a = u \<and> ra_IsValid a \<and> \<not> ra_InviterBonusGranted a) s")
      case (Some attr)
      show ?thesis
      proof (cases "if le_fails env QueryConfig then None else active_quota_config s")
        case (Some qc)
        then show ?thesis
          unfolding TryGrantInviterBonus_def \<open>query_attribution env _ s = Some attr\<close> Some
          by (simp split: option.split) blast
      qed (simp add: TryGrantInviterBonus_def Some)
    qed (simp add: TryGrantInviterBonus_def)
  qed (simp add: TryGrantInviterBonus_def)
  then show ?thesis using g by metis
qed

lemma core_simps [simp]:
  "core (LogPaymentEvent env ty p r ok s) = core s"
  "core (pay_recordAuditLog env act i s) = core s"
  "core (called_gateway c s) = core s"
  "core (grant_bonus env u s) = core s"
  "core (UpdateAccountAfterPayment env a ok x s) = core s"
  "core (s\<lparr>py_published := ps\<rparr>) = core s"
  "core (s\<lparr>py_requests := qs\<rparr>) = core s"
  by (auto simp: core_def topup_list_def LogPaymentEvent_def pay_recordAuditLog_def called_gateway_def grant_bonus_def
      bonus_topups UpdateAccountAfterPayment_def MarkAccountSuccess_def MarkAccountFailed_def on_account_def)

lemma payments_simps [simp]:
  "py_payments (LogPaymentEvent env ty p r ok s) = py_payments s"
  "py_ledger (LogPaymentEvent env ty p r ok s) = py_ledger s"
  "py_payments (called_gateway c s) = py_payments s"
  "py_payments (on_payment i f s) = map (\<lambda>p. if pm_ID p = i then f p else p) (py_payments s)"
  "py_ledger (on_payment i f s) = py_ledger s"
  by (auto simp: LogPaymentEvent_def called_gateway_def on_payment_def)

definition terminal :: "payment_status \<Rightarrow> bool" where
  "terminal st \<longleftrightarrow> st = PaymentStatusCompleted \<or> st = PaymentStatusRefunded"

definition credited :: "string \<Rightarrow> BalanceRecord list \<Rightarrow> nat" where
  "credited n rs = length (filter (\<lambda>r. br_RelatedID r = n) rs)"

definition orders_ok :: "Payment list \<Rightarrow> (string \<Rightarrow> (nat \<times> int) option) \<Rightarrow> bool" where
  "orders_ok ps cache \<longleftrightarrow> distinct (map pm_ID ps) \<and> distinct (map pm_OrderNo ps) \<and>
     (\<forall>p \<in> set ps. pm_OrderNo p \<noteq> None \<and> meta_order_no (pm_Metadata p) = pm_OrderNo p) \<and>
     (\<forall>n pid e. cache n = Some (pid, e) \<longrightarrow> (\<exists>p \<in> set ps. pm_ID p = pid \<and> pm_OrderNo p = Some n))"

definition paid_once :: "Payment list \<Rightarrow> BalanceRecord list \<Rightarrow> bool" where
  "paid_once ps rs \<longleftrightarrow> (\<forall>n. credited n rs \<le> 1 \<and>
     (credited n rs \<noteq> 0 \<longrightarrow> (\<exists>p \<in> set ps. pm_OrderNo p = Some n \<and> terminal (pm_Status p))))"

definition sound :: "Payment list \<times> (string \<Rightarrow> (nat \<times> int) option) \<times> BalanceRecord list \<Rightarrow> bool" where
  "sound c = (case c of (ps, cache, rs) \<Rightarrow> orders_ok ps cache \<and> paid_once ps rs)"

lemma credited_simps [simp]:
  "credited n [] = 0"
  "credited n (rs @ ss) = credited n rs + credited n ss"
  "credited n (r # rs) = (if br_RelatedID r = n then Suc (credited n rs) else credited n rs)"
  by (simp_all add: credited_def)

text \<open>An update of one row that keeps its identity.\<close>

definition keeps_identity :: "(Payment \<Rightarrow> Payment) \<Rightarrow> bool" where
  "keeps_identity f \<longleftrightarrow> (\<forall>p. pm_ID (f p) = pm_ID p \<and> pm_OrderNo (f p) = pm_OrderNo p \<and> pm_Metadata (f p) = pm_Metadata p)"

lemma orders_ok_update:
  assumes "orders_ok ps cache" "keeps_identity f"
  shows "orders_ok (map (\<lambda>p. if b p then f p else p) ps) cache"
proof -
  let ?g = "\<lambda>p. if b p then f p else p"
  have g: "pm_ID (?g p) = pm_ID p" "pm_OrderNo (?g p) = pm_OrderNo p" "pm_Metadata (?g p) = pm_Metadata p" for p
    using assms(2) by (auto simp: keeps_identity_def)
  have m: "map pm_ID (map ?g ps) = map pm_ID ps" "map pm_OrderNo (map ?g ps) = map pm_OrderNo ps"
    using g by simp_all
  have c: "\<exists>p \<in> set (map ?g ps). pm_ID p = pid \<and> pm_OrderNo p = Some n" if a: "cache n = Some (pid, e)" for n pid e
  proof -
    obtain p where "p \<in> set ps" "pm_ID p = pid" "pm_OrderNo p = Some n" using assms(1) a unfolding orders_ok_def by blast
    then show ?thesis using g by (intro bexI [of _ "?g p"]) auto
  qed
  have r: "pm_OrderNo q \<noteq> None \<and> meta_order_no (pm_Metadata q) = pm_OrderNo q" if a: "q \<in> set (map ?g ps)" for q
  proof -
    obtain p where "p \<in> set ps" "q = ?g p" using a by auto
    then show ?thesis using assms(1) g [of p] unfolding orders_ok_def by metis
  qed
  show ?thesis unfolding orders_ok_def m using assms(1) c r by (auto simp: orders_ok_def)
qed

lemma orders_unique:
  assumes "orders_ok ps cache" "p \<in> set ps" "q \<in> set ps" "pm_OrderNo p = pm_OrderNo q \<or> pm_ID p = pm_ID q"
  shows "p = q"
  using assms unfolding orders_ok_def by (auto simp: distinct_map dest: inj_onD)


lemma uncredited:
  assumes "orders_ok ps cache" "paid_once ps rs" "p \<in> set ps" "\<not> terminal (pm_Status p)" "pm_OrderNo p = Some n"
  shows "credited n rs = 0"
proof (rule ccontr)
  assume "credited n rs \<noteq> 0"
  then obtain q where q: "q \<in> set ps" "pm_OrderNo q = Some n" "terminal (pm_Status q)" using assms(2) unfolding paid_once_def by blast
  then have "q = p" using orders_unique [OF assms(1) q(1) assms(3)] assms(5) by simp
  then show False using q(3) assms(4) by simp
qed

lemma paid_once_update:
  assumes "paid_once ps rs" "keeps_identity f" "\<forall>p \<in> set ps. pm_ID p = i \<and> terminal (pm_Status p) \<longrightarrow> terminal (pm_Status (f p))"
  shows "paid_once (map (\<lambda>p. if pm_ID p = i then f p else p) ps) rs"
proof -
  have "\<exists>q \<in> set (map (\<lambda>p. if pm_ID p = i then f p else p) ps). pm_OrderNo q = Some n \<and> terminal (pm_Status q)"
    if c: "credited n rs \<noteq> 0" for n
  proof -
    obtain p where p: "p \<in> set ps" "pm_OrderNo p = Some n" "terminal (pm_Status p)" using assms(1) c unfolding paid_once_def by blast
    then show ?thesis using assms(2,3)
      by (intro bexI [of _ "if pm_ID p = i then f p else p"]) (auto simp: keeps_identity_def)
  qed
  then show ?thesis using assms(1) by (auto simp: paid_once_def)
qed

lemma sound_update:
  assumes "sound (ps, cache, rs)" "keeps_identity f" "\<forall>p \<in> set ps. pm_ID p = i \<and> terminal (pm_Status p) \<longrightarrow> terminal (pm_Status (f p))"
  shows "sound (map (\<lambda>p. if pm_ID p = i then f p else p) ps, cache, rs)"
  using assms orders_ok_update [of ps cache f "\<lambda>p. pm_ID p = i"] paid_once_update [of ps rs f i] by (simp add: sound_def)

lemma sound_credit:
  assumes "sound (ps, cache, rs)" "p \<in> set ps" "pm_OrderNo p = Some n" "terminal (pm_Status p)" "credited n rs = 0"
    and "br_RelatedID r = n"
  shows "sound (ps, cache, rs @ [r])"
  using assms by (auto simp: sound_def paid_once_def)

lemma sound_new:
  assumes "sound (ps, cache, rs)" "pm_ID p = Suc (fold max (map pm_ID ps) 0)" "pm_OrderNo p = Some n"
    and "\<not> (\<exists>q \<in> set ps. pm_OrderNo q = Some n)" "meta_order_no (pm_Metadata p) = Some n"
  shows "sound (ps @ [p], cache, rs)"
proof -
  have "pm_ID q \<noteq> pm_ID p" if "q \<in> set ps" for q
  proof -
    have "pm_ID q \<le> fold max (map pm_ID ps) 0" using that Max_ge [of "set (0 # map pm_ID ps)" "pm_ID q"]
      by (simp add: Max.set_eq_fold [symmetric])
    then show ?thesis using assms(2) by simp
  qed
  then show ?thesis using assms unfolding sound_def orders_ok_def paid_once_def
    by (auto simp: image_iff) (metis+)
qed

lemma sound_cache:
  assumes "sound (ps, cache, rs)" "p \<in> set ps" "pm_OrderNo p = Some n"
  shows "sound (ps, cache(n := Some (pm_ID p, e)), rs)"
  using assms unfolding sound_def orders_ok_def by (auto split: if_splits)


section \<open>What every operation keeps\<close>

lemma sound_core:
  assumes "core s = core t" "sound (core t)"
  shows "sound (core s)"
  using assms by simp

lemma core_fields: "core s = (py_payments s, py_orderCache s, topup_list s)"
  by (simp add: core_def)

lemma core_on_payment:
  "core (on_payment i f s) = (map (\<lambda>p. if pm_ID p = i then f p else p) (py_payments s), py_orderCache s, topup_list s)"
  by (simp add: core_def on_payment_def topup_list_def)

lemma sound_on_payment:
  assumes "sound (core s)" "keeps_identity f" "\<forall>p \<in> set (py_payments s). pm_ID p = i \<and> terminal (pm_Status p) \<longrightarrow> terminal (pm_Status (f p))"
  shows "sound (core (on_payment i f s))"
  unfolding core_on_payment using assms by (intro sound_update) (simp_all add: core_fields)

lemma identity_updates [simp]:
  "keeps_identity (\<lambda>p. p\<lparr>pm_Status := st\<rparr>)"
  "keeps_identity (\<lambda>p. p\<lparr>pm_GatewayTxnID := txn\<rparr>)"
  "keeps_identity (\<lambda>p. p\<lparr>pm_Status := st, pm_GatewayTxnID := txn\<rparr>)"
  "keeps_identity (\<lambda>p. p\<lparr>pm_DisplayCurrency := c, pm_DisplayAmountUSD := u, pm_DisplayAmountCNY := y, pm_ExchangeRateUsed := x\<rparr>)"
  by (simp_all add: keeps_identity_def)

lemma sound_cache_order:
  assumes "sound (core s)" "p \<in> set (py_payments s)" "pm_OrderNo p = Some n" "pm_ID p = pid"
  shows "sound (core (cache_order env n pid s))"
  using assms sound_cache [of "py_payments s" "py_orderCache s" "topup_list s" p n]
  by (auto simp: cache_order_def core_fields topup_list_def)

lemma find_payment:
  assumes "sound (core s)" "findPaymentIDByOrderNo env n s = (Inr pid, s')"
  shows "sound (core s')" "py_payments s' = py_payments s" "py_ledger s' = py_ledger s"
    and "\<exists>p \<in> set (py_payments s). pm_ID p = pid \<and> pm_OrderNo p = Some n"
proof -
  have ok: "orders_ok (py_payments s) (py_orderCache s)" using assms(1) by (simp add: core_fields sound_def)
  show ex: "\<exists>p \<in> set (py_payments s). pm_ID p = pid \<and> pm_OrderNo p = Some n"
  proof (cases "cached_order env n s")
    case None
    have "\<exists>p. pid = pm_ID p \<and> (first_where (\<lambda>p. pm_OrderNo p = Some n) (py_payments s) = Some p \<or>
        first_where (\<lambda>p. meta_order_no (pm_Metadata p) = Some n) (py_payments s) = Some p)"
      using assms(2) unfolding findPaymentIDByOrderNo_def None by (simp split: if_split_asm option.split_asm) blast+
    then obtain p where p: "pid = pm_ID p" "first_where (\<lambda>p. pm_OrderNo p = Some n) (py_payments s) = Some p \<or>
        first_where (\<lambda>p. meta_order_no (pm_Metadata p) = Some n) (py_payments s) = Some p"
      by blast
    have "p \<in> set (py_payments s) \<and> (pm_OrderNo p = Some n \<or> meta_order_no (pm_Metadata p) = Some n)"
      using p(2)
    proof
      assume "first_where (\<lambda>p. pm_OrderNo p = Some n) (py_payments s) = Some p"
      from first_where_Some [OF this] show ?thesis by simp
    next
      assume "first_where (\<lambda>p. meta_order_no (pm_Metadata p) = Some n) (py_payments s) = Some p"
      from first_where_Some [OF this] show ?thesis by simp
    qed
    then show ?thesis using p(1) ok unfolding orders_ok_def by metis
  next
    case (Some i)
    then have "i = pid" "\<exists>e. py_orderCache s n = Some (pid, e)"
      using assms(2) by (auto simp: findPaymentIDByOrderNo_def cached_order_def split: if_splits option.splits)
    then show ?thesis using ok unfolding orders_ok_def by blast
  qed
  have s': "s' = s \<or> s' = cache_order env n pid s"
    using assms(2) by (auto simp: findPaymentIDByOrderNo_def split: if_splits option.splits)
  then show "py_payments s' = py_payments s" "py_ledger s' = py_ledger s" by (auto simp: cache_order_def)
  show "sound (core s')" using s' ex assms(1) sound_cache_order by blast
qed

lemma find_payment_error: "findPaymentIDByOrderNo env n s = (Inl e, s') \<Longrightarrow> s' = s"
  by (auto simp: findPaymentIDByOrderNo_def split: if_splits option.splits)

lemma load_payment_state: "load_payment env pid s = (r, s') \<Longrightarrow> s' = s"
  by (auto simp: load_payment_def split: if_splits option.splits)

lemma query_payment:
  assumes "sound (core s)" "QueryPayment env n s = (r, s')"
  shows "sound (core s')" "\<forall>p. r = Inr p \<longrightarrow> p \<in> set (py_payments s') \<and> pm_OrderNo p = Some n"
proof -
  show "sound (core s')"
    using assms find_payment(1) [OF assms(1)] find_payment_error load_payment_state
    by (auto simp: QueryPayment_def andThen_def split: sum.splits prod.splits) (metis, metis)
  show "\<forall>p. r = Inr p \<longrightarrow> p \<in> set (py_payments s') \<and> pm_OrderNo p = Some n"
  proof (intro allI impI)
    fix p assume r: "r = Inr p"
    obtain pid t where t: "findPaymentIDByOrderNo env n s = (Inr pid, t)" "load_payment env pid t = (Inr p, s')"
      using assms(2) r by (auto simp: QueryPayment_def andThen_ok)
    have s': "s' = t" "p \<in> set (py_payments t)" "pm_ID p = pid"
      using t(2) by (auto simp: load_payment_def dest: first_where_Some split: if_splits option.splits)
    obtain q where q: "q \<in> set (py_payments s)" "pm_ID q = pid" "pm_OrderNo q = Some n"
      using find_payment(4) [OF assms(1) t(1)] by blast
    have "orders_ok (py_payments s) (py_orderCache s)" using assms(1) by (simp add: core_fields sound_def)
    then have "p = q" using orders_unique q(1,2) s'(2,3) find_payment(2) [OF assms(1) t(1)] by metis
    then show "p \<in> set (py_payments s') \<and> pm_OrderNo p = Some n" using s' q by simp
  qed
qed


lemma credit_topups:
  assumes "creditUserBalance env u tid c n l = (r, l')"
  shows "filter is_topup (lg_records l') = filter is_topup (lg_records l) \<or>
    (\<exists>b. br_RelatedID b = n \<and> br_Amount b = c \<and> filter is_topup (lg_records l') = filter is_topup (lg_records l) @ [b])"
proof -
  have t: "credit_tenant env u tid l = (x, l1) \<Longrightarrow> l1 = l" for x l1
    by (auto simp: credit_tenant_def split: if_splits option.splits)
  have b: "lg_records l2 = lg_records l1 \<or> (\<exists>b. br_RelatedID b = n \<and> br_Amount b = c \<and> is_topup b \<and> lg_records l2 = lg_records l1 @ [b])"
    if "transaction (andThen (credit_load env u t) (credit_write env u t c n)) l1 = (x, l2)" for x t l1 l2
  proof (cases x)
    case (Inl e)
    then show ?thesis using transaction_error_rolls_back that by metis
  next
    case (Inr y)
    then obtain ub l3 where "credit_load env u t l1 = (Inr ub, l3)" "credit_write env u t c n ub l3 = (Inr y, l2)"
      using \<open>transaction _ l1 = _\<close> by (auto simp: transaction_ok andThen_ok)
    moreover from this(1) have "lg_records l3 = lg_records l1"
      by (auto simp: credit_load_def Let_def split: if_splits option.splits)
    ultimately show ?thesis by (auto simp: credit_write_def andThen_ok is_topup_def)
  qed
  show ?thesis
  proof (cases "c \<le> 0")
    case True
    then show ?thesis using assms by (simp add: creditUserBalance_def fail_def)
  next
    case False
    obtain x l1 where x: "credit_tenant env u tid l = (x, l1)" by fastforce
    show ?thesis
    proof (cases x)
      case (Inl e)
      then show ?thesis using assms False x t [OF x] by (simp add: creditUserBalance_def andThen_def)
    next
      case (Inr tt)
      obtain y l2 where y: "transaction (andThen (credit_load env u tt) (credit_write env u tt c n)) l1 = (y, l2)" by fastforce
      have "lg_records l' = lg_records l2"
        using assms False x y Inr
        by (cases y) (auto simp: creditUserBalance_def andThen_def InvalidateCache_def modify_def)
      then show ?thesis using b [OF y] t [OF x] by auto
    qed
  qed
qed

lemma core_credit_payment:
  "core (credit_payment env r p s) = core s \<or>
   (\<exists>b. br_RelatedID b = cb_OrderNo r \<and> br_Amount b = pm_CreditAmount p \<and>
      core (credit_payment env r p s) = (py_payments s, py_orderCache s, topup_list s @ [b]))"
proof -
  obtain x l where l: "creditUserBalance (pv_ledger env) (pm_UserID p) (pm_TenantID p) (pm_CreditAmount p) (cb_OrderNo r) (py_ledger s) = (x, l)"
    by fastforce
  have "core (credit_payment env r p s) = core (s\<lparr>py_ledger := l\<rparr>)"
    using l by (cases x) (simp_all add: credit_payment_def on_pay_ledger_def Let_def)
  then show ?thesis using credit_topups [OF l] by (auto simp: core_def topup_list_def)
qed

lemma commit_callback_sound:
  assumes "sound (core s)" "p \<in> set (py_payments s)" "pm_OrderNo p = Some (cb_OrderNo r)" "commit_callback env r p s = (res, s')"
  shows "sound (core s')"
proof -
  let ?l = "LogPaymentEvent env ''payment.callback_verified'' (Some (pm_ID p)) None True
              (LogPaymentEvent env ''payment.callback_received'' (Some (pm_ID p)) None True s)"
  have l: "core ?l = core s" by simp
  show ?thesis
  proof (cases "terminal (pm_Status p) \<or> AmountToCents (cb_Amount r) \<noteq> AmountToCents (pm_Amount p) \<or> pv_down env UpdatePayment")
    case True
    then have "s' = ?l" using assms(4) by (auto simp: commit_callback_def terminal_def Let_def split: if_splits)
    then show ?thesis using l assms(1) by simp
  next
    case False
    define new where "new = (if cb_Status r = ''success'' then PaymentStatusCompleted else PaymentStatusFailed)"
    let ?s1 = "on_payment (pm_ID p) (\<lambda>q. q\<lparr>pm_Status := new, pm_GatewayTxnID := cb_GatewayTxnID r\<rparr>) ?l"
    have s': "core s' = core (if new = PaymentStatusCompleted then credit_payment env r p ?s1 else ?s1)"
      using assms(4) False by (auto simp: commit_callback_def terminal_def Let_def new_def split: if_splits)
    have ok: "orders_ok (py_payments s) (py_orderCache s)" "paid_once (py_payments s) (topup_list s)"
      using assms(1) by (simp_all add: core_fields sound_def)
    have me: "q = p" if "q \<in> set (py_payments s)" "pm_ID q = pm_ID p" for q
      using orders_unique [OF ok(1) that(1) assms(2)] that(2) by simp
    have s1: "sound (core ?s1)"
      by (intro sound_on_payment) (use assms(1) l me False in \<open>auto simp: terminal_def\<close>)
    show ?thesis
    proof (cases "new = PaymentStatusCompleted")
      case True
      have c: "credited (cb_OrderNo r) (topup_list s) = 0" using uncredited [OF ok assms(2) _ assms(3)] False by simp
      have t: "topup_list ?s1 = topup_list s" by (simp add: topup_list_def)
      let ?p = "p\<lparr>pm_Status := new, pm_GatewayTxnID := cb_GatewayTxnID r\<rparr>"
      have p: "?p \<in> set (py_payments ?s1)" "pm_OrderNo ?p = Some (cb_OrderNo r)" "terminal (pm_Status ?p)"
        using assms(2,3) True by (auto simp: terminal_def image_iff intro!: bexI [of _ p])
      show ?thesis
        using core_credit_payment [of env r p ?s1] s1 s' True sound_credit [OF s1 [unfolded core_fields] p, of _] c t
        by (auto simp: core_fields)
    qed (use s1 s' in simp)
  qed
qed

lemma HandleCallback_sound:
  assumes "sound (core s)" "HandleCallback env g s = (res, s')"
  shows "sound (core s')"
proof -
  obtain x t where x: "load_callback env g s = (x, t)" by fastforce
  have "sound (core t) \<and> (\<forall>r p. x = Inr (r, p) \<longrightarrow> p \<in> set (py_payments t) \<and> pm_OrderNo p = Some (cb_OrderNo r))"
  proof (cases "g \<in> set (pv_gateways env) \<and> (\<exists>r. verify_callback env g = Some r \<and> cb_OrderNo r \<noteq> '''')")
    case True
    then obtain r where r: "verify_callback env g = Some r" "cb_OrderNo r \<noteq> ''''" by blast
    obtain y where y: "QueryPayment env (cb_OrderNo r) s = (y, t)" "x = (case y of Inl e \<Rightarrow> Inl e | Inr p \<Rightarrow> Inr (r, p))"
      using x True r by (auto simp: load_callback_def andThen_def ret_def split: prod.splits sum.splits)
    show ?thesis using query_payment [OF assms(1) y(1)] y(2) by (auto split: sum.splits)
  next
    case False
    then show ?thesis using x assms(1) by (auto simp: load_callback_def split: if_splits option.splits)
  qed
  then show ?thesis
    using assms(2) x commit_callback_sound [of t _ _ env res s'] by (cases x) (auto simp: HandleCallback_def andThen_def)
qed


text \<open>Creating an order.\<close>

lemma sound_order_row:
  assumes "sound (core s)" "core t = (py_payments s @ [row], py_orderCache s, topup_list s)"
    and "pm_ID row = fresh_payment_id s" "pm_OrderNo row = Some n" "meta_order_no (pm_Metadata row) = Some n"
    and "\<not> (\<exists>p \<in> set (py_payments s). pm_OrderNo p = Some n)"
  shows "sound (core t)"
  unfolding assms(2) using assms by (intro sound_new) (simp_all add: core_fields fresh_payment_id_def)

lemma sound_set_status:
  assumes "sound (core s)" "terminal st \<or> (\<forall>p \<in> set (py_payments s). pm_ID p = pid \<longrightarrow> \<not> terminal (pm_Status p))"
  shows "sound (core (set_status env pid st s))"
  using assms sound_on_payment [of s "\<lambda>p. p\<lparr>pm_Status := st\<rparr>" pid] by (auto simp: set_status_def)

lemma sound_set_txn: "sound (core s) \<Longrightarrow> sound (core (set_txn env pid txn s))"
  using sound_on_payment [of s "\<lambda>p. p\<lparr>pm_GatewayTxnID := txn\<rparr>" pid] by (auto simp: set_txn_def)

text \<open>Both ways of creating an order end in one of these two states.\<close>

lemma order_ends:
  assumes "sound (core s)" "core t = (py_payments s @ [row], py_orderCache s, topup_list s)"
    and "pm_ID row = pid" "pid = fresh_payment_id s" "pm_OrderNo row = Some n" "meta_order_no (pm_Metadata row) = Some n"
    and "\<not> (\<exists>p \<in> set (py_payments s). pm_OrderNo p = Some n)" "\<not> terminal (pm_Status row)"
  shows "sound (core (set_status env pid PaymentStatusFailed t))"
    and "sound (core (cache_order env n pid (set_txn env pid txn t)))"
proof -
  have t: "sound (core t)" using assms by (intro sound_order_row [of s t row n]) simp_all
  have rows: "py_payments t = py_payments s @ [row]" using assms(2) by (simp add: core_fields)
  have "orders_ok (py_payments t) (py_orderCache t)" using t by (simp add: core_fields sound_def)
  then have u: "q = row" if "q \<in> set (py_payments t)" "pm_ID q = pid" for q
    using orders_unique [of "py_payments t" _ q row] that rows assms(3) by simp
  show "sound (core (set_status env pid PaymentStatusFailed t))"
    using t u assms(8) by (intro sound_set_status) auto
  let ?t = "set_txn env pid txn t"
  have "\<exists>p \<in> set (py_payments ?t). pm_ID p = pid \<and> pm_OrderNo p = Some n"
    using rows assms(3,5) by (auto simp: set_txn_def)
  then show "sound (core (cache_order env n pid ?t))"
    using sound_cache_order [OF sound_set_txn [OF t]] by blast
qed

lemma new_payment_simps [simp]:
  "pm_ID (new_payment pid u tid g a c sub n x) = pid" "pm_OrderNo (new_payment pid u tid g a c sub n x) = Some n"
  "meta_order_no (pm_Metadata (new_payment pid u tid g a c sub n x)) = Some n"
  "pm_Status (new_payment pid u tid g a c sub n x) = PaymentStatusPending"
  by (simp_all add: new_payment_def meta_order_no_def)

lemma core_add_row: "core (s\<lparr>py_payments := py_payments s @ [row]\<rparr>) = (py_payments s @ [row], py_orderCache s, topup_list s)"
  by (simp add: core_def topup_list_def)

lemma not_terminal_pending [simp]: "\<not> terminal PaymentStatusPending"
  by (simp add: terminal_def)

lemma CreatePayment_sound:
  assumes "sound (core s)" "CreatePayment env u tid g a c sub s = (res, s')"
  shows "sound (core s')"
proof (cases "s' = s")
  case False
  let ?n = "pv_orderNo env 0"
  let ?pid = "fresh_payment_id s"
  obtain x where x: "g \<in> set (pv_gateways env)" "\<not> a \<le> 0" "CalculateExchange env a c s = Inr x" "\<not> pv_down env CreatePaymentRow"
      "\<not> (\<exists>p \<in> set (py_payments s). pm_OrderNo p = Some ?n)"
    using assms(2) False by (auto simp: CreatePayment_def Let_def split: if_splits sum.splits)
  let ?row = "new_payment ?pid u tid g a c sub ?n x"
  let ?order = "\<lparr>po_OrderNo = ?n, po_Amount = a, po_Currency = c\<rparr>"
  let ?t = "called_gateway (CreateOrderCall g ?order) (s\<lparr>py_payments := py_payments s @ [?row]\<rparr>)"
  have t: "core ?t = (py_payments s @ [?row], py_orderCache s, topup_list s)" by (simp add: core_add_row)
  note e = order_ends [OF assms(1) t, of ?pid ?n]
  have "s' = set_status env ?pid PaymentStatusFailed ?t \<or>
      (\<exists>txn. s' = pay_recordAuditLog env ''payment_create'' ?pid (cache_order env ?n ?pid (set_txn env ?pid txn ?t)))"
    using assms(2) x by (auto simp: CreatePayment_def Let_def split: option.splits)
  then show ?thesis using e x(5) by auto
qed (use assms in simp)

lemma createOrderOnce_sound:
  assumes "sound (core s)" "createOrderOnce env k inp account shown s = (res, s')"
  shows "sound (core s')"
proof (cases "s' = s")
  case False
  let ?n = "pv_orderNo env k"
  let ?pid = "fresh_payment_id s"
  obtain x where x: "ci_Gateway inp \<in> set (pv_gateways env)" "CalculateExchange env (ci_Amount inp) (ci_Currency inp) s = Inr x"
      "\<not> pv_down env CreatePaymentRow" "\<not> (\<exists>p \<in> set (py_payments s). pm_OrderNo p = Some ?n)"
    using assms(2) False by (auto simp: createOrderOnce_def Let_def split: if_splits sum.splits prod.splits)
  obtain cny usd rate where sh: "shown = (cny, usd, rate)" using prod_cases3 by blast
  define row where "row = (new_payment ?pid (ci_UserID inp) (ci_TenantID inp) (ci_Gateway inp) (ci_Amount inp) (ci_Currency inp)
      (ci_Subject inp) ?n x)\<lparr>pm_ProviderAccountID := account, pm_DisplayCurrency := (if ci_Currency inp = '''' then ''CNY'' else ci_Currency inp),
      pm_DisplayAmountUSD := usd, pm_DisplayAmountCNY := cny, pm_ExchangeRateUsed := rate\<rparr>"
  let ?order = "\<lparr>po_OrderNo = ?n, po_Amount = ci_Amount inp, po_Currency = ci_Currency inp\<rparr>"
  define t where "t = called_gateway (CreateOrderCall (ci_Gateway inp) ?order)
     (LogPaymentEvent env ''payment.gateway_request'' (Some ?pid) None True
       (LogPaymentEvent env ''payment.created'' (Some ?pid) None True (s\<lparr>py_payments := py_payments s @ [row]\<rparr>)))"
  have t: "core t = (py_payments s @ [row], py_orderCache s, topup_list s)" by (simp add: t_def core_add_row)
  note e = order_ends [OF assms(1) t, of ?pid ?n]
  have "createOrderOnce env k inp account shown s = (case pv_create env k ?order of
      None \<Rightarrow> (Inl GatewayFailed, LogPaymentEvent env ''payment.gateway_response'' (Some ?pid) None False
                (set_status env ?pid PaymentStatusFailed t))
    | Some txn \<Rightarrow> (Inr ?n, LogPaymentEvent env ''payment.gateway_response'' (Some ?pid) None True
                (cache_order env ?n ?pid (set_txn env ?pid txn t))))"
    unfolding createOrderOnce_def Let_def sh t_def row_def using x by simp
  then have "(\<exists>ok. s' = LogPaymentEvent env ''payment.gateway_response'' (Some ?pid) None ok (set_status env ?pid PaymentStatusFailed t)) \<or>
      (\<exists>ok txn. s' = LogPaymentEvent env ''payment.gateway_response'' (Some ?pid) None ok (cache_order env ?n ?pid (set_txn env ?pid txn t)))"
    using assms(2) by (cases "pv_create env k ?order") auto
  then show ?thesis using e x(4) by (auto simp: row_def)
qed (use assms in simp)


lemma display_sound:
  assumes "sound (core s)"
  shows "sound (core (s\<lparr>py_payments := map (\<lambda>p. if pm_OrderNo p = Some n
     then p\<lparr>pm_DisplayCurrency := c, pm_DisplayAmountUSD := u, pm_DisplayAmountCNY := y, pm_ExchangeRateUsed := x\<rparr> else p) (py_payments s)\<rparr>))"
proof -
  let ?f = "\<lambda>p. p\<lparr>pm_DisplayCurrency := c, pm_DisplayAmountUSD := u, pm_DisplayAmountCNY := y, pm_ExchangeRateUsed := x\<rparr>"
  let ?g = "\<lambda>p. if pm_OrderNo p = Some n then ?f p else p"
  have o: "orders_ok (py_payments s) (py_orderCache s)" and p: "paid_once (py_payments s) (topup_list s)"
    using assms by (simp_all add: core_fields sound_def)
  have "paid_once (map ?g (py_payments s)) (topup_list s)"
    unfolding paid_once_def
  proof (intro allI conjI impI)
    fix m
    show "credited m (topup_list s) \<le> 1" using p by (simp add: paid_once_def)
    assume "credited m (topup_list s) \<noteq> 0"
    then obtain q where "q \<in> set (py_payments s)" "pm_OrderNo q = Some m" "terminal (pm_Status q)"
      using p unfolding paid_once_def by blast
    then show "\<exists>q \<in> set (map ?g (py_payments s)). pm_OrderNo q = Some m \<and> terminal (pm_Status q)"
      by (intro bexI [of _ "?g q"]) auto
  qed
  then show ?thesis
    using orders_ok_update [OF o, of ?f "\<lambda>p. pm_OrderNo p = Some n"] by (simp add: sound_def core_def topup_list_def)
qed

lemma createWithoutRouting_sound:
  assumes "sound (core s)" "createWithoutRouting env inp shown s = (res, s')"
  shows "sound (core s')"
proof -
  obtain r t where r: "CreatePayment env (ci_UserID inp) (ci_TenantID inp) (ci_Gateway inp) (ci_Amount inp) (ci_Currency inp) (ci_Subject inp) s = (r, t)"
    by fastforce
  have t: "sound (core t)" using CreatePayment_sound [OF assms(1) r] .
  show ?thesis
    using assms(2) r t display_sound [OF t] by (cases r) (auto simp: createWithoutRouting_def andThen_def split: prod.splits if_splits)
qed

lemma routing_loop_sound:
  "sound (core s) \<Longrightarrow> routing_loop env inp shown left k ex s = (res, s') \<Longrightarrow> sound (core s')"
proof (induction left arbitrary: k ex s)
  case (Suc left)
  define chosen where "chosen = (if \<not> pv_router env then Inr None
     else case SelectAccount env k \<lparr>sa_ProviderType = ci_Gateway inp, sa_Currency = ci_Currency inp,
                 sa_Region = ci_Region inp, sa_ExcludeIDs = ex\<rparr> s of Inl e \<Rightarrow> Inl e | Inr a \<Rightarrow> Inr (Some (pa_ID a)))"
  note run = Suc.prems(2) [unfolded routing_loop.simps, folded chosen_def]
  show ?case
  proof (cases chosen)
    case (Inl e)
    then show ?thesis using run Suc.prems(1) createWithoutRouting_sound by (cases "k = 0") (auto simp: Let_def)
  next
    case (Inr account)
    let ?aid = "case account of None \<Rightarrow> 0 | Some a \<Rightarrow> a"
    obtain r t where r: "createOrderOnce env k inp account shown s = (r, t)" by fastforce
    have t: "sound (core t)" using createOrderOnce_sound [OF Suc.prems(1) r] .
    show ?thesis
    proof (cases r)
      case (Inr n)
      then show ?thesis using run r t \<open>chosen = Inr account\<close> by (auto simp: Let_def)
    next
      case (Inl e)
      let ?u = "UpdateAccountAfterPayment env ?aid False 0 t"
      have "sound (core ?u)" using t by simp
      moreover have "routing_loop env inp shown left (Suc k) (if ?aid > 0 then ex @ [?aid] else ex) ?u = (res, s')"
        using run r Inl \<open>chosen = Inr account\<close> by (simp add: Let_def)
      ultimately show ?thesis by (rule Suc.IH)
    qed
  qed
qed simp

lemma CreatePaymentWithRouting_sound:
  "sound (core s) \<Longrightarrow> CreatePaymentWithRouting env inp s = (res, s') \<Longrightarrow> sound (core s')"
  using routing_loop_sound by (auto simp: CreatePaymentWithRouting_def split: if_splits)

lemma RefundPayment_sound:
  assumes "sound (core s)" "RefundPayment env n a s = (res, s')"
  shows "sound (core s')"
proof -
  obtain r t where r: "QueryPayment env n s = (r, t)" by fastforce
  have t: "sound (core t)" using query_payment(1) [OF assms(1) r] .
  show ?thesis
    using assms(2) r t sound_set_status [of _ PaymentStatusRefunded]
    by (cases r) (auto simp: RefundPayment_def andThen_def Let_def terminal_def split: if_splits option.splits)
qed

section \<open>Runs\<close>

text \<open>The service with the merchant's own refunds; each call is one step.\<close>

inductive order_run :: "payments \<Rightarrow> bool" where
  start: "py_payments s = [] \<Longrightarrow> py_orderCache s = (\<lambda>_. None) \<Longrightarrow> topup_list s = [] \<Longrightarrow> order_run s"
| created: "order_run s \<Longrightarrow> CreatePayment env u tid g a c sub s = (r, s') \<Longrightarrow> order_run s'"
| routed_order: "order_run s \<Longrightarrow> CreatePaymentWithRouting env inp s = (r, s') \<Longrightarrow> order_run s'"
| called_back: "order_run s \<Longrightarrow> HandleCallback env g s = (v, s') \<Longrightarrow> order_run s'"
| queried: "order_run s \<Longrightarrow> QueryPayment env n s = (q, s') \<Longrightarrow> order_run s'"
| refunded: "order_run s \<Longrightarrow> RefundPayment env n a s = (v, s') \<Longrightarrow> order_run s'"

lemma order_run_sound: "order_run s \<Longrightarrow> sound (core s)"
proof (induction rule: order_run.induct)
  case (start s)
  then show ?case by (simp add: core_fields sound_def orders_ok_def paid_once_def)
next
  case created
  show ?case by (rule CreatePayment_sound [OF created.IH created.hyps(2)])
next
  case routed_order
  show ?case by (rule CreatePaymentWithRouting_sound [OF routed_order.IH routed_order.hyps(2)])
next
  case called_back
  show ?case by (rule HandleCallback_sound [OF called_back.IH called_back.hyps(2)])
next
  case queried
  show ?case by (rule query_payment(1) [OF queried.IH queried.hyps(2)])
next
  case refunded
  show ?case by (rule RefundPayment_sound [OF refunded.IH refunded.hyps(2)])
qed


section \<open>Samples\<close>

definition pay_demo :: pay_env where
  "pay_demo =
     \<lparr>pv_ledger = calm, pv_now = 1000, pv_monthStart = 0, pv_gateways = [''stripe''], pv_bypass = False,
      pv_verified = (\<lambda>_. Some \<lparr>cb_OrderNo = ''TH1'', cb_GatewayTxnID = ''x'', cb_Amount = 100, cb_Status = ''success''\<rparr>),
      pv_parsed = (\<lambda>_. None), pv_create = (\<lambda>_ _. Some ''''),
      pv_refund = (\<lambda>_ _. Some \<lparr>rr_RefundStatus = ''success'', rr_GatewayRefundID = ''r''\<rparr>),
      pv_orderNo = (\<lambda>_. ''TH1''), pv_rand = (\<lambda>_ _. 0), pv_router = False, pv_fetcher = None, pv_logger = False,
      pv_down = (\<lambda>_. False)\<rparr>"

definition no_payments :: payments where
  "no_payments =
     \<lparr>py_ledger = empty_ledger, py_payments = [], py_requests = [], py_accounts = [],
      py_rates = [\<lparr>xr_ID = 1, xr_FromCurrency = ''USD'', xr_ToCurrency = ''CNY'', xr_Rate = 7, xr_FeeRate = 0, xr_IsActive = True\<rparr>],
      py_orderCache = (\<lambda>_. None), py_penalty = (\<lambda>_. None), py_gateway = [], py_events = [], py_audit = [], py_published = []\<rparr>"

text \<open>An order of 100 dollars at a rate of 7, as its creation leaves it.\<close>

definition dollar_order :: "payment_status \<Rightarrow> float64 \<Rightarrow> int64 \<Rightarrow> Payment" where
  "dollar_order st refunded n =
     \<lparr>pm_ID = 1, pm_TenantID = 2, pm_UserID = 7, pm_OrderNo = Some ''TH1'', pm_Amount = 100, pm_OriginalCurrency = ''USD'',
      pm_ExchangeRate = 7, pm_FeeRate = 0, pm_FeeAmount = 0, pm_RMBAmount = 700, pm_CreditAmount = 7000000, pm_Gateway = ''stripe'',
      pm_GatewayTxnID = (if st = PaymentStatusPending then '''' else ''x''), pm_Status = st,
      pm_Metadata = Some (JObj [(''order_no'', JStr ''TH1'')]), pm_ProviderAccountID = None, pm_DisplayCurrency = ''CNY'',
      pm_DisplayAmountUSD = 0, pm_DisplayAmountCNY = 0, pm_ExchangeRateUsed = 0, pm_RefundedAmount = refunded, pm_RefundCount = n\<rparr>"

definition after_create :: payments where
  "after_create = snd (CreatePayment pay_demo 7 2 ''stripe'' 100 ''USD'' '''' no_payments)"


definition after_callbacks :: "nat \<Rightarrow> payments" where
  "after_callbacks n = ((\<lambda>s. snd (HandleCallback pay_demo ''stripe'' s)) ^^ n) after_create"

lemma demo_run: "order_run (after_callbacks n)"
proof (induction n)
  case 0
  have "order_run no_payments"
    by (rule order_run.start) (simp_all add: no_payments_def topup_list_def empty_ledger_def)
  then have "order_run after_create"
    unfolding after_create_def by (rule order_run.created [OF _ prod.collapse [symmetric]])
  then show ?case by (simp add: after_callbacks_def)
next
  case (Suc n)
  show ?case using order_run.called_back [OF Suc prod.collapse [symmetric]] by (simp add: after_callbacks_def)
qed

lemma demo_credit: "map br_Amount (lg_records (py_ledger (after_callbacks 2))) = [7000000]"
  by code_simp

section \<open>Accounts\<close>

definition rand_fair :: "pay_env \<Rightarrow> bool" where
  "rand_fair env \<longleftrightarrow> (\<forall>k n. 0 < n \<longrightarrow> 0 \<le> pv_rand env k n \<and> pv_rand env k n < n)"

lemma pick_loop_in: "pick_loop p xs = Some a \<Longrightarrow> a \<in> set xs"
  by (induction xs arbitrary: p) (auto simp: Let_def split: if_splits)

lemma weightedPick_in:
  assumes "rand_fair env" "weightedPick env k xs = Some a"
  shows "a \<in> set xs"
proof (cases "length xs \<le> 1")
  case True
  then show ?thesis using assms(2) by (cases xs) (auto simp: weightedPick_def split: list.splits)
next
  case False
  then obtain x y zs where xs: "xs = x # y # zs" by (cases xs; cases "tl xs") auto
  let ?n = "pv_rand env k (int (length xs))"
  have "0 \<le> ?n" "?n < int (length xs)" using assms(1) xs by (auto simp: rand_fair_def)
  then have "xs ! nat ?n \<in> set xs" by (intro nth_mem) linarith
  moreover have "last xs \<in> set xs" using xs by (intro last_in_set) simp
  ultimately show ?thesis
    using assms(2) pick_loop_in unfolding xs weightedPick_def by (auto simp: Let_def split: if_splits option.splits)
qed

lemma first_mode_in:
  assumes "rand_fair env"
  shows "first_mode env k s all req ms = Some a \<Longrightarrow> \<exists>m \<in> set ms. a \<in> set (filter_accounts env s all req m)"
  by (induction ms) (auto simp: Let_def dest: weightedPick_in [OF assms] split: if_splits)

lemma min_priority_acc: "\<forall>b \<in> set xs. 0 \<le> pa_Priority b \<Longrightarrow> 0 \<le> c \<Longrightarrow> min_priority xs c \<le> c"
proof (induction xs arbitrary: c)
  case (Cons x xs)
  let ?c = "if c = - 1 \<or> pa_Priority x < c then pa_Priority x else c"
  have "min_priority xs ?c \<le> ?c" using Cons.prems by (intro Cons.IH) auto
  then show ?case using Cons.prems(2) by auto
qed simp

lemma min_priority_le:
  "\<forall>b \<in> set xs. 0 \<le> pa_Priority b \<Longrightarrow> acc = - 1 \<or> 0 \<le> acc \<Longrightarrow> b \<in> set xs \<Longrightarrow> min_priority xs acc \<le> pa_Priority b"
proof (induction xs arbitrary: acc)
  case (Cons x xs)
  let ?c = "if acc = - 1 \<or> pa_Priority x < acc then pa_Priority x else acc"
  have c: "0 \<le> ?c" "?c \<le> pa_Priority x" using Cons.prems(1,2) by auto
  show ?case
  proof (cases "b = x")
    case True
    have "min_priority xs ?c \<le> ?c" using Cons.prems(1) c(1) by (intro min_priority_acc) auto
    then show ?thesis using c(2) True by simp
  next
    case False
    then have "min_priority xs ?c \<le> pa_Priority b" using Cons.prems c(1) by (intro Cons.IH) auto
    then show ?thesis by simp
  qed
qed simp

text \<open>The choice is the one of the router: an account has the share of its weight.\<close>

lemma pick_loop_weight_loop:
  assumes "0 \<le> r" "r < 2 ^ 62" "\<forall>a \<in> set xs. pa_Weight a < 2 ^ 62" "0 \<le> c" "c + sum_list (map (\<lambda>a. eff_weight (pa_Weight a)) xs) < 2 ^ 63"
    and "c \<le> r"
  shows "pick_loop (r - c) xs = weight_loop pa_Weight r c xs"
  using assms(3-)
proof (induction xs arbitrary: c)
  case (Cons a xs)
  let ?w = "eff_weight (pa_Weight a)"
  have w: "1 \<le> ?w" "?w < 2 ^ 62" using Cons.prems(1) by (auto simp: eff_weight_def)
  have nn: "0 \<le> sum_list (map (\<lambda>a. eff_weight (pa_Weight a)) xs)"
    by (intro sum_list_nonneg) (auto simp: eff_weight_def)
  have "c + ?w < 2 ^ 63" using Cons.prems(3) nn by simp
  then have e: "add64 c ?w = c + ?w" "sub64 (r - c) ?w = r - (c + ?w)"
    using Cons.prems(2,4) w assms(1,2) by (simp_all add: add64_id sub64_id in64_def)
  show ?case
  proof (cases "r < c + ?w")
    case True
    then show ?thesis using e by (simp add: Let_def)
  next
    case False
    then have "pick_loop (r - (c + ?w)) xs = weight_loop pa_Weight r (c + ?w) xs"
      using Cons.prems w by (intro Cons.IH) (simp_all add: algebra_simps)
    then show ?thesis using e False by (simp add: Let_def)
  qed
qed simp


section \<open>Properties\<close>

text \<open>C28: Whatever callbacks, retries, queries and refunds of the merchant come in, one after another and
  with any faults, an order is credited at most once, and only when it has been paid.\<close>

theorem order_credited_once:
  assumes "order_run s"
  shows "length (filter (\<lambda>r. br_Type r = ''RECHARGE'' \<and> br_RelatedID r = n) (lg_records (py_ledger s))) \<le> 1 \<and>
    (filter (\<lambda>r. br_Type r = ''RECHARGE'' \<and> br_RelatedID r = n) (lg_records (py_ledger s)) \<noteq> [] \<longrightarrow>
     (\<exists>p \<in> set (py_payments s). pm_OrderNo p = Some n \<and> pm_Status p \<in> {PaymentStatusCompleted, PaymentStatusRefunded}))"
proof -
  have f: "filter (\<lambda>r. br_Type r = ''RECHARGE'' \<and> br_RelatedID r = n) (lg_records (py_ledger s)) =
      filter (\<lambda>r. br_RelatedID r = n) (topup_list s)"
    by (simp add: topup_list_def is_topup_def conj_commute)
  have "paid_once (py_payments s) (topup_list s)"
    using order_run_sound [OF assms] by (simp add: core_fields sound_def)
  then show ?thesis unfolding f paid_once_def credited_def terminal_def by auto
qed

theorem order_credited_once_witness:
  "length (filter (\<lambda>r. br_Type r = ''RECHARGE'' \<and> br_RelatedID r = ''TH1'') (lg_records (py_ledger (after_callbacks 2)))) \<le> 1 \<and>
   map br_Amount (lg_records (py_ledger (after_callbacks 2))) = [7000000]"
  using order_credited_once [OF demo_run, of "''TH1''" 2] demo_credit by blast

text \<open>C29: A payment credits the legacy column only. On an account that holds billing units the next
  operation that reads the row rebuilds the column from the units: what can be spent is what it was
  before the payment, and the amount paid in is gone.\<close>

theorem topup_lost_on_unit_accounts:
  assumes "creditUserBalance env u tid c n l = (Inr x, l')" "lg_balances l u = Some ub" "ub_BalanceUnits ub \<noteq> 0"
  shows "\<exists>ub'. lg_balances l' u = Some ub' \<and> ub_Balance ub' = add64 (ub_Balance ub) c \<and>
    available (hydrateBalanceUnits ub') = available (hydrateBalanceUnits ub) \<and>
    ub_Balance (hydrateBalanceUnits ub') = ub_Balance (hydrateBalanceUnits ub)"
proof -
  have t: "l1 = l" if "credit_tenant env u tid l = (Inr y, l1)" for y l1
    using that by (auto simp: credit_tenant_def split: if_splits option.splits)
  obtain l1 l2 y where r: "credit_tenant env u tid l = (Inr y, l1)"
      "transaction (andThen (credit_load env u y) (credit_write env u y c n)) l1 = (Inr (), l2)" "l' = l2\<lparr>lg_cache_dels := lg_cache_dels l2 @ [u]\<rparr>"
    using assms(1) by (auto simp: creditUserBalance_def andThen_ok split: if_splits)
  obtain ub0 l3 where w: "credit_load env u y l1 = (Inr ub0, l3)" "credit_write env u y c n ub0 l3 = (Inr (), l2)"
    using r(2) by (auto simp: transaction_ok andThen_ok)
  have "ub0 = ub" using w(1) t [OF r(1)] assms(2) by (auto simp: credit_load_def split: if_splits)
  then have "lg_balances l' u = Some (credited_row c ub)" using w(2) r(3) by (auto simp: credit_write_def andThen_ok)
  then show ?thesis
    using assms(3) by (auto simp: credited_row_def Let_def hydrateBalanceUnits_def hydrate_one_def syncBalanceCreditFields_def available_def)
qed

lemma sample_topup: "\<exists>l'. creditUserBalance calm 7 2 500 ''n'' sample_ledger = (Inr (), l')"
  by (simp add: creditUserBalance_def credit_tenant_def andThen_def transaction_def credit_load_def credit_write_def
      saveBalance_def createRecord_def guarded_def modify_def InvalidateCache_def sample_lookup calm_def)

theorem topup_lost_on_unit_accounts_witness:
  "\<exists>l' ub'. creditUserBalance calm 7 2 500 ''n'' sample_ledger = (Inr (), l') \<and> lg_balances l' 7 = Some ub' \<and>
    available (hydrateBalanceUnits ub') = available (hydrateBalanceUnits sample_row)"
proof -
  obtain l' where l': "creditUserBalance calm 7 2 500 ''n'' sample_ledger = (Inr (), l')" using sample_topup by blast
  from topup_lost_on_unit_accounts [OF l' sample_lookup(1)] show ?thesis using l' sample_row_facts by auto
qed

text \<open>C30: Where no account has a negative priority, the account chosen for an order is an active account of
  the provider, was not excluded, is under no penalty that the question to Redis reports (a question that
  fails counts as none), and has the best priority of all active accounts of the provider; accounts of a lesser
  priority are never used, not even when every account of the best one has failed. (An account of priority
  -1, the value that stands for none yet, is passed over.)\<close>

theorem selected_account_is_eligible:
  assumes "rand_fair env" "SelectAccount env k req s = Inr a" "\<forall>b \<in> set (py_accounts s). 0 \<le> pa_Priority b"
  shows "a \<in> set (py_accounts s) \<and> pa_IsActive a \<and> pa_ProviderType a = sa_ProviderType req \<and>
    pa_ID a \<notin> set (sa_ExcludeIDs req) \<and> \<not> isPenaltyActive env s (pa_ID a) \<and>
    (\<forall>b \<in> set (py_accounts s). pa_IsActive b \<and> pa_ProviderType b = sa_ProviderType req \<longrightarrow> pa_Priority a \<le> pa_Priority b)"
proof -
  let ?all = "loadActiveAccounts (sa_ProviderType req) s"
  have "first_mode env k s ?all req [0, 1, 2] = Some a"
    using assms(2) by (auto simp: SelectAccount_def Let_def split: if_splits option.splits)
  then obtain m where m: "a \<in> set (filter_accounts env s ?all req m)" using first_mode_in [OF assms(1)] by blast
  have mem: "b \<in> set ?all \<longleftrightarrow> b \<in> set (py_accounts s) \<and> pa_ProviderType b = sa_ProviderType req \<and> pa_IsActive b" for b
    by (auto simp: loadActiveAccounts_def)
  have "\<forall>b \<in> set ?all. 0 \<le> pa_Priority b" using assms(3) mem by blast
  then have "\<forall>b \<in> set ?all. pa_Priority a \<le> pa_Priority b"
    using m min_priority_le [of ?all "- 1"] by (auto simp: filter_accounts_def)
  then show ?thesis using m mem by (auto simp: filter_accounts_def)
qed


definition demo_account :: "nat \<Rightarrow> int64 \<Rightarrow> PaymentProviderAccount" where
  "demo_account i prio =
     \<lparr>pa_ID = i, pa_ProviderType = ''stripe'', pa_Weight = 10, pa_Priority = prio, pa_SupportedCurrencies = ''usd, eur'',
      pa_SupportedRegions = '''', pa_IsActive = True, pa_FailureCount = 0, pa_LastFailedAt = None, pa_TotalOrders = 0,
      pa_TotalAmountRMB = 0\<rparr>"

definition demo_accounts :: payments where
  "demo_accounts = no_payments\<lparr>py_accounts := [demo_account 1 0, demo_account 2 0, demo_account 3 5]\<rparr>"

lemma demo_chosen:
  "SelectAccount pay_demo 0 \<lparr>sa_ProviderType = ''stripe'', sa_Currency = ''EUR'', sa_Region = '''', sa_ExcludeIDs = [1]\<rparr> demo_accounts =
     Inr (demo_account 2 0)"
  "SelectAccount pay_demo 0 \<lparr>sa_ProviderType = ''stripe'', sa_Currency = ''EUR'', sa_Region = '''', sa_ExcludeIDs = [1, 2]\<rparr> demo_accounts =
     Inl NoAccount"
  by code_simp+

theorem selected_account_is_eligible_witness:
  "pa_ID (demo_account 2 0) \<notin> set [1] \<and> \<not> isPenaltyActive pay_demo demo_accounts 2 \<and>
   SelectAccount pay_demo 0 \<lparr>sa_ProviderType = ''stripe'', sa_Currency = ''EUR'', sa_Region = '''', sa_ExcludeIDs = [1, 2]\<rparr> demo_accounts =
     Inl NoAccount"
proof -
  have "rand_fair pay_demo" by (simp add: rand_fair_def pay_demo_def)
  moreover have "\<forall>b \<in> set (py_accounts demo_accounts). 0 \<le> pa_Priority b" by (simp add: demo_accounts_def demo_account_def)
  ultimately show ?thesis
    using selected_account_is_eligible [OF _ demo_chosen(1)] demo_chosen(2) by (simp add: demo_account_def)
qed

text \<open>A refund of the merchant pays money out and takes no credits back, and marks the order as refunded
  whatever part of it was paid.\<close>

theorem merchant_refund_keeps_credits:
  assumes "RefundPayment env n a s = (Inr (), s')"
  shows "lg_balances (py_ledger s') = lg_balances (py_ledger s) \<and> lg_records (py_ledger s') = lg_records (py_ledger s) \<and>
    (\<exists>g. py_gateway s' = py_gateway s @ [RefundCall g n a])"
proof -
  obtain p t where q: "QueryPayment env n s = (Inr p, t)" using assms by (auto simp: RefundPayment_def andThen_ok)
  have t: "py_ledger t = py_ledger s" "py_gateway t = py_gateway s"
    using q by (auto simp: QueryPayment_def andThen_ok load_payment_def findPaymentIDByOrderNo_def cache_order_def
        split: if_splits option.splits)
  have "py_ledger s' = py_ledger t \<and> (\<exists>g. py_gateway s' = py_gateway t @ [RefundCall g n a])"
    using assms q by (auto simp: RefundPayment_def andThen_def Let_def called_gateway_def set_status_def on_payment_def
        pay_recordAuditLog_def split: if_splits option.splits)
  then show ?thesis using t by simp
qed

lemma demo_refund: "fst (RefundPayment pay_demo ''TH1'' 50 (after_callbacks 1)) = Inr ()"
  by code_simp

theorem merchant_refund_keeps_credits_witness:
  "\<exists>s'. RefundPayment pay_demo ''TH1'' 50 (after_callbacks 1) = (Inr (), s') \<and>
     lg_balances (py_ledger s') = lg_balances (py_ledger (after_callbacks 1))"
proof -
  obtain s' where r: "RefundPayment pay_demo ''TH1'' 50 (after_callbacks 1) = (Inr (), s')"
    using demo_refund by (metis prod.collapse)
  from merchant_refund_keeps_credits [OF r] show ?thesis using r by blast
qed

end
