(* ===== verification/Refund_Laws.thy ===== *)
theory Refund_Laws
  imports Payment_Laws
begin

text \<open>
  What refunds keep: each request is booked at most once while reviews do not interleave, and the
  statuses of a request only move forward; and what they do not keep: two interleaved approvals pay
  twice, a partly refunded order can be credited again, a foreign order gives back fewer credits than
  it was credited, and a booking that fails after the gateway has paid can be paid again.
\<close>

section \<open>Bookings of a request\<close>

definition booked :: "nat \<Rightarrow> payments \<Rightarrow> nat" where
  "booked i s = length (filter (\<lambda>r. br_Type r = ''REFUND'' \<and> br_RelatedID r = ''refund:'' @ show_nat i) (lg_records (py_ledger s)))"

lemma show_nat_inj: "show_nat i = show_nat j \<longleftrightarrow> i = j"
  by (metis digits_value_show_nat option.inject)

lemma frame_simps [simp]:
  "py_requests (LogPaymentEvent env ty p r ok s) = py_requests s"
  "booked i (LogPaymentEvent env ty p r ok s) = booked i s"
  "booked i (called_gateway c s) = booked i s"
  "py_requests (called_gateway c s) = py_requests s"
  "booked i (on_request j f s) = booked i s"
  "booked i (on_payment j g s) = booked i s"
  "py_requests (on_payment j g s) = py_requests s"
  "py_requests (on_request j f s) = map (\<lambda>q. if rq_ID q = j then f q else q) (py_requests s)"
  by (auto simp: LogPaymentEvent_def booked_def called_gateway_def on_request_def on_payment_def)

definition keeps_rq_ID :: "(PaymentRefundRequest \<Rightarrow> PaymentRefundRequest) \<Rightarrow> bool" where
  "keeps_rq_ID f \<longleftrightarrow> (\<forall>q. rq_ID (f q) = rq_ID q)"

text \<open>What a step may do to the requests: keep the ids, and leave the statuses of all but one alone.\<close>

definition only_request :: "nat \<Rightarrow> PaymentRefundRequest list \<Rightarrow> PaymentRefundRequest list \<Rightarrow> bool" where
  "only_request i qs qs' \<longleftrightarrow> map rq_ID qs' = map rq_ID qs \<and>
     (\<forall>q' \<in> set qs'. rq_ID q' \<noteq> i \<longrightarrow> q' \<in> set qs) \<and> (\<forall>q \<in> set qs. rq_ID q \<noteq> i \<longrightarrow> q \<in> set qs')"

lemma only_request_refl [simp]: "only_request i qs qs"
  by (simp add: only_request_def)

lemma only_request_trans:
  assumes "only_request i qs rs" "only_request i rs ts"
  shows "only_request i qs ts"
  unfolding only_request_def
proof (intro conjI ballI impI)
  show "map rq_ID ts = map rq_ID qs" using assms by (simp add: only_request_def)
  fix q
  show "q \<in> set qs" if q: "q \<in> set ts" "rq_ID q \<noteq> i"
  proof -
    have "q \<in> set rs" using assms(2) q unfolding only_request_def by blast
    then show ?thesis using assms(1) q(2) unfolding only_request_def by blast
  qed
  show "q \<in> set ts" if q: "q \<in> set qs" "rq_ID q \<noteq> i"
  proof -
    have "q \<in> set rs" using assms(1) q unfolding only_request_def by blast
    then show ?thesis using assms(2) q(2) unfolding only_request_def by blast
  qed
qed

lemma only_request_map:
  assumes "keeps_rq_ID f"
  shows "only_request i qs (map (\<lambda>q. if rq_ID q = i then f q else q) qs)"
  using assms unfolding only_request_def keeps_rq_ID_def by (auto simp: image_iff)

lemma keeps_rq_IDs [simp]:
  "keeps_rq_ID (\<lambda>r. r\<lparr>rq_Status := st\<rparr>)"
  "keeps_rq_ID (\<lambda>r. r\<lparr>rq_Status := st, rq_AdminID := a, rq_AdminRemark := m, rq_ProcessedAt := t\<rparr>)"
  "keeps_rq_ID (\<lambda>r. r\<lparr>rq_Status := st, rq_GatewayResponse := g, rq_CompletedAt := t\<rparr>)"
  "keeps_rq_ID (\<lambda>r. r\<lparr>rq_Status := st, rq_GatewayRefundID := x, rq_GatewayResponse := g, rq_CompletedAt := t\<rparr>)"
  by (simp_all add: keeps_rq_ID_def)

text \<open>The job of a request touches only this request, never makes it pending, and books it at most once.\<close>

definition job_frame :: "nat \<Rightarrow> payments \<Rightarrow> payments \<Rightarrow> bool" where
  "job_frame i s s' \<longleftrightarrow> only_request i (py_requests s) (py_requests s') \<and>
     (\<forall>q \<in> set (py_requests s'). rq_Status q = RefundStatusPending \<longrightarrow> q \<in> set (py_requests s)) \<and>
     (\<forall>j. j \<noteq> i \<longrightarrow> booked j s' = booked j s) \<and> booked i s \<le> booked i s'"

lemma job_frame_refl [simp]: "job_frame i s s"
  by (simp add: job_frame_def)

lemma job_frame_trans:
  assumes "job_frame i s t" "job_frame i t u"
  shows "job_frame i s u"
proof -
  have "only_request i (py_requests s) (py_requests u)"
    using assms only_request_trans unfolding job_frame_def by blast
  moreover have "\<forall>q \<in> set (py_requests u). rq_Status q = RefundStatusPending \<longrightarrow> q \<in> set (py_requests s)"
    using assms unfolding job_frame_def by blast
  ultimately show ?thesis using assms unfolding job_frame_def by auto
qed

lemma job_frame_request:
  "keeps_rq_ID f \<Longrightarrow> (\<And>q. rq_Status (f q) \<noteq> RefundStatusPending) \<Longrightarrow> job_frame i s (on_request i f s)"
  by (auto simp: job_frame_def only_request_map split: if_splits)

lemma markRefundFailed_frame: "job_frame i s (markRefundFailed env i m s)" "booked j (markRefundFailed env i m s) = booked j s"
  by (auto simp: markRefundFailed_def job_frame_def only_request_map split: if_splits)

lemma load_refund_state: "load_refund env i s = (r, t) \<Longrightarrow> t = s"
  by (auto simp: load_refund_def split: if_splits option.splits)

lemma load_refund_ok:
  "load_refund env i s = (Inr q, t) \<Longrightarrow> t = s \<and> q \<in> set (py_requests s) \<and> rq_ID q = i"
  by (auto simp: load_refund_def dest: first_where_Some split: if_splits option.splits)

lemma start_refund_frame:
  assumes "start_refund env i s = (r, t)"
  shows "job_frame i s t" "booked j t = booked j s" "r = Some (q, p, x) \<Longrightarrow> rq_ID q = i"
proof -
  define u where "u = (if pv_down env UpdateRequest then s else on_request i (\<lambda>r. r\<lparr>rq_Status := RefundStatusProcessing\<rparr>) s)"
  have u: "job_frame i s u" "booked j u = booked j s" by (auto simp: u_def job_frame_request)
  note run = assms [unfolded start_refund_def Let_def, folded u_def]
  obtain a v where a: "load_refund env i u = (a, v)" by fastforce
  have v: "v = u" using load_refund_state [OF a] .
  have "job_frame i s t \<and> booked j t = booked j s \<and> (r = Some (q, p, x) \<longrightarrow> rq_ID q = i)"
  proof (cases a)
    case (Inl e)
    then show ?thesis using run a v u by simp
  next
    case (Inr rq)
    obtain b w where b: "load_payment env (rq_PaymentID rq) u = (b, w)" by fastforce
    have w: "w = u" using load_payment_state [OF b] .
    have rq: "rq_ID rq = i" using a Inr load_refund_ok by blast
    show ?thesis
    proof (cases b)
      case (Inl e)
      then show ?thesis using run a v Inr b w u job_frame_trans [OF u(1) markRefundFailed_frame(1)]
        by (auto simp: markRefundFailed_frame(2))
    next
      case (Inr pay)
      obtain ans call where ac: "InvokeGatewayRefund env pay (rq_RefundAmountRMB rq) = (ans, call)" by fastforce
      define z where "z = LogPaymentEvent env ''refund.gateway_called'' (Some (pm_ID pay)) (Some i)
         (case ans of Inl _ \<Rightarrow> False | Inr _ \<Rightarrow> True) (case call of None \<Rightarrow> u | Some c \<Rightarrow> called_gateway c u)"
      have z: "job_frame i s z" "booked j z = booked j s"
        using u by (auto simp: z_def job_frame_def split: option.splits)
      have "(r, t) = (case ans of Inl e \<Rightarrow> (None, markRefundFailed env i ''gateway'' z) | Inr x \<Rightarrow> (Some (rq, pay, x), z))"
        using run a v \<open>a = Inr rq\<close> b w Inr ac by (cases ans) (simp_all add: z_def)
      then show ?thesis using z rq job_frame_trans [OF z(1) markRefundFailed_frame(1)]
        by (auto simp: markRefundFailed_frame(2) split: sum.splits)
    qed
  qed
  then show "job_frame i s t" "booked j t = booked j s" "r = Some (q, p, x) \<Longrightarrow> rq_ID q = i" by auto
qed


lemma book_refund_frame:
  assumes "book_refund env q p r s = (x, t)"
  shows "only_request (rq_ID q) (py_requests s) (py_requests t)"
    and "j \<noteq> rq_ID q \<Longrightarrow> booked j t = booked j s"
    and "booked (rq_ID q) t = booked (rq_ID q) s \<or> booked (rq_ID q) t = Suc (booked (rq_ID q) s)"
    and "t = s \<or> (\<forall>q' \<in> set (py_requests t). rq_ID q' = rq_ID q \<longrightarrow> rq_Status q' = RefundStatusCompleted)"
proof -
  let ?i = "rq_ID q"
  have "t = s \<or> only_request ?i (py_requests s) (py_requests t) \<and> (\<forall>j. j \<noteq> ?i \<longrightarrow> booked j t = booked j s) \<and>
     booked ?i t = Suc (booked ?i s) \<and> (\<forall>q' \<in> set (py_requests t). rq_ID q' = ?i \<longrightarrow> rq_Status q' = RefundStatusCompleted)"
  proof (cases x)
    case (Inl e)
    have "t = s" by (rule transaction_error_rolls_back [OF assms [unfolded book_refund_def Inl]])
    then show ?thesis by simp
  next
    case (Inr y)
    obtain u1 s1 u2 s2 where b: "refund_request_row env q r s = (Inr u1, s1)" "refund_payment_row env q p s1 = (Inr u2, s2)"
        "on_pay_ledger (refund_balance (pv_ledger env) q p) s2 = (Inr y, t)"
      using assms Inr unfolding book_refund_def by (auto simp: transaction_ok andThen_ok)
    define f where "f = (\<lambda>x :: PaymentRefundRequest. x\<lparr>rq_Status := RefundStatusCompleted, rq_GatewayRefundID := rr_GatewayRefundID r,
       rq_GatewayResponse := rr_RefundStatus r, rq_CompletedAt := Some (pv_now env)\<rparr>)"
    have s1: "s1 = on_request ?i f s" using b(1) by (auto simp: refund_request_row_def f_def)
    have s2: "py_requests s2 = py_requests s1" "booked j s2 = booked j s1" for j
      using b(2) by (auto simp: refund_payment_row_def Let_def)
    obtain l where l: "refund_balance (pv_ledger env) q p (py_ledger s2) = (Inr y, l)" "t = s2\<lparr>py_ledger := l\<rparr>"
      using b(3) by (auto simp: on_pay_ledger_def split: prod.splits sum.splits)
    then obtain rec where rec: "lg_records l = lg_records (py_ledger s2) @ [rec]" "br_Type rec = ''REFUND''" "br_RelatedID rec = ''refund:'' @ show_nat ?i"
      by (auto simp: refund_balance_def Let_def andThen_ok)
    have "booked j t = (if j = ?i then Suc (booked j s2) else booked j s2)" for j
      using rec l(2) show_nat_inj [of ?i j] by (auto simp: booked_def)
    moreover have f: "rq_ID (f x) = rq_ID x" "rq_Status (f x) = RefundStatusCompleted" for x by (simp_all add: f_def)
    moreover have "py_requests t = map (\<lambda>x. if rq_ID x = ?i then f x else x) (py_requests s)" using s1 s2 l(2) by simp
    ultimately show ?thesis
      using s1 s2 only_request_map [of f ?i "py_requests s"] by (auto simp: keeps_rq_ID_def)
  qed
  then show "only_request (rq_ID q) (py_requests s) (py_requests t)" "j \<noteq> rq_ID q \<Longrightarrow> booked j t = booked j s"
    "booked (rq_ID q) t = booked (rq_ID q) s \<or> booked (rq_ID q) t = Suc (booked (rq_ID q) s)"
    "t = s \<or> (\<forall>q' \<in> set (py_requests t). rq_ID q' = rq_ID q \<longrightarrow> rq_Status q' = RefundStatusCompleted)"
    by auto
qed

lemma executeRefundAsync_frame:
  assumes "t = executeRefundAsync env i s"
  shows "job_frame i s t" "booked i t \<le> Suc (booked i s)"
proof -
  obtain r u where u: "start_refund env i s = (r, u)" by fastforce
  note f = start_refund_frame [OF u]
  have "job_frame i s t \<and> booked i t \<le> Suc (booked i s)"
  proof (cases r)
    case None
    then show ?thesis using assms u f by (simp add: executeRefundAsync_def)
  next
    case (Some a)
    obtain q p x where a: "a = (q, p, x)" by (rule prod_cases3)
    have q: "rq_ID q = i" using f(3) Some a by blast
    obtain y v where v: "book_refund env q p x u = (y, v)" by fastforce
    note b = book_refund_frame [OF v, unfolded q]
    have "\<forall>q' \<in> set (py_requests v). rq_Status q' = RefundStatusPending \<longrightarrow> q' \<in> set (py_requests u)"
      using b(1,4) unfolding only_request_def by force
    then have uv: "job_frame i u v" using b(1-3) by (auto simp: job_frame_def)
    have t: "t = finish_refund env q p x u" using assms u Some a by (simp add: executeRefundAsync_def)
    have "job_frame i v t \<and> booked i t = booked i v"
      unfolding t finish_refund_def v q using markRefundFailed_frame [where i = i and env = env]
      by (cases y) (simp_all add: job_frame_def q)
    then show ?thesis using job_frame_trans [OF f(1) job_frame_trans [OF uv]] b(3) f(2) by auto
  qed
  then show "job_frame i s t" "booked i t \<le> Suc (booked i s)" by auto
qed


section \<open>Reviews one after another\<close>

text \<open>The service and the ids of the jobs that approvals have started and that have not run yet.\<close>

inductive refund_run :: "payments \<Rightarrow> nat list \<Rightarrow> bool" where
  start: "py_requests s = [] \<Longrightarrow> (\<forall>i. booked i s = 0) \<Longrightarrow> refund_run s []"
| submitted: "refund_run s jobs \<Longrightarrow> SubmitUserRequest env inp s = (r, s') \<Longrightarrow> refund_run s' jobs"
| approved: "refund_run s jobs \<Longrightarrow> ApproveByAdmin env i adm m s = (Inr u, s') \<Longrightarrow> refund_run s' (i # jobs)"
| not_approved: "refund_run s jobs \<Longrightarrow> ApproveByAdmin env i adm m s = (Inl e, s') \<Longrightarrow> refund_run s' jobs"
| rejected: "refund_run s jobs \<Longrightarrow> RejectByAdmin env i adm m s = (v, s') \<Longrightarrow> refund_run s' jobs"
| executed: "refund_run s jobs \<Longrightarrow> i \<in> set jobs \<Longrightarrow> refund_run (executeRefundAsync env i s) (remove1 i jobs)"

definition unbooked :: "payments \<Rightarrow> nat list \<Rightarrow> bool" where
  "unbooked s jobs \<longleftrightarrow> distinct jobs \<and> distinct (map rq_ID (py_requests s)) \<and>
     (\<forall>i \<in> set jobs. i \<in> set (map rq_ID (py_requests s)) \<and> booked i s = 0) \<and>
     (\<forall>q \<in> set (py_requests s). rq_Status q = RefundStatusPending \<longrightarrow> rq_ID q \<notin> set jobs \<and> booked (rq_ID q) s = 0) \<and>
     (\<forall>i. booked i s \<le> 1) \<and> (\<forall>i. i \<notin> set (map rq_ID (py_requests s)) \<longrightarrow> booked i s = 0)"

lemma submit_effect:
  assumes "SubmitUserRequest env inp s = (r, s')"
  shows "\<forall>i. booked i s' = booked i s" and "py_requests s' = py_requests s \<or>
    (\<exists>q. py_requests s' = py_requests s @ [q] \<and> rq_ID q = fresh_refund_id s)"
proof -
  have "(\<forall>i. booked i s' = booked i s) \<and> (py_requests s' = py_requests s \<or>
    (\<exists>q. py_requests s' = py_requests s @ [q] \<and> rq_ID q = fresh_refund_id s))"
  proof (cases "s' = s")
    case False
    then obtain p where "s' = LogPaymentEvent env ''refund.requested'' (Some (pm_ID p)) (Some (fresh_refund_id s)) True
        (s\<lparr>py_requests := py_requests s @ [new_refund_request env inp p (fresh_refund_id s)]\<rparr>)"
      using assms load_payment_state
      by (fastforce simp: SubmitUserRequest_def andThen_def new_refund_request_def Let_def split: if_splits option.splits prod.splits sum.splits)
    then show ?thesis by (auto simp: booked_def LogPaymentEvent_def new_refund_request_def)
  qed simp
  then show "\<forall>i. booked i s' = booked i s" "py_requests s' = py_requests s \<or>
    (\<exists>q. py_requests s' = py_requests s @ [q] \<and> rq_ID q = fresh_refund_id s)" by auto
qed

lemma fresh_refund: "q \<in> set (py_requests s) \<Longrightarrow> rq_ID q \<noteq> fresh_refund_id s"
proof -
  assume "q \<in> set (py_requests s)"
  then have "rq_ID q \<le> fold max (map rq_ID (py_requests s)) 0"
    using Max_ge [of "set (0 # map rq_ID (py_requests s))" "rq_ID q"] by (simp add: Max.set_eq_fold [symmetric])
  then show ?thesis by (simp add: fresh_refund_id_def)
qed

lemma review_effect:
  assumes "andThen (require_pending env i) (review env st evt adm m) s = (r, s')"
  shows "\<forall>j. booked j s' = booked j s" and "case r of
      Inl e \<Rightarrow> py_requests s' = py_requests s
    | Inr u \<Rightarrow> (\<exists>q \<in> set (py_requests s). rq_ID q = i \<and> rq_Status q = RefundStatusPending) \<and>
        py_requests s' = map (\<lambda>q. if rq_ID q = i then q\<lparr>rq_Status := st, rq_AdminID := Some adm, rq_AdminRemark := m,
           rq_ProcessedAt := Some (pv_now env)\<rparr> else q) (py_requests s)"
proof -
  obtain a t where a: "require_pending env i s = (a, t)" by fastforce
  have t: "t = s" "\<forall>q. a = Inr q \<longrightarrow> q \<in> set (py_requests s) \<and> rq_ID q = i \<and> rq_Status q = RefundStatusPending"
    using a load_refund_state load_refund_ok
    by (fastforce simp: require_pending_def andThen_def split: prod.splits sum.splits if_splits)+
  have "(\<forall>j. booked j s' = booked j s) \<and> (case r of
      Inl e \<Rightarrow> py_requests s' = py_requests s
    | Inr u \<Rightarrow> (\<exists>q \<in> set (py_requests s). rq_ID q = i \<and> rq_Status q = RefundStatusPending) \<and>
        py_requests s' = map (\<lambda>q. if rq_ID q = i then q\<lparr>rq_Status := st, rq_AdminID := Some adm, rq_AdminRemark := m,
           rq_ProcessedAt := Some (pv_now env)\<rparr> else q) (py_requests s))"
    using assms a t by (cases a) (auto simp: andThen_def review_def split: if_splits)
  then show "\<forall>j. booked j s' = booked j s" "case r of
      Inl e \<Rightarrow> py_requests s' = py_requests s
    | Inr u \<Rightarrow> (\<exists>q \<in> set (py_requests s). rq_ID q = i \<and> rq_Status q = RefundStatusPending) \<and>
        py_requests s' = map (\<lambda>q. if rq_ID q = i then q\<lparr>rq_Status := st, rq_AdminID := Some adm, rq_AdminRemark := m,
           rq_ProcessedAt := Some (pv_now env)\<rparr> else q) (py_requests s)" by auto
qed


lemma unbooked_review:
  assumes "unbooked s jobs" "andThen (require_pending env i) (review env st evt adm m) s = (Inr u, s')" "st \<noteq> RefundStatusPending"
  shows "unbooked s' jobs" "st = RefundStatusApproved \<Longrightarrow> unbooked s' (i # jobs)"
proof -
  let ?f = "\<lambda>q. q\<lparr>rq_Status := st, rq_AdminID := Some adm, rq_AdminRemark := m, rq_ProcessedAt := Some (pv_now env)\<rparr>"
  obtain q where q: "q \<in> set (py_requests s)" "rq_ID q = i" "rq_Status q = RefundStatusPending"
    and r: "py_requests s' = map (\<lambda>q. if rq_ID q = i then ?f q else q) (py_requests s)"
    using review_effect(2) [OF assms(2)] by auto
  note b = review_effect(1) [OF assms(2)]
  have ids: "map rq_ID (py_requests s') = map rq_ID (py_requests s)" unfolding r by (simp add: comp_def)
  have pend: "q' \<in> set (py_requests s) \<and> rq_ID q' \<noteq> i" if "q' \<in> set (py_requests s')" "rq_Status q' = RefundStatusPending" for q'
    using that assms(3) unfolding r by (auto split: if_splits)
  have i: "i \<notin> set jobs" "booked i s = 0" "i \<in> set (map rq_ID (py_requests s))"
    using assms(1) q unfolding unbooked_def by auto
  show "unbooked s' jobs" using assms(1) b pend unfolding unbooked_def ids by metis
  show "unbooked s' (i # jobs)" using assms(1) b pend i unfolding unbooked_def ids by (metis distinct.simps(2) set_ConsD list.set_intros(2) set_ConsD)
qed

lemma unbooked_execute:
  assumes "unbooked s jobs" "i \<in> set jobs"
  shows "unbooked (executeRefundAsync env i s) (remove1 i jobs)"
proof -
  define t where "t = executeRefundAsync env i s"
  note f = executeRefundAsync_frame [OF t_def]
  have ids: "map rq_ID (py_requests t) = map rq_ID (py_requests s)" using f(1) by (simp add: job_frame_def only_request_def)
  have i0: "booked i s = 0" using assms unfolding unbooked_def by blast
  have other: "j \<noteq> i \<Longrightarrow> booked j t = booked j s" for j using f(1) by (simp add: job_frame_def)
  have pend: "q \<in> set (py_requests s)" if "q \<in> set (py_requests t)" "rq_Status q = RefundStatusPending" for q
    using f(1) that by (simp add: job_frame_def)
  have d: "distinct jobs" using assms(1) by (simp add: unbooked_def)
  have "booked j t \<le> 1" for j
  proof (cases "j = i")
    case True
    then show ?thesis using f(2) i0 by simp
  next
    case False
    then show ?thesis using other assms(1) by (simp add: unbooked_def)
  qed
  moreover have "j \<in> set (map rq_ID (py_requests t)) \<and> booked j t = 0" if "j \<in> set (remove1 i jobs)" for j
    using that other ids assms(1) d by (simp add: unbooked_def)
  moreover have "rq_ID q \<notin> set (remove1 i jobs) \<and> booked (rq_ID q) t = 0"
    if "q \<in> set (py_requests t)" "rq_Status q = RefundStatusPending" for q
  proof -
    have q: "rq_ID q \<notin> set jobs" "booked (rq_ID q) s = 0" using pend [OF that] that(2) assms(1) by (auto simp: unbooked_def)
    then have "rq_ID q \<noteq> i" using assms(2) by blast
    then show ?thesis using q other d by simp
  qed
  moreover have "booked j t = 0" if j: "j \<notin> set (map rq_ID (py_requests t))" for j
  proof -
    have "j \<noteq> i" using j assms unfolding unbooked_def ids by blast
    then show ?thesis using other j assms(1) unfolding unbooked_def ids by simp
  qed
  ultimately show ?thesis using assms(1) d unfolding t_def [symmetric] unbooked_def ids by simp
qed

lemma unbooked_submit:
  assumes "unbooked s jobs" "SubmitUserRequest env inp s = (r, s')"
  shows "unbooked s' jobs"
proof -
  note e = submit_effect [OF assms(2)]
  show ?thesis
  proof (cases "py_requests s' = py_requests s")
    case True
    then show ?thesis using assms(1) e(1) by (simp add: unbooked_def)
  next
    case False
    then obtain q where q: "py_requests s' = py_requests s @ [q]" "rq_ID q = fresh_refund_id s" using e(2) by blast
    have n: "rq_ID q \<notin> set (map rq_ID (py_requests s))" using fresh_refund [of _ s] q(2) by fastforce
    then have "rq_ID q \<notin> set jobs" "booked (rq_ID q) s = 0" using assms(1) unfolding unbooked_def by blast+
    then show ?thesis using assms(1) e(1) n unfolding unbooked_def q(1) by auto
  qed
qed

lemma refund_run_unbooked: "refund_run s jobs \<Longrightarrow> unbooked s jobs"
proof (induction rule: refund_run.induct)
  case (start s)
  then show ?case by (simp add: unbooked_def)
next
  case submitted
  show ?case by (rule unbooked_submit [OF submitted.IH submitted.hyps(2)])
next
  case (approved s jobs env i adm m u s')
  show ?case
    using unbooked_review(2) [OF approved.IH approved.hyps(2) [unfolded ApproveByAdmin_def commit_approve_def]] by simp
next
  case (not_approved s jobs env i adm m e s')
  note r = review_effect [OF not_approved.hyps(2) [unfolded ApproveByAdmin_def commit_approve_def]]
  show ?case using not_approved.IH r by (simp add: unbooked_def)
next
  case (rejected s jobs env i adm m v s')
  note h = rejected.hyps(2) [unfolded RejectByAdmin_def commit_reject_def]
  show ?case
  proof (cases v)
    case (Inl e)
    then show ?thesis using rejected.IH review_effect [OF h] by (simp add: unbooked_def)
  next
    case (Inr u)
    then show ?thesis using unbooked_review(1) [OF rejected.IH h [unfolded Inr]] by simp
  qed
next
  case executed
  show ?case by (rule unbooked_execute [OF executed.IH executed.hyps(2)])
qed


section \<open>Samples\<close>

text \<open>A state with one order, its user and an environment in which everything works.\<close>

definition order_state ::
  "Payment \<Rightarrow> PaymentRefundRequest list \<Rightarrow> UserBalance \<Rightarrow> BalanceRecord list \<Rightarrow> gateway_call list \<Rightarrow> payments" where
  "order_state p reqs ub recs gw =
     \<lparr>py_ledger = empty_ledger\<lparr>lg_balances := [7 \<mapsto> ub], lg_records := recs\<rparr>, py_payments = [p], py_requests = reqs,
      py_accounts = [], py_rates = [], py_orderCache = (\<lambda>_. None), py_penalty = (\<lambda>_. None), py_gateway = gw,
      py_events = [], py_audit = [], py_published = []\<rparr>"

definition paid_row :: "int64 \<Rightarrow> UserBalance" where
  "paid_row n = zero_UserBalance\<lparr>ub_UserID := 7, ub_TenantID := 2, ub_Currency := ''CREDIT'', ub_Balance := n,
     ub_BalanceRMB := CreditsToRMB n, ub_TotalRecharged := 7000000\<rparr>"

definition paid_record :: BalanceRecord where
  "paid_record =
     \<lparr>br_UserID = 7, br_TenantID = 2, br_Type = ''RECHARGE'', br_Amount = 7000000, br_AmountRMB = 700, br_BeforeBalance = 0,
      br_AfterBalance = 7000000, br_AmountUnits = 0, br_BeforeBalanceUnits = 0, br_AfterBalanceUnits = 0,
      br_Remark = ''payment recharge'', br_RelatedID = ''TH1''\<rparr>"

definition paid_state :: payments where
  "paid_state = order_state (dollar_order PaymentStatusCompleted 0 0) [] (paid_row 7000000) [paid_record] []"

definition demo_request_row :: "nat \<Rightarrow> float64 \<Rightarrow> PaymentRefundRequest" where
  "demo_request_row i amount =
     \<lparr>rq_ID = i, rq_PaymentID = 1, rq_UserID = 7, rq_TenantID = 2, rq_OrderNo = ''TH1'', rq_RefundAmountRMB = amount,
      rq_Reason = ''w'', rq_Attachments = [], rq_Status = RefundStatusPending, rq_AdminID = None, rq_AdminRemark = '''',
      rq_GatewayRefundID = '''', rq_GatewayResponse = '''', rq_ProcessedAt = None, rq_CompletedAt = None, rq_CreatedAt = 1000\<rparr>"

definition reviewed :: "nat \<Rightarrow> PaymentRefundRequest \<Rightarrow> PaymentRefundRequest" where
  "reviewed adm q = q\<lparr>rq_Status := RefundStatusApproved, rq_AdminID := Some adm, rq_AdminRemark := '''', rq_ProcessedAt := Some 1000\<rparr>"

definition job_done :: "PaymentRefundRequest \<Rightarrow> PaymentRefundRequest" where
  "job_done q = q\<lparr>rq_Status := RefundStatusCompleted, rq_GatewayRefundID := ''r'', rq_GatewayResponse := ''success'',
     rq_CompletedAt := Some 1000\<rparr>"

definition demo_ask :: "float64 \<Rightarrow> SubmitUserRequestInput" where
  "demo_ask amount =
     \<lparr>su_UserID = 7, su_TenantID = 2, su_PaymentID = 1, su_AmountRMB = amount, su_Reason = ''w'', su_ReasonRunes = 1,
      su_Attachments = []\<rparr>"

lemma demo_env_simps [simp]:
  "pv_down pay_demo c = False" "pv_logger pay_demo = False" "pv_now pay_demo = 1000" "pv_bypass pay_demo = False"
  "pv_gateways pay_demo = [''stripe'']" "pv_refund pay_demo g a = Some \<lparr>rr_RefundStatus = ''success'', rr_GatewayRefundID = ''r''\<rparr>"
  "pv_ledger pay_demo = calm" "le_fails calm c' = False"
  by (simp_all add: pay_demo_def calm_def)

lemma trim_w [simp]: "TrimSpace ''w'' = ''w''"
  by code_simp

lemma ask_amount: "roundHalf (fsub 100 0) = 100" "a \<le> 100 \<Longrightarrow> \<not> fadd 100 (lit (1 / 1000)) < a"
proof -
  show "roundHalf (fsub 100 0) = 100" by code_simp
  have "100 \<le> fadd 100 (lit (1 / 1000))" by code_simp
  then show "a \<le> 100 \<Longrightarrow> \<not> fadd 100 (lit (1 / 1000)) < a" by simp
qed

lemma demo_submit:
  assumes "0 < a" "a \<le> 100" "\<forall>q \<in> set reqs. rq_Status q = RefundStatusFailed \<and> rq_UserID q = 7 \<and> rq_CreatedAt q = 1000"
    "length reqs < 3" "i = Suc (fold max (map rq_ID reqs) 0)"
  shows "SubmitUserRequest pay_demo (demo_ask a) (order_state (dollar_order PaymentStatusCompleted 0 0) reqs ub recs gw) =
    (Inr (demo_request_row i a), order_state (dollar_order PaymentStatusCompleted 0 0) (reqs @ [demo_request_row i a]) ub recs gw)"
proof -
  have "\<not> 3 \<le> length (filter (\<lambda>q. rq_UserID q = 7 \<and> today 1000 \<le> rq_CreatedAt q) reqs)"
    using assms(4) length_filter_le [of _ reqs] by (metis le_trans not_less)
  then show ?thesis
    using assms(1,2,3,5)
    by (auto simp: SubmitUserRequest_def andThen_def load_payment_def order_state_def demo_ask_def dollar_order_def first_where_def
        ask_amount is_open_def checkDailyLimit_def dailyRefundLimit_def new_refund_request_def fresh_refund_id_def LogPaymentEvent_def
        demo_request_row_def extractOrderNo_def meta_order_no_def Let_def)
qed

lemma find_last: "\<forall>x \<in> set xs. rq_ID x \<noteq> rq_ID q \<Longrightarrow> first_where (\<lambda>x. rq_ID x = rq_ID q) (xs @ [q]) = Some q"
  by (simp add: first_where_def filter_False)

lemma map_others: "\<forall>x \<in> set xs. rq_ID x \<noteq> i \<Longrightarrow> map (\<lambda>x. if rq_ID x = i then f x else x) xs = xs"
  by (induction xs) auto

lemma demo_approve:
  assumes "rq_Status q = RefundStatusPending" "\<forall>x \<in> set xs. rq_ID x \<noteq> rq_ID q"
  shows "ApproveByAdmin pay_demo (rq_ID q) adm '''' (order_state p (xs @ [q]) ub recs gw) =
    (Inr (), order_state p (xs @ [reviewed adm q]) ub recs gw)"
  using assms find_last [OF assms(2)] map_others [OF assms(2)]
  by (simp add: ApproveByAdmin_def require_pending_def load_refund_def andThen_def commit_approve_def review_def order_state_def
      LogPaymentEvent_def on_request_def reviewed_def)


text \<open>The job when everything works, and when the row of the balance cannot be locked.\<close>

definition refunded_payment :: "float64 \<Rightarrow> Payment \<Rightarrow> Payment" where
  "refunded_payment a p =
     (let n = roundHalf (fadd (pm_RefundedAmount p) a)
      in p\<lparr>pm_RefundedAmount := n, pm_RefundCount := pm_RefundCount p + 1,
           pm_Status := (if n \<ge> fsub (pm_Amount p) (lit (1 / 1000)) then PaymentStatusRefunded else PaymentStatusPartialRefunded)\<rparr>)"

definition refund_record :: "PaymentRefundRequest \<Rightarrow> UserBalance \<Rightarrow> BalanceRecord" where
  "refund_record q ub =
     \<lparr>br_UserID = 7, br_TenantID = 2, br_Type = ''REFUND'', br_Amount = neg64 (RMBToCredits (rq_RefundAmountRMB q)),
      br_AmountRMB = - rq_RefundAmountRMB q, br_BeforeBalance = ub_Balance ub,
      br_AfterBalance = sub64 (ub_Balance ub) (RMBToCredits (rq_RefundAmountRMB q)), br_AmountUnits = 0,
      br_BeforeBalanceUnits = 0, br_AfterBalanceUnits = 0, br_Remark = ''refund '' @ rq_OrderNo q,
      br_RelatedID = ''refund:'' @ show_nat (rq_ID q)\<rparr>"

definition demo_order :: "Payment \<Rightarrow> bool" where
  "demo_order p \<longleftrightarrow> pm_ID p = 1 \<and> pm_UserID p = 7 \<and> pm_TenantID p = 2 \<and> pm_OrderNo p = Some ''TH1'' \<and> pm_Gateway p = ''stripe''"

lemma demo_start:
  assumes "demo_order p" "rq_PaymentID q = 1" "\<forall>x \<in> set xs. rq_ID x \<noteq> rq_ID q"
    and "env = pay_demo \<or> env = pay_demo\<lparr>pv_ledger := l\<rparr>"
  shows "start_refund env (rq_ID q) (order_state p (xs @ [q]) ub recs gw) =
    (Some (q\<lparr>rq_Status := RefundStatusProcessing\<rparr>, p, \<lparr>rr_RefundStatus = ''success'', rr_GatewayRefundID = ''r''\<rparr>),
     order_state p (xs @ [q\<lparr>rq_Status := RefundStatusProcessing\<rparr>]) ub recs
       (gw @ [RefundCall ''stripe'' ''TH1'' (rq_RefundAmountRMB q)]))"
proof -
  have e: "\<not> pv_down env c" "\<not> pv_logger env" "\<not> pv_bypass env" "pv_gateways env = [''stripe'']"
    "pv_refund env g a = Some \<lparr>rr_RefundStatus = ''success'', rr_GatewayRefundID = ''r''\<rparr>" for c g a
    using assms(4) by auto
  have "load_refund env (rq_ID q) (order_state p (xs @ [q\<lparr>rq_Status := RefundStatusProcessing\<rparr>]) ub recs gw) =
      (Inr (q\<lparr>rq_Status := RefundStatusProcessing\<rparr>), order_state p (xs @ [q\<lparr>rq_Status := RefundStatusProcessing\<rparr>]) ub recs gw)"
    using find_last [of xs "q\<lparr>rq_Status := RefundStatusProcessing\<rparr>"] assms(3) e by (simp add: load_refund_def order_state_def)
  moreover have "load_payment env 1 (order_state p rs ub recs gw) = (Inr p, order_state p rs ub recs gw)" for rs
    using assms(1) e by (simp add: load_payment_def order_state_def first_where_def demo_order_def)
  moreover have "on_request (rq_ID q) (\<lambda>r. r\<lparr>rq_Status := RefundStatusProcessing\<rparr>) (order_state p (xs @ [q]) ub recs gw) =
      order_state p (xs @ [q\<lparr>rq_Status := RefundStatusProcessing\<rparr>]) ub recs gw"
    using map_others [OF assms(3)] by (simp add: on_request_def order_state_def)
  ultimately show ?thesis
    using assms(1,2) e
    by (simp add: start_refund_def InvokeGatewayRefund_def LogPaymentEvent_def called_gateway_def demo_order_def order_state_def)
qed

lemma demo_execute:
  assumes "demo_order p" "rq_PaymentID q = 1" "\<forall>x \<in> set xs. rq_ID x \<noteq> rq_ID q"
  shows "executeRefundAsync pay_demo (rq_ID q) (order_state p (xs @ [q]) ub recs gw) =
    order_state (refunded_payment (rq_RefundAmountRMB q) p) (xs @ [job_done q])
      (refunded_row (RMBToCredits (rq_RefundAmountRMB q)) ub) (recs @ [refund_record q ub])
      (gw @ [RefundCall ''stripe'' ''TH1'' (rq_RefundAmountRMB q)])"
  unfolding executeRefundAsync_def demo_start [OF assms disjI1 [OF refl]]
  using assms map_others [OF assms(3)]
  by (simp add: finish_refund_def book_refund_def transaction_def andThen_def
      refund_request_row_def refund_payment_row_def guarded_def modify_def on_pay_ledger_def refund_balance_def lockBalance_def
      saveBalance_def createRecord_def order_state_def on_request_def on_payment_def LogPaymentEvent_def refunded_payment_def
      refund_record_def job_done_def Let_def demo_order_def)

definition locked_out :: pay_env where
  "locked_out = pay_demo\<lparr>pv_ledger := calm\<lparr>le_fails := (\<lambda>c. c = LockBalance)\<rparr>\<rparr>"

definition job_failed :: "PaymentRefundRequest \<Rightarrow> PaymentRefundRequest" where
  "job_failed q = q\<lparr>rq_Status := RefundStatusFailed, rq_GatewayResponse := ''db tx failed after gateway success'',
     rq_CompletedAt := Some 1000\<rparr>"

lemma demo_execute_locked:
  assumes "demo_order p" "rq_PaymentID q = 1" "\<forall>x \<in> set xs. rq_ID x \<noteq> rq_ID q"
  shows "executeRefundAsync locked_out (rq_ID q) (order_state p (xs @ [q]) ub recs gw) =
    order_state p (xs @ [job_failed q]) ub recs (gw @ [RefundCall ''stripe'' ''TH1'' (rq_RefundAmountRMB q)])"
  unfolding executeRefundAsync_def demo_start [OF assms disjI2 [OF locked_out_def]]
  using assms map_others [OF assms(3)]
  by (simp add: finish_refund_def book_refund_def transaction_def andThen_def
      refund_request_row_def refund_payment_row_def guarded_def modify_def on_pay_ledger_def refund_balance_def lockBalance_def
      markRefundFailed_def order_state_def on_request_def on_payment_def LogPaymentEvent_def
      job_failed_def Let_def demo_order_def locked_out_def)


text \<open>The order of the samples is one that a callback has completed.\<close>

lemma demo_paid: "py_payments (after_callbacks 1) = py_payments paid_state"
  "lg_records (py_ledger (after_callbacks 1)) = lg_records (py_ledger paid_state)"
  by code_simp+

definition asked :: "float64 \<Rightarrow> payments" where
  "asked amount = snd (SubmitUserRequest pay_demo (demo_ask amount) paid_state)"

definition refunded_once :: "float64 \<Rightarrow> payments" where
  "refunded_once amount = executeRefundAsync pay_demo 1 (snd (ApproveByAdmin pay_demo 1 9 '''' (asked amount)))"

lemma asked_state:
  assumes "0 < a" "a \<le> 100"
  shows "asked a = order_state (dollar_order PaymentStatusCompleted 0 0) [demo_request_row 1 a] (paid_row 7000000) [paid_record] []"
  using demo_submit [OF assms, of "[]" 1] by (simp add: asked_def paid_state_def)

lemma demo_order_dollar [simp]: "demo_order (dollar_order st r n)"
  by (simp add: demo_order_def dollar_order_def)

lemma row_simps [simp]:
  "rq_ID (demo_request_row i a) = i" "rq_PaymentID (demo_request_row i a) = 1" "rq_Status (demo_request_row i a) = RefundStatusPending"
  "rq_RefundAmountRMB (demo_request_row i a) = a"
  "rq_ID (reviewed adm q) = rq_ID q" "rq_PaymentID (reviewed adm q) = rq_PaymentID q" "rq_RefundAmountRMB (reviewed adm q) = rq_RefundAmountRMB q"
  "rq_ID (job_failed q) = rq_ID q" "rq_ID (job_done q) = rq_ID q" "rq_PaymentID (job_done q) = rq_PaymentID q"
  "rq_RefundAmountRMB (job_done q) = rq_RefundAmountRMB q" "rq_Status (job_failed q) = RefundStatusFailed"
  "rq_Status (job_done q) = RefundStatusCompleted"
  by (simp_all add: demo_request_row_def reviewed_def job_failed_def job_done_def)

lemma refunded_once_state:
  assumes "0 < a" "a \<le> 100"
  shows "refunded_once a = order_state (refunded_payment a (dollar_order PaymentStatusCompleted 0 0)) [job_done (reviewed 9 (demo_request_row 1 a))]
     (refunded_row (RMBToCredits a) (paid_row 7000000)) [paid_record, refund_record (reviewed 9 (demo_request_row 1 a)) (paid_row 7000000)]
     [RefundCall ''stripe'' ''TH1'' a]"
  using demo_approve [of "demo_request_row 1 a" "[]" 9 "dollar_order PaymentStatusCompleted 0 0" "paid_row 7000000" "[paid_record]" "[]"]
    demo_execute [of "dollar_order PaymentStatusCompleted 0 0" "reviewed 9 (demo_request_row 1 a)" "[]" "paid_row 7000000" "[paid_record]" "[]"]
  by (simp add: refunded_once_def asked_state [OF assms])

lemma part_refund: "refunded_payment 40 (dollar_order PaymentStatusCompleted 0 0) = dollar_order PaymentStatusPartialRefunded 40 1"
  "refunded_row (RMBToCredits 40) (paid_row 7000000) = paid_row 6600000" "RMBToCredits 40 = 400000"
  by code_simp+

lemma full_refund: "refunded_payment 100 (dollar_order PaymentStatusCompleted 0 0) = dollar_order PaymentStatusRefunded 100 1"
  "RMBToCredits 100 = 1000000"
  by code_simp+

lemma refund_record_booked: "br_Type (refund_record q ub) = ''REFUND''" "br_RelatedID (refund_record q ub) = ''refund:'' @ show_nat (rq_ID q)"
  "br_Type paid_record = ''RECHARGE''"
  by (simp_all add: refund_record_def paid_record_def)

lemma py_order_state [simp]:
  "py_payments (order_state p reqs ub recs gw) = [p]" "py_requests (order_state p reqs ub recs gw) = reqs"
  "py_gateway (order_state p reqs ub recs gw) = gw" "lg_records (py_ledger (order_state p reqs ub recs gw)) = recs"
  "lg_balances (py_ledger (order_state p reqs ub recs gw)) 7 = Some ub"
  by (simp_all add: order_state_def)

section \<open>Properties\<close>

text \<open>C31: With reviews one after another, whatever fails, a request is booked against the account at most
  once, and not before its approval: requests whose job is still to run have no booking.\<close>

theorem refund_booked_once:
  assumes "refund_run s jobs"
  shows "booked i s \<le> 1 \<and> (i \<in> set jobs \<longrightarrow> booked i s = 0) \<and>
    (\<forall>q \<in> set (py_requests s). rq_Status q = RefundStatusPending \<longrightarrow> booked (rq_ID q) s = 0)"
  using refund_run_unbooked [OF assms] by (simp add: unbooked_def)

lemma demo_booked: "booked 1 (refunded_once 40) = 1"
  by (simp add: refunded_once_state booked_def refund_record_booked)

theorem refund_booked_once_witness: "refund_run (refunded_once 40) [] \<and> booked 1 (refunded_once 40) = 1"
proof -
  have "refund_run paid_state []"
    by (intro refund_run.start) (simp_all add: paid_state_def booked_def refund_record_booked)
  then have a: "refund_run (asked 40) []"
    unfolding asked_def by (rule refund_run.submitted [OF _ prod.collapse [symmetric]])
  have "ApproveByAdmin pay_demo 1 9 '''' (asked 40) = (Inr (), snd (ApproveByAdmin pay_demo 1 9 '''' (asked 40)))"
    using demo_approve [of "demo_request_row 1 40" "[]"] by (simp add: asked_state)
  then have "refund_run (snd (ApproveByAdmin pay_demo 1 9 '''' (asked 40))) [1]" by (rule refund_run.approved [OF a])
  then have r: "refund_run (refunded_once 40) []" using refund_run.executed [of _ "[1]" 1 pay_demo] by (simp add: refunded_once_def)
  show ?thesis using refund_booked_once [OF r, of 1] r demo_booked by simp
qed

text \<open>A callback that is sent again after a refund of a part credits the order a second time: the idempotence
  check knows completed and refunded orders, not partly refunded ones.\<close>

theorem partly_refunded_order_credited_again:
  "map br_Amount (lg_records (py_ledger (snd (HandleCallback pay_demo ''stripe'' (refunded_once 40))))) = [7000000, -400000, 7000000] \<and>
   map pm_Status (py_payments (snd (HandleCallback pay_demo ''stripe'' (refunded_once 40)))) = [PaymentStatusCompleted]"
  unfolding refunded_once_state [of 40, simplified] part_refund by code_simp

definition approved_twice :: payments where
  "approved_twice =
     (let s = asked 60; r = hd (py_requests s);
          s2 = snd (commit_approve pay_demo 10 '''' r (snd (commit_approve pay_demo 9 '''' r s)))
      in executeRefundAsync pay_demo 1 (executeRefundAsync pay_demo 1 s2))"

text \<open>Two approvals that both read the request before either writes start two jobs: the gateway pays twice,
  the account is charged twice, and more is paid back than the order was worth.\<close>

theorem interleaved_approvals_refund_twice:
  "require_pending pay_demo 1 (asked 60) = (Inr (hd (py_requests (asked 60))), asked 60) \<and>
   py_gateway approved_twice = [RefundCall ''stripe'' ''TH1'' 60, RefundCall ''stripe'' ''TH1'' 60] \<and>
   booked 1 approved_twice = 2 \<and> map pm_RefundedAmount (py_payments approved_twice) = [120]"
proof -
  let ?o = "dollar_order PaymentStatusCompleted 0 0"
  let ?q = "demo_request_row 1 60"
  have a: "asked 60 = order_state ?o [?q] (paid_row 7000000) [paid_record] []" by (simp add: asked_state)
  have r: "require_pending pay_demo 1 (asked 60) = (Inr ?q, asked 60)"
    by (simp add: a require_pending_def load_refund_def andThen_def first_where_def order_state_def)
  have c: "snd (commit_approve pay_demo 10 '''' ?q (snd (commit_approve pay_demo 9 '''' ?q (asked 60)))) =
      order_state ?o [reviewed 10 (reviewed 9 ?q)] (paid_row 7000000) [paid_record] []"
    by (simp add: a commit_approve_def review_def LogPaymentEvent_def on_request_def order_state_def reviewed_def)
  let ?r = "reviewed 10 (reviewed 9 ?q)"
  have x: "approved_twice = order_state (refunded_payment 60 (refunded_payment 60 ?o)) [job_done (job_done ?r)]
      (refunded_row (RMBToCredits 60) (refunded_row (RMBToCredits 60) (paid_row 7000000)))
      [paid_record, refund_record ?r (paid_row 7000000), refund_record (job_done ?r) (refunded_row (RMBToCredits 60) (paid_row 7000000))]
      [RefundCall ''stripe'' ''TH1'' 60, RefundCall ''stripe'' ''TH1'' 60]"
    using c demo_execute [of ?o ?r "[]" "paid_row 7000000" "[paid_record]" "[]"]
      demo_execute [of "refunded_payment 60 ?o" "job_done ?r" "[]"]
    by (simp add: approved_twice_def a demo_order_def refunded_payment_def dollar_order_def Let_def)
  have "pm_RefundedAmount (refunded_payment 60 (refunded_payment 60 ?o)) = 120" by code_simp
  then have "map pm_RefundedAmount (py_payments approved_twice) = [120]" by (simp add: x)
  moreover have "booked 1 approved_twice = 2" by (simp add: x booked_def refund_record_booked)
  moreover have "hd (py_requests (asked 60)) = ?q" by (simp add: a)
  moreover have "py_gateway approved_twice = [RefundCall ''stripe'' ''TH1'' 60, RefundCall ''stripe'' ''TH1'' 60]" by (simp add: x)
  ultimately show ?thesis using r by simp
qed

text \<open>An order of 100 dollars that was credited at a rate of 7 is refunded in full by the gateway, in dollars,
  and only the credits of 100 yuan are taken back: six sevenths of what was credited stay.\<close>

theorem foreign_refund_keeps_credits:
  "map pm_CreditAmount (py_payments (refunded_once 100)) = [7000000] \<and>
   map pm_Status (py_payments (refunded_once 100)) = [PaymentStatusRefunded] \<and>
   map_option ub_Balance (lg_balances (py_ledger (refunded_once 100)) 7) = Some 6000000 \<and>
   RefundCall ''stripe'' ''TH1'' 100 \<in> set (py_gateway (refunded_once 100))"
proof -
  have s: "refunded_once 100 = order_state (dollar_order PaymentStatusRefunded 100 1) [job_done (reviewed 9 (demo_request_row 1 100))]
      (refunded_row 1000000 (paid_row 7000000)) [paid_record, refund_record (reviewed 9 (demo_request_row 1 100)) (paid_row 7000000)]
      [RefundCall ''stripe'' ''TH1'' 100]"
    using refunded_once_state [of 100] full_refund by simp
  show ?thesis by (simp add: s dollar_order_def refunded_row_def paid_row_def Let_def sub64_def i64_def)
qed

definition paid_again :: payments where
  "paid_again =
     (let s1 = executeRefundAsync locked_out 1 (snd (ApproveByAdmin pay_demo 1 9 '''' (asked 100)));
          s2 = snd (SubmitUserRequest pay_demo (demo_ask 100) s1)
      in executeRefundAsync pay_demo 2 (snd (ApproveByAdmin pay_demo 2 9 '''' s2)))"

text \<open>When the booking fails after the gateway has paid, the request is marked as failed and the order is as
  refundable as before: asked for again, it is paid again.\<close>

theorem failed_booking_pays_again:
  "map rq_Status (py_requests paid_again) = [RefundStatusFailed, RefundStatusCompleted] \<and>
   py_gateway paid_again = [RefundCall ''stripe'' ''TH1'' 100, RefundCall ''stripe'' ''TH1'' 100]"
proof -
  let ?o = "dollar_order PaymentStatusCompleted 0 0"
  let ?q = "reviewed 9 (demo_request_row 1 100)"
  let ?f = "job_failed ?q"
  have f: "rq_UserID ?f = 7" "rq_CreatedAt ?f = 1000" by (simp_all add: job_failed_def reviewed_def demo_request_row_def)
  have "executeRefundAsync locked_out 1 (snd (ApproveByAdmin pay_demo 1 9 '''' (asked 100))) =
      order_state ?o [?f] (paid_row 7000000) [paid_record] [RefundCall ''stripe'' ''TH1'' 100]"
    using demo_approve [of "demo_request_row 1 100" "[]"] demo_execute_locked [of ?o ?q "[]"] by (simp add: asked_state)
  then show ?thesis
    using demo_submit [of 100 "[?f]" 2] f demo_approve [of "demo_request_row 2 100" "[?f]"]
      demo_execute [of ?o "reviewed 9 (demo_request_row 2 100)" "[?f]"]
    by (simp add: paid_again_def)
qed

end
