(* ===== verification/Route_Map.thy ===== *)
theory Route_Map
  imports Go_Text "HOL-Library.Multiset"
begin

text \<open>
  The table of the administration routes, \<open>internal/middleware/audit/route_map.go\<close>: which
  permission code a route needs and how its write is named in the audit log. The menus are
  transliterated, each to a text of its own; the display name of a route is left out. A Go map has
  no order: \<open>RouteMapEntries\<close> lists the entries in the order of the file, and what is proved of
  it is proved for every order.
\<close>

datatype RouteMeta = RouteMeta (rm_Menu: string) (rm_Action: string) (rm_Resource: string)

type_synonym route_table = "(string \<times> RouteMeta) list"

definition routeMap1 :: "route_table" where
  "routeMap1 = [
     (''POST /api/v1/admin/tenants'', RouteMeta ''User Management'' ''tenant_create'' ''tenant''),
     (''PUT /api/v1/admin/users/:id'', RouteMeta ''yonghu guanli'' ''user_update'' ''user''),
     (''DELETE /api/v1/admin/users/:id'', RouteMeta ''yonghu guanli'' ''user_delete'' ''user''),
     (''PATCH /api/v1/admin/users/:id/status'', RouteMeta ''yonghu guanli'' ''user_status_change'' ''user''),
     (''PUT /api/v1/admin/users/:id/status'', RouteMeta ''yonghu guanli'' ''user_status_change'' ''user''),
     (''POST /api/v1/admin/users'', RouteMeta ''yonghu guanli'' ''user_create'' ''user''),
     (''POST /api/v1/admin/users/batch'', RouteMeta ''yonghu guanli'' ''user_batch_create'' ''user''),
     (''PATCH /api/v1/admin/users/:id/role'', RouteMeta ''yonghu guanli'' ''user_role_change'' ''user''),
     (''PUT /api/v1/admin/users/:id/role'', RouteMeta ''yonghu guanli'' ''user_role_change'' ''user''),
     (''POST /api/v1/admin/users/:id/reset-password'', RouteMeta ''yonghu guanli'' ''user_reset_password'' ''user''),
     (''PUT /api/v1/admin/users/:id/limits'', RouteMeta ''yonghu guanli'' ''user_rate_limit_update'' ''user''),
     (''POST /api/v1/admin/balance/adjust'', RouteMeta ''yue guanli'' ''balance_adjust'' ''balance''),
     (''POST /api/v1/admin/users/:id/grant-credits'', RouteMeta ''yue guanli'' ''balance_grant'' ''balance''),
     (''POST /api/v1/admin/users/:id/recharge-rmb'', RouteMeta ''yue guanli'' ''balance_recharge_rmb'' ''balance''),
     (''POST /api/v1/admin/users/:id/recharge'', RouteMeta ''yue guanli'' ''balance_recharge'' ''balance''),
     (''POST /api/v1/admin/users/:id/recharge-credits'', RouteMeta ''yue guanli'' ''balance_recharge_credits'' ''balance''),
     (''PUT /api/v1/admin/users/:id/set-credits'', RouteMeta ''yue guanli'' ''balance_set_credits'' ''balance''),
     (''POST /api/v1/user/withdrawals'', RouteMeta ''yonghu shenqing'' ''user_withdrawal_create'' ''withdrawal''),
     (''POST /api/v1/user/refund-requests'', RouteMeta ''yonghu shenqing'' ''user_refund_request_create'' ''refund_request''),
     (''POST /api/v1/user/invoices'', RouteMeta ''yonghu shenqing'' ''user_invoice_create'' ''invoice''),
     (''POST /api/v1/user/invoice-titles'', RouteMeta ''yonghu shenqing'' ''user_invoice_title_create'' ''invoice_title''),
     (''PUT /api/v1/user/invoice-titles/:id'', RouteMeta ''yonghu shenqing'' ''user_invoice_title_update'' ''invoice_title''),
     (''DELETE /api/v1/user/invoice-titles/:id'', RouteMeta ''yonghu shenqing'' ''user_invoice_title_delete'' ''invoice_title''),
     (''DELETE /api/v1/user/withdrawals/:id'', RouteMeta ''yonghu shenqing'' ''user_withdrawal_cancel'' ''withdrawal''),
     (''POST /api/v1/admin/invoices/:id/approve'', RouteMeta ''fapiao guanli'' ''invoice_admin_approve'' ''invoice''),
     (''POST /api/v1/admin/invoices/:id/reject'', RouteMeta ''fapiao guanli'' ''invoice_admin_reject'' ''invoice''),
     (''POST /api/v1/admin/invoices/:id/upload-pdf'', RouteMeta ''fapiao guanli'' ''invoice_admin_upload_pdf'' ''invoice''),
     (''DELETE /api/v1/admin/invoices/:id'', RouteMeta ''fapiao guanli'' ''invoice_admin_delete'' ''invoice''),
     (''POST /api/v1/admin/ai-models'', RouteMeta ''moxing guanli'' ''model_create'' ''ai_model''),
     (''PUT /api/v1/admin/ai-models/:id'', RouteMeta ''moxing guanli'' ''model_update'' ''ai_model''),
     (''DELETE /api/v1/admin/ai-models/:id'', RouteMeta ''moxing guanli'' ''model_delete'' ''ai_model''),
     (''POST /api/v1/admin/ai-models/:id/offline'', RouteMeta ''moxing guanli'' ''model_offline'' ''ai_model''),
     (''POST /api/v1/admin/ai-models/:id/verify'', RouteMeta ''moxing guanli'' ''model_verify'' ''ai_model''),
     (''POST /api/v1/admin/models/batch-check'', RouteMeta ''moxing guanli'' ''model_batch_check'' ''ai_model''),
     (''POST /api/v1/admin/models/batch-check-sync'', RouteMeta ''moxing guanli'' ''model_batch_check_sync'' ''ai_model''),
     (''POST /api/v1/admin/models/check-selected'', RouteMeta ''moxing guanli'' ''model_check_selected'' ''ai_model''),
     (''POST /api/v1/admin/models/sync'', RouteMeta ''moxing guanli'' ''model_sync_all'' ''ai_model''),
     (''POST /api/v1/admin/models/sync/:channelId'', RouteMeta ''moxing guanli'' ''model_sync_channel_by_id'' ''ai_model''),
     (''POST /api/v1/admin/models/deprecation-scan'', RouteMeta ''moxing guanli'' ''model_deprecation_scan'' ''ai_model''),
     (''POST /api/v1/admin/models/bulk-deprecate'', RouteMeta ''moxing guanli'' ''model_bulk_deprecate'' ''ai_model''),
     (''POST /api/v1/admin/models/check-preview'', RouteMeta ''moxing guanli'' ''model_check_preview'' ''ai_model''),
     (''POST /api/v1/admin/models/check-preview-sync'', RouteMeta ''moxing guanli'' ''model_check_preview_sync'' ''ai_model''),
     (''POST /api/v1/admin/models/check-task'', RouteMeta ''moxing guanli'' ''model_check_task_create'' ''model_check_task''),
     (''POST /api/v1/admin/models/mark-official-deprecated/:supplierCode'', RouteMeta ''moxing guanli'' ''model_mark_official_deprecated'' ''ai_model''),
     (''POST /api/v1/admin/models/batch-labels'', RouteMeta ''moxing guanli'' ''model_batch_label_add'' ''ai_model''),
     (''DELETE /api/v1/admin/models/batch-labels'', RouteMeta ''moxing guanli'' ''model_batch_label_remove'' ''ai_model''),
     (''POST /api/v1/admin/ai-models/:id/labels'', RouteMeta ''moxing guanli'' ''model_label_upsert'' ''model_label''),
     (''DELETE /api/v1/admin/ai-models/:id/labels'', RouteMeta ''moxing guanli'' ''model_label_delete'' ''model_label''),
     (''POST /api/v1/admin/ai-models/:id/reactivate'', RouteMeta ''moxing guanli'' ''model_reactivate'' ''ai_model''),
     (''POST /api/v1/admin/ai-models/:id/apply-global-discount'', RouteMeta ''moxing guanli'' ''model_apply_global_discount'' ''model_pricing''),
     (''POST /api/v1/admin/ai-models/:id/preview-global-discount'', RouteMeta ''moxing guanli'' ''model_preview_global_discount'' ''model_pricing''),
     (''PUT /api/v1/admin/ai-models/:id/lock-overrides'', RouteMeta ''moxing guanli'' ''model_lock_override_set'' ''model_pricing''),
     (''DELETE /api/v1/admin/ai-models/:id/lock-overrides/:archKey'', RouteMeta ''moxing guanli'' ''model_lock_override_clear'' ''model_pricing''),
     (''PUT /api/v1/admin/ai-models/:id/official-price-url'', RouteMeta ''moxing guanli'' ''model_official_price_url_set'' ''ai_model''),
     (''POST /api/v1/admin/billing/quote-preview'', RouteMeta ''jiage fenxi'' ''billing_quote_preview'' ''billing_quote''),
     (''PUT /api/v1/admin/ai-models/:id/price-matrix'', RouteMeta ''moxing guanli'' ''model_price_matrix_update'' ''model_pricing''),
     (''POST /api/v1/admin/models/feature-probe'', RouteMeta ''moxing guanli'' ''model_feature_probe'' ''ai_model''),
     (''POST /api/v1/admin/models/batch-retag'', RouteMeta ''moxing guanli'' ''model_batch_retag'' ''ai_model''),
     (''POST /api/v1/admin/ai-models/batch-free-tier'', RouteMeta ''moxing guanli'' ''model_batch_free_tier'' ''ai_model''),
     (''PUT /api/v1/admin/models/batch-status'', RouteMeta ''moxing guanli'' ''model_batch_status_update'' ''ai_model''),
     (''DELETE /api/v1/admin/models/batch-delete'', RouteMeta ''moxing guanli'' ''model_batch_delete'' ''ai_model''),
     (''POST /api/v1/admin/model-categories'', RouteMeta ''moxing guanli'' ''model_category_create'' ''model_category''),
     (''PUT /api/v1/admin/model-categories/:id'', RouteMeta ''moxing guanli'' ''model_category_update'' ''model_category''),
     (''DELETE /api/v1/admin/model-categories/:id'', RouteMeta ''moxing guanli'' ''model_category_delete'' ''model_category''),
     (''POST /api/v1/admin/model-aliases'', RouteMeta ''moxing guanli'' ''model_alias_create'' ''model_alias''),
     (''PUT /api/v1/admin/model-aliases/:id'', RouteMeta ''moxing guanli'' ''model_alias_update'' ''model_alias''),
     (''DELETE /api/v1/admin/model-aliases/:id'', RouteMeta ''moxing guanli'' ''model_alias_delete'' ''model_alias''),
     (''POST /api/v1/admin/model-aliases/infer'', RouteMeta ''moxing guanli'' ''model_alias_infer'' ''model_alias''),
     (''POST /api/v1/admin/model-ops/calculators'', RouteMeta ''moxing guanli'' ''model_ops_calculator_create'' ''model_ops''),
     (''PUT /api/v1/admin/model-ops/calculators/:code'', RouteMeta ''moxing guanli'' ''model_ops_calculator_update'' ''model_ops''),
     (''POST /api/v1/admin/model-ops/calculators/reset-defaults'', RouteMeta ''moxing guanli'' ''model_ops_calculator_reset'' ''model_ops''),
     (''POST /api/v1/admin/model-ops/calculate-preview'', RouteMeta ''moxing guanli'' ''model_ops_calculate_preview'' ''model_ops''),
     (''POST /api/v1/admin/model-ops/batch-preview'', RouteMeta ''moxing guanli'' ''model_ops_batch_preview'' ''model_ops''),
     (''POST /api/v1/admin/model-ops/batch-execute'', RouteMeta ''moxing guanli'' ''model_ops_batch_execute'' ''model_ops''),
     (''PUT /api/v1/admin/ai-models/:id/pricing'', RouteMeta ''dingjia guanli'' ''pricing_update'' ''model_pricing''),
     (''POST /api/v1/admin/model-pricings'', RouteMeta ''dingjia guanli'' ''pricing_create'' ''model_pricing''),
     (''PUT /api/v1/admin/model-pricings/:id'', RouteMeta ''dingjia guanli'' ''pricing_update'' ''model_pricing''),
     (''DELETE /api/v1/admin/model-pricings/:id'', RouteMeta ''dingjia guanli'' ''pricing_delete'' ''model_pricing''),
     (''POST /api/v1/admin/model-pricings/repair'', RouteMeta ''dingjia guanli'' ''pricing_repair'' ''model_pricing''),
     (''POST /api/v1/admin/price-calculate'', RouteMeta ''dingjia guanli'' ''pricing_calculate'' ''model_pricing''),
     (''POST /api/v1/admin/models/batch-update-selling'', RouteMeta ''dingjia guanli'' ''pricing_batch_update'' ''model_pricing''),
     (''PUT /api/v1/admin/models/batch-selling-price'', RouteMeta ''dingjia guanli'' ''pricing_batch_selling'' ''model_pricing''),
     (''PUT /api/v1/admin/models/batch-discount'', RouteMeta ''dingjia guanli'' ''pricing_batch_discount'' ''model_pricing''),
     (''POST /api/v1/admin/models/fill-selling-prices'', RouteMeta ''dingjia guanli'' ''pricing_fill_selling'' ''model_pricing''),
     (''POST /api/v1/admin/price-scrape/apply'', RouteMeta ''dingjia guanli'' ''pricing_scrape_apply'' ''model_pricing''),
     (''POST /api/v1/admin/models/preview-prices'', RouteMeta ''dingjia guanli'' ''pricing_scrape_preview'' ''model_pricing''),
     (''POST /api/v1/admin/models/apply-prices'', RouteMeta ''dingjia guanli'' ''pricing_scrape_apply_v2'' ''model_pricing''),
     (''POST /api/v1/admin/models/scrape-page'', RouteMeta ''dingjia guanli'' ''pricing_scrape_page'' ''model_pricing''),
     (''POST /api/v1/admin/models/batch-scrape'', RouteMeta ''dingjia guanli'' ''pricing_batch_scrape'' ''model_pricing''),
     (''POST /api/v1/admin/models/batch-scrape/apply'', RouteMeta ''dingjia guanli'' ''pricing_batch_scrape_apply'' ''model_pricing''),
     (''POST /api/v1/admin/billing/reconcile'', RouteMeta ''caiwu guanli'' ''billing_reconcile_create'' ''billing_reconcile''),
     (''POST /api/v1/admin/channels'', RouteMeta ''qudao guanli'' ''channel_create'' ''channel''),
     (''PUT /api/v1/admin/channels/:id'', RouteMeta ''qudao guanli'' ''channel_update'' ''channel''),
     (''DELETE /api/v1/admin/channels/:id'', RouteMeta ''qudao guanli'' ''channel_delete'' ''channel''),
     (''POST /api/v1/admin/channels/:id/test'', RouteMeta ''qudao guanli'' ''channel_test'' ''channel''),
     (''POST /api/v1/admin/channel-groups'', RouteMeta ''qudao guanli'' ''channel_group_create'' ''channel_group''),
     (''PUT /api/v1/admin/channel-groups/:id'', RouteMeta ''qudao guanli'' ''channel_group_update'' ''channel_group'')]"

definition routeMap2 :: "route_table" where
  "routeMap2 = [
     (''DELETE /api/v1/admin/channel-groups/:id'', RouteMeta ''qudao guanli'' ''channel_group_delete'' ''channel_group''),
     (''POST /api/v1/admin/cache/clear-channel-routes'', RouteMeta ''qudao guanli'' ''channel_cache_clear'' ''channel''),
     (''POST /api/v1/admin/cache/clear'', RouteMeta ''qudao guanli'' ''cache_clear_all'' ''cache''),
     (''POST /api/v1/admin/cache/clear-all'', RouteMeta ''xitong shezhi'' ''cache_clear_all'' ''cache''),
     (''POST /api/v1/admin/cache/clear-user-cache'', RouteMeta ''xitong shezhi'' ''cache_clear_user'' ''cache''),
     (''POST /api/v1/admin/cache/clear-stats-cache'', RouteMeta ''xitong shezhi'' ''cache_clear_stats'' ''cache''),
     (''POST /api/v1/admin/cache/clear-public-cache'', RouteMeta ''xitong shezhi'' ''cache_clear_public'' ''cache''),
     (''POST /api/v1/admin/cache/clear-pricing-cache'', RouteMeta ''xitong shezhi'' ''cache_clear_pricing'' ''cache''),
     (''POST /api/v1/admin/cache/warm'', RouteMeta ''xitong shezhi'' ''cache_warm'' ''cache''),
     (''POST /api/v1/admin/suppliers'', RouteMeta ''gongyingshang guanli'' ''supplier_create'' ''supplier''),
     (''PUT /api/v1/admin/suppliers/:id'', RouteMeta ''gongyingshang guanli'' ''supplier_update'' ''supplier''),
     (''DELETE /api/v1/admin/suppliers/:id'', RouteMeta ''gongyingshang guanli'' ''supplier_delete'' ''supplier''),
     (''POST /api/v1/admin/payment/orders/:id/refund'', RouteMeta ''dingdan guanli'' ''order_refund'' ''order''),
     (''POST /api/v1/admin/payment/mock-callback'', RouteMeta ''dingdan guanli'' ''order_mock_callback'' ''order''),
     (''POST /api/v1/admin/payment/refunds/:id/approve'', RouteMeta ''tuikuan guanli'' ''refund_approve'' ''refund''),
     (''POST /api/v1/admin/payment/refunds/:id/reject'', RouteMeta ''tuikuan guanli'' ''refund_reject'' ''refund''),
     (''POST /api/v1/admin/payment/refunds/batch-approve'', RouteMeta ''tuikuan guanli'' ''refund_batch_approve'' ''refund''),
     (''POST /api/v1/admin/payment/refunds/batch-reject'', RouteMeta ''tuikuan guanli'' ''refund_batch_reject'' ''refund''),
     (''POST /api/v1/admin/withdrawals/:id/approve'', RouteMeta ''tixian shenhe'' ''withdrawal_approve'' ''withdrawal''),
     (''POST /api/v1/admin/withdrawals/:id/reject'', RouteMeta ''tixian shenhe'' ''withdrawal_reject'' ''withdrawal''),
     (''POST /api/v1/admin/withdrawals/:id/mark-paid'', RouteMeta ''tixian shenhe'' ''withdrawal_mark_paid'' ''withdrawal''),
     (''PUT /api/v1/admin/payment-config/:gateway'', RouteMeta ''zhifu peizhi'' ''payment_config_update'' ''payment_config''),
     (''POST /api/v1/admin/payment-config/:gateway/test'', RouteMeta ''zhifu peizhi'' ''payment_config_test'' ''payment_config''),
     (''PUT /api/v1/admin/referral-config'', RouteMeta ''yaoqing fanyong'' ''referral_config_update'' ''referral_config''),
     (''PUT /api/v1/admin/quota-config'', RouteMeta ''zhuce zengsong'' ''quota_config_update'' ''quota_config''),
     (''POST /api/v1/admin/member-levels'', RouteMeta ''huiyuan dengji'' ''member_level_create'' ''member_level''),
     (''PUT /api/v1/admin/member-levels/:id'', RouteMeta ''huiyuan dengji'' ''member_level_update'' ''member_level''),
     (''DELETE /api/v1/admin/member-levels/:id'', RouteMeta ''huiyuan dengji'' ''member_level_delete'' ''member_level''),
     (''PATCH /api/v1/admin/partner-applications/:id/status'', RouteMeta ''hezuo shenqing'' ''partner_status_change'' ''partner_application''),
     (''PATCH /api/v1/admin/partner-applications/:id/read'', RouteMeta ''hezuo shenqing'' ''partner_mark_read'' ''partner_application''),
     (''PATCH /api/v1/admin/partner-applications/:id/unread'', RouteMeta ''hezuo shenqing'' ''partner_mark_unread'' ''partner_application''),
     (''DELETE /api/v1/admin/partner-applications/:id'', RouteMeta ''hezuo shenqing'' ''partner_delete'' ''partner_application''),
     (''PUT /api/v1/admin/cron-tasks/:name/toggle'', RouteMeta ''xitong shezhi'' ''cron_toggle'' ''cron_task''),
     (''PUT /api/v1/admin/cron-tasks/batch-toggle'', RouteMeta ''xitong shezhi'' ''cron_batch_toggle'' ''cron_task''),
     (''POST /api/v1/admin/capability-test/run'', RouteMeta ''nengli ceshi'' ''capability_test_run'' ''capability_test''),
     (''POST /api/v1/admin/capability-test/run-untested'', RouteMeta ''nengli ceshi'' ''capability_test_untested'' ''capability_test''),
     (''POST /api/v1/admin/capability-test/run-hot-sample'', RouteMeta ''nengli ceshi'' ''capability_test_hot_sample'' ''capability_test''),
     (''POST /api/v1/admin/capability-test/estimate'', RouteMeta ''nengli ceshi'' ''capability_test_estimate'' ''capability_test''),
     (''POST /api/v1/admin/capability-test/cases'', RouteMeta ''nengli ceshi'' ''capability_test_case_create'' ''capability_test_case''),
     (''PUT /api/v1/admin/capability-test/cases/:id'', RouteMeta ''nengli ceshi'' ''capability_test_case_update'' ''capability_test_case''),
     (''DELETE /api/v1/admin/capability-test/cases/:id'', RouteMeta ''nengli ceshi'' ''capability_test_case_delete'' ''capability_test_case''),
     (''POST /api/v1/admin/capability-test/cases/seed'', RouteMeta ''nengli ceshi'' ''capability_test_case_seed'' ''capability_test_case''),
     (''POST /api/v1/admin/capability-test/tasks/:id/auto-apply'', RouteMeta ''nengli ceshi'' ''capability_test_apply'' ''capability_test''),
     (''POST /api/v1/admin/capability-test/tasks/:id/apply'', RouteMeta ''nengli ceshi'' ''capability_test_apply_manual'' ''capability_test''),
     (''POST /api/v1/admin/capability-test/tasks/:id/propagate'', RouteMeta ''nengli ceshi'' ''capability_test_propagate'' ''capability_test''),
     (''POST /api/v1/admin/capability-test/tasks/:id/promote-baseline'', RouteMeta ''nengli ceshi'' ''capability_test_promote_baseline'' ''capability_test''),
     (''DELETE /api/v1/admin/capability-test/baselines/:id'', RouteMeta ''nengli ceshi'' ''capability_test_baseline_delete'' ''capability_test_baseline''),
     (''POST /api/v1/auth/login'', RouteMeta ''zhanghu anquan'' ''user_login'' ''auth''),
     (''POST /api/v1/auth/logout'', RouteMeta ''zhanghu anquan'' ''user_logout'' ''auth''),
     (''POST /api/v1/auth/register'', RouteMeta ''zhanghu anquan'' ''user_register'' ''auth''),
     (''POST /api/v1/user/password'', RouteMeta ''zhanghu anquan'' ''password_change'' ''user''),
     (''PUT /api/v1/user/password'', RouteMeta ''zhanghu anquan'' ''password_change'' ''user''),
     (''POST /api/v1/user/change-password'', RouteMeta ''zhanghu anquan'' ''password_change'' ''user''),
     (''PUT /api/v1/user/profile'', RouteMeta ''zhanghu anquan'' ''profile_update'' ''user''),
     (''POST /api/v1/user/api-keys'', RouteMeta ''API Keys'' ''apikey_create'' ''apikey''),
     (''DELETE /api/v1/user/api-keys/:id'', RouteMeta ''API Keys'' ''apikey_delete'' ''apikey''),
     (''PUT /api/v1/user/api-keys/:id'', RouteMeta ''API Keys'' ''apikey_update'' ''apikey''),
     (''PUT /api/v1/user/api-keys/:id/disable'', RouteMeta ''API Keys'' ''apikey_disable'' ''apikey''),
     (''PUT /api/v1/user/api-keys/:id/enable'', RouteMeta ''API Keys'' ''apikey_enable'' ''apikey''),
     (''POST /api/v1/admin/roles'', RouteMeta ''quanxian guanli'' ''role_create'' ''role''),
     (''PUT /api/v1/admin/roles/:id'', RouteMeta ''quanxian guanli'' ''role_update'' ''role''),
     (''DELETE /api/v1/admin/roles/:id'', RouteMeta ''quanxian guanli'' ''role_delete'' ''role''),
     (''POST /api/v1/admin/roles/:id/clone'', RouteMeta ''quanxian guanli'' ''role_clone'' ''role''),
     (''POST /api/v1/admin/users/:id/roles'', RouteMeta ''quanxian guanli'' ''user_role_assign'' ''user_role''),
     (''DELETE /api/v1/admin/users/:id/roles/:rid'', RouteMeta ''quanxian guanli'' ''user_role_revoke'' ''user_role''),
     (''POST /api/v1/admin/consumption/daily/export'', RouteMeta ''jifen xiaohao chaxun'' ''consumption_export'' ''consumption_report''),
     (''POST /api/v1/admin/registration-gifts/export'', RouteMeta ''zhuce zengsong mingxi'' ''registration_gift_export'' ''registration_gift_report''),
     (''POST /api/v1/admin/referral-commissions/export'', RouteMeta ''yaoqing fanyong mingxi'' ''referral_commission_export'' ''referral_commission_report''),
     (''POST /api/v1/admin/announcements'', RouteMeta ''xiaoxi gonggao'' ''announcement_create'' ''announcement''),
     (''PUT /api/v1/admin/announcements/:id'', RouteMeta ''xiaoxi gonggao'' ''announcement_update'' ''announcement''),
     (''DELETE /api/v1/admin/announcements/:id'', RouteMeta ''xiaoxi gonggao'' ''announcement_delete'' ''announcement''),
     (''PUT /api/v1/admin/email/providers/:channel'', RouteMeta ''youjian guanli'' ''email_provider_update'' ''email_provider''),
     (''POST /api/v1/admin/email/providers/:channel/test'', RouteMeta ''youjian guanli'' ''email_provider_test'' ''email_provider''),
     (''POST /api/v1/admin/email/templates'', RouteMeta ''youjian guanli'' ''email_template_create'' ''email_template''),
     (''PUT /api/v1/admin/email/templates/:id'', RouteMeta ''youjian guanli'' ''email_template_update'' ''email_template''),
     (''DELETE /api/v1/admin/email/templates/:id'', RouteMeta ''youjian guanli'' ''email_template_delete'' ''email_template''),
     (''POST /api/v1/admin/email/templates/:id/preview'', RouteMeta ''youjian guanli'' ''email_template_preview'' ''email_template''),
     (''POST /api/v1/admin/email/templates/:id/test-send'', RouteMeta ''youjian guanli'' ''email_template_test_send'' ''email_template''),
     (''POST /api/v1/admin/email/send'', RouteMeta ''youjian guanli'' ''email_send'' ''email''),
     (''POST /api/v1/admin/email/send-batch'', RouteMeta ''youjian guanli'' ''email_send_batch'' ''email''),
     (''POST /api/v1/admin/email/logs/:id/resend'', RouteMeta ''youjian guanli'' ''email_log_resend'' ''email''),
     (''PUT /api/v1/admin/oauth/providers/:provider'', RouteMeta ''zhanghu anquan'' ''oauth_provider_update'' ''oauth_provider''),
     (''PATCH /api/v1/admin/privacy/requests/:id'', RouteMeta ''Compliance'' ''privacy_request_update'' ''privacy_request''),
     (''POST /api/v1/admin/privacy/requests/:id/complete'', RouteMeta ''Compliance'' ''privacy_request_complete'' ''privacy_request''),
     (''POST /api/v1/admin/privacy/requests/:id/reject'', RouteMeta ''Compliance'' ''privacy_request_reject'' ''privacy_request''),
     (''POST /api/v1/admin/trending-models'', RouteMeta ''moxing guanli'' ''trending_model_create'' ''trending_model''),
     (''PUT /api/v1/admin/trending-models/:id'', RouteMeta ''moxing guanli'' ''trending_model_update'' ''trending_model''),
     (''DELETE /api/v1/admin/trending-models/:id'', RouteMeta ''moxing guanli'' ''trending_model_delete'' ''trending_model''),
     (''POST /api/v1/admin/docs'', RouteMeta ''wendang guanli'' ''doc_create'' ''doc''),
     (''PUT /api/v1/admin/docs/:id'', RouteMeta ''wendang guanli'' ''doc_update'' ''doc''),
     (''DELETE /api/v1/admin/docs/:id'', RouteMeta ''wendang guanli'' ''doc_delete'' ''doc''),
     (''POST /api/v1/admin/docs/:id/publish'', RouteMeta ''wendang guanli'' ''doc_publish'' ''doc''),
     (''POST /api/v1/admin/docs/:id/unpublish'', RouteMeta ''wendang guanli'' ''doc_unpublish'' ''doc''),
     (''POST /api/v1/admin/doc-categories'', RouteMeta ''wendang guanli'' ''doc_category_create'' ''doc_category''),
     (''PUT /api/v1/admin/doc-categories/:id'', RouteMeta ''wendang guanli'' ''doc_category_update'' ''doc_category''),
     (''DELETE /api/v1/admin/doc-categories/:id'', RouteMeta ''wendang guanli'' ''doc_category_delete'' ''doc_category''),
     (''POST /api/v1/admin/support/hot-questions'', RouteMeta ''AI kefu'' ''support_hot_question_create'' ''support_hot_question'')]"

definition routeMap3 :: "route_table" where
  "routeMap3 = [
     (''PUT /api/v1/admin/support/hot-questions/:id'', RouteMeta ''AI kefu'' ''support_hot_question_update'' ''support_hot_question''),
     (''POST /api/v1/admin/support/hot-questions/:id/publish'', RouteMeta ''AI kefu'' ''support_hot_question_publish'' ''support_hot_question''),
     (''POST /api/v1/admin/support/hot-questions/:id/unpublish'', RouteMeta ''AI kefu'' ''support_hot_question_unpublish'' ''support_hot_question''),
     (''DELETE /api/v1/admin/support/hot-questions/:id'', RouteMeta ''AI kefu'' ''support_hot_question_delete'' ''support_hot_question''),
     (''POST /api/v1/admin/support/model-profiles'', RouteMeta ''AI kefu'' ''support_model_profile_create'' ''support_model_profile''),
     (''PUT /api/v1/admin/support/model-profiles/:id'', RouteMeta ''AI kefu'' ''support_model_profile_update'' ''support_model_profile''),
     (''DELETE /api/v1/admin/support/model-profiles/:id'', RouteMeta ''AI kefu'' ''support_model_profile_delete'' ''support_model_profile''),
     (''PATCH /api/v1/admin/support/model-profiles/:id/toggle'', RouteMeta ''AI kefu'' ''support_model_profile_toggle'' ''support_model_profile''),
     (''POST /api/v1/admin/support/provider-docs'', RouteMeta ''AI kefu'' ''support_provider_doc_create'' ''support_provider_doc''),
     (''PUT /api/v1/admin/support/provider-docs/:id'', RouteMeta ''AI kefu'' ''support_provider_doc_update'' ''support_provider_doc''),
     (''DELETE /api/v1/admin/support/provider-docs/:id'', RouteMeta ''AI kefu'' ''support_provider_doc_delete'' ''support_provider_doc''),
     (''POST /api/v1/admin/support/tickets/:id/reply'', RouteMeta ''AI kefu'' ''support_ticket_reply'' ''support_ticket''),
     (''PATCH /api/v1/admin/support/tickets/:id/status'', RouteMeta ''AI kefu'' ''support_ticket_status'' ''support_ticket''),
     (''PATCH /api/v1/admin/support/tickets/:id/assign'', RouteMeta ''AI kefu'' ''support_ticket_assign'' ''support_ticket''),
     (''POST /api/v1/admin/support/accepted-answers/:id/approve'', RouteMeta ''AI kefu'' ''support_answer_approve'' ''support_accepted_answer''),
     (''POST /api/v1/admin/support/accepted-answers/:id/reject'', RouteMeta ''AI kefu'' ''support_answer_reject'' ''support_accepted_answer''),
     (''POST /api/v1/admin/support/knowledge/rebuild'', RouteMeta ''AI kefu'' ''support_knowledge_rebuild'' ''support_knowledge''),
     (''POST /api/v1/admin/support/knowledge/rebuild/:source_type/:id'', RouteMeta ''AI kefu'' ''support_knowledge_rebuild_one'' ''support_knowledge''),
     (''PUT /api/v1/admin/channels/:id/tags'', RouteMeta ''qudao guanli'' ''channel_set_tags'' ''channel''),
     (''POST /api/v1/admin/channels/:id/verify'', RouteMeta ''qudao guanli'' ''channel_verify'' ''channel''),
     (''PUT /api/v1/admin/channel-models/:id'', RouteMeta ''qudao guanli'' ''channel_model_update'' ''channel_model''),
     (''POST /api/v1/admin/channel-tags'', RouteMeta ''qudao guanli'' ''channel_tag_create'' ''channel_tag''),
     (''PUT /api/v1/admin/channel-tags/:id'', RouteMeta ''qudao guanli'' ''channel_tag_update'' ''channel_tag''),
     (''DELETE /api/v1/admin/channel-tags/:id'', RouteMeta ''qudao guanli'' ''channel_tag_delete'' ''channel_tag''),
     (''POST /api/v1/admin/backup-rules'', RouteMeta ''qudao guanli'' ''backup_rule_create'' ''backup_rule''),
     (''PUT /api/v1/admin/backup-rules/:id'', RouteMeta ''qudao guanli'' ''backup_rule_update'' ''backup_rule''),
     (''DELETE /api/v1/admin/backup-rules/:id'', RouteMeta ''qudao guanli'' ''backup_rule_delete'' ''backup_rule''),
     (''POST /api/v1/admin/backup-rules/:id/switch'', RouteMeta ''qudao guanli'' ''backup_rule_switch'' ''backup_rule''),
     (''POST /api/v1/admin/backup-rules/:id/recover'', RouteMeta ''qudao guanli'' ''backup_rule_recover'' ''backup_rule''),
     (''POST /api/v1/admin/custom-channels'', RouteMeta ''qudao guanli'' ''custom_channel_create'' ''custom_channel''),
     (''POST /api/v1/admin/custom-channels/default/refresh'', RouteMeta ''qudao guanli'' ''custom_channel_default_refresh'' ''custom_channel''),
     (''PUT /api/v1/admin/custom-channels/:id'', RouteMeta ''qudao guanli'' ''custom_channel_update'' ''custom_channel''),
     (''DELETE /api/v1/admin/custom-channels/:id'', RouteMeta ''qudao guanli'' ''custom_channel_delete'' ''custom_channel''),
     (''PATCH /api/v1/admin/custom-channels/:id/toggle'', RouteMeta ''qudao guanli'' ''custom_channel_toggle'' ''custom_channel''),
     (''PATCH /api/v1/admin/custom-channels/:id/set-default'', RouteMeta ''qudao guanli'' ''custom_channel_set_default'' ''custom_channel''),
     (''PUT /api/v1/admin/custom-channels/:id/access'', RouteMeta ''qudao guanli'' ''custom_channel_access_update'' ''custom_channel''),
     (''POST /api/v1/admin/custom-channels/:id/routes/batch'', RouteMeta ''qudao guanli'' ''custom_channel_routes_batch'' ''custom_channel_route''),
     (''POST /api/v1/admin/custom-channels/:id/routes/import'', RouteMeta ''qudao guanli'' ''custom_channel_routes_import'' ''custom_channel_route''),
     (''POST /api/v1/admin/orchestrations'', RouteMeta ''xitong shezhi'' ''orchestration_create'' ''orchestration''),
     (''PUT /api/v1/admin/orchestrations/:id'', RouteMeta ''xitong shezhi'' ''orchestration_update'' ''orchestration''),
     (''DELETE /api/v1/admin/orchestrations/:id'', RouteMeta ''xitong shezhi'' ''orchestration_delete'' ''orchestration''),
     (''POST /api/v1/admin/exchange-rates'', RouteMeta ''zhifu peizhi'' ''exchange_rate_create'' ''exchange_rate''),
     (''PUT /api/v1/admin/exchange-rates/:id'', RouteMeta ''zhifu peizhi'' ''exchange_rate_update'' ''exchange_rate''),
     (''POST /api/v1/admin/payment/exchange-rate/refresh'', RouteMeta ''zhifu peizhi'' ''exchange_rate_refresh'' ''exchange_rate''),
     (''PUT /api/v1/admin/payment/exchange-rate/override'', RouteMeta ''zhifu peizhi'' ''exchange_rate_override'' ''exchange_rate''),
     (''PUT /api/v1/admin/payment/exchange-rate/config'', RouteMeta ''zhifu peizhi'' ''exchange_rate_config_update'' ''exchange_rate''),
     (''PUT /api/v1/admin/payment/providers/:type'', RouteMeta ''zhifu peizhi'' ''payment_provider_update'' ''payment_provider''),
     (''PATCH /api/v1/admin/payment/providers/:type/toggle'', RouteMeta ''zhifu peizhi'' ''payment_provider_toggle'' ''payment_provider''),
     (''POST /api/v1/admin/payment/providers/:type/test'', RouteMeta ''zhifu peizhi'' ''payment_provider_test'' ''payment_provider''),
     (''POST /api/v1/admin/payment/bank-accounts'', RouteMeta ''zhifu peizhi'' ''payment_bank_account_create'' ''payment_bank_account''),
     (''PUT /api/v1/admin/payment/bank-accounts/:id'', RouteMeta ''zhifu peizhi'' ''payment_bank_account_update'' ''payment_bank_account''),
     (''DELETE /api/v1/admin/payment/bank-accounts/:id'', RouteMeta ''zhifu peizhi'' ''payment_bank_account_delete'' ''payment_bank_account''),
     (''PUT /api/v1/admin/payment/methods/:type'', RouteMeta ''zhifu peizhi'' ''payment_method_update'' ''payment_method''),
     (''PATCH /api/v1/admin/payment/methods/:type/toggle'', RouteMeta ''zhifu peizhi'' ''payment_method_toggle'' ''payment_method''),
     (''POST /api/v1/admin/payment/accounts'', RouteMeta ''zhifu peizhi'' ''payment_account_create'' ''payment_account''),
     (''PUT /api/v1/admin/payment/accounts/:id'', RouteMeta ''zhifu peizhi'' ''payment_account_update'' ''payment_account''),
     (''DELETE /api/v1/admin/payment/accounts/:id'', RouteMeta ''zhifu peizhi'' ''payment_account_delete'' ''payment_account''),
     (''PATCH /api/v1/admin/payment/accounts/:id/toggle'', RouteMeta ''zhifu peizhi'' ''payment_account_toggle'' ''payment_account''),
     (''POST /api/v1/admin/withdrawals/batch-approve'', RouteMeta ''tixian shenhe'' ''withdrawal_batch_approve'' ''withdrawal''),
     (''POST /api/v1/admin/withdrawals/batch-reject'', RouteMeta ''tixian shenhe'' ''withdrawal_batch_reject'' ''withdrawal''),
     (''POST /api/v1/admin/payment/orders/export'', RouteMeta ''dingdan guanli'' ''order_export'' ''order''),
     (''PUT /api/v1/admin/rate-limits'', RouteMeta ''xitong shezhi'' ''rate_limit_update'' ''rate_limit''),
     (''POST /api/v1/admin/users/batch-rate-limits'', RouteMeta ''yonghu guanli'' ''user_rate_limit_batch'' ''user''),
     (''PUT /api/v1/admin/guard-config'', RouteMeta ''xitong shezhi'' ''guard_config_update'' ''guard_config''),
     (''POST /api/v1/admin/disposable-emails'', RouteMeta ''xitong shezhi'' ''disposable_email_add'' ''disposable_email''),
     (''DELETE /api/v1/admin/disposable-emails/:id'', RouteMeta ''xitong shezhi'' ''disposable_email_delete'' ''disposable_email''),
     (''POST /api/v1/admin/commission-overrides'', RouteMeta ''yaoqing fanyong'' ''commission_override_create'' ''commission_override''),
     (''POST /api/v1/admin/commission-overrides/batch'', RouteMeta ''yaoqing fanyong'' ''commission_override_batch'' ''commission_override''),
     (''PUT /api/v1/admin/commission-overrides/:id'', RouteMeta ''yaoqing fanyong'' ''commission_override_update'' ''commission_override''),
     (''DELETE /api/v1/admin/commission-overrides/:id'', RouteMeta ''yaoqing fanyong'' ''commission_override_delete'' ''commission_override''),
     (''POST /api/v1/admin/commission-rules'', RouteMeta ''yaoqing fanyong'' ''commission_rule_create'' ''commission_rule''),
     (''PUT /api/v1/admin/commission-rules/:id'', RouteMeta ''yaoqing fanyong'' ''commission_rule_update'' ''commission_rule''),
     (''DELETE /api/v1/admin/commission-rules/:id'', RouteMeta ''yaoqing fanyong'' ''commission_rule_delete'' ''commission_rule''),
     (''POST /api/v1/admin/commission-rules/:id/toggle'', RouteMeta ''yaoqing fanyong'' ''commission_rule_toggle'' ''commission_rule''),
     (''POST /api/v1/admin/user-discounts/batch'', RouteMeta ''dingjia guanli'' ''user_discount_batch_create'' ''user_discount''),
     (''POST /api/v1/admin/user-discounts/preview'', RouteMeta ''dingjia guanli'' ''user_discount_preview'' ''user_discount''),
     (''PUT /api/v1/admin/user-discounts/:id'', RouteMeta ''dingjia guanli'' ''user_discount_update'' ''user_discount''),
     (''DELETE /api/v1/admin/user-discounts/:id'', RouteMeta ''dingjia guanli'' ''user_discount_delete'' ''user_discount''),
     (''POST /api/v1/admin/api-call-logs/:requestId/replay'', RouteMeta ''xitong shezhi'' ''api_call_log_replay'' ''api_call_log''),
     (''POST /api/v1/admin/reconciliation/snapshots'', RouteMeta ''xitong shezhi'' ''reconciliation_snapshot_create'' ''api_call_log''),
     (''POST /api/v1/admin/tasks'', RouteMeta ''xitong shezhi'' ''task_create'' ''task''),
     (''POST /api/v1/admin/tasks/:id/cancel'', RouteMeta ''xitong shezhi'' ''task_cancel'' ''task''),
     (''POST /api/v1/admin/tasks/:id/apply-prices'', RouteMeta ''xitong shezhi'' ''task_apply_prices'' ''task''),
     (''POST /api/v1/admin/param-mappings'', RouteMeta ''xitong shezhi'' ''param_mapping_create'' ''param_mapping''),
     (''PUT /api/v1/admin/param-mappings/:id'', RouteMeta ''xitong shezhi'' ''param_mapping_update'' ''param_mapping''),
     (''DELETE /api/v1/admin/param-mappings/:id'', RouteMeta ''xitong shezhi'' ''param_mapping_delete'' ''param_mapping''),
     (''POST /api/v1/admin/param-mappings/:id/mappings'', RouteMeta ''xitong shezhi'' ''param_mapping_item_upsert'' ''param_mapping''),
     (''DELETE /api/v1/admin/param-mappings/mappings/:mappingId'', RouteMeta ''xitong shezhi'' ''param_mapping_item_delete'' ''param_mapping''),
     (''PUT /api/v1/admin/param-mappings/supplier/:code'', RouteMeta ''xitong shezhi'' ''param_mapping_supplier_update'' ''param_mapping''),
     (''POST /api/v1/admin/param-mappings/standard-params/apply'', RouteMeta ''xitong shezhi'' ''param_mapping_standard_apply'' ''param_mapping''),
     (''POST /api/v1/admin/param-mappings/templates/recommended/apply'', RouteMeta ''xitong shezhi'' ''param_mapping_template_apply'' ''param_mapping''),
     (''DELETE /api/v1/admin/rate-limits/active/:key'', RouteMeta ''xitong shezhi'' ''rate_limit_release'' ''rate_limit''),
     (''POST /api/v1/admin/rate-limits/reset'', RouteMeta ''xitong shezhi'' ''rate_limit_reset'' ''rate_limit''),
     (''POST /api/v1/admin/cache/clear/:prefix'', RouteMeta ''xitong shezhi'' ''cache_clear_prefix'' ''cache''),
     (''POST /api/v1/admin/system/migrate'', RouteMeta ''xitong shezhi'' ''system_migrate'' ''system''),
     (''PUT /api/v1/admin/system/config/:key'', RouteMeta ''xitong shezhi'' ''system_config_update'' ''system_config'')]"

definition routeMap :: "route_table" where
  "routeMap = routeMap1 @ routeMap2 @ routeMap3"

definition readRouteMap1 :: "route_table" where
  "readRouteMap1 = [
     (''GET /api/v1/admin/users'', RouteMeta ''yonghu guanli'' ''user_list_read'' ''user''),
     (''GET /api/v1/admin/users/:id'', RouteMeta ''yonghu guanli'' ''user_get_read'' ''user''),
     (''GET /api/v1/admin/tenants'', RouteMeta ''yonghu guanli'' ''tenant_list_read'' ''tenant''),
     (''GET /api/v1/admin/commission-overrides'', RouteMeta ''yonghu guanli'' ''commission_override_list_read'' ''commission_override''),
     (''GET /api/v1/admin/commission-overrides/user/:user_id'', RouteMeta ''yonghu guanli'' ''commission_override_by_user_read'' ''commission_override''),
     (''GET /api/v1/admin/commission-rules'', RouteMeta ''yaoqing fanyong'' ''commission_rule_list_read'' ''commission_rule''),
     (''GET /api/v1/admin/commission-rules/:id'', RouteMeta ''yaoqing fanyong'' ''commission_rule_get_read'' ''commission_rule''),
     (''GET /api/v1/admin/user-discounts'', RouteMeta ''dingjia guanli'' ''user_discount_list_read'' ''user_discount''),
     (''GET /api/v1/admin/user-discounts/:id'', RouteMeta ''dingjia guanli'' ''user_discount_get_read'' ''user_discount''),
     (''GET /api/v1/admin/users/:id/balance'', RouteMeta ''yue guanli'' ''user_balance_get_read'' ''balance''),
     (''GET /api/v1/admin/users/:id/limits'', RouteMeta ''yonghu guanli'' ''user_rate_limit_get_read'' ''user''),
     (''GET /api/v1/admin/balance/reconciliation'', RouteMeta ''yue guanli'' ''balance_reconciliation_read'' ''balance''),
     (''GET /api/v1/admin/ai-models'', RouteMeta ''moxing guanli'' ''model_list_read'' ''ai_model''),
     (''GET /api/v1/admin/ai-models/:id'', RouteMeta ''moxing guanli'' ''model_get_read'' ''ai_model''),
     (''GET /api/v1/admin/ai-models/stats'', RouteMeta ''moxing guanli'' ''model_stats_read'' ''ai_model''),
     (''GET /api/v1/admin/ai-models/:id/preflight'', RouteMeta ''moxing guanli'' ''model_preflight_read'' ''ai_model''),
     (''GET /api/v1/admin/ai-models/:id/labels'', RouteMeta ''moxing guanli'' ''model_label_list_read'' ''model_label''),
     (''GET /api/v1/admin/ai-models/:id/official-price-url'', RouteMeta ''moxing guanli'' ''model_official_price_url_read'' ''ai_model''),
     (''GET /api/v1/admin/ai-models/:id/price-matrix'', RouteMeta ''moxing guanli'' ''model_price_matrix_read'' ''model_pricing''),
     (''GET /api/v1/admin/models/label-keys'', RouteMeta ''moxing guanli'' ''model_label_key_list_read'' ''model_label''),
     (''GET /api/v1/admin/model-categories'', RouteMeta ''moxing guanli'' ''model_category_list_read'' ''model_category''),
     (''GET /api/v1/admin/model-categories/:id'', RouteMeta ''moxing guanli'' ''model_category_get_read'' ''model_category''),
     (''GET /api/v1/admin/model-aliases'', RouteMeta ''moxing guanli'' ''model_alias_list_read'' ''model_alias''),
     (''GET /api/v1/admin/model-aliases/resolve'', RouteMeta ''moxing guanli'' ''model_alias_resolve_read'' ''model_alias''),
     (''GET /api/v1/admin/model-ops/profiles'', RouteMeta ''moxing guanli'' ''model_ops_profile_list_read'' ''model_ops''),
     (''GET /api/v1/admin/model-ops/calculators'', RouteMeta ''moxing guanli'' ''model_ops_calculator_list_read'' ''model_ops''),
     (''GET /api/v1/admin/model-ops/scenarios'', RouteMeta ''moxing guanli'' ''model_ops_scenarios_read'' ''model_ops''),
     (''GET /api/v1/admin/models/check-history'', RouteMeta ''moxing guanli'' ''model_check_history_read'' ''model_check''),
     (''GET /api/v1/admin/models/check-latest'', RouteMeta ''moxing guanli'' ''model_check_latest_read'' ''model_check''),
     (''GET /api/v1/admin/models/check-tasks'', RouteMeta ''moxing guanli'' ''model_check_task_list_read'' ''model_check_task''),
     (''GET /api/v1/admin/models/check-tasks/:id'', RouteMeta ''moxing guanli'' ''model_check_task_get_read'' ''model_check_task''),
     (''GET /api/v1/admin/models/scanned-offline'', RouteMeta ''moxing guanli'' ''model_deprecation_scan_read'' ''ai_model''),
     (''GET /api/v1/admin/trending-models'', RouteMeta ''moxing guanli'' ''trending_model_list_read'' ''trending_model''),
     (''GET /api/v1/admin/model-pricings'', RouteMeta ''dingjia guanli'' ''pricing_list_read'' ''model_pricing''),
     (''GET /api/v1/admin/models/price-sync-logs'', RouteMeta ''dingjia guanli'' ''pricing_sync_log_read'' ''pricing_sync_log''),
     (''GET /api/v1/admin/models/batch-scrape/:task_id/result'', RouteMeta ''dingjia guanli'' ''pricing_batch_scrape_result_read'' ''model_pricing''),
     (''GET /api/v1/admin/price-matrix'', RouteMeta ''dingjia guanli'' ''price_matrix_read'' ''price_matrix''),
     (''GET /api/v1/admin/channels'', RouteMeta ''qudao guanli'' ''channel_list_read'' ''channel''),
     (''GET /api/v1/admin/channels/:id'', RouteMeta ''qudao guanli'' ''channel_get_read'' ''channel''),
     (''GET /api/v1/admin/channels/custom-params/schema'', RouteMeta ''qudao guanli'' ''channel_custom_params_schema_read'' ''channel''),
     (''GET /api/v1/admin/channel-groups'', RouteMeta ''qudao guanli'' ''channel_group_list_read'' ''channel_group''),
     (''GET /api/v1/admin/channel-groups/:id'', RouteMeta ''qudao guanli'' ''channel_group_get_read'' ''channel_group''),
     (''GET /api/v1/admin/channel-groups/:id/channels'', RouteMeta ''qudao guanli'' ''channel_group_channels_read'' ''channel''),
     (''GET /api/v1/admin/channel-stats'', RouteMeta ''qudao guanli'' ''channel_stats_read'' ''channel_stats''),
     (''GET /api/v1/admin/channel-stats/models'', RouteMeta ''qudao guanli'' ''channel_model_stats_read'' ''channel_stats''),
     (''GET /api/v1/admin/channel-models'', RouteMeta ''qudao guanli'' ''channel_model_list_read'' ''channel_model''),
     (''GET /api/v1/admin/channel-tags'', RouteMeta ''qudao guanli'' ''channel_tag_list_read'' ''channel_tag''),
     (''GET /api/v1/admin/channel-tags/:id/stats'', RouteMeta ''qudao guanli'' ''channel_tag_stats_read'' ''channel_tag''),
     (''GET /api/v1/admin/custom-channels'', RouteMeta ''qudao guanli'' ''custom_channel_list_read'' ''custom_channel''),
     (''GET /api/v1/admin/custom-channels/default/refresh/status'', RouteMeta ''qudao guanli'' ''custom_channel_refresh_status_read'' ''custom_channel''),
     (''GET /api/v1/admin/backup-rules'', RouteMeta ''qudao guanli'' ''backup_rule_list_read'' ''backup_rule''),
     (''GET /api/v1/admin/backup-rules/:id'', RouteMeta ''qudao guanli'' ''backup_rule_get_read'' ''backup_rule''),
     (''GET /api/v1/admin/backup-rules/:id/status'', RouteMeta ''qudao guanli'' ''backup_rule_status_read'' ''backup_rule''),
     (''GET /api/v1/admin/backup-rules/:id/events'', RouteMeta ''qudao guanli'' ''backup_event_list_read'' ''backup_event''),
     (''GET /api/v1/admin/suppliers'', RouteMeta ''gongyingshang guanli'' ''supplier_list_read'' ''supplier''),
     (''GET /api/v1/admin/suppliers/:id'', RouteMeta ''gongyingshang guanli'' ''supplier_get_read'' ''supplier''),
     (''GET /api/v1/admin/payment/orders'', RouteMeta ''dingdan guanli'' ''order_list_read'' ''order''),
     (''GET /api/v1/admin/payment/orders/:id'', RouteMeta ''dingdan guanli'' ''order_get_read'' ''order''),
     (''GET /api/v1/admin/payment/orders/stats'', RouteMeta ''dingdan guanli'' ''order_stats_read'' ''order''),
     (''GET /api/v1/admin/payment/refunds'', RouteMeta ''tuikuan guanli'' ''refund_list_read'' ''refund''),
     (''GET /api/v1/admin/payment/refunds/:id'', RouteMeta ''tuikuan guanli'' ''refund_get_read'' ''refund''),
     (''GET /api/v1/admin/invoices'', RouteMeta ''fapiao guanli'' ''invoice_admin_list_read'' ''invoice''),
     (''GET /api/v1/admin/invoices/:id'', RouteMeta ''fapiao guanli'' ''invoice_admin_get_read'' ''invoice''),
     (''GET /api/v1/user/invoices'', RouteMeta ''yonghu shenqing'' ''user_invoice_list_read'' ''invoice''),
     (''GET /api/v1/user/invoices/:id'', RouteMeta ''yonghu shenqing'' ''user_invoice_get_read'' ''invoice''),
     (''GET /api/v1/user/invoice-titles'', RouteMeta ''yonghu shenqing'' ''user_invoice_title_list_read'' ''invoice_title''),
     (''GET /api/v1/user/api-call-logs/:requestId/quote'', RouteMeta ''yonghu shenqing'' ''user_quote_get_read'' ''api_call_log''),
     (''GET /api/v1/admin/withdrawals'', RouteMeta ''tixian shenhe'' ''withdrawal_list_read'' ''withdrawal''),
     (''GET /api/v1/admin/withdrawals/:id'', RouteMeta ''tixian shenhe'' ''withdrawal_get_read'' ''withdrawal''),
     (''GET /api/v1/admin/withdrawals/stats'', RouteMeta ''tixian shenhe'' ''withdrawal_stats_read'' ''withdrawal''),
     (''GET /api/v1/admin/payment/accounts'', RouteMeta ''zhifu peizhi'' ''payment_account_list_read'' ''payment_account''),
     (''GET /api/v1/admin/payment/event-logs'', RouteMeta ''zhifu peizhi'' ''payment_event_log_list_read'' ''payment_event_log''),
     (''GET /api/v1/admin/payment/event-logs/by-payment/:id'', RouteMeta ''zhifu peizhi'' ''payment_event_log_by_payment_read'' ''payment_event_log''),
     (''GET /api/v1/admin/payment/event-logs/by-refund/:id'', RouteMeta ''zhifu peizhi'' ''payment_event_log_by_refund_read'' ''payment_event_log''),
     (''GET /api/v1/admin/payment/event-logs/by-withdraw/:id'', RouteMeta ''zhifu peizhi'' ''payment_event_log_by_withdraw_read'' ''payment_event_log''),
     (''GET /api/v1/admin/payment/exchange-rate/history'', RouteMeta ''zhifu peizhi'' ''exchange_rate_history_read'' ''exchange_rate''),
     (''GET /api/v1/admin/payment/exchange-rate/config'', RouteMeta ''zhifu peizhi'' ''exchange_rate_config_get_read'' ''exchange_rate''),
     (''GET /api/v1/admin/payment/providers'', RouteMeta ''zhifu peizhi'' ''payment_provider_list_read'' ''payment_provider''),
     (''GET /api/v1/admin/payment/bank-accounts'', RouteMeta ''zhifu peizhi'' ''payment_bank_account_list_read'' ''payment_bank_account''),
     (''GET /api/v1/admin/payment/methods'', RouteMeta ''zhifu peizhi'' ''payment_method_list_read'' ''payment_method''),
     (''GET /api/v1/admin/users/:id/payment-profile'', RouteMeta ''zhifu peizhi'' ''user_payment_profile_read'' ''user_payment''),
     (''GET /api/v1/admin/users/:id/credit-stats'', RouteMeta ''zhifu peizhi'' ''user_credit_stats_read'' ''user_credit''),
     (''GET /api/v1/admin/exchange-rates'', RouteMeta ''zhifu peizhi'' ''exchange_rate_list_read'' ''exchange_rate''),
     (''GET /api/v1/admin/referral-config'', RouteMeta ''yaoqing fanyong'' ''referral_config_get_read'' ''referral_config''),
     (''GET /api/v1/admin/referral-commissions'', RouteMeta ''yaoqing fanyong'' ''referral_commission_list_read'' ''referral_commission''),
     (''GET /api/v1/admin/referral-commissions/daily'', RouteMeta ''yaoqing fanyong'' ''referral_commission_daily_read'' ''referral_commission''),
     (''GET /api/v1/admin/referral-commissions/stats'', RouteMeta ''yaoqing fanyong'' ''referral_commission_stats_read'' ''referral_commission''),
     (''GET /api/v1/admin/commissions'', RouteMeta ''yaoqing fanyong'' ''commission_list_read'' ''commission''),
     (''GET /api/v1/admin/quota-config'', RouteMeta ''zhuce zengsong'' ''quota_config_get_read'' ''quota_config''),
     (''GET /api/v1/admin/registration-gifts'', RouteMeta ''zhuce zengsong'' ''registration_gift_list_read'' ''registration_gift''),
     (''GET /api/v1/admin/registration-gifts/stats'', RouteMeta ''zhuce zengsong'' ''registration_gift_stats_read'' ''registration_gift'')]"

definition readRouteMap2 :: "route_table" where
  "readRouteMap2 = [
     (''GET /api/v1/admin/member-levels'', RouteMeta ''huiyuan dengji'' ''member_level_list_read'' ''member_level''),
     (''GET /api/v1/admin/partner-applications'', RouteMeta ''hezuo shenqing'' ''partner_application_list_read'' ''partner_application''),
     (''GET /api/v1/admin/partner-applications/:id'', RouteMeta ''hezuo shenqing'' ''partner_application_get_read'' ''partner_application''),
     (''GET /api/v1/admin/partner-applications/stats'', RouteMeta ''hezuo shenqing'' ''partner_application_stats_read'' ''partner_application''),
     (''GET /api/v1/admin/system/schema-version'', RouteMeta ''xitong shezhi'' ''system_schema_version_read'' ''system''),
     (''GET /api/v1/admin/system/config/:key'', RouteMeta ''xitong shezhi'' ''system_config_read'' ''system_config''),
     (''GET /api/v1/admin/cron-tasks'', RouteMeta ''xitong shezhi'' ''cron_task_list_read'' ''cron_task''),
     (''GET /api/v1/admin/cron-task-runs'', RouteMeta ''xitong shezhi'' ''cron_task_run_list_read'' ''cron_task_run''),
     (''GET /api/v1/admin/cron-tasks/:name/runs'', RouteMeta ''xitong shezhi'' ''cron_task_run_by_task_read'' ''cron_task_run''),
     (''GET /api/v1/admin/audit-logs'', RouteMeta ''xitong shezhi'' ''audit_log_list_read'' ''audit_log''),
     (''GET /api/v1/admin/audit-logs/menus'', RouteMeta ''xitong shezhi'' ''audit_menu_list_read'' ''audit_menu''),
     (''GET /api/v1/admin/config-audit'', RouteMeta ''xitong shezhi'' ''config_audit_list_read'' ''config_audit''),
     (''GET /api/v1/admin/cache/stats'', RouteMeta ''xitong shezhi'' ''cache_stats_read'' ''cache''),
     (''GET /api/v1/admin/param-mappings'', RouteMeta ''xitong shezhi'' ''param_mapping_list_read'' ''param_mapping''),
     (''GET /api/v1/admin/param-mappings/:id'', RouteMeta ''xitong shezhi'' ''param_mapping_get_read'' ''param_mapping''),
     (''GET /api/v1/admin/param-mappings/supplier/:code'', RouteMeta ''xitong shezhi'' ''param_mapping_by_supplier_read'' ''param_mapping''),
     (''GET /api/v1/admin/param-mappings/coverage'', RouteMeta ''xitong shezhi'' ''param_mapping_coverage_read'' ''param_mapping''),
     (''GET /api/v1/admin/param-mappings/standard-params'', RouteMeta ''xitong shezhi'' ''param_mapping_standard_read'' ''param_mapping''),
     (''GET /api/v1/admin/param-mappings/templates/recommended'', RouteMeta ''xitong shezhi'' ''param_mapping_template_read'' ''param_mapping''),
     (''GET /api/v1/admin/param-support'', RouteMeta ''xitong shezhi'' ''param_support_read'' ''param_support''),
     (''GET /api/v1/admin/guard-config'', RouteMeta ''xitong shezhi'' ''guard_config_read'' ''guard_config''),
     (''GET /api/v1/admin/disposable-emails'', RouteMeta ''xitong shezhi'' ''disposable_email_list_read'' ''disposable_email''),
     (''GET /api/v1/admin/orchestrations'', RouteMeta ''xitong shezhi'' ''orchestration_list_read'' ''orchestration''),
     (''GET /api/v1/admin/orchestrations/:id'', RouteMeta ''xitong shezhi'' ''orchestration_get_read'' ''orchestration''),
     (''GET /api/v1/admin/tasks'', RouteMeta ''xitong shezhi'' ''task_list_read'' ''task''),
     (''GET /api/v1/admin/tasks/:id'', RouteMeta ''xitong shezhi'' ''task_get_read'' ''task''),
     (''GET /api/v1/admin/rate-limits'', RouteMeta ''xitong shezhi'' ''rate_limit_config_read'' ''rate_limit''),
     (''GET /api/v1/admin/rate-limits/active'', RouteMeta ''xitong shezhi'' ''rate_limit_active_read'' ''rate_limit''),
     (''GET /api/v1/admin/rate-limits/events'', RouteMeta ''xitong shezhi'' ''rate_limit_event_read'' ''rate_limit''),
     (''GET /api/v1/admin/api-call-logs'', RouteMeta ''xitong shezhi'' ''api_call_log_list_read'' ''api_call_log''),
     (''GET /api/v1/admin/api-call-logs/summary'', RouteMeta ''xitong shezhi'' ''api_call_log_summary_read'' ''api_call_log''),
     (''GET /api/v1/admin/api-call-logs/reconciliation'', RouteMeta ''System'' ''api_call_log_summary_read'' ''api_call_log''),
     (''GET /api/v1/admin/api-call-logs/reconciliation/export'', RouteMeta ''System'' ''api_call_log_summary_read'' ''api_call_log''),
     (''GET /api/v1/admin/api-call-logs/:requestId'', RouteMeta ''xitong shezhi'' ''api_call_log_get_read'' ''api_call_log''),
     (''GET /api/v1/admin/api-call-logs/:requestId/chain'', RouteMeta ''xitong shezhi'' ''api_call_log_chain_read'' ''api_call_log''),
     (''GET /api/v1/admin/api-call-logs/:requestId/cost-breakdown'', RouteMeta ''xitong shezhi'' ''api_call_log_cost_read'' ''api_call_log''),
     (''GET /api/v1/admin/api-call-logs/:requestId/three-way-check'', RouteMeta ''xitong shezhi'' ''cost_three_way_check_read'' ''api_call_log''),
     (''GET /api/v1/admin/cost-consistency/scan'', RouteMeta ''xitong shezhi'' ''cost_consistency_scan_read'' ''api_call_log''),
     (''GET /api/v1/admin/reconciliation'', RouteMeta ''xitong shezhi'' ''api_call_log_summary_read'' ''api_call_log''),
     (''GET /api/v1/admin/reconciliation/snapshots'', RouteMeta ''xitong shezhi'' ''api_call_log_summary_read'' ''api_call_log''),
     (''GET /api/v1/admin/auth-logs'', RouteMeta ''zhanghu anquan'' ''auth_log_list_read'' ''auth_log''),
     (''GET /api/v1/admin/auth-logs/stats'', RouteMeta ''zhanghu anquan'' ''auth_log_stats_read'' ''auth_log''),
     (''GET /api/v1/admin/capability-test/cases'', RouteMeta ''nengli ceshi'' ''capability_test_case_list_read'' ''capability_test_case''),
     (''GET /api/v1/admin/capability-test/untested-count'', RouteMeta ''nengli ceshi'' ''capability_test_untested_count_read'' ''capability_test''),
     (''GET /api/v1/admin/capability-test/hot-sample-info'', RouteMeta ''nengli ceshi'' ''capability_test_hot_sample_info_read'' ''capability_test''),
     (''GET /api/v1/admin/capability-test/tasks'', RouteMeta ''nengli ceshi'' ''capability_test_task_list_read'' ''capability_test_task''),
     (''GET /api/v1/admin/capability-test/tasks/:id'', RouteMeta ''nengli ceshi'' ''capability_test_task_get_read'' ''capability_test_task''),
     (''GET /api/v1/admin/capability-test/tasks/:id/results'', RouteMeta ''nengli ceshi'' ''capability_test_result_read'' ''capability_test_result''),
     (''GET /api/v1/admin/capability-test/tasks/:id/suggestions'', RouteMeta ''nengli ceshi'' ''capability_test_suggestion_read'' ''capability_test_suggestion''),
     (''GET /api/v1/admin/capability-test/tasks/:id/regressions'', RouteMeta ''nengli ceshi'' ''capability_test_regression_read'' ''capability_test_regression''),
     (''GET /api/v1/admin/capability-test/baselines'', RouteMeta ''nengli ceshi'' ''capability_test_baseline_read'' ''capability_test_baseline''),
     (''GET /api/v1/admin/api-keys'', RouteMeta ''API Keys'' ''admin_apikey_list_read'' ''apikey''),
     (''GET /api/v1/admin/consumption/daily'', RouteMeta ''jifen xiaohao chaxun'' ''consumption_daily_read'' ''consumption''),
     (''GET /api/v1/admin/consumption/model-breakdown'', RouteMeta ''jifen xiaohao chaxun'' ''consumption_model_breakdown_read'' ''consumption''),
     (''GET /api/v1/admin/reports/overview'', RouteMeta ''yunying baobiao'' ''report_overview_read'' ''report''),
     (''GET /api/v1/admin/reports/usage'', RouteMeta ''yunying baobiao'' ''report_usage_read'' ''report''),
     (''GET /api/v1/admin/reports/revenue'', RouteMeta ''yunying baobiao'' ''report_revenue_read'' ''report''),
     (''GET /api/v1/admin/reports/profit'', RouteMeta ''yunying baobiao'' ''report_profit_read'' ''report''),
     (''GET /api/v1/admin/reports/profit/trend'', RouteMeta ''yunying baobiao'' ''report_profit_trend_read'' ''report''),
     (''GET /api/v1/admin/reports/profit/top-agents'', RouteMeta ''yunying baobiao'' ''report_top_agents_read'' ''report''),
     (''GET /api/v1/admin/reports/profit/drilldown/:tenantId'', RouteMeta ''yunying baobiao'' ''report_profit_drilldown_read'' ''report''),
     (''GET /api/v1/admin/stats/registrations'', RouteMeta ''yunying baobiao'' ''stats_registrations_read'' ''stats''),
     (''GET /api/v1/admin/stats/daily'', RouteMeta ''yunying baobiao'' ''stats_daily_read'' ''stats''),
     (''GET /api/v1/admin/stats/referrals'', RouteMeta ''yunying baobiao'' ''stats_referrals_read'' ''stats''),
     (''GET /api/v1/admin/stats/pnl'', RouteMeta ''yunying baobiao'' ''stats_pnl_read'' ''stats''),
     (''GET /api/v1/admin/stats/payment-analysis'', RouteMeta ''yunying baobiao'' ''stats_payment_analysis_read'' ''stats''),
     (''GET /api/v1/admin/announcements'', RouteMeta ''xiaoxi gonggao'' ''announcement_list_read'' ''announcement''),
     (''GET /api/v1/admin/announcements/stats'', RouteMeta ''xiaoxi gonggao'' ''announcement_stats_read'' ''announcement''),
     (''GET /api/v1/admin/email/providers'', RouteMeta ''youjian guanli'' ''email_provider_list_read'' ''email_provider''),
     (''GET /api/v1/admin/email/templates'', RouteMeta ''youjian guanli'' ''email_template_list_read'' ''email_template''),
     (''GET /api/v1/admin/email/templates/:id'', RouteMeta ''youjian guanli'' ''email_template_get_read'' ''email_template''),
     (''GET /api/v1/admin/email/logs'', RouteMeta ''youjian guanli'' ''email_log_list_read'' ''email''),
     (''GET /api/v1/admin/oauth/providers'', RouteMeta ''zhanghu anquan'' ''oauth_provider_list_read'' ''oauth_provider''),
     (''GET /api/v1/admin/privacy/requests'', RouteMeta ''Compliance'' ''privacy_request_list_read'' ''privacy_request''),
     (''GET /api/v1/admin/privacy/requests/:id'', RouteMeta ''Compliance'' ''privacy_request_get_read'' ''privacy_request''),
     (''GET /api/v1/admin/docs'', RouteMeta ''wendang guanli'' ''doc_list_read'' ''doc''),
     (''GET /api/v1/admin/docs/:id'', RouteMeta ''wendang guanli'' ''doc_get_read'' ''doc''),
     (''GET /api/v1/admin/doc-categories'', RouteMeta ''wendang guanli'' ''doc_category_list_read'' ''doc_category''),
     (''GET /api/v1/admin/support/status'', RouteMeta ''AI kefu'' ''support_status_read'' ''support''),
     (''GET /api/v1/admin/support/hot-questions'', RouteMeta ''AI kefu'' ''support_hot_question_read'' ''support_hot_question''),
     (''GET /api/v1/admin/support/provider-docs'', RouteMeta ''AI kefu'' ''support_provider_doc_read'' ''support_provider_doc''),
     (''GET /api/v1/admin/support/tickets'', RouteMeta ''AI kefu'' ''support_ticket_list_read'' ''support_ticket''),
     (''GET /api/v1/admin/support/tickets/:id'', RouteMeta ''AI kefu'' ''support_ticket_get_read'' ''support_ticket''),
     (''GET /api/v1/admin/support/accepted-answers'', RouteMeta ''AI kefu'' ''support_accepted_answer_read'' ''support_accepted_answer''),
     (''GET /api/v1/admin/support/knowledge/stats'', RouteMeta ''AI kefu'' ''support_knowledge_stats_read'' ''support_knowledge''),
     (''GET /api/v1/admin/support/model-profiles'', RouteMeta ''AI kefu'' ''support_model_profile_read'' ''support_model_profile''),
     (''GET /api/v1/admin/permissions'', RouteMeta ''quanxian guanli'' ''perm_list_read'' ''permission''),
     (''GET /api/v1/admin/roles'', RouteMeta ''quanxian guanli'' ''role_list_read'' ''role''),
     (''GET /api/v1/admin/roles/:id'', RouteMeta ''quanxian guanli'' ''role_get_read'' ''role''),
     (''GET /api/v1/admin/roles/:id/users'', RouteMeta ''quanxian guanli'' ''role_user_list_read'' ''role''),
     (''GET /api/v1/admin/users/:id/roles'', RouteMeta ''quanxian guanli'' ''user_role_list_read'' ''user_role'')]"

definition readRouteMap :: "route_table" where
  "readRouteMap = readRouteMap1 @ readRouteMap2"

section \<open>Lookups\<close>

definition Lookup :: "string \<Rightarrow> string \<Rightarrow> RouteMeta option" where
  "Lookup meth fullPath =
     (let key = meth @ '' '' @ fullPath
      in case map_of routeMap key of Some m \<Rightarrow> Some m | None \<Rightarrow> map_of readRouteMap key)"

definition isWriteMethod :: "string \<Rightarrow> bool" where
  "isWriteMethod meth = (meth \<in> {''POST'', ''PUT'', ''PATCH'', ''DELETE''})"

definition fallbackWriteMeta :: "string \<Rightarrow> string \<Rightarrow> RouteMeta option" where
  "fallbackWriteMeta meth fullPath =
     (if has_prefix fullPath ''/api/v1/auth/'' then Some (RouteMeta ''zhanghu anquan'' ''auth_sensitive_write'' ''auth'')
      else if has_prefix fullPath ''/api/v1/user/'' then Some (RouteMeta ''yonghu zhongxin'' ''user_sensitive_write'' ''user'')
      else if has_prefix fullPath ''/api/v1/payment/'' then Some (RouteMeta ''dingdan guanli'' ''payment_sensitive_write'' ''payment'')
      else None)"

definition LookupAuditMeta :: "string \<Rightarrow> string \<Rightarrow> RouteMeta option" where
  "LookupAuditMeta meth fullPath =
     (if \<not> isWriteMethod meth then None
      else case map_of routeMap (meth @ '' '' @ fullPath) of
        Some m \<Rightarrow> Some m | None \<Rightarrow> fallbackWriteMeta meth fullPath)"

definition IsAuditRelevant :: "string \<Rightarrow> string \<Rightarrow> bool" where
  "IsAuditRelevant meth fullPath = (map_of routeMap (meth @ '' '' @ fullPath) \<noteq> None)"

fun splitKey :: "string \<Rightarrow> string \<times> string" where
  "splitKey [] = ([], [])"
| "splitKey (c # cs) = (if c = CHR '' '' then ([], cs) else case splitKey cs of (m, p) \<Rightarrow> (c # m, p))"

datatype Entry = Entry (en_Method: string) (en_Path: string) (en_Meta: RouteMeta) (en_IsRead: bool)

definition entry_of :: "bool \<Rightarrow> string \<times> RouteMeta \<Rightarrow> Entry" where
  "entry_of isRead km = (case splitKey (fst km) of (m, p) \<Rightarrow> Entry m p (snd km) isRead)"

definition RouteMapEntries :: "Entry list" where
  "RouteMapEntries = map (entry_of False) routeMap @ map (entry_of True) readRouteMap"

definition AllMenus :: "string list" where
  "AllMenus = remdups (filter (\<lambda>m. m \<noteq> '''') (map (\<lambda>km. rm_Menu (snd km)) (routeMap @ readRouteMap)))"

end
