(* ===== verification/Permission.thy ===== *)
theory Permission
  imports Routing Json Route_Map
begin

text \<open>
  Who may do what and see what: \<open>internal/service/permission\<close> (\<open>resolver.go\<close>,
  \<open>role_service.go\<close>, \<open>permission_service.go\<close>, \<open>scoped_query.go\<close>) and the middleware that
  puts the result into a request and enforces it (\<open>internal/middleware/permission.go\<close>,
  \<open>datascope.go\<close>, \<open>auth.go\<close>, \<open>admin_protection.go\<close>). Tables hold live rows in the order
  of their ids; \<open>data_scope\<close> columns are given parsed. A query with a scope is the predicate its
  \<open>WHERE\<close> clause puts on a row.
\<close>

section \<open>Tables\<close>

record DataScopePolicy =
  dp_Type :: string
  dp_TenantIDs :: "nat list"

record Role =
  ro_ID :: nat
  ro_Code :: string
  ro_Name :: string
  ro_Description :: string
  ro_IsSystem :: bool
  ro_DataScope :: "DataScopePolicy json_column"

record permission_row =
  pn_ID :: nat
  pn_Code :: string
  pn_Menu :: string
  pn_Resource :: string
  pn_HTTPMethod :: string
  pn_HTTPPath :: string
  pn_IsRead :: bool

record UserRole =
  uo_UserID :: nat
  uo_RoleID :: nat
  uo_GrantedBy :: nat

record member_row =
  mb_ID :: nat
  mb_TenantID :: nat
  mb_Email :: string

record apikey_owner =
  ak_ID :: nat
  ak_TenantID :: nat
  ak_UserID :: nat

record SubjectPerms =
  sj_UserID :: nat
  sj_TenantID :: nat
  sj_RoleCodes :: "string list"
  sj_Codes :: "string list"
  sj_DataScope :: DataScopePolicy

text \<open>\<open>pd_cache\<close> holds the keys \<open>user_perms:<id>\<close> with the moment they expire; \<open>pd_profiles\<close> the
  users whose cached profile was deleted.\<close>

record perm_state =
  pd_users :: "member_row list"
  pd_roles :: "Role list"
  pd_perms :: "permission_row list"
  pd_user_roles :: "UserRole list"
  pd_role_perms :: "(nat \<times> nat) list"
  pd_keys :: "apikey_owner list"
  pd_cache :: "nat \<Rightarrow> (SubjectPerms json_column \<times> int) option"
  pd_profiles :: "nat list"

datatype perm_call =
    PermCacheGet | PermCacheSet | PermCacheDel | LoadUser | LoadRoles | LoadFallback | LoadCodes
  | LoadRole | CountRole | CreateRole | UpdateRole | DeleteRoleRows | LookupPerms | WritePerms
  | PluckUsers | CountGrants | CreateGrant | DeleteGrant | LoadKey

record perm_env =
  pn_now :: int
  pn_redis :: bool
  pn_fails :: "perm_call \<Rightarrow> bool"

datatype perm_error =
    ZeroID | UserNotFound | RoleNotFound | PermDown perm_call | BadRoleCode | ReservedCode
  | RoleExists | BadScopeType | SystemRole | UnknownCodes | LastSuperAdmin

type_synonym 'a perm_act = "(perm_state, perm_error, 'a) act"

section \<open>Permissions of a subject\<close>

definition LegacyRoleMapping :: "string \<Rightarrow> string option" where
  "LegacyRoleMapping = [''ADMIN'' \<mapsto> ''SUPER_ADMIN'', ''USER'' \<mapsto> ''USER'', ''AGENT_L1'' \<mapsto> ''USER'',
     ''AGENT_L2'' \<mapsto> ''USER'', ''AGENT_L3'' \<mapsto> ''USER'']"

definition IsSuperAdmin :: "SubjectPerms \<Rightarrow> bool" where
  "IsSuperAdmin s =
     list_ex (\<lambda>c. c = ''SUPER_ADMIN'' \<or> LegacyRoleMapping c = Some ''SUPER_ADMIN'') (sj_RoleCodes s)"

definition Has :: "SubjectPerms option \<Rightarrow> string \<Rightarrow> bool" where
  "Has s code = (case s of None \<Rightarrow> False | Some p \<Rightarrow> IsSuperAdmin p \<or> code \<in> set (sj_Codes p))"

definition HasAny :: "SubjectPerms option \<Rightarrow> string list \<Rightarrow> bool" where
  "HasAny s codes = (case s of None \<Rightarrow> False | Some p \<Rightarrow> IsSuperAdmin p \<or> list_ex (\<lambda>c. c \<in> set (sj_Codes p)) codes)"

section \<open>Merging data scopes\<close>

fun scan_scopes :: "Role list \<Rightarrow> bool \<times> bool \<times> nat list \<Rightarrow> bool \<times> bool \<times> nat list" where
  "scan_scopes [] acc = acc"
| "scan_scopes (r # rs) (sawAll, sawOwnTenant, customTenants) =
     scan_scopes rs
       (case ro_DataScope r of
          Column raw \<Rightarrow>
            if dp_Type raw = ''all'' then (True, sawOwnTenant, customTenants)
            else if dp_Type raw = ''own_tenant'' then (sawAll, True, customTenants)
            else if dp_Type raw = ''custom_tenants''
            then (sawAll, sawOwnTenant, customTenants @ filter (\<lambda>t. t \<noteq> 0) (dp_TenantIDs raw))
            else (sawAll, sawOwnTenant, customTenants)
        | _ \<Rightarrow> (sawAll, sawOwnTenant, customTenants))"

definition sortUintSet :: "nat list \<Rightarrow> nat list" where
  "sortUintSet xs = sort (remdups xs)"

definition scope_of :: "string \<Rightarrow> nat list \<Rightarrow> DataScopePolicy" where
  "scope_of ty ids = \<lparr>dp_Type = ty, dp_TenantIDs = ids\<rparr>"

definition mergeDataScopes :: "Role list \<Rightarrow> nat \<Rightarrow> DataScopePolicy" where
  "mergeDataScopes roles userTenantID =
     (if roles = [] then scope_of ''own_only'' []
      else (let (sawAll, sawOwnTenant, customTenants) = scan_scopes roles (False, False, [])
            in if sawAll then scope_of ''all'' []
               else if sawOwnTenant \<and> customTenants \<noteq> []
               then scope_of ''custom_tenants''
                      (sortUintSet (if userTenantID \<noteq> 0 then customTenants @ [userTenantID] else customTenants))
               else if customTenants \<noteq> [] then scope_of ''custom_tenants'' (sortUintSet customTenants)
               else if sawOwnTenant then scope_of ''own_tenant'' []
               else scope_of ''own_only'' []))"

section \<open>Resolving\<close>

definition roles_of_user :: "perm_state \<Rightarrow> nat \<Rightarrow> Role list" where
  "roles_of_user s userID =
     concat (map (\<lambda>ur. filter (\<lambda>r. ro_ID r = uo_RoleID ur) (pd_roles s))
       (filter (\<lambda>ur. uo_UserID ur = userID) (pd_user_roles s)))"

definition codes_of_roles :: "perm_state \<Rightarrow> nat list \<Rightarrow> string list" where
  "codes_of_roles s roleIDs =
     remdups (concat (map (\<lambda>(r, p). if r \<in> set roleIDs then map pn_Code (filter (\<lambda>x. pn_ID x = p) (pd_perms s)) else [])
       (pd_role_perms s)))"

definition subject_of :: "member_row \<Rightarrow> Role list \<Rightarrow> string list \<Rightarrow> SubjectPerms" where
  "subject_of user roles codes =
     \<lparr>sj_UserID = mb_ID user, sj_TenantID = mb_TenantID user, sj_RoleCodes = sort (map ro_Code roles),
      sj_Codes = sort codes, sj_DataScope = mergeDataScopes roles (mb_TenantID user)\<rparr>"

definition effective_roles :: "perm_env \<Rightarrow> nat \<Rightarrow> perm_state \<Rightarrow> Role list" where
  "effective_roles env userID s =
     (case roles_of_user s userID of
        [] \<Rightarrow> (if pn_fails env LoadFallback then []
               else case filter (\<lambda>r. ro_Code r = ''USER'') (pd_roles s) of
                      [] \<Rightarrow> []
                    | r # _ \<Rightarrow> if ro_ID r \<noteq> 0 then [r] else [])
      | rs \<Rightarrow> rs)"

definition loadFromDB :: "perm_env \<Rightarrow> nat \<Rightarrow> perm_state \<Rightarrow> perm_error + SubjectPerms" where
  "loadFromDB env userID s =
     (if pn_fails env LoadUser then Inl (PermDown LoadUser)
      else case find_idx (\<lambda>u. mb_ID u = userID) (pd_users s) of
        None \<Rightarrow> Inl UserNotFound
      | Some (_, user) \<Rightarrow>
          if pn_fails env LoadRoles then Inl (PermDown LoadRoles)
          else (let roles = effective_roles env userID s
                in if roles \<noteq> [] \<and> pn_fails env LoadCodes then Inl (PermDown LoadCodes)
                   else Inr (subject_of user roles (if roles = [] then [] else codes_of_roles s (map ro_ID roles)))))"

definition permTTL :: int where "permTTL = 300"

definition drop_cached :: "perm_env \<Rightarrow> nat list \<Rightarrow> perm_state \<Rightarrow> perm_state" where
  "drop_cached env userIDs s =
     (if pn_fails env PermCacheDel then s
      else s\<lparr>pd_cache := (\<lambda>u. if u \<in> set userIDs then None else pd_cache s u)\<rparr>)"

definition cached_perms :: "perm_env \<Rightarrow> nat \<Rightarrow> perm_state \<Rightarrow> SubjectPerms json_column option" where
  "cached_perms env userID s =
     (if \<not> pn_redis env \<or> pn_fails env PermCacheGet then None
      else case pd_cache s userID of
             None \<Rightarrow> None | Some (v, expiry) \<Rightarrow> if pn_now env < expiry then Some v else None)"

definition resolver_Resolve :: "perm_env \<Rightarrow> nat \<Rightarrow> SubjectPerms perm_act" where
  "resolver_Resolve env userID s =
     (if userID = 0 then (Inl ZeroID, s)
      else case cached_perms env userID s of
        Some (Column p) \<Rightarrow> (Inr p, s)
      | hit \<Rightarrow>
          (let s1 = (if hit = None then s else drop_cached env [userID] s)
           in case loadFromDB env userID s1 of
                Inl e \<Rightarrow> (Inl e, s1)
              | Inr p \<Rightarrow>
                  (Inr p, if pn_redis env \<and> \<not> pn_fails env PermCacheSet
                          then s1\<lparr>pd_cache := (pd_cache s1)(userID := Some (Column p, pn_now env + permTTL))\<rparr>
                          else s1)))"

definition InvalidateUserPerms :: "perm_env \<Rightarrow> nat list \<Rightarrow> perm_state \<Rightarrow> perm_state" where
  "InvalidateUserPerms env userIDs s =
     (let keys = filter (\<lambda>u. u \<noteq> 0) userIDs in if \<not> pn_redis env \<or> keys = [] then s else drop_cached env keys s)"

definition users_with_role :: "nat \<Rightarrow> perm_state \<Rightarrow> nat list" where
  "users_with_role roleID s = map uo_UserID (filter (\<lambda>ur. uo_RoleID ur = roleID) (pd_user_roles s))"

definition InvalidateByRoleID :: "perm_env \<Rightarrow> nat \<Rightarrow> perm_state \<Rightarrow> perm_state" where
  "InvalidateByRoleID env roleID s =
     (if roleID = 0 \<or> pn_fails env PluckUsers then s else InvalidateUserPerms env (users_with_role roleID s) s)"


section \<open>Roles\<close>

definition isValidScopeType :: "string \<Rightarrow> bool" where
  "isValidScopeType t = (t = ''all'' \<or> t = ''own_tenant'' \<or> t = ''custom_tenants'' \<or> t = ''own_only'')"

definition code_char :: "char \<Rightarrow> bool" where
  "code_char c =
     (let n = of_char c :: nat in (97 \<le> n \<and> n \<le> 122) \<or> (65 \<le> n \<and> n \<le> 90) \<or> (48 \<le> n \<and> n \<le> 57) \<or> n = 95)"

definition validateRoleCode :: "string \<Rightarrow> bool" where
  "validateRoleCode code0 = (let code = TrimSpace code0 in 3 \<le> length code \<and> length code \<le> 50 \<and> list_all code_char code)"

record BuiltinRole =
  bi_Code :: string
  bi_Name :: string
  bi_Description :: string
  bi_DataScope :: string
  bi_AllPermissions :: bool
  bi_AllReadOnly :: bool
  bi_Menus :: "string list"
  bi_ExtraCodes :: "string list"

text \<open>Names and descriptions are given in English; the menus as in the route map.\<close>

definition BuiltinRoles :: "BuiltinRole list" where
  "BuiltinRoles = [
     \<lparr>bi_Code = ''SUPER_ADMIN'', bi_Name = ''Super administrator'',
      bi_Description = ''Holds every permission; the only role that can manage the permission system itself'',
      bi_DataScope = ''all'', bi_AllPermissions = True, bi_AllReadOnly = False, bi_Menus = [], bi_ExtraCodes = []\<rparr>,
     \<lparr>bi_Code = ''FINANCE_MANAGER'', bi_Name = ''Finance manager'',
      bi_Description = ''Orders, refunds, withdrawals, payment settings, balance changes and financial reports'',
      bi_DataScope = ''all'', bi_AllPermissions = False, bi_AllReadOnly = False,
      bi_Menus = [''dingdan guanli'', ''tuikuan guanli'', ''tixian shenhe'', ''zhifu peizhi'', ''yue guanli'',
        ''jifen xiaohao chaxun'', ''fapiao guanli''],
      bi_ExtraCodes = [''user_discount_list_read'', ''user_discount_get_read'', ''user_discount_batch_create'',
        ''user_discount_preview'', ''user_discount_update'', ''user_discount_delete'', ''billing_reconcile_create'',
        ''cost_three_way_check_read'', ''cost_consistency_scan_read'']\<rparr>,
     \<lparr>bi_Code = ''OPERATION_MANAGER'', bi_Name = ''Operation manager'',
      bi_Description = ''Users, partners, referrals, registration gifts and member levels'',
      bi_DataScope = ''all'', bi_AllPermissions = False, bi_AllReadOnly = False,
      bi_Menus = [''yonghu guanli'', ''hezuo shenqing'', ''yaoqing fanyong'', ''zhuce zengsong'', ''huiyuan dengji'',
        ''zhuce zengsong mingxi'', ''yaoqing fanyong mingxi'', ''zhanghu anquan'', ''youjian guanli''],
      bi_ExtraCodes = [''rate_limit_active_read'', ''rate_limit_event_read'', ''auth_log_list_read'', ''auth_log_stats_read'']\<rparr>,
     \<lparr>bi_Code = ''AI_RESOURCE_MANAGER'', bi_Name = ''AI resource manager'',
      bi_Description = ''Suppliers, channels, models, prices, price analysis and capability tests'',
      bi_DataScope = ''all'', bi_AllPermissions = False, bi_AllReadOnly = False,
      bi_Menus = [''gongyingshang guanli'', ''qudao guanli'', ''moxing guanli'', ''dingjia guanli'', ''jiage fenxi'',
        ''nengli ceshi''],
      bi_ExtraCodes = [''cost_three_way_check_read'', ''cost_consistency_scan_read'']\<rparr>,
     \<lparr>bi_Code = ''AUDITOR'', bi_Name = ''Read-only auditor'',
      bi_Description = ''Every read permission and the logs, no write permission'',
      bi_DataScope = ''all'', bi_AllPermissions = False, bi_AllReadOnly = True, bi_Menus = [], bi_ExtraCodes = []\<rparr>,
     \<lparr>bi_Code = ''USER'', bi_Name = ''End user'',
      bi_Description = ''Manages the own API keys, balance, password and profile only'',
      bi_DataScope = ''own_only'', bi_AllPermissions = False, bi_AllReadOnly = False, bi_Menus = [],
      bi_ExtraCodes = [''apikey_create'', ''apikey_delete'', ''apikey_update'', ''password_change'', ''user_logout'',
        ''user_invoice_create'', ''user_invoice_list_read'', ''user_invoice_get_read'']\<rparr>,
     \<lparr>bi_Code = ''FINANCIAL_USER'', bi_Name = ''Financial user'',
      bi_Description = ''A user who may also ask for withdrawals and refunds'',
      bi_DataScope = ''own_only'', bi_AllPermissions = False, bi_AllReadOnly = False, bi_Menus = [],
      bi_ExtraCodes = [''apikey_create'', ''apikey_delete'', ''apikey_update'', ''password_change'', ''user_logout'',
        ''user_withdrawal_create'', ''user_refund_request_create'', ''user_invoice_create'', ''user_invoice_list_read'',
        ''user_invoice_get_read'']\<rparr>]"

definition IsBuiltinRoleCode :: "string \<Rightarrow> bool" where
  "IsBuiltinRoleCode code = list_ex (\<lambda>r. bi_Code r = code) BuiltinRoles"

lemma IsBuiltinRoleCode_iff:
  "IsBuiltinRoleCode code \<longleftrightarrow>
     code \<in> {''SUPER_ADMIN'', ''FINANCE_MANAGER'', ''OPERATION_MANAGER'', ''AI_RESOURCE_MANAGER'', ''AUDITOR'', ''USER'',
       ''FINANCIAL_USER''}"
  by (auto simp: IsBuiltinRoleCode_def BuiltinRoles_def)

definition load_role :: "perm_env \<Rightarrow> nat \<Rightarrow> Role perm_act" where
  "load_role env roleID s =
     (if pn_fails env LoadRole then (Inl (PermDown LoadRole), s)
      else case filter (\<lambda>r. ro_ID r = roleID) (pd_roles s) of [] \<Rightarrow> (Inl RoleNotFound, s) | r # _ \<Rightarrow> (Inr r, s))"

definition setPermissions :: "perm_env \<Rightarrow> nat \<Rightarrow> string list \<Rightarrow> unit perm_act" where
  "setPermissions env roleID codes s =
     (let codeList = remdups (filter (\<lambda>c. c \<noteq> '''') (map TrimSpace codes));
          perms = filter (\<lambda>p. pn_Code p \<in> set codeList) (pd_perms s)
      in if codeList \<noteq> [] \<and> pn_fails env LookupPerms then (Inl (PermDown LookupPerms), s)
         else if \<exists>c \<in> set codeList. c \<notin> set (map pn_Code perms) then (Inl UnknownCodes, s)
         else if pn_fails env WritePerms then (Inl (PermDown WritePerms), s)
         else (Inr (), s\<lparr>pd_role_perms := filter (\<lambda>(r, p). r \<noteq> roleID) (pd_role_perms s) @
                          map (\<lambda>p. (roleID, pn_ID p)) perms\<rparr>))"

record CreateRoleRequest =
  cr_Code :: string
  cr_Name :: string
  cr_Description :: string
  cr_DataScope :: DataScopePolicy
  cr_Permissions :: "string list"

text \<open>The result is the id of the role; the view of it that the code returns is read from the tables.\<close>

definition fresh_role_id :: "perm_state \<Rightarrow> nat" where
  "fresh_role_id s = Suc (fold max (map ro_ID (pd_roles s)) 0)"

definition role_Create :: "perm_env \<Rightarrow> CreateRoleRequest \<Rightarrow> nat perm_act" where
  "role_Create env req s =
     (let ty = (if dp_Type (cr_DataScope req) = '''' then ''own_tenant'' else dp_Type (cr_DataScope req)); i = fresh_role_id s
      in if \<not> validateRoleCode (cr_Code req) then (Inl BadRoleCode, s)
         else if IsBuiltinRoleCode (cr_Code req) then (Inl ReservedCode, s)
         else if \<not> pn_fails env CountRole \<and> (\<exists>r \<in> set (pd_roles s). ro_Code r = cr_Code req) then (Inl RoleExists, s)
         else if \<not> isValidScopeType ty then (Inl BadScopeType, s)
         else if pn_fails env CreateRole \<or> (\<exists>r \<in> set (pd_roles s). ro_Code r = cr_Code req) then (Inl (PermDown CreateRole), s)
         else andThen (setPermissions env i (cr_Permissions req)) (\<lambda>_. ret i)
               (s\<lparr>pd_roles := pd_roles s @ [\<lparr>ro_ID = i, ro_Code = cr_Code req, ro_Name = cr_Name req,
                   ro_Description = cr_Description req, ro_IsSystem = False,
                   ro_DataScope = Column ((cr_DataScope req)\<lparr>dp_Type := ty\<rparr>)\<rparr>]\<rparr>))"

definition scope_column :: "DataScopePolicy json_column \<Rightarrow> DataScopePolicy" where
  "scope_column c = (case c of Column p \<Rightarrow> p | _ \<Rightarrow> scope_of '''' [])"

definition role_Clone :: "perm_env \<Rightarrow> nat \<Rightarrow> string \<Rightarrow> string \<Rightarrow> nat perm_act" where
  "role_Clone env sourceID newCode newName =
     andThen (load_role env sourceID) (\<lambda>r s.
       role_Create env \<lparr>cr_Code = newCode, cr_Name = newName, cr_Description = ''Cloned from '' @ ro_Code r,
         cr_DataScope = scope_column (ro_DataScope r), cr_Permissions = codes_of_roles s [sourceID]\<rparr> s)"

record UpdateRoleRequest =
  uq_Name :: "string option"
  uq_Description :: "string option"
  uq_DataScope :: "DataScopePolicy option"
  uq_Permissions :: "string list option"

definition updated_role :: "UpdateRoleRequest \<Rightarrow> Role \<Rightarrow> Role" where
  "updated_role req r =
     r\<lparr>ro_Name := (case uq_Name req of None \<Rightarrow> ro_Name r | Some n \<Rightarrow> n),
       ro_Description := (case uq_Description req of None \<Rightarrow> ro_Description r | Some d \<Rightarrow> d),
       ro_DataScope := (case uq_DataScope req of None \<Rightarrow> ro_DataScope r | Some p \<Rightarrow> Column p)\<rparr>"

definition InvalidateProfiles :: "nat list \<Rightarrow> perm_state \<Rightarrow> perm_state" where
  "InvalidateProfiles us s = s\<lparr>pd_profiles := pd_profiles s @ us\<rparr>"

definition role_Update :: "perm_env \<Rightarrow> nat \<Rightarrow> UpdateRoleRequest \<Rightarrow> unit perm_act" where
  "role_Update env roleID req =
     andThen (load_role env roleID) (\<lambda>r s.
       if ro_IsSystem r \<and> (uq_Permissions req \<noteq> None \<or> uq_DataScope req \<noteq> None) then (Inl SystemRole, s)
       else if (case uq_DataScope req of None \<Rightarrow> False | Some p \<Rightarrow> \<not> isValidScopeType (dp_Type p)) then (Inl BadScopeType, s)
       else (let changed = (uq_Name req \<noteq> None \<or> uq_Description req \<noteq> None \<or> uq_DataScope req \<noteq> None)
             in if changed \<and> pn_fails env UpdateRole then (Inl (PermDown UpdateRole), s)
                else andThen
                  (case uq_Permissions req of None \<Rightarrow> ret () | Some codes \<Rightarrow> setPermissions env roleID codes)
                  (\<lambda>_ s1. let s2 = InvalidateByRoleID env roleID s1
                          in (Inr (), InvalidateProfiles (if pn_fails env PluckUsers then [] else users_with_role roleID s2) s2))
                  (if changed then s\<lparr>pd_roles := map (\<lambda>x. if ro_ID x = roleID then updated_role req x else x) (pd_roles s)\<rparr> else s)))"

definition role_Delete :: "perm_env \<Rightarrow> nat \<Rightarrow> unit perm_act" where
  "role_Delete env roleID =
     andThen (load_role env roleID) (\<lambda>r s.
       if ro_IsSystem r then (Inl SystemRole, s)
       else if pn_fails env DeleteRoleRows then (Inl (PermDown DeleteRoleRows), s)
       else (let affected = (if pn_fails env PluckUsers then [] else users_with_role roleID s);
                 s1 = s\<lparr>pd_user_roles := filter (\<lambda>ur. uo_RoleID ur \<noteq> roleID) (pd_user_roles s),
                        pd_role_perms := filter (\<lambda>(r, p). r \<noteq> roleID) (pd_role_perms s),
                        pd_roles := filter (\<lambda>x. ro_ID x \<noteq> roleID) (pd_roles s)\<rparr>;
                 s2 = (if affected \<noteq> [] then InvalidateUserPerms env affected s1 else s1)
             in (Inr (), InvalidateProfiles affected s2)))"

definition AssignUserRole :: "perm_env \<Rightarrow> nat \<Rightarrow> nat \<Rightarrow> nat \<Rightarrow> unit perm_act" where
  "AssignUserRole env userID roleID grantedBy s =
     (if userID = 0 \<or> roleID = 0 then (Inl ZeroID, s)
      else if pn_fails env CountRole \<or> \<not> (\<exists>r \<in> set (pd_roles s). ro_ID r = roleID) then (Inl RoleNotFound, s)
      else if pn_fails env CreateGrant then (Inl (PermDown CreateGrant), s)
      else (let s1 = (if \<exists>ur \<in> set (pd_user_roles s). uo_UserID ur = userID \<and> uo_RoleID ur = roleID then s
                      else s\<lparr>pd_user_roles := pd_user_roles s @ [\<lparr>uo_UserID = userID, uo_RoleID = roleID, uo_GrantedBy = grantedBy\<rparr>]\<rparr>)
            in (Inr (), InvalidateProfiles [userID] (InvalidateUserPerms env [userID] s1))))"

text \<open>The check counts the grants, the rest deletes by user and role: two steps.\<close>

definition revoke_check :: "perm_env \<Rightarrow> nat \<Rightarrow> nat \<Rightarrow> unit perm_act" where
  "revoke_check env userID roleID s =
     (if userID = 0 \<or> roleID = 0 then (Inl ZeroID, s)
      else case load_role env roleID s of
        (Inl e, s1) \<Rightarrow> (Inl RoleNotFound, s1)
      | (Inr r, s1) \<Rightarrow>
          if ro_Code r = ''SUPER_ADMIN'' \<and> (if pn_fails env CountGrants then 0 else length (users_with_role roleID s1)) \<le> 1
          then (Inl LastSuperAdmin, s1) else (Inr (), s1))"

definition revoke_write :: "perm_env \<Rightarrow> nat \<Rightarrow> nat \<Rightarrow> unit perm_act" where
  "revoke_write env userID roleID s =
     (if pn_fails env DeleteGrant then (Inl (PermDown DeleteGrant), s)
      else (Inr (), InvalidateProfiles [userID] (InvalidateUserPerms env [userID]
             (s\<lparr>pd_user_roles := filter (\<lambda>ur. \<not> (uo_UserID ur = userID \<and> uo_RoleID ur = roleID)) (pd_user_roles s)\<rparr>))))"

definition RevokeUserRole :: "perm_env \<Rightarrow> nat \<Rightarrow> nat \<Rightarrow> unit perm_act" where
  "RevokeUserRole env userID roleID = andThen (revoke_check env userID roleID) (\<lambda>_. revoke_write env userID roleID)"

section \<open>The request\<close>

text \<open>What the middleware puts into the context of a request.\<close>

record request_ctx =
  rx_userId :: nat
  rx_tenantId :: nat
  rx_perms :: "SubjectPerms option"
  rx_all :: bool
  rx_visible :: "nat list option"
  rx_ownOnly :: bool

definition authenticated :: "nat \<Rightarrow> nat \<Rightarrow> request_ctx" where
  "authenticated userId tenantId =
     \<lparr>rx_userId = userId, rx_tenantId = tenantId, rx_perms = None, rx_all = False, rx_visible = None, rx_ownOnly = False\<rparr>"

definition LoadSubjectPerms :: "perm_env \<Rightarrow> request_ctx \<Rightarrow> perm_state \<Rightarrow> request_ctx \<times> perm_state" where
  "LoadSubjectPerms env c s =
     (if rx_userId c = 0 then (c, s)
      else case resolver_Resolve env (rx_userId c) s of
        (Inl _, s1) \<Rightarrow> (c, s1)
      | (Inr p, s1) \<Rightarrow> (c\<lparr>rx_perms := Some p\<rparr>, s1))"

definition DataScope :: "request_ctx \<Rightarrow> request_ctx" where
  "DataScope c =
     (case rx_perms c of
        None \<Rightarrow> c
      | Some p \<Rightarrow>
          (let ty = dp_Type (sj_DataScope p)
           in if ty = ''all'' then c\<lparr>rx_all := True\<rparr>
              else if ty = ''custom_tenants'' then c\<lparr>rx_visible := Some (dp_TenantIDs (sj_DataScope p)), rx_all := False\<rparr>
              else if ty = ''own_tenant''
              then c\<lparr>rx_visible := Some (if rx_tenantId c \<noteq> 0 then [rx_tenantId c] else []), rx_all := False\<rparr>
              else if ty = ''own_only'' then c\<lparr>rx_ownOnly := True, rx_all := False\<rparr>
              else c\<lparr>rx_ownOnly := True\<rparr>))"

definition PermissionGate :: "string \<Rightarrow> string \<Rightarrow> request_ctx \<Rightarrow> bool" where
  "PermissionGate meth path c =
     (case Lookup meth path of
        None \<Rightarrow> False
      | Some m \<Rightarrow>
          (case rx_perms c of None \<Rightarrow> False | Some p \<Rightarrow> IsSuperAdmin p \<or> Has (Some p) (rm_Action m)))"

definition RequirePermission :: "string list \<Rightarrow> request_ctx \<Rightarrow> bool" where
  "RequirePermission codes c = (rx_perms c \<noteq> None \<and> HasAny (rx_perms c) codes)"

section \<open>Scopes of queries\<close>

record scoped_row =
  sw_TenantID :: nat
  sw_UserID :: nat

definition ScopedDB :: "request_ctx \<Rightarrow> scoped_row \<Rightarrow> bool" where
  "ScopedDB c row =
     (if rx_all c then True
      else if (case rx_visible c of None \<Rightarrow> False | Some ids \<Rightarrow> ids \<noteq> []) then sw_TenantID row \<in> set (the (rx_visible c))
      else if rx_ownOnly c then rx_userId c > 0 \<and> sw_UserID row = rx_userId c
      else False)"

definition TenantScope :: "request_ctx \<Rightarrow> scoped_row \<Rightarrow> bool" where
  "TenantScope c row =
     (if rx_all c then True
      else if (case rx_visible c of None \<Rightarrow> False | Some ids \<Rightarrow> ids \<noteq> []) then sw_TenantID row \<in> set (the (rx_visible c))
      else rx_tenantId c > 0 \<and> sw_TenantID row = rx_tenantId c)"

definition UserScope :: "request_ctx \<Rightarrow> scoped_row \<Rightarrow> bool" where
  "UserScope c row =
     (if rx_all c then True
      else if rx_ownOnly c then rx_userId c > 0 \<and> sw_UserID row = rx_userId c
      else TenantScope c row)"

definition CanAccessTenant :: "request_ctx \<Rightarrow> nat \<Rightarrow> perm_error + bool" where
  "CanAccessTenant c targetTenantID =
     (if targetTenantID = 0 then Inl ZeroID
      else Inr (rx_all c \<or> (rx_tenantId c \<noteq> 0 \<and> rx_tenantId c = targetTenantID) \<or>
        targetTenantID \<in> set (case rx_visible c of None \<Rightarrow> [] | Some ids \<Rightarrow> ids)))"

definition CanAccessUser :: "perm_env \<Rightarrow> perm_state \<Rightarrow> request_ctx \<Rightarrow> nat \<Rightarrow> perm_error + bool" where
  "CanAccessUser env s c targetUserID =
     (if targetUserID = 0 then Inl ZeroID
      else if rx_all c then Inr True
      else if rx_ownOnly c then Inr (rx_userId c = targetUserID)
      else if pn_fails env LoadUser then Inl (PermDown LoadUser)
      else case find_idx (\<lambda>u. mb_ID u = targetUserID) (pd_users s) of
        None \<Rightarrow> Inr False
      | Some (_, u) \<Rightarrow> CanAccessTenant c (mb_TenantID u))"

definition CanAccessApiKey :: "perm_env \<Rightarrow> perm_state \<Rightarrow> request_ctx \<Rightarrow> nat \<Rightarrow> perm_error + bool" where
  "CanAccessApiKey env s c targetKeyID =
     (if targetKeyID = 0 then Inl ZeroID
      else if rx_all c then Inr True
      else if pn_fails env LoadKey then Inl (PermDown LoadKey)
      else case find_idx (\<lambda>k. ak_ID k = targetKeyID) (pd_keys s) of
        None \<Rightarrow> Inr False
      | Some (_, k) \<Rightarrow> if rx_ownOnly c then Inr (ak_UserID k = rx_userId c) else CanAccessTenant c (ak_TenantID k))"

definition isSensitiveField :: "string \<Rightarrow> bool" where
  "isSensitiveField f =
     (f \<in> {''total_cost'', ''channel_cost'', ''supplier_cost'', ''cost_per_token'', ''channel_id'', ''channel_name'',
           ''supplier_id'', ''supplier_name''})"

text \<open>A map, a list of maps, and everything else.\<close>

datatype 'v sensitive_data = OneMap "(string \<times> 'v) list" | ManyMaps "(string \<times> 'v) list list" | OtherData 'v

definition visible_fields :: "(string \<times> 'v) list \<Rightarrow> (string \<times> 'v) list" where
  "visible_fields m = filter (\<lambda>(k, v). \<not> isSensitiveField k) m"

definition FilterSensitiveData :: "request_ctx \<Rightarrow> 'v sensitive_data \<Rightarrow> 'v sensitive_data" where
  "FilterSensitiveData c d =
     (if rx_all c then d
      else case d of OneMap m \<Rightarrow> OneMap (visible_fields m) | ManyMaps ms \<Rightarrow> ManyMaps (map visible_fields ms) | OtherData v \<Rightarrow> OtherData v)"

section \<open>The protected administrator\<close>

definition ProtectedAdminEmail :: string where "ProtectedAdminEmail = ''admin@tokenhubhk.com''"

definition IsProtectedAdminEmail :: "string \<Rightarrow> bool" where
  "IsProtectedAdminEmail email = (to_lower (TrimSpace email) = to_lower ProtectedAdminEmail)"

definition IsCurrentUserProtectedAdmin :: "perm_env \<Rightarrow> perm_state \<Rightarrow> request_ctx \<Rightarrow> bool" where
  "IsCurrentUserProtectedAdmin env s c =
     (if rx_userId c = 0 \<or> pn_fails env LoadUser then False
      else case find_idx (\<lambda>u. mb_ID u = rx_userId c) (pd_users s) of
             None \<Rightarrow> False | Some (_, u) \<Rightarrow> IsProtectedAdminEmail (mb_Email u))"

definition ShouldBlockProtectedAdminWrite :: "perm_env \<Rightarrow> perm_state \<Rightarrow> request_ctx \<Rightarrow> string \<Rightarrow> bool" where
  "ShouldBlockProtectedAdminWrite env s c targetEmail =
     (IsProtectedAdminEmail targetEmail \<and> \<not> IsCurrentUserProtectedAdmin env s c)"

definition ShouldBlockProtectedAdminCritical :: "string \<Rightarrow> bool" where
  "ShouldBlockProtectedAdminCritical targetEmail = IsProtectedAdminEmail targetEmail"

end
