(* ===== verification/Role_Seed.thy ===== *)
theory Role_Seed
  imports Permission Route_Map
begin

text \<open>
  What every start of the server writes into the permission tables, \<open>internal/service/permission/seed.go\<close>:
  one permission for each action of the route map, the built-in roles, their permissions, a role
  for every user without one, and the root role of the default administrator. The entries of the
  route map are a parameter: Go lists a map in any order. A fault is named by the call and the
  code or table it touches.
\<close>

datatype seed_call =
    UpsertPermission string | UpdatePermission string | UpsertRole string | ListRolePermissions string
  | InsertRolePermissions string | QueryUsers | InsertUserRoles | LoadAdmin | CountAdmin | CreateAdminRole

text \<open>\<open>sv_legacy\<close> is the column \<open>users.role\<close> where the table still has it.\<close>

record seed_env =
  sv_fails :: "seed_call \<Rightarrow> bool"
  sv_legacy :: "(nat \<Rightarrow> string) option"

type_synonym 'a seed_act = "(perm_state, seed_call, 'a) act"

text \<open>What \<open>permsByCode\<close> keeps of an entry.\<close>

record seeded =
  sd_ID :: nat
  sd_Menu :: string
  sd_IsRead :: bool

section \<open>Permissions\<close>

definition fresh_permission_id :: "perm_state \<Rightarrow> nat" where
  "fresh_permission_id s = Suc (fold max (map pn_ID (pd_perms s)) 0)"

definition permission_of :: "nat \<Rightarrow> Entry \<Rightarrow> permission_row" where
  "permission_of i e = \<lparr>pn_ID = i, pn_Code = rm_Action (en_Meta e), pn_Menu = rm_Menu (en_Meta e),
     pn_Resource = rm_Resource (en_Meta e), pn_HTTPMethod = en_Method e, pn_HTTPPath = en_Path e, pn_IsRead = en_IsRead e\<rparr>"

definition filled_in :: "Entry \<Rightarrow> permission_row \<Rightarrow> permission_row" where
  "filled_in e p =
     p\<lparr>pn_Menu := if pn_Menu p = '''' then rm_Menu (en_Meta e) else pn_Menu p,
       pn_HTTPMethod := if pn_HTTPMethod p = '''' then en_Method e else pn_HTTPMethod p,
       pn_HTTPPath := if pn_HTTPPath p = '''' then en_Path e else pn_HTTPPath p\<rparr>"

definition seeded_of :: "nat \<Rightarrow> Entry \<Rightarrow> seeded" where
  "seeded_of i e = \<lparr>sd_ID = i, sd_Menu = rm_Menu (en_Meta e), sd_IsRead = en_IsRead e\<rparr>"

fun seedPermissions :: "seed_env \<Rightarrow> Entry list \<Rightarrow> (string \<times> seeded) list \<Rightarrow> (string \<times> seeded) list seed_act" where
  "seedPermissions env [] acc s = (Inr acc, s)"
| "seedPermissions env (e # es) acc s =
     (let code = rm_Action (en_Meta e)
      in if map_of acc code \<noteq> None then seedPermissions env es acc s
         else if sv_fails env (UpsertPermission code) then (Inl (UpsertPermission code), s)
         else case find_idx (\<lambda>p. pn_Code p = code) (pd_perms s) of
           None \<Rightarrow>
             seedPermissions env es (acc @ [(code, seeded_of (fresh_permission_id s) e)])
               (s\<lparr>pd_perms := pd_perms s @ [permission_of (fresh_permission_id s) e]\<rparr>)
         | Some (i, p) \<Rightarrow>
             seedPermissions env es (acc @ [(code, seeded_of (pn_ID p) e)])
               (if sv_fails env (UpdatePermission code) then s
                else s\<lparr>pd_perms := (pd_perms s)[i := filled_in e p]\<rparr>))"

section \<open>Roles\<close>

definition builtin_role_row :: "nat \<Rightarrow> BuiltinRole \<Rightarrow> Role" where
  "builtin_role_row i br = \<lparr>ro_ID = i, ro_Code = bi_Code br, ro_Name = bi_Name br, ro_Description = bi_Description br,
     ro_IsSystem = True, ro_DataScope = Column (scope_of (bi_DataScope br) [])\<rparr>"

fun seedRoles :: "seed_env \<Rightarrow> BuiltinRole list \<Rightarrow> (string \<times> nat) list \<Rightarrow> (string \<times> nat) list seed_act" where
  "seedRoles env [] acc s = (Inr acc, s)"
| "seedRoles env (br # brs) acc s =
     (if sv_fails env (UpsertRole (bi_Code br)) then (Inl (UpsertRole (bi_Code br)), s)
      else case find_idx (\<lambda>r. ro_Code r = bi_Code br) (pd_roles s) of
        None \<Rightarrow>
          seedRoles env brs (acc @ [(bi_Code br, fresh_role_id s)])
            (s\<lparr>pd_roles := pd_roles s @ [builtin_role_row (fresh_role_id s) br]\<rparr>)
      | Some (_, r) \<Rightarrow> seedRoles env brs (acc @ [(bi_Code br, ro_ID r)]) s)"

definition collectPermissionIDs :: "BuiltinRole \<Rightarrow> (string \<times> seeded) list \<Rightarrow> nat list" where
  "collectPermissionIDs br perms =
     remdups
       (if bi_AllPermissions br then map (\<lambda>cp. sd_ID (snd cp)) perms
        else if bi_AllReadOnly br then map (\<lambda>cp. sd_ID (snd cp)) (filter (\<lambda>cp. sd_IsRead (snd cp)) perms)
        else map (\<lambda>cp. sd_ID (snd cp)) (filter (\<lambda>cp. sd_Menu (snd cp) \<in> set (bi_Menus br)) perms) @
             concat (map (\<lambda>code. case map_of perms code of None \<Rightarrow> [] | Some p \<Rightarrow> [sd_ID p]) (bi_ExtraCodes br)))"

fun seedRolePermissions ::
  "seed_env \<Rightarrow> BuiltinRole list \<Rightarrow> (string \<times> nat) list \<Rightarrow> (string \<times> seeded) list \<Rightarrow> unit seed_act" where
  "seedRolePermissions env [] roles perms s = (Inr (), s)"
| "seedRolePermissions env (br # brs) roles perms s =
     (case map_of roles (bi_Code br) of
        None \<Rightarrow> seedRolePermissions env brs roles perms s
      | Some role \<Rightarrow>
          (let wanted = collectPermissionIDs br perms
           in if wanted = [] then seedRolePermissions env brs roles perms s
              else if sv_fails env (ListRolePermissions (bi_Code br)) then (Inl (ListRolePermissions (bi_Code br)), s)
              else (let toInsert = filter (\<lambda>p. (role, p) \<notin> set (pd_role_perms s)) wanted
                    in if toInsert \<noteq> [] \<and> sv_fails env (InsertRolePermissions (bi_Code br))
                       then (Inl (InsertRolePermissions (bi_Code br)), s)
                       else seedRolePermissions env brs roles perms
                              (s\<lparr>pd_role_perms := pd_role_perms s @ map (\<lambda>p. (role, p)) toInsert\<rparr>))))"

section \<open>Users\<close>

definition backfill_code :: "seed_env \<Rightarrow> nat \<Rightarrow> string" where
  "backfill_code env userID =
     (let role = (case sv_legacy env of None \<Rightarrow> '''' | Some f \<Rightarrow> f userID)
      in if role = '''' then ''USER''
         else case LegacyRoleMapping role of Some mapped \<Rightarrow> mapped | None \<Rightarrow> ''USER'')"

definition backfill_rows :: "seed_env \<Rightarrow> (string \<times> nat) list \<Rightarrow> member_row list \<Rightarrow> UserRole list" where
  "backfill_rows env roles users =
     concat (map (\<lambda>u. case map_of roles (backfill_code env (mb_ID u)) of
         None \<Rightarrow> [] | Some r \<Rightarrow> [\<lparr>uo_UserID = mb_ID u, uo_RoleID = r, uo_GrantedBy = 0\<rparr>]) users)"

definition backfillUserRoles :: "seed_env \<Rightarrow> (string \<times> nat) list \<Rightarrow> nat seed_act" where
  "backfillUserRoles env roles s =
     (if sv_fails env QueryUsers then (Inl QueryUsers, s)
      else (let users = filter (\<lambda>u. \<not> (\<exists>g \<in> set (pd_user_roles s). uo_UserID g = mb_ID u)) (pd_users s);
                rows = backfill_rows env roles users
            in if rows = [] then (Inr 0, s)
               else if sv_fails env InsertUserRoles then (Inl InsertUserRoles, s)
               else (Inr (length rows), s\<lparr>pd_user_roles := pd_user_roles s @ rows\<rparr>)))"

definition ensureDefaultAdminSuperRole :: "seed_env \<Rightarrow> (string \<times> nat) list \<Rightarrow> bool seed_act" where
  "ensureDefaultAdminSuperRole env roles s =
     (case map_of roles ''SUPER_ADMIN'' of
        None \<Rightarrow> (Inr False, s)
      | Some super \<Rightarrow>
          if super = 0 then (Inr False, s)
          else if sv_fails env LoadAdmin then (Inl LoadAdmin, s)
          else case find_idx (\<lambda>u. mb_Email u = ''admin@tokenhubhk.com'') (pd_users s) of
            None \<Rightarrow> (Inr False, s)
          | Some (_, u) \<Rightarrow>
              if mb_ID u = 0 then (Inr False, s)
              else if sv_fails env CountAdmin then (Inl CountAdmin, s)
              else if \<exists>g \<in> set (pd_user_roles s). uo_UserID g = mb_ID u \<and> uo_RoleID g = super then (Inr True, s)
              else if sv_fails env CreateAdminRole then (Inl CreateAdminRole, s)
              else (Inr True, s\<lparr>pd_user_roles := pd_user_roles s @ [\<lparr>uo_UserID = mb_ID u, uo_RoleID = super, uo_GrantedBy = 0\<rparr>]\<rparr>))"

definition Seed :: "seed_env \<Rightarrow> Entry list \<Rightarrow> bool seed_act" where
  "Seed env entries =
     andThen (seedPermissions env entries []) (\<lambda>perms.
     andThen (seedRoles env BuiltinRoles []) (\<lambda>roles.
     andThen (seedRolePermissions env BuiltinRoles roles perms) (\<lambda>_.
     andThen (backfillUserRoles env roles) (\<lambda>_.
     ensureDefaultAdminSuperRole env roles))))"

end
