(* ===== verification/Permission_Laws.thy ===== *)
theory Permission_Laws
  imports Permission
begin

text \<open>
  What the permission system guarantees: the merged data scope of a user shows the rows that his roles
  show (and where it does not), the permission cache never differs from the tables, the last
  SUPER_ADMIN grant survives, and the gate is closed by default.
\<close>

section \<open>The merged scope and the scopes of the roles\<close>

text \<open>What one role promises: the rows its scope shows to a user of a tenant.\<close>

definition role_shows :: "nat \<Rightarrow> nat \<Rightarrow> Role \<Rightarrow> scoped_row \<Rightarrow> bool" where
  "role_shows userID tenantID r row =
     (case ro_DataScope r of
        Column p \<Rightarrow>
          (if dp_Type p = ''all'' then True
           else if dp_Type p = ''own_tenant'' then tenantID \<noteq> 0 \<and> sw_TenantID row = tenantID
           else if dp_Type p = ''custom_tenants'' then sw_TenantID row \<in> set (dp_TenantIDs p) - {0}
           else if dp_Type p = ''own_only'' then sw_UserID row = userID
           else False)
      | _ \<Rightarrow> False)"

text \<open>What the query of a handler shows: the scope merged by the resolver, put into the request by the
  middleware, applied by \<open>ScopedDB\<close>.\<close>

definition request_shows :: "nat \<Rightarrow> nat \<Rightarrow> Role list \<Rightarrow> scoped_row \<Rightarrow> bool" where
  "request_shows userID tenantID roles row =
     ScopedDB (DataScope ((authenticated userID tenantID)
       \<lparr>rx_perms := Some (subject_of \<lparr>mb_ID = userID, mb_TenantID = tenantID, mb_Email = ''''\<rparr> roles [])\<rparr>)) row"

definition scope_is :: "string \<Rightarrow> Role \<Rightarrow> bool" where
  "scope_is ty r = (case ro_DataScope r of Column p \<Rightarrow> dp_Type p = ty | _ \<Rightarrow> False)"

definition tenants_of :: "Role \<Rightarrow> nat set" where
  "tenants_of r = (case ro_DataScope r of
     Column p \<Rightarrow> if dp_Type p = ''custom_tenants'' then set (dp_TenantIDs p) - {0} else {} | _ \<Rightarrow> {})"

lemma scan_scopes_step:
  "\<exists>new. set new = tenants_of r \<and> scan_scopes (r # rs) (a, t, cs) =
     scan_scopes rs (a \<or> scope_is ''all'' r, t \<or> scope_is ''own_tenant'' r, cs @ new)"
proof (cases "scope_is ''custom_tenants'' r")
  case True
  then show ?thesis
    by (intro exI [of _ "filter (\<lambda>t. t \<noteq> 0) (dp_TenantIDs (case ro_DataScope r of Column p \<Rightarrow> p))"])
       (auto simp: scope_is_def tenants_of_def split: json_column.splits)
next
  case False
  then show ?thesis
    by (intro exI [of _ "[]"]) (auto simp: scope_is_def tenants_of_def split: json_column.splits)
qed

lemma scan_scopes_result:
  "\<exists>cs'. set cs' = set cs \<union> (\<Union>r \<in> set roles. tenants_of r) \<and> scan_scopes roles (a, t, cs) =
     (a \<or> list_ex (scope_is ''all'') roles, t \<or> list_ex (scope_is ''own_tenant'') roles, cs')"
proof (induction roles arbitrary: a t cs)
  case (Cons r roles)
  obtain new where new: "set new = tenants_of r" "scan_scopes (r # roles) (a, t, cs) =
     scan_scopes roles (a \<or> scope_is ''all'' r, t \<or> scope_is ''own_tenant'' r, cs @ new)"
    using scan_scopes_step [of r roles a t cs] by blast
  then show ?case using Cons [of "cs @ new" "a \<or> scope_is ''all'' r" "t \<or> scope_is ''own_tenant'' r"]
    by (auto simp: Un_assoc)
qed simp

text \<open>Without its search over lists: the answer in terms of which scopes occur.\<close>

lemma scan_scopes_cases:
  obtains cs where "scan_scopes roles (False, False, []) =
      (list_ex (scope_is ''all'') roles, list_ex (scope_is ''own_tenant'') roles, cs)"
    and "set cs = (\<Union>r \<in> set roles. tenants_of r)"
  using scan_scopes_result [of "[]" roles False False] by auto

lemma request_shows_eq:
  assumes "userID > 0"
  shows "request_shows userID tenantID roles row =
     (if list_ex (scope_is ''all'') roles then True
      else if (\<Union>r \<in> set roles. tenants_of r) \<noteq> {}
      then sw_TenantID row \<in> (\<Union>r \<in> set roles. tenants_of r) \<or>
           (list_ex (scope_is ''own_tenant'') roles \<and> tenantID \<noteq> 0 \<and> sw_TenantID row = tenantID)
      else if list_ex (scope_is ''own_tenant'') roles then tenantID \<noteq> 0 \<and> sw_TenantID row = tenantID
      else sw_UserID row = userID)"
proof (cases "roles = []")
  case True
  then show ?thesis using assms
    by (simp add: request_shows_def subject_of_def mergeDataScopes_def DataScope_def authenticated_def
      ScopedDB_def scope_of_def)
next
  case False
  obtain cs where scan: "scan_scopes roles (False, False, []) =
      (list_ex (scope_is ''all'') roles, list_ex (scope_is ''own_tenant'') roles, cs)"
    and cs: "set cs = (\<Union>r \<in> set roles. tenants_of r)" by (rule scan_scopes_cases)
  have ne: "sortUintSet xs = [] \<longleftrightarrow> xs = []" and st: "set (sortUintSet xs) = set xs" for xs
    by (simp_all add: sortUintSet_def flip: set_empty2)
  have merged: "mergeDataScopes roles tenantID =
     (if list_ex (scope_is ''all'') roles then scope_of ''all'' []
      else if list_ex (scope_is ''own_tenant'') roles \<and> cs \<noteq> []
      then scope_of ''custom_tenants'' (sortUintSet (if tenantID \<noteq> 0 then cs @ [tenantID] else cs))
      else if cs \<noteq> [] then scope_of ''custom_tenants'' (sortUintSet cs)
      else if list_ex (scope_is ''own_tenant'') roles then scope_of ''own_tenant'' []
      else scope_of ''own_only'' [])"
    using False by (simp add: mergeDataScopes_def scan)
  have empty: "((\<Union>r \<in> set roles. tenants_of r) = {}) = (cs = [])"
    by (simp only: cs [symmetric] set_empty)
  have shown: "mergeDataScopes roles tenantID = p \<Longrightarrow> request_shows userID tenantID roles row =
       (if dp_Type p = ''all'' then True
        else if dp_Type p = ''custom_tenants'' \<and> dp_TenantIDs p \<noteq> [] then sw_TenantID row \<in> set (dp_TenantIDs p)
        else if dp_Type p = ''own_tenant'' then tenantID \<noteq> 0 \<and> sw_TenantID row = tenantID
        else dp_Type p \<noteq> ''custom_tenants'' \<and> sw_UserID row = userID)" for p
    using assms by (simp add: request_shows_def subject_of_def DataScope_def authenticated_def ScopedDB_def Let_def)
  show ?thesis
  proof (cases "cs = []")
    case True
    then show ?thesis unfolding shown [OF merged] empty by (simp add: scope_of_def)
  next
    case False
    then show ?thesis unfolding shown [OF merged] empty cs [symmetric] by (simp add: scope_of_def ne st) blast
  qed
qed

section \<open>When the merged scope is the union of the scopes\<close>

text \<open>Every scope is one the admin API accepts, and a custom scope names a tenant.\<close>

definition scope_well_formed :: "Role \<Rightarrow> bool" where
  "scope_well_formed r =
     (case ro_DataScope r of
        Column p \<Rightarrow> isValidScopeType (dp_Type p) \<and> (dp_Type p = ''custom_tenants'' \<longrightarrow> (\<exists>t \<in> set (dp_TenantIDs p). t \<noteq> 0))
      | _ \<Rightarrow> False)"

lemma role_shows_cases:
  assumes "scope_well_formed r"
  shows "role_shows userID tenantID r row \<longleftrightarrow>
     scope_is ''all'' r \<or> (scope_is ''own_tenant'' r \<and> tenantID \<noteq> 0 \<and> sw_TenantID row = tenantID) \<or>
     sw_TenantID row \<in> tenants_of r \<or> (scope_is ''own_only'' r \<and> sw_UserID row = userID)"
    and "scope_is ''all'' r \<or> scope_is ''own_tenant'' r \<or> tenants_of r \<noteq> {} \<or> scope_is ''own_only'' r"
  using assms by (auto simp: scope_well_formed_def role_shows_def scope_is_def tenants_of_def isValidScopeType_def
    split: json_column.splits)

text \<open>Whatever the roles, nothing is shown that no role shows, save the user's own rows.\<close>

lemma merged_scope_is_safe:
  assumes "userID > 0" "request_shows userID tenantID roles row" "sw_UserID row \<noteq> userID"
  shows "\<exists>r \<in> set roles. role_shows userID tenantID r row"
proof -
  have "scope_is ''all'' r \<Longrightarrow> role_shows userID tenantID r row"
    and "scope_is ''own_tenant'' r \<Longrightarrow> tenantID \<noteq> 0 \<Longrightarrow> sw_TenantID row = tenantID \<Longrightarrow> role_shows userID tenantID r row"
    and "sw_TenantID row \<in> tenants_of r \<Longrightarrow> role_shows userID tenantID r row" for r
    by (auto simp: scope_is_def role_shows_def tenants_of_def split: json_column.splits if_splits)
  then show ?thesis using assms
    by (simp only: request_shows_eq list_ex_iff split: if_splits; blast)
qed

text \<open>C35: For a user and a tenant with positive ids and at least one role, whose roles all have well-formed
  scopes (a scope of chosen tenants names at least one): a row is shown under the merged scope exactly when
  one of the roles shows it, provided the user's own rows belong to his tenant and a role for own rows is not
  combined with foreign tenants only (unless another role shows everything or his own tenant).\<close>

theorem merged_scope_is_union:
  assumes "userID > 0" "tenantID > 0" "roles \<noteq> []" "\<forall>r \<in> set roles. scope_well_formed r"
    "sw_UserID row = userID \<longrightarrow> sw_TenantID row = tenantID"
    "\<forall>r \<in> set roles. \<forall>q \<in> set roles. scope_is ''own_only'' r \<longrightarrow> scope_is ''custom_tenants'' q \<longrightarrow>
       (\<exists>p \<in> set roles. scope_is ''all'' p \<or> scope_is ''own_tenant'' p \<or> tenantID \<in> tenants_of p)"
  shows "request_shows userID tenantID roles row \<longleftrightarrow> (\<exists>r \<in> set roles. role_shows userID tenantID r row)"
proof -
  have custom: "tenants_of r \<noteq> {} \<Longrightarrow> scope_is ''custom_tenants'' r" for r
    by (auto simp: tenants_of_def scope_is_def split: json_column.splits if_splits)
  have union: "(\<exists>r \<in> set roles. role_shows userID tenantID r row) \<longleftrightarrow>
      (\<exists>r \<in> set roles. scope_is ''all'' r) \<or> ((\<exists>r \<in> set roles. scope_is ''own_tenant'' r) \<and> sw_TenantID row = tenantID) \<or>
      (\<exists>r \<in> set roles. sw_TenantID row \<in> tenants_of r) \<or> ((\<exists>r \<in> set roles. scope_is ''own_only'' r) \<and> sw_UserID row = userID)"
    using assms(2,4) by (auto simp: role_shows_cases(1))
  obtain r where r: "r \<in> set roles" using assms(3) by (cases roles) auto
  have some: "scope_is ''all'' q \<or> scope_is ''own_tenant'' q \<or> tenants_of q \<noteq> {} \<or> scope_is ''own_only'' q"
    if "q \<in> set roles" for q using role_shows_cases(2) assms(4) that by blast
  show ?thesis
  proof (cases "\<exists>q \<in> set roles. scope_is ''own_only'' q \<and> sw_UserID row = userID")
    case True
    then have own: "sw_TenantID row = tenantID" using assms(5) by blast
    have lonely: "(\<exists>p \<in> set roles. scope_is ''all'' p) \<or> (\<exists>p \<in> set roles. scope_is ''own_tenant'' p) \<or>
        tenantID \<in> (\<Union>r \<in> set roles. tenants_of r)" if ne: "(\<Union>r \<in> set roles. tenants_of r) \<noteq> {}"
    proof -
      obtain q where q: "q \<in> set roles" "scope_is ''custom_tenants'' q" using ne custom by blast
      obtain w where w: "w \<in> set roles" "scope_is ''own_only'' w" using True by blast
      obtain p where "p \<in> set roles" "scope_is ''all'' p \<or> scope_is ''own_tenant'' p \<or> tenantID \<in> tenants_of p"
        using assms(6) [rule_format, OF w(1) q(1) w(2) q(2)] by (elim bexE)
      then show ?thesis by blast
    qed
    show ?thesis
      unfolding union request_shows_eq [OF assms(1)] list_ex_iff
      using True own assms(2) lonely by (simp; blast)
  next
    case False
    then have shows_own: "\<not> ((\<exists>r \<in> set roles. scope_is ''own_only'' r) \<and> sw_UserID row = userID)" by blast
    have "(\<exists>r \<in> set roles. sw_TenantID row \<in> tenants_of r) \<longleftrightarrow> sw_TenantID row \<in> (\<Union>r \<in> set roles. tenants_of r)"
      by blast
    moreover have "sw_UserID row \<noteq> userID" if "\<not> (\<exists>q \<in> set roles. scope_is ''all'' q)"
      "\<not> (\<exists>q \<in> set roles. scope_is ''own_tenant'' q)" "(\<Union>r \<in> set roles. tenants_of r) = {}"
      using r some [OF r] False that by blast
    ultimately show ?thesis
      unfolding union request_shows_eq [OF assms(1)] list_ex_iff
      using assms(2) shows_own by (simp only: if_split) fastforce
  qed
qed
text \<open>A user sees his own rows through an \<open>own_only\<close> role; a second role, for tenant 7 only, takes
  them away from him.\<close>

definition own_only_role :: Role where
  "own_only_role = \<lparr>ro_ID = 6, ro_Code = ''USER'', ro_Name = '''', ro_Description = '''', ro_IsSystem = True,
     ro_DataScope = Column (scope_of ''own_only'' [])\<rparr>"

definition tenant_seven_role :: Role where
  "tenant_seven_role = \<lparr>ro_ID = 9, ro_Code = ''partner'', ro_Name = '''', ro_Description = '''', ro_IsSystem = False,
     ro_DataScope = Column (scope_of ''custom_tenants'' [7])\<rparr>"

lemmas scope_examples = own_only_role_def tenant_seven_role_def scope_of_def request_shows_eq scope_is_def
  tenants_of_def role_shows_def scope_well_formed_def isValidScopeType_def

lemma granting_a_role_hides_rows:
  "request_shows 3 2 [own_only_role] \<lparr>sw_TenantID = 2, sw_UserID = 3\<rparr> \<and>
   \<not> request_shows 3 2 [own_only_role, tenant_seven_role] \<lparr>sw_TenantID = 2, sw_UserID = 3\<rparr>"
  by (simp add: scope_examples)

lemma merged_scope_is_union_witness:
  "request_shows 3 7 [own_only_role, tenant_seven_role] \<lparr>sw_TenantID = 7, sw_UserID = 8\<rparr> \<longleftrightarrow>
   (\<exists>r \<in> set [own_only_role, tenant_seven_role]. role_shows 3 7 r \<lparr>sw_TenantID = 7, sw_UserID = 8\<rparr>)"
  by (rule merged_scope_is_union) (simp_all add: scope_examples)

section \<open>Operations on the permission tables\<close>

datatype perm_op =
    DoResolve nat | DoCreate CreateRoleRequest | DoClone nat string string | DoUpdate nat UpdateRoleRequest
  | DoDelete nat | DoAssign nat nat nat | DoRevoke nat nat

fun perm_exec :: "perm_env \<Rightarrow> perm_op \<Rightarrow> perm_state \<Rightarrow> bool \<times> perm_state" where
  "perm_exec env (DoResolve u) s = map_prod (\<lambda>r. \<not> isl r) (\<lambda>s. s) (resolver_Resolve env u s)"
| "perm_exec env (DoCreate req) s = map_prod (\<lambda>r. \<not> isl r) (\<lambda>s. s) (role_Create env req s)"
| "perm_exec env (DoClone i c n) s = map_prod (\<lambda>r. \<not> isl r) (\<lambda>s. s) (role_Clone env i c n s)"
| "perm_exec env (DoUpdate i req) s = map_prod (\<lambda>r. \<not> isl r) (\<lambda>s. s) (role_Update env i req s)"
| "perm_exec env (DoDelete i) s = map_prod (\<lambda>r. \<not> isl r) (\<lambda>s. s) (role_Delete env i s)"
| "perm_exec env (DoAssign u i g) s = map_prod (\<lambda>r. \<not> isl r) (\<lambda>s. s) (AssignUserRole env u i g s)"
| "perm_exec env (DoRevoke u i) s = map_prod (\<lambda>r. \<not> isl r) (\<lambda>s. s) (RevokeUserRole env u i s)"

fun perm_run :: "(perm_env \<times> perm_op) list \<Rightarrow> perm_state \<Rightarrow> perm_state" where
  "perm_run [] s = s"
| "perm_run ((env, op) # ops) s = perm_run ops (snd (perm_exec env op s))"

text \<open>Tables as the migrations and the seed leave them: role ids positive and unique, built-in codes
  only on system roles, every grant and every permission of a role that exists, no grant twice.\<close>

definition tables_ok :: "perm_state \<Rightarrow> bool" where
  "tables_ok s =
     (distinct (map ro_ID (pd_roles s)) \<and>
      (\<forall>r \<in> set (pd_roles s). ro_ID r > 0 \<and> (IsBuiltinRoleCode (ro_Code r) \<longrightarrow> ro_IsSystem r)) \<and>
      (\<forall>g \<in> set (pd_user_roles s). uo_RoleID g \<in> ro_ID ` set (pd_roles s)) \<and>
      distinct (map (\<lambda>g. (uo_UserID g, uo_RoleID g)) (pd_user_roles s)) \<and>
      (\<forall>rp \<in> set (pd_role_perms s). fst rp \<in> ro_ID ` set (pd_roles s)))"

text \<open>What an operation does to the tables, the cache left aside.\<close>

definition same_tables :: "perm_state \<Rightarrow> perm_state \<Rightarrow> bool" where
  "same_tables s t = (pd_users t = pd_users s \<and> pd_roles t = pd_roles s \<and> pd_perms t = pd_perms s \<and>
     pd_user_roles t = pd_user_roles s \<and> pd_role_perms t = pd_role_perms s \<and> pd_keys t = pd_keys s)"

lemma same_tables_steps [simp]:
  "same_tables s s"
  "same_tables s (drop_cached env us s)"
  "same_tables s (InvalidateUserPerms env us s)"
  "same_tables s (InvalidateByRoleID env i s)"
  "same_tables s (InvalidateProfiles us s)"
  "same_tables s (s\<lparr>pd_cache := c\<rparr>)"
  by (simp_all add: same_tables_def drop_cached_def InvalidateUserPerms_def InvalidateByRoleID_def
    InvalidateProfiles_def Let_def)

lemma same_tables_trans: "same_tables s t \<Longrightarrow> same_tables t u \<Longrightarrow> same_tables s u"
  by (simp add: same_tables_def)

lemma same_tables_ok: "same_tables s t \<Longrightarrow> tables_ok t = tables_ok s"
  by (simp add: same_tables_def tables_ok_def)

lemma same_tables_users_with_role: "same_tables s t \<Longrightarrow> users_with_role i t = users_with_role i s"
  by (simp add: same_tables_def users_with_role_def)

lemma Resolve_same_tables: "same_tables s (snd (resolver_Resolve env u s))"
proof -
  have set_cached: "same_tables s t \<Longrightarrow> same_tables s (t\<lparr>pd_cache := c\<rparr>)" for t c by (simp add: same_tables_def)
  show ?thesis
    by (auto simp: resolver_Resolve_def Let_def set_cached split: option.splits json_column.splits sum.splits)
qed

lemma load_role_Inr: "load_role env i s = (Inr r, t) \<Longrightarrow> t = s \<and> r \<in> set (pd_roles s) \<and> ro_ID r = i"
  by (auto simp: load_role_def split: if_splits list.splits dest: filter_eq_ConsD)

lemma load_role_Inl: "load_role env i s = (Inl e, t) \<Longrightarrow> t = s"
  by (auto simp: load_role_def split: if_splits list.splits)


section \<open>Coherence of the cache\<close>

text \<open>No fault in a call, Redis there.\<close>

definition healthy :: "perm_env \<Rightarrow> bool" where
  "healthy env = (pn_redis env \<and> pn_fails env = (\<lambda>_. False))"

definition calm :: perm_env where
  "calm = \<lparr>pn_now = 0, pn_redis = True, pn_fails = \<lambda>_. False\<rparr>"

lemma calm_fails [simp]: "pn_fails calm c = False"
  by (simp add: calm_def)

definition core :: "Role \<Rightarrow> Role" where
  "core r = r\<lparr>ro_Name := '''', ro_Description := ''''\<rparr>"

lemma perm_core_fields [simp]:
  "ro_ID (core r) = ro_ID r" "ro_Code (core r) = ro_Code r" "ro_DataScope (core r) = ro_DataScope r"
  by (simp_all add: core_def)

lemma scan_scopes_core: "scan_scopes (map core rs) acc = scan_scopes rs acc"
  by (induction rs acc rule: scan_scopes.induct) simp_all

lemma subject_of_core: "map core rs = map core rs' \<Longrightarrow> subject_of u rs cs = subject_of u rs' cs"
proof -
  assume eq: "map core rs = map core rs'"
  have "scan_scopes rs acc = scan_scopes rs' acc" for acc
    using eq scan_scopes_core by metis
  moreover have "map ro_Code rs = map ro_Code rs'"
    using arg_cong [OF eq, of "map ro_Code"] by (simp add: o_def)
  moreover have "(rs = []) = (rs' = [])" using eq by (metis map_is_Nil_conv)
  ultimately show ?thesis by (simp add: subject_of_def mergeDataScopes_def)
qed

lemma codes_of_roles_alt:
  "codes_of_roles s ids = remdups (concat (map (\<lambda>(r, p). map pn_Code (filter (\<lambda>x. pn_ID x = p) (pd_perms s)))
     (filter (\<lambda>(r, p). r \<in> set ids) (pd_role_perms s))))"
proof -
  have "concat (map (\<lambda>(r, p). if r \<in> A then f p else []) xs) = concat (map (\<lambda>(r, p). f p) (filter (\<lambda>(r, p). r \<in> A) xs))"
    for A :: "nat set" and f :: "nat \<Rightarrow> string list" and xs :: "(nat \<times> nat) list"
    by (induction xs) auto
  then show ?thesis by (simp add: codes_of_roles_def)
qed

lemma codes_of_roles_cong:
  assumes "pd_perms t = pd_perms s"
    "filter (\<lambda>(r, p). r \<in> set ids) (pd_role_perms t) = filter (\<lambda>(r, p). r \<in> set ids) (pd_role_perms s)"
  shows "codes_of_roles t ids = codes_of_roles s ids"
  using assms by (simp add: codes_of_roles_alt)

lemma roles_of_user_cong:
  assumes "filter (\<lambda>g. uo_UserID g = u) (pd_user_roles t) = filter (\<lambda>g. uo_UserID g = u) (pd_user_roles s)"
    "\<And>g. g \<in> set (pd_user_roles s) \<Longrightarrow> uo_UserID g = u \<Longrightarrow>
       map core (filter (\<lambda>r. ro_ID r = uo_RoleID g) (pd_roles t)) = map core (filter (\<lambda>r. ro_ID r = uo_RoleID g) (pd_roles s))"
  shows "map core (roles_of_user t u) = map core (roles_of_user s u)"
  unfolding roles_of_user_def map_concat map_map
  by (rule arg_cong [where f = concat], rule map_cong) (use assms in \<open>simp_all add: o_def\<close>)

text \<open>The user's view of the tables stays when nothing it is computed from changes.\<close>

lemma loadFromDB_cong:
  assumes users: "pd_users t = pd_users s" and perms: "pd_perms t = pd_perms s"
    and grants: "map core (roles_of_user t u) = map core (roles_of_user s u)"
    and fallback: "roles_of_user s u = [] \<Longrightarrow>
       map core (filter (\<lambda>r. ro_Code r = ''USER'') (pd_roles t)) = map core (filter (\<lambda>r. ro_Code r = ''USER'') (pd_roles s))"
    and code_list: "filter (\<lambda>(r, p). r \<in> set (map ro_ID (effective_roles calm u s))) (pd_role_perms t) =
       filter (\<lambda>(r, p). r \<in> set (map ro_ID (effective_roles calm u s))) (pd_role_perms s)"
  shows "loadFromDB calm u t = loadFromDB calm u s"
proof -
  have eff: "map core (effective_roles calm u t) = map core (effective_roles calm u s)"
  proof (cases "roles_of_user s u")
    case Nil
    then have none: "roles_of_user t u = []" using grants by simp
    show ?thesis
      using fallback [OF Nil]
      by (cases "filter (\<lambda>r. ro_Code r = ''USER'') (pd_roles t)"; cases "filter (\<lambda>r. ro_Code r = ''USER'') (pd_roles s)")
         (auto simp: effective_roles_def Nil none calm_def dest: arg_cong [where f = ro_ID])
  next
    case (Cons r rs)
    then obtain r' rs' where "roles_of_user t u = r' # rs'" using grants by (cases "roles_of_user t u") auto
    with Cons grants show ?thesis by (simp add: effective_roles_def)
  qed
  have ids: "map ro_ID (effective_roles calm u t) = map ro_ID (effective_roles calm u s)"
    using arg_cong [OF eff, of "map ro_ID"] by (simp add: o_def)
  have "(effective_roles calm u t = []) = (effective_roles calm u s = [])" using eff by (metis map_is_Nil_conv)
  then show ?thesis
    using subject_of_core [OF eff] codes_of_roles_cong [OF perms code_list] ids
    by (cases "find_idx (\<lambda>m. mb_ID m = u) (pd_users s)") (simp_all add: loadFromDB_def users Let_def del: find_idx_None)
qed


text \<open>Every cached entry is what the tables give now.\<close>

definition coherent :: "perm_state \<Rightarrow> bool" where
  "coherent s = (\<forall>u v e. pd_cache s u = Some (v, e) \<longrightarrow> u \<noteq> 0 \<and> (\<exists>p. v = Column p \<and> loadFromDB calm u s = Inr p))"

lemma healthy_load: "healthy env \<Longrightarrow> loadFromDB env u s = loadFromDB calm u s"
  by (cases "find_idx (\<lambda>m. mb_ID m = u) (pd_users s)"; cases "roles_of_user s u")
     (simp_all add: healthy_def loadFromDB_def effective_roles_def Let_def del: find_idx_None)

lemma coherent_step:
  assumes "coherent s" "\<And>u. pd_cache t u = None \<or> (pd_cache t u = pd_cache s u \<and> (u \<noteq> 0 \<longrightarrow> loadFromDB calm u t = loadFromDB calm u s))"
  shows "coherent t"
  using assms unfolding coherent_def by (metis option.distinct(1))

lemma healthy_drop: "healthy env \<Longrightarrow> pd_cache (InvalidateUserPerms env us s) u = (if u \<in> set us \<and> u \<noteq> 0 then None else pd_cache s u)"
  by (auto simp: healthy_def InvalidateUserPerms_def drop_cached_def Let_def filter_empty_conv)

lemma healthy_drop_role: "healthy env \<Longrightarrow> i \<noteq> 0 \<Longrightarrow>
   pd_cache (InvalidateByRoleID env i s) u = (if u \<in> set (users_with_role i s) \<and> u \<noteq> 0 then None else pd_cache s u)"
  by (simp add: InvalidateByRoleID_def healthy_drop) (simp add: healthy_def)

lemma InvalidateProfiles_cache [simp]: "pd_cache (InvalidateProfiles us s) = pd_cache s"
  by (simp add: InvalidateProfiles_def)

lemma same_tables_load:
  assumes "same_tables s t"
  shows "loadFromDB env u t = loadFromDB env u s"
proof -
  have roles: "roles_of_user t = roles_of_user s"
    using assms by (simp add: same_tables_def roles_of_user_def fun_eq_iff)
  have "codes_of_roles t = codes_of_roles s"
    using assms by (intro ext codes_of_roles_cong) (simp_all add: same_tables_def)
  moreover from roles have "effective_roles env u t = effective_roles env u s"
    using assms by (cases "roles_of_user s u") (simp_all add: same_tables_def effective_roles_def)
  ultimately show ?thesis using assms
    by (cases "find_idx (\<lambda>m. mb_ID m = u) (pd_users s)")
       (simp_all add: same_tables_def loadFromDB_def Let_def case_prod_beta del: find_idx_None)
qed

lemma Resolve_fresh:
  assumes "healthy env" "coherent s" "u \<noteq> 0"
  shows "fst (resolver_Resolve env u s) = loadFromDB calm u s"
proof (cases "cached_perms env u s")
  case None
  then show ?thesis using assms(1,3) by (simp add: resolver_Resolve_def healthy_load split: sum.split)
next
  case (Some v)
  then obtain e where "pd_cache s u = Some (v, e)"
    by (auto simp: cached_perms_def split: if_splits option.splits)
  then obtain p where "v = Column p" "loadFromDB calm u s = Inr p" using assms(2) by (auto simp: coherent_def)
  then show ?thesis using Some assms(3) by (simp add: resolver_Resolve_def)
qed

lemma coherent_cached: "coherent s \<Longrightarrow> cached_perms env u s = Some v \<Longrightarrow> \<exists>p. v = Column p"
  by (fastforce simp: coherent_def cached_perms_def split: if_splits option.splits)

lemma Resolve_coherent:
  assumes "healthy env" "coherent s"
  shows "coherent (snd (resolver_Resolve env u s))"
proof (cases "u = 0 \<or> (\<exists>p. cached_perms env u s = Some (Column p))")
  case True
  then show ?thesis using assms(2) by (auto simp: resolver_Resolve_def)
next
  case False
  then have none: "cached_perms env u s = None" "u \<noteq> 0" using coherent_cached [OF assms(2)] by fastforce+
  show ?thesis
  proof (cases "loadFromDB calm u s")
    case (Inr p)
    have load: "loadFromDB calm v (s\<lparr>pd_cache := c\<rparr>) = loadFromDB calm v s" for v c
      by (rule same_tables_load) simp
    show ?thesis
      using assms none Inr by (simp add: resolver_Resolve_def healthy_load coherent_def load healthy_def)
  qed (use assms none in \<open>simp add: resolver_Resolve_def healthy_load\<close>)
qed

section \<open>What each operation leaves of the tables and of the cache\<close>

lemma setPermissions_effect:
  assumes "setPermissions env i codes s = (r, t)"
  shows "t = s \<and> isl r \<or> r = Inr () \<and> (\<exists>ps. set ps \<subseteq> pn_ID ` set (pd_perms s) \<and>
     t = s\<lparr>pd_role_perms := filter (\<lambda>(q, p). q \<noteq> i) (pd_role_perms s) @ map (\<lambda>p. (i, p)) ps\<rparr>)"
proof -
  define ids where
    "ids = map pn_ID (filter (\<lambda>p. pn_Code p \<in> set (remdups (filter (\<lambda>c. c \<noteq> '''') (map TrimSpace codes)))) (pd_perms s))"
  have "(\<exists>e. (r, t) = (Inl e, s)) \<or>
      (r, t) = (Inr (), s\<lparr>pd_role_perms := filter (\<lambda>(q, p). q \<noteq> i) (pd_role_perms s) @ map (\<lambda>p. (i, p)) ids\<rparr>)"
    using assms unfolding ids_def setPermissions_def Let_def map_map o_def by (simp only: split: if_splits) auto
  moreover have "set ids \<subseteq> pn_ID ` set (pd_perms s)" by (auto simp: ids_def)
  ultimately show ?thesis by (elim disjE exE) (simp, metis prod.inject)
qed

lemma filter_role_perms:
  assumes "i \<notin> A"
  shows "filter (\<lambda>(q, p). q \<in> A) (filter (\<lambda>(q, p). q \<noteq> i) rps @ map (\<lambda>p. (i, p)) ps) = filter (\<lambda>(q, p). q \<in> A) rps"
proof -
  have "filter (\<lambda>(q, p). q \<in> A) (map (\<lambda>p. (i, p)) ps) = []" using assms by (induction ps) auto
  moreover have "(q \<noteq> i \<and> q \<in> A) = (q \<in> A)" for q using assms by blast
  ultimately show ?thesis by (simp add: case_prod_unfold)
qed

lemma fold_max_bound: "x \<in> set xs \<Longrightarrow> x \<le> fold max xs (m :: nat)"
proof (induction xs arbitrary: m)
  case (Cons y ys)
  have "k \<le> fold max ys k" for k :: nat by (induction ys arbitrary: k) (auto intro: order_trans [OF max.cobounded2])
  then show ?case using Cons by (auto intro: order_trans [OF max.cobounded1])
qed simp

lemma fresh_role_id_new: "fresh_role_id s > 0" "fresh_role_id s \<notin> ro_ID ` set (pd_roles s)"
proof -
  have "ro_ID r \<le> fold max (map ro_ID (pd_roles s)) 0" if "r \<in> set (pd_roles s)" for r
    using that by (intro fold_max_bound) simp
  then show "fresh_role_id s \<notin> ro_ID ` set (pd_roles s)" by (fastforce simp: fresh_role_id_def)
qed (simp add: fresh_role_id_def)


text \<open>The role an operation loads is the only one with its id, and no built-in one unless it is a
  system role.\<close>

lemma unique_role:
  assumes "tables_ok s" "r \<in> set (pd_roles s)" "q \<in> set (pd_roles s)" "ro_ID q = ro_ID r"
  shows "q = r"
proof -
  have "inj_on ro_ID (set (pd_roles s))" using assms(1) by (simp add: tables_ok_def distinct_map)
  then show ?thesis using assms(2-4) by (rule_tac inj_onD)
qed

lemma USER_is_builtin: "ro_Code r = ''USER'' \<Longrightarrow> IsBuiltinRoleCode (ro_Code r)"
  by (simp add: IsBuiltinRoleCode_iff)

lemma effective_role_ids:
  assumes "i \<in> set (map ro_ID (effective_roles calm u s))"
  shows "(\<exists>g \<in> set (pd_user_roles s). uo_UserID g = u \<and> uo_RoleID g = i) \<or>
         (roles_of_user s u = [] \<and> (\<exists>r \<in> set (pd_roles s). ro_ID r = i \<and> ro_Code r = ''USER''))"
proof (cases "roles_of_user s u")
  case Nil
  show ?thesis
  proof (cases "filter (\<lambda>r. ro_Code r = ''USER'') (pd_roles s)")
    case (Cons r rs)
    then have "r \<in> set (pd_roles s)" "ro_Code r = ''USER''" by (auto dest: filter_eq_ConsD)
    then show ?thesis using assms Nil Cons by (auto simp: effective_roles_def split: if_splits)
  qed (use assms Nil in \<open>simp add: effective_roles_def\<close>)
next
  case (Cons r rs)
  then have "i \<in> set (map ro_ID (roles_of_user s u))" using assms by (simp add: effective_roles_def)
  then show ?thesis by (auto simp: roles_of_user_def)
qed

lemma effective_role_exists:
  assumes "tables_ok s" "i \<in> set (map ro_ID (effective_roles calm u s))"
  shows "i \<in> ro_ID ` set (pd_roles s)"
proof -
  have "g \<in> set (pd_user_roles s) \<Longrightarrow> uo_RoleID g \<in> ro_ID ` set (pd_roles s)" for g
    using assms(1) by (simp add: tables_ok_def)
  then show ?thesis using effective_role_ids [OF assms(2)] by blast
qed

text \<open>Create: a new role nobody has.\<close>

lemma role_Create_effect:
  assumes "role_Create env req s = (r, t)"
  shows "t = s \<or> (\<exists>n rps ps. set ps \<subseteq> pn_ID ` set (pd_perms s) \<and> ro_ID n = fresh_role_id s \<and> \<not> IsBuiltinRoleCode (ro_Code n) \<and>
     (rps = pd_role_perms s \<or> rps = filter (\<lambda>(q, p). q \<noteq> ro_ID n) (pd_role_perms s) @ map (\<lambda>p. (ro_ID n, p)) ps) \<and>
     t = s\<lparr>pd_roles := pd_roles s @ [n], pd_role_perms := rps\<rparr>)"
proof -
  define i where "i = fresh_role_id s"
  define n where "n = \<lparr>ro_ID = i, ro_Code = cr_Code req, ro_Name = cr_Name req, ro_Description = cr_Description req,
    ro_IsSystem = False, ro_DataScope = Column ((cr_DataScope req)\<lparr>dp_Type :=
      if dp_Type (cr_DataScope req) = '''' then ''own_tenant'' else dp_Type (cr_DataScope req)\<rparr>)\<rparr>"
  define s1 where "s1 = s\<lparr>pd_roles := pd_roles s @ [n]\<rparr>"
  have "t = s \<or> (\<not> IsBuiltinRoleCode (cr_Code req) \<and> (r, t) = andThen (setPermissions env i (cr_Permissions req)) (\<lambda>_. ret i) s1)"
    using assms unfolding role_Create_def Let_def s1_def n_def i_def by (simp only: split: if_splits) auto
  then show ?thesis
  proof
    assume ok: "\<not> IsBuiltinRoleCode (cr_Code req) \<and> (r, t) = andThen (setPermissions env i (cr_Permissions req)) (\<lambda>_. ret i) s1"
    obtain r2 s2 where set: "setPermissions env i (cr_Permissions req) s1 = (r2, s2)" by fastforce
    then have t: "t = s2" using ok by (cases r2) (simp_all add: andThen_def ret_def)
    have s1: "s1 = s\<lparr>pd_roles := pd_roles s @ [n], pd_role_perms := pd_role_perms s\<rparr>" by (simp add: s1_def)
    have n: "ro_ID n = fresh_role_id s" "\<not> IsBuiltinRoleCode (ro_Code n)" "i = ro_ID n" using ok by (simp_all add: n_def i_def)
    from setPermissions_effect [OF set] show ?thesis
    proof (elim disjE conjE exE)
      assume "s2 = s1"
      moreover have "set [] \<subseteq> pn_ID ` set (pd_perms s)" by simp
      ultimately show ?thesis using n t s1 by blast
    next
      fix ps assume "s2 = s1\<lparr>pd_role_perms := filter (\<lambda>(q, p). q \<noteq> i) (pd_role_perms s1) @ map (\<lambda>p. (i, p)) ps\<rparr>"
        and "set ps \<subseteq> pn_ID ` set (pd_perms s1)"
      then have ps: "set ps \<subseteq> pn_ID ` set (pd_perms s)" by (simp add: s1_def)
      assume "s2 = s1\<lparr>pd_role_perms := filter (\<lambda>(q, p). q \<noteq> i) (pd_role_perms s1) @ map (\<lambda>p. (i, p)) ps\<rparr>"
      then have "t = s\<lparr>pd_roles := pd_roles s @ [n], pd_role_perms := filter (\<lambda>(q, p). q \<noteq> ro_ID n) (pd_role_perms s) @ map (\<lambda>p. (ro_ID n, p)) ps\<rparr>"
        using t n by (simp add: s1_def)
      then show ?thesis using n ps by blast
    qed
  qed simp
qed

lemma role_Create_ok:
  assumes "tables_ok s" "role_Create env req s = (r, t)"
  shows "tables_ok t"
  using role_Create_effect [OF assms(2)] fresh_role_id_new [of s] assms(1)
  by (elim disjE exE conjE) (auto simp: tables_ok_def)

lemma role_Create_coherent:
  assumes ok: "tables_ok s" and "coherent s" and run: "role_Create env req s = (r, t)"
  shows "coherent t"
  using role_Create_effect [OF run]
proof (elim disjE exE)
  fix n rps ps
  assume "set ps \<subseteq> pn_ID ` set (pd_perms s) \<and> ro_ID n = fresh_role_id s \<and> \<not> IsBuiltinRoleCode (ro_Code n) \<and>
     (rps = pd_role_perms s \<or> rps = filter (\<lambda>(q, p). q \<noteq> ro_ID n) (pd_role_perms s) @ map (\<lambda>p. (ro_ID n, p)) ps) \<and>
     t = s\<lparr>pd_roles := pd_roles s @ [n], pd_role_perms := rps\<rparr>"
  then have n: "ro_ID n = fresh_role_id s" "\<not> IsBuiltinRoleCode (ro_Code n)"
    and rps: "rps = pd_role_perms s \<or> rps = filter (\<lambda>(q, p). q \<noteq> ro_ID n) (pd_role_perms s) @ map (\<lambda>p. (ro_ID n, p)) ps"
    and t: "t = s\<lparr>pd_roles := pd_roles s @ [n], pd_role_perms := rps\<rparr>" by blast+
  have new: "ro_ID n \<notin> ro_ID ` set (pd_roles s)" using n(1) fresh_role_id_new by simp
  have rps_t: "pd_role_perms t = rps" by (simp add: t)
  have "loadFromDB calm u t = loadFromDB calm u s" for u
  proof (rule loadFromDB_cong)
    show "map core (roles_of_user t u) = map core (roles_of_user s u)"
      by (rule roles_of_user_cong) (use ok new in \<open>auto simp: t tables_ok_def\<close>)
    show "map core (filter (\<lambda>r. ro_Code r = ''USER'') (pd_roles t)) = map core (filter (\<lambda>r. ro_Code r = ''USER'') (pd_roles s))"
      using n(2) USER_is_builtin by (auto simp: t)
    have "ro_ID n \<notin> set (map ro_ID (effective_roles calm u s))"
      using new effective_role_exists [OF ok] by blast
    note others = filter_role_perms [OF this, of "pd_role_perms s" ps]
    show "filter (\<lambda>(r, p). r \<in> set (map ro_ID (effective_roles calm u s))) (pd_role_perms t) =
       filter (\<lambda>(r, p). r \<in> set (map ro_ID (effective_roles calm u s))) (pd_role_perms s)"
      unfolding rps_t using rps others by (elim disjE) (simp_all only:)
  qed (simp_all add: t)
  then show ?thesis by (intro coherent_step [OF assms(2)]) (simp add: t)
qed (use assms(2) in simp)


text \<open>Update: one role's fields and permissions.\<close>

lemma updated_role_fields [simp]:
  "ro_ID (updated_role req r) = ro_ID r" "ro_Code (updated_role req r) = ro_Code r"
  "ro_IsSystem (updated_role req r) = ro_IsSystem r"
  by (simp_all add: updated_role_def)

lemma updated_role_core: "uq_DataScope req = None \<Longrightarrow> core (updated_role req r) = core r"
  by (simp add: core_def updated_role_def)

definition role_updated :: "nat \<Rightarrow> UpdateRoleRequest \<Rightarrow> perm_state \<Rightarrow> perm_state \<Rightarrow> bool" where
  "role_updated i req s t = (\<exists>r \<in> set (pd_roles s). \<exists>roles rps ps. set ps \<subseteq> pn_ID ` set (pd_perms s) \<and> ro_ID r = i \<and>
     (roles = pd_roles s \<or> roles = map (\<lambda>x. if ro_ID x = i then updated_role req x else x) (pd_roles s)) \<and>
     (rps = pd_role_perms s \<or> rps = filter (\<lambda>(q, p). q \<noteq> i) (pd_role_perms s) @ map (\<lambda>p. (i, p)) ps) \<and>
     (ro_IsSystem r \<longrightarrow> uq_DataScope req = None \<and> rps = pd_role_perms s) \<and>
     t = s\<lparr>pd_roles := roles, pd_role_perms := rps\<rparr>)"

lemma role_updatedI:
  assumes "r \<in> set (pd_roles s)" "ro_ID r = i"
    "roles = pd_roles s \<or> roles = map (\<lambda>x. if ro_ID x = i then updated_role req x else x) (pd_roles s)"
    "set ps \<subseteq> pn_ID ` set (pd_perms s)"
    "rps = pd_role_perms s \<or> rps = filter (\<lambda>(q, p). q \<noteq> i) (pd_role_perms s) @ map (\<lambda>p. (i, p)) ps"
    "ro_IsSystem r \<Longrightarrow> uq_DataScope req = None \<and> rps = pd_role_perms s"
    "t = s\<lparr>pd_roles := roles, pd_role_perms := rps\<rparr>"
  shows "role_updated i req s t"
  unfolding role_updated_def
  by (rule bexI [OF _ assms(1)], intro exI conjI impI, rule assms(4)) (use assms(2-7) in simp_all)

lemma role_Update_effect:
  assumes "role_Update env i req s = (r, t)"
  shows "t = s \<and> isl r \<or> (\<exists>s2. role_updated i req s s2 \<and>
     (isl r \<and> t = s2 \<or> r = Inr () \<and> (\<exists>us. t = InvalidateProfiles us (InvalidateByRoleID env i s2))))"
proof (cases "load_role env i s")
  case (Pair l s0)
  show ?thesis
  proof (cases l)
    case (Inl e)
    then show ?thesis using assms Pair load_role_Inl [of env i s e s0] by (auto simp: role_Update_def andThen_def)
  next
    case (Inr q)
    then have q: "s0 = s" "q \<in> set (pd_roles s)" "ro_ID q = i" using Pair load_role_Inr by blast+
    define ch where "ch = (uq_Name req \<noteq> None \<or> uq_Description req \<noteq> None \<or> uq_DataScope req \<noteq> None)"
    define s1 where "s1 = (if ch then s\<lparr>pd_roles := map (\<lambda>x. if ro_ID x = i then updated_role req x else x) (pd_roles s)\<rparr> else s)"
    define m where "m = (case uq_Permissions req of None \<Rightarrow> ret () | Some codes \<Rightarrow> setPermissions env i codes)"
    obtain r2 s2 where m: "m s1 = (r2, s2)" by fastforce
    define us where "us = (if pn_fails env PluckUsers then [] else users_with_role i (InvalidateByRoleID env i s2))"
    have eq: "role_Update env i req s =
      (if ro_IsSystem q \<and> (uq_Permissions req \<noteq> None \<or> uq_DataScope req \<noteq> None) then (Inl SystemRole, s)
       else if (case uq_DataScope req of None \<Rightarrow> False | Some p \<Rightarrow> \<not> isValidScopeType (dp_Type p)) then (Inl BadScopeType, s)
       else if ch \<and> pn_fails env UpdateRole then (Inl (PermDown UpdateRole), s)
       else case r2 of Inl e \<Rightarrow> (Inl e, s2) | Inr _ \<Rightarrow> (Inr (), InvalidateProfiles us (InvalidateByRoleID env i s2)))"
      using m Pair Inr q(1) unfolding role_Update_def ch_def [symmetric]
      by (simp add: andThen_def us_def Let_def m_def [symmetric] s1_def [symmetric] split: sum.split) auto
    have run: "t = s \<and> isl r \<or> \<not> (ro_IsSystem q \<and> (uq_Permissions req \<noteq> None \<or> uq_DataScope req \<noteq> None)) \<and>
      (\<exists>e. r2 = Inl e \<and> r = Inl e \<and> t = s2 \<or> r2 = Inr () \<and> r = Inr () \<and> t = InvalidateProfiles us (InvalidateByRoleID env i s2))"
    proof -
      define A where "A = (ro_IsSystem q \<and> (uq_Permissions req \<noteq> None \<or> uq_DataScope req \<noteq> None))"
      define B where "B = (case uq_DataScope req of None \<Rightarrow> False | Some p \<Rightarrow> \<not> isValidScopeType (dp_Type p))"
      define C where "C = (ch \<and> pn_fails env UpdateRole)"
      show ?thesis
        using assms unfolding eq A_def [symmetric] B_def [symmetric] C_def [symmetric]
        by (cases A; cases B; cases C; cases r2) auto
    qed
    have roles1: "pd_roles s1 = pd_roles s \<or> pd_roles s1 = map (\<lambda>x. if ro_ID x = i then updated_role req x else x) (pd_roles s)"
      by (simp add: s1_def)
    have "role_updated i req s s2" if sys: "\<not> (ro_IsSystem q \<and> (uq_Permissions req \<noteq> None \<or> uq_DataScope req \<noteq> None))"
    proof (cases "s2 = s1")
      case True
      have "s1 = s\<lparr>pd_roles := pd_roles s1, pd_role_perms := pd_role_perms s\<rparr>" by (simp add: s1_def)
      from role_updatedI [OF q(2,3) roles1 _ disjI1 [OF refl] _ this, of "[]"] show ?thesis using sys True by simp
    next
      case False
      then obtain codes where codes: "uq_Permissions req = Some codes" "setPermissions env i codes s1 = (r2, s2)"
        using m by (auto simp: m_def ret_def split: option.splits)
      then obtain ps where ps1: "set ps \<subseteq> pn_ID ` set (pd_perms s1)"
          and s2: "s2 = s1\<lparr>pd_role_perms := filter (\<lambda>(q, p). q \<noteq> i) (pd_role_perms s1) @ map (\<lambda>p. (i, p)) ps\<rparr>"
        using setPermissions_effect [OF codes(2)] False by blast
      have ps: "set ps \<subseteq> pn_ID ` set (pd_perms s)" using ps1 by (simp add: s1_def split: if_splits)
      have "s2 = s\<lparr>pd_roles := pd_roles s1, pd_role_perms := filter (\<lambda>(q, p). q \<noteq> i) (pd_role_perms s) @ map (\<lambda>p. (i, p)) ps\<rparr>"
        by (simp add: s2 s1_def)
      from role_updatedI [OF q(2,3) roles1 ps disjI2 [OF refl] _ this] show ?thesis using sys codes(1) by simp
    qed
    with run show ?thesis by (metis isl_def)
  qed
qed


lemma role_updated_ok:
  assumes "tables_ok s" "role_updated i req s t"
  shows "tables_ok t"
proof -
  obtain r roles rps ps where r: "r \<in> set (pd_roles s)" "ro_ID r = i"
    and roles: "roles = pd_roles s \<or> roles = map (\<lambda>x. if ro_ID x = i then updated_role req x else x) (pd_roles s)"
    and rps: "rps = pd_role_perms s \<or> rps = filter (\<lambda>(q, p). q \<noteq> i) (pd_role_perms s) @ map (\<lambda>p. (i, p)) ps"
    and t: "t = s\<lparr>pd_roles := roles, pd_role_perms := rps\<rparr>"
    using assms(2) unfolding role_updated_def by blast
  have ids: "map ro_ID roles = map ro_ID (pd_roles s)" using roles by (auto simp: o_def)
  then have id_set: "ro_ID ` set roles = ro_ID ` set (pd_roles s)" by (metis set_map)
  have "\<forall>r \<in> set roles. ro_ID r > 0 \<and> (IsBuiltinRoleCode (ro_Code r) \<longrightarrow> ro_IsSystem r)"
    using roles assms(1) by (elim disjE) (auto simp: tables_ok_def)
  moreover have "\<forall>rp \<in> set rps. fst rp \<in> ro_ID ` set (pd_roles s)"
    using rps assms(1) r by (elim disjE) (auto simp: tables_ok_def)
  ultimately show ?thesis
    using assms(1) by (simp add: t tables_ok_def ids id_set)
qed

text \<open>Nobody without the role notices.\<close>

lemma role_updated_view:
  assumes ok: "tables_ok s" and upd: "role_updated i req s t" and u: "u \<notin> set (users_with_role i s)"
  shows "loadFromDB calm u t = loadFromDB calm u s"
proof -
  obtain r roles rps ps where r: "r \<in> set (pd_roles s)" "ro_ID r = i"
    and roles: "roles = pd_roles s \<or> roles = map (\<lambda>x. if ro_ID x = i then updated_role req x else x) (pd_roles s)"
    and rps: "rps = pd_role_perms s \<or> rps = filter (\<lambda>(q, p). q \<noteq> i) (pd_role_perms s) @ map (\<lambda>p. (i, p)) ps"
    and sys: "ro_IsSystem r \<longrightarrow> uq_DataScope req = None \<and> rps = pd_role_perms s"
    and t: "t = s\<lparr>pd_roles := roles, pd_role_perms := rps\<rparr>"
    using upd unfolding role_updated_def by blast
  have fields: "pd_roles t = roles" "pd_role_perms t = rps" "pd_users t = pd_users s" "pd_perms t = pd_perms s"
      "pd_user_roles t = pd_user_roles s" by (simp_all add: t)
  have nogrant: "g \<in> set (pd_user_roles s) \<Longrightarrow> uo_UserID g = u \<Longrightarrow> uo_RoleID g \<noteq> i" for g
    using u by (auto simp: users_with_role_def)
  have user_sys: "ro_IsSystem r" if "q \<in> set (pd_roles s)" "ro_ID q = i" "ro_Code q = ''USER''" for q
    using unique_role [OF ok r(1) that(1)] that r ok USER_is_builtin by (auto simp: tables_ok_def)
  have grants: "map core (roles_of_user t u) = map core (roles_of_user s u)"
  proof (rule roles_of_user_cong)
    fix g assume "g \<in> set (pd_user_roles s)" "uo_UserID g = u"
    then have "uo_RoleID g \<noteq> i" by (rule nogrant)
    then have "filter (\<lambda>r. ro_ID r = uo_RoleID g) (map (\<lambda>x. if ro_ID x = i then updated_role req x else x) xs) =
        filter (\<lambda>r. ro_ID r = uo_RoleID g) xs" for xs by (induction xs) auto
    then show "map core (filter (\<lambda>r. ro_ID r = uo_RoleID g) (pd_roles t)) = map core (filter (\<lambda>r. ro_ID r = uo_RoleID g) (pd_roles s))"
      unfolding fields using roles by (elim disjE) simp_all
  qed (simp add: fields)
  have fallback: "map core (filter (\<lambda>r. ro_Code r = ''USER'') (pd_roles t)) = map core (filter (\<lambda>r. ro_Code r = ''USER'') (pd_roles s))"
  proof -
    have "set xs \<subseteq> set (pd_roles s) \<Longrightarrow>
      map core (filter (\<lambda>r. ro_Code r = ''USER'') (map (\<lambda>x. if ro_ID x = i then updated_role req x else x) xs)) =
      map core (filter (\<lambda>r. ro_Code r = ''USER'') xs)" for xs
      using user_sys sys by (induction xs) (auto simp: updated_role_core)
    then show ?thesis unfolding fields using roles by (elim disjE) simp_all
  qed
  have codes: "filter (\<lambda>(q, p). q \<in> set (map ro_ID (effective_roles calm u s))) rps =
      filter (\<lambda>(q, p). q \<in> set (map ro_ID (effective_roles calm u s))) (pd_role_perms s)"
  proof (cases "i \<in> set (map ro_ID (effective_roles calm u s))")
    case True
    then have "\<exists>q \<in> set (pd_roles s). ro_ID q = i \<and> ro_Code q = ''USER''"
      using effective_role_ids [OF True] nogrant by blast
    then have "rps = pd_role_perms s" using user_sys sys by blast
    then show ?thesis by simp
  next
    case False
    note others = filter_role_perms [OF this, of "pd_role_perms s" ps]
    show ?thesis using rps others by (elim disjE) (simp_all only:)
  qed
  show ?thesis
    by (rule loadFromDB_cong) (use grants fallback codes in \<open>simp_all only: fields\<close>)
qed

lemma role_id_positive: "tables_ok s \<Longrightarrow> role_updated i req s t \<Longrightarrow> i \<noteq> 0"
  unfolding role_updated_def tables_ok_def by (metis less_numeral_extra(3))

lemma role_updated_tables: "role_updated i req s t \<Longrightarrow> users_with_role j t = users_with_role j s \<and> pd_cache t = pd_cache s"
  unfolding role_updated_def by (auto simp: users_with_role_def)

lemma role_Update_coherent:
  assumes "tables_ok s" "coherent s" "healthy env" "role_Update env i req s = (Inr (), t)"
  shows "coherent t"
proof -
  obtain s2 us where upd: "role_updated i req s s2" and t: "t = InvalidateProfiles us (InvalidateByRoleID env i s2)"
    using role_Update_effect [OF assms(4)] by auto
  have same: "same_tables s2 t" unfolding t by (rule same_tables_trans [of _ "InvalidateByRoleID env i s2"]) simp_all
  note tabs = role_updated_tables [OF upd]
  show ?thesis
  proof (rule coherent_step [OF assms(2)])
    fix u
    have cache: "pd_cache t u = (if u \<in> set (users_with_role i s) \<and> u \<noteq> 0 then None else pd_cache s u)"
      using healthy_drop_role [OF assms(3) role_id_positive [OF assms(1) upd], of s2 u] tabs by (simp add: t)
    show "pd_cache t u = None \<or> (pd_cache t u = pd_cache s u \<and> (u \<noteq> 0 \<longrightarrow> loadFromDB calm u t = loadFromDB calm u s))"
      using cache role_updated_view [OF assms(1) upd, of u] same_tables_load [OF same, of calm u] by auto
  qed
qed

lemma role_Update_ok:
  assumes "tables_ok s" "role_Update env i req s = (r, t)"
  shows "tables_ok t"
  using role_Update_effect [OF assms(2)]
proof (elim disjE exE conjE)
  fix s2 us assume "role_updated i req s s2" "t = InvalidateProfiles us (InvalidateByRoleID env i s2)"
  then show ?thesis using role_updated_ok [OF assms(1)] same_tables_ok same_tables_steps(4,5) by metis
qed (use assms role_updated_ok in auto)


text \<open>Delete: the role, its grants and its permissions are gone.\<close>

definition role_removed :: "nat \<Rightarrow> perm_state \<Rightarrow> perm_state" where
  "role_removed i s = s\<lparr>pd_user_roles := filter (\<lambda>ur. uo_RoleID ur \<noteq> i) (pd_user_roles s),
     pd_role_perms := filter (\<lambda>(r, p). r \<noteq> i) (pd_role_perms s), pd_roles := filter (\<lambda>x. ro_ID x \<noteq> i) (pd_roles s)\<rparr>"

lemma role_Delete_effect:
  assumes "role_Delete env i s = (r, t)"
  shows "t = s \<and> isl r \<or> (\<exists>q us. q \<in> set (pd_roles s) \<and> ro_ID q = i \<and> \<not> ro_IsSystem q \<and> r = Inr () \<and>
     us = (if pn_fails env PluckUsers then [] else users_with_role i s) \<and>
     t = InvalidateProfiles us (if us \<noteq> [] then InvalidateUserPerms env us (role_removed i s) else role_removed i s))"
proof (cases "load_role env i s")
  case (Pair l s0)
  then show ?thesis using assms
  proof (cases l)
    case (Inl e)
    then show ?thesis using assms Pair load_role_Inl [of env i s e s0] by (auto simp: role_Delete_def andThen_def)
  next
    case (Inr q)
    then have q: "s0 = s" "q \<in> set (pd_roles s)" "ro_ID q = i" using Pair load_role_Inr by blast+
    define us where "us = (if pn_fails env PluckUsers then [] else users_with_role i s)"
    have "role_Delete env i s = (if ro_IsSystem q then (Inl SystemRole, s)
      else if pn_fails env DeleteRoleRows then (Inl (PermDown DeleteRoleRows), s)
      else (Inr (), InvalidateProfiles us (if us \<noteq> [] then InvalidateUserPerms env us (role_removed i s) else role_removed i s)))"
      using Pair Inr q(1) by (simp add: role_Delete_def andThen_def role_removed_def [symmetric] Let_def us_def)
    then have "t = s \<and> isl r \<or> \<not> ro_IsSystem q \<and> r = Inr () \<and>
       t = InvalidateProfiles us (if us \<noteq> [] then InvalidateUserPerms env us (role_removed i s) else role_removed i s)"
      using assms by (cases "ro_IsSystem q"; cases "pn_fails env DeleteRoleRows") auto
    then show ?thesis using q(2,3) us_def by metis
  qed
qed

lemma role_removed_ok: "tables_ok s \<Longrightarrow> tables_ok (role_removed i s)"
  by (auto simp: tables_ok_def role_removed_def distinct_map_filter)

lemma role_removed_view:
  assumes ok: "tables_ok s" and q: "q \<in> set (pd_roles s)" "ro_ID q = i" "\<not> ro_IsSystem q"
    and u: "u \<notin> set (users_with_role i s)"
  shows "loadFromDB calm u (role_removed i s) = loadFromDB calm u s"
proof -
  have nogrant: "g \<in> set (pd_user_roles s) \<Longrightarrow> uo_UserID g = u \<Longrightarrow> uo_RoleID g \<noteq> i" for g
    using u by (auto simp: users_with_role_def)
  have not_user: "x \<in> set (pd_roles s) \<Longrightarrow> ro_Code x = ''USER'' \<Longrightarrow> ro_ID x \<noteq> i" for x
  proof
    assume x: "x \<in> set (pd_roles s)" "ro_Code x = ''USER''" "ro_ID x = i"
    then have "x = q" using unique_role [OF ok q(1) x(1)] q(2) by simp
    moreover have "ro_IsSystem x" using ok x(1) USER_is_builtin [OF x(2)] by (simp add: tables_ok_def)
    ultimately show False using q(3) by simp
  qed
  have "filter (\<lambda>ur. uo_UserID ur = u) (filter (\<lambda>ur. uo_RoleID ur \<noteq> i) (pd_user_roles s)) =
      filter (\<lambda>ur. uo_UserID ur = u) (pd_user_roles s)"
    using nogrant by (auto simp: filter_filter intro!: filter_cong)
  moreover have "filter (\<lambda>r. ro_ID r = uo_RoleID g) (filter (\<lambda>x. ro_ID x \<noteq> i) (pd_roles s)) =
      filter (\<lambda>r. ro_ID r = uo_RoleID g) (pd_roles s)" if "g \<in> set (pd_user_roles s)" "uo_UserID g = u" for g
    using nogrant [OF that] by (auto simp: filter_filter intro!: filter_cong)
  ultimately have grants: "map core (roles_of_user (role_removed i s) u) = map core (roles_of_user s u)"
    by (intro roles_of_user_cong) (simp_all add: role_removed_def)
  have fallback: "filter (\<lambda>r. ro_Code r = ''USER'') (filter (\<lambda>x. ro_ID x \<noteq> i) (pd_roles s)) =
      filter (\<lambda>r. ro_Code r = ''USER'') (pd_roles s)"
    using not_user by (auto simp: filter_filter intro!: filter_cong)
  have "i \<notin> set (map ro_ID (effective_roles calm u s))"
    using effective_role_ids [of i u s] nogrant not_user by blast
  then have "filter (\<lambda>(r, p). r \<in> set (map ro_ID (effective_roles calm u s))) (filter (\<lambda>(r, p). r \<noteq> i) (pd_role_perms s)) =
      filter (\<lambda>(r, p). r \<in> set (map ro_ID (effective_roles calm u s))) (pd_role_perms s)"
    using filter_role_perms [of i _ "pd_role_perms s" "[]"] by simp
  with grants fallback show ?thesis
    by (intro loadFromDB_cong) (simp_all add: role_removed_def)
qed

lemma role_Delete_coherent:
  assumes "tables_ok s" "coherent s" "healthy env" "role_Delete env i s = (r, t)"
  shows "coherent t"
  using role_Delete_effect [OF assms(4)]
proof (elim disjE exE conjE)
  fix q us
  assume q: "q \<in> set (pd_roles s)" "ro_ID q = i" "\<not> ro_IsSystem q"
    and us: "us = (if pn_fails env PluckUsers then [] else users_with_role i s)"
    and t: "t = InvalidateProfiles us (if us \<noteq> [] then InvalidateUserPerms env us (role_removed i s) else role_removed i s)"
  have us: "us = users_with_role i s" using us assms(3) by (simp add: healthy_def)
  have same: "same_tables (role_removed i s) t"
    unfolding t by (rule same_tables_trans [of _ "if us \<noteq> [] then InvalidateUserPerms env us (role_removed i s) else role_removed i s"]) simp_all
  show ?thesis
  proof (rule coherent_step [OF assms(2)])
    fix u
    have cache: "pd_cache t u = (if u \<in> set us \<and> u \<noteq> 0 then None else pd_cache s u)"
      using healthy_drop [OF assms(3)] by (simp add: t) (simp add: role_removed_def)
    show "pd_cache t u = None \<or> (pd_cache t u = pd_cache s u \<and> (u \<noteq> 0 \<longrightarrow> loadFromDB calm u t = loadFromDB calm u s))"
      using cache role_removed_view [OF assms(1) q, of u] same_tables_load [OF same, of calm u] us by auto
  qed
qed (use assms(2) in simp)

lemma role_Delete_ok:
  assumes "tables_ok s" "role_Delete env i s = (r, t)"
  shows "tables_ok t"
  using role_Delete_effect [OF assms(2)]
proof (elim disjE exE conjE)
  fix us
  assume t: "t = InvalidateProfiles us (if us \<noteq> [] then InvalidateUserPerms env us (role_removed i s) else role_removed i s)"
  have "same_tables (role_removed i s) t"
    unfolding t by (rule same_tables_trans [of _ "if us \<noteq> [] then InvalidateUserPerms env us (role_removed i s) else role_removed i s"]) simp_all
  then show ?thesis using role_removed_ok [OF assms(1)] same_tables_ok by blast
qed (use assms(1) in simp)


text \<open>Assign and revoke: the grants of one user.\<close>

definition granted :: "UserRole list \<Rightarrow> perm_state \<Rightarrow> perm_state" where
  "granted gs s = s\<lparr>pd_user_roles := gs\<rparr>"

lemma granted_view:
  assumes "filter (\<lambda>g. uo_UserID g = u) gs = filter (\<lambda>g. uo_UserID g = u) (pd_user_roles s)"
  shows "loadFromDB calm u (granted gs s) = loadFromDB calm u s"
  by (rule loadFromDB_cong) (use assms in \<open>simp_all add: granted_def roles_of_user_def\<close>)

lemma granted_coherent:
  assumes "coherent s" "healthy env"
    "\<And>v. v \<noteq> u \<Longrightarrow> filter (\<lambda>g. uo_UserID g = v) gs = filter (\<lambda>g. uo_UserID g = v) (pd_user_roles s)"
  shows "coherent (InvalidateProfiles us (InvalidateUserPerms env [u] (granted gs s)))"
proof (rule coherent_step [OF assms(1)])
  fix v
  let ?t = "InvalidateProfiles us (InvalidateUserPerms env [u] (granted gs s))"
  have same: "same_tables (granted gs s) ?t"
    by (rule same_tables_trans [of _ "InvalidateUserPerms env [u] (granted gs s)"]) simp_all
  show "pd_cache ?t v = None \<or> (pd_cache ?t v = pd_cache s v \<and> (v \<noteq> 0 \<longrightarrow> loadFromDB calm v ?t = loadFromDB calm v s))"
    using granted_view [OF assms(3), of v] same_tables_load [OF same, of calm v] healthy_drop [OF assms(2), of "[u]" "granted gs s" v]
    by (auto simp: granted_def)
qed

lemma AssignUserRole_effect:
  assumes "AssignUserRole env u i g s = (r, t)"
  shows "t = s \<or> (\<exists>gs. i \<in> ro_ID ` set (pd_roles s) \<and>
     (gs = pd_user_roles s \<or> ((u, i) \<notin> (\<lambda>g. (uo_UserID g, uo_RoleID g)) ` set (pd_user_roles s) \<and>
        gs = pd_user_roles s @ [\<lparr>uo_UserID = u, uo_RoleID = i, uo_GrantedBy = g\<rparr>])) \<and>
     t = InvalidateProfiles [u] (InvalidateUserPerms env [u] (granted gs s)))"
proof -
  define gs where "gs = (if \<exists>ur \<in> set (pd_user_roles s). uo_UserID ur = u \<and> uo_RoleID ur = i then pd_user_roles s
     else pd_user_roles s @ [\<lparr>uo_UserID = u, uo_RoleID = i, uo_GrantedBy = g\<rparr>])"
  have "(if \<exists>ur \<in> set (pd_user_roles s). uo_UserID ur = u \<and> uo_RoleID ur = i then s
     else s\<lparr>pd_user_roles := pd_user_roles s @ [\<lparr>uo_UserID = u, uo_RoleID = i, uo_GrantedBy = g\<rparr>]\<rparr>) = granted gs s"
    by (simp add: granted_def gs_def)
  then have "t = s \<or> i \<in> ro_ID ` set (pd_roles s) \<and> t = InvalidateProfiles [u] (InvalidateUserPerms env [u] (granted gs s))"
    using assms unfolding AssignUserRole_def Let_def by (simp only: split: if_splits) auto
  moreover have "gs = pd_user_roles s \<or> ((u, i) \<notin> (\<lambda>g. (uo_UserID g, uo_RoleID g)) ` set (pd_user_roles s) \<and>
        gs = pd_user_roles s @ [\<lparr>uo_UserID = u, uo_RoleID = i, uo_GrantedBy = g\<rparr>])"
    by (auto simp: gs_def)
  ultimately show ?thesis by blast
qed

lemma RevokeUserRole_effect:
  assumes "RevokeUserRole env u i s = (r, t)"
  shows "t = s \<or> (\<exists>q. q \<in> set (pd_roles s) \<and> ro_ID q = i \<and>
     (ro_Code q = ''SUPER_ADMIN'' \<longrightarrow> length (users_with_role i s) > 1) \<and>
     t = InvalidateProfiles [u] (InvalidateUserPerms env [u]
       (granted (filter (\<lambda>ur. \<not> (uo_UserID ur = u \<and> uo_RoleID ur = i)) (pd_user_roles s)) s)))"
proof -
  obtain c s1 where c: "revoke_check env u i s = (c, s1)" by fastforce
  have check: "s1 = s \<and> (c = Inr () \<longrightarrow> (\<exists>q. q \<in> set (pd_roles s) \<and> ro_ID q = i \<and>
     (ro_Code q = ''SUPER_ADMIN'' \<longrightarrow> length (users_with_role i s) > 1)))"
  proof (cases "load_role env i s")
    case (Pair l s0)
    show ?thesis
    proof (cases l)
      case (Inl e)
      then show ?thesis using c Pair load_role_Inl [of env i s e s0] by (auto simp: revoke_check_def split: if_splits)
    next
      case (Inr q)
      then have q: "s0 = s" "q \<in> set (pd_roles s)" "ro_ID q = i" using Pair load_role_Inr by blast+
      then show ?thesis using c Pair Inr by (auto simp: revoke_check_def split: if_splits)
    qed
  qed
  show ?thesis
  proof (cases c)
    case (Inr x)
    then show ?thesis using assms c check
      by (cases "pn_fails env DeleteGrant") (auto simp: RevokeUserRole_def andThen_def revoke_write_def granted_def)
  qed (use assms c check in \<open>simp add: RevokeUserRole_def andThen_def\<close>)
qed

lemma granted_ok:
  assumes "tables_ok s" "\<forall>g \<in> set gs. uo_RoleID g \<in> ro_ID ` set (pd_roles s)"
    "distinct (map (\<lambda>g. (uo_UserID g, uo_RoleID g)) gs)"
  shows "tables_ok (InvalidateProfiles us (InvalidateUserPerms env [u] (granted gs s)))"
proof -
  have "tables_ok (granted gs s)" using assms by (simp add: tables_ok_def granted_def)
  then show ?thesis using same_tables_ok same_tables_steps(3,5) by metis
qed

lemma tables_ok_grants:
  "tables_ok s \<Longrightarrow> (\<forall>g \<in> set (pd_user_roles s). uo_RoleID g \<in> ro_ID ` set (pd_roles s)) \<and>
     distinct (map (\<lambda>g. (uo_UserID g, uo_RoleID g)) (pd_user_roles s))"
  by (simp add: tables_ok_def)

lemma AssignUserRole_ok:
  assumes "tables_ok s" "AssignUserRole env u i g s = (r, t)"
  shows "tables_ok t"
  using AssignUserRole_effect [OF assms(2)] assms(1) tables_ok_grants [OF assms(1)]
  by (elim disjE exE conjE) (auto intro!: granted_ok)

lemma RevokeUserRole_ok:
  assumes "tables_ok s" "RevokeUserRole env u i s = (r, t)"
  shows "tables_ok t"
  using RevokeUserRole_effect [OF assms(2)] assms(1) tables_ok_grants [OF assms(1)]
  by (elim disjE exE conjE) (auto simp: distinct_map_filter intro!: granted_ok)

lemma AssignUserRole_coherent:
  assumes "coherent s" "healthy env" "AssignUserRole env u i g s = (r, t)"
  shows "coherent t"
  using AssignUserRole_effect [OF assms(3)]
  by (elim disjE exE conjE) (auto simp: assms(1) intro!: granted_coherent [OF assms(1,2)])

lemma RevokeUserRole_coherent:
  assumes "coherent s" "healthy env" "RevokeUserRole env u i s = (r, t)"
  shows "coherent t"
proof -
  have others: "v \<noteq> u \<Longrightarrow> filter (\<lambda>g. uo_UserID g = v) (filter (\<lambda>ur. \<not> (uo_UserID ur = u \<and> uo_RoleID ur = i)) gs) =
      filter (\<lambda>g. uo_UserID g = v) gs" for v gs
    by (induction gs) auto
  show ?thesis
    using RevokeUserRole_effect [OF assms(3)] granted_coherent [OF assms(1,2), OF others] assms(1)
    by (elim disjE exE conjE) simp_all
qed


section \<open>Runs\<close>

lemma role_Clone_cases:
  assumes "role_Clone env i c n s = (r, t)"
  shows "t = s \<or> (\<exists>req. role_Create env req s = (r, t))"
proof (cases "load_role env i s")
  case (Pair l s0)
  show ?thesis
  proof (cases l)
    case (Inl e)
    then show ?thesis using assms Pair load_role_Inl [of env i s e s0] by (auto simp: role_Clone_def andThen_def)
  next
    case (Inr q)
    then have "s0 = s" using Pair load_role_Inr by blast
    then show ?thesis using assms Pair Inr by (auto simp: role_Clone_def andThen_def)
  qed
qed

lemma role_Clone_state:
  "snd (role_Clone env i c n s) = s \<or> (\<exists>req. snd (role_Clone env i c n s) = snd (role_Create env req s))"
  using role_Clone_cases [OF prod.collapse [symmetric], of env i c n s] by (metis snd_conv)

lemma perm_exec_ok:
  assumes "tables_ok s"
  shows "tables_ok (snd (perm_exec env op s))"
proof (cases op)
  case (DoResolve u)
  then show ?thesis using same_tables_ok [OF Resolve_same_tables] assms by simp
next
  case (DoCreate req)
  then show ?thesis using role_Create_ok [OF assms prod.collapse [symmetric]] by simp
next
  case (DoClone i c n)
  then show ?thesis
    using role_Clone_state [of env i c n s] role_Create_ok [OF assms prod.collapse [symmetric]] assms by auto
next
  case (DoUpdate i req)
  then show ?thesis using role_Update_ok [OF assms prod.collapse [symmetric]] by simp
next
  case (DoDelete i)
  then show ?thesis using role_Delete_ok [OF assms prod.collapse [symmetric]] by simp
next
  case (DoAssign u i g)
  then show ?thesis using AssignUserRole_ok [OF assms prod.collapse [symmetric]] by simp
next
  case (DoRevoke u i)
  then show ?thesis using RevokeUserRole_ok [OF assms prod.collapse [symmetric]] by simp
qed

lemma perm_exec_coherent:
  assumes "tables_ok s" "coherent s" "healthy env" "\<And>i req. op = DoUpdate i req \<Longrightarrow> fst (perm_exec env op s)"
  shows "coherent (snd (perm_exec env op s))"
proof (cases op)
  case (DoResolve u)
  then show ?thesis using Resolve_coherent assms by simp
next
  case (DoCreate req)
  then show ?thesis using role_Create_coherent [OF assms(1,2) prod.collapse [symmetric]] by simp
next
  case (DoClone i c n)
  then show ?thesis
    using role_Clone_state [of env i c n s] role_Create_coherent [OF assms(1,2) prod.collapse [symmetric]] assms(2) by auto
next
  case (DoUpdate i req)
  then obtain t where "role_Update env i req s = (Inr (), t)"
    using assms(4) by (cases "role_Update env i req s"; cases "fst (role_Update env i req s)") auto
  then show ?thesis using role_Update_coherent [OF assms(1-3)] DoUpdate by simp
next
  case (DoDelete i)
  then show ?thesis using role_Delete_coherent [OF assms(1-3) prod.collapse [symmetric]] by simp
next
  case (DoAssign u i g)
  then show ?thesis using AssignUserRole_coherent [OF assms(2,3) prod.collapse [symmetric]] by simp
next
  case (DoRevoke u i)
  then show ?thesis using RevokeUserRole_coherent [OF assms(2,3) prod.collapse [symmetric]] by simp
qed

text \<open>No fault, and no update that gives up half way.\<close>

fun clean_run :: "(perm_env \<times> perm_op) list \<Rightarrow> perm_state \<Rightarrow> bool" where
  "clean_run [] s = True"
| "clean_run ((env, op) # ops) s =
     (healthy env \<and> (case op of DoUpdate _ _ \<Rightarrow> fst (perm_exec env op s) | _ \<Rightarrow> True) \<and>
      clean_run ops (snd (perm_exec env op s)))"

lemma clean_run_coherent:
  "tables_ok s \<Longrightarrow> coherent s \<Longrightarrow> clean_run ops s \<Longrightarrow> coherent (perm_run ops s)"
proof (induction ops s rule: perm_run.induct)
  case (2 env op ops s)
  have "coherent (snd (perm_exec env op s))"
    by (rule perm_exec_coherent [OF 2(2,3)]) (use 2(4) in auto)
  then show ?case using 2 perm_exec_ok by simp
qed simp

text \<open>C32: The cache cannot be seen: a resolved subject is the one the tables give.\<close>

theorem resolve_never_stale:
  assumes "tables_ok s" "coherent s" "clean_run ops s" "healthy env" "u \<noteq> 0"
  shows "fst (resolver_Resolve env u (perm_run ops s)) = loadFromDB env u (perm_run ops s)"
  using Resolve_fresh [OF assms(4) clean_run_coherent [OF assms(1-3)] assms(5)] assms(4) by (simp add: healthy_load)

section \<open>The last SUPER_ADMIN\<close>

definition has_super_admin :: "nat \<Rightarrow> perm_state \<Rightarrow> bool" where
  "has_super_admin i s = ((\<exists>r \<in> set (pd_roles s). ro_ID r = i \<and> ro_Code r = ''SUPER_ADMIN'') \<and> users_with_role i s \<noteq> [])"

lemma has_super_admin_same: "same_tables s t \<Longrightarrow> has_super_admin i t = has_super_admin i s"
  by (simp add: same_tables_def has_super_admin_def users_with_role_def)

lemma has_super_admin_granted:
  "has_super_admin i s \<Longrightarrow> filter (\<lambda>g. uo_RoleID g = i) gs \<noteq> [] \<Longrightarrow>
   has_super_admin i (InvalidateProfiles us (InvalidateUserPerms env [u] (granted gs s)))"
proof -
  assume a: "has_super_admin i s" "filter (\<lambda>g. uo_RoleID g = i) gs \<noteq> []"
  then have "has_super_admin i (granted gs s)" by (simp add: has_super_admin_def granted_def users_with_role_def)
  then show ?thesis using has_super_admin_same same_tables_steps(3,5) by metis
qed

lemma another_grant_remains:
  assumes "distinct (map (\<lambda>g. (uo_UserID g, uo_RoleID g)) gs)" "length (filter (\<lambda>g. uo_RoleID g = i) gs) > 1"
  shows "filter (\<lambda>g. uo_RoleID g = i) (filter (\<lambda>g. \<not> (uo_UserID g = u \<and> uo_RoleID g = i)) gs) \<noteq> []"
proof -
  let ?hs = "filter (\<lambda>g. uo_RoleID g = i) gs"
  have d: "distinct (map (\<lambda>g. (uo_UserID g, uo_RoleID g)) ?hs)" using assms(1) by (rule distinct_map_filter)
  obtain a b rest where hs: "?hs = a # b # rest"
    using assms(2) by (cases ?hs; cases "tl ?hs") auto
  have roles: "uo_RoleID a = i" "uo_RoleID b = i" "a \<in> set gs" "b \<in> set gs"
    using arg_cong [OF hs, of set] by auto
  then have "uo_UserID a \<noteq> uo_UserID b" using d unfolding hs by auto
  then have "uo_UserID a \<noteq> u \<or> uo_UserID b \<noteq> u" by (cases "uo_UserID a = u") auto
  then show ?thesis using roles by (auto simp: filter_empty_conv)
qed

lemma role_Create_super_admin: "has_super_admin i s \<Longrightarrow> has_super_admin i (snd (role_Create env req s))"
  using role_Create_effect [OF prod.collapse [symmetric], of env req s]
  by (elim disjE exE conjE) (simp_all add: has_super_admin_def users_with_role_def)

lemma perm_exec_super_admin:
  assumes ok: "tables_ok s" and super: "has_super_admin i s"
  shows "has_super_admin i (snd (perm_exec env op s))"
proof (cases op)
  case (DoResolve u)
  then show ?thesis using has_super_admin_same [OF Resolve_same_tables] super by simp
next
  case (DoCreate req)
  then show ?thesis
    using role_Create_super_admin [OF super] by simp
next
  case (DoClone j c n)
  then show ?thesis
    using role_Clone_state [of env j c n s] role_Create_super_admin [OF super] super by auto
next
  case (DoUpdate j req)
  have upd: "has_super_admin i s2" if "role_updated j req s s2" for s2
  proof -
    obtain r where r: "r \<in> set (pd_roles s)" "ro_ID r = i" "ro_Code r = ''SUPER_ADMIN''"
      using super by (auto simp: has_super_admin_def)
    have "(if ro_ID r = j then updated_role req r else r) \<in> set (map (\<lambda>x. if ro_ID x = j then updated_role req x else x) (pd_roles s))"
      using r(1) by force
    moreover have "ro_ID (if ro_ID r = j then updated_role req r else r) = i" "ro_Code (if ro_ID r = j then updated_role req r else r) = ''SUPER_ADMIN''"
      using r by simp_all
    ultimately have "\<exists>x \<in> set (pd_roles s2). ro_ID x = i \<and> ro_Code x = ''SUPER_ADMIN''"
      using that r unfolding role_updated_def by (elim bexE exE conjE disjE) (simp, blast)+
    then show ?thesis using role_updated_tables [OF that] super by (simp add: has_super_admin_def)
  qed
  show ?thesis
    using role_Update_effect [OF prod.collapse [symmetric], of env j req s] upd super DoUpdate
      has_super_admin_same [OF same_tables_steps(5)] has_super_admin_same [OF same_tables_steps(4)]
    by auto
next
  case (DoDelete j)
  have del: "has_super_admin i (role_removed j s)" if "q \<in> set (pd_roles s)" "ro_ID q = j" "\<not> ro_IsSystem q" for q
  proof -
    obtain r where r: "r \<in> set (pd_roles s)" "ro_ID r = i" "ro_Code r = ''SUPER_ADMIN''"
      using super by (auto simp: has_super_admin_def)
    have "ro_IsSystem r" using ok r by (simp add: tables_ok_def IsBuiltinRoleCode_iff)
    then have ij: "i \<noteq> j" using unique_role [OF ok that(1) r(1)] r that by auto
    have "filter (\<lambda>g. uo_RoleID g = i) (filter (\<lambda>g. uo_RoleID g \<noteq> j) gs) = filter (\<lambda>g. uo_RoleID g = i) gs" for gs :: "UserRole list"
      using ij by (induction gs) auto
    then have "users_with_role i (role_removed j s) = users_with_role i s"
      by (simp add: users_with_role_def role_removed_def del: filter_filter)
    then show ?thesis using r ij super by (auto simp: has_super_admin_def role_removed_def)
  qed
  show ?thesis
    using role_Delete_effect [OF prod.collapse [symmetric], of env j s] del super DoDelete
      has_super_admin_same [OF same_tables_steps(5)] has_super_admin_same [OF same_tables_steps(3)]
    by (auto split: if_splits)
next
  case (DoAssign u j g)
  show ?thesis
    using AssignUserRole_effect [OF prod.collapse [symmetric], of env u j g s] super DoAssign
      has_super_admin_granted [OF super, of "pd_user_roles s"]
      has_super_admin_granted [OF super, of "pd_user_roles s @ [\<lparr>uo_UserID = u, uo_RoleID = j, uo_GrantedBy = g\<rparr>]"]
      has_super_admin_def users_with_role_def
    by (elim disjE exE conjE) simp_all
next
  case (DoRevoke u j)
  obtain r where r: "r \<in> set (pd_roles s)" "ro_ID r = i" "ro_Code r = ''SUPER_ADMIN''"
    using super by (auto simp: has_super_admin_def)
  have rev: "filter (\<lambda>g. uo_RoleID g = i) (filter (\<lambda>g. \<not> (uo_UserID g = u \<and> uo_RoleID g = j)) (pd_user_roles s)) \<noteq> []"
    if q: "q \<in> set (pd_roles s)" "ro_ID q = j" "ro_Code q = ''SUPER_ADMIN'' \<longrightarrow> length (users_with_role j s) > 1" for q
  proof (cases "i = j")
    case True
    then have "q = r" using unique_role [OF ok r(1) q(1)] q r by simp
    then have "length (filter (\<lambda>g. uo_RoleID g = i) (pd_user_roles s)) > 1" using q r True by (simp add: users_with_role_def)
    then show ?thesis using another_grant_remains tables_ok_grants [OF ok] True by blast
  next
    case False
    have "filter (\<lambda>g. uo_RoleID g = i) (filter (\<lambda>g. \<not> (uo_UserID g = u \<and> uo_RoleID g = j)) gs) = filter (\<lambda>g. uo_RoleID g = i) gs" for gs :: "UserRole list"
      using False by (induction gs) auto
    then show ?thesis using super by (simp add: has_super_admin_def users_with_role_def)
  qed
  show ?thesis
    using RevokeUserRole_effect [OF prod.collapse [symmetric], of env u j s] super DoRevoke has_super_admin_granted [OF super rev]
    by (elim disjE exE conjE) simp_all
qed

text \<open>C33: Whatever operations on roles and grants come one after another, with whatever failures, somebody
  keeps the role SUPER_ADMIN.\<close>

theorem super_admin_survives:
  assumes "tables_ok s" "r \<in> set (pd_roles s)" "ro_Code r = ''SUPER_ADMIN''" "users_with_role (ro_ID r) s \<noteq> []"
  shows "users_with_role (ro_ID r) (perm_run ops s) \<noteq> []"
proof -
  have "tables_ok s \<Longrightarrow> has_super_admin i s \<Longrightarrow> has_super_admin i (perm_run ops s)" for i
    by (induction ops s rule: perm_run.induct) (simp_all add: perm_exec_ok perm_exec_super_admin)
  moreover have "has_super_admin (ro_ID r) s" using assms by (auto simp: has_super_admin_def)
  ultimately show ?thesis using assms(1) by (simp add: has_super_admin_def)
qed


section \<open>The gate\<close>

lemma IsSuperAdmin_subject:
  "IsSuperAdmin (subject_of m rs cs) \<longleftrightarrow> (\<exists>r \<in> set rs. ro_Code r = ''SUPER_ADMIN'' \<or> ro_Code r = ''ADMIN'')"
proof -
  have "(c = ''SUPER_ADMIN'' \<or> LegacyRoleMapping c = Some ''SUPER_ADMIN'') \<longleftrightarrow> (c = ''SUPER_ADMIN'' \<or> c = ''ADMIN'')" for c
    by (simp add: LegacyRoleMapping_def)
  then show ?thesis by (simp add: IsSuperAdmin_def subject_of_def list_ex_iff)
qed

lemma code_granted:
  "a \<in> set (codes_of_roles s ids) \<longleftrightarrow> (\<exists>i \<in> set ids. \<exists>p \<in> set (pd_perms s). pn_Code p = a \<and> (i, pn_ID p) \<in> set (pd_role_perms s))"
  by (force simp: codes_of_roles_alt)

lemma loadFromDB_member:
  assumes "\<exists>m \<in> set (pd_users s). mb_ID m = u"
  shows "\<exists>m. loadFromDB calm u s = Inr (subject_of m (effective_roles calm u s) (codes_of_roles s (map ro_ID (effective_roles calm u s))))"
proof (cases "find_idx (\<lambda>m. mb_ID m = u) (pd_users s)")
  case None
  then show ?thesis using assms by auto
next
  case (Some m)
  have "codes_of_roles s [] = []" by (simp add: codes_of_roles_alt)
  then show ?thesis using Some by (cases m) (simp add: loadFromDB_def Let_def, metis)
qed

text \<open>C34: From tables in order and a cache that agrees with them, after any run of role operations and lookups
  in which no call of the database or Redis fails, and with the store answering the request: a request of a
  known user passes exactly when its route is mapped and he has a root role or a role that is granted the
  action of the route in the tables. (A root role too passes only mapped routes.)\<close>

theorem gate_follows_the_tables:
  assumes "tables_ok s" "coherent s" "clean_run ops s" "healthy env" "u \<noteq> 0"
    "\<exists>m \<in> set (pd_users (perm_run ops s)). mb_ID m = u"
  shows "PermissionGate meth path (fst (LoadSubjectPerms env (authenticated u tenant) (perm_run ops s))) \<longleftrightarrow>
    (\<exists>m. Lookup meth path = Some m \<and>
      (\<exists>r \<in> set (effective_roles env u (perm_run ops s)).
         ro_Code r = ''SUPER_ADMIN'' \<or> ro_Code r = ''ADMIN'' \<or>
         (\<exists>p \<in> set (pd_perms (perm_run ops s)). pn_Code p = rm_Action m \<and>
            (ro_ID r, pn_ID p) \<in> set (pd_role_perms (perm_run ops s)))))"
proof -
  define t where "t = perm_run ops s"
  have fresh: "fst (resolver_Resolve env u t) = loadFromDB calm u t"
    unfolding t_def by (rule Resolve_fresh [OF assms(4) clean_run_coherent [OF assms(1-3)] assms(5)])
  have roles: "effective_roles env u t = effective_roles calm u t"
    using assms(4) by (cases "roles_of_user t u") (simp_all add: effective_roles_def healthy_def)
  obtain m where m: "loadFromDB calm u t = Inr (subject_of m (effective_roles calm u t) (codes_of_roles t (map ro_ID (effective_roles calm u t))))"
    using loadFromDB_member assms(6) unfolding t_def by blast
  have loaded: "rx_perms (fst (LoadSubjectPerms env (authenticated u tenant) t)) =
      Some (subject_of m (effective_roles calm u t) (codes_of_roles t (map ro_ID (effective_roles calm u t))))"
    using fresh m assms(5) by (cases "resolver_Resolve env u t") (simp add: LoadSubjectPerms_def authenticated_def)
  have codes: "sj_Codes (subject_of m rs cs) = sort cs" for rs cs by (simp add: subject_of_def)
  show ?thesis
    unfolding t_def [symmetric] PermissionGate_def loaded roles
    by (auto simp: Has_def IsSuperAdmin_subject codes code_granted split: option.split)
qed

section \<open>Examples\<close>

definition demo_perms :: perm_state where
  "demo_perms = \<lparr>pd_users = [\<lparr>mb_ID = 3, mb_TenantID = 2, mb_Email = ''u''\<rparr>],
     pd_roles = [\<lparr>ro_ID = 1, ro_Code = ''SUPER_ADMIN'', ro_Name = '''', ro_Description = '''', ro_IsSystem = True,
        ro_DataScope = Column (scope_of ''all'' [])\<rparr>, own_only_role, tenant_seven_role],
     pd_perms = [\<lparr>pn_ID = 1, pn_Code = ''role_list_read'', pn_Menu = ''quanxian guanli'', pn_Resource = ''role'',
        pn_HTTPMethod = ''GET'', pn_HTTPPath = ''/api/v1/admin/roles'', pn_IsRead = True\<rparr>],
     pd_user_roles = [\<lparr>uo_UserID = 3, uo_RoleID = 9, uo_GrantedBy = 1\<rparr>, \<lparr>uo_UserID = 1, uo_RoleID = 1, uo_GrantedBy = 1\<rparr>,
        \<lparr>uo_UserID = 2, uo_RoleID = 1, uo_GrantedBy = 1\<rparr>],
     pd_role_perms = [(9, 1)], pd_keys = [], pd_cache = (\<lambda>_. None), pd_profiles = []\<rparr>"

lemma demo_perms_ok: "tables_ok demo_perms" "coherent demo_perms"
  by (simp_all add: demo_perms_def tables_ok_def coherent_def own_only_role_def tenant_seven_role_def
    IsBuiltinRoleCode_iff)

lemma healthy_calm [simp]: "healthy calm"
  by (simp add: healthy_def calm_def)

lemma resolve_never_stale_witness:
  "fst (resolver_Resolve calm 3 (perm_run [(calm, DoResolve 3), (calm, DoAssign 3 6 1)] demo_perms)) =
   loadFromDB calm 3 (perm_run [(calm, DoResolve 3), (calm, DoAssign 3 6 1)] demo_perms)"
  by (rule resolve_never_stale) (simp_all add: demo_perms_ok)

lemma super_admin_survives_witness:
  "users_with_role 1 (perm_run [(calm, DoRevoke 1 1), (calm, DoRevoke 2 1), (calm, DoDelete 1)] demo_perms) \<noteq> []"
  using super_admin_survives [OF demo_perms_ok(1), of "hd (pd_roles demo_perms)"
      "[(calm, DoRevoke 1 1), (calm, DoRevoke 2 1), (calm, DoDelete 1)]"]
  by (simp add: demo_perms_def users_with_role_def)

lemma gate_follows_the_tables_witness:
  "PermissionGate ''GET'' ''/api/v1/admin/roles''
     (fst (LoadSubjectPerms calm (authenticated 3 2) (perm_run [(calm, DoResolve 3)] demo_perms))) \<longleftrightarrow>
   (\<exists>m. Lookup ''GET'' ''/api/v1/admin/roles'' = Some m \<and>
     (\<exists>r \<in> set (effective_roles calm 3 (perm_run [(calm, DoResolve 3)] demo_perms)).
        ro_Code r = ''SUPER_ADMIN'' \<or> ro_Code r = ''ADMIN'' \<or>
        (\<exists>p \<in> set (pd_perms (perm_run [(calm, DoResolve 3)] demo_perms)). pn_Code p = rm_Action m \<and>
           (ro_ID r, pn_ID p) \<in> set (pd_role_perms (perm_run [(calm, DoResolve 3)] demo_perms)))))"
proof (rule gate_follows_the_tables)
  have "same_tables demo_perms (snd (resolver_Resolve calm 3 demo_perms))" by (rule Resolve_same_tables)
  then show "\<exists>m \<in> set (pd_users (perm_run [(calm, DoResolve 3)] demo_perms)). mb_ID m = 3"
    by (simp add: same_tables_def) (simp add: demo_perms_def)
qed (simp_all add: demo_perms_ok)

text \<open>An update that changes the scope and names an unknown permission fails after the scope is
  written and before the cache is dropped: the user keeps the old scope until the entry expires.\<close>

definition scope_seen :: "(perm_error + SubjectPerms) \<Rightarrow> DataScopePolicy option" where
  "scope_seen r = (case r of Inl _ \<Rightarrow> None | Inr p \<Rightarrow> Some (sj_DataScope p))"

definition narrowing :: UpdateRoleRequest where
  "narrowing = \<lparr>uq_Name = None, uq_Description = None, uq_DataScope = Some (scope_of ''own_only'' []),
     uq_Permissions = Some [''typo'']\<rparr>"

lemma failed_update_leaves_stale_scope:
  "let s = snd (role_Update calm 9 narrowing (snd (resolver_Resolve calm 3 demo_perms)))
   in isl (fst (role_Update calm 9 narrowing (snd (resolver_Resolve calm 3 demo_perms)))) \<and>
      scope_seen (fst (resolver_Resolve calm 3 s)) = Some (scope_of ''custom_tenants'' [7]) \<and>
      scope_seen (loadFromDB calm 3 s) = Some (scope_of ''own_only'' [])"
  by code_simp

text \<open>A role whose permissions cannot be set is created all the same.\<close>

lemma failed_create_leaves_role:
  "let (r, s) = role_Create calm \<lparr>cr_Code = ''helper'', cr_Name = '''', cr_Description = '''',
      cr_DataScope = scope_of ''all'' [], cr_Permissions = [''typo'']\<rparr> demo_perms
   in r = Inl UnknownCodes \<and> ro_Code (last (pd_roles s)) = ''helper'' \<and> ro_DataScope (last (pd_roles s)) = Column (scope_of ''all'' [])"
  by code_simp

text \<open>Two administrators revoking each other at once both pass the check.\<close>

lemma concurrent_revokes_remove_last_admin:
  "fst (revoke_check calm 1 1 demo_perms) = Inr () \<and> fst (revoke_check calm 2 1 demo_perms) = Inr () \<and>
   users_with_role 1 (snd (revoke_write calm 2 1 (snd (revoke_write calm 1 1 demo_perms)))) = []"
  by code_simp

text \<open>\<open>TenantScope\<close> gives a user who may see only his own rows the rows of his whole tenant.\<close>

lemma tenant_scope_widens_own_only:
  "rx_tenantId c > 0 \<Longrightarrow> rx_ownOnly c \<Longrightarrow> \<not> rx_all c \<Longrightarrow> rx_visible c = None \<Longrightarrow>
   TenantScope c row \<longleftrightarrow> sw_TenantID row = rx_tenantId c"
  by (simp add: TenantScope_def)


text \<open>A custom role may be called ADMIN, which \<open>IsSuperAdmin\<close> takes for the root role: whoever may create
  and assign roles can make himself root.\<close>

lemma custom_ADMIN_role_is_root:
  "let (r, s) = role_Create calm \<lparr>cr_Code = ''ADMIN'', cr_Name = '''', cr_Description = '''',
         cr_DataScope = scope_of ''own_only'' [], cr_Permissions = []\<rparr> demo_perms;
       t = snd (AssignUserRole calm 3 (case r of Inr i \<Rightarrow> i | Inl _ \<Rightarrow> 0) 3 s)
   in (case fst (resolver_Resolve calm 3 t) of Inr p \<Rightarrow> IsSuperAdmin p | Inl _ \<Rightarrow> False)"
  by code_simp

end
