(* ===== verification/Role_Seed_Laws.thy ===== *)
theory Role_Seed_Laws
  imports Role_Seed Permission_Laws
begin

text \<open>
  What seeding guarantees: it keeps the tables consistent, writes nothing the second time, and never
  gives the auditor a permission of a route that writes, whatever the order of the route map and
  whatever the administrators do to the roles in between.
\<close>

section \<open>The route map\<close>

fun ends_in_read :: "string \<Rightarrow> bool" where
  "ends_in_read [] = False"
| "ends_in_read (c # cs) = (if c = CHR ''_'' \<and> cs = ''read'' then True else ends_in_read cs)"

definition read_action :: "string \<Rightarrow> bool" where
  "read_action a = (a \<noteq> ''partner_mark_read'' \<and> ends_in_read a)"

lemma read_routes: "list_all (\<lambda>(k, m). take 4 k = ''GET '' \<and> read_action (rm_Action m)) readRouteMap"
  by code_simp

lemma write_routes: "list_all (\<lambda>(k, m). \<not> read_action (rm_Action m) \<and> rm_Action m \<noteq> '''') routeMap"
  by code_simp

lemma Lookup_read:
  assumes "Lookup meth path = Some m" "read_action (rm_Action m)" "CHR '' '' \<notin> set meth"
  shows "meth = ''GET''"
proof -
  let ?k = "meth @ '' '' @ path"
  have "map_of routeMap ?k \<noteq> Some m"
    using write_routes assms(2) by (auto simp: list_all_iff dest: map_of_SomeD)
  then have "map_of readRouteMap ?k = Some m"
    using assms(1) by (auto simp: Lookup_def Let_def split: option.splits)
  then have "(?k, m) \<in> set readRouteMap" by (rule map_of_SomeD)
  then have get: "take 4 ?k = ''GET ''" using read_routes by (auto simp: list_all_iff)
  then obtain rest where k: "meth @ '' '' @ path = ''GET '' @ rest" by (metis append_take_drop_id)
  have "takeWhile (\<lambda>c. c \<noteq> CHR '' '') (meth @ '' '' @ path) = meth" using assms(3) by (induction meth) auto
  moreover have "takeWhile (\<lambda>c. c \<noteq> CHR '' '') (''GET '' @ rest) = ''GET''" by simp
  ultimately show ?thesis using k by simp
qed

lemma entry_actions:
  assumes "e \<in> set RouteMapEntries" "en_IsRead e"
  shows "read_action (rm_Action (en_Meta e))"
  using assms read_routes
  by (auto simp: RouteMapEntries_def entry_of_def list_all_iff split: prod.splits)


section \<open>What seeding writes\<close>

lemma find_idx_found: "find_idx P xs = Some (i, x) \<Longrightarrow> i < length xs \<and> xs ! i = x \<and> P x"
  by (rule find_idx_Some [THEN iffD1, THEN conjE]) auto

text \<open>Permissions: ids stay, codes stay, new rows get new ids; the map leads from each code to its row.\<close>

definition permissions_ok :: "perm_state \<Rightarrow> bool" where
  "permissions_ok s = (distinct (map pn_ID (pd_perms s)) \<and> snd ` set (pd_role_perms s) \<subseteq> pn_ID ` set (pd_perms s))"

definition codes_of_ids :: "perm_state \<Rightarrow> (nat \<times> string) set" where
  "codes_of_ids s = (\<lambda>p. (pn_ID p, pn_Code p)) ` set (pd_perms s)"

definition seeded_ok :: "Entry set \<Rightarrow> perm_state \<Rightarrow> (string \<times> seeded) list \<Rightarrow> bool" where
  "seeded_ok es s acc = (\<forall>(code, p) \<in> set acc. (sd_ID p, code) \<in> codes_of_ids s \<and>
     (\<exists>e \<in> es. rm_Action (en_Meta e) = code \<and> sd_Menu p = rm_Menu (en_Meta e) \<and> sd_IsRead p = en_IsRead e))"

definition only_perms :: "perm_state \<Rightarrow> perm_state \<Rightarrow> bool" where
  "only_perms s t = (\<exists>ps. t = s\<lparr>pd_perms := ps\<rparr>)"

lemma only_perms_same [simp]: "only_perms s s"
  unfolding only_perms_def by (rule exI [of _ "pd_perms s"]) simp

lemma fresh_permission_id_new: "fresh_permission_id s \<notin> pn_ID ` set (pd_perms s)"
proof -
  have "pn_ID p \<le> fold max (map pn_ID (pd_perms s)) 0" if "p \<in> set (pd_perms s)" for p
    using that by (intro fold_max_bound) simp
  then show ?thesis by (fastforce simp: fresh_permission_id_def)
qed

lemma filled_in_fields [simp]: "pn_ID (filled_in e p) = pn_ID p" "pn_Code (filled_in e p) = pn_Code p"
  by (simp_all add: filled_in_def)

lemma filled_in_rows:
  assumes "find_idx P ps = Some (i, p)"
  shows "map (\<lambda>p. (pn_ID p, pn_Code p)) (ps[i := filled_in e p]) = map (\<lambda>p. (pn_ID p, pn_Code p)) ps"
proof -
  have "i < length ps" "ps ! i = p" using find_idx_found [OF assms] by auto
  then show ?thesis by (intro nth_equalityI) (auto simp: nth_list_update)
qed

lemma seedPermissions_result:
  assumes "seedPermissions env es acc s = (r, t)" "permissions_ok s" "seeded_ok (E \<union> set es) s acc"
  shows "only_perms s t \<and> permissions_ok t \<and> codes_of_ids s \<subseteq> codes_of_ids t \<and>
    (\<forall>x c. (x, c) \<in> codes_of_ids t \<longrightarrow> x \<in> pn_ID ` set (pd_perms s) \<longrightarrow> (x, c) \<in> codes_of_ids s) \<and>
    (\<forall>perms. r = Inr perms \<longrightarrow> seeded_ok (E \<union> set es) t perms)"
  using assms
proof (induction env es acc s arbitrary: E rule: seedPermissions.induct)
  case (1 env acc s)
  then show ?case by auto
next
  case (2 env e es acc s)
  define code where "code = rm_Action (en_Meta e)"
  have E: "E \<union> set (e # es) = insert e E \<union> set es" by auto
  show ?case
  proof (cases "map_of acc code \<noteq> None")
    case True
    have run: "seedPermissions env es acc s = (r, t)" using 2(4) True by (simp add: code_def)
    show ?thesis
      using 2(1) [OF code_def True run 2(5), of "insert e E"] 2(6) unfolding E by blast
  next
    case new: False
    show ?thesis
    proof (cases "sv_fails env (UpsertPermission code)")
      case True
      then have "t = s" "r = Inl (UpsertPermission code)" using 2(4) new by (simp_all add: code_def)
      then show ?thesis using 2(5) by auto
    next
      case ok: False
      show ?thesis
      proof (cases "find_idx (\<lambda>p. pn_Code p = code) (pd_perms s)")
        case None
        define i where "i = fresh_permission_id s"
        define s1 where "s1 = s\<lparr>pd_perms := pd_perms s @ [permission_of i e]\<rparr>"
        have run: "seedPermissions env es (acc @ [(code, seeded_of i e)]) s1 = (r, t)"
          using 2(4) new ok None by (simp add: code_def i_def s1_def del: find_idx_None)
        have i: "i \<notin> pn_ID ` set (pd_perms s)" using fresh_permission_id_new by (simp add: i_def)
        have ids: "codes_of_ids s1 = insert (i, code) (codes_of_ids s)"
          by (simp add: s1_def codes_of_ids_def permission_of_def code_def)
        have ok1: "permissions_ok s1" using 2(5) i by (auto simp: permissions_ok_def s1_def permission_of_def)
        have acc1: "seeded_ok (insert e E \<union> set es) s1 (acc @ [(code, seeded_of i e)])"
          using 2(6) unfolding seeded_ok_def ids E by (auto simp: seeded_of_def code_def)
        note IH = 2(2) [OF code_def new ok None run [unfolded i_def s1_def] ok1 [unfolded i_def s1_def] acc1 [unfolded i_def s1_def]]
        have only: "only_perms s1 t \<Longrightarrow> only_perms s t" by (auto simp: only_perms_def s1_def)
        have idset: "pn_ID ` set (pd_perms s1) = insert i (pn_ID ` set (pd_perms s))"
          by (simp add: s1_def permission_of_def)
        show ?thesis
          using IH [folded i_def, folded s1_def] only i unfolding E ids idset by blast
      next
        case (Some ip)
        obtain i p where ip: "ip = (i, p)" by (cases ip)
        define s1 where "s1 = (if sv_fails env (UpdatePermission code) then s else s\<lparr>pd_perms := (pd_perms s)[i := filled_in e p]\<rparr>)"
        have run: "seedPermissions env es (acc @ [(code, seeded_of (pn_ID p) e)]) s1 = (r, t)"
          using 2(4) new ok Some ip by (simp add: code_def s1_def Let_def)
        have rows: "map (\<lambda>p. (pn_ID p, pn_Code p)) (pd_perms s1) = map (\<lambda>p. (pn_ID p, pn_Code p)) (pd_perms s)"
          using filled_in_rows [OF Some [unfolded ip]] by (simp add: s1_def)
        have ids: "codes_of_ids s1 = codes_of_ids s"
          unfolding codes_of_ids_def using arg_cong [OF rows, of set] by simp
        have idl: "map pn_ID (pd_perms s1) = map pn_ID (pd_perms s)"
          using arg_cong [OF rows, of "map fst"] by (simp add: o_def)
        then have idset: "pn_ID ` set (pd_perms s1) = pn_ID ` set (pd_perms s)" by (metis set_map)
        have ok1: "permissions_ok s1" using 2(5) unfolding permissions_ok_def idl idset by (simp add: s1_def)
        have p: "p \<in> set (pd_perms s)" "pn_Code p = code" using find_idx_found [OF Some [unfolded ip]] by auto
        then have pair: "(pn_ID p, code) \<in> codes_of_ids s" by (auto simp: codes_of_ids_def)
        have acc1: "seeded_ok (insert e E \<union> set es) s1 (acc @ [(code, seeded_of (pn_ID p) e)])"
          using 2(6) pair unfolding seeded_ok_def ids E by (auto simp: seeded_of_def code_def)
        have only: "only_perms s1 t \<Longrightarrow> only_perms s t" by (auto simp: only_perms_def s1_def split: if_splits)
        show ?thesis
          using 2(3) [OF code_def new ok Some ip [symmetric] run [unfolded s1_def] ok1 [unfolded s1_def] acc1 [unfolded s1_def], folded s1_def] only
          unfolding E ids idset by blast
      qed
    qed
  qed
qed


text \<open>Roles: every code leads to the row that carries it.\<close>

definition roles_found :: "perm_state \<Rightarrow> (string \<times> nat) list \<Rightarrow> bool" where
  "roles_found s acc = (\<forall>(code, i) \<in> set acc. \<exists>r \<in> set (pd_roles s). ro_ID r = i \<and> ro_Code r = code)"

definition only_roles :: "perm_state \<Rightarrow> perm_state \<Rightarrow> bool" where
  "only_roles s t = (\<exists>rs. t = s\<lparr>pd_roles := pd_roles s @ rs\<rparr>)"

lemma only_roles_same [simp]: "only_roles s s"
  unfolding only_roles_def by (rule exI [of _ "[]"]) simp

lemma only_roles_trans: "only_roles s t \<Longrightarrow> only_roles t u \<Longrightarrow> only_roles s u"
  by (auto simp: only_roles_def)

lemma seeded_role_ok:
  assumes "tables_ok s"
  shows "tables_ok (s\<lparr>pd_roles := pd_roles s @ [builtin_role_row (fresh_role_id s) br]\<rparr>)"
  using assms fresh_role_id_new [of s] by (auto simp: tables_ok_def builtin_role_row_def)

lemma seedRoles_result:
  assumes "seedRoles env brs acc s = (r, t)" "tables_ok s" "roles_found s acc"
  shows "only_roles s t \<and> tables_ok t \<and> (\<forall>roles. r = Inr roles \<longrightarrow> roles_found t roles)"
  using assms
proof (induction env brs acc s rule: seedRoles.induct)
  case (2 env br brs acc s)
  show ?case
  proof (cases "sv_fails env (UpsertRole (bi_Code br))")
    case True
    then show ?thesis using 2 by auto
  next
    case ok: False
    show ?thesis
    proof (cases "find_idx (\<lambda>r. ro_Code r = bi_Code br) (pd_roles s)")
      case None
      define s1 where "s1 = s\<lparr>pd_roles := pd_roles s @ [builtin_role_row (fresh_role_id s) br]\<rparr>"
      have run: "seedRoles env brs (acc @ [(bi_Code br, fresh_role_id s)]) s1 = (r, t)"
        using 2(3) ok None by (simp add: s1_def del: find_idx_None)
      have "roles_found s1 (acc @ [(bi_Code br, fresh_role_id s)])"
        using 2(5) by (fastforce simp: roles_found_def s1_def builtin_role_row_def)
      then have "only_roles s1 t \<and> tables_ok t \<and> (\<forall>roles. r = Inr roles \<longrightarrow> roles_found t roles)"
        using 2(1) [OF ok None run [unfolded s1_def]] seeded_role_ok [OF 2(4)] by (simp add: s1_def)
      moreover have "only_roles s s1" unfolding only_roles_def s1_def by blast
      ultimately show ?thesis using only_roles_trans by blast
    next
      case (Some iq)
      obtain i q where q: "iq = (i, q)" by (cases iq)
      have run: "seedRoles env brs (acc @ [(bi_Code br, ro_ID q)]) s = (r, t)" using 2(3) ok Some q by simp
      have "q \<in> set (pd_roles s)" "ro_Code q = bi_Code br" using find_idx_found [OF Some [unfolded q]] by auto
      then have "roles_found s (acc @ [(bi_Code br, ro_ID q)])" using 2(5) by (auto simp: roles_found_def)
      then show ?thesis using 2(2) [OF ok Some q [symmetric] run 2(4)] by blast
    qed
  qed
qed auto

section \<open>The auditor\<close>

text \<open>A permission that the AUDITOR role has belongs to a route that reads.\<close>

definition auditor_reads :: "perm_state \<Rightarrow> bool" where
  "auditor_reads s = (\<forall>r \<in> set (pd_roles s). ro_Code r = ''AUDITOR'' \<longrightarrow>
     (\<forall>p c. (ro_ID r, p) \<in> set (pd_role_perms s) \<longrightarrow> (p, c) \<in> codes_of_ids s \<longrightarrow> read_action c))"

lemma codes_of_ids_unique:
  "permissions_ok s \<Longrightarrow> (x, c) \<in> codes_of_ids s \<Longrightarrow> (x, d) \<in> codes_of_ids s \<Longrightarrow> c = d"
  by (auto simp: permissions_ok_def codes_of_ids_def distinct_map inj_on_def)

lemma AUDITOR_reads_only: "br \<in> set BuiltinRoles \<Longrightarrow> bi_Code br = ''AUDITOR'' \<Longrightarrow> bi_AllReadOnly br \<and> \<not> bi_AllPermissions br"
  by (auto simp: BuiltinRoles_def)

lemma collectPermissionIDs_seeded:
  assumes "x \<in> set (collectPermissionIDs br perms)"
  shows "\<exists>cp \<in> set perms. sd_ID (snd cp) = x \<and> (bi_AllReadOnly br \<and> \<not> bi_AllPermissions br \<longrightarrow> sd_IsRead (snd cp))"
proof (cases "bi_AllPermissions br \<or> bi_AllReadOnly br")
  case True
  then show ?thesis using assms by (auto simp: collectPermissionIDs_def split: if_splits)
next
  case False
  then consider "x \<in> set (map (\<lambda>cp. sd_ID (snd cp)) (filter (\<lambda>cp. sd_Menu (snd cp) \<in> set (bi_Menus br)) perms))"
    | code p where "Some p = map_of perms code" "x = sd_ID p"
    using assms by (auto simp: collectPermissionIDs_def split: option.splits)
  then show ?thesis
  proof cases
    case 2
    then show ?thesis using map_of_SomeD [OF 2(1) [symmetric]] False by force
  qed (use False in auto)
qed

definition only_role_perms :: "perm_state \<Rightarrow> perm_state \<Rightarrow> bool" where
  "only_role_perms s t = (\<exists>rps. t = s\<lparr>pd_role_perms := pd_role_perms s @ rps\<rparr>)"

lemma seedRolePermissions_result:
  assumes "seedRolePermissions env brs roles perms s = (r, t)" "set brs \<subseteq> set BuiltinRoles"
    "tables_ok s" "permissions_ok s" "roles_found s roles" "seeded_ok (set RouteMapEntries) s perms" "auditor_reads s"
  shows "only_role_perms s t \<and> tables_ok t \<and> permissions_ok t \<and> auditor_reads t"
  using assms
proof (induction env brs roles perms s rule: seedRolePermissions.induct)
  case (1 env roles perms s)
  have "only_role_perms s s" unfolding only_role_perms_def by (rule exI [of _ "[]"]) simp
  then show ?case using 1 by simp
next
  case (2 env br brs roles perms s)
  have refl: "only_role_perms s s" unfolding only_role_perms_def by (rule exI [of _ "[]"]) simp
  have brs: "set brs \<subseteq> set BuiltinRoles" "br \<in> set BuiltinRoles" using 2(5) by auto
  define wanted where "wanted = collectPermissionIDs br perms"
  show ?case
  proof (cases "map_of roles (bi_Code br)")
    case None
    then show ?thesis using 2(1) [OF None] 2(4-) brs by simp
  next
    case (Some role)
    show ?thesis
    proof (cases "wanted = []")
      case True
      then show ?thesis using 2(2) [OF Some wanted_def True] 2(4-) brs Some by (simp add: wanted_def)
    next
      case ne: False
      define new where "new = filter (\<lambda>p. (role, p) \<notin> set (pd_role_perms s)) wanted"
      define s1 where "s1 = s\<lparr>pd_role_perms := pd_role_perms s @ map (\<lambda>p. (role, p)) new\<rparr>"
      obtain q where q: "q \<in> set (pd_roles s)" "ro_ID q = role" "ro_Code q = bi_Code br"
        using 2(8) map_of_SomeD [OF Some] by (auto simp: roles_found_def)
      have seeded: "\<exists>cp \<in> set perms. sd_ID (snd cp) = x \<and> (bi_AllReadOnly br \<and> \<not> bi_AllPermissions br \<longrightarrow> sd_IsRead (snd cp))"
        if "x \<in> set new" for x using collectPermissionIDs_seeded that by (auto simp: new_def wanted_def)
      have known: "\<exists>c. (x, c) \<in> codes_of_ids s \<and> (bi_AllReadOnly br \<and> \<not> bi_AllPermissions br \<longrightarrow> read_action c)"
        if "x \<in> set new" for x
        using seeded [OF that] 2(9) entry_actions unfolding seeded_ok_def by fastforce
      have ids: "codes_of_ids s1 = codes_of_ids s" by (simp add: codes_of_ids_def s1_def)
      have ok1: "tables_ok s1" using 2(6) q by (auto simp: tables_ok_def s1_def)
      have pok1: "permissions_ok s1"
        using 2(7) known by (force simp: permissions_ok_def s1_def codes_of_ids_def)
      have found1: "roles_found s1 roles" using 2(8) by (simp add: roles_found_def s1_def)
      have seeded1: "seeded_ok (set RouteMapEntries) s1 perms" using 2(9) by (simp add: seeded_ok_def ids)
      have reads1: "auditor_reads s1"
        unfolding auditor_reads_def ids
      proof (intro ballI impI allI)
        fix a p c
        assume a: "a \<in> set (pd_roles s1)" "ro_Code a = ''AUDITOR''" "(ro_ID a, p) \<in> set (pd_role_perms s1)" "(p, c) \<in> codes_of_ids s"
        have a_s: "a \<in> set (pd_roles s)" using a(1) by (simp add: s1_def)
        show "read_action c"
        proof (cases "(ro_ID a, p) \<in> set (pd_role_perms s)")
          case True
          then show ?thesis using 2(10) a a_s unfolding auditor_reads_def by blast
        next
          case False
          then have p: "p \<in> set new" "ro_ID a = role" using a(3) by (auto simp: s1_def)
          then have "a = q" using unique_role [OF 2(6) q(1) a_s] q by simp
          then have "bi_Code br = ''AUDITOR''" using a(2) q by simp
          then obtain d where "(p, d) \<in> codes_of_ids s" "read_action d"
            using known [OF p(1)] AUDITOR_reads_only [OF brs(2)] by blast
          then show ?thesis using codes_of_ids_unique [OF 2(7) a(4)] by blast
        qed
      qed
      have eq: "seedRolePermissions env (br # brs) roles perms s =
        (if sv_fails env (ListRolePermissions (bi_Code br)) then (Inl (ListRolePermissions (bi_Code br)), s)
         else if new \<noteq> [] \<and> sv_fails env (InsertRolePermissions (bi_Code br)) then (Inl (InsertRolePermissions (bi_Code br)), s)
         else seedRolePermissions env brs roles perms s1)"
        using Some ne by (simp add: wanted_def new_def s1_def Let_def)
      have only1: "only_role_perms s1 t \<Longrightarrow> only_role_perms s t" by (auto simp: only_role_perms_def s1_def)
      show ?thesis
      proof (cases "sv_fails env (ListRolePermissions (bi_Code br)) \<or> (new \<noteq> [] \<and> sv_fails env (InsertRolePermissions (bi_Code br)))")
        case True
        then have "t = s" using 2(4) unfolding eq by (auto split: if_splits)
        then show ?thesis using refl 2(6,7,10) by simp
      next
        case False
        then have run: "seedRolePermissions env brs roles perms s1 = (r, t)"
          using 2(4) unfolding eq by (auto split: if_splits)
        have "only_role_perms s1 t \<and> tables_ok t \<and> permissions_ok t \<and> auditor_reads t"
          by (rule 2(3) [OF Some wanted_def ne _ new_def, unfolded s1_def [symmetric]])
             (use False run brs ok1 pok1 found1 seeded1 reads1 in auto)
        then show ?thesis using only1 by blast
      qed
    qed
  qed
qed


definition seed_ok :: "perm_state \<Rightarrow> bool" where
  "seed_ok s = (tables_ok s \<and> permissions_ok s \<and> auditor_reads s \<and> distinct (map mb_ID (pd_users s)))"

lemma backfillUserRoles_ok:
  assumes "backfillUserRoles env roles s = (r, t)" "seed_ok s" "roles_found s roles"
  shows "seed_ok t \<and> roles_found t roles"
proof -
  define users where "users = filter (\<lambda>u. \<not> (\<exists>g \<in> set (pd_user_roles s). uo_UserID g = mb_ID u)) (pd_users s)"
  define rows where "rows = backfill_rows env roles users"
  have run: "t = s \<or> t = s\<lparr>pd_user_roles := pd_user_roles s @ rows\<rparr>"
    using assms(1) unfolding backfillUserRoles_def Let_def users_def [symmetric] rows_def [symmetric]
    by (auto split: if_splits)
  have found: "i \<in> ro_ID ` set (pd_roles s)" if "Some i = map_of roles c" for i c
    using map_of_SomeD [OF that [symmetric]] assms(3) by (force simp: roles_found_def)
  have row: "\<exists>u \<in> set users. uo_UserID g = mb_ID u \<and> uo_RoleID g \<in> ro_ID ` set (pd_roles s)" if "g \<in> set rows" for g
    using that found by (auto simp: rows_def backfill_rows_def split: option.splits)
  have "distinct (map mb_ID us) \<Longrightarrow> distinct (map uo_UserID (backfill_rows env roles us)) \<and>
      set (map uo_UserID (backfill_rows env roles us)) \<subseteq> mb_ID ` set us" for us
    by (induction us) (auto simp: backfill_rows_def split: option.splits)
  moreover have "distinct (map mb_ID users)" using assms(2) by (simp add: seed_ok_def users_def distinct_map_filter)
  ultimately have "distinct (map uo_UserID rows)" by (simp add: rows_def)
  then have d: "distinct (map (\<lambda>g. (uo_UserID g, uo_RoleID g)) rows)"
    by (auto simp: distinct_map inj_on_def)
  have apart: "uo_UserID g \<noteq> uo_UserID h" if "g \<in> set (pd_user_roles s)" "h \<in> set rows" for g h
    using row [OF that(2)] that(1) by (auto simp: users_def)
  have "tables_ok (s\<lparr>pd_user_roles := pd_user_roles s @ rows\<rparr>)"
    using assms(2) row d apart by (force simp: seed_ok_def tables_ok_def)
  then show ?thesis using run assms(2,3)
    by (elim disjE) (simp_all add: seed_ok_def permissions_ok_def auditor_reads_def codes_of_ids_def roles_found_def)
qed

lemma ensureDefaultAdminSuperRole_ok:
  assumes "ensureDefaultAdminSuperRole env roles s = (r, t)" "seed_ok s" "roles_found s roles"
  shows "seed_ok t"
proof -
  have "t = s \<or> (\<exists>u i. map_of roles ''SUPER_ADMIN'' = Some i \<and>
     \<not> (\<exists>g \<in> set (pd_user_roles s). uo_UserID g = u \<and> uo_RoleID g = i) \<and>
     t = s\<lparr>pd_user_roles := pd_user_roles s @ [\<lparr>uo_UserID = u, uo_RoleID = i, uo_GrantedBy = 0\<rparr>]\<rparr>)"
    using assms(1) unfolding ensureDefaultAdminSuperRole_def
    by (auto split: option.splits if_splits prod.splits)
  then show ?thesis
  proof (elim disjE exE conjE)
    fix u i
    assume i: "map_of roles ''SUPER_ADMIN'' = Some i" and new: "\<not> (\<exists>g \<in> set (pd_user_roles s). uo_UserID g = u \<and> uo_RoleID g = i)"
      and t: "t = s\<lparr>pd_user_roles := pd_user_roles s @ [\<lparr>uo_UserID = u, uo_RoleID = i, uo_GrantedBy = 0\<rparr>]\<rparr>"
    have "i \<in> ro_ID ` set (pd_roles s)" using map_of_SomeD [OF i] assms(3) by (force simp: roles_found_def)
    then show ?thesis using assms(2) new
      by (auto simp: t seed_ok_def tables_ok_def permissions_ok_def auditor_reads_def codes_of_ids_def)
  qed (use assms(2) in simp)
qed

lemma seedPermissions_ok:
  assumes "seedPermissions env es [] s = (r, t)" "seed_ok s" "set es = set RouteMapEntries"
  shows "seed_ok t \<and> (\<forall>perms. r = Inr perms \<longrightarrow> seeded_ok (set RouteMapEntries) t perms)"
proof -
  have "seeded_ok ({} \<union> set es) s []" by (simp add: seeded_ok_def)
  note res = seedPermissions_result [OF assms(1) _ this]
  have pok: "permissions_ok s" using assms(2) by (simp add: seed_ok_def)
  obtain ps where t: "t = s\<lparr>pd_perms := ps\<rparr>" using res [OF pok] by (auto simp: only_perms_def)
  have old: "(x, c) \<in> codes_of_ids s" if "(x, c) \<in> codes_of_ids t" "(i, x) \<in> set (pd_role_perms s)" for i x c
  proof -
    have "x \<in> pn_ID ` set (pd_perms s)" using pok that(2) by (force simp: permissions_ok_def)
    then show ?thesis using res [OF pok] that(1) by blast
  qed
  have "auditor_reads t"
    using assms(2) old unfolding seed_ok_def auditor_reads_def by (simp add: t)
  moreover have "tables_ok t" "distinct (map mb_ID (pd_users t))" using assms(2) by (simp_all add: seed_ok_def tables_ok_def t)
  ultimately show ?thesis using res [OF pok] assms(3) by (simp add: seed_ok_def)
qed

lemma seedRoles_ok:
  assumes "seedRoles env BuiltinRoles [] s = (r, t)" "seed_ok s"
  shows "seed_ok t \<and> (\<forall>roles. r = Inr roles \<longrightarrow> roles_found t roles) \<and> codes_of_ids t = codes_of_ids s"
proof -
  have res: "only_roles s t" "tables_ok t" "\<forall>roles. r = Inr roles \<longrightarrow> roles_found t roles"
    using seedRoles_result [OF assms(1)] assms(2) by (auto simp: seed_ok_def roles_found_def)
  obtain rs where t: "t = s\<lparr>pd_roles := pd_roles s @ rs\<rparr>" using res(1) by (auto simp: only_roles_def)
  have codes: "codes_of_ids t = codes_of_ids s" by (simp add: t codes_of_ids_def)
  have "auditor_reads t"
    unfolding auditor_reads_def codes
  proof (intro ballI impI allI)
    fix a p c
    assume a: "a \<in> set (pd_roles t)" "ro_Code a = ''AUDITOR''" "(ro_ID a, p) \<in> set (pd_role_perms t)" "(p, c) \<in> codes_of_ids s"
    have "ro_ID a \<in> ro_ID ` set (pd_roles s)" using a(3) assms(2) by (force simp: t seed_ok_def tables_ok_def)
    then obtain b where b: "b \<in> set (pd_roles s)" "ro_ID a = ro_ID b" by blast
    then have "a = b" using unique_role [OF res(2) _ a(1), of b] by (simp add: t)
    then show "read_action c" using a b assms(2) unfolding seed_ok_def auditor_reads_def by (simp add: t)
  qed
  then show ?thesis using res assms(2) codes by (simp add: seed_ok_def permissions_ok_def t)
qed

lemma Seed_ok:
  assumes "seed_ok s" "set es = set RouteMapEntries"
  shows "seed_ok (snd (Seed env es s))"
proof -
  obtain r1 s1 where 1: "seedPermissions env es [] s = (r1, s1)" by fastforce
  obtain r2 s2 where 2: "seedRoles env BuiltinRoles [] s1 = (r2, s2)" by fastforce
  note ok1 = seedPermissions_ok [OF 1 assms]
  note ok2 = seedRoles_ok [OF 2 conjunct1 [OF ok1]]
  show ?thesis
  proof (cases r1)
    case (Inl e)
    then show ?thesis using ok1 1 by (simp add: Seed_def andThen_def)
  next
    case r1: (Inr perms)
    show ?thesis
    proof (cases r2)
      case (Inl e)
      then show ?thesis using ok2 1 2 r1 by (simp add: Seed_def andThen_def)
    next
      case r2: (Inr roles)
      obtain r3 s3 where 3: "seedRolePermissions env BuiltinRoles roles perms s2 = (r3, s3)" by fastforce
      obtain r4 s4 where 4: "backfillUserRoles env roles s3 = (r4, s4)" by fastforce
      obtain r5 s5 where 5: "ensureDefaultAdminSuperRole env roles s4 = (r5, s5)" by fastforce
      have "seeded_ok (set RouteMapEntries) s2 perms" using ok1 ok2 r1 by (simp add: seeded_ok_def)
      then have res: "only_role_perms s2 s3 \<and> tables_ok s3 \<and> permissions_ok s3 \<and> auditor_reads s3"
        using seedRolePermissions_result [OF 3 subset_refl] ok2 r2 by (simp add: seed_ok_def)
      then have ok3: "seed_ok s3" "roles_found s3 roles"
        using ok2 r2 by (auto simp: seed_ok_def only_role_perms_def roles_found_def)
      have ok4: "seed_ok s4" "roles_found s4 roles" using backfillUserRoles_ok [OF 4 ok3] by auto
      have ok5: "seed_ok s5" using ensureDefaultAdminSuperRole_ok [OF 5 ok4] .
      have "snd (Seed env es s) \<in> {s3, s4, s5}"
        using 1 2 3 4 5 r1 r2 by (cases r3; cases r4) (simp_all add: Seed_def andThen_def)
      then show ?thesis using ok3 ok4 ok5 by auto
    qed
  qed
qed


section \<open>Administrators cannot change it\<close>

lemma permissions_ok_role_perms:
  assumes "permissions_ok s" "set ps \<subseteq> pn_ID ` set (pd_perms s)"
    "rps = pd_role_perms s \<or> rps = filter (\<lambda>(q, p). q \<noteq> i) (pd_role_perms s) @ map (\<lambda>p. (i, p)) ps"
    "pd_perms t = pd_perms s" "pd_role_perms t = rps"
  shows "permissions_ok t"
proof -
  have sub: "snd ` set rps \<subseteq> snd ` set (pd_role_perms s) \<union> set ps"
  proof -
    have "snd ` set (map (\<lambda>p. (i, p)) ps) = set ps" "snd ` set (filter (\<lambda>(q, p). q \<noteq> i) xs) \<subseteq> snd ` set xs" for xs :: "(nat \<times> nat) list"
      by (simp_all add: image_image image_mono)
    then show ?thesis using assms(3) by (elim disjE) (simp_all add: image_Un le_supI1)
  qed
  have "snd ` set rps \<subseteq> pn_ID ` set (pd_perms s)"
    by (rule order_trans [OF sub Un_least]) (use assms(1,2) in \<open>simp_all add: permissions_ok_def\<close>)
  then show ?thesis using assms(1,4,5) by (simp add: permissions_ok_def)
qed

lemma seed_ok_same: "same_tables s t \<Longrightarrow> seed_ok t = seed_ok s"
  using same_tables_ok [of s t]
  by (simp add: seed_ok_def same_tables_def permissions_ok_def auditor_reads_def codes_of_ids_def)

lemma builtin_auditor: "IsBuiltinRoleCode ''AUDITOR''"
  by (simp add: IsBuiltinRoleCode_iff)

lemma role_Create_seed_ok:
  assumes "seed_ok s"
  shows "seed_ok (snd (role_Create env req s))"
  using role_Create_effect [OF prod.collapse [symmetric], of env req s]
proof (elim disjE exE)
  fix n rps ps
  assume n: "set ps \<subseteq> pn_ID ` set (pd_perms s) \<and> ro_ID n = fresh_role_id s \<and> \<not> IsBuiltinRoleCode (ro_Code n) \<and>
     (rps = pd_role_perms s \<or> rps = filter (\<lambda>(q, p). q \<noteq> ro_ID n) (pd_role_perms s) @ map (\<lambda>p. (ro_ID n, p)) ps) \<and>
     snd (role_Create env req s) = s\<lparr>pd_roles := pd_roles s @ [n], pd_role_perms := rps\<rparr>"
  let ?t = "s\<lparr>pd_roles := pd_roles s @ [n], pd_role_perms := rps\<rparr>"
  have s: "tables_ok s" "permissions_ok s" "auditor_reads s" using assms by (simp_all add: seed_ok_def)
  have pok: "permissions_ok ?t"
    by (rule permissions_ok_role_perms [OF s(2), of ps rps "ro_ID n"]) (use n in auto)
  have "auditor_reads ?t"
    unfolding auditor_reads_def
  proof (intro ballI impI allI)
    fix a p c
    assume a: "a \<in> set (pd_roles ?t)" "ro_Code a = ''AUDITOR''" "(ro_ID a, p) \<in> set (pd_role_perms ?t)" "(p, c) \<in> codes_of_ids ?t"
    have as: "a \<in> set (pd_roles s)" using a(1,2) n builtin_auditor by auto
    then have "ro_ID a \<noteq> ro_ID n" using fresh_role_id_new(2) [of s] n by (metis image_eqI)
    then have "(ro_ID a, p) \<in> set (pd_role_perms s)" using a(3) n by auto
    then show "read_action c" using s(3) as a(2,4) unfolding auditor_reads_def by (simp add: codes_of_ids_def)
  qed
  moreover have "tables_ok ?t" using role_Create_ok [OF s(1) prod.collapse [symmetric], of env req] n by simp
  ultimately show ?thesis using pok assms n by (simp add: seed_ok_def)
qed (use assms in simp)

lemma role_updated_seed_ok:
  assumes "seed_ok s" "role_updated i req s t"
  shows "seed_ok t"
proof -
  obtain r roles rps ps where r: "r \<in> set (pd_roles s)" "ro_ID r = i" and ps: "set ps \<subseteq> pn_ID ` set (pd_perms s)"
    and roles: "roles = pd_roles s \<or> roles = map (\<lambda>x. if ro_ID x = i then updated_role req x else x) (pd_roles s)"
    and rps: "rps = pd_role_perms s \<or> rps = filter (\<lambda>(q, p). q \<noteq> i) (pd_role_perms s) @ map (\<lambda>p. (i, p)) ps"
    and sys: "ro_IsSystem r \<longrightarrow> uq_DataScope req = None \<and> rps = pd_role_perms s"
    and t: "t = s\<lparr>pd_roles := roles, pd_role_perms := rps\<rparr>"
    using assms(2) unfolding role_updated_def by blast
  have s: "tables_ok s" "permissions_ok s" "auditor_reads s" using assms by (simp_all add: seed_ok_def)
  have pok: "permissions_ok t" by (rule permissions_ok_role_perms [OF s(2) ps rps]) (simp_all add: t)
  have "auditor_reads t"
    unfolding auditor_reads_def
  proof (intro ballI impI allI)
    fix a p c
    assume a: "a \<in> set (pd_roles t)" "ro_Code a = ''AUDITOR''" "(ro_ID a, p) \<in> set (pd_role_perms t)" "(p, c) \<in> codes_of_ids t"
    have "a \<in> set roles" using a(1) by (simp add: t)
    then obtain b where b: "b \<in> set (pd_roles s)" "ro_ID b = ro_ID a" "ro_Code b = ''AUDITOR''"
      using roles a(2) by (elim disjE) (auto split: if_splits)
    have "ro_IsSystem b" using s(1) b builtin_auditor by (auto simp: tables_ok_def)
    then have "rps = pd_role_perms s \<or> ro_ID b \<noteq> i" using unique_role [OF s(1) r(1) b(1)] r(2) sys by auto
    then have "(ro_ID b, p) \<in> set (pd_role_perms s)" using a(3) b(2) rps by (auto simp: t)
    then show "read_action c" using s(3) b a(4) unfolding auditor_reads_def by (simp add: codes_of_ids_def t)
  qed
  then show ?thesis using role_updated_ok [OF s(1) assms(2)] pok assms(1) by (simp add: seed_ok_def t)
qed

lemma seed_ok_granted:
  assumes "seed_ok s" "tables_ok (InvalidateProfiles us (InvalidateUserPerms env [u] (granted gs s)))"
  shows "seed_ok (InvalidateProfiles us (InvalidateUserPerms env [u] (granted gs s)))"
proof -
  have "tables_ok (granted gs s)" using assms(2) same_tables_ok same_tables_steps(3,5) by metis
  then have "seed_ok (granted gs s)" using assms(1)
    by (simp add: seed_ok_def granted_def permissions_ok_def auditor_reads_def codes_of_ids_def)
  then show ?thesis using seed_ok_same same_tables_steps(3,5) by metis
qed

lemma role_removed_seed_ok: "seed_ok s \<Longrightarrow> seed_ok (role_removed i s)"
  using role_removed_ok [of s i]
  by (auto simp: seed_ok_def role_removed_def permissions_ok_def auditor_reads_def codes_of_ids_def)

lemma perm_exec_seed_ok:
  assumes "seed_ok s"
  shows "seed_ok (snd (perm_exec env op s))"
proof (cases op)
  case (DoResolve u)
  then show ?thesis using seed_ok_same [OF Resolve_same_tables] assms by simp
next
  case (DoCreate req)
  then show ?thesis using role_Create_seed_ok [OF assms] by simp
next
  case (DoClone i c n)
  then show ?thesis using role_Clone_state [of env i c n s] role_Create_seed_ok [OF assms] assms by auto
next
  case (DoUpdate i req)
  then show ?thesis
    using role_Update_effect [OF prod.collapse [symmetric], of env i req s] assms role_updated_seed_ok [OF assms]
      seed_ok_same [OF same_tables_steps(5)] seed_ok_same [OF same_tables_steps(4)] by auto
next
  case (DoDelete i)
  then show ?thesis
    using role_Delete_effect [OF prod.collapse [symmetric], of env i s] assms role_removed_seed_ok [OF assms, of i]
      seed_ok_same [OF same_tables_steps(5)] seed_ok_same [OF same_tables_steps(3)] by (auto split: if_splits)
next
  case (DoAssign u i g)
  have "tables_ok (snd (AssignUserRole env u i g s))"
    using AssignUserRole_ok [OF _ prod.collapse [symmetric]] assms by (simp add: seed_ok_def)
  then show ?thesis
    using AssignUserRole_effect [OF prod.collapse [symmetric], of env u i g s] assms seed_ok_granted [OF assms] DoAssign
    by (elim disjE exE conjE) simp_all
next
  case (DoRevoke u i)
  have "tables_ok (snd (RevokeUserRole env u i s))"
    using RevokeUserRole_ok [OF _ prod.collapse [symmetric]] assms by (simp add: seed_ok_def)
  then show ?thesis
    using RevokeUserRole_effect [OF prod.collapse [symmetric], of env u i s] assms seed_ok_granted [OF assms] DoRevoke
    by (elim disjE exE conjE) simp_all
qed

text \<open>The life of an installation: starts that seed, in whatever order Go lists the map and with
  whatever faults, and operations of administrators.\<close>

inductive installation :: "perm_state \<Rightarrow> bool" where
  fresh: "installation \<lparr>pd_users = us, pd_roles = [], pd_perms = [], pd_user_roles = [], pd_role_perms = [],
            pd_keys = ks, pd_cache = (\<lambda>_. None), pd_profiles = []\<rparr>"
    if "distinct (map mb_ID us)"
| start: "installation s \<Longrightarrow> set es = set RouteMapEntries \<Longrightarrow> installation (snd (Seed env es s))"
| admin: "installation s \<Longrightarrow> installation (snd (perm_exec env op s))"

lemma installation_seed_ok: "installation s \<Longrightarrow> seed_ok s"
proof (induction rule: installation.induct)
  case (fresh us ks)
  then show ?case by (simp add: seed_ok_def tables_ok_def permissions_ok_def auditor_reads_def)
qed (simp_all add: Seed_ok perm_exec_seed_ok)

text \<open>C36: Whoever has no role but AUDITOR passes the gate for GET requests only.\<close>

theorem auditor_never_writes:
  assumes "installation s" "r \<in> set (pd_roles s)" "ro_Code r = ''AUDITOR''" "CHR '' '' \<notin> set meth"
    "meth \<noteq> ''GET''" "rx_perms c = Some (subject_of user [r] (codes_of_roles s [ro_ID r]))"
  shows "\<not> PermissionGate meth path c"
proof
  assume gate: "PermissionGate meth path c"
  have ok: "auditor_reads s" using installation_seed_ok [OF assms(1)] by (simp add: seed_ok_def)
  have "\<not> IsSuperAdmin (subject_of user [r] cs)" for cs by (simp add: IsSuperAdmin_subject assms(3))
  then obtain m where m: "Lookup meth path = Some m" "rm_Action m \<in> set (codes_of_roles s [ro_ID r])"
    using assms(6) gate by (auto simp: PermissionGate_def Has_def subject_of_def split: option.splits)
  have "read_action (rm_Action m)"
  proof -
    obtain p where p: "p \<in> set (pd_perms s)" "pn_Code p = rm_Action m" "(ro_ID r, pn_ID p) \<in> set (pd_role_perms s)"
      using m(2) unfolding code_granted by auto
    have "(pn_ID p, rm_Action m) \<in> codes_of_ids s" using p(1,2) unfolding codes_of_ids_def by force
    then show ?thesis using ok assms(2,3) p(3) unfolding auditor_reads_def by blast
  qed
  then show False using Lookup_read [OF m(1) _ assms(4)] assms(5) by simp
qed


section \<open>A fresh installation\<close>

definition no_faults :: seed_env where
  "no_faults = \<lparr>sv_fails = (\<lambda>_. False), sv_legacy = None\<rparr>"

definition empty_tables :: perm_state where
  "empty_tables = \<lparr>pd_users = [\<lparr>mb_ID = 3, mb_TenantID = 2, mb_Email = ''auditor''\<rparr>], pd_roles = [], pd_perms = [],
     pd_user_roles = [], pd_role_perms = [], pd_keys = [], pd_cache = (\<lambda>_. None), pd_profiles = []\<rparr>"

lemma no_faults_fields [simp]: "sv_fails no_faults c = False" "sv_legacy no_faults = None"
  by (simp_all add: no_faults_def)

lemma seedPermissions_succeeds: "\<exists>perms t. seedPermissions no_faults es acc s = (Inr perms, t)"
proof (induction no_faults es acc s rule: seedPermissions.induct)
  case (2 e es acc s)
  show ?case
  proof (cases "find_idx (\<lambda>p. pn_Code p = rm_Action (en_Meta e)) (pd_perms s)")
    case None
    then show ?thesis using 2 by (simp add: Let_def del: find_idx_None)
  next
    case (Some ip)
    then show ?thesis using 2 by (cases ip) (simp add: Let_def)
  qed
qed simp

lemma seedRolePermissions_succeeds: "\<exists>t. seedRolePermissions no_faults brs roles perms s = (Inr (), t) \<and> pd_roles t = pd_roles s"
proof (induction no_faults brs roles perms s rule: seedRolePermissions.induct)
  case (2 br brs roles perms s)
  then show ?case by (cases "map_of roles (bi_Code br)") (simp_all add: Let_def)
qed simp

lemma backfillUserRoles_roles: "pd_roles (snd (backfillUserRoles env roles s)) = pd_roles s"
  by (simp add: backfillUserRoles_def Let_def)

lemma ensureDefaultAdminSuperRole_roles: "pd_roles (snd (ensureDefaultAdminSuperRole env roles s)) = pd_roles s"
  by (auto simp: ensureDefaultAdminSuperRole_def split: option.splits)

lemma seedRoles_fresh:
  assumes "pd_roles s = []"
  shows "\<exists>roles. seedRoles no_faults BuiltinRoles [] s =
    (Inr roles, s\<lparr>pd_roles := map (\<lambda>(i, br). builtin_role_row i br) (zip [1, 2, 3, 4, 5, 6, 7] BuiltinRoles)\<rparr>)"
  using assms by (simp add: BuiltinRoles_def fresh_role_id_def builtin_role_row_def)

lemma Seed_fresh_roles:
  "pd_roles (snd (Seed no_faults es empty_tables)) = map (\<lambda>(i, br). builtin_role_row i br) (zip [1, 2, 3, 4, 5, 6, 7] BuiltinRoles)"
proof -
  obtain perms s1 where 1: "seedPermissions no_faults es [] empty_tables = (Inr perms, s1)"
    using seedPermissions_succeeds by blast
  have ok: "permissions_ok empty_tables" "seeded_ok ({} \<union> set es) empty_tables []"
    by (simp_all add: permissions_ok_def empty_tables_def seeded_ok_def)
  have "only_perms empty_tables s1" using seedPermissions_result [OF 1 ok] by blast
  then have s1: "pd_roles s1 = []" by (auto simp: only_perms_def empty_tables_def)
  obtain roles where 2: "seedRoles no_faults BuiltinRoles [] s1 =
      (Inr roles, s1\<lparr>pd_roles := map (\<lambda>(i, br). builtin_role_row i br) (zip [1, 2, 3, 4, 5, 6, 7] BuiltinRoles)\<rparr>)"
    using seedRoles_fresh [OF s1] by blast
  obtain s3 where 3: "seedRolePermissions no_faults BuiltinRoles roles perms
      (s1\<lparr>pd_roles := map (\<lambda>(i, br). builtin_role_row i br) (zip [1, 2, 3, 4, 5, 6, 7] BuiltinRoles)\<rparr>) = (Inr (), s3)"
    "pd_roles s3 = map (\<lambda>(i, br). builtin_role_row i br) (zip [1, 2, 3, 4, 5, 6, 7] BuiltinRoles)"
    using seedRolePermissions_succeeds by fastforce
  obtain r4 s4 where 4: "backfillUserRoles no_faults roles s3 = (r4, s4)" by fastforce
  have s4: "pd_roles s4 = pd_roles s3" using backfillUserRoles_roles [of no_faults roles s3] 4 by simp
  show ?thesis
    using 1 2 3 4 s4 ensureDefaultAdminSuperRole_roles [of no_faults roles s4]
    by (cases r4) (simp_all add: Seed_def andThen_def)
qed

lemma auditor_never_writes_witness:
  "let s = snd (Seed no_faults RouteMapEntries empty_tables); r = builtin_role_row 5 (BuiltinRoles ! 4)
   in \<not> PermissionGate ''POST'' ''/api/v1/admin/users''
        ((authenticated 3 2)\<lparr>rx_perms := Some (subject_of \<lparr>mb_ID = 3, mb_TenantID = 2, mb_Email = ''auditor''\<rparr> [r]
           (codes_of_roles s [ro_ID r]))\<rparr>)"
  unfolding Let_def
proof (rule auditor_never_writes)
  have "installation empty_tables" unfolding empty_tables_def by (rule installation.fresh) simp
  then show "installation (snd (Seed no_faults RouteMapEntries empty_tables))" by (rule installation.start) simp
  show "builtin_role_row 5 (BuiltinRoles ! 4) \<in> set (pd_roles (snd (Seed no_faults RouteMapEntries empty_tables)))"
    unfolding Seed_fresh_roles by (simp add: BuiltinRoles_def)
qed (simp_all add: BuiltinRoles_def builtin_role_row_def authenticated_def)

section \<open>A code in two menus\<close>

text \<open>The code \<open>cache_clear_all\<close> is that of two routes, one under the system settings and one under
  the channels. Which menu counts for it is that of the entry Go happens to list first.\<close>

definition channel_entry :: "string \<times> RouteMeta" where
  "channel_entry = (''POST /api/v1/admin/cache/clear'', RouteMeta ''qudao guanli'' ''cache_clear_all'' ''cache'')"

definition system_entry :: "string \<times> RouteMeta" where
  "system_entry = (''POST /api/v1/admin/cache/clear-all'', RouteMeta ''xitong shezhi'' ''cache_clear_all'' ''cache'')"

lemma one_code_two_menus: "channel_entry \<in> set routeMap \<and> system_entry \<in> set routeMap"
  by (simp add: routeMap_def routeMap2_def channel_entry_def system_entry_def)

definition seeded_first :: "Entry list \<Rightarrow> nat list" where
  "seeded_first es = (case fst (seedPermissions no_faults es [] empty_tables) of
     Inl _ \<Rightarrow> [] | Inr perms \<Rightarrow> collectPermissionIDs (BuiltinRoles ! 3) perms)"

lemma order_decides_who_clears_caches:
  "seeded_first [entry_of False channel_entry, entry_of False system_entry] = [1] \<and>
   seeded_first [entry_of False system_entry, entry_of False channel_entry] = []"
  by code_simp

end
