(* ===== verification/Async_Log.thy ===== *)
theory Async_Log
  imports Go_Text "HOL-Library.Multiset"
begin

text \<open>
  The recorders that write logs behind the back of a request: \<open>internal/service/audit\<close>
  (\<open>audit_service.go\<close>), \<open>internal/service/ratelimit\<close> (\<open>event_recorder.go\<close>) and
  \<open>internal/service/authlog\<close> (\<open>recorder.go\<close>). All three are a buffered channel, one consumer that
  collects a batch, and a database write; they differ in what they do when the write fails. A step
  is a call of a request, one turn of the consumer's loop, or the closing of the channel. The model also keeps
  what it accepted, what it dropped and what a failing write lost.
\<close>

record 'a recorder =
  rr_ch :: "'a list"
  rr_batch :: "'a list"
  rr_rows :: "'a list"
  rr_lost :: "'a list"
  rr_accepted :: "'a list"
  rr_dropped :: "'a list"
  rr_closed :: bool
  rr_done :: bool

definition defaultBufferSize :: nat where "defaultBufferSize = 1024"
definition defaultBatchSize :: nat where "defaultBatchSize = 50"
definition cleanupBatchSize :: nat where "cleanupBatchSize = 1000"

definition NewRecorder :: "'a recorder" where
  "NewRecorder = \<lparr>rr_ch = [], rr_batch = [], rr_rows = [], rr_lost = [], rr_accepted = [], rr_dropped = [],
     rr_closed = False, rr_done = False\<rparr>"

text \<open>A closed recorder returns, a full channel drops the entry.\<close>

definition Enqueue :: "'a \<Rightarrow> 'a recorder \<Rightarrow> 'a recorder" where
  "Enqueue ev r =
     (if rr_closed r then r\<lparr>rr_dropped := rr_dropped r @ [ev]\<rparr>
      else if length (rr_ch r) < defaultBufferSize
      then r\<lparr>rr_ch := rr_ch r @ [ev], rr_accepted := rr_accepted r @ [ev]\<rparr>
      else r\<lparr>rr_dropped := rr_dropped r @ [ev]\<rparr>)"

text \<open>A writer splits a batch into the rows it stored and the rows it lost.\<close>

type_synonym 'a writer = "'a list \<Rightarrow> 'a list \<times> 'a list"

definition flush_batch :: "'a writer \<Rightarrow> 'a recorder \<Rightarrow> 'a recorder" where
  "flush_batch w r =
     (if rr_batch r = [] then r
      else case w (rr_batch r) of
        (stored, lost) \<Rightarrow> r\<lparr>rr_rows := rr_rows r @ stored, rr_lost := rr_lost r @ lost, rr_batch := []\<rparr>)"

definition take_one :: "'a writer \<Rightarrow> 'a \<Rightarrow> 'a recorder \<Rightarrow> 'a recorder" where
  "take_one w ev r =
     (let r1 = r\<lparr>rr_batch := rr_batch r @ [ev]\<rparr>
      in if length (rr_batch r1) \<ge> defaultBatchSize then flush_batch w r1 else r1)"

text \<open>The consumer reads the channel: an entry, the end of a closed channel, or nothing yet.\<close>

definition receive :: "'a writer \<Rightarrow> 'a recorder \<Rightarrow> 'a recorder" where
  "receive w r =
     (case rr_ch r of
        ev # rest \<Rightarrow> take_one w ev (r\<lparr>rr_ch := rest\<rparr>)
      | [] \<Rightarrow> if rr_closed r then (flush_batch w r)\<lparr>rr_done := True\<rparr> else r)"

text \<open>When the context of the consumer ends it empties the channel and returns.\<close>

fun drain :: "'a writer \<Rightarrow> 'a list \<Rightarrow> 'a recorder \<Rightarrow> 'a recorder" where
  "drain w [] r = (flush_batch w (r\<lparr>rr_ch := []\<rparr>))\<lparr>rr_done := True\<rparr>"
| "drain w (ev # rest) r = drain w rest (take_one w ev (r\<lparr>rr_ch := rest\<rparr>))"

definition close_channel :: "'a recorder \<Rightarrow> 'a recorder" where
  "close_channel r = r\<lparr>rr_closed := True\<rparr>"

datatype 'a recorder_step = Put 'a | Receive | Tick | CtxDone | Close

fun runLoop :: "'a writer \<Rightarrow> 'a recorder_step \<Rightarrow> 'a recorder \<Rightarrow> 'a recorder" where
  "runLoop w (Put ev) r = Enqueue ev r"
| "runLoop w Receive r = (if rr_done r then r else receive w r)"
| "runLoop w Tick r = (if rr_done r then r else flush_batch w r)"
| "runLoop w CtxDone r = (if rr_done r then r else drain w (rr_ch r) r)"
| "runLoop w Close r = close_channel r"

text \<open>
  A shutdown closes the channel and waits ten seconds at most for the consumer to end. What the
  consumer gets done in that time is a list of turns, each with the time it takes and the writer it
  meets; a turn that is not over in time is not part of the wait. Only the first shutdown does anything.
\<close>

datatype shutdown_result = ConsumerDone | ShutdownTimeout | AlreadyShut

definition shutdownWait :: int where "shutdownWait = 10 * 10 ^ 9"

fun consumer_turn :: "'a recorder_step \<Rightarrow> bool" where
  "consumer_turn Receive = True"
| "consumer_turn Tick = True"
| "consumer_turn CtxDone = True"
| "consumer_turn _ = False"

fun consume_for :: "int \<Rightarrow> (int \<times> 'a recorder_step \<times> 'a writer) list \<Rightarrow> 'a recorder \<Rightarrow> 'a recorder" where
  "consume_for left [] r = r"
| "consume_for left ((time, step, w) # rest) r =
     (if rr_done r \<or> left < time then r
      else consume_for (left - time) rest (if consumer_turn step then runLoop w step r else r))"

definition Shutdown :: "(int \<times> 'a recorder_step \<times> 'a writer) list \<Rightarrow> 'a recorder \<Rightarrow> shutdown_result \<times> 'a recorder" where
  "Shutdown done_in_time r =
     (if rr_closed r then (AlreadyShut, r)
      else (let t = consume_for shutdownWait done_in_time (close_channel r)
            in (if rr_done t then ConsumerDone else ShutdownTimeout, t)))"

section \<open>The writers\<close>

text \<open>The audit log falls back to single rows; the two others give the batch up.\<close>

definition writeBatch_audit :: "bool \<Rightarrow> ('a \<Rightarrow> bool) \<Rightarrow> 'a writer" where
  "writeBatch_audit batchFails itemFails batch =
     (if \<not> batchFails then (batch, [])
      else (filter (\<lambda>l. \<not> itemFails l) batch, filter itemFails batch))"

definition writeBatch_event :: "bool \<Rightarrow> 'a writer" where
  "writeBatch_event batchFails batch = (if batchFails then ([], batch) else (batch, []))"

section \<open>Entries of the authentication log\<close>

record UserAuthLog =
  ua_UserID :: nat
  ua_EventType :: string
  ua_Email :: string
  ua_IP :: string
  ua_UserAgent :: string
  ua_RequestID :: string
  ua_FailReason :: string

definition Enqueue_auth :: "UserAuthLog \<Rightarrow> UserAuthLog recorder \<Rightarrow> UserAuthLog recorder" where
  "Enqueue_auth ev r =
     (if rr_closed r then Enqueue ev r
      else Enqueue (if length (ua_UserAgent ev) > 512 then ev\<lparr>ua_UserAgent := take 512 (ua_UserAgent ev)\<rparr> else ev) r)"

text \<open>The pattern of a search: its own wildcards are escaped.\<close>

definition like_char :: "char \<Rightarrow> string" where
  "like_char c = (if c = CHR 92 then [CHR 92, CHR 92] else if c = CHR ''%'' then [CHR 92, c]
     else if c = CHR ''_'' then [CHR 92, c] else [c])"

definition like :: "string \<Rightarrow> string" where
  "like v = ''%'' @ concat (map like_char (TrimSpace v)) @ ''%''"

section \<open>Cleaning up\<close>

text \<open>Rows are deleted in portions; a round can find the context ended or the statement failing.
  \<open>created\<close> reads the moment of a row, in nanoseconds.\<close>

fun delete_first :: "nat \<Rightarrow> ('a \<Rightarrow> bool) \<Rightarrow> 'a list \<Rightarrow> 'a list" where
  "delete_first n P [] = []"
| "delete_first n P (x # xs) =
     (if P x \<and> 0 < n then delete_first (n - 1) P xs else x # delete_first n P xs)"

datatype delete_result = Deleted | Stopped | DeleteFailed

lemma delete_first_length: "length (delete_first n P xs) + min n (length (filter P xs)) = length xs"
  by (induction n P xs rule: delete_first.induct) auto

function DeleteOld ::
  "(nat \<Rightarrow> bool) \<Rightarrow> (nat \<Rightarrow> bool) \<Rightarrow> ('a \<Rightarrow> int) \<Rightarrow> int \<Rightarrow> nat \<Rightarrow> nat \<Rightarrow> 'a list \<Rightarrow> delete_result \<times> nat \<times> 'a list" where
  "DeleteOld ctxDone fails created cutoff round deleted rows =
     (if ctxDone round then (Stopped, deleted, rows)
      else if fails round then (DeleteFailed, deleted, rows)
      else (let rest = delete_first cleanupBatchSize (\<lambda>x. created x < cutoff) rows;
                affected = length rows - length rest
            in if affected < cleanupBatchSize then (Deleted, deleted + affected, rest)
               else DeleteOld ctxDone fails created cutoff (Suc round) (deleted + affected) rest))"
  by pat_completeness auto

termination
proof (relation "measure (\<lambda>(ctxDone, fails, created, cutoff, round, deleted, rows). length rows)", goal_cases)
  case (2 ctxDone fails created cutoff round deleted rows rest affected)
  then show ?case by (simp add: cleanupBatchSize_def)
qed simp

declare DeleteOld.simps [simp del]

text \<open>The age in nanoseconds, as the product of three durations of 64 bits.\<close>

definition hour :: int64 where "hour = 3600 * 10 ^ 9"

definition minus_days :: "int64 \<Rightarrow> int64" where
  "minus_days days = mul64 (mul64 (neg64 days) 24) hour"

definition DeleteOlderThan ::
  "int64 \<Rightarrow> (nat \<Rightarrow> bool) \<Rightarrow> (nat \<Rightarrow> bool) \<Rightarrow> ('a \<Rightarrow> int) \<Rightarrow> int \<Rightarrow> int64 \<Rightarrow> 'a list \<Rightarrow> delete_result \<times> nat \<times> 'a list" where
  "DeleteOlderThan defaultDays ctxDone fails created now days rows =
     (let d = (if days \<le> 0 then defaultDays else days)
      in DeleteOld ctxDone fails created (now + minus_days d) 0 0 rows)"

end
