(* ===== verification/Audit_Log.thy ===== *)
theory Audit_Log
  imports Json Route_Map Async_Log
begin

text \<open>
  The audit log of administrative writes, \<open>internal/middleware/audit\<close> (\<open>audit.go\<close>, \<open>context.go\<close>):
  which requests are logged, what the entry holds, and the masking of secrets in the body. The
  parser and the printer of \<open>encoding/json\<close> are parameters; the display name of a route and the
  address of the client are left out.
\<close>

record AuditLog =
  al_Action :: string
  al_Resource :: string
  al_Menu :: string
  al_Method :: string
  al_Path :: string
  al_StatusCode :: int
  al_OperatorID :: nat
  al_UserID :: nat
  al_TenantID :: nat
  al_RequestID :: string
  al_ResourceID :: nat
  al_NewValue :: string
  al_OldValue :: string
  al_Remark :: string

text \<open>The request as the middleware sees it: the routing, the context earlier middleware filled, and
  what the handler left there.\<close>

record audited =
  aq_Method :: string
  aq_FullPath :: string
  aq_Body :: string
  aq_userId :: "nat option"
  aq_tenantId :: "nat option"
  aq_requestId :: "string option"
  aq_id_param :: string
  aq_status :: int
  aq_old :: "string option"
  aq_resource :: "nat option"
  aq_remark :: "string option"
  aq_skip :: bool

section \<open>What handlers leave\<close>

definition SetOldValue :: "(json \<Rightarrow> string option) \<Rightarrow> json option \<Rightarrow> audited \<Rightarrow> audited" where
  "SetOldValue marshal v c =
     (case v of None \<Rightarrow> c
      | Some j \<Rightarrow> (case marshal j of None \<Rightarrow> c | Some b \<Rightarrow> c\<lparr>aq_old := Some b\<rparr>))"

definition SetResourceID :: "nat \<Rightarrow> audited \<Rightarrow> audited" where
  "SetResourceID i c = c\<lparr>aq_resource := Some i\<rparr>"

definition SetRemark :: "string \<Rightarrow> audited \<Rightarrow> audited" where
  "SetRemark s c = c\<lparr>aq_remark := Some s\<rparr>"

definition audit_Skip :: "audited \<Rightarrow> audited" where
  "audit_Skip c = c\<lparr>aq_skip := True\<rparr>"

definition getOldValue :: "audited \<Rightarrow> string" where
  "getOldValue c = (case aq_old c of None \<Rightarrow> '''' | Some s \<Rightarrow> s)"

definition getRemark :: "audited \<Rightarrow> string" where
  "getRemark c = (case aq_remark c of None \<Rightarrow> '''' | Some s \<Rightarrow> s)"

section \<open>Masking\<close>

definition sensitiveFields :: "string list" where
  "sensitiveFields = [''password'', ''old_password'', ''new_password'', ''secret'', ''api_key'', ''apikey'',
     ''access_token'', ''refresh_token'', ''private_key'', ''client_secret'']"

definition isSensitiveKey :: "string \<Rightarrow> bool" where
  "isSensitiveKey k = list_ex (str_contains (to_lower k)) sensitiveFields"

primrec redactSensitive :: "json \<Rightarrow> json" where
  "redactSensitive JNull = JNull"
| "redactSensitive (JBool b) = JBool b"
| "redactSensitive (JInt n) = JInt n"
| "redactSensitive (JNum x) = JNum x"
| "redactSensitive (JStr s) = JStr s"
| "redactSensitive (JArr xs) = JArr (map redactSensitive xs)"
| "redactSensitive (JObj kvs) =
     JObj (map (\<lambda>(k, v). (k, if isSensitiveKey k then JStr ''***'' else v)) (map (map_prod (\<lambda>k. k) redactSensitive) kvs))"

definition maxBodyLogSize :: nat where "maxBodyLogSize = 16384"

definition cut_to_size :: "string \<Rightarrow> string" where
  "cut_to_size s = (if length s > maxBodyLogSize then take maxBodyLogSize s @ ''...[truncated]'' else s)"

definition sanitizeBody :: "(string \<Rightarrow> json option) \<Rightarrow> (json \<Rightarrow> string) \<Rightarrow> string \<Rightarrow> string" where
  "sanitizeBody unmarshal marshal b =
     (if b = '''' then ''''
      else case unmarshal b of
        Some raw \<Rightarrow> cut_to_size (marshal (redactSensitive raw))
      | None \<Rightarrow> cut_to_size b)"

section \<open>The entry\<close>

text \<open>\<open>strconv.ParseUint(s, 10, 64)\<close>.\<close>

definition ParseUint :: "string \<Rightarrow> nat option" where
  "ParseUint s = (if s = '''' then None else case digits_value s 0 of
     None \<Rightarrow> None | Some n \<Rightarrow> if n < 2 ^ 64 then Some n else None)"

definition resource_id :: "audited \<Rightarrow> nat" where
  "resource_id c =
     (case aq_resource c of
        Some rid \<Rightarrow> rid
      | None \<Rightarrow> if aq_id_param c = '''' then 0 else (case ParseUint (aq_id_param c) of None \<Rightarrow> 0 | Some n \<Rightarrow> n))"

definition buildLog :: "(string \<Rightarrow> json option) \<Rightarrow> (json \<Rightarrow> string) \<Rightarrow> RouteMeta \<Rightarrow> audited \<Rightarrow> AuditLog" where
  "buildLog unmarshal marshal meta c =
     \<lparr>al_Action = rm_Action meta, al_Resource = rm_Resource meta, al_Menu = rm_Menu meta, al_Method = aq_Method c,
      al_Path = aq_FullPath c, al_StatusCode = aq_status c,
      al_OperatorID = (case aq_userId c of None \<Rightarrow> 0 | Some u \<Rightarrow> u), al_UserID = (case aq_userId c of None \<Rightarrow> 0 | Some u \<Rightarrow> u),
      al_TenantID = (case aq_tenantId c of None \<Rightarrow> 0 | Some t \<Rightarrow> t),
      al_RequestID = (case aq_requestId c of None \<Rightarrow> '''' | Some r \<Rightarrow> r),
      al_ResourceID = resource_id c, al_NewValue = sanitizeBody unmarshal marshal (aq_Body c),
      al_OldValue = getOldValue c, al_Remark = getRemark c\<rparr>"

text \<open>The body is read before the handler runs, the rest after it: \<open>handled\<close> is what the handler makes of
  the context.\<close>

definition AuditLog_middleware ::
  "(string \<Rightarrow> json option) \<Rightarrow> (json \<Rightarrow> string) \<Rightarrow> (audited \<Rightarrow> audited) \<Rightarrow> audited \<Rightarrow> AuditLog recorder \<Rightarrow> AuditLog recorder" where
  "AuditLog_middleware unmarshal marshal handler c q =
     (if aq_Method c = ''GET'' \<or> aq_Method c = ''HEAD'' \<or> aq_Method c = ''OPTIONS'' then q
      else case LookupAuditMeta (aq_Method c) (aq_FullPath c) of
        None \<Rightarrow> q
      | Some meta \<Rightarrow>
          (let handled = (handler c)\<lparr>aq_Method := aq_Method c, aq_FullPath := aq_FullPath c, aq_Body := aq_Body c\<rparr>
           in if aq_status handled < 200 \<or> 300 \<le> aq_status handled \<or> aq_skip handled then q
              else Enqueue (buildLog unmarshal marshal meta handled) q))"


end
