(* ===== verification/Async_Log_Laws.thy ===== *)
theory Async_Log_Laws
  imports Async_Log
begin

text \<open>
  What the recorders guarantee: every accepted entry is waiting, written or reported lost, in the order
  it came; the buffers stay within their bounds; a shutdown that finds the consumer ended leaves nothing
  behind, and finds it ended when it is fast enough; and cleaning up deletes only rows that are too old,
  and all of them when it says so.
\<close>

definition conserved :: "'a recorder \<Rightarrow> bool" where
  "conserved r = (mset (rr_accepted r) = mset (rr_rows r) + mset (rr_lost r) + mset (rr_batch r) + mset (rr_ch r))"

definition bounded :: "'a recorder \<Rightarrow> bool" where
  "bounded r = (length (rr_ch r) \<le> defaultBufferSize \<and> length (rr_batch r) < defaultBatchSize)"

definition healthy_recorder :: "'a recorder \<Rightarrow> bool" where
  "healthy_recorder r = (conserved r \<and> bounded r)"

definition empty_when_done :: "'a recorder \<Rightarrow> bool" where
  "empty_when_done r = (rr_done r \<longrightarrow> rr_ch r = [] \<and> rr_batch r = [])"

section \<open>The contract of a writer\<close>

locale batch_writer =
  fixes store :: "'a list \<Rightarrow> 'a list \<times> 'a list"
  assumes store_splits: "store batch = (stored, lost) \<Longrightarrow> mset stored + mset lost = mset batch"
begin

lemma flush_conserved:
  "conserved r \<Longrightarrow> conserved (flush_batch store r) \<and> rr_batch (flush_batch store r) = [] \<and>
     rr_ch (flush_batch store r) = rr_ch r"
  by (cases "store (rr_batch r)")
     (auto simp: flush_batch_def conserved_def dest!: store_splits [symmetric])

lemma take_one_healthy:
  assumes "mset (rr_accepted r) = mset (rr_rows r) + mset (rr_lost r) + mset (rr_batch r) + {#ev#} + mset (rr_ch r)"
    "bounded r"
  shows "healthy_recorder (take_one store ev r) \<and> rr_ch (take_one store ev r) = rr_ch r"
proof -
  let ?r1 = "r\<lparr>rr_batch := rr_batch r @ [ev]\<rparr>"
  have c: "conserved ?r1" using assms(1) by (simp add: conserved_def)
  then show ?thesis
    using flush_conserved [OF c] assms(2)
    by (auto simp: take_one_def Let_def healthy_recorder_def bounded_def defaultBatchSize_def)
qed

lemma take_one_from_channel:
  assumes "healthy_recorder r" "rr_ch r = ev # rest"
  shows "healthy_recorder (take_one store ev (r\<lparr>rr_ch := rest\<rparr>)) \<and> rr_ch (take_one store ev (r\<lparr>rr_ch := rest\<rparr>)) = rest"
  using take_one_healthy [of "r\<lparr>rr_ch := rest\<rparr>" ev] assms
  by (auto simp: healthy_recorder_def conserved_def bounded_def)

lemma done_healthy [simp]: "healthy_recorder (r\<lparr>rr_done := d\<rparr>) = healthy_recorder r"
  by (simp add: healthy_recorder_def conserved_def bounded_def)

lemma flush_healthy: "healthy_recorder r \<Longrightarrow> healthy_recorder (flush_batch store r)"
  using flush_conserved [of r] by (simp add: healthy_recorder_def bounded_def defaultBatchSize_def)

lemma drain_healthy:
  "healthy_recorder r \<Longrightarrow> rr_ch r = evs \<Longrightarrow>
   healthy_recorder (drain store evs r) \<and> rr_ch (drain store evs r) = [] \<and> rr_batch (drain store evs r) = [] \<and> rr_done (drain store evs r)"
proof (induction evs arbitrary: r)
  case Nil
  then have r: "r\<lparr>rr_ch := []\<rparr> = r" by simp
  have "conserved r" using Nil by (simp add: healthy_recorder_def)
  then show ?case using flush_healthy [OF Nil(1)] flush_conserved [of r] Nil(2) by (simp add: r)
next
  case (Cons ev rest)
  then show ?case using take_one_from_channel [OF Cons(2,3)] by simp
qed

lemma step_healthy:
  assumes "healthy_recorder r"
  shows "healthy_recorder (runLoop store step r)"
proof (cases step)
  case (Put ev)
  then show ?thesis using assms
    by (auto simp: Enqueue_def healthy_recorder_def conserved_def bounded_def)
next
  case Receive
  then show ?thesis
    using assms take_one_from_channel [OF assms] flush_healthy [OF assms]
    by (cases "rr_ch r") (auto simp: receive_def)
next
  case Tick
  then show ?thesis using assms flush_healthy by simp
next
  case CtxDone
  then show ?thesis using assms drain_healthy [OF assms refl] by simp
next
  case Close
  then show ?thesis using assms by (simp add: close_channel_def healthy_recorder_def conserved_def bounded_def)
qed

lemma run_healthy: "healthy_recorder r \<Longrightarrow> healthy_recorder (fold (runLoop store) steps r)"
  by (induction steps arbitrary: r) (simp_all add: step_healthy)

lemma starts_healthy: "healthy_recorder NewRecorder"
  by (simp add: NewRecorder_def healthy_recorder_def conserved_def bounded_def defaultBatchSize_def)

text \<open>A turn of a consumer whose channel is closed: it accepts nothing, and it ends once the channel is
  empty, with an empty batch.\<close>

lemma take_one_flags:
  "rr_closed (take_one store ev r) = rr_closed r" "rr_done (take_one store ev r) = rr_done r"
  "rr_accepted (take_one store ev r) = rr_accepted r"
  by (auto simp: take_one_def Let_def flush_batch_def split: prod.splits)

lemma flush_flags:
  "rr_closed (flush_batch store r) = rr_closed r" "rr_done (flush_batch store r) = rr_done r"
  "rr_accepted (flush_batch store r) = rr_accepted r"
  by (simp_all add: flush_batch_def split: prod.splits)

lemma drain_accepted: "rr_accepted (drain store evs r) = rr_accepted r"
  by (induction evs arbitrary: r) (simp_all add: flush_flags take_one_flags)

lemma closed_turn:
  assumes "healthy_recorder r" "rr_closed r" "\<not> rr_done r" "consumer_turn step"
  defines "t \<equiv> runLoop store step r"
  shows "healthy_recorder t" "rr_accepted t = rr_accepted r" "empty_when_done t"
    "\<not> rr_done t \<Longrightarrow> rr_closed t"
    "\<not> rr_done t \<Longrightarrow> length (rr_ch t) + (if step = Receive then 1 else 0) \<le> length (rr_ch r)"
proof -
  have h: "healthy_recorder t" unfolding t_def by (rule step_healthy [OF assms(1)])
  have c: "conserved r" using assms(1) by (simp add: healthy_recorder_def)
  have "rr_accepted t = rr_accepted r \<and> empty_when_done t \<and> (\<not> rr_done t \<longrightarrow> rr_closed t \<and>
    length (rr_ch t) + (if step = Receive then 1 else 0) \<le> length (rr_ch r))"
  proof (cases step)
    case Receive
    then show ?thesis
      using assms(2,3) flush_conserved [OF c] take_one_from_channel [OF assms(1)]
      by (cases "rr_ch r") (auto simp: t_def receive_def take_one_flags flush_flags empty_when_done_def)
  next
    case Tick
    then show ?thesis
      using assms(2,3) flush_conserved [OF c] by (simp add: t_def flush_flags empty_when_done_def)
  next
    case CtxDone
    then show ?thesis
      using assms(3) drain_healthy [OF assms(1) refl] by (simp add: t_def drain_accepted empty_when_done_def)
  qed (use assms(4) in simp_all)
  with h show "healthy_recorder t" "rr_accepted t = rr_accepted r" "empty_when_done t"
    "\<not> rr_done t \<Longrightarrow> rr_closed t"
    "\<not> rr_done t \<Longrightarrow> length (rr_ch t) + (if step = Receive then 1 else 0) \<le> length (rr_ch r)"
    by blast+
qed

end

text \<open>What the consumer leaves when it is given so many turns, each with a writer of its own.\<close>

definition writers_ok :: "(int \<times> 'a recorder_step \<times> 'a writer) list \<Rightarrow> bool" where
  "writers_ok ts \<longleftrightarrow> (\<forall>(time, step, w) \<in> set ts. 0 \<le> time \<and> batch_writer w)"

definition reads :: "(int \<times> 'a recorder_step \<times> 'a writer) list \<Rightarrow> nat" where
  "reads ts = length (filter (\<lambda>(time, step, w). step = Receive) ts)"

definition time_of :: "(int \<times> 'a recorder_step \<times> 'a writer) list \<Rightarrow> int" where
  "time_of ts = sum_list (map fst ts)"

lemma turns_simps [simp]:
  "writers_ok ((time, step, w) # ts) \<longleftrightarrow> 0 \<le> time \<and> batch_writer w \<and> writers_ok ts" "writers_ok []"
  "reads ((time, step, w) # ts) = (if step = Receive then 1 else 0) + reads ts" "reads [] = 0"
  "time_of ((time, step, w) # ts) = time + time_of ts" "time_of [] = 0"
  by (simp_all add: writers_ok_def reads_def time_of_def)

lemma time_of_nonneg: "writers_ok ts \<Longrightarrow> 0 \<le> time_of ts"
  by (induction ts) auto

lemma consume_done: "rr_done r \<Longrightarrow> consume_for left ts r = r"
  by (cases ts) auto

lemma consume_for_keeps:
  "writers_ok ts \<Longrightarrow> healthy_recorder r \<Longrightarrow> rr_closed r \<Longrightarrow> empty_when_done r \<Longrightarrow>
     healthy_recorder (consume_for left ts r) \<and> rr_accepted (consume_for left ts r) = rr_accepted r \<and>
     empty_when_done (consume_for left ts r)"
proof (induction ts arbitrary: left r)
  case (Cons turn rest)
  obtain time step w where turn: "turn = (time, step, w)" by (cases turn)
  have w: "batch_writer w" "writers_ok rest" using Cons.prems(1) turn by simp_all
  show ?case
  proof (cases "rr_done r \<or> left < time \<or> \<not> consumer_turn step")
    case True
    then show ?thesis using Cons.IH [OF w(2) Cons.prems(2-4)] Cons.prems(2-4) turn by auto
  next
    case False
    then have f: "\<not> rr_done r" "\<not> left < time" "consumer_turn step" by auto
    let ?t = "runLoop w step r"
    note t = batch_writer.closed_turn [OF w(1) Cons.prems(2,3) f(1,3)]
    have run: "consume_for left (turn # rest) r = consume_for (left - time) rest ?t" using f turn by simp
    show ?thesis
    proof (cases "rr_done ?t")
      case True
      then show ?thesis unfolding run consume_done [OF True] using t(1-3) by simp
    next
      case False
      show ?thesis unfolding run using Cons.IH [OF w(2) t(1) t(4) [OF False] t(3)] t(2) by simp
    qed
  qed
qed simp

lemma consume_for_ends:
  "writers_ok ts \<Longrightarrow> healthy_recorder r \<Longrightarrow> rr_closed r \<Longrightarrow> length (rr_ch r) < reads ts \<Longrightarrow> time_of ts \<le> left \<Longrightarrow>
     rr_done (consume_for left ts r)"
proof (induction ts arbitrary: left r)
  case (Cons turn rest)
  obtain time step w where turn: "turn = (time, step, w)" by (cases turn)
  have w: "batch_writer w" "writers_ok rest" using Cons.prems(1) turn by simp_all
  have in_time: "\<not> left < time" "time_of rest \<le> left - time"
    using Cons.prems(5) turn time_of_nonneg [OF w(2)] by simp_all
  show ?case
  proof (cases "rr_done r")
    case True
    then show ?thesis by (simp add: consume_done)
  next
    case False
    show ?thesis
    proof (cases "consumer_turn step")
      case other: False
      then have "step \<noteq> Receive" by auto
      then show ?thesis using Cons.IH [OF w(2) Cons.prems(2,3) _ in_time(2)] Cons.prems(4) turn other False in_time(1) by simp
    next
      case True
      let ?t = "runLoop w step r"
      note t = batch_writer.closed_turn [OF w(1) Cons.prems(2,3) False True]
      have run: "consume_for left (turn # rest) r = consume_for (left - time) rest ?t" using False True turn in_time by simp
      show ?thesis
      proof (cases "rr_done ?t")
        case True
        then show ?thesis unfolding run consume_done [OF True] .
      next
        case go: False
        have "length (rr_ch ?t) < reads rest"
          using t(5) [OF go] Cons.prems(4) turn by (auto split: if_splits)
        then show ?thesis unfolding run by (rule Cons.IH [OF w(2) t(1) t(4) [OF go] _ in_time(2)])
      qed
    qed
  qed
qed simp

text \<open>The two writers of the program.\<close>

interpretation audit_writer: batch_writer "writeBatch_audit batchFails itemFails" for batchFails itemFails
  by unfold_locales (auto simp: writeBatch_audit_def add.commute split: if_splits)

interpretation event_writer: batch_writer "writeBatch_event batchFails" for batchFails
  by unfold_locales (auto simp: writeBatch_event_def split: if_splits)

section \<open>Runs\<close>

text \<open>The audit log: each step comes with the faults of the database at that moment.\<close>

fun audit_run :: "(bool \<times> ('a \<Rightarrow> bool) \<times> 'a recorder_step) list \<Rightarrow> 'a recorder \<Rightarrow> 'a recorder" where
  "audit_run [] r = r"
| "audit_run ((batchFails, itemFails, step) # steps) r =
     audit_run steps (runLoop (writeBatch_audit batchFails itemFails) step r)"

fun event_run :: "(bool \<times> 'a recorder_step) list \<Rightarrow> 'a recorder \<Rightarrow> 'a recorder" where
  "event_run [] r = r"
| "event_run ((batchFails, step) # steps) r = event_run steps (runLoop (writeBatch_event batchFails) step r)"

lemma new_healthy: "healthy_recorder NewRecorder"
  by (simp add: NewRecorder_def healthy_recorder_def conserved_def bounded_def defaultBatchSize_def)

lemma audit_run_healthy: "healthy_recorder r \<Longrightarrow> healthy_recorder (audit_run steps r)"
  by (induction steps r rule: audit_run.induct) (simp_all add: audit_writer.step_healthy)

lemma event_run_healthy: "healthy_recorder r \<Longrightarrow> healthy_recorder (event_run steps r)"
  by (induction steps r rule: event_run.induct) (simp_all add: event_writer.step_healthy)

text \<open>C37: Every accepted entry is written, lost by a failing write, in the batch or in the channel.\<close>

theorem recorder_entries_conserved:
  "let r = audit_run steps NewRecorder; e = event_run events NewRecorder
   in mset (rr_accepted r) = mset (rr_rows r) + mset (rr_lost r) + mset (rr_batch r) + mset (rr_ch r) \<and>
      length (rr_ch r) \<le> 1024 \<and> length (rr_batch r) < 50 \<and>
      mset (rr_accepted e) = mset (rr_rows e) + mset (rr_lost e) + mset (rr_batch e) + mset (rr_ch e) \<and>
      length (rr_ch e) \<le> 1024 \<and> length (rr_batch e) < 50"
  using audit_run_healthy [OF new_healthy, of steps] event_run_healthy [OF new_healthy, of events]
  by (simp add: healthy_recorder_def conserved_def bounded_def defaultBufferSize_def defaultBatchSize_def)

text \<open>A turn of the audit consumer with the faults of the database it meets.\<close>

type_synonym 'a audit_turn = "int \<times> 'a recorder_step \<times> bool \<times> ('a \<Rightarrow> bool)"

definition audit_turns :: "'a audit_turn list \<Rightarrow> (int \<times> 'a recorder_step \<times> 'a writer) list" where
  "audit_turns = map (\<lambda>(time, step, batchFails, itemFails). (time, step, writeBatch_audit batchFails itemFails))"

lemma audit_turns_ok: "\<forall>(time, x) \<in> set ts. 0 \<le> time \<Longrightarrow> writers_ok (audit_turns ts)"
  by (fastforce simp: audit_turns_def writers_ok_def intro: audit_writer.batch_writer_axioms)

text \<open>C38: A shutdown of a recorder whose consumer runs (its first; each turn of the consumer meets its
  own faults of the database): nothing that was accepted is dropped silently, it is written, lost by a
  failing write, or still in the batch or the channel. When the shutdown finds the consumer ended in time, channel
  and batch are empty: everything accepted is written or lost by a failing write. It does find it ended,
  if among the consumer's turns within the ten seconds are one read for each waiting entry and one more. Without
  them it gives up with a warning.\<close>

theorem shutdown_empties_the_queue:
  assumes "\<not> rr_done (audit_run steps NewRecorder)" "\<not> rr_closed (audit_run steps NewRecorder)"
    and "\<forall>(time, x) \<in> set ts. 0 \<le> time"
    and "Shutdown (audit_turns ts) (audit_run steps NewRecorder) = (res, t)"
  shows "mset (rr_accepted (audit_run steps NewRecorder)) = mset (rr_rows t) + mset (rr_lost t) + mset (rr_batch t) + mset (rr_ch t) \<and>
    (res = ConsumerDone \<longrightarrow> rr_ch t = [] \<and> rr_batch t = []) \<and>
    (length (rr_ch (audit_run steps NewRecorder)) < length (filter (\<lambda>(time, step, x). step = Receive) ts) \<and>
       sum_list (map fst ts) \<le> 10 * 10 ^ 9 \<longrightarrow> res = ConsumerDone)"
proof -
  let ?r = "audit_run steps NewRecorder" and ?ts = "audit_turns ts"
  let ?c = "close_channel ?r"
  have h: "healthy_recorder ?c" "rr_closed ?c" "empty_when_done ?c" "rr_ch ?c = rr_ch ?r" "rr_accepted ?c = rr_accepted ?r"
    using audit_run_healthy [OF new_healthy, of steps] assms(1)
    by (simp_all add: close_channel_def healthy_recorder_def conserved_def bounded_def empty_when_done_def)
  note ok = audit_turns_ok [OF assms(3)]
  have t: "t = consume_for shutdownWait ?ts ?c" "res = (if rr_done t then ConsumerDone else ShutdownTimeout)"
    using assms(2,4) by (auto simp: Shutdown_def Let_def)
  have k: "healthy_recorder t" "rr_accepted t = rr_accepted ?r" "empty_when_done t"
    using consume_for_keeps [OF ok h(1-3), of shutdownWait] h(5) t(1) by auto
  have "reads ?ts = length (filter (\<lambda>(time, step, x). step = Receive) ts)" "time_of ?ts = sum_list (map fst ts)"
    by (induction ts) (auto simp: audit_turns_def reads_def time_of_def)
  then have "length (rr_ch ?r) < length (filter (\<lambda>(time, step, x). step = Receive) ts) \<and> sum_list (map fst ts) \<le> 10 * 10 ^ 9
      \<longrightarrow> rr_done t"
    using consume_for_ends [OF ok h(1,2), of shutdownWait] h(4) t(1) by (simp add: shutdownWait_def)
  then show ?thesis
    using k t(2) by (auto simp: healthy_recorder_def conserved_def empty_when_done_def)
qed

theorem shutdown_empties_the_queue_witness:
  "\<exists>t. Shutdown (audit_turns [(1, Receive, True, \<lambda>n. n = 2), (5 * 10 ^ 9, Tick, True, \<lambda>n. n = 2), (1, Receive, False, \<lambda>_. False)])
      (audit_run [(False, \<lambda>_. False, Put (1 :: nat)), (False, \<lambda>_. False, Receive), (False, \<lambda>_. False, Put 2)] NewRecorder) =
    (ConsumerDone, t) \<and> mset (rr_rows t) + mset (rr_lost t) = {#1, 2#}"
proof -
  let ?ts = "[(1, Receive, True, \<lambda>n. n = 2), (5 * 10 ^ 9, Tick, True, \<lambda>n. n = 2), (1, Receive, False, \<lambda>_. False)]"
  let ?steps = "[(False, \<lambda>_. False, Put (1 :: nat)), (False, \<lambda>_. False, Receive), (False, \<lambda>_. False, Put 2)]"
  have r: "audit_run ?steps NewRecorder = \<lparr>rr_ch = [2], rr_batch = [1], rr_rows = [], rr_lost = [], rr_accepted = [1, 2],
      rr_dropped = [], rr_closed = False, rr_done = False\<rparr>"
    by (simp add: NewRecorder_def Enqueue_def receive_def take_one_def Let_def defaultBufferSize_def defaultBatchSize_def)
  obtain res t where s: "Shutdown (audit_turns ?ts) (audit_run ?steps NewRecorder) = (res, t)" by fastforce
  from shutdown_empties_the_queue [OF _ _ _ s] have "mset (rr_accepted (audit_run ?steps NewRecorder)) =
      mset (rr_rows t) + mset (rr_lost t) + mset (rr_batch t) + mset (rr_ch t)" "res = ConsumerDone"
      "rr_ch t = []" "rr_batch t = []"
    unfolding r by auto
  then show ?thesis using s unfolding r by auto
qed

section \<open>Cleaning up\<close>

lemma delete_first_keeps: "filter (\<lambda>x. \<not> P x) (delete_first n P xs) = filter (\<lambda>x. \<not> P x) xs"
  by (induction n P xs rule: delete_first.induct) auto

lemma delete_first_all:
  "length (filter P xs) < n \<Longrightarrow> delete_first n P xs = filter (\<lambda>x. \<not> P x) xs"
  by (induction n P xs rule: delete_first.induct) (auto split: if_splits)

lemma delete_first_count: "length xs - length (delete_first n P xs) = min n (length (filter P xs))"
  using delete_first_length [of n P xs] by simp

lemma delete_first_rest: "length (filter P (delete_first n P xs)) = length (filter P xs) - n"
  by (induction n P xs rule: delete_first.induct) auto

lemma DeleteOld_faultless:
  "ctxDone = (\<lambda>_. False) \<Longrightarrow> fails = (\<lambda>_. False) \<Longrightarrow>
   DeleteOld ctxDone fails created cutoff round deleted rows =
     (Deleted, deleted + length (filter (\<lambda>x. created x < cutoff) rows), filter (\<lambda>x. \<not> created x < cutoff) rows)"
proof (induction ctxDone fails created cutoff round deleted rows rule: DeleteOld.induct)
  case (1 ctxDone fails created cutoff round deleted rows)
  let ?P = "\<lambda>x. created x < cutoff"
  show ?case
  proof (cases "length (filter ?P rows) < cleanupBatchSize")
    case True
    then show ?thesis
      using 1(2,3) delete_first_all [of ?P rows cleanupBatchSize] delete_first_count [of rows cleanupBatchSize ?P]
      by (subst DeleteOld.simps) (simp add: Let_def)
  next
    case False
    then have more: "\<not> length rows - length (delete_first cleanupBatchSize ?P rows) < cleanupBatchSize"
      by (simp add: delete_first_count)
    show ?thesis
      using 1(1) [OF _ _ refl refl more 1(2,3)] 1(2,3) False more
        delete_first_keeps [of ?P cleanupBatchSize rows] delete_first_rest [of ?P cleanupBatchSize rows]
      by (subst DeleteOld.simps) (simp add: Let_def delete_first_count)
  qed
qed

text \<open>Whatever fails: no newer row goes, the count is right, and it answers that it is done only when no old row is left.\<close>

lemma delete_first_subset: "set (delete_first n P xs) \<subseteq> set xs"
  by (induction n P xs rule: delete_first.induct) auto

lemma DeleteOld_spec:
  "DeleteOld ctxDone fails created cutoff round deleted rows = (res, n, rest) \<Longrightarrow>
     filter (\<lambda>x. \<not> created x < cutoff) rest = filter (\<lambda>x. \<not> created x < cutoff) rows \<and> set rest \<subseteq> set rows \<and>
     n + length rest = deleted + length rows \<and>
     (res = Deleted \<longrightarrow> rest = filter (\<lambda>x. \<not> created x < cutoff) rows) \<and>
     ((\<forall>i. \<not> ctxDone i) \<and> (\<forall>i. \<not> fails i) \<longrightarrow> res = Deleted)"
proof (induction ctxDone fails created cutoff round deleted rows rule: DeleteOld.induct)
  case (1 ctxDone fails created cutoff round deleted rows)
  let ?P = "\<lambda>x. created x < cutoff"
  let ?rest = "delete_first cleanupBatchSize ?P rows"
  have kept: "filter (\<lambda>x. \<not> created x < cutoff) ?rest = filter (\<lambda>x. \<not> created x < cutoff) rows" by (rule delete_first_keeps)
  have sub: "set ?rest \<subseteq> set rows" "length ?rest \<le> length rows"
    using delete_first_subset delete_first_length [of cleanupBatchSize ?P rows] by (fastforce, linarith)
  consider (stopped) "ctxDone round \<or> fails round"
    | (last_round) "\<not> ctxDone round" "\<not> fails round" "length rows - length ?rest < cleanupBatchSize"
    | (more) "\<not> ctxDone round" "\<not> fails round" "\<not> length rows - length ?rest < cleanupBatchSize"
    by blast
  then show ?case
  proof cases
    case stopped
    then show ?thesis using 1(2) by (subst (asm) DeleteOld.simps) (auto split: if_splits)
  next
    case last_round
    then have r: "res = Deleted" "n = deleted + (length rows - length ?rest)" "rest = ?rest"
      using 1(2) by (subst (asm) DeleteOld.simps, simp add: Let_def)+
    have "length (filter ?P rows) < cleanupBatchSize" using last_round(3) by (simp add: delete_first_count)
    then have rest: "?rest = filter (\<lambda>x. \<not> ?P x) rows" by (rule delete_first_all)
    have "n + length rest = deleted + length rows" using sub(2) unfolding r(2,3) by simp
    then show ?thesis using r(1,3) unfolding rest by auto
  next
    case more
    have "DeleteOld ctxDone fails created cutoff (Suc round) (deleted + (length rows - length ?rest)) ?rest = (res, n, rest)"
      using 1(2) more by (subst (asm) DeleteOld.simps) (simp add: Let_def)
    from 1(1) [OF more(1,2) refl refl more(3) this] show ?thesis using kept sub by auto
  qed
qed

lemma minus_days_exact:
  assumes "0 \<le> d" "d \<le> 106751"
  shows "minus_days d = - (d * 86400 * 10 ^ 9)"
proof -
  have "neg64 d = - d" using assms by (simp add: neg64_def in64_def)
  moreover have "mul64 (- d) 24 = - d * 24" using assms by (simp add: mul64_def in64_def)
  moreover have "mul64 (- d * 24) hour = - d * 24 * hour" using assms by (simp add: mul64_def in64_def hour_def)
  ultimately show ?thesis by (simp add: minus_days_def hour_def)
qed

text \<open>C39: For an age of at most 106751 days (the given one, or the default where none is given), the
  cleanup in batches of 1000 ends; whichever statements fail and whenever its context ends, it deletes no row
  that is not older, and counts what it deletes. When it answers that it is done, all older rows are gone;
  and it does so if no statement fails and the context does not end.\<close>

theorem cleanup_deletes_exactly_the_old:
  assumes "d = (if days \<le> 0 then defaultDays else days)" "0 \<le> d" "d \<le> 106751"
    and "DeleteOlderThan defaultDays ctxDone fails created now days rows = (res, n, rest)"
  shows "let old = (\<lambda>x. created x < now - d * 86400 * 10 ^ 9)
    in filter (\<lambda>x. \<not> old x) rest = filter (\<lambda>x. \<not> old x) rows \<and> set rest \<subseteq> set rows \<and> n + length rest = length rows \<and>
       (res = Deleted \<longrightarrow> rest = filter (\<lambda>x. \<not> old x) rows) \<and>
       ((\<forall>i. \<not> ctxDone i) \<and> (\<forall>i. \<not> fails i) \<longrightarrow> res = Deleted)"
proof -
  have "DeleteOld ctxDone fails created (now - d * 86400 * 10 ^ 9) 0 0 rows = (res, n, rest)"
    using assms(4) minus_days_exact [OF assms(2,3)] by (simp add: DeleteOlderThan_def assms(1) Let_def)
  from DeleteOld_spec [OF this] show ?thesis by (simp add: Let_def)
qed

theorem cleanup_deletes_exactly_the_old_witness:
  "\<exists>n. DeleteOlderThan 30 (\<lambda>_. False) (\<lambda>_. False) (\<lambda>x. x) (86400 * 10 ^ 9) 1 [5, - 7, 0] = (Deleted, n, [5, 0]) \<and> n = 1"
proof -
  obtain res n rest where d: "DeleteOlderThan 30 (\<lambda>_. False) (\<lambda>_. False) (\<lambda>x. x) (86400 * 10 ^ 9) 1 [5, - 7, 0] = (res, n, rest)"
    by (metis prod_cases3)
  from cleanup_deletes_exactly_the_old [OF _ _ _ this, of 1] have "res = Deleted" "rest = [5, 0]" "n + length rest = 3"
    by (auto simp: Let_def)
  then show ?thesis using d by simp
qed

text \<open>An age of 106752 days wraps around to a moment 292 years ahead: a row just written is deleted.\<close>

theorem long_retention_deletes_everything:
  "DeleteOlderThan 30 (\<lambda>_. False) (\<lambda>_. False) (\<lambda>x. x) 0 106752 [0, 10 ^ 18] = (Deleted, 2, [])"
proof -
  have "minus_days 106752 = 9223371273709551616" by code_simp
  then show ?thesis
    by (simp add: DeleteOlderThan_def DeleteOld_faultless)
qed

text \<open>A batch of the limit or login log that cannot be written is lost as a whole, an audit batch row by row.\<close>

lemma failed_batches:
  "writeBatch_event True batch = ([], batch) \<and> writeBatch_audit True (\<lambda>_. False) batch = (batch, [])"
  by (simp add: writeBatch_event_def writeBatch_audit_def)


end
