(* ===== verification/Audit_Laws.thy ===== *)
theory Audit_Laws
  imports Audit_Log Async_Log_Laws
begin

text \<open>
  What the audit log guarantees and what it does not: no secret of a JSON body is logged and nothing
  else of it is changed; bodies that are not JSON are logged as they came.
\<close>

section \<open>Masking\<close>

text \<open>Everything under a sensitive key reads \<open>***\<close>, at every depth.\<close>

inductive masked :: "json \<Rightarrow> bool" where
  null: "masked JNull"
| bool: "masked (JBool b)"
| int: "masked (JInt n)"
| num: "masked (JNum x)"
| str: "masked (JStr s)"
| arr: "(\<And>x. x \<in> set xs \<Longrightarrow> masked x) \<Longrightarrow> masked (JArr xs)"
| obj: "(\<And>k v. (k, v) \<in> set kvs \<Longrightarrow> masked v \<and> (isSensitiveKey k \<longrightarrow> v = JStr ''***'')) \<Longrightarrow> masked (JObj kvs)"

text \<open>The rest of the value is kept: same shape, same keys, same values.\<close>

inductive same_but_secrets :: "json \<Rightarrow> json \<Rightarrow> bool" where
  same: "same_but_secrets v v"
| arr: "list_all2 same_but_secrets xs ys \<Longrightarrow> same_but_secrets (JArr xs) (JArr ys)"
| obj: "list_all2 (\<lambda>a b. fst a = fst b \<and> (isSensitiveKey (fst a) \<or> same_but_secrets (snd a) (snd b))) kvs kws \<Longrightarrow>
     same_but_secrets (JObj kvs) (JObj kws)"
monos list.rel_mono

lemma redact_masked: "masked (redactSensitive v)"
proof (induction v)
  case (JArr xs)
  then show ?case by (auto intro!: masked.arr)
next
  case (JObj kvs)
  then show ?case by (auto intro!: masked.obj masked.str split: if_splits)
qed (auto intro: masked.intros)

lemma redact_same: "same_but_secrets v (redactSensitive v)"
proof (induction v)
  case (JArr xs)
  then show ?case by (auto intro!: same_but_secrets.arr list_all2_all_nthI)
next
  case (JObj kvs)
  have kept: "same_but_secrets (snd a) (redactSensitive (snd a))" if "a \<in> set kvs" for a
    using JObj [OF that, of "snd a"] by (simp add: snds.simps)
  show ?case unfolding redactSensitive.simps map_map
    by (rule same_but_secrets.obj, rule list_all2_all_nthI)
       (use kept [OF nth_mem] in \<open>simp_all add: case_prod_beta\<close>)
qed (auto intro: same_but_secrets.same)

lemma redact_idempotent: "redactSensitive (redactSensitive v) = redactSensitive v"
proof (induction v)
  case (JObj kvs)
  have "redactSensitive (redactSensitive w) = redactSensitive w" if "(k, w) \<in> set kvs" for k w
    using JObj [OF that, of w] by (simp add: snds.simps)
  then show ?case by auto
qed auto

text \<open>C40: The body of a logged request: masked everywhere under a sensitive key, otherwise as it was.\<close>

theorem no_secret_is_logged:
  assumes "unmarshal b = Some raw" "b \<noteq> ''''"
  shows "\<exists>shown. sanitizeBody unmarshal marshal b = cut_to_size (marshal shown) \<and> masked shown \<and>
    same_but_secrets raw shown \<and> length (sanitizeBody unmarshal marshal b) \<le> 16384 + 14"
proof -
  have "length (cut_to_size s) \<le> 16384 + 14" for s by (simp add: cut_to_size_def maxBodyLogSize_def)
  then show ?thesis
    using assms redact_masked [of raw] redact_same [of raw]
    by (intro exI [of _ "redactSensitive raw"]) (simp add: sanitizeBody_def)
qed

definition login_body :: json where
  "login_body = JObj [(''email'', JStr ''a@b.c''), (''Password'', JStr ''hunter2'')]"

lemma no_secret_is_logged_witness:
  "\<exists>shown. sanitizeBody (\<lambda>_. Some login_body) (\<lambda>_. ''{}'') ''{...}'' = cut_to_size ''{}'' \<and> masked shown \<and>
    same_but_secrets login_body shown \<and> length (sanitizeBody (\<lambda>_. Some login_body) (\<lambda>_. ''{}'') ''{...}'') \<le> 16384 + 14"
  by (rule no_secret_is_logged) simp_all

lemma login_body_masked:
  "redactSensitive login_body = JObj [(''email'', JStr ''a@b.c''), (''Password'', JStr ''***'')]"
  by code_simp

text \<open>A form body is not JSON and goes into the log with its password.\<close>

lemma form_bodies_are_logged_in_clear:
  "sanitizeBody (\<lambda>_. None) marshal ''password=hunter2'' = ''password=hunter2''"
  by (simp add: sanitizeBody_def cut_to_size_def maxBodyLogSize_def)

section \<open>What is logged\<close>

text \<open>An entry is written exactly for a successful, unskipped write to a mapped or sensitive route.\<close>

lemma logged_exactly_when_relevant:
  "AuditLog_middleware unmarshal marshal handler c q \<noteq> q \<longrightarrow>
     isWriteMethod (aq_Method c) \<and> 200 \<le> aq_status (handler c) \<and> aq_status (handler c) < 300 \<and> \<not> aq_skip (handler c) \<and>
     LookupAuditMeta (aq_Method c) (aq_FullPath c) \<noteq> None"
  by (auto simp: AuditLog_middleware_def LookupAuditMeta_def Let_def split: option.splits if_splits)

end
