(* ===== verification/Spec2Isabelle.thy ===== *)
theory Spec2Isabelle
  imports Price_Laws Withdrawal_Laws Billing_Laws Rate_Limiter_Laws Completion_Laws Refund_Laws
    Role_Seed_Laws Audit_Laws
begin

text \<open>
  \<^bold>\<open>A verification library for the TokenHub server\<close>, a gateway that sells calls to language
  models of many suppliers: it prices a call, freezes its estimated cost on the balance of the user,
  sends it over one of several channels, retries, charges what was used, pays commissions to the
  inviters, takes payments in and pays refunds and withdrawals out, and lets administrators with roles
  run all of this. All paths below are under \<open>src/internal/\<close>.

  \<^bold>\<open>Base.\<close>
  \<^item> \<open>Go_Base\<close>: \<open>int64\<close> as integers with the wrap-around written out (\<open>i64\<close>, \<open>add64\<close>, \<open>sub64\<close>, \<open>mul64\<close>,
    shown equal to the 64-bit word), division towards zero, handlers as functions from a state to a
    result \<open>error + 'a\<close> and a state (\<open>andThen\<close>), and \<open>transaction\<close>, which restores the state after an error.
  \<^item> \<open>Float64\<close>: \<open>float64\<close> as dyadic rationals with rounding to nearest even after each operation, with the
    conversions to \<open>int64\<close>; the error bounds the price proofs need.
  \<^item> \<open>Go_Text\<close>, \<open>Json\<close>: what the code uses of \<open>strings\<close>, \<open>strconv\<close> and \<open>encoding/json\<close>.

  \<^bold>\<open>Prices.\<close>
  \<^item> \<open>Credits\<close>: \<open>pkg/credits/convert.go\<close>. \<open>Price_Tier\<close>: \<open>model/price_tier.go\<close>, \<open>price_tier_helpers.go\<close>.
    \<open>Price_Matrix\<close>: the price tables and \<open>service/pricing/price_matrix_service.go\<close>.
  \<^item> \<open>Discount\<close>: \<open>discount_resolver.go\<close>; its cache of users without discount is an instance of the locale
    \<open>ttl_cache\<close>, as are the platform prices of \<open>Tier_Select\<close> (\<open>tier_calculator.go\<close>) and the billable models
    of \<open>Billing\<close>.
  \<^item> \<open>Pricing\<close>, \<open>Pricing_Units\<close>: \<open>pricing_calculator.go\<close>, \<open>video_calculator.go\<close>. \<open>Quote\<close>, \<open>Billing\<close>:
    \<open>service/billing/billing_quote_service.go\<close> and \<open>billing_service.go\<close>.
  \<^item> \<open>Price_Laws\<close> and \<open>Billing_Laws\<close>: the choice of tiers and cells, the minimum charge, the caches that do
    not show, a preview that equals the charge, quotes that add up, settlements that charge all or nothing.

  \<^bold>\<open>Money of the user.\<close>
  \<^item> \<open>Ledger\<close>: the tables as one record; \<open>Referral\<close>: \<open>service/referral\<close>; \<open>Balance\<close>:
    \<open>service/balance/balance_service.go\<close>; \<open>Withdrawal\<close>: \<open>service/withdrawal\<close>.
  \<^item> \<open>Wallet\<close> states what an account is as a locale (pay, hold, add, and what each does to funds and held
    part), interprets it on the rows of the balance table, and draws from it the laws of single charges and
    freezes and of whole histories of the handlers;
    \<open>Referral_Laws\<close> and \<open>Withdrawal_Laws\<close> show the lifetime cap, the status machine of withdrawals,
    that a commission is credited once and that withdrawals keep the money, for handlers that run one
    after another, and by the step relation \<open>wd_step\<close> what goes wrong when two handlers interleave.
  \<^item> \<open>Payment\<close> and \<open>Refund\<close>: \<open>service/payment\<close>, orders, callbacks, account routing, refunds.
    \<open>Payment_Laws\<close> and \<open>Refund_Laws\<close>: an order is credited once and a refund booked once as long as
    callbacks and reviews come one after another, and runs in which they do not.

  \<^bold>\<open>The way of a request.\<close>
  \<^item> \<open>Rate_Limiter\<close>: \<open>middleware/rate_limiter.go\<close>; its laws show that the script refines an abstract
    sliding window. \<open>Breakers\<close>: \<open>service/channel/redis_breaker.go\<close> and \<open>pkg/guard/guard.go\<close>, both
    interpretations of the locale \<open>circuit_breaker\<close>.
  \<^item> \<open>Routing\<close>: \<open>service/channel/channel_router.go\<close> and the groups, results and error classes beside it.
    Its laws say what holds of a routed channel, the shares of the weighted choice, the fairness of the
    round robin, where the counts of calls in flight go, and that a channel that keeps failing is left alone.
  \<^item> \<open>Completion\<close>: a chat request of \<open>handler/v1/completions_handler.go\<close> from its freeze on, over the state
    of the router and of the billing service, and \<open>pkg/tokenestimator\<close>; its laws: the freeze is ended by one
    settlement or release and stands afterwards only where the ledger refused, retries go to other channels.

  \<^bold>\<open>Administration.\<close>
  \<^item> \<open>Route_Map\<close>: \<open>middleware/audit/route_map.go\<close> as data, every route with its action. \<open>Permission\<close>:
    \<open>service/permission\<close> with \<open>middleware/permission.go\<close>, \<open>datascope.go\<close>, \<open>admin_protection.go\<close>. \<open>Role_Seed\<close>:
    \<open>seed.go\<close>, which every start of the server runs.
  \<^item> \<open>Permission_Laws\<close>: the cache of resolved subjects never differs from the tables after clean runs,
    the gate follows the tables, the last SUPER_ADMIN stays, the merged scope against the
    union of the scopes. \<open>Role_Seed_Laws\<close>: whatever order Go lists the route map in, the auditor never gets
    an action that writes.
  \<^item> \<open>Async_Log\<close>: the recorders of \<open>service/audit\<close>, \<open>ratelimit\<close> and \<open>authlog\<close>, with their channel and batches, as one
    machine with the writer as a parameter; the locale \<open>batch_writer\<close> of \<open>Async_Log_Laws\<close> is interpreted
    on the two writers. \<open>Audit_Log\<close>: \<open>middleware/audit/audit.go\<close>; \<open>Audit_Laws\<close>: no secret of a JSON body is
    logged.

  \<^bold>\<open>How the code is rendered.\<close>
  \<^item> Each handler is a function of the tables; a record has the fields of the struct that the modelled code
    reads or writes, a table is the list of its live rows (rows soft-deleted are not there), an
    auto-increment key is one above the largest. Decimal columns keep the values put into them, and texts are
    compared exactly.
  \<^item> Every call of the database or Redis whose failure the code handles differently can fail: an environment
    argument says which do. Redis is a store of keys with expiry, a Lua script and a transaction are atomic,
    and the clock is read once per call. Signatures, hashes, HTTP calls and the random number generator are
    parameters. Loggers are present, their texts left out.
  \<^item> Handlers that read a row and later write it are atomic in the models of runs one after another; where
    the code takes no lock (reviews, withdrawals, callbacks, the last SUPER_ADMIN) the read and the write
    are also given as steps of their own.
  \<^item> Loops: recursion over the list the code walks; the retry loop of a chat request has the three attempts of
    the code as its bound, the loop of \<open>Retry\<close> the measure of the attempts left, the cleanup of logs a measure
    on the rows left (each full round deletes a thousand). The wait of a shutdown is bounded by its ten
    seconds, spent on a list of turns with their durations. No definition runs out of fuel.
  \<^item> Chinese texts stand as English or pinyin glosses, with no two texts merged.

  \<^bold>\<open>Where the code falls short\<close> is stated as lemmas too, among them: a payment credits columns
  that nobody reads (\<open>topup_lost_on_unit_accounts\<close>), a settlement by freeze charges nothing
  (\<open>settlement_charges_nothing\<close>), a charge that failed earns a commission
  (\<open>failed_charge_earns_commission\<close>), refunds reach no commission, a partly refunded order is credited again,
  two interleaved approvals refund twice, a role called ADMIN is root, form bodies are logged in clear, an age of
  logs that is too long deletes them all (\<open>long_retention_deletes_everything\<close>).

  \<^bold>\<open>Not modelled.\<close> The handlers under \<open>handler/\<close> other than the chat loop (they decode requests and call
  the services), the set-up of routes, the suppliers' HTTP clients under \<open>provider/\<close>, scrapers and model
  discovery (text of foreign pages), cron and task queues (timers), the payment gateways (signatures and HTTP),
  mail, SMS, documents, reports and statistics (queries without effect on the state above), the data of the
  seeds under \<open>database/\<close>, and file and configuration glue. \<open>SettleBalanceUnits\<close>, which
  \<open>billing_service.go\<close> calls and no file defines, is a parameter; what is proved of a settlement by freeze assumes
  the contract \<open>settles_freezes\<close>, which \<open>SettleBalance\<close> is shown to meet.
\<close>

end
